(* ===== verification/Prelude.thy ===== *)
theory Prelude
  imports Main "HOL-Library.Char_ord" "HOL-Library.List_Lexorder"
begin

text \<open>
  The vocabulary every component shares: the result of a Rust call that may fail or panic
  (the \<open>?\<close> operator is \<open>rbind\<close>), \<open>BTreeMap\<close> as a sorted association list behind the interface
  \<open>ordered_map\<close>, the string functions of the standard library the source calls, and the generic
  lemmas on lists that the components use. Text is its UTF-8 bytes, one \<open>char\<close> per byte, which
  is what \<open>str::len\<close> counts and what the lexer walks over.
\<close>

named_theorems rust_simps \<open>how the result combinators compute\<close>
named_theorems bt_simps \<open>lookup after insertion into and removal from an ordered map\<close>

section \<open>Results\<close>

text \<open>
  \<open>Err e\<close> is \<open>Result::Err\<close>; \<open>Panic\<close> is a Rust panic (an index out of range, \<open>unwrap\<close> of \<open>None\<close>),
  after which nothing the call was changing can be observed; \<open>Diverges\<close> is the value of a loop
  that does not end, so that a theorem about a loop that gives any other value shows that it ends.
\<close>

datatype 'e fail = Err 'e | Panic | Diverges

type_synonym ('e, 'a) rust = "'e fail + 'a"

definition rbind :: "('e, 'a) rust \<Rightarrow> ('a \<Rightarrow> ('e, 'b) rust) \<Rightarrow> ('e, 'b) rust" where
  "rbind m f = (case m of Inl x \<Rightarrow> Inl x | Inr a \<Rightarrow> f a)"

definition map_err :: "('e \<Rightarrow> 'f) \<Rightarrow> ('e, 'a) rust \<Rightarrow> ('f, 'a) rust" where
  "map_err g m = (case m of Inl (Err e) \<Rightarrow> Inl (Err (g e)) | Inl Panic \<Rightarrow> Inl Panic
     | Inl Diverges \<Rightarrow> Inl Diverges | Inr a \<Rightarrow> Inr a)"

definition ok_or :: "'a option \<Rightarrow> 'e \<Rightarrow> ('e, 'a) rust" where
  "ok_or x e = (case x of None \<Rightarrow> Inl (Err e) | Some a \<Rightarrow> Inr a)"

definition unwrap :: "'a option \<Rightarrow> ('e, 'a) rust" where
  "unwrap x = (case x of None \<Rightarrow> Inl Panic | Some a \<Rightarrow> Inr a)"

definition index :: "'a list \<Rightarrow> nat \<Rightarrow> ('e, 'a) rust" where
  "index xs i = (if i < length xs then Inr (xs ! i) else Inl Panic)"

fun map_rust :: "('a \<Rightarrow> ('e, 'b) rust) \<Rightarrow> 'a list \<Rightarrow> ('e, 'b list) rust" where
  "map_rust f [] = Inr []"
| "map_rust f (x # xs) = rbind (f x) (\<lambda>y. rbind (map_rust f xs) (\<lambda>ys. Inr (y # ys)))"

fun each :: "('a \<Rightarrow> ('e, unit) rust) \<Rightarrow> 'a list \<Rightarrow> ('e, unit) rust" where
  "each f [] = Inr ()"
| "each f (x # xs) = rbind (f x) (\<lambda>_. each f xs)"

definition is_ok :: "('e, 'a) rust \<Rightarrow> bool" where
  "is_ok m = (case m of Inr _ \<Rightarrow> True | Inl _ \<Rightarrow> False)"

lemma rbind_Inr [simp, rust_simps]: "rbind (Inr a) f = f a"
  and rbind_Inl [simp, rust_simps]: "rbind (Inl x) f = Inl x"
  by (simp_all add: rbind_def)

lemma map_err_simps [simp, rust_simps]:
  "map_err g (Inr a) = Inr a" "map_err g (Inl (Err e)) = Inl (Err (g e))"
  "map_err g (Inl Panic) = Inl Panic" "map_err g (Inl Diverges) = Inl Diverges"
  by (simp_all add: map_err_def)

lemma ok_or_simps [simp, rust_simps]: "ok_or (Some a) e = Inr a" "ok_or None e = Inl (Err e)"
  by (simp_all add: ok_or_def)

lemma unwrap_simps [simp, rust_simps]: "unwrap (Some a) = Inr a" "unwrap None = Inl Panic"
  by (simp_all add: unwrap_def)

lemma is_ok_simps [simp, rust_simps]: "is_ok (Inr a)" "\<not> is_ok (Inl x)"
  by (simp_all add: is_ok_def)

lemma rbind_eq_Inr: "rbind m f = Inr b \<longleftrightarrow> (\<exists>a. m = Inr a \<and> f a = Inr b)"
  by (cases m) simp_all

lemma rbind_eq_Inl: "rbind m f = Inl x \<longleftrightarrow> m = Inl x \<or> (\<exists>a. m = Inr a \<and> f a = Inl x)"
  by (cases m) auto

lemma rbind_assoc: "rbind (rbind m f) g = rbind m (\<lambda>x. rbind (f x) g)"
  by (cases m) simp_all

lemma map_err_eq_Inr: "map_err g m = Inr a \<longleftrightarrow> m = Inr a"
  by (auto simp: map_err_def split: sum.splits fail.splits)

lemma map_rust_pure: "(\<And>x. x \<in> set xs \<Longrightarrow> f x = Inr (g x)) \<Longrightarrow> map_rust f xs = Inr (map g xs)"
  by (induction xs) auto

lemma each_ok: "(\<And>x. x \<in> set xs \<Longrightarrow> f x = Inr ()) \<Longrightarrow> each f xs = Inr ()"
  by (induction xs) auto

lemma each_eq_Inr: "each f xs = Inr u \<longleftrightarrow> (\<forall>x \<in> set xs. f x = Inr ())"
  by (induction xs) (auto simp: rbind_eq_Inr)

section \<open>Ordered maps\<close>

text \<open>
  \<open>BTreeMap\<close> iterates in key order. A map is the list of its entries, keys strictly ascending.
\<close>

type_synonym ('k, 'v) btree = "('k \<times> 'v) list"

fun bt_insert :: "'k::linorder \<Rightarrow> 'v \<Rightarrow> ('k, 'v) btree \<Rightarrow> ('k, 'v) btree" where
  "bt_insert k v [] = [(k, v)]"
| "bt_insert k v ((a, b) # m) =
     (if k < a then (k, v) # (a, b) # m
      else if k = a then (k, v) # m
      else (a, b) # bt_insert k v m)"

fun bt_remove :: "'k::linorder \<Rightarrow> ('k, 'v) btree \<Rightarrow> ('k, 'v) btree" where
  "bt_remove k [] = []"
| "bt_remove k ((a, b) # m) = (if k = a then m else (a, b) # bt_remove k m)"

abbreviation bt_get :: "('k, 'v) btree \<Rightarrow> 'k \<Rightarrow> 'v option" where
  "bt_get m k \<equiv> map_of m k"

abbreviation bt_values :: "('k, 'v) btree \<Rightarrow> 'v list" where
  "bt_values m \<equiv> map snd m"

abbreviation bt_has :: "('k, 'v) btree \<Rightarrow> 'k \<Rightarrow> bool" where
  "bt_has m k \<equiv> map_of m k \<noteq> None"

definition bt_ok :: "('k::linorder, 'v) btree \<Rightarrow> bool" where
  "bt_ok m = sorted_wrt (<) (map fst m)"

text \<open>What the storage layer relies on of its ordered maps.\<close>

locale ordered_map =
  fixes empty :: 'm
    and ins :: "'k \<Rightarrow> 'v \<Rightarrow> 'm \<Rightarrow> 'm"
    and del :: "'k \<Rightarrow> 'm \<Rightarrow> 'm"
    and get :: "'m \<Rightarrow> 'k \<Rightarrow> 'v option"
    and ok :: "'m \<Rightarrow> bool"
  assumes ok_empty: "ok empty"
    and ok_ins: "ok m \<Longrightarrow> ok (ins k v m)"
    and ok_del: "ok m \<Longrightarrow> ok (del k m)"
    and get_empty: "get empty k = None"
    and get_ins: "ok m \<Longrightarrow> get (ins k v m) = (get m)(k \<mapsto> v)"
    and get_del: "ok m \<Longrightarrow> get (del k m) = (get m)(k := None)"
    and ext: "ok m \<Longrightarrow> ok n \<Longrightarrow> (\<And>k. get m k = get n k) \<Longrightarrow> m = n"
begin

lemma del_ins: "ok m \<Longrightarrow> get m k = None \<Longrightarrow> del k (ins k v m) = m"
  by (rule ext) (auto simp: ok_ins ok_del get_ins get_del)

lemma ins_del: "ok m \<Longrightarrow> get m k = Some v \<Longrightarrow> ins k v (del k m) = m"
  by (rule ext) (auto simp: ok_ins ok_del get_ins get_del)

lemma ins_ins: "ok m \<Longrightarrow> ins k v (ins k w m) = ins k v m"
  by (rule ext) (auto simp: ok_ins get_ins)

lemma ins_same: "ok m \<Longrightarrow> get m k = Some v \<Longrightarrow> ins k v m = m"
  by (rule ext) (auto simp: ok_ins get_ins)

lemma ins_commute: "ok m \<Longrightarrow> k \<noteq> l \<Longrightarrow> ins k v (ins l w m) = ins l w (ins k v m)"
  by (rule ext) (auto simp: ok_ins get_ins)

lemma del_absent: "ok m \<Longrightarrow> get m k = None \<Longrightarrow> del k m = m"
  by (rule ext) (auto simp: ok_del get_del)

end

lemma set_bt_insert: "fst ` set (bt_insert k v m) = insert k (fst ` set m)"
  by (induction k v m rule: bt_insert.induct) auto

lemma map_of_bt_insert [simp, bt_simps]: "map_of (bt_insert k v m) = (map_of m)(k \<mapsto> v)"
  by (induction k v m rule: bt_insert.induct) auto

lemma set_bt_remove: "set (bt_remove k m) \<subseteq> set m"
  by (induction k m rule: bt_remove.induct) auto

lemma bt_ok_Nil [simp]: "bt_ok []"
  by (simp add: bt_ok_def)

lemma bt_ok_Cons: "bt_ok ((a, b) # m) \<longleftrightarrow> (\<forall>k \<in> fst ` set m. a < k) \<and> bt_ok m"
  by (auto simp: bt_ok_def)

lemma bt_ok_insert [simp, intro]: "bt_ok m \<Longrightarrow> bt_ok (bt_insert k v m)"
proof (induction k v m rule: bt_insert.induct)
  case (1 k v)
  then show ?case by (simp add: bt_ok_def)
next
  case (2 k v a b m)
  then show ?case
    by (auto simp: bt_ok_Cons set_bt_insert simp flip: ball_simps(10) intro: less_trans)
qed

lemma bt_ok_remove [simp, intro]: "bt_ok m \<Longrightarrow> bt_ok (bt_remove k m)"
proof (induction k m rule: bt_remove.induct)
  case (1 k)
  then show ?case by simp
next
  case (2 k a b m)
  then show ?case using set_bt_remove [of k m] by (auto simp: bt_ok_Cons)
qed

lemma bt_ok_absent: "bt_ok ((a, b) # m) \<Longrightarrow> map_of m a = None"
  by (auto simp: bt_ok_Cons map_of_eq_None_iff)

lemma map_of_bt_remove [bt_simps]: "bt_ok m \<Longrightarrow> map_of (bt_remove k m) = (map_of m)(k := None)"
proof (induction k m rule: bt_remove.induct)
  case (1 k)
  then show ?case by simp
next
  case (2 k a b m)
  then show ?case using bt_ok_absent [of a b m] by (auto simp: bt_ok_Cons fun_eq_iff)
qed

lemma bt_ok_distinct: "bt_ok m \<Longrightarrow> distinct (map fst m)"
  unfolding bt_ok_def by (simp add: strict_sorted_iff)

lemma bt_get_iff: "bt_ok m \<Longrightarrow> map_of m k = Some v \<longleftrightarrow> (k, v) \<in> set m"
  by (simp add: bt_ok_distinct map_of_eq_Some_iff)

lemma bt_values_ran: "bt_ok m \<Longrightarrow> set (bt_values m) = ran (map_of m)"
  by (force simp: ran_def bt_get_iff)

lemma bt_by_keys: "bt_ok m \<Longrightarrow> m = map (\<lambda>k. (k, the (map_of m k))) (map fst m)"
  by (rule sym) (auto intro!: map_idI simp: bt_ok_distinct)

lemma bt_ext:
  assumes "bt_ok m" and "bt_ok n" and "\<And>k. map_of m k = map_of n k"
  shows "m = n"
proof -
  have "fst ` set m = fst ` set n"
    using assms(3) by (metis dom_map_of_conv_image_fst ext)
  then have "map fst m = map fst n"
    using assms(1,2) unfolding bt_ok_def by (intro strict_sorted_equal) auto
  then show ?thesis
    using bt_by_keys [OF assms(1)] bt_by_keys [OF assms(2)] assms(3) by simp
qed

interpretation bt: ordered_map "[]" bt_insert bt_remove map_of bt_ok
  by unfold_locales (auto simp: map_of_bt_remove intro: bt_ext)

section \<open>Text\<close>

abbreviation ch :: "nat \<Rightarrow> char" where
  "ch n \<equiv> char_of n"

definition code :: "char \<Rightarrow> nat" where
  "code c = of_char c"

definition is_ascii_digit :: "char \<Rightarrow> bool" where
  "is_ascii_digit c = (48 \<le> code c \<and> code c \<le> 57)"

definition is_ascii_upper :: "char \<Rightarrow> bool" where
  "is_ascii_upper c = (65 \<le> code c \<and> code c \<le> 90)"

definition is_ascii_lower :: "char \<Rightarrow> bool" where
  "is_ascii_lower c = (97 \<le> code c \<and> code c \<le> 122)"

definition is_ascii_alphabetic :: "char \<Rightarrow> bool" where
  "is_ascii_alphabetic c = (is_ascii_upper c \<or> is_ascii_lower c)"

definition is_ascii_alphanumeric :: "char \<Rightarrow> bool" where
  "is_ascii_alphanumeric c = (is_ascii_alphabetic c \<or> is_ascii_digit c)"

text \<open>\<open>u8::is_ascii_whitespace\<close> leaves out the vertical tab, \<open>char::is_whitespace\<close> does not.\<close>

definition is_ascii_whitespace :: "char \<Rightarrow> bool" where
  "is_ascii_whitespace c = (code c \<in> {9, 10, 12, 13, 32})"

definition is_whitespace :: "char \<Rightarrow> bool" where
  "is_whitespace c = (code c \<in> {9, 10, 11, 12, 13, 32})"

definition upcase :: "char \<Rightarrow> char" where
  "upcase c = (if is_ascii_lower c then char_of (code c - 32) else c)"

definition downcase :: "char \<Rightarrow> char" where
  "downcase c = (if is_ascii_upper c then char_of (code c + 32) else c)"

definition to_uppercase :: "string \<Rightarrow> string" where
  "to_uppercase s = map upcase s"

definition to_lowercase :: "string \<Rightarrow> string" where
  "to_lowercase s = map downcase s"

fun starts_with :: "string \<Rightarrow> string \<Rightarrow> bool" where
  "starts_with s [] = True"
| "starts_with [] (p # ps) = False"
| "starts_with (c # s) (p # ps) = (c = p \<and> starts_with s ps)"

definition trim_start :: "string \<Rightarrow> string" where
  "trim_start s = dropWhile is_whitespace s"

definition trim_end_matches :: "(char \<Rightarrow> bool) \<Rightarrow> string \<Rightarrow> string" where
  "trim_end_matches P s = rev (dropWhile P (rev s))"

definition trim :: "string \<Rightarrow> string" where
  "trim s = trim_end_matches is_whitespace (trim_start s)"

text \<open>\<open>str::find\<close> of a character: the text before it and the text after it.\<close>

fun split_at :: "char \<Rightarrow> string \<Rightarrow> (string \<times> string) option" where
  "split_at c [] = None"
| "split_at c (x # xs) =
     (if x = c then Some ([], xs)
      else case split_at c xs of None \<Rightarrow> None | Some (a, b) \<Rightarrow> Some (x # a, b))"

definition digit_char :: "nat \<Rightarrow> char" where
  "digit_char d = char_of (48 + d)"

fun nat_str :: "nat \<Rightarrow> string" where
  "nat_str n = (if n < 10 then [digit_char n] else nat_str (n div 10) @ [digit_char (n mod 10)])"

declare nat_str.simps [simp del]

definition int_str :: "int \<Rightarrow> string" where
  "int_str i = (if i < 0 then CHR ''-'' # nat_str (nat (- i)) else nat_str (nat i))"

text \<open>\<open>format!("{n:0w$}")\<close> of an unsigned number.\<close>

definition pad_zero :: "nat \<Rightarrow> string \<Rightarrow> string" where
  "pad_zero w s = replicate (w - length s) (CHR ''0'') @ s"

text \<open>The value of a run of decimal digits, as \<open>str::parse\<close> reads it.\<close>

definition digits_val :: "string \<Rightarrow> nat" where
  "digits_val s = foldl (\<lambda>a c. a * 10 + (code c - 48)) 0 s"

lemma code_char_of [simp]: "n < 256 \<Longrightarrow> code (char_of n) = n"
  by (simp add: code_def)

lemma code_inject: "code c = code d \<longleftrightarrow> c = d"
  by (simp add: code_def)

lemma code_digit_char [simp]: "d < 10 \<Longrightarrow> code (digit_char d) = 48 + d"
  by (simp add: digit_char_def)

lemma is_digit_digit_char [simp]: "d < 10 \<Longrightarrow> is_ascii_digit (digit_char d)"
  by (simp add: is_ascii_digit_def)

lemma not_digit_lits [simp]:
  "\<not> is_ascii_digit (CHR 0x01)" "\<not> is_ascii_digit (CHR ''-'')" "\<not> is_ascii_digit (CHR ''.'')"
  "is_ascii_digit (CHR ''0'')"
  by (simp_all add: is_ascii_digit_def code_def)

lemma nat_str_nonempty [simp]: "nat_str n \<noteq> []"
  by (subst nat_str.simps) simp

lemma nat_str_digits: "\<forall>c \<in> set (nat_str n). is_ascii_digit c"
proof (induction n rule: nat_str.induct)
  case (1 n)
  then show ?case by (cases "n < 10") (auto simp: nat_str.simps [of n])
qed

lemma digits_val_snoc: "digits_val (s @ [c]) = digits_val s * 10 + (code c - 48)"
  by (simp add: digits_val_def)

lemma digits_val_nat_str [simp]: "digits_val (nat_str n) = n"
proof (induction n rule: nat_str.induct)
  case (1 n)
  show ?case
  proof (cases "n < 10")
    case True
    then show ?thesis by (simp add: nat_str.simps [of n] digits_val_def)
  next
    case False
    then show ?thesis using 1 by (simp add: nat_str.simps [of n] digits_val_snoc)
  qed
qed

lemma nat_str_inj: "nat_str m = nat_str n \<longleftrightarrow> m = n"
  by (metis digits_val_nat_str)

lemma starts_with_iff: "starts_with s p \<longleftrightarrow> (\<exists>r. s = p @ r)"
  by (induction s p rule: starts_with.induct) auto

lemma starts_with_append [simp]: "starts_with (p @ r) p"
  by (auto simp: starts_with_iff)

lemma split_at_Some: "split_at c s = Some (a, b) \<Longrightarrow> s = a @ c # b \<and> c \<notin> set a"
  by (induction s arbitrary: a) (auto split: if_splits option.splits)

lemma split_at_None: "split_at c s = None \<longleftrightarrow> c \<notin> set s"
  by (induction s) (auto split: option.splits)

lemma split_at_append: "c \<notin> set a \<Longrightarrow> split_at c (a @ c # b) = Some (a, b)"
  by (induction a) auto

end
