(* ===== verification/Ora_Error.thy ===== *)
theory Ora_Error
  imports Prelude
begin

text \<open>
  \<open>crates/mock-oracle-core/src/error.rs\<close>: an Oracle error is its number and its message, shown as
  \<open>ORA-00942: table or view does not exist\<close>.
\<close>

record ora_error =
  err_code :: nat
  err_message :: string

definition ora :: "nat \<Rightarrow> string \<Rightarrow> ora_error" where
  "ora c m = \<lparr>err_code = c, err_message = m\<rparr>"

type_synonym 'a ora_result = "(ora_error, 'a) rust"

abbreviation ora_fail :: "nat \<Rightarrow> string \<Rightarrow> 'a ora_result" where
  "ora_fail c m \<equiv> Inl (Err (ora c m))"

text \<open>The \<open>Display\<close> the \<open>#[error(...)]\<close> attribute derives.\<close>

definition ora_display :: "ora_error \<Rightarrow> string" where
  "ora_display e = ''ORA-'' @ pad_zero 5 (nat_str (err_code e)) @ '': '' @ err_message e"

definition inconsistent :: "string \<Rightarrow> string \<Rightarrow> ora_error" where
  "inconsistent expected got =
     ora 932 (''inconsistent datatypes: expected '' @ expected @ '' got '' @ got)"

definition table_not_found :: ora_error where
  "table_not_found = ora 942 ''table or view does not exist''"

definition invalid_identifier :: "string \<Rightarrow> ora_error" where
  "invalid_identifier n = ora 904 (n @ '': invalid identifier'')"

definition missing_expression :: ora_error where
  "missing_expression = ora 936 ''missing expression''"

definition quoted :: "string \<Rightarrow> string" where
  "quoted n = CHR 0x22 # n @ [CHR 0x22]"

lemma ora_sel [simp]: "err_code (ora c m) = c" "err_message (ora c m) = m"
  by (simp_all add: ora_def)

end
