(* ===== verification/External.thy ===== *)
theory External
  imports Ora_Error
begin

text \<open>
  The two third-party crates the engine computes with, as parameters: \<open>bigdecimal::BigDecimal\<close> is
  the type \<open>'n\<close>, \<open>chrono::NaiveDateTime\<close> the type \<open>'d\<close> and \<open>chrono::NaiveDate\<close> the type \<open>'a\<close>. The
  record \<open>ext\<close> holds the operations of them that the source calls; the definitions that use one
  take the record as their first argument. What a theorem relies on of them is stated as the
  laws of a locale.
\<close>

datatype ordering = Less | Equal | Greater

fun ord_reverse :: "ordering \<Rightarrow> ordering" where
  "ord_reverse Less = Greater"
| "ord_reverse Equal = Equal"
| "ord_reverse Greater = Less"

definition cmp_of :: "'a::linorder \<Rightarrow> 'a \<Rightarrow> ordering" where
  "cmp_of x y = (if x < y then Less else if x = y then Equal else Greater)"

lemma ord_reverse_idem [simp]: "ord_reverse (ord_reverse r) = r"
  by (cases r) auto

lemma cmp_of_reverse: "cmp_of y x = ord_reverse (cmp_of x y)"
  by (auto simp: cmp_of_def)

lemma cmp_of_simps [simp]:
  "cmp_of x y = Less \<longleftrightarrow> x < y" "cmp_of x y = Equal \<longleftrightarrow> x = y" "cmp_of x y = Greater \<longleftrightarrow> y < x"
  by (auto simp: cmp_of_def)

datatype rounding = HalfUp | Down | Ceiling | Floor | HalfEven

record ('n, 'd, 'a) ext =
  bd_from_str :: "string \<Rightarrow> 'n option"
  bd_from_int :: "int \<Rightarrow> 'n"
  bd_cmp :: "'n \<Rightarrow> 'n \<Rightarrow> ordering"
  bd_normalized :: "'n \<Rightarrow> 'n"
  bd_to_string :: "'n \<Rightarrow> string"
  bd_to_plain_string :: "'n \<Rightarrow> string"
  bd_fractional_digit_count :: "'n \<Rightarrow> int"
  bd_with_scale :: "'n \<Rightarrow> int \<Rightarrow> 'n"
  bd_with_scale_round :: "'n \<Rightarrow> int \<Rightarrow> rounding \<Rightarrow> 'n"
  bd_abs :: "'n \<Rightarrow> 'n"
  dt_cmp :: "'d \<Rightarrow> 'd \<Rightarrow> ordering"
  dt_year :: "'d \<Rightarrow> int"
  dt_month :: "'d \<Rightarrow> nat"
  dt_day :: "'d \<Rightarrow> nat"
  dt_hour :: "'d \<Rightarrow> nat"
  dt_minute :: "'d \<Rightarrow> nat"
  dt_second :: "'d \<Rightarrow> nat"
  dt_nanosecond :: "'d \<Rightarrow> nat"
  dt_ordinal :: "'d \<Rightarrow> nat"
  dt_days_from_monday :: "'d \<Rightarrow> nat"
  dt_days_from_sunday :: "'d \<Rightarrow> nat"
  dt_to_string :: "'d \<Rightarrow> string"
  dt_timestamp :: "'d \<Rightarrow> int"
  dt_subsec_nanos :: "'d \<Rightarrow> nat"
  dt_date :: "'d \<Rightarrow> 'a"
  dt_with_nanosecond :: "'d \<Rightarrow> nat \<Rightarrow> 'd option"
  dt_add_seconds :: "'d \<Rightarrow> int \<Rightarrow> 'd option"
  date_from_ymd :: "int \<Rightarrow> nat \<Rightarrow> nat \<Rightarrow> 'a option"
  date_pred :: "'a \<Rightarrow> 'a option"
  date_sub_days :: "'a \<Rightarrow> int \<Rightarrow> 'a option"
  date_day :: "'a \<Rightarrow> nat"
  date_and_hms_nano :: "'a \<Rightarrow> nat \<Rightarrow> nat \<Rightarrow> nat \<Rightarrow> nat \<Rightarrow> 'd option"
  date_and_time_of :: "'a \<Rightarrow> 'd \<Rightarrow> 'd"
  local_year :: int

end
