(* ===== verification/Datetime.thy ===== *)
theory Datetime
  imports External
begin

text \<open>
  \<open>crates/mock-oracle-core/src/datetime.rs\<close>: Oracle date format models. A format string is read
  into elements (\<open>dt_tokenize\<close>), which \<open>dt_format\<close> prints and \<open>dt_parse\<close> reads back; then the
  month arithmetic of ADD_MONTHS and LAST_DAY and the truncation of TRUNC.
\<close>

definition DEFAULT_DATE_FORMAT :: string where
  "DEFAULT_DATE_FORMAT = ''DD-MON-RR''"

definition DEFAULT_TIMESTAMP_FORMAT :: string where
  "DEFAULT_TIMESTAMP_FORMAT = ''DD-MON-RR HH.MI.SSXFF AM''"

definition MONTHS :: "string list" where
  "MONTHS = [''JANUARY'', ''FEBRUARY'', ''MARCH'', ''APRIL'', ''MAY'', ''JUNE'', ''JULY'',
     ''AUGUST'', ''SEPTEMBER'', ''OCTOBER'', ''NOVEMBER'', ''DECEMBER'']"

definition DAYS :: "string list" where
  "DAYS = [''MONDAY'', ''TUESDAY'', ''WEDNESDAY'', ''THURSDAY'', ''FRIDAY'', ''SATURDAY'', ''SUNDAY'']"

datatype elem =
    Yyyy | Yy | Rr | Mm | Mon | Month | Dd | Ddd | D | Dy | Day | Hh24 | Hh12 | Mi | Ss
  | Ff nat | Am | X | Fm | Lit string

datatype letter_case = Upper | Capital | Lower

section \<open>Reading a format model\<close>

definition case_of :: "string \<Rightarrow> letter_case" where
  "case_of s =
     (let first = (case s of c # _ \<Rightarrow> is_ascii_upper c | _ \<Rightarrow> False);
          second = (case s of _ # c # _ \<Rightarrow> is_ascii_upper c | _ \<Rightarrow> False)
      in if first \<and> second then Upper else if first then Capital else Lower)"

fun apply_case :: "string \<Rightarrow> letter_case \<Rightarrow> string" where
  "apply_case s Upper = to_uppercase s"
| "apply_case s Lower = to_lowercase s"
| "apply_case s Capital =
     (case to_lowercase s of [] \<Rightarrow> [] | f # r \<Rightarrow> to_uppercase [f] @ r)"

definition elem_table :: "(string \<times> elem) list" where
  "elem_table =
     [(''YYYY'', Yyyy), (''RRRR'', Yyyy), (''YY'', Yy), (''RR'', Rr), (''MONTH'', Month),
      (''MON'', Mon), (''MM'', Mm), (''DDD'', Ddd), (''DD'', Dd), (''DAY'', Day), (''DY'', Dy),
      (''D'', D), (''HH24'', Hh24), (''HH12'', Hh12), (''HH'', Hh12), (''MI'', Mi), (''SS'', Ss),
      (''AM'', Am), (''PM'', Am), (''A.M.'', Am), (''P.M.'', Am), (''FM'', Fm), (''X'', X)]"

definition bad_format :: ora_error where
  "bad_format = ora 1821 ''date format not recognized''"

definition is_separator :: "char \<Rightarrow> bool" where
  "is_separator c = (c \<in> set ''-/,.;: '')"

text \<open>The keyword test of the source, \<open>eq_ignore_ascii_case\<close> on a prefix.\<close>

definition starts :: "string \<Rightarrow> string \<Rightarrow> bool" where
  "starts s k = starts_with (to_uppercase s) k"

text \<open>One round of the loop: the element read and the text after it.\<close>

definition next_elem :: "string \<Rightarrow> ((elem \<times> letter_case) \<times> string) ora_result" where
  "next_elem s =
     (case s of
        [] \<Rightarrow> Inl (Err bad_format)
      | c # r \<Rightarrow>
          if c = CHR 0x22 then
            (case split_at (CHR 0x22) r of
               None \<Rightarrow> Inl (Err bad_format)
             | Some (a, b) \<Rightarrow> Inr ((Lit a, case_of s), b))
          else if is_separator c then Inr ((Lit [c], case_of s), r)
          else if starts s ''FF'' then
            (case drop 2 s of
               d # b \<Rightarrow>
                 if is_ascii_digit d \<and> d \<noteq> CHR ''0''
                 then Inr ((Ff (code d - 48), case_of s), b)
                 else Inr ((Ff 9, case_of s), d # b)
             | [] \<Rightarrow> Inr ((Ff 9, case_of s), []))
          else
            (case find (\<lambda>(k, _). starts s k) elem_table of
               Some (k, e) \<Rightarrow> Inr ((e, case_of s), drop (length k) s)
             | None \<Rightarrow> Inl (Err bad_format)))"

lemma elem_table_nonempty: "find P elem_table = Some (k, e) \<Longrightarrow> k \<noteq> []"
  unfolding elem_table_def by (auto split: if_splits)

lemma drop_Cons_shorter: "drop n xs = y # ys \<Longrightarrow> length ys < length xs"
  by (drule arg_cong [where f = length]) simp

lemma next_elem_shorter [termination_simp]: "next_elem s = Inr (e, r) \<Longrightarrow> length r < length s"
  unfolding next_elem_def
  by (auto split: list.splits if_splits option.splits prod.splits dest!: split_at_Some
      elem_table_nonempty drop_Cons_shorter intro: less_SucI)

fun dt_tokenize :: "string \<Rightarrow> (elem \<times> letter_case) list ora_result" where
  "dt_tokenize s =
     (if s = [] then Inr []
      else case next_elem s of
        Inl x \<Rightarrow> Inl x
      | Inr (e, r) \<Rightarrow> rbind (dt_tokenize r) (\<lambda>es. Inr (e # es)))"

declare dt_tokenize.simps [simp del]

definition validate_format :: "string \<Rightarrow> unit ora_result" where
  "validate_format fmt = rbind (dt_tokenize fmt) (\<lambda>_. Inr ())"

section \<open>Printing\<close>

definition pad_num :: "nat \<Rightarrow> nat \<Rightarrow> bool \<Rightarrow> string" where
  "pad_num n width fm = (if fm then nat_str n else pad_zero width (nat_str n))"

text \<open>\<open>{:<9}\<close>, \<open>{:02}\<close> of a signed number, and \<open>i32 as u32\<close>.\<close>

definition pad_right9 :: "string \<Rightarrow> string" where
  "pad_right9 s = s @ replicate (9 - length s) (CHR '' '')"

definition pad_signed2 :: "int \<Rightarrow> string" where
  "pad_signed2 i =
     (if i < 0 then CHR ''-'' # pad_zero 1 (nat_str (nat (- i))) else pad_zero 2 (nat_str (nat i)))"

definition as_u32 :: "int \<Rightarrow> nat" where
  "as_u32 i = nat (i mod 2 ^ 32)"

text \<open>Rust's \<open>%\<close> takes the sign of the dividend.\<close>

definition rem_trunc :: "int \<Rightarrow> int \<Rightarrow> int" where
  "rem_trunc a b = sgn a * (\<bar>a\<bar> mod \<bar>b\<bar>)"

definition format_elem ::
  "('n, 'd, 'a) ext \<Rightarrow> 'd \<Rightarrow> bool \<Rightarrow> elem \<Rightarrow> letter_case \<Rightarrow> (ora_error, string) rust" where
  "format_elem X' d fm e c =
     (case e of
        Yyyy \<Rightarrow> Inr (pad_num (as_u32 (dt_year X' d)) 4 fm)
      | Yy \<Rightarrow> Inr (pad_signed2 (rem_trunc (dt_year X' d) 100))
      | Rr \<Rightarrow> Inr (pad_signed2 (rem_trunc (dt_year X' d) 100))
      | Mm \<Rightarrow> Inr (pad_num (dt_month X' d) 2 fm)
      | Mon \<Rightarrow> rbind (index MONTHS (dt_month X' d - 1)) (\<lambda>n. Inr (apply_case (take 3 n) c))
      | Month \<Rightarrow> rbind (index MONTHS (dt_month X' d - 1))
          (\<lambda>n. Inr (let name = apply_case n c in if fm then name else pad_right9 name))
      | Dd \<Rightarrow> Inr (pad_num (dt_day X' d) 2 fm)
      | Ddd \<Rightarrow> Inr (pad_num (dt_ordinal X' d) 3 fm)
      | D \<Rightarrow> Inr (nat_str (dt_days_from_sunday X' d + 1))
      | Dy \<Rightarrow> rbind (index DAYS (dt_days_from_monday X' d)) (\<lambda>n. Inr (apply_case (take 3 n) c))
      | Day \<Rightarrow> rbind (index DAYS (dt_days_from_monday X' d))
          (\<lambda>n. Inr (let name = apply_case n c in if fm then name else pad_right9 name))
      | Hh24 \<Rightarrow> Inr (pad_num (dt_hour X' d) 2 fm)
      | Hh12 \<Rightarrow> Inr (let h = dt_hour X' d mod 12 in pad_num (if h = 0 then 12 else h) 2 fm)
      | Mi \<Rightarrow> Inr (pad_num (dt_minute X' d) 2 fm)
      | Ss \<Rightarrow> Inr (pad_num (dt_second X' d) 2 fm)
      | Ff p \<Rightarrow> Inr (take p (pad_zero 9 (nat_str (dt_nanosecond X' d mod 1000000000))))
      | Am \<Rightarrow> Inr (apply_case (if dt_hour X' d < 12 then ''AM'' else ''PM'') c)
      | X \<Rightarrow> Inr ''.''
      | Fm \<Rightarrow> Inr []
      | Lit s \<Rightarrow> Inr s)"

fun format_elems ::
  "('n, 'd, 'a) ext \<Rightarrow> 'd \<Rightarrow> bool \<Rightarrow> (elem \<times> letter_case) list \<Rightarrow> (ora_error, string) rust" where
  "format_elems X' d fm [] = Inr []"
| "format_elems X' d fm ((e, c) # es) =
     rbind (format_elem X' d fm e c) (\<lambda>s.
     rbind (format_elems X' d (if e = Fm then \<not> fm else fm) es) (\<lambda>r. Inr (s @ r)))"

definition dt_format :: "('n, 'd, 'a) ext \<Rightarrow> 'd \<Rightarrow> string \<Rightarrow> (ora_error, string) rust" where
  "dt_format X' d fmt =
     (case dt_tokenize fmt of
        Inl _ \<Rightarrow> Inr (dt_to_string X' d)
      | Inr es \<Rightarrow> format_elems X' d False es)"

section \<open>Reading\<close>

record date_parts =
  p_year :: "int option"
  p_month :: nat
  p_day :: nat
  p_hour :: nat
  p_minute :: nat
  p_second :: nat
  p_nanos :: nat
  p_pm :: "bool option"
  p_hour12 :: bool

definition no_parts :: date_parts where
  "no_parts = \<lparr>p_year = None, p_month = 1, p_day = 1, p_hour = 0, p_minute = 0, p_second = 0,
     p_nanos = 0, p_pm = None, p_hour12 = False\<rparr>"

text \<open>The \<open>number\<close> closure: at most \<open>k\<close> digits, at least one; its value, how many, and the rest.\<close>

definition number :: "nat \<Rightarrow> string \<Rightarrow> ((nat \<times> nat) \<times> string) ora_result" where
  "number k s =
     (let ds = takeWhile is_ascii_digit (take k s)
      in if ds = []
         then ora_fail 1858 ''a non-numeric character was found where a numeric was expected''
         else Inr ((digits_val ds, length ds), drop (length ds) s))"

definition named_prefix :: "string \<Rightarrow> string \<Rightarrow> bool" where
  "named_prefix rest m = (starts_with rest m \<or> starts_with rest (take 3 m))"

fun find_name :: "string \<Rightarrow> nat \<Rightarrow> string list \<Rightarrow> (nat \<times> string) option" where
  "find_name rest i [] = None"
| "find_name rest i (m # ms) = (if named_prefix rest m then Some (i, m) else find_name rest (Suc i) ms)"

definition name_len :: "string \<Rightarrow> string \<Rightarrow> nat" where
  "name_len rest m = (if starts_with rest m then length m else 3)"

definition parse_meridian :: "string \<Rightarrow> (bool \<times> nat) ora_result" where
  "parse_meridian rest =
     (if starts_with rest ''PM'' then Inr (True, 2)
      else if starts_with rest ''AM'' then Inr (False, 2)
      else if starts_with rest ''P.M.'' then Inr (True, 4)
      else if starts_with rest ''A.M.'' then Inr (False, 4)
      else ora_fail 1855 ''AM/A.M. or PM/P.M. required'')"

definition parse_elem :: "elem \<Rightarrow> date_parts \<times> string \<Rightarrow> (date_parts \<times> string) ora_result" where
  "parse_elem e = (\<lambda>(p, s).
     (case e of
        Yyyy \<Rightarrow> rbind (number 4 s) (\<lambda>((n, _), r). Inr (p\<lparr>p_year := Some (int n)\<rparr>, r))
      | Yy \<Rightarrow> rbind (number 2 s) (\<lambda>((n, _), r). Inr (p\<lparr>p_year := Some (2000 + int n)\<rparr>, r))
      | Rr \<Rightarrow> rbind (number 4 s) (\<lambda>((n, len), r).
          Inr (p\<lparr>p_year := Some (if len > 2 then int n else if n < 50 then 2000 + int n
                                 else 1900 + int n)\<rparr>, r))
      | Mm \<Rightarrow> rbind (number 2 s) (\<lambda>((n, _), r). Inr (p\<lparr>p_month := n\<rparr>, r))
      | Dd \<Rightarrow> rbind (number 2 s) (\<lambda>((n, _), r). Inr (p\<lparr>p_day := n\<rparr>, r))
      | Ddd \<Rightarrow> rbind (number 3 s) (\<lambda>(_, r). Inr (p, r))
      | D \<Rightarrow> rbind (number 3 s) (\<lambda>(_, r). Inr (p, r))
      | Hh24 \<Rightarrow> rbind (number 2 s) (\<lambda>((n, _), r). Inr (p\<lparr>p_hour := n\<rparr>, r))
      | Hh12 \<Rightarrow> rbind (number 2 s) (\<lambda>((n, _), r). Inr (p\<lparr>p_hour := n, p_hour12 := True\<rparr>, r))
      | Mi \<Rightarrow> rbind (number 2 s) (\<lambda>((n, _), r). Inr (p\<lparr>p_minute := n\<rparr>, r))
      | Ss \<Rightarrow> rbind (number 2 s) (\<lambda>((n, _), r). Inr (p\<lparr>p_second := n\<rparr>, r))
      | Ff _ \<Rightarrow> rbind (number 9 s) (\<lambda>((n, len), r). Inr (p\<lparr>p_nanos := n * 10 ^ (9 - len)\<rparr>, r))
      | X \<Rightarrow> Inr (p, if starts_with s ''.'' then drop 1 s else s)
      | Fm \<Rightarrow> Inr (p, s)
      | Am \<Rightarrow> rbind (parse_meridian (to_uppercase s)) (\<lambda>(pm, n).
          Inr (p\<lparr>p_pm := Some pm\<rparr>, drop n s))
      | Lit l \<Rightarrow>
          if list_all (\<lambda>c. \<not> is_ascii_alphanumeric c) l
          then Inr (p, dropWhile (\<lambda>c. \<not> is_ascii_alphanumeric c) s)
          else if starts_with (to_uppercase s) (to_uppercase l) then Inr (p, drop (length l) s)
          else ora_fail 1861 ''literal does not match format string''
      | _ \<Rightarrow>
          let rest = to_uppercase s in
          if e = Mon \<or> e = Month then
            (case find_name rest 0 MONTHS of
               None \<Rightarrow> ora_fail 1843 ''not a valid month''
             | Some (i, m) \<Rightarrow> Inr (p\<lparr>p_month := i + 1\<rparr>, drop (name_len rest m) s))
          else
            (case find_name rest 0 DAYS of
               None \<Rightarrow> ora_fail 1846 ''not a valid day of the week''
             | Some (_, m) \<Rightarrow> Inr (p, drop (name_len rest m) s))))"

fun parse_elems :: "(elem \<times> letter_case) list \<Rightarrow> date_parts \<times> string \<Rightarrow>
    (date_parts \<times> string) ora_result" where
  "parse_elems [] st = Inr st"
| "parse_elems ((e, _) # es) st = rbind (parse_elem e st) (parse_elems es)"

text \<open>The checks after the loop and the conversion to a date.\<close>

definition hour_24 :: "date_parts \<Rightarrow> nat ora_result" where
  "hour_24 p =
     (if p_hour12 p \<or> p_pm p \<noteq> None then
        (if p_hour p < 1 \<or> 12 < p_hour p then ora_fail 1849 ''hour must be between 1 and 12''
         else Inr (p_hour p mod 12 + (if p_pm p = Some True then 12 else 0)))
      else Inr (p_hour p))"

definition finish_date :: "('n, 'd, 'a) ext \<Rightarrow> date_parts \<Rightarrow> 'd ora_result" where
  "finish_date X' p =
     rbind (hour_24 p) (\<lambda>hour.
     if hour > 23 then ora_fail 1850 ''hour must be between 0 and 23''
     else if p_minute p > 59 then ora_fail 1851 ''minutes must be between 0 and 59''
     else if p_second p > 59 then ora_fail 1852 ''seconds must be between 0 and 59''
     else if p_month p < 1 \<or> 12 < p_month p then ora_fail 1843 ''not a valid month''
     else
       let year = (case p_year p of Some y \<Rightarrow> y | None \<Rightarrow> local_year X') in
       rbind (ok_or (date_from_ymd X' year (p_month p) (p_day p))
                (ora 1839 ''date not valid for month specified'')) (\<lambda>date.
       unwrap (date_and_hms_nano X' date hour (p_minute p) (p_second p) (p_nanos p))))"

definition dt_parse :: "('n, 'd, 'a) ext \<Rightarrow> string \<Rightarrow> string \<Rightarrow> 'd ora_result" where
  "dt_parse X' s fmt =
     rbind (dt_tokenize fmt) (\<lambda>elems.
     rbind (parse_elems elems (no_parts, trim s)) (\<lambda>(p, rest).
     if rest \<noteq> []
     then ora_fail 1830 ''date format picture ends before converting entire input string''
     else finish_date X' p))"

section \<open>Month arithmetic and truncation\<close>

definition out_of_range :: ora_error where
  "out_of_range = ora 1841 ''(full) year must be between -4713 and +9999, and not be 0''"

definition last_day_of :: "('n, 'd, 'a) ext \<Rightarrow> int \<Rightarrow> nat \<Rightarrow> (ora_error, nat) rust" where
  "last_day_of X' year month =
     (let (ny, nm) = (if month = 12 then (year + 1, 1) else (year, month + 1))
      in rbind (unwrap (date_from_ymd X' ny nm 1)) (\<lambda>first.
         rbind (unwrap (date_pred X' first)) (\<lambda>last. Inr (date_day X' last))))"

definition add_months :: "('n, 'd, 'a) ext \<Rightarrow> 'd \<Rightarrow> int \<Rightarrow> 'd ora_result" where
  "add_months X' d months =
     (let total = (dt_year X' d * 12 + (int (dt_month X' d) - 1)) + months in
      if total < - (2 ^ 63) \<or> 2 ^ 63 \<le> total then Inl (Err out_of_range)
      else
        let year = total div 12; month = nat (total mod 12) + 1 in
        if year < -4713 \<or> 9999 < year then Inl (Err out_of_range)
        else
          rbind (last_day_of X' year month) (\<lambda>last.
          rbind (last_day_of X' (dt_year X' d) (dt_month X' d)) (\<lambda>here.
          let day = (if dt_day X' d = here then last else min (dt_day X' d) last) in
          rbind (ok_or (date_from_ymd X' year month day) out_of_range) (\<lambda>date.
          Inr (date_and_time_of X' date d)))))"

text \<open>TRUNC. \<open>at\<close> is \<open>date.and_hms_opt(h, m, 0).unwrap()\<close>.\<close>

definition at_time :: "('n, 'd, 'a) ext \<Rightarrow> 'a \<Rightarrow> nat \<Rightarrow> nat \<Rightarrow> 'd ora_result" where
  "at_time X' date h m = unwrap (date_and_hms_nano X' date h m 0 0)"

definition dt_trunc :: "('n, 'd, 'a) ext \<Rightarrow> 'd \<Rightarrow> string \<Rightarrow> 'd ora_result" where
  "dt_trunc X' d unit' =
     (let date = dt_date X' d; u = to_uppercase unit';
          start = (\<lambda>y m. rbind (unwrap (date_from_ymd X' y m 1)) (\<lambda>a. at_time X' a 0 0));
          back = (\<lambda>n. rbind (unwrap (date_sub_days X' date n)) (\<lambda>a. at_time X' a 0 0))
      in
      if u \<in> {''DD'', ''DDD'', ''J''} then at_time X' date 0 0
      else if u \<in> {''MM'', ''MON'', ''MONTH'', ''RM''} then start (dt_year X' d) (dt_month X' d)
      else if u \<in> {''YYYY'', ''YYY'', ''YY'', ''Y'', ''YEAR'', ''SYYYY'', ''RRRR'', ''RR''}
        then start (dt_year X' d) 1
      else if u = ''Q'' then start (dt_year X' d) ((dt_month X' d - 1) div 3 * 3 + 1)
      else if u \<in> {''HH'', ''HH12'', ''HH24''} then at_time X' date (dt_hour X' d) 0
      else if u = ''MI'' then at_time X' date (dt_hour X' d) (dt_minute X' d)
      else if u \<in> {''D'', ''DY'', ''DAY''} then back (int (dt_days_from_sunday X' d))
      else if u = ''IW'' then back (int (dt_days_from_monday X' d))
      else ora_fail 1898 ''too many precision specifiers'')"

end
