(* ===== verification/Values.thy ===== *)
theory Values
  imports Datetime
begin

text \<open>
  \<open>crates/mock-oracle-core/src/value.rs\<close>: SQL values, their implicit conversions, Oracle's
  comparison, and \<open>key_string\<close>, the text that unique indexes, grouping and the set operations
  use as a value's identity.
\<close>

datatype ('n, 'd) "value" =
    Null
  | Number 'n
  | Varchar2 string
  | Date 'd
  | Timestamp 'd
  | Boolean bool

datatype sql_type =
    TNumber (precision: nat) (scale: int)
  | TVarchar2 nat
  | TChar nat
  | TDate
  | TTimestamp nat

definition NUMBER :: sql_type where
  "NUMBER = TNumber 0 (-127)"

section \<open>Conversions\<close>

definition varchar :: "string \<Rightarrow> ('n, 'd) value" where
  "varchar s = (if s = [] then Null else Varchar2 s)"

definition parse_number :: "('n, 'd, 'a) ext \<Rightarrow> string \<Rightarrow> ('n, 'd) value option" where
  "parse_number E s = map_option Number (bd_from_str E s)"

fun is_null :: "('n, 'd) value \<Rightarrow> bool" where
  "is_null Null = True"
| "is_null _ = False"

fun to_number :: "('n, 'd, 'a) ext \<Rightarrow> ('n, 'd) value \<Rightarrow> 'n option ora_result" where
  "to_number E Null = Inr None"
| "to_number E (Number n) = Inr (Some n)"
| "to_number E (Varchar2 s) =
     (case bd_from_str E (trim s) of
        Some n \<Rightarrow> Inr (Some n)
      | None \<Rightarrow> ora_fail 1722 ''invalid number'')"
| "to_number E (Date _) = Inl (Err (inconsistent ''NUMBER'' ''DATE''))"
| "to_number E (Timestamp _) = Inl (Err (inconsistent ''NUMBER'' ''DATE''))"
| "to_number E (Boolean _) = Inl (Err (inconsistent ''NUMBER'' ''BOOLEAN''))"

fun to_datetime :: "('n, 'd, 'a) ext \<Rightarrow> string \<Rightarrow> ('n, 'd) value \<Rightarrow> 'd option ora_result" where
  "to_datetime E fmt Null = Inr None"
| "to_datetime E fmt (Date d) = Inr (Some d)"
| "to_datetime E fmt (Timestamp d) = Inr (Some d)"
| "to_datetime E fmt (Varchar2 s) = rbind (dt_parse E s fmt) (\<lambda>d. Inr (Some d))"
| "to_datetime E fmt (Number _) = Inl (Err (inconsistent ''DATE'' ''NUMBER''))"
| "to_datetime E fmt (Boolean _) = Inl (Err (inconsistent ''DATE'' ''BOOLEAN''))"

text \<open>\<open>format_number\<close>: no exponent, no trailing zeros, no leading zero before the point.\<close>

definition strip_leading_zero :: "string \<Rightarrow> string" where
  "strip_leading_zero s =
     (if starts_with s ''0.'' then CHR ''.'' # drop 2 s
      else if starts_with s ''-0.'' then ''-.'' @ drop 3 s
      else s)"

definition format_number :: "('n, 'd, 'a) ext \<Rightarrow> 'n \<Rightarrow> string" where
  "format_number E n0 =
     (let n = bd_normalized E n0;
          s = (if bd_fractional_digit_count E n < 0 then bd_to_string E (bd_with_scale E n 0)
               else bd_to_plain_string E n)
      in strip_leading_zero s)"

fun display :: "('n, 'd, 'a) ext \<Rightarrow> ('n, 'd) value \<Rightarrow> (ora_error, string) rust" where
  "display E Null = Inr []"
| "display E (Number n) = Inr (format_number E n)"
| "display E (Varchar2 s) = Inr s"
| "display E (Date d) = dt_format E d DEFAULT_DATE_FORMAT"
| "display E (Timestamp d) = dt_format E d DEFAULT_TIMESTAMP_FORMAT"
| "display E (Boolean b) = Inr (if b then ''TRUE'' else ''FALSE'')"

section \<open>Comparison\<close>

text \<open>The blank-padded comparison of two strings: bytes, without trailing blanks.\<close>

definition blank_trim :: "string \<Rightarrow> string" where
  "blank_trim s = trim_end_matches (\<lambda>c. c = CHR '' '') s"

fun is_number :: "('n, 'd) value \<Rightarrow> bool" where
  "is_number (Number _) = True"
| "is_number _ = False"

fun is_boolean :: "('n, 'd) value \<Rightarrow> bool" where
  "is_boolean (Boolean _) = True"
| "is_boolean _ = False"

definition boolean_mismatch :: ora_error where
  "boolean_mismatch = ora 6550
     (''PLS-00306: wrong number or types of arguments in call to '' @ [CHR 0x27, CHR ''='', CHR 0x27])"

definition compare ::
  "('n, 'd, 'a) ext \<Rightarrow> ('n, 'd) value \<Rightarrow> ('n, 'd) value \<Rightarrow> string \<Rightarrow> ordering option ora_result" where
  "compare E a b fmt =
     (if is_null a \<or> is_null b then Inr None
      else case (a, b) of
        (Boolean x, Boolean y) \<Rightarrow> Inr (Some (cmp_of x y))
      | (Varchar2 x, Varchar2 y) \<Rightarrow> Inr (Some (cmp_of (blank_trim x) (blank_trim y)))
      | _ \<Rightarrow>
          if is_boolean a \<or> is_boolean b then Inl (Err boolean_mismatch)
          else if is_number a \<or> is_number b then
            rbind (to_number E a) (\<lambda>x. rbind (unwrap x) (\<lambda>x'.
            rbind (to_number E b) (\<lambda>y. rbind (unwrap y) (\<lambda>y'.
            Inr (Some (bd_cmp E x' y'))))))
          else
            rbind (to_datetime E fmt a) (\<lambda>x. rbind (unwrap x) (\<lambda>x'.
            rbind (to_datetime E fmt b) (\<lambda>y. rbind (unwrap y) (\<lambda>y'.
            Inr (Some (dt_cmp E x' y')))))))"

section \<open>Keys\<close>

fun key_part :: "('n, 'd, 'a) ext \<Rightarrow> ('n, 'd) value \<Rightarrow> string" where
  "key_part E Null = ''~''"
| "key_part E (Number n) = CHR ''n'' # bd_to_string E (bd_normalized E n)"
| "key_part E (Varchar2 s) = CHR ''s'' # s"
| "key_part E (Date d) =
     CHR ''d'' # int_str (dt_timestamp E d) @ ''.'' @ pad_zero 9 (nat_str (dt_subsec_nanos E d))"
| "key_part E (Timestamp d) =
     CHR ''d'' # int_str (dt_timestamp E d) @ ''.'' @ pad_zero 9 (nat_str (dt_subsec_nanos E d))"
| "key_part E (Boolean b) = (if b then ''T'' else ''F'')"

fun key_string :: "('n, 'd, 'a) ext \<Rightarrow> ('n, 'd) value list \<Rightarrow> string" where
  "key_string E [] = []"
| "key_string E (v # vs) = key_part E v @ CHR 0x01 # key_string E vs"

section \<open>Comparison is antisymmetric, keys are identities\<close>

text \<open>What the documentation of the two crates says of their orders and of their text.\<close>

locale lawful_ext =
  fixes E :: "('n, 'd, 'a) ext"
  assumes bd_cmp_reverse: "bd_cmp E y x = ord_reverse (bd_cmp E x y)"
    and dt_cmp_reverse: "dt_cmp E e d = ord_reverse (dt_cmp E d e)"
    and bd_text_eq: "bd_to_string E (bd_normalized E x) = bd_to_string E (bd_normalized E y)
      \<longleftrightarrow> bd_cmp E x y = Equal"
    and bd_text_printable: "CHR 0x01 \<notin> set (bd_to_string E x)"
    and dt_instant_eq: "dt_timestamp E d = dt_timestamp E e \<and> dt_subsec_nanos E d = dt_subsec_nanos E e
      \<longleftrightarrow> dt_cmp E d e = Equal"

text \<open>Two values are the same value: what \<open>key_string\<close> documents that it decides.\<close>

fun same_value :: "('n, 'd, 'a) ext \<Rightarrow> ('n, 'd) value \<Rightarrow> ('n, 'd) value \<Rightarrow> bool" where
  "same_value E Null Null = True"
| "same_value E (Number x) (Number y) = (bd_cmp E x y = Equal)"
| "same_value E (Varchar2 s) (Varchar2 t) = (s = t)"
| "same_value E (Date d) (Date e) = (dt_cmp E d e = Equal)"
| "same_value E (Date d) (Timestamp e) = (dt_cmp E d e = Equal)"
| "same_value E (Timestamp d) (Date e) = (dt_cmp E d e = Equal)"
| "same_value E (Timestamp d) (Timestamp e) = (dt_cmp E d e = Equal)"
| "same_value E (Boolean b) (Boolean c) = (b = c)"
| "same_value E _ _ = False"

text \<open>A value whose text holds no \<open>U+0001\<close>, the separator of key parts.\<close>

fun separable :: "('n, 'd) value \<Rightarrow> bool" where
  "separable (Varchar2 s) = (CHR 0x01 \<notin> set s)"
| "separable _ = True"

lemma int_str_chars: "c \<in> set (int_str i) \<Longrightarrow> is_ascii_digit c \<or> c = CHR ''-''"
  using nat_str_digits by (auto simp: int_str_def split: if_splits)

lemma int_str_inj: "int_str i = int_str j \<longleftrightarrow> i = j"
proof
  assume eq: "int_str i = int_str j"
  have "CHR ''-'' \<notin> set (nat_str n)" for n
    using nat_str_digits [of n] not_digit_lits(2) by blast
  then have "CHR ''-'' # nat_str m \<noteq> nat_str n" for m n
    by (metis list.set_intros(1))
  with eq show "i = j"
    by (auto simp: int_str_def nat_str_inj split: if_splits dest: sym)
qed simp

lemma digits_val_pad_zero [simp]: "digits_val (pad_zero w s) = digits_val s"
proof -
  have "foldl (\<lambda>a c. a * 10 + (code c - 48)) 0 (replicate k (CHR ''0'')) = 0" for k
    by (induction k) (auto simp: code_def)
  then show ?thesis by (simp add: pad_zero_def digits_val_def)
qed

lemma pad_zero_inj: "pad_zero w (nat_str m) = pad_zero w (nat_str n) \<longleftrightarrow> m = n"
  by (metis digits_val_pad_zero digits_val_nat_str)

lemma pad_zero_digits: "c \<in> set (pad_zero w (nat_str n)) \<Longrightarrow> is_ascii_digit c"
  using nat_str_digits [of n] by (auto simp: pad_zero_def)

lemma append_sep_eq:
  fixes c :: char
  assumes "c \<notin> set a" and "c \<notin> set b"
  shows "a @ c # x = b @ c # y \<longleftrightarrow> a = b \<and> x = y"
proof
  assume "a @ c # x = b @ c # y"
  then have "Some (a, x) = Some (b, y)"
    using split_at_append [OF assms(1), of x] split_at_append [OF assms(2), of y] by (simp only:)
  then show "a = b \<and> x = y" by simp
qed simp

lemma instant_text_inj:
  "int_str i @ CHR ''.'' # pad_zero 9 (nat_str m) = int_str j @ CHR ''.'' # pad_zero 9 (nat_str n)
   \<longleftrightarrow> i = j \<and> m = n"
proof -
  have "CHR ''.'' \<notin> set (int_str k)" for k
    using int_str_chars [of "CHR ''.''" k] by auto
  then show ?thesis by (simp add: append_sep_eq int_str_inj pad_zero_inj)
qed

context lawful_ext
begin

lemma compare_reverse:
  "compare E b a fmt = rbind (compare E a b fmt) (\<lambda>r. Inr (map_option ord_reverse r))"
  by (cases a; cases b)
    (simp_all add: compare_def bd_cmp_reverse [symmetric] dt_cmp_reverse [symmetric]
      cmp_of_reverse [symmetric] rbind_assoc split: option.split)

lemma key_part_eq: "key_part E v = key_part E w \<longleftrightarrow> same_value E v w"
  by (cases v; cases w) (auto simp: bd_text_eq instant_text_inj dt_instant_eq)

lemma key_part_separable: "separable v \<Longrightarrow> CHR 0x01 \<notin> set (key_part E v)"
proof (cases v)
  case (Date d)
  then show ?thesis
    using int_str_chars [of "CHR 0x01"] pad_zero_digits [of "CHR 0x01"] by auto
next
  case (Timestamp d)
  then show ?thesis
    using int_str_chars [of "CHR 0x01"] pad_zero_digits [of "CHR 0x01"] by auto
qed (auto simp: bd_text_printable)

lemma key_string_single: "key_string E [v] = key_string E [w] \<longleftrightarrow> same_value E v w"
  by (simp add: key_part_eq)

lemma key_string_eq:
  assumes "list_all separable vs" and "list_all separable ws"
  shows "key_string E vs = key_string E ws \<longleftrightarrow> list_all2 (same_value E) vs ws"
  using assms
proof (induction vs arbitrary: ws)
  case Nil
  then show ?case by (cases ws) auto
next
  case (Cons v vs)
  then show ?case by (cases ws) (auto simp: append_sep_eq key_part_separable key_part_eq)
qed

end

end
