(* ===== verification/Ast.thy ===== *)
theory Ast
  imports Values
begin

text \<open>
  \<open>crates/mock-oracle-core/src/ast.rs\<close> and \<open>plsql/mod.rs\<close>: the syntax trees of SQL statements and
  of PL/SQL blocks. \<open>Box\<close> and \<open>Arc\<close> disappear, a \<open>Vec\<close> is a list; the types that contain each
  other are one datatype declaration.
\<close>

section \<open>SQL\<close>

datatype set_op = Union_op | UnionAll | Intersect | Minus

datatype join_kind = InnerJoin | LeftJoin | RightJoin | FullJoin | CrossJoin

datatype binary_op =
  Add | Sub | Mul | Div | Concat | Eq | NotEq | Lt | LtEq | Gt | GtEq | And | Or

datatype (dead 'n, dead 'd) expr =
    Literal "('n, 'd) value"
  | Bind nat
  | Column "string option" string
  | Neg "('n, 'd) expr"
  | NotE "('n, 'd) expr"
  | Binary binary_op "('n, 'd) expr" "('n, 'd) expr"
  | IsNull "('n, 'd) expr" bool
  | Between "('n, 'd) expr" "('n, 'd) expr" "('n, 'd) expr" bool
  | InList "('n, 'd) expr" "('n, 'd) expr list" bool
  | InSubquery "('n, 'd) expr" "('n, 'd) query" bool
  | Exists "('n, 'd) query"
  | Like "('n, 'd) expr" "('n, 'd) expr" "('n, 'd) expr option" bool
  | CaseE "('n, 'd) expr option" "(('n, 'd) expr \<times> ('n, 'd) expr) list" "('n, 'd) expr option"
  | Function string "('n, 'd) expr list" bool
  | CountStar
  | Subquery "('n, 'd) query"
  | RowNum
  | SequenceE string bool
and (dead 'n, dead 'd) query =
    Query (q_body: "('n, 'd) set_expr") (q_order_by: "('n, 'd) order_item list")
      (q_offset: "('n, 'd) expr option") (q_fetch: "('n, 'd) expr option")
and (dead 'n, dead 'd) set_expr =
    SelectBody "('n, 'd) select"
  | SetOp set_op "('n, 'd) set_expr" "('n, 'd) set_expr"
and (dead 'n, dead 'd) select =
    Select (s_distinct: bool) (s_items: "('n, 'd) select_item list")
      (s_from: "('n, 'd) from_item list") (s_where: "('n, 'd) expr option")
      (s_group_by: "('n, 'd) expr list") (s_having: "('n, 'd) expr option")
and (dead 'n, dead 'd) select_item =
    ItemExpr "('n, 'd) expr" string
  | Star
  | QualifiedStar string
and (dead 'n, dead 'd) from_item =
    FromItem (f_factor: "('n, 'd) table_factor") (f_joins: "('n, 'd) join list")
and (dead 'n, dead 'd) table_factor =
    TableFactor string "string option"
  | SubqueryFactor "('n, 'd) query" "string option"
and (dead 'n, dead 'd) join =
    Join (j_kind: join_kind) (j_factor: "('n, 'd) table_factor") (j_on: "('n, 'd) expr option")
and (dead 'n, dead 'd) order_item =
    OrderItem (o_expr: "('n, 'd) expr") (o_desc: bool) (o_nulls_first: "bool option")

section \<open>Statements\<close>

datatype sequence_option =
    StartWith int
  | IncrementBy int
  | MinValue "int option"
  | MaxValue "int option"
  | Cycle bool
  | Restart "int option"

datatype on_delete = Restrict | Cascade | SetNull

record ('n, 'd) returning =
  ret_exprs :: "('n, 'd) expr list"
  ret_into :: "('n, 'd) expr list"

datatype (dead 'n, dead 'd) insert_source =
    ValuesSource "('n, 'd) expr list"
  | QuerySource "('n, 'd) query"

record ('n, 'd) insert_stmt =
  ins_table :: string
  ins_columns :: "string list option"
  ins_source :: "('n, 'd) insert_source"
  ins_returning :: "('n, 'd) returning option"

record ('n, 'd) update_stmt =
  upd_table :: string
  upd_alias :: "string option"
  upd_assignments :: "(string \<times> ('n, 'd) expr) list"
  upd_where :: "('n, 'd) expr option"
  upd_returning :: "('n, 'd) returning option"

record ('n, 'd) delete_stmt =
  del_table :: string
  del_alias :: "string option"
  del_where :: "('n, 'd) expr option"
  del_returning :: "('n, 'd) returning option"

record ('n, 'd) column_def =
  cd_name :: string
  cd_type :: sql_type
  cd_default :: "('n, 'd) expr option"
  cd_not_null :: bool
  cd_identity :: bool

datatype (dead 'n, dead 'd) ast_constraint_kind =
    PrimaryKeyK "string list"
  | UniqueK "string list"
  | CheckK "('n, 'd) expr"
  | ForeignKeyK "string list" string "string list" on_delete

record ('n, 'd) table_constraint =
  tc_name :: "string option"
  tc_kind :: "('n, 'd) ast_constraint_kind"
  tc_enabled :: bool
  tc_validate :: bool

datatype (dead 'n, dead 'd) alter_table_action =
    AddConstraints "('n, 'd) table_constraint list"
  | DropConstraint "string option" bool
  | SetConstraint "string option" bool bool bool

record ('n, 'd) create_table =
  ct_name :: string
  ct_columns :: "('n, 'd) column_def list"
  ct_constraints :: "('n, 'd) table_constraint list"
  ct_as_query :: "('n, 'd) query option"

section \<open>PL/SQL\<close>

datatype type_ref =
    SqlRef sql_type
  | BooleanRef
  | IntegerRef
  | TypeOf "string option" string
  | RowType string

record ('n, 'd) var_decl =
  vd_name :: string
  vd_type :: type_ref
  vd_constant :: bool
  vd_not_null :: bool
  vd_default :: "('n, 'd) expr option"

datatype param_mode = ModeIn | ModeOut | ModeInOut

record ('n, 'd) param =
  par_name :: string
  par_mode :: param_mode
  par_type :: type_ref
  par_default :: "('n, 'd) expr option"

record ('n, 'd) cursor_decl =
  cur_name :: string
  cur_params :: "('n, 'd) param list"
  cur_query :: "('n, 'd) query"

datatype target = VarTarget string | FieldTarget string string | BindTarget nat

record ('n, 'd) arg =
  arg_name :: "string option"
  arg_value :: "('n, 'd) expr"

datatype (dead 'n, dead 'd) cursor_source =
    QueryCursor "('n, 'd) query"
  | NamedCursor string "('n, 'd) expr list"

datatype (dead 'n, dead 'd) statement =
    QueryS "('n, 'd) query"
  | InsertS "('n, 'd) insert_stmt"
  | UpdateS "('n, 'd) update_stmt"
  | DeleteS "('n, 'd) delete_stmt"
  | CreateTable "('n, 'd) create_table"
  | DropTable string bool
  | AlterTable string "('n, 'd) alter_table_action"
  | CreateIndex string string "string list" bool
  | DropIndex string
  | Truncate string
  | CreateSequence string "sequence_option list"
  | AlterSequence string "sequence_option list"
  | DropSequence string
  | CreateRoutine "('n, 'd) routine" bool
  | DropRoutine string bool
  | BlockS "('n, 'd) block"
  | Commit
  | Rollback
  | PartitionMaintenance "string option"
  | AlterSession string string
and (dead 'n, dead 'd) block =
    Block (b_decls: "('n, 'd) decl list") (b_body: "('n, 'd) stmt list")
      (b_handlers: "('n, 'd) handler list")
and (dead 'n, dead 'd) decl =
    VarD "('n, 'd) var_decl"
  | ExceptionD string
  | ExceptionInit string nat
  | CursorD "('n, 'd) cursor_decl"
  | RoutineD "('n, 'd) routine"
and (dead 'n, dead 'd) handler =
    Handler (h_exceptions: "string list") (h_body: "('n, 'd) stmt list")
and (dead 'n, dead 'd) stmt =
    NullStmt
  | Assign target "('n, 'd) expr"
  | IfStmt "(('n, 'd) expr \<times> ('n, 'd) stmt list) list" "('n, 'd) stmt list option"
  | CaseStmt "('n, 'd) expr option" "(('n, 'd) expr \<times> ('n, 'd) stmt list) list"
      "('n, 'd) stmt list option"
  | LoopStmt "string option" "('n, 'd) stmt list"
  | WhileStmt "string option" "('n, 'd) expr" "('n, 'd) stmt list"
  | ForRange "string option" string bool "('n, 'd) expr" "('n, 'd) expr" "('n, 'd) stmt list"
  | ForCursor "string option" string "('n, 'd) cursor_source" "('n, 'd) stmt list"
  | Exit "string option" "('n, 'd) expr option"
  | ContinueStmt "string option" "('n, 'd) expr option"
  | ReturnStmt "('n, 'd) expr option"
  | Raise "string option"
  | SqlStmt "('n, 'd) statement" "target list"
  | CallStmt string "('n, 'd) arg list"
  | ExecuteImmediate "('n, 'd) expr" "target list" "('n, 'd) expr list"
  | OpenStmt string "('n, 'd) expr list"
  | FetchStmt string "target list"
  | CloseStmt string
  | BlockStmt "('n, 'd) block"
and (dead 'n, dead 'd) routine =
    Routine (r_name: string) (r_params: "('n, 'd) param list") (r_returns: "type_ref option")
      (r_block: "('n, 'd) block")

definition is_function :: "('n, 'd) routine \<Rightarrow> bool" where
  "is_function r = (r_returns r \<noteq> None)"

end
