(* ===== verification/Decimal_Clock.thy ===== *)
theory Decimal_Clock
  imports Complex_Main Values
begin

text \<open>
  An implementation of the parameters of \<open>External\<close>, at which the laws of \<open>lawful_ext\<close> are
  discharged and the witnesses of the development evaluate: a number is a mantissa and a decimal
  scale, a date the number of days since 1970-01-01 in the proleptic Gregorian calendar, a time
  stamp a number of nanoseconds since then.
\<close>

section \<open>Decimal numbers\<close>

type_synonym dec = "int \<times> int"

definition pow10 :: "int \<Rightarrow> int" where
  "pow10 k = 10 ^ nat k"

definition dec_cmp :: "dec \<Rightarrow> dec \<Rightarrow> ordering" where
  "dec_cmp x y = cmp_of (fst x * pow10 (snd y - snd x)) (fst y * pow10 (snd x - snd y))"

function strip_zeros :: "int \<Rightarrow> int \<Rightarrow> dec" where
  "strip_zeros m s =
     (if m = 0 then (0, 0) else if m mod 10 = 0 then strip_zeros (m div 10) (s - 1) else (m, s))"
  by auto

termination
  by (relation "measure (\<lambda>(m, s). nat \<bar>m\<bar>)") auto

declare strip_zeros.simps [simp del]

definition dec_normalized :: "dec \<Rightarrow> dec" where
  "dec_normalized x = strip_zeros (fst x) (snd x)"

definition dec_to_string :: "dec \<Rightarrow> string" where
  "dec_to_string x = int_str (fst x) @ CHR ''e'' # int_str (- snd x)"

definition dec_to_plain_string :: "dec \<Rightarrow> string" where
  "dec_to_plain_string x =
     (let (m, s) = x; w = nat s; t = pad_zero (w + 1) (nat_str (nat \<bar>m\<bar>)) in
      (if m < 0 then ''-'' else '''') @
      (if s \<le> 0 then nat_str (nat \<bar>m\<bar>) @ (if m = 0 then '''' else replicate (nat (- s)) (CHR ''0''))
       else take (length t - w) t @ ''.'' @ drop (length t - w) t))"

definition dec_from_str :: "string \<Rightarrow> dec option" where
  "dec_from_str t =
     (let (neg, u) = (case t of [] \<Rightarrow> (False, t)
                      | c # u \<Rightarrow> if c = CHR ''-'' then (True, u) else (False, t));
          (a, f) = (case split_at (CHR ''.'') u of Some (a, f) \<Rightarrow> (a, f) | None \<Rightarrow> (u, ''''));
          m = int (digits_val (a @ f)) in
      if list_all is_ascii_digit (a @ f) \<and> a @ f \<noteq> '''' then
        Some (if neg then - m else m, int (length f))
      else None)"

fun div_round :: "rounding \<Rightarrow> int \<Rightarrow> int \<Rightarrow> int" where
  "div_round Floor m d = m div d"
| "div_round Ceiling m d = - ((- m) div d)"
| "div_round Down m d = sgn m * (\<bar>m\<bar> div d)"
| "div_round HalfUp m d = sgn m * ((2 * \<bar>m\<bar> + d) div (2 * d))"
| "div_round HalfEven m d =
     (let q = m div d; r = 2 * (m mod d) in
      if r < d \<or> (r = d \<and> even q) then q else q + 1)"

definition dec_with_scale_round :: "dec \<Rightarrow> int \<Rightarrow> rounding \<Rightarrow> dec" where
  "dec_with_scale_round x k r =
     (if snd x \<le> k then (fst x * pow10 (k - snd x), k)
      else (div_round r (fst x) (pow10 (snd x - k)), k))"

lemma strip_zeros_normal:
  assumes "strip_zeros m s = (m', s')"
  shows "m' = 0 \<and> s' = 0 \<and> m = 0 \<or> m' mod 10 \<noteq> 0 \<and> s' \<le> s \<and> m = m' * pow10 (s - s')"
  using assms
proof (induction m s arbitrary: m' s' rule: strip_zeros.induct)
  case (1 m s)
  show ?case
  proof (cases "m \<noteq> 0 \<and> m mod 10 = 0")
    case True
    then have "strip_zeros (m div 10) (s - 1) = (m', s')"
      using "1.prems" strip_zeros.simps [of m s] by simp
    then have "m' mod 10 \<noteq> 0 \<and> s' \<le> s - 1 \<and> m div 10 = m' * pow10 (s - 1 - s')"
      using "1.IH" True by fastforce
    moreover from this have "pow10 (s - s') = 10 * pow10 (s - 1 - s')"
      by (simp add: pow10_def Suc_nat_eq_nat_zadd1 flip: power_Suc)
    ultimately show ?thesis using True by auto
  next
    case False
    then show ?thesis using "1.prems" strip_zeros.simps [of m s] by (auto simp: pow10_def split: if_splits)
  qed
qed

lemma pow10_pos [simp]: "0 < pow10 k"
  by (simp add: pow10_def)

lemma pow10_add: "0 \<le> a \<Longrightarrow> 0 \<le> b \<Longrightarrow> pow10 (a + b) = pow10 a * pow10 b"
  by (simp add: pow10_def nat_add_distrib power_add)

lemma pow10_mod: "0 < k \<Longrightarrow> (m * pow10 k) mod 10 = 0"
  by (cases "nat k") (auto simp: pow10_def)

text \<open>The value of a decimal, as a fraction: two decimals are equal when their values are.\<close>

definition dec_val :: "dec \<Rightarrow> rat" where
  "dec_val x = of_int (fst x) * 10 powi (- snd x)"

lemma pow10_rat: "of_int (pow10 k) = (10 :: rat) powi max k 0"
  by (auto simp: pow10_def power_int_def max_def)

lemma cross_rat:
  "of_int (fst x * pow10 (snd y - snd x)) = dec_val x * 10 powi (max (snd x) (snd y))"
  by (simp add: dec_val_def pow10_rat max_def mult.assoc flip: power_int_add)

lemma dec_cmp_val: "dec_cmp x y = cmp_of (dec_val x) (dec_val y)"
proof -
  let ?u = "(10 :: rat) powi (max (snd x) (snd y))"
  have "dec_cmp x y = cmp_of (of_int (fst x * pow10 (snd y - snd x)) :: rat)
      (of_int (fst y * pow10 (snd x - snd y)))"
    by (simp add: dec_cmp_def cmp_of_def del: of_int_mult)
  also have "\<dots> = cmp_of (dec_val x * ?u) (dec_val y * ?u)"
    by (simp only: cross_rat max.commute [of "snd y"])
  also have "\<dots> = cmp_of (dec_val x) (dec_val y)" by (simp add: cmp_of_def)
  finally show ?thesis .
qed

lemma dec_normalized_val: "dec_val (dec_normalized x) = dec_val x"
proof -
  obtain m s where n: "strip_zeros (fst x) (snd x) = (m, s)" by fastforce
  then have d: "dec_normalized x = (m, s)" by (simp add: dec_normalized_def)
  from strip_zeros_normal [OF n] show ?thesis
  proof
    assume "m mod 10 \<noteq> 0 \<and> s \<le> snd x \<and> fst x = m * pow10 (snd x - s)"
    then show ?thesis
      by (simp add: d dec_val_def pow10_rat mult.assoc flip: power_int_add)
  qed (simp add: d dec_val_def)
qed

lemma dec_normalized_eq: "dec_normalized x = dec_normalized y \<longleftrightarrow> dec_val x = dec_val y"
proof
  assume v: "dec_val x = dec_val y"
  obtain m s where n: "dec_normalized x = (m, s)" by fastforce
  obtain m' s' where n': "dec_normalized y = (m', s')" by fastforce
  have "dec_val (m, s) = dec_val (m', s')" using v dec_normalized_val n n' by metis
  then have "dec_cmp (m, s) (m', s') = Equal" by (simp add: dec_cmp_val)
  then have eq: "m * pow10 (s' - s) = m' * pow10 (s - s')" by (simp add: dec_cmp_def)
  have normal: "m = 0 \<and> s = 0 \<or> m mod 10 \<noteq> 0" "m' = 0 \<and> s' = 0 \<or> m' mod 10 \<noteq> 0"
    using strip_zeros_normal [of "fst x" "snd x" m s] strip_zeros_normal [of "fst y" "snd y" m' s'] n n'
    by (auto simp: dec_normalized_def)
  consider "s = s'" | "s < s'" | "s' < s" by linarith
  then have "(m, s) = (m', s')"
  proof cases
    case 1
    then show ?thesis using eq by (simp add: pow10_def)
  next
    case 2
    then have "m' mod 10 = 0" using eq pow10_mod [of "s' - s" m] by (simp add: pow10_def)
    then show ?thesis using normal eq 2 by (auto simp: pow10_def)
  next
    case 3
    then have "m mod 10 = 0" using eq pow10_mod [of "s - s'" m'] by (simp add: pow10_def)
    then show ?thesis using normal eq 3 by (auto simp: pow10_def)
  qed
  then show "dec_normalized x = dec_normalized y" using n n' by simp
qed (metis dec_normalized_val)

lemma dec_to_string_inj: "dec_to_string x = dec_to_string y \<longleftrightarrow> x = y"
proof -
  have "CHR ''e'' \<notin> set (int_str i)" for i using int_str_chars [of "CHR ''e''" i] by (auto simp: is_ascii_digit_def code_def)
  then show ?thesis by (simp add: dec_to_string_def append_sep_eq int_str_inj prod_eq_iff)
qed

lemma dec_to_string_printable: "CHR 0x01 \<notin> set (dec_to_string x)"
  using int_str_chars [of "CHR 0x01"] by (auto simp: dec_to_string_def)

section \<open>Days and instants\<close>

text \<open>The day number of a date and the date of a day number; a year starts in March here, so that
  the leap day is the last one.\<close>

definition days_from_civil :: "int \<Rightarrow> nat \<Rightarrow> nat \<Rightarrow> int" where
  "days_from_civil y m d =
     (let y' = (if m \<le> 2 then y - 1 else y); era = y' div 400; yoe = y' mod 400;
          mp = (int m + 9) mod 12; doy = (153 * mp + 2) div 5 + int d - 1;
          doe = yoe * 365 + yoe div 4 - yoe div 100 + doy in
      era * 146097 + doe - 719468)"

definition civil_from_days :: "int \<Rightarrow> int \<times> nat \<times> nat" where
  "civil_from_days z =
     (let w = z + 719468; era = w div 146097; doe = w mod 146097;
          yoe = (doe - doe div 1460 + doe div 36524 - doe div 146096) div 365;
          doy = doe - (365 * yoe + yoe div 4 - yoe div 100); mp = (5 * doy + 2) div 153;
          d = doy - (153 * mp + 2) div 5 + 1; m = (if mp < 10 then mp + 3 else mp - 9) in
      (yoe + era * 400 + (if m \<le> 2 then 1 else 0), nat m, nat d))"

definition days_in_month :: "int \<Rightarrow> nat \<Rightarrow> nat" where
  "days_in_month y m =
     (if m \<in> {4, 6, 9, 11} then 30
      else if m \<noteq> 2 then 31
      else if y mod 4 = 0 \<and> (y mod 100 \<noteq> 0 \<or> y mod 400 = 0) then 29 else 28)"

definition valid_ymd :: "int \<Rightarrow> nat \<Rightarrow> nat \<Rightarrow> bool" where
  "valid_ymd y m d \<longleftrightarrow> 1 \<le> m \<and> m \<le> 12 \<and> 1 \<le> d \<and> d \<le> days_in_month y m"

definition nanos :: int where
  "nanos = 1000000000"

definition day_nanos :: int where
  "day_nanos = 86400 * nanos"

definition the_day :: "int \<Rightarrow> int" where
  "the_day t = t div day_nanos"

definition sec_of_day :: "int \<Rightarrow> int" where
  "sec_of_day t = t mod day_nanos div nanos"

definition clock_ext :: "(dec, int, int) ext" where
  "clock_ext =
     \<lparr>bd_from_str = dec_from_str, bd_from_int = \<lambda>i. (i, 0), bd_cmp = dec_cmp,
      bd_normalized = dec_normalized, bd_to_string = dec_to_string,
      bd_to_plain_string = dec_to_plain_string, bd_fractional_digit_count = snd,
      bd_with_scale = \<lambda>x k. dec_with_scale_round x k Down,
      bd_with_scale_round = dec_with_scale_round, bd_abs = \<lambda>x. (\<bar>fst x\<bar>, snd x),
      dt_cmp = cmp_of,
      dt_year = \<lambda>t. fst (civil_from_days (the_day t)),
      dt_month = \<lambda>t. fst (snd (civil_from_days (the_day t))),
      dt_day = \<lambda>t. snd (snd (civil_from_days (the_day t))),
      dt_hour = \<lambda>t. nat (sec_of_day t div 3600),
      dt_minute = \<lambda>t. nat (sec_of_day t mod 3600 div 60),
      dt_second = \<lambda>t. nat (sec_of_day t mod 60),
      dt_nanosecond = \<lambda>t. nat (t mod nanos),
      dt_ordinal = \<lambda>t. nat (the_day t - days_from_civil (fst (civil_from_days (the_day t))) 1 1 + 1),
      dt_days_from_monday = \<lambda>t. nat ((the_day t + 3) mod 7),
      dt_days_from_sunday = \<lambda>t. nat ((the_day t + 4) mod 7),
      dt_to_string = int_str,
      dt_timestamp = \<lambda>t. t div nanos,
      dt_subsec_nanos = \<lambda>t. nat (t mod nanos),
      dt_date = the_day,
      dt_with_nanosecond =
        \<lambda>t n. if n < 2000000000 then Some (t - t mod nanos + int n) else None,
      dt_add_seconds = \<lambda>t s. Some (t + s * nanos),
      date_from_ymd = \<lambda>y m d. if valid_ymd y m d then Some (days_from_civil y m d) else None,
      date_pred = \<lambda>a. Some (a - 1),
      date_sub_days = \<lambda>a k. Some (a - k),
      date_day = \<lambda>a. snd (snd (civil_from_days a)),
      date_and_hms_nano = \<lambda>a h mi s n.
        if h < 24 \<and> mi < 60 \<and> s < 60 \<and> n < 2000000000
        then Some (a * day_nanos + (int h * 3600 + int mi * 60 + int s) * nanos + int n) else None,
      date_and_time_of = \<lambda>a t. a * day_nanos + t mod day_nanos,
      local_year = 2026\<rparr>"

lemma instant_eq: "(t :: int) div nanos = u div nanos \<and> nat (t mod nanos) = nat (u mod nanos) \<longleftrightarrow> t = u"
proof
  assume "t div nanos = u div nanos \<and> nat (t mod nanos) = nat (u mod nanos)"
  moreover have "0 \<le> t mod nanos" "0 \<le> u mod nanos" by (simp_all add: nanos_def)
  ultimately have "t div nanos = u div nanos" "t mod nanos = u mod nanos" by auto
  then show "t = u" by (metis div_mult_mod_eq)
qed simp

interpretation clock: lawful_ext clock_ext
proof
  show "bd_cmp clock_ext y x = ord_reverse (bd_cmp clock_ext x y)" for x y
    by (simp add: clock_ext_def dec_cmp_val) (rule cmp_of_reverse)
  show "dt_cmp clock_ext e d = ord_reverse (dt_cmp clock_ext d e)" for d e
    by (simp add: clock_ext_def) (rule cmp_of_reverse)
  show "dt_timestamp clock_ext d = dt_timestamp clock_ext e \<and>
      dt_subsec_nanos clock_ext d = dt_subsec_nanos clock_ext e \<longleftrightarrow> dt_cmp clock_ext d e = Equal" for d e
    by (simp add: clock_ext_def instant_eq)
qed (simp_all add: clock_ext_def dec_cmp_val dec_to_string_inj dec_normalized_eq dec_to_string_printable)

section \<open>Properties of values\<close>

text \<open>C34: Two keys of values whose text holds no \<open>U+0001\<close> are the same text exactly when they have the
  same length and are the same values position by position: numbers by their numeric value,
  dates and time stamps by their instant, strings by their bytes.\<close>

theorem key_string_identity:
  assumes "lawful_ext E" and "list_all separable vs" and "list_all separable ws"
  shows "key_string E vs = key_string E ws \<longleftrightarrow> list_all2 (same_value E) vs ws"
  using lawful_ext.key_string_eq [OF assms] .

theorem key_string_identity_witness:
  "key_string clock_ext [Number (10, 1), Varchar2 ''x''] = key_string clock_ext [Number (1, 0), Varchar2 ''x'']"
  using key_string_identity [OF clock.lawful_ext_axioms,
      of "[Number (10, 1), Varchar2 ''x'']" "[Number (1, 0), Varchar2 ''x'']"]
  by (simp add: clock_ext_def dec_cmp_def pow10_def)

text \<open>The hypothesis on \<open>U+0001\<close> is needed: two different two-column keys share one text, so a
  unique constraint over both columns takes one row for a duplicate of the other.\<close>

theorem key_string_collision:
  "key_string E [Varchar2 (''a'' @ [CHR 0x01] @ ''sb''), Varchar2 ''c''] =
   key_string E [Varchar2 ''a'', Varchar2 (''b'' @ [CHR 0x01] @ ''sc'')]"
  by simp

text \<open>Comparing two values the other way round gives the reverse order, and fails in the same
  cases with the same error.\<close>

theorem compare_antisymmetric:
  assumes "lawful_ext E"
  shows "compare E b a fmt = rbind (compare E a b fmt) (\<lambda>r. Inr (map_option ord_reverse r))"
  by (rule lawful_ext.compare_reverse [OF assms])

theorem compare_antisymmetric_witness:
  "compare clock_ext (Number (2, 0)) (Number (15, 1)) '''' = Inr (Some Greater)"
  using compare_antisymmetric [OF clock.lawful_ext_axioms, of "Number (2, 0)" "Number (15, 1)" "''''"]
  by (simp add: compare_def clock_ext_def dec_cmp_def pow10_def cmp_of_def)

end
