(* ===== verification/Table_Invariant.thy ===== *)
theory Table_Invariant
  imports Catalog Decimal_Clock
begin

text \<open>
  The invariant of a stored table and what every operation of \<open>Catalog\<close> does on a table that
  satisfies it. A row's key under a unique constraint is \<open>ukey\<close>; \<open>idx_for\<close> says that an index
  holds exactly the keys of the rows, which makes the keys unique and determines the index. On
  such tables no operation panics, and each has a simple closed form.
\<close>

section \<open>Keys of rows within range\<close>

definition cells :: "nat list \<Rightarrow> ('n, 'd) value list \<Rightarrow> ('n, 'd) value list" where
  "cells cols r = map (\<lambda>c. r ! c) cols"

definition ukey :: "('n, 'd, 'a) ext \<Rightarrow> nat list \<Rightarrow> ('n, 'd) value list \<Rightarrow> string option" where
  "ukey E cols r =
     (if list_all is_null (cells cols r) then None else Some (key_string E (cells cols r)))"

definition fkey :: "('n, 'd, 'a) ext \<Rightarrow> nat list \<Rightarrow> ('n, 'd) value list \<Rightarrow> string option" where
  "fkey E cols r =
     (if list_ex is_null (cells cols r) then None else Some (key_string E (cells cols r)))"

abbreviation in_range :: "nat list \<Rightarrow> nat \<Rightarrow> bool" where
  "in_range cols n \<equiv> \<forall>c \<in> set cols. c < n"

lemma map_rust_index: "in_range cols (length r) \<Longrightarrow> map_rust (index r) cols = Inr (cells cols r)"
  unfolding cells_def by (rule map_rust_pure) (simp add: index_def)

lemma unique_key_ukey: "in_range cols (length r) \<Longrightarrow> unique_key E cols r = Inr (ukey E cols r)"
  by (simp add: unique_key_def ukey_def map_rust_index)

lemma foreign_key_fkey: "in_range cols (length r) \<Longrightarrow> foreign_key E cols r = Inr (fkey E cols r)"
  by (simp add: foreign_key_def fkey_def map_rust_index)

text \<open>A key with no NULL column is indexed under the same text by both kinds of constraint.\<close>

lemma fkey_ukey: "fkey E cols r = Some k \<Longrightarrow> cols \<noteq> [] \<Longrightarrow> ukey E cols r = Some k"
  by (cases cols) (auto simp: fkey_def ukey_def cells_def split: if_splits)

section \<open>Indexes\<close>

definition idx_for ::
  "('n, 'd, 'a) ext \<Rightarrow> nat list \<Rightarrow> (nat \<rightharpoonup> ('n, 'd) value list) \<Rightarrow> (string \<rightharpoonup> nat) \<Rightarrow> bool" where
  "idx_for E cols rm idx \<longleftrightarrow>
     (\<forall>k i. idx k = Some i \<longleftrightarrow> (\<exists>r. rm i = Some r \<and> ukey E cols r = Some k))"

definition ix_add ::
  "('n, 'd, 'a) ext \<Rightarrow> nat list \<Rightarrow> nat \<Rightarrow> ('n, 'd) value list \<Rightarrow> (string \<rightharpoonup> nat) \<Rightarrow> (string \<rightharpoonup> nat)" where
  "ix_add E cols i r idx = (case ukey E cols r of Some k \<Rightarrow> idx(k \<mapsto> i) | None \<Rightarrow> idx)"

definition ix_del ::
  "('n, 'd, 'a) ext \<Rightarrow> nat list \<Rightarrow> ('n, 'd) value list \<Rightarrow> (string \<rightharpoonup> nat) \<Rightarrow> (string \<rightharpoonup> nat)" where
  "ix_del E cols r idx = (case ukey E cols r of Some k \<Rightarrow> idx(k := None) | None \<Rightarrow> idx)"

lemma idx_for_empty: "idx_for E cols Map.empty Map.empty"
  by (simp add: idx_for_def)

lemma idx_forD: "idx_for E cols rm idx \<Longrightarrow> rm i = Some r \<Longrightarrow> ukey E cols r = Some k \<Longrightarrow> idx k = Some i"
  by (auto simp: idx_for_def)

lemma idx_for_unique:
  "idx_for E cols rm idx \<Longrightarrow> rm i = Some r \<Longrightarrow> rm j = Some s \<Longrightarrow>
   ukey E cols r = Some k \<Longrightarrow> ukey E cols s = Some k \<Longrightarrow> i = j"
  by (metis idx_forD option.inject)

lemma idx_for_determined: "idx_for E cols rm idx \<Longrightarrow> idx_for E cols rm idx' \<Longrightarrow> idx = idx'"
  unfolding idx_for_def by (intro ext) (metis not_Some_eq)

lemma idx_for_add:
  assumes "idx_for E cols rm idx" and "rm i = None"
    and "\<And>k. ukey E cols r = Some k \<Longrightarrow> idx k = None"
  shows "idx_for E cols (rm(i \<mapsto> r)) (ix_add E cols i r idx)"
  using assms unfolding idx_for_def ix_add_def
  by (cases "ukey E cols r") (auto, metis option.distinct(1))

lemma idx_for_del:
  assumes "idx_for E cols rm idx" and "rm i = Some r"
  shows "idx_for E cols (rm(i := None)) (ix_del E cols r idx)"
proof (cases "ukey E cols r")
  case None
  then show ?thesis using assms unfolding idx_for_def ix_del_def by auto
next
  case (Some k)
  then show ?thesis
    using assms idx_for_unique [OF assms(1)] unfolding idx_for_def ix_del_def by auto
qed

section \<open>The invariant\<close>

definition con_fits :: "nat \<Rightarrow> ('n, 'd) constraint \<Rightarrow> bool" where
  "con_fits n c =
     (case con_kind c of
        Unique cols _ _ \<Rightarrow> in_range cols n
      | ForeignKey cols _ _ _ \<Rightarrow> in_range cols n
      | _ \<Rightarrow> True)"

definition con_ok ::
  "('n, 'd, 'a) ext \<Rightarrow> (nat \<rightharpoonup> ('n, 'd) value list) \<Rightarrow> ('n, 'd) constraint \<Rightarrow> bool" where
  "con_ok E rm c =
     (case con_kind c of
        Unique cols _ idx \<Rightarrow>
          if con_enabled c then idx_for E cols rm idx else idx = Map.empty
      | _ \<Rightarrow> True)"

abbreviation ncols :: "('n, 'd) table \<Rightarrow> nat" where
  "ncols t \<equiv> length (tab_columns t)"

definition table_ok :: "('n, 'd, 'a) ext \<Rightarrow> ('n, 'd) table \<Rightarrow> bool" where
  "table_ok E t \<longleftrightarrow>
     bt_ok (tab_rows t) \<and>
     (\<forall>r \<in> set (bt_values (tab_rows t)). length r = ncols t) \<and>
     (\<forall>c \<in> set (tab_constraints t). con_fits (ncols t) c \<and> con_ok E (map_of (tab_rows t)) c)"

lemma table_ok_iff:
  "table_ok E t \<longleftrightarrow>
     bt_ok (tab_rows t) \<and>
     (\<forall>i r. map_of (tab_rows t) i = Some r \<longrightarrow> length r = ncols t) \<and>
     (\<forall>c \<in> set (tab_constraints t). con_fits (ncols t) c \<and> con_ok E (map_of (tab_rows t)) c)"
  unfolding table_ok_def by (fastforce simp: bt_get_iff)

lemma table_okD:
  assumes "table_ok E t"
  shows "bt_ok (tab_rows t)"
    and "map_of (tab_rows t) i = Some r \<Longrightarrow> length r = ncols t"
    and "c \<in> set (tab_constraints t) \<Longrightarrow> con_fits (ncols t) c"
    and "c \<in> set (tab_constraints t) \<Longrightarrow> con_ok E (map_of (tab_rows t)) c"
  using assms unfolding table_ok_iff by auto

text \<open>The pure counterparts of the loop bodies.\<close>

definition add_ix ::
  "('n, 'd, 'a) ext \<Rightarrow> nat \<Rightarrow> ('n, 'd) value list \<Rightarrow> ('n, 'd) constraint \<Rightarrow> ('n, 'd) constraint" where
  "add_ix E i r c =
     (case con_kind c of
        Unique cols p idx \<Rightarrow>
          if con_enabled c then c\<lparr>con_kind := Unique cols p (ix_add E cols i r idx)\<rparr> else c
      | _ \<Rightarrow> c)"

definition del_ix ::
  "('n, 'd, 'a) ext \<Rightarrow> ('n, 'd) value list \<Rightarrow> ('n, 'd) constraint \<Rightarrow> ('n, 'd) constraint" where
  "del_ix E r c =
     (case con_kind c of
        Unique cols p idx \<Rightarrow>
          if con_enabled c then c\<lparr>con_kind := Unique cols p (ix_del E cols r idx)\<rparr> else c
      | _ \<Rightarrow> c)"

definition clashes :: "('n, 'd, 'a) ext \<Rightarrow> ('n, 'd) value list \<Rightarrow> ('n, 'd) constraint \<Rightarrow> bool" where
  "clashes E r c =
     (case con_kind c of
        Unique cols _ idx \<Rightarrow> con_enabled c \<and> (\<exists>k. ukey E cols r = Some k \<and> idx k \<noteq> None)
      | _ \<Rightarrow> False)"

lemma constraint_update_same [simp]: "con_kind c = k \<Longrightarrow> c\<lparr>con_kind := k\<rparr> = c"
  by auto

lemma index_constraint_pure:
  "con_fits (length r) c \<Longrightarrow> index_constraint E i r c = Inr (add_ix E i r c)"
  by (auto simp: index_constraint_def add_ix_def con_fits_def unique_key_ukey ix_add_def
      split: constraint_kind.splits option.splits)

lemma unindex_constraint_pure:
  "con_fits (length r) c \<Longrightarrow> unindex_constraint E r c = Inr (del_ix E r c)"
  by (auto simp: unindex_constraint_def del_ix_def con_fits_def unique_key_ukey ix_del_def
      split: constraint_kind.splits option.splits)

lemma check_constraint_pure:
  "con_fits (length r) c \<Longrightarrow>
   check_constraint E r c = (if clashes E r c then Inl (Err (con_name c)) else Inr ())"
  by (auto simp: check_constraint_def clashes_def con_fits_def unique_key_ukey
      split: constraint_kind.splits option.splits)

lemma ix_frame [simp]:
  "con_enabled (add_ix E i r c) = con_enabled c" "con_enabled (del_ix E r c) = con_enabled c"
  "con_name (add_ix E i r c) = con_name c" "con_name (del_ix E r c) = con_name c"
  "con_is_index (add_ix E i r c) = con_is_index c" "con_is_index (del_ix E r c) = con_is_index c"
  "con_fits n (add_ix E i r c) = con_fits n c" "con_fits n (del_ix E r c) = con_fits n c"
  by (auto simp: add_ix_def del_ix_def con_fits_def split: constraint_kind.splits)

lemma con_ok_add:
  "con_ok E rm c \<Longrightarrow> rm i = None \<Longrightarrow> \<not> clashes E r c \<Longrightarrow> con_ok E (rm(i \<mapsto> r)) (add_ix E i r c)"
  by (auto simp: con_ok_def add_ix_def clashes_def split: constraint_kind.splits if_splits
      intro!: idx_for_add)

lemma con_ok_del: "con_ok E rm c \<Longrightarrow> rm i = Some r \<Longrightarrow> con_ok E (rm(i := None)) (del_ix E r c)"
  by (auto simp: con_ok_def del_ix_def split: constraint_kind.splits if_splits intro!: idx_for_del)

lemma del_add_ix:
  "\<not> clashes E r c \<Longrightarrow> del_ix E r (add_ix E i r c) = c"
  by (auto simp: del_ix_def add_ix_def clashes_def ix_add_def ix_del_def fun_upd_idem
      split: constraint_kind.splits option.splits)

text \<open>Two constraints over the same rows that differ in their index only are equal.\<close>

lemma truncate_ix [simp]:
  "truncate_constraint (add_ix E i r c) = truncate_constraint c"
  "truncate_constraint (del_ix E r c) = truncate_constraint c"
  by (auto simp: truncate_constraint_def add_ix_def del_ix_def split: constraint_kind.splits)

lemma truncate_frame [simp]:
  "con_name (truncate_constraint c) = con_name c"
  "con_enabled (truncate_constraint c) = con_enabled c"
  "con_is_index (truncate_constraint c) = con_is_index c"
  "con_fits n (truncate_constraint c) = con_fits n c"
  by (auto simp: truncate_constraint_def con_fits_def split: constraint_kind.splits)

lemma con_ok_determined:
  assumes "con_ok E rm c" and "con_ok E rm d" and "truncate_constraint c = truncate_constraint d"
  shows "c = d"
  using assms
  by (cases c; cases d) (auto simp: truncate_constraint_def con_ok_def dest: idx_for_determined
      split: constraint_kind.splits if_splits)

section \<open>Insert and delete\<close>

lemma find_None: "find P xs = None \<longleftrightarrow> (\<forall>x \<in> set xs. \<not> P x)"
  by (induction xs) auto

lemma find_Some_split:
  "find P xs = Some x \<Longrightarrow> \<exists>us vs. xs = us @ x # vs \<and> P x \<and> (\<forall>u \<in> set us. \<not> P u)"
proof (induction xs)
  case (Cons a xs)
  then show ?case
    by (cases "P a") (auto intro: exI [of _ "[]"], metis append_Cons set_ConsD)
qed simp

lemma each_check:
  "(\<forall>c \<in> set cs. con_fits (length r) c) \<Longrightarrow>
   each (check_constraint E r) cs =
     (case find (clashes E r) cs of Some c \<Rightarrow> Inl (Err (con_name c)) | None \<Rightarrow> Inr ())"
  by (induction cs) (auto simp: check_constraint_pure)

definition put_row ::
  "('n, 'd, 'a) ext \<Rightarrow> nat \<Rightarrow> ('n, 'd) value list \<Rightarrow> ('n, 'd) table \<Rightarrow> ('n, 'd) table" where
  "put_row E i r t =
     t\<lparr>tab_constraints := map (add_ix E i r) (tab_constraints t),
       tab_rows := bt_insert i r (tab_rows t)\<rparr>"

definition drop_row ::
  "('n, 'd, 'a) ext \<Rightarrow> nat \<Rightarrow> ('n, 'd) value list \<Rightarrow> ('n, 'd) table \<Rightarrow> ('n, 'd) table" where
  "drop_row E i r t =
     t\<lparr>tab_constraints := map (del_ix E r) (tab_constraints t),
       tab_rows := bt_remove i (tab_rows t)\<rparr>"

lemma row_frame [simp]:
  "tab_name (put_row E i r t) = tab_name t" "tab_name (drop_row E i r t) = tab_name t"
  "tab_columns (put_row E i r t) = tab_columns t" "tab_columns (drop_row E i r t) = tab_columns t"
  "tab_rows (put_row E i r t) = bt_insert i r (tab_rows t)"
  "tab_rows (drop_row E i r t) = bt_remove i (tab_rows t)"
  "tab_constraints (put_row E i r t) = map (add_ix E i r) (tab_constraints t)"
  "tab_constraints (drop_row E i r t) = map (del_ix E r) (tab_constraints t)"
  by (simp_all add: put_row_def drop_row_def)

lemma table_insert_closed:
  assumes "\<forall>c \<in> set (tab_constraints t). con_fits (ncols t) c" and "length r = ncols t"
  shows "table_insert E t i r =
     (case find (clashes E r) (tab_constraints t) of
        Some c \<Rightarrow> Inl (Err (con_name c))
      | None \<Rightarrow> Inr (put_row E i r t))"
  using assms
  by (simp add: table_insert_def each_check put_row_def index_constraint_pure
      map_rust_pure [where g = "add_ix E i r"] split: option.split)

lemma table_delete_closed:
  assumes "table_ok E t"
  shows "table_delete E t i =
     (case map_of (tab_rows t) i of
        None \<Rightarrow> Inr (t, False)
      | Some r \<Rightarrow> Inr (drop_row E i r t, True))"
  using table_okD [OF assms]
  by (simp add: table_delete_def unindex_def drop_row_def unindex_constraint_pure
      map_rust_pure [where g = "del_ix E r" for r] split: option.split)

lemma put_row_ok:
  assumes ok: "table_ok E t" and "length r = ncols t" and fresh: "map_of (tab_rows t) i = None"
    and "\<forall>c \<in> set (tab_constraints t). \<not> clashes E r c"
  shows "table_ok E (put_row E i r t)"
  using assms table_okD [OF ok] by (auto simp: table_ok_iff intro!: con_ok_add split: if_splits)

lemma drop_row_ok:
  assumes ok: "table_ok E t" and row: "map_of (tab_rows t) i = Some r"
  shows "table_ok E (drop_row E i r t)"
  using assms table_okD [OF ok]
  by (auto simp: table_ok_iff map_of_bt_remove intro!: con_ok_del split: if_splits)

lemma drop_put_row:
  assumes "table_ok E t" and "map_of (tab_rows t) i = None"
    and "\<forall>c \<in> set (tab_constraints t). \<not> clashes E r c"
  shows "drop_row E i r (put_row E i r t) = t"
  using assms table_okD(1) [OF assms(1)]
  by (simp add: drop_row_def put_row_def bt.del_ins del_add_ix cong: map_cong)

text \<open>Tables that agree on everything but their indexes, and are consistent, are equal.\<close>

lemma no_clash_after_drop:
  assumes ok: "table_ok E t" and row: "map_of (tab_rows t) i = Some r"
    and c: "c \<in> set (tab_constraints (drop_row E i r t))"
  shows "\<not> clashes E r c"
proof -
  obtain d where d: "d \<in> set (tab_constraints t)" "c = del_ix E r d" using c by auto
  then show ?thesis
    by (auto simp: clashes_def del_ix_def ix_del_def split: constraint_kind.splits if_splits option.splits)
qed

lemma add_del_ix:
  assumes "con_ok E rm c" and "rm i = Some r"
  shows "add_ix E i r (del_ix E r c) = c"
  using assms
  by (auto simp: add_ix_def del_ix_def ix_add_def ix_del_def con_ok_def fun_upd_idem map_upd_triv
      idx_forD split: constraint_kind.splits option.splits)

lemma put_drop_row:
  assumes "table_ok E t" and "map_of (tab_rows t) i = Some r"
  shows "put_row E i r (drop_row E i r t) = t"
proof -
  have "map (add_ix E i r \<circ> del_ix E r) (tab_constraints t) = tab_constraints t"
    using table_okD(4) [OF assms(1)] assms(2) by (auto intro!: map_idI add_del_ix)
  then show ?thesis
    using assms table_okD(1) [OF assms(1)] by (simp add: drop_row_def put_row_def bt.ins_del)
qed

section \<open>Updating several rows\<close>

type_synonym ('n, 'd) change_list = "(nat \<times> ('n, 'd) value list) list"

definition new_keys :: "('n, 'd, 'a) ext \<Rightarrow> nat list \<Rightarrow> ('n, 'd) change_list \<Rightarrow> string list" where
  "new_keys E cols chs = List.map_filter (\<lambda>(_, r). ukey E cols r) chs"

lemma new_keys_simps [simp]:
  "new_keys E cols [] = []"
  "new_keys E cols ((i, r) # chs) =
     (case ukey E cols r of None \<Rightarrow> new_keys E cols chs | Some k \<Rightarrow> k # new_keys E cols chs)"
  by (simp_all add: new_keys_def map_filter_simps split: option.split)

definition free_of :: "('n, 'd, 'a) ext \<Rightarrow> ('n, 'd) change_list \<Rightarrow> ('n, 'd) constraint \<Rightarrow> bool" where
  "free_of E chs c =
     (case con_kind c of
        Unique cols _ idx \<Rightarrow> con_enabled c \<longrightarrow>
          distinct (new_keys E cols chs) \<and> (\<forall>k \<in> set (new_keys E cols chs). idx k = None)
      | _ \<Rightarrow> True)"

lemma key_conflict_closed:
  "(\<forall>(i, r) \<in> set chs. in_range cols (length r)) \<Longrightarrow>
   key_conflict E cols idx seen chs =
     Inr (\<not> (distinct (new_keys E cols chs) \<and>
             (\<forall>k \<in> set (new_keys E cols chs). idx k = None \<and> k \<notin> set seen)))"
  by (induction E cols idx seen chs rule: key_conflict.induct)
    (auto simp: unique_key_ukey split: option.splits)

lemma find_conflict_closed:
  assumes "\<forall>c \<in> set cs. con_fits n c" and "\<forall>(i, r) \<in> set chs. length r = n"
  shows "find_conflict E chs cs = Inr (map_option con_name (find (\<lambda>c. \<not> free_of E chs c) cs))"
  using assms
proof (induction cs)
  case (Cons c cs)
  show ?case
  proof (cases "con_kind c")
    case (Unique cols p idx)
    have "\<forall>(i, r) \<in> set chs. in_range cols (length r)"
      using Cons.prems Unique by (auto simp: con_fits_def)
    then show ?thesis
      using Cons Unique by (auto simp: free_of_def key_conflict_closed)
  qed (use Cons in \<open>auto simp: free_of_def\<close>)
qed simp

abbreviation add_all ::
  "('n, 'd, 'a) ext \<Rightarrow> ('n, 'd) change_list \<Rightarrow> ('n, 'd) constraint \<Rightarrow> ('n, 'd) constraint" where
  "add_all E chs c \<equiv> fold (\<lambda>(i, r). add_ix E i r) chs c"

abbreviation del_all ::
  "('n, 'd, 'a) ext \<Rightarrow> ('n, 'd) value list list \<Rightarrow> ('n, 'd) constraint \<Rightarrow> ('n, 'd) constraint" where
  "del_all E olds c \<equiv> fold (del_ix E) olds c"

lemma fold_ix_frame [simp]:
  "con_enabled (add_all E chs c) = con_enabled c" "con_enabled (del_all E olds c) = con_enabled c"
  "con_name (add_all E chs c) = con_name c" "con_name (del_all E olds c) = con_name c"
  "con_is_index (add_all E chs c) = con_is_index c" "con_is_index (del_all E olds c) = con_is_index c"
  "con_fits n (add_all E chs c) = con_fits n c" "con_fits n (del_all E olds c) = con_fits n c"
proof -
  have "con_enabled (add_all E chs c) = con_enabled c \<and> con_name (add_all E chs c) = con_name c \<and>
      con_is_index (add_all E chs c) = con_is_index c \<and> con_fits n (add_all E chs c) = con_fits n c"
    by (induction chs arbitrary: c) (auto split: prod.splits)
  moreover have "con_enabled (del_all E olds c) = con_enabled c \<and> con_name (del_all E olds c) = con_name c \<and>
      con_is_index (del_all E olds c) = con_is_index c \<and> con_fits n (del_all E olds c) = con_fits n c"
    by (induction olds arbitrary: c) auto
  ultimately show "con_enabled (add_all E chs c) = con_enabled c"
    "con_enabled (del_all E olds c) = con_enabled c"
    "con_name (add_all E chs c) = con_name c" "con_name (del_all E olds c) = con_name c"
    "con_is_index (add_all E chs c) = con_is_index c"
    "con_is_index (del_all E olds c) = con_is_index c"
    "con_fits n (add_all E chs c) = con_fits n c" "con_fits n (del_all E olds c) = con_fits n c"
    by auto
qed

lemma unindex_closed:
  assumes "\<forall>c \<in> set (tab_constraints t). con_fits (length r) c"
  shows "unindex E r t = Inr (t\<lparr>tab_constraints := map (del_ix E r) (tab_constraints t)\<rparr>)"
  using assms by (simp add: unindex_def unindex_constraint_pure map_rust_pure [where g = "del_ix E r"])

lemma unindex_all_closed:
  assumes "\<forall>c \<in> set (tab_constraints t). con_fits n c" and "\<forall>old \<in> set olds. length old = n"
  shows "unindex_all E olds t =
     Inr (t\<lparr>tab_constraints := map (del_all E olds) (tab_constraints t)\<rparr>)"
  using assms
proof (induction olds arbitrary: t)
  case (Cons old olds)
  then show ?case by (simp add: comp_def unindex_closed)
qed simp

lemma put_rows_closed:
  assumes "\<forall>c \<in> set (tab_constraints t). con_fits n c" and "\<forall>(i, r) \<in> set chs. length r = n"
  shows "put_rows E chs t =
     Inr (t\<lparr>tab_constraints := map (add_all E chs) (tab_constraints t),
            tab_rows := fold (\<lambda>(i, r). bt_insert i r) chs (tab_rows t)\<rparr>)"
  using assms
proof (induction chs arbitrary: t)
  case (Cons a chs)
  then show ?case
    by (cases a) (simp add: index_constraint_pure comp_def
        map_rust_pure [where g = "add_ix E i r" for i r])
qed simp

text \<open>Unindexing the old rows leaves the index of the other rows; indexing rows whose keys are
  free gives the index of all of them.\<close>

lemma con_ok_del_all:
  assumes "con_ok E rm c" and "distinct (map fst ps)" and "\<forall>(i, r) \<in> set ps. rm i = Some r"
  shows "con_ok E (rm |` (- set (map fst ps))) (del_all E (map snd ps) c)"
  using assms
proof (induction ps arbitrary: rm c)
  case (Cons p ps)
  obtain i r where p: "p = (i, r)" by (cases p)
  have "con_ok E (rm(i := None)) (del_ix E r c)"
    using Cons.prems p by (auto intro!: con_ok_del)
  moreover have "\<forall>(j, s) \<in> set ps. (rm(i := None)) j = Some s"
    using Cons.prems p by force
  ultimately have "con_ok E ((rm(i := None)) |` (- set (map fst ps))) (del_all E (map snd ps) (del_ix E r c))"
    using Cons.prems Cons.IH [where rm = "rm(i := None)" and c = "del_ix E r c"]
    by (simp del: fun_upd_apply)
  moreover have "(rm(i := None)) |` (- set (map fst ps)) = rm |` (- set (map fst (p # ps)))"
    using p by (auto simp: restrict_map_def fun_eq_iff)
  ultimately show ?case using p by simp
qed (simp add: restrict_map_def)

lemma free_of_Cons:
  assumes "free_of E ((i, r) # chs) c"
  shows "\<not> clashes E r c" and "free_of E chs (add_ix E i r c)"
  using assms
  by (auto simp: free_of_def clashes_def add_ix_def ix_add_def
      split: constraint_kind.splits option.splits)

lemma con_ok_add_all:
  assumes "con_ok E rm c" and "distinct (map fst chs)" and "\<forall>i \<in> set (map fst chs). rm i = None"
    and "free_of E chs c"
  shows "con_ok E (rm ++ map_of chs) (add_all E chs c)"
  using assms
proof (induction chs arbitrary: rm c)
  case (Cons p chs)
  obtain i r where p: "p = (i, r)" by (cases p)
  have added: "con_ok E (rm(i \<mapsto> r)) (add_ix E i r c)"
    using Cons.prems p free_of_Cons(1) [of E i r chs c] by (auto intro!: con_ok_add)
  have "free_of E chs (add_ix E i r c)" "distinct (map fst chs)"
    "\<forall>j \<in> set (map fst chs). (rm(i \<mapsto> r)) j = None"
    using Cons.prems p free_of_Cons(2) by (auto simp: rev_image_eqI)
  then have "con_ok E (rm(i \<mapsto> r) ++ map_of chs) (add_all E chs (add_ix E i r c))"
    by (intro Cons.IH [OF added])
  moreover have "rm(i \<mapsto> r) ++ map_of chs = rm ++ map_of (p # chs)"
  proof -
    have "map_of chs i = None" using Cons.prems(2) p by (simp add: map_of_eq_None_iff)
    then show ?thesis using p by (auto simp: map_add_def fun_eq_iff split: option.splits)
  qed
  ultimately show ?case using p by (simp only: fold_simps prod.case)
qed simp

definition present :: "('n, 'd) table \<Rightarrow> ('n, 'd) change_list \<Rightarrow> ('n, 'd) change_list" where
  "present t chs = filter (\<lambda>(i, _). bt_has (tab_rows t) i) chs"

definition old_rows :: "('n, 'd) table \<Rightarrow> ('n, 'd) change_list \<Rightarrow> ('n, 'd) change_list" where
  "old_rows t chs = map (\<lambda>(i, _). (i, the (map_of (tab_rows t) i))) (present t chs)"

definition unindexed ::
  "('n, 'd, 'a) ext \<Rightarrow> ('n, 'd) table \<Rightarrow> ('n, 'd) change_list \<Rightarrow> ('n, 'd) constraint list" where
  "unindexed E t chs = map (del_all E (map snd (old_rows t chs))) (tab_constraints t)"

lemma fold_bt_insert_ok: "bt_ok m \<Longrightarrow> bt_ok (fold (\<lambda>(i, r). bt_insert i r) chs m)"
  by (induction chs arbitrary: m) auto

lemma fold_bt_insert_get:
  "distinct (map fst chs) \<Longrightarrow> map_of (fold (\<lambda>(i, r). bt_insert i r) chs m) = map_of m ++ map_of chs"
proof (induction chs arbitrary: m)
  case (Cons p chs)
  then have "map_of chs (fst p) = None" by (simp add: map_of_eq_None_iff)
  with Cons show ?case
    by (cases p) (auto simp: map_add_def fun_eq_iff split: option.splits)
qed simp

lemma fst_old_rows: "map fst (old_rows t chs) = map fst (present t chs)"
  by (simp add: old_rows_def case_prod_unfold comp_def)

lemma old_rows_in: "(i, r) \<in> set (old_rows t chs) \<Longrightarrow> map_of (tab_rows t) i = Some r"
  by (auto simp: old_rows_def present_def)

lemma distinct_present: "distinct (map fst chs) \<Longrightarrow> distinct (map fst (present t chs))"
  by (simp add: present_def distinct_map_filter)

text \<open>\<open>table_update\<close> as one case distinction: which constraint, if any, refuses the new keys.\<close>

definition put_all ::
  "('n, 'd, 'a) ext \<Rightarrow> ('n, 'd) table \<Rightarrow> ('n, 'd) change_list \<Rightarrow> ('n, 'd) change_list \<Rightarrow> ('n, 'd) table" where
  "put_all E t chs rows =
     t\<lparr>tab_constraints := map (add_all E rows) (unindexed E t chs),
       tab_rows := fold (\<lambda>(i, r). bt_insert i r) rows (tab_rows t)\<rparr>"

lemma old_rows_fetched:
  "map_rust (\<lambda>(i, _). unwrap (bt_get (tab_rows t) i)) (present t chs) =
     Inr (map snd (old_rows t chs))"
  unfolding old_rows_def map_map
  by (rule map_rust_pure) (auto simp: present_def unwrap_def)

lemma table_update_closed:
  assumes ok: "table_ok E t" and len: "\<forall>(i, r) \<in> set chs. length r = ncols t"
  shows "table_update E t chs =
     (case find (\<lambda>c. \<not> free_of E (present t chs) c) (unindexed E t chs) of
        Some c \<Rightarrow> Inr (put_all E t chs (old_rows t chs), Some (con_name c))
      | None \<Rightarrow> Inr (put_all E t chs (present t chs), None))"
proof -
  let ?olds = "map snd (old_rows t chs)"
  have fits: "\<forall>c \<in> set (unindexed E t chs). con_fits (ncols t) c"
    using table_okD(3) [OF ok] by (auto simp: unindexed_def)
  have old_len: "\<forall>(i, r) \<in> set (old_rows t chs). length r = ncols t"
    using table_okD(2) [OF ok] old_rows_in by fastforce
  then have olds_len: "\<forall>r \<in> set ?olds. length r = ncols t" by auto
  have new_len: "\<forall>(i, r) \<in> set (present t chs). length r = ncols t"
    using len by (auto simp: present_def)
  have zip: "zip (map fst (present t chs)) ?olds = old_rows t chs"
    by (simp add: zip_map_fst_snd flip: fst_old_rows)
  show ?thesis
    unfolding table_update_def present_def [symmetric] Let_def old_rows_fetched rbind_Inr
    using table_okD(3) [OF ok] fits old_len olds_len new_len zip
    by (auto simp: put_all_def unindexed_def [symmetric]
        unindex_all_closed [where n = "ncols t"] find_conflict_closed [where n = "ncols t"]
        put_rows_closed [where n = "ncols t"] split: option.split)
qed

lemma truncate_fold_ix [simp]:
  "truncate_constraint (add_all E chs c) = truncate_constraint c"
  "truncate_constraint (del_all E olds c) = truncate_constraint c"
proof -
  show "truncate_constraint (add_all E chs c) = truncate_constraint c"
    by (induction chs arbitrary: c) (auto split: prod.splits)
  show "truncate_constraint (del_all E olds c) = truncate_constraint c"
    by (induction olds arbitrary: c) auto
qed

lemma new_keys_iff: "k \<in> set (new_keys E cols chs) \<longleftrightarrow> (\<exists>(i, r) \<in> set chs. ukey E cols r = Some k)"
  by (induction chs) (auto split: option.splits)

lemma new_keys_distinct:
  assumes "\<And>i j r s k. rm i = Some r \<Longrightarrow> rm j = Some s \<Longrightarrow>
      ukey E cols r = Some k \<Longrightarrow> ukey E cols s = Some k \<Longrightarrow> i = j"
    and "distinct (map fst ps)" and "\<forall>(i, r) \<in> set ps. rm i = Some r"
  shows "distinct (new_keys E cols ps)"
  using assms(2,3)
proof (induction ps)
  case (Cons p ps)
  obtain i r where p: "p = (i, r)" by (cases p)
  have "k \<notin> set (new_keys E cols ps)" if "ukey E cols r = Some k" for k
    using assms(1) [OF _ _ that] Cons.prems p
    by (fastforce simp: new_keys_iff rev_image_eqI)
  with Cons p show ?case by (auto split: option.splits)
qed simp

lemma free_of_old:
  assumes c: "con_ok E rm c" and ps: "distinct (map fst ps)" "\<forall>(i, r) \<in> set ps. rm i = Some r"
  shows "free_of E ps (del_all E (map snd ps) c)"
proof (cases "con_kind (del_all E (map snd ps) c)")
  case (Unique cols p idx')
  have t: "truncate_constraint (del_all E (map snd ps) c) = truncate_constraint c" by simp
  have "\<exists>idx. con_kind c = Unique cols p idx"
    using arg_cong [OF t, of con_kind] Unique
    by (auto simp: truncate_constraint_def split: constraint_kind.splits)
  then obtain idx where idx: "con_kind c = Unique cols p idx" by blast
  have "distinct (new_keys E cols ps) \<and> (\<forall>k \<in> set (new_keys E cols ps). idx' k = None)"
    if "con_enabled c"
  proof -
    have ix: "idx_for E cols rm idx" and ix': "idx_for E cols (rm |` (- set (map fst ps))) idx'"
      using c idx that con_ok_del_all [OF c ps] Unique by (auto simp: con_ok_def)
    have "idx' k = None" if "k \<in> set (new_keys E cols ps)" for k
    proof (rule ccontr)
      assume "idx' k \<noteq> None"
      then obtain j s where j: "rm j = Some s" "ukey E cols s = Some k" "j \<notin> set (map fst ps)"
        using ix' by (auto simp: idx_for_def restrict_map_def split: if_splits)
      obtain i r where "(i, r) \<in> set ps" "ukey E cols r = Some k" using \<open>k \<in> _\<close> by (auto simp: new_keys_iff)
      with ps(2) idx_for_unique [OF ix _ j(1) _ j(2)] j(3) show False by (force simp: rev_image_eqI)
    qed
    moreover have "distinct (new_keys E cols ps)"
      by (rule new_keys_distinct [OF _ ps]) (rule idx_for_unique [OF ix])
    ultimately show ?thesis by blast
  qed
  then show ?thesis using Unique by (auto simp: free_of_def)
qed (auto simp: free_of_def)

lemma add_del_all:
  assumes c: "con_ok E rm c" and ps: "distinct (map fst ps)" "\<forall>(i, r) \<in> set ps. rm i = Some r"
  shows "add_all E ps (del_all E (map snd ps) c) = c"
proof (rule con_ok_determined)
  have "con_ok E (rm |` (- set (map fst ps)) ++ map_of ps) (add_all E ps (del_all E (map snd ps) c))"
    by (rule con_ok_add_all [OF con_ok_del_all [OF c ps] ps(1) _ free_of_old [OF c ps]]) auto
  moreover have "rm |` (- set (map fst ps)) ++ map_of ps = rm"
    using ps by (auto simp: fun_eq_iff map_add_def restrict_map_def map_of_eq_None_iff
        split: option.splits dest!: map_of_SomeD)
  ultimately show "con_ok E rm (add_all E ps (del_all E (map snd ps) c))" by simp
qed (use c in simp_all)

text \<open>A refused update puts everything back; an accepted one keeps the invariant.\<close>

lemma fold_bt_insert_same:
  "bt_ok m \<Longrightarrow> \<forall>(i, r) \<in> set ps. map_of m i = Some r \<Longrightarrow> fold (\<lambda>(i, r). bt_insert i r) ps m = m"
  by (induction ps) (auto simp: bt.ins_same)

lemma put_all_old:
  assumes ok: "table_ok E t" and "distinct (map fst chs)"
  shows "put_all E t chs (old_rows t chs) = t"
proof -
  have "distinct (map fst (old_rows t chs))" "\<forall>(i, r) \<in> set (old_rows t chs). map_of (tab_rows t) i = Some r"
    using assms old_rows_in by (auto simp: fst_old_rows distinct_present)
  then have "map (add_all E (old_rows t chs)) (unindexed E t chs) = tab_constraints t"
    "fold (\<lambda>(i, r). bt_insert i r) (old_rows t chs) (tab_rows t) = tab_rows t"
    using table_okD(1,4) [OF ok]
    by (auto simp: unindexed_def comp_def fold_bt_insert_same intro!: map_idI
        add_del_all [where rm = "map_of (tab_rows t)"])
  then show ?thesis by (simp add: put_all_def)
qed

lemma put_all_new_ok:
  assumes ok: "table_ok E t" and dist: "distinct (map fst chs)"
    and len: "\<forall>(i, r) \<in> set chs. length r = ncols t"
    and free: "\<forall>c \<in> set (unindexed E t chs). free_of E (present t chs) c"
  shows "table_ok E (put_all E t chs (present t chs))"
proof -
  let ?ps = "old_rows t chs" and ?new = "present t chs" and ?rm = "map_of (tab_rows t)"
  have ps: "distinct (map fst ?ps)" "\<forall>(i, r) \<in> set ?ps. ?rm i = Some r"
    using dist old_rows_in by (auto simp: fst_old_rows distinct_present)
  have rows: "map_of (tab_rows (put_all E t chs ?new)) = ?rm ++ map_of ?new"
    using dist by (simp add: put_all_def fold_bt_insert_get distinct_present)
  have ids: "?rm |` (- set (map fst ?new)) ++ map_of ?new = ?rm ++ map_of ?new"
    by (auto simp: fun_eq_iff map_add_def restrict_map_def map_of_eq_None_iff split: option.splits)
  have "con_ok E (?rm ++ map_of ?new) (add_all E ?new (del_all E (map snd ?ps) c))"
    if "c \<in> set (tab_constraints t)" for c
    using con_ok_add_all [OF con_ok_del_all [OF table_okD(4) [OF ok that] ps], of ?new] free that dist ids
    by (auto simp: unindexed_def fst_old_rows distinct_present)
  then have cons: "\<forall>c \<in> set (tab_constraints (put_all E t chs ?new)).
      con_fits (ncols t) c \<and> con_ok E (?rm ++ map_of ?new) c"
    using table_okD(3) [OF ok] by (auto simp: put_all_def unindexed_def)
  have "length r = ncols t" if "(?rm ++ map_of ?new) i = Some r" for i r
    using that len table_okD(2) [OF ok, of i r]
    by (auto simp: map_add_Some_iff present_def dest!: map_of_SomeD [of "filter _ _"])
  with cons rows show ?thesis
    using table_okD(1) [OF ok] by (auto simp: table_ok_iff put_all_def fold_bt_insert_ok)
qed

section \<open>When a change is accepted\<close>

text \<open>The rows \<open>rm\<close> satisfy a constraint that is enabled: no two of them have the same key.\<close>

definition keys_unique ::
  "('n, 'd, 'a) ext \<Rightarrow> (nat \<rightharpoonup> ('n, 'd) value list) \<Rightarrow> ('n, 'd) constraint \<Rightarrow> bool" where
  "keys_unique E rm c =
     (case con_kind c of
        Unique cols _ _ \<Rightarrow> con_enabled c \<longrightarrow>
          (\<forall>i j r s k. rm i = Some r \<and> rm j = Some s \<and>
             ukey E cols r = Some k \<and> ukey E cols s = Some k \<longrightarrow> i = j)
      | _ \<Rightarrow> True)"

lemma con_ok_keys_unique: "con_ok E rm c \<Longrightarrow> keys_unique E rm c"
  by (auto simp: con_ok_def keys_unique_def dest: idx_for_unique split: constraint_kind.splits)

lemma keys_unique_truncate: "keys_unique E rm (truncate_constraint c) = keys_unique E rm c"
  by (auto simp: keys_unique_def truncate_constraint_def split: constraint_kind.splits)

lemma keys_unique_cong:
  "truncate_constraint c = truncate_constraint d \<Longrightarrow> keys_unique E rm c = keys_unique E rm d"
  by (metis keys_unique_truncate)

lemma keys_unique_same:
  "con_kind c = Unique cols p idx \<Longrightarrow> con_kind d = Unique cols q idx' \<Longrightarrow> con_enabled c \<Longrightarrow>
   keys_unique E rm c \<Longrightarrow> keys_unique E rm d"
  by (simp add: keys_unique_def)

lemma free_of_iff:
  assumes c: "con_ok E rm c" and new: "distinct (map fst chs)" "\<forall>i \<in> set (map fst chs). rm i = None"
  shows "free_of E chs c \<longleftrightarrow> keys_unique E (rm ++ map_of chs) c"
proof
  assume "free_of E chs c"
  from con_ok_keys_unique [OF con_ok_add_all [OF c new this]]
  show "keys_unique E (rm ++ map_of chs) c" by (rule keys_unique_cong [THEN iffD1, rotated]) simp
next
  assume u: "keys_unique E (rm ++ map_of chs) c"
  have rows: "\<forall>(i, r) \<in> set chs. (rm ++ map_of chs) i = Some r" using new(1) by auto
  show "free_of E chs c"
  proof (cases "con_kind c")
    case (Unique cols p idx)
    have "distinct (new_keys E cols chs) \<and> (\<forall>k \<in> set (new_keys E cols chs). idx k = None)"
      if en: "con_enabled c"
    proof -
      have un: "i = j" if "(rm ++ map_of chs) i = Some r" "(rm ++ map_of chs) j = Some s"
        "ukey E cols r = Some k" "ukey E cols s = Some k" for i j r s k
        using u Unique en that by (auto simp: keys_unique_def)
      have "idx k = None" if "(i, r) \<in> set chs" "ukey E cols r = Some k" for i r k
      proof (rule ccontr)
        assume "idx k \<noteq> None"
        then obtain j s where j: "rm j = Some s" "ukey E cols s = Some k"
          using c Unique en by (auto simp: con_ok_def idx_for_def)
        then have "(rm ++ map_of chs) j = Some s"
          using new(2) by (force simp: map_add_Some_iff map_of_eq_None_iff)
        moreover have "(rm ++ map_of chs) i = Some r" using rows that(1) by auto
        ultimately have "i = j" by (intro un [OF _ _ that(2) j(2)])
        with j new(2) that show False by force
      qed
      moreover have "distinct (new_keys E cols chs)"
        by (rule new_keys_distinct [OF _ new(1) rows]) (rule un)
      ultimately show ?thesis by (auto simp: new_keys_iff)
    qed
    with Unique show ?thesis by (auto simp: free_of_def)
  qed (auto simp: free_of_def)
qed

lemma clashes_iff:
  assumes "con_ok E rm c" and "rm i = None"
  shows "\<not> clashes E r c \<longleftrightarrow> keys_unique E (rm(i \<mapsto> r)) c"
proof -
  have "free_of E [(i, r)] c \<longleftrightarrow> \<not> clashes E r c"
    by (auto simp: free_of_def clashes_def split: constraint_kind.splits option.splits)
  with free_of_iff [OF assms(1), of "[(i, r)]"] assms(2) show ?thesis by simp
qed

lemma unindexed_free_iff:
  assumes ok: "table_ok E t" and dist: "distinct (map fst chs)" and c: "c \<in> set (tab_constraints t)"
  shows "free_of E (present t chs) (del_all E (map snd (old_rows t chs)) c) \<longleftrightarrow>
    keys_unique E (map_of (tab_rows t) ++ map_of (present t chs)) c"
proof -
  let ?rm = "map_of (tab_rows t)" and ?new = "present t chs"
  have ps: "distinct (map fst (old_rows t chs))" "\<forall>(i, r) \<in> set (old_rows t chs). ?rm i = Some r"
    using dist old_rows_in by (auto simp: fst_old_rows distinct_present)
  have "?rm |` (- set (map fst ?new)) ++ map_of ?new = ?rm ++ map_of ?new"
    by (auto simp: fun_eq_iff map_add_def restrict_map_def map_of_eq_None_iff split: option.splits)
  with free_of_iff [OF con_ok_del_all [OF table_okD(4) [OF ok c] ps], of ?new]
  show ?thesis
    using dist by (simp add: fst_old_rows distinct_present keys_unique_cong [OF truncate_fold_ix(2)])
qed

section \<open>Building and switching indexes\<close>

lemma con_ok_truncate: "con_ok E Map.empty (truncate_constraint c)"
  by (auto simp: con_ok_def truncate_constraint_def idx_for_empty split: constraint_kind.splits)

lemma truncate_ok: "table_ok E t \<Longrightarrow> table_ok E (table_truncate t)"
  using con_ok_truncate by (auto simp: table_ok_iff table_truncate_def)

lemma build_index_closed:
  "\<forall>(i, r) \<in> set rows. in_range cols (length r) \<Longrightarrow>
   build_index E cols rows idx =
     (if distinct (new_keys E cols rows) \<and> (\<forall>k \<in> set (new_keys E cols rows). idx k = None)
      then Inr (fold (\<lambda>(i, r). ix_add E cols i r) rows idx) else Inl (Err ()))"
  by (induction E cols rows idx rule: build_index.induct)
    (auto simp: unique_key_ukey ix_add_def split: option.splits)

definition unique_constraint ::
  "string \<Rightarrow> nat list \<Rightarrow> bool \<Rightarrow> bool \<Rightarrow> bool \<Rightarrow> ('n, 'd) constraint" where
  "unique_constraint n cols primary is_index enabled =
     \<lparr>con_name = n, con_kind = Unique cols primary Map.empty, con_is_index = is_index,
       con_enabled = enabled\<rparr>"

lemma fold_add_unique:
  "con_enabled c \<Longrightarrow> con_kind c = Unique cols p idx \<Longrightarrow>
   add_all E rows c = c\<lparr>con_kind := Unique cols p (fold (\<lambda>(i, r). ix_add E cols i r) rows idx)\<rparr>"
  by (induction rows arbitrary: c idx) (auto simp: add_ix_def split: prod.splits)

lemma build_index_ok:
  assumes rows: "bt_ok rows" and len: "\<forall>(i, r) \<in> set rows. in_range cols (length r)"
    and c: "con_kind c = Unique cols p Map.empty" "con_enabled c"
  shows "build_index E cols rows Map.empty =
      (if keys_unique E (map_of rows) c
       then Inr (fold (\<lambda>(i, r). ix_add E cols i r) rows Map.empty) else Inl (Err ()))"
    and "keys_unique E (map_of rows) c \<Longrightarrow>
      idx_for E cols (map_of rows) (fold (\<lambda>(i, r). ix_add E cols i r) rows Map.empty)"
proof -
  have ok: "con_ok E Map.empty c" using c by (simp add: con_ok_def idx_for_empty)
  note iff = free_of_iff [OF ok bt_ok_distinct [OF rows]]
  then show "build_index E cols rows Map.empty =
      (if keys_unique E (map_of rows) c
       then Inr (fold (\<lambda>(i, r). ix_add E cols i r) rows Map.empty) else Inl (Err ()))"
    unfolding build_index_closed [OF len] using c by (auto simp: free_of_def)
  assume "keys_unique E (map_of rows) c"
  then have "con_ok E (Map.empty ++ map_of rows) (add_all E rows c)"
    using iff by (intro con_ok_add_all [OF ok bt_ok_distinct [OF rows]]) auto
  then show "idx_for E cols (map_of rows) (fold (\<lambda>(i, r). ix_add E cols i r) rows Map.empty)"
    using c by (simp add: fold_add_unique con_ok_def)
qed

lemma rows_in_range:
  "table_ok E t \<Longrightarrow> in_range cols (ncols t) \<Longrightarrow>
   \<forall>(i, r) \<in> set (tab_rows t). in_range cols (length r)"
  using table_okD(1,2) by (fastforce simp: bt_get_iff)

lemma add_unique_spec:
  assumes ok: "table_ok E t" and cols: "in_range cols (ncols t)"
  shows "case add_unique E t n cols p x en of
      Inr t' \<Rightarrow> table_ok E t' \<and> tab_rows t' = tab_rows t \<and> tab_columns t' = tab_columns t \<and>
        keys_unique E (map_of (tab_rows t)) (unique_constraint n cols p x en) \<and>
        map truncate_constraint (tab_constraints t') =
          map truncate_constraint (tab_constraints t) @ [unique_constraint n cols p x en]
    | Inl f \<Rightarrow> f = Err () \<and> en \<and>
        \<not> keys_unique E (map_of (tab_rows t)) (unique_constraint n cols p x en)"
proof (cases en)
  case True
  let ?c = "unique_constraint n cols p x en :: ('a, 'b) constraint"
  have c: "con_kind ?c = Unique cols p Map.empty" "con_enabled ?c"
    using True by (simp_all add: unique_constraint_def)
  note build = build_index_ok [OF table_okD(1) [OF ok] rows_in_range [OF ok cols] c, of E]
  show ?thesis
    using build ok cols True
    by (auto simp: add_unique_def table_ok_iff con_ok_def con_fits_def truncate_constraint_def
        unique_constraint_def)
next
  case False
  then show ?thesis
    using ok cols by (auto simp: add_unique_def table_ok_iff con_ok_def con_fits_def
        truncate_constraint_def unique_constraint_def keys_unique_def)
qed

lemma constraint_swap: "c\<lparr>con_enabled := e, con_kind := k\<rparr> = c\<lparr>con_kind := k, con_enabled := e\<rparr>"
  by simp

lemma in_set_list_update: "x \<in> set (xs[i := y]) \<Longrightarrow> x = y \<or> x \<in> set xs"
  using set_update_subset_insert [of xs i y] by blast

lemma table_ok_set_con:
  assumes "table_ok E t" and "con_fits (ncols t) c" and "con_ok E (map_of (tab_rows t)) c"
  shows "table_ok E (t\<lparr>tab_constraints := (tab_constraints t)[i := c]\<rparr>)"
  using assms by (auto simp: table_ok_iff dest!: in_set_list_update)

lemma set_enabled_spec:
  assumes ok: "table_ok E t" and i: "i < length (tab_constraints t)"
  shows "case set_enabled E t i en of
      Inr t' \<Rightarrow> table_ok E t' \<and> tab_rows t' = tab_rows t \<and> tab_columns t' = tab_columns t \<and>
        map truncate_constraint (tab_constraints t') =
          (map truncate_constraint (tab_constraints t))
            [i := truncate_constraint (tab_constraints t ! i)\<lparr>con_enabled := en\<rparr>]
    | Inl f \<Rightarrow> f = Err () \<and> en \<and>
        \<not> keys_unique E (map_of (tab_rows t)) (truncate_constraint (tab_constraints t ! i)\<lparr>con_enabled := True\<rparr>)"
proof -
  let ?c = "tab_constraints t ! i"
  have mem: "?c \<in> set (tab_constraints t)" using i by simp
  have fits: "con_fits (ncols t) ?c" by (rule table_okD(3) [OF ok mem])
  show ?thesis
  proof (cases "con_kind ?c")
    case (Unique cols p idx)
    have cols: "in_range cols (ncols t)" using fits Unique by (simp add: con_fits_def)
    let ?d = "truncate_constraint ?c\<lparr>con_enabled := True\<rparr>"
    have d: "con_kind ?d = Unique cols p Map.empty" "con_enabled ?d"
      using Unique by (simp_all add: truncate_constraint_def)
    note build = build_index_ok [OF table_okD(1) [OF ok] rows_in_range [OF ok cols] d, of E]
    show ?thesis
      using build ok cols Unique i
      by (cases en) (auto simp: set_enabled_def index_def map_update con_fits_def con_ok_def
          truncate_constraint_def constraint_swap intro!: table_ok_set_con)
  qed (use i ok fits in \<open>auto simp: set_enabled_def index_def map_update con_fits_def con_ok_def
        truncate_constraint_def intro!: table_ok_set_con\<close>)
qed

lemma any_rust_pure: "(\<And>x. x \<in> set xs \<Longrightarrow> f x = Inr (P x)) \<Longrightarrow> any_rust f xs = Inr (list_ex P xs)"
  by (induction xs) auto

lemma index_over_Some:
  "index_over cols cs = Some idx \<Longrightarrow>
   \<exists>c \<in> set cs. con_enabled c \<and> (\<exists>p. con_kind c = Unique cols p idx)"
  by (induction cols cs rule: index_over.induct) (auto split: constraint_kind.splits if_splits)

lemma has_key_spec:
  assumes ok: "table_ok E t" and cols: "in_range cols (ncols t)"
  shows "has_key E t cols k =
    Inr (list_ex (\<lambda>r. ukey E cols r = Some k) (bt_values (tab_rows t)))"
proof (cases "index_over cols (tab_constraints t)")
  case None
  have "any_rust (\<lambda>r. rbind (unique_key E cols r) (\<lambda>k'. Inr (k' = Some k))) (bt_values (tab_rows t)) =
      Inr (list_ex (\<lambda>r. ukey E cols r = Some k) (bt_values (tab_rows t)))"
    using rows_in_range [OF ok cols] by (intro any_rust_pure) (auto simp: unique_key_ukey)
  then show ?thesis using None by (simp add: has_key_def)
next
  case (Some idx)
  then have "idx_for E cols (map_of (tab_rows t)) idx"
    using table_okD(4) [OF ok] by (fastforce dest: index_over_Some simp: con_ok_def)
  then have "idx k \<noteq> None \<longleftrightarrow> (\<exists>r \<in> ran (map_of (tab_rows t)). ukey E cols r = Some k)"
    by (auto simp: idx_for_def ran_def)
  then show ?thesis
    using Some table_okD(1) [OF ok] by (simp add: has_key_def list_ex_iff bt_values_ran del: set_map)
qed

lemma delete_after_insert:
  assumes ok: "table_ok E t" and fresh: "map_of (tab_rows t) i = None" and len: "length r = ncols t"
    and ins: "table_insert E t i r = Inr t'"
  shows "table_delete E t' i = Inr (t, True)"
proof -
  have "find (clashes E r) (tab_constraints t) = None" and t': "t' = put_row E i r t"
    using ins table_insert_closed [of t r E i] table_okD(3) [OF ok] len by (auto split: option.splits)
  then have none: "\<forall>c \<in> set (tab_constraints t). \<not> clashes E r c" by (simp add: find_None)
  show ?thesis
    using drop_put_row [OF ok fresh none]
    by (simp add: t' table_delete_closed [OF put_row_ok [OF ok len fresh none]])
qed

lemma insert_after_delete:
  assumes ok: "table_ok E t" and row: "map_of (tab_rows t) i = Some r"
    and del: "table_delete E t i = Inr (t', True)"
  shows "table_insert E t' i r = Inr t"
proof -
  from del row have t': "t' = drop_row E i r t" by (simp add: table_delete_closed [OF ok])
  have "length r = ncols t" using table_okD(2) [OF ok row] .
  moreover have "find (clashes E r) (tab_constraints (drop_row E i r t)) = None"
    unfolding find_None using no_clash_after_drop [OF ok row] by blast
  ultimately show ?thesis
    using table_okD(3) [OF drop_row_ok [OF ok row]] put_drop_row [OF ok row]
    unfolding t' by (simp add: table_insert_closed)
qed

section \<open>Properties of a table\<close>

text \<open>A table with one column that is its primary key, and two rows; the witnesses run on it.\<close>

definition num :: "int \<Rightarrow> (dec, int) value" where
  "num i = Number (i, 0)"

definition numbers :: "(dec, int) table" where
  "numbers =
     \<lparr>tab_name = ''T'',
      tab_columns = [\<lparr>col_name = ''ID'', col_type = NUMBER, col_default = None,
        col_not_null = False, col_identity = False\<rparr>],
      tab_constraints = [\<lparr>con_name = ''PK'',
        con_kind = Unique [0] True
          [key_string clock_ext [num 1] \<mapsto> 1, key_string clock_ext [num 2] \<mapsto> 2],
        con_is_index = False, con_enabled = True\<rparr>],
      tab_rows = [(1, [num 1]), (2, [num 2])]\<rparr>"

lemma num_key: "key_string clock_ext [num i] = key_string clock_ext [num j] \<longleftrightarrow> i = j"
  unfolding clock.key_string_single by (simp add: num_def clock_ext_def dec_cmp_def pow10_def)

lemma num_key_lits:
  "key_string clock_ext [num 1] \<noteq> key_string clock_ext [num 2]"
  "key_string clock_ext [num 1] \<noteq> key_string clock_ext [num 3]"
  "key_string clock_ext [num 2] \<noteq> key_string clock_ext [num 3]"
  by (simp_all add: num_key del: key_string.simps)

lemma numbers_ok: "table_ok clock_ext numbers"
proof -
  have "idx_for clock_ext [0] [1 \<mapsto> [num 1], 2 \<mapsto> [num 2]]
      [key_string clock_ext [num 1] \<mapsto> 1, key_string clock_ext [num 2] \<mapsto> 2]"
    using num_key_lits(1)
    by (auto simp: idx_for_def ukey_def cells_def num_def simp del: key_string.simps split: if_splits)
  then show ?thesis
    by (simp add: numbers_def table_ok_iff bt_ok_def con_fits_def con_ok_def fun_upd_twist
        del: key_string.simps)
qed



text \<open>C13: An \<open>INSERT\<close> of a row under a fresh id never panics; it is refused exactly when the row
  would break an enabled unique constraint, and the constraint reported is the first one it would
  break; otherwise the row is added, no other row changes and the invariant holds.\<close>

theorem table_insert_exact:
  assumes ok: "table_ok E t" and len: "length r = ncols t" and fresh: "bt_get (tab_rows t) i = None"
  shows "case table_insert E t i r of
      Inr t' \<Rightarrow> table_ok E t' \<and> map_of (tab_rows t') = (map_of (tab_rows t))(i \<mapsto> r) \<and>
        (\<forall>c \<in> set (tab_constraints t). keys_unique E ((map_of (tab_rows t))(i \<mapsto> r)) c)
    | Inl f \<Rightarrow> \<exists>cs c ds. tab_constraints t = cs @ c # ds \<and> f = Err (con_name c) \<and>
        \<not> keys_unique E ((map_of (tab_rows t))(i \<mapsto> r)) c \<and>
        (\<forall>d \<in> set cs. keys_unique E ((map_of (tab_rows t))(i \<mapsto> r)) d)"
proof -
  have closed: "table_insert E t i r =
      (case find (clashes E r) (tab_constraints t) of
         Some c \<Rightarrow> Inl (Err (con_name c)) | None \<Rightarrow> Inr (put_row E i r t))"
    using table_insert_closed [of t r E i] table_okD(3) [OF ok] len by blast
  have iff: "clashes E r c \<longleftrightarrow> \<not> keys_unique E ((map_of (tab_rows t))(i \<mapsto> r)) c"
    if "c \<in> set (tab_constraints t)" for c
    using clashes_iff [of E "map_of (tab_rows t)" c i r] table_okD(4) [OF ok that] fresh by blast
  show ?thesis
  proof (cases "find (clashes E r) (tab_constraints t)")
    case None
    with closed have "table_insert E t i r = Inr (put_row E i r t)" by simp
    then show ?thesis
      using None iff put_row_ok [OF ok len fresh] by (auto simp: find_None)
  next
    case (Some c)
    then obtain us vs where split: "tab_constraints t = us @ c # vs" "clashes E r c"
      "\<forall>u \<in> set us. \<not> clashes E r u"
      by (blast dest: find_Some_split)
    then have "\<not> keys_unique E ((map_of (tab_rows t))(i \<mapsto> r)) c"
      "\<forall>u \<in> set us. keys_unique E ((map_of (tab_rows t))(i \<mapsto> r)) u" using iff by auto
    moreover have "table_insert E t i r = Inl (Err (con_name c))" using closed Some by simp
    ultimately show ?thesis using split(1) by auto
  qed
qed

theorem table_insert_exact_witness:
  "case table_insert clock_ext numbers 3 [num 2] of Inr t' \<Rightarrow> False | Inl f \<Rightarrow> f = Err ''PK''"
proof -
  have "\<not> keys_unique clock_ext ((map_of (tab_rows numbers))(3 \<mapsto> [num 2])) (hd (tab_constraints numbers))"
    by (simp add: numbers_def keys_unique_def ukey_def cells_def num_def)
      (rule exI [of _ 2], simp, rule exI [of _ 3], simp)
  then show ?thesis
    using table_insert_exact [OF numbers_ok, of "[num 2]" 3]
    by (auto simp: numbers_def Cons_eq_append_conv split: sum.splits)
qed

text \<open>C14: A delete undoes an insert and an insert undoes a delete: the table is the same again, its
  indexes included.\<close>

theorem insert_delete_inverse:
  assumes ok: "table_ok E t"
  shows "(bt_get (tab_rows t) i = None \<and> length r = ncols t \<and> table_insert E t i r = Inr t' \<longrightarrow>
      table_delete E t' i = Inr (t, True)) \<and>
    (bt_get (tab_rows t) i = Some r \<and> table_delete E t i = Inr (t', True) \<longrightarrow>
      table_insert E t' i r = Inr t)"
  using delete_after_insert [OF ok] insert_after_delete [OF ok] by blast

theorem insert_delete_inverse_witness:
  "\<exists>t'. table_delete clock_ext numbers 2 = Inr (t', True) \<and> table_insert clock_ext t' 2 [num 2] = Inr numbers"
proof -
  have row: "map_of (tab_rows numbers) 2 = Some [num 2]" by (simp add: numbers_def)
  then have "table_delete clock_ext numbers 2 = Inr (drop_row clock_ext 2 [num 2] numbers, True)"
    by (simp add: table_delete_closed [OF numbers_ok])
  then show ?thesis using insert_delete_inverse [OF numbers_ok] row by blast
qed

text \<open>C15: \<open>has_key\<close>, which answers from an index when there is one over exactly the columns asked
  for, answers whether some row has the key: going through an index never changes the answer.\<close>

theorem has_key_scan:
  assumes "table_ok E t" and "in_range cols (ncols t)"
  shows "has_key E t cols k = Inr (\<exists>r \<in> ran (map_of (tab_rows t)). ukey E cols r = Some k)"
  using has_key_spec [OF assms, of k] table_okD(1) [OF assms(1)]
  by (simp add: list_ex_iff bt_values_ran del: set_map)

theorem has_key_scan_witness:
  "has_key clock_ext numbers [0] (key_string clock_ext [num 2]) =
     Inr (\<exists>r \<in> ran (map_of (tab_rows numbers)). ukey clock_ext [0] r = Some (key_string clock_ext [num 2]))"
  by (rule has_key_scan [OF numbers_ok]) (simp add: numbers_def)

text \<open>Adding a unique constraint over the rows already there succeeds exactly when no two of them
  have the same key (a disabled constraint always), leaves the rows and the other constraints
  alone and keeps the invariant: the new index holds exactly the keys of the rows.\<close>

theorem add_unique_exact:
  assumes "table_ok E t" and "in_range cols (ncols t)"
  shows "case add_unique E t n cols p x en of
      Inr t' \<Rightarrow> table_ok E t' \<and> tab_rows t' = tab_rows t \<and> tab_columns t' = tab_columns t \<and>
        keys_unique E (map_of (tab_rows t)) (unique_constraint n cols p x en) \<and>
        map truncate_constraint (tab_constraints t') =
          map truncate_constraint (tab_constraints t) @ [unique_constraint n cols p x en]
    | Inl f \<Rightarrow> f = Err () \<and> en \<and>
        \<not> keys_unique E (map_of (tab_rows t)) (unique_constraint n cols p x en)"
  by (rule add_unique_spec [OF assms])

theorem add_unique_exact_witness:
  "\<exists>t'. add_unique clock_ext numbers ''U'' [0] False False True = Inr t' \<and> table_ok clock_ext t'"
proof -
  have "hd (tab_constraints numbers) \<in> set (tab_constraints numbers)" by (simp add: numbers_def)
  from con_ok_keys_unique [OF table_okD(4) [OF numbers_ok this]]
  have "keys_unique clock_ext (map_of (tab_rows numbers)) (unique_constraint ''U'' [0] False False True)"
    by (rule keys_unique_same [rotated -1, where cols = "[0]" and q = False and idx' = Map.empty])
      (simp_all add: numbers_def unique_constraint_def)
  moreover have "in_range [0] (ncols numbers)" by (simp add: numbers_def)
  ultimately show ?thesis
    using add_unique_exact [OF numbers_ok, where cols = "[0]" and n = "''U''" and p = False and
        x = False and en = True]
    by (cases "add_unique clock_ext numbers ''U'' [0] False False True") auto
qed

text \<open>Enabling or disabling a constraint keeps the rows and the invariant: disabling drops the
  index, enabling builds it anew and is refused exactly when two rows have the same key.\<close>

theorem set_enabled_exact:
  assumes "table_ok E t" and "i < length (tab_constraints t)"
  shows "case set_enabled E t i en of
      Inr t' \<Rightarrow> table_ok E t' \<and> tab_rows t' = tab_rows t \<and> tab_columns t' = tab_columns t \<and>
        map truncate_constraint (tab_constraints t') =
          (map truncate_constraint (tab_constraints t))
            [i := truncate_constraint (tab_constraints t ! i)\<lparr>con_enabled := en\<rparr>]
    | Inl f \<Rightarrow> f = Err () \<and> en \<and>
        \<not> keys_unique E (map_of (tab_rows t)) (truncate_constraint (tab_constraints t ! i)\<lparr>con_enabled := True\<rparr>)"
  by (rule set_enabled_spec [OF assms])

theorem set_enabled_exact_witness:
  "\<exists>t'. set_enabled clock_ext numbers 0 False = Inr t' \<and> table_ok clock_ext t'"
proof -
  have "0 < length (tab_constraints numbers)" by (simp add: numbers_def)
  from set_enabled_exact [OF numbers_ok this, of False] show ?thesis
    by (cases "set_enabled clock_ext numbers 0 False") auto
qed

end
