(* ===== verification/Database.thy ===== *)
theory Database
  imports Table_Invariant
begin

text \<open>
  The shared state of \<open>crates/mock-oracle-core/src/lib.rs\<close>: the committed catalog, the counters
  for row ids and system constraint names, the identity columns and the sequences, with snapshot,
  restore and reset. Locks are taken for one operation at a time, so an operation is one step on
  the record; the atomic counters are natural numbers (a \<open>u64\<close> counted up from one).
  The definition of a sequence by \<open>CREATE\<close> and \<open>ALTER SEQUENCE\<close> (\<open>session.rs\<close>) is here too. An
  \<open>i128\<close> is an \<open>int\<close> with its bounds written out where the code saturates or overflows.
\<close>

record ('n, 'd) snapshot_state =
  snap_catalog :: "('n, 'd) catalog"
  snap_identities :: "string \<rightharpoonup> int"
  snap_sequences :: "string \<rightharpoonup> int"

record ('n, 'd) database =
  db_state :: "('n, 'd) catalog"
  db_next_row_id :: nat
  db_next_constraint :: nat
  db_identities :: "string \<rightharpoonup> int"
  db_sequences :: "string \<rightharpoonup> int"

definition database_default :: "('n, 'd) database" where
  "database_default =
     \<lparr>db_state = catalog_default, db_next_row_id = 1, db_next_constraint = 10000,
      db_identities = Map.empty, db_sequences = Map.empty\<rparr>"

section \<open>Snapshots\<close>

definition snapshot :: "('n, 'd) database \<Rightarrow> ('n, 'd) snapshot_state" where
  "snapshot db =
     \<lparr>snap_catalog = db_state db, snap_identities = db_identities db,
      snap_sequences = db_sequences db\<rparr>"

definition restore :: "('n, 'd) snapshot_state \<Rightarrow> ('n, 'd) database \<Rightarrow> ('n, 'd) database" where
  "restore s db =
     db\<lparr>db_state := (snap_catalog s)\<lparr>cat_version := cat_version (db_state db) + 1\<rparr>,
        db_identities := snap_identities s, db_sequences := snap_sequences s\<rparr>"

definition reset :: "('n, 'd) database \<Rightarrow> ('n, 'd) database" where
  "reset db =
     restore \<lparr>snap_catalog = catalog_default, snap_identities = Map.empty,
       snap_sequences = Map.empty\<rparr> db"

section \<open>Counters\<close>

definition next_row_id :: "('n, 'd) database \<Rightarrow> nat \<times> ('n, 'd) database" where
  "next_row_id db = (db_next_row_id db, db\<lparr>db_next_row_id := db_next_row_id db + 1\<rparr>)"

definition next_identity :: "string \<Rightarrow> ('n, 'd) database \<Rightarrow> int \<times> ('n, 'd) database" where
  "next_identity t db =
     (let v = (case db_identities db t of Some v \<Rightarrow> v | None \<Rightarrow> 1) in
      (v, db\<lparr>db_identities := (db_identities db)(t \<mapsto> v + 1)\<rparr>))"

definition constraint_name :: "('n, 'd) database \<Rightarrow> string \<times> ('n, 'd) database" where
  "constraint_name db =
     (''SYS_C'' @ pad_zero 7 (nat_str (db_next_constraint db)),
      db\<lparr>db_next_constraint := db_next_constraint db + 1\<rparr>)"

definition db_routine :: "string \<Rightarrow> ('n, 'd) database \<Rightarrow> ('n, 'd) routine option" where
  "db_routine n db = bt_get (cat_routines (db_state db)) n"

definition db_sequence_def :: "string \<Rightarrow> ('n, 'd) database \<Rightarrow> sequence_def option" where
  "db_sequence_def n db = bt_get (cat_sequences (db_state db)) n"

section \<open>Sequences\<close>

definition I128_MAX :: int where
  "I128_MAX = 2 ^ 127 - 1"

definition I128_MIN :: int where
  "I128_MIN = - (2 ^ 127)"

definition is_i128 :: "int \<Rightarrow> bool" where
  "is_i128 i \<longleftrightarrow> I128_MIN \<le> i \<and> i \<le> I128_MAX"

definition saturating_add :: "int \<Rightarrow> int \<Rightarrow> int" where
  "saturating_add a b = max I128_MIN (min I128_MAX (a + b))"

text \<open>Checked arithmetic: an overflow is a panic.\<close>

definition i128 :: "int \<Rightarrow> ('e, int) rust" where
  "i128 i = (if is_i128 i then Inr i else Inl Panic)"

definition next_sequence ::
  "string \<Rightarrow> sequence_def \<Rightarrow> ('n, 'd) database \<Rightarrow> int ora_result \<times> ('n, 'd) database" where
  "next_sequence name def db =
     (let v = (case db_sequences db name of Some v \<Rightarrow> v | None \<Rightarrow> seq_start def);
          put = (\<lambda>n. db\<lparr>db_sequences := (db_sequences db)(name \<mapsto> n)\<rparr>)
      in if (v > seq_max def \<or> v < seq_min def) \<and> \<not> seq_cycle def then
           (ora_fail 8004 (''sequence '' @ name @ ''.NEXTVAL exceeds '' @
              (if seq_increment def > 0 then ''MAXVALUE'' else ''MINVALUE'') @
              '' and cannot be instantiated''), put v)
         else
           let w = (if v > seq_max def \<or> v < seq_min def then
                      if seq_increment def > 0 then seq_min def else seq_max def
                    else v)
           in (Inr w, put (saturating_add w (seq_increment def))))"

definition set_sequence :: "string \<Rightarrow> int option \<Rightarrow> ('n, 'd) database \<Rightarrow> ('n, 'd) database" where
  "set_sequence name nxt db = db\<lparr>db_sequences := (db_sequences db)(name := nxt)\<rparr>"

definition peek_sequence :: "string \<Rightarrow> ('n, 'd) database \<Rightarrow> int option" where
  "peek_sequence name db = db_sequences db name"

text \<open>The loop of \<open>session.rs\<close>'s \<open>sequence_def\<close> over the options. An option that was not given is
  \<open>None\<close>; \<open>NOMINVALUE\<close> and \<open>NOMAXVALUE\<close> are \<open>Some None\<close>.\<close>

record seq_options =
  so_increment :: int
  so_start :: "int option"
  so_cycle :: bool
  so_min :: "int option option"
  so_max :: "int option option"

fun sequence_options ::
  "bool \<Rightarrow> sequence_option list \<Rightarrow> seq_options \<Rightarrow> seq_options ora_result" where
  "sequence_options altering [] o1 = Inr o1"
| "sequence_options altering (StartWith n # os) o1 =
     (if altering then ora_fail 2283 ''cannot alter starting sequence number''
      else sequence_options altering os (o1\<lparr>so_start := Some n\<rparr>))"
| "sequence_options altering (IncrementBy n # os) o1 =
     (if n = 0 then ora_fail 4002 ''INCREMENT must be a non-zero integer''
      else sequence_options altering os (o1\<lparr>so_increment := n\<rparr>))"
| "sequence_options altering (MinValue n # os) o1 =
     sequence_options altering os (o1\<lparr>so_min := Some n\<rparr>)"
| "sequence_options altering (MaxValue n # os) o1 =
     sequence_options altering os (o1\<lparr>so_max := Some n\<rparr>)"
| "sequence_options altering (Cycle c # os) o1 =
     sequence_options altering os (o1\<lparr>so_cycle := c\<rparr>)"
| "sequence_options altering (Restart _ # os) o1 = sequence_options altering os o1"

definition SEQ_MAX :: int where
  "SEQ_MAX = 9999999999999999999999999999"

definition SEQ_MIN :: int where
  "SEQ_MIN = -999999999999999999999999999"

definition sequence_def ::
  "sequence_def option \<Rightarrow> sequence_option list \<Rightarrow> sequence_def ora_result" where
  "sequence_def old options =
     rbind (sequence_options (old \<noteq> None) options
       \<lparr>so_increment = (case old of Some d \<Rightarrow> seq_increment d | None \<Rightarrow> 1), so_start = None,
        so_cycle = (case old of Some d \<Rightarrow> seq_cycle d | None \<Rightarrow> False),
        so_min = map_option (\<lambda>d. Some (seq_min d)) old,
        so_max = map_option (\<lambda>d. Some (seq_max d)) old\<rparr>) (\<lambda>o1.
     let inc = so_increment o1;
         mn = (case Option.bind (so_min o1) id of Some m \<Rightarrow> m | None \<Rightarrow> if inc > 0 then 1 else SEQ_MIN);
         mx = (case Option.bind (so_max o1) id of Some m \<Rightarrow> m | None \<Rightarrow> if inc > 0 then SEQ_MAX else -1);
         start = (case old of
                    Some d \<Rightarrow> seq_start d
                  | None \<Rightarrow> case so_start o1 of Some s \<Rightarrow> s | None \<Rightarrow> if inc > 0 then mn else mx)
     in if mn \<ge> mx then ora_fail 4028 ''cannot generate internal sequence''
        else if old = None \<and> start < mn then ora_fail 4006 ''START WITH cannot be less than MINVALUE''
        else if old = None \<and> start > mx then ora_fail 4008 ''START WITH cannot be more than MAXVALUE''
        else Inr \<lparr>seq_start = start, seq_increment = inc, seq_min = mn, seq_max = mx,
                  seq_cycle = so_cycle o1\<rparr>)"

text \<open>The part of \<open>ALTER SEQUENCE\<close> that moves the next number; \<open>RESTART\<close> options come last.\<close>

definition alter_next :: "sequence_def \<Rightarrow> sequence_def \<Rightarrow> int option \<Rightarrow> ('e, int option) rust" where
  "alter_next old def nxt =
     (case nxt of
        None \<Rightarrow> Inr None
      | Some n \<Rightarrow>
          rbind (i128 (n - seq_increment old)) (\<lambda>m.
          rbind (i128 (m + seq_increment def)) (\<lambda>k. Inr (Some k))))"

fun restart_next :: "sequence_def \<Rightarrow> sequence_option list \<Rightarrow> int option \<Rightarrow> int option" where
  "restart_next def [] nxt = nxt"
| "restart_next def (Restart r # os) nxt =
     restart_next def os
       (Some (case r of Some n \<Rightarrow> n
              | None \<Rightarrow> if seq_increment def > 0 then seq_min def else seq_max def))"
| "restart_next def (_ # os) nxt = restart_next def os nxt"

section \<open>What a sequence hands out\<close>

definition seq_ok :: "sequence_def \<Rightarrow> bool" where
  "seq_ok d \<longleftrightarrow> seq_increment d \<noteq> 0 \<and> seq_min d < seq_max d \<and>
     seq_min d \<le> seq_start d \<and> seq_start d \<le> seq_max d"

abbreviation in_seq :: "sequence_def \<Rightarrow> int \<Rightarrow> bool" where
  "in_seq d v \<equiv> seq_min d \<le> v \<and> v \<le> seq_max d"

definition exhausted :: "string \<Rightarrow> sequence_def \<Rightarrow> ora_error" where
  "exhausted name def = ora 8004 (''sequence '' @ name @ ''.NEXTVAL exceeds '' @
     (if seq_increment def > 0 then ''MAXVALUE'' else ''MINVALUE'') @
     '' and cannot be instantiated'')"

text \<open>The results of the first \<open>k\<close> calls of \<open>NEXTVAL\<close>.\<close>

fun draws ::
  "nat \<Rightarrow> string \<Rightarrow> sequence_def \<Rightarrow> ('n, 'd) database \<Rightarrow> int ora_result list" where
  "draws 0 name def db = []"
| "draws (Suc k) name def db =
     (let (r, db') = next_sequence name def db in r # draws k name def db')"

lemma sequence_options_increment:
  "sequence_options alt os o1 = Inr o2 \<Longrightarrow> so_increment o1 \<noteq> 0 \<Longrightarrow> so_increment o2 \<noteq> 0"
  by (induction alt os o1 rule: sequence_options.induct) (auto split: if_splits)

lemma sequence_def_ok:
  assumes "sequence_def old options = Inr d" and "\<And>x. old = Some x \<Longrightarrow> seq_increment x \<noteq> 0"
  shows "seq_increment d \<noteq> 0 \<and> seq_min d < seq_max d \<and>
    (case old of None \<Rightarrow> in_seq d (seq_start d) | Some x \<Rightarrow> seq_start d = seq_start x)"
  using assms
  by (auto simp: sequence_def_def rbind_eq_Inr Let_def split: if_splits option.splits
      dest!: sequence_options_increment)

lemma next_sequence_cases:
  assumes "v = (case db_sequences db name of Some v \<Rightarrow> v | None \<Rightarrow> seq_start def)"
  shows "in_seq def v \<Longrightarrow> next_sequence name def db =
      (Inr v, set_sequence name (Some (saturating_add v (seq_increment def))) db)"
    and "\<not> in_seq def v \<Longrightarrow> \<not> seq_cycle def \<Longrightarrow> next_sequence name def db =
      (Inl (Err (exhausted name def)), set_sequence name (Some v) db)"
    and "\<not> in_seq def v \<Longrightarrow> seq_cycle def \<Longrightarrow> next_sequence name def db =
      (let w = if seq_increment def > 0 then seq_min def else seq_max def in
       (Inr w, set_sequence name (Some (saturating_add w (seq_increment def))) db))"
  using assms by (auto simp: next_sequence_def set_sequence_def Let_def exhausted_def)

lemma set_sequence_get [simp]: "db_sequences (set_sequence n v db) = (db_sequences db)(n := v)"
  by (simp add: set_sequence_def)

abbreviation seq_at :: "sequence_def \<Rightarrow> nat \<Rightarrow> int" where
  "seq_at d i \<equiv> seq_start d + int i * seq_increment d"

lemma past_end:
  assumes "seq_ok d" and "\<not> in_seq d (seq_at d i)"
  shows "\<not> in_seq d (seq_at d (Suc i))"
proof -
  consider "seq_increment d > 0" | "seq_increment d < 0" using assms(1) by (force simp: seq_ok_def)
  then show ?thesis
  proof cases
    case 1
    then have "0 \<le> int i * seq_increment d" by simp
    with 1 assms show ?thesis by (auto simp: seq_ok_def distrib_right)
  next
    case 2
    then have "int i * seq_increment d \<le> 0" by (simp add: mult_nonneg_nonpos)
    with 2 assms show ?thesis by (auto simp: seq_ok_def distrib_right)
  qed
qed

lemma saturate_in_seq:
  assumes "I128_MIN < seq_min d" and "seq_max d < I128_MAX" and "seq_min d < seq_max d"
  shows "in_seq d v \<Longrightarrow> saturating_add a b = v \<longleftrightarrow> a + b = v"
    and "in_seq d (saturating_add a b) \<longleftrightarrow> in_seq d (a + b)"
  using assms by (auto simp: saturating_add_def)

lemma draws_from:
  assumes d: "seq_ok d" "\<not> seq_cycle d" "I128_MIN < seq_min d" "seq_max d < I128_MAX"
    and v: "v = (case db_sequences db name of Some v \<Rightarrow> v | None \<Rightarrow> seq_start d)"
    and at: "if in_seq d (seq_at d i) then v = seq_at d i else \<not> in_seq d v"
  shows "draws k name d db =
    map (\<lambda>j. if in_seq d (seq_at d j) then Inr (seq_at d j) else Inl (Err (exhausted name d))) [i..<i + k]"
  using v at
proof (induction k arbitrary: i v db)
  case (Suc k)
  have le: "seq_min d < seq_max d" using d(1) by (simp add: seq_ok_def)
  show ?case
  proof (cases "in_seq d (seq_at d i)")
    case True
    then have v: "v = seq_at d i" using Suc.prems by simp
    let ?db = "set_sequence name (Some (saturating_add v (seq_increment d))) db"
    have "if in_seq d (seq_at d (Suc i)) then saturating_add v (seq_increment d) = seq_at d (Suc i)
        else \<not> in_seq d (saturating_add v (seq_increment d))"
      using saturate_in_seq(1) [OF d(3,4) le, of "seq_at d (Suc i)" v "seq_increment d"]
        saturate_in_seq(2) [OF d(3,4) le, of v "seq_increment d"] v
      by (simp add: algebra_simps)
    then have "draws k name d ?db = map (\<lambda>j. if in_seq d (seq_at d j) then Inr (seq_at d j)
        else Inl (Err (exhausted name d))) [Suc i..<Suc i + k]"
      by (intro Suc.IH [where v = "saturating_add v (seq_increment d)"]) simp_all
    then show ?thesis
      using True v next_sequence_cases(1) [OF Suc.prems(1)]
      by (simp add: upt_conv_Cons del: upt_Suc)
  next
    case False
    then have v: "\<not> in_seq d v" using Suc.prems(2) by presburger
    let ?db = "set_sequence name (Some v) db"
    have "draws k name d ?db = map (\<lambda>j. if in_seq d (seq_at d j) then Inr (seq_at d j)
        else Inl (Err (exhausted name d))) [Suc i..<Suc i + k]"
      using past_end [OF d(1) False] v by (intro Suc.IH [where v = v]) auto
    then show ?thesis
      using False v next_sequence_cases(2) [OF Suc.prems(1) v d(2)]
      by (simp add: upt_conv_Cons del: upt_Suc)
  qed
qed simp

section \<open>Properties\<close>

text \<open>A sequence counting by three up to ten.\<close>

definition by_three :: sequence_def where
  "by_three = \<lparr>seq_start = 1, seq_increment = 3, seq_min = 1, seq_max = 10, seq_cycle = False\<rparr>"



text \<open>C33: Whatever \<open>NEXTVAL\<close> returns is within the bounds of the sequence, a cycling sequence always
  returns, and the only failure is ORA-08004 of a sequence that does not cycle.\<close>

theorem next_sequence_bounds:
  assumes "seq_min d < seq_max d"
  shows "case next_sequence name d db of
      (Inr v, db') \<Rightarrow> in_seq d v \<and>
        db_sequences db' = (db_sequences db)(name \<mapsto> saturating_add v (seq_increment d))
    | (Inl f, db') \<Rightarrow> f = Err (exhausted name d) \<and> \<not> seq_cycle d"
  using assms by (auto simp: next_sequence_def Let_def exhausted_def)

theorem next_sequence_bounds_witness:
  "case next_sequence ''S'' (by_three\<lparr>seq_cycle := True\<rparr>)
      ((database_default :: (dec, int) database)\<lparr>db_sequences := [''S'' \<mapsto> 13]\<rparr>) of
     (Inr v, _) \<Rightarrow> 1 \<le> v \<and> v \<le> 10 | _ \<Rightarrow> False"
  using next_sequence_bounds [of "by_three\<lparr>seq_cycle := True\<rparr>" "''S''"
      "(database_default :: (dec, int) database)\<lparr>db_sequences := [''S'' \<mapsto> 13]\<rparr>"]
  by (simp add: by_three_def split: prod.splits sum.splits)

text \<open>\<open>CREATE SEQUENCE\<close> only makes sequences with a non-zero increment, a minimum below the maximum
  and a start between them; \<open>ALTER SEQUENCE\<close> keeps the first two and never moves the start.\<close>

theorem sequence_def_valid:
  assumes "sequence_def old options = Inr d" and "\<And>x. old = Some x \<Longrightarrow> seq_increment x \<noteq> 0"
  shows "seq_increment d \<noteq> 0 \<and> seq_min d < seq_max d \<and>
    (case old of None \<Rightarrow> seq_ok d | Some x \<Rightarrow> seq_start d = seq_start x)"
  using sequence_def_ok [OF assms] by (auto simp: seq_ok_def split: option.splits)

theorem sequence_def_valid_witness:
  "sequence_def None [IncrementBy (-2), MaxValue (Some 5)] =
     Inr \<lparr>seq_start = 5, seq_increment = -2, seq_min = SEQ_MIN, seq_max = 5, seq_cycle = False\<rparr> \<and>
   seq_ok \<lparr>seq_start = 5, seq_increment = -2, seq_min = SEQ_MIN, seq_max = 5, seq_cycle = False\<rparr>"
proof -
  have "sequence_def None [IncrementBy (-2), MaxValue (Some 5)] =
     Inr \<lparr>seq_start = 5, seq_increment = -2, seq_min = SEQ_MIN, seq_max = 5, seq_cycle = False\<rparr>"
    by (simp add: sequence_def_def SEQ_MIN_def)
  with sequence_def_valid [OF this] show ?thesis by simp
qed

text \<open>With \<open>MAXVALUE\<close> at the end of the \<open>i128\<close> range the saturating addition never leaves the
  bounds: every call returns the maximum again instead of failing with ORA-08004.\<close>

theorem sequence_stuck_at_max:
  assumes "seq_max d = I128_MAX" and "seq_increment d > 0" and "seq_min d < I128_MAX"
    and "db_sequences db name = Some I128_MAX"
  shows "draws k name d db = replicate k (Inr I128_MAX)"
  using assms(4)
proof (induction k arbitrary: db)
  case (Suc k)
  have "saturating_add I128_MAX (seq_increment d) = I128_MAX"
    using assms(2) by (simp add: saturating_add_def I128_MAX_def I128_MIN_def)
  then have "next_sequence name d db = (Inr I128_MAX, set_sequence name (Some I128_MAX) db)"
    using Suc.prems assms(1,3) next_sequence_cases(1) [where v = I128_MAX and db = db and name = name and def = d]
    by simp
  then show ?case using Suc.IH [of "set_sequence name (Some I128_MAX) db"] by simp
qed simp

theorem sequence_stuck_at_max_witness:
  "draws 3 ''S'' (by_three\<lparr>seq_max := I128_MAX\<rparr>)
     ((database_default :: (dec, int) database)\<lparr>db_sequences := [''S'' \<mapsto> I128_MAX]\<rparr>) =
   [Inr I128_MAX, Inr I128_MAX, Inr I128_MAX]"
  using sequence_stuck_at_max [of "by_three\<lparr>seq_max := I128_MAX\<rparr>"
      "(database_default :: (dec, int) database)\<lparr>db_sequences := [''S'' \<mapsto> I128_MAX]\<rparr>" "''S''" 3]
  by (simp add: by_three_def I128_MAX_def numeral_3_eq_3)

end
