(* ===== verification/Env.thy ===== *)
theory Env
  imports Database
begin

text \<open>
  The session settings of \<open>crates/mock-oracle-core/src/eval.rs\<close>'s \<open>Env\<close>, with the cells that
  evaluation changes (\<open>CURRVAL\<close>, the row's sequence values, the call depth), and the buffer of
  \<open>DBMS_OUTPUT\<close> from \<open>plsql/exec.rs\<close>.
\<close>

record dbms_output =
  out_enabled :: bool
  out_lines :: "string list"
  out_partial :: string
  out_bytes :: nat

definition output_default :: dbms_output where
  "output_default = \<lparr>out_enabled = False, out_lines = [], out_partial = [], out_bytes = 0\<rparr>"

definition OUTPUT_LIMIT :: nat where
  "OUTPUT_LIMIT = 1000000"

definition output_put :: "string \<Rightarrow> bool \<Rightarrow> dbms_output \<Rightarrow> unit ora_result \<times> dbms_output" where
  "output_put text end_line o1 =
     (if \<not> out_enabled o1 then (Inr (), o1)
      else
        let o2 = o1\<lparr>out_bytes := out_bytes o1 + length text\<rparr> in
        if out_bytes o2 > OUTPUT_LIMIT then
          (ora_fail 20000 (''ORU-10027: buffer overflow, limit of '' @ nat_str OUTPUT_LIMIT @ '' bytes''), o2)
        else
          let o3 = o2\<lparr>out_partial := out_partial o2 @ text\<rparr> in
          (Inr (),
           if end_line then o3\<lparr>out_lines := out_lines o3 @ [out_partial o3], out_partial := []\<rparr> else o3))"

definition take_line :: "dbms_output \<Rightarrow> string option \<times> dbms_output" where
  "take_line o1 =
     (case out_lines o1 of
        [] \<Rightarrow> (None, o1)
      | l # ls \<Rightarrow> (Some l, o1\<lparr>out_lines := ls, out_bytes := out_bytes o1 - length l\<rparr>))"

record ('d) env =
  env_user :: string
  env_nls_date_format :: string
  env_nls_timestamp_format :: string
  env_tz_offset_minutes :: int
  env_now_utc :: 'd
  env_now_local :: 'd
  env_currval :: "string \<rightharpoonup> int"
  env_output :: dbms_output
  env_depth :: nat
  env_row_sequences :: "string \<rightharpoonup> int"

text \<open>What \<open>chrono::Local::now()\<close> returned: UTC, local time, and the offset in seconds.\<close>

type_synonym 'd clock = "'d \<times> 'd \<times> int"

definition env_new :: "'d clock \<Rightarrow> string \<Rightarrow> 'd env" where
  "env_new now user =
     \<lparr>env_user = to_uppercase user, env_nls_date_format = DEFAULT_DATE_FORMAT,
      env_nls_timestamp_format = DEFAULT_TIMESTAMP_FORMAT,
      env_tz_offset_minutes = (let s = snd (snd now) in if s < 0 then - ((- s) div 60) else s div 60),
      env_now_utc = fst now, env_now_local = fst (snd now), env_currval = Map.empty,
      env_output = output_default, env_depth = 0, env_row_sequences = Map.empty\<rparr>"

definition start_statement :: "'d clock \<Rightarrow> 'd env \<Rightarrow> 'd env" where
  "start_statement now env = env\<lparr>env_now_utc := fst now, env_now_local := fst (snd now)\<rparr>"

definition session_now :: "('n, 'd, 'a) ext \<Rightarrow> 'd env \<Rightarrow> ('e, 'd) rust" where
  "session_now E env = unwrap (dt_add_seconds E (env_now_utc env) (env_tz_offset_minutes env * 60))"

end
