(* ===== verification/Txn.thy ===== *)
theory Txn
  imports Env
begin

text \<open>
  Transactions of \<open>crates/mock-oracle-core/src/session.rs\<close>: the log of row changes, undo to a point
  of the log, commit by publishing the private catalog or by replaying the log onto a newer one,
  savepoints and rollback. The operations are followed by what undo and commit do to a
  transaction whose log records how its catalog came about.
\<close>

section \<open>The session\<close>

datatype (dead 'n, dead 'd) change =
    InsertC (ch_table: string) (ch_id: nat) (ch_values: "('n, 'd) value list")
  | UpdateC (ch_table: string) (ch_id: nat) (ch_values: "('n, 'd) value list")
      (ch_old: "('n, 'd) value list")
  | DeleteC (ch_table: string) (ch_id: nat) (ch_old: "('n, 'd) value list")

record ('n, 'd) txn =
  txn_base_version :: nat
  txn_work :: "('n, 'd) catalog"
  txn_log :: "('n, 'd) change list"

record savepoint =
  sp_commits :: nat
  sp_changes :: nat

record ('n, 'd) session =
  ses_env :: "'d env"
  ses_txn :: "('n, 'd) txn option"
  ses_commits :: nat

definition session_new :: "'d clock \<Rightarrow> string \<Rightarrow> ('n, 'd) session" where
  "session_new now user = \<lparr>ses_env = env_new now user, ses_txn = None, ses_commits = 0\<rparr>"

definition unique_violation :: "string \<Rightarrow> string \<Rightarrow> ora_error" where
  "unique_violation user con = ora 1 (''unique constraint ('' @ user @ ''.'' @ con @ '') violated'')"

definition in_transaction :: "('n, 'd) session \<Rightarrow> bool" where
  "in_transaction s = (case ses_txn s of Some t \<Rightarrow> txn_log t \<noteq> [] | None \<Rightarrow> False)"

definition ses_catalog :: "('n, 'd) session \<Rightarrow> ('n, 'd) database \<Rightarrow> ('n, 'd) catalog" where
  "ses_catalog s db = (case ses_txn s of Some t \<Rightarrow> txn_work t | None \<Rightarrow> db_state db)"

section \<open>Undo\<close>

text \<open>\<open>if let Some(t) = cat.table_mut(n) { ... }\<close>.\<close>

definition on_table ::
  "('n, 'd) catalog \<Rightarrow> string \<Rightarrow> (('n, 'd) table \<Rightarrow> ('e, ('n, 'd) table) rust) \<Rightarrow>
   ('e, ('n, 'd) catalog) rust" where
  "on_table cat n f =
     (case cat_table cat n of
        None \<Rightarrow> Inr cat
      | Some t \<Rightarrow> rbind (f t) (\<lambda>t'. Inr (set_table cat n t')))"

fun is_update_of :: "string \<Rightarrow> ('n, 'd) change \<Rightarrow> bool" where
  "is_update_of n (UpdateC m _ _ _) = (m = n)"
| "is_update_of n _ = False"

text \<open>\<open>let _ = t.insert(id, old)\<close>: a refused insert leaves the table as it is.\<close>

definition insert_ignored ::
  "('n, 'd, 'a) ext \<Rightarrow> ('n, 'd) table \<Rightarrow> nat \<Rightarrow> ('n, 'd) value list \<Rightarrow> ('e, ('n, 'd) table) rust" where
  "insert_ignored E t i r =
     (case table_insert E t i r of
        Inr t' \<Rightarrow> Inr t'
      | Inl (Err _) \<Rightarrow> Inr t
      | Inl Panic \<Rightarrow> Inl Panic
      | Inl Diverges \<Rightarrow> Inl Diverges)"

text \<open>The loop of \<open>undo\<close> over the entries to revert, newest first.\<close>

function undo_changes ::
  "('n, 'd, 'a) ext \<Rightarrow> ('n, 'd) change list \<Rightarrow> ('n, 'd) catalog \<Rightarrow> ('e, ('n, 'd) catalog) rust" where
  "undo_changes E [] cat = Inr cat"
| "undo_changes E (InsertC n i _ # cs) cat =
     rbind (on_table cat n (\<lambda>t. rbind (table_delete E t i) (\<lambda>(t', _). Inr t'))) (undo_changes E cs)"
| "undo_changes E (DeleteC n i old # cs) cat =
     rbind (on_table cat n (\<lambda>t. insert_ignored E t i old)) (undo_changes E cs)"
| "undo_changes E (UpdateC n i _ old # cs) cat =
     rbind (on_table cat n (\<lambda>t.
         rbind (table_update E t
           ((i, old) # map (\<lambda>c. (ch_id c, ch_old c)) (takeWhile (is_update_of n) cs)))
         (\<lambda>(t', _). Inr t')))
       (undo_changes E (dropWhile (is_update_of n) cs))"
  by pat_completeness auto

termination
  by (relation "measure (\<lambda>(E, cs, cat). length cs)") (auto simp: le_imp_less_Suc length_dropWhile_le)

text \<open>\<open>split_off(keep)\<close> panics when the log is shorter than \<open>keep\<close>.\<close>

definition undo ::
  "('n, 'd, 'a) ext \<Rightarrow> ('n, 'd) txn \<Rightarrow> nat \<Rightarrow> ('e, ('n, 'd) txn) rust" where
  "undo E txn keep =
     (if keep > length (txn_log txn) then Inl Panic
      else
        rbind (undo_changes E (rev (drop keep (txn_log txn))) (txn_work txn)) (\<lambda>work.
        Inr (txn\<lparr>txn_work := work, txn_log := take keep (txn_log txn)\<rparr>)))"

section \<open>Commit and rollback\<close>

definition replay_change ::
  "('n, 'd, 'a) ext \<Rightarrow> string \<Rightarrow> ('n, 'd) change \<Rightarrow> ('n, 'd) catalog \<Rightarrow> ('n, 'd) catalog ora_result" where
  "replay_change E user c cat =
     (case c of
        InsertC n i r \<Rightarrow>
          on_table cat n (\<lambda>t.
            if length (tab_columns t) = length r
            then map_err (\<lambda>con. unique_violation user con) (table_insert E t i r) else Inr t)
      | UpdateC n i r _ \<Rightarrow>
          on_table cat n (\<lambda>t.
            if length (tab_columns t) = length r
            then rbind (table_update E t [(i, r)]) (\<lambda>(t', conflict).
              case conflict of None \<Rightarrow> Inr t' | Some con \<Rightarrow> Inl (Err (unique_violation user con)))
            else Inr t)
      | DeleteC n i _ \<Rightarrow>
          on_table cat n (\<lambda>t. rbind (table_delete E t i) (\<lambda>(t', _). Inr t')))"

fun replay ::
  "('n, 'd, 'a) ext \<Rightarrow> string \<Rightarrow> ('n, 'd) change list \<Rightarrow> ('n, 'd) catalog \<Rightarrow> ('n, 'd) catalog ora_result" where
  "replay E user [] cat = Inr cat"
| "replay E user (c # cs) cat = rbind (replay_change E user c cat) (replay E user cs)"

definition set_state :: "('n, 'd) catalog \<Rightarrow> nat \<Rightarrow> ('n, 'd) database \<Rightarrow> ('n, 'd) database" where
  "set_state cat v db = db\<lparr>db_state := cat\<lparr>cat_version := v\<rparr>\<rparr>"

definition commit ::
  "('n, 'd, 'a) ext \<Rightarrow> ('n, 'd) session \<Rightarrow> ('n, 'd) database \<Rightarrow>
   unit ora_result \<times> ('n, 'd) session \<times> ('n, 'd) database" where
  "commit E s db =
     (let s' = s\<lparr>ses_commits := ses_commits s + 1, ses_txn := None\<rparr> in
      case ses_txn s of
        None \<Rightarrow> (Inr (), s', db)
      | Some txn \<Rightarrow>
          if txn_log txn = [] then (Inr (), s', db)
          else if cat_version (db_state db) = txn_base_version txn then
            (Inr (), s', set_state (txn_work txn) (txn_base_version txn + 1) db)
          else
            (case replay E (env_user (ses_env s)) (txn_log txn) (db_state db) of
               Inl f \<Rightarrow> (Inl f, s', db)
             | Inr cat \<Rightarrow> (Inr (), s', set_state cat (cat_version (db_state db) + 1) db)))"

definition ses_savepoint :: "('n, 'd) session \<Rightarrow> savepoint" where
  "ses_savepoint s =
     \<lparr>sp_commits = ses_commits s,
      sp_changes = (case ses_txn s of Some t \<Rightarrow> length (txn_log t) | None \<Rightarrow> 0)\<rparr>"

definition rollback_to ::
  "('n, 'd, 'a) ext \<Rightarrow> savepoint \<Rightarrow> ('n, 'd) session \<Rightarrow> ('e, ('n, 'd) session) rust" where
  "rollback_to E sp s =
     (let keep = (if ses_commits s = sp_commits sp then sp_changes sp else 0) in
      case ses_txn s of
        None \<Rightarrow> Inr s
      | Some txn \<Rightarrow>
          rbind (undo E txn (min keep (length (txn_log txn)))) (\<lambda>txn'.
          Inr (s\<lparr>ses_txn := (if txn_log txn' = [] then None else Some txn')\<rparr>)))"

definition rollback :: "('n, 'd) session \<Rightarrow> ('n, 'd) session" where
  "rollback s = s\<lparr>ses_commits := ses_commits s + 1, ses_txn := None\<rparr>"

section \<open>Tables and catalogs up to their rows\<close>

text \<open>Two tables that differ at most in their rows and in what their indexes hold.\<close>

definition same_frame :: "('n, 'd) table \<Rightarrow> ('n, 'd) table \<Rightarrow> bool" where
  "same_frame t u \<longleftrightarrow> tab_name t = tab_name u \<and> tab_columns t = tab_columns u \<and>
     map truncate_constraint (tab_constraints t) = map truncate_constraint (tab_constraints u)"

lemma same_frame_refl [simp]: "same_frame t t"
  by (simp add: same_frame_def)

lemma same_frame_sym: "same_frame t u \<Longrightarrow> same_frame u t"
  by (simp add: same_frame_def)

lemma same_frame_trans: "same_frame t u \<Longrightarrow> same_frame u v \<Longrightarrow> same_frame t v"
  by (simp add: same_frame_def)

lemma same_frame_ncols: "same_frame t u \<Longrightarrow> ncols t = ncols u"
  by (simp add: same_frame_def)

lemma constraints_determined:
  "\<lbrakk>map truncate_constraint cs = map truncate_constraint ds; \<forall>c \<in> set cs. con_ok E rm c;
    \<forall>d \<in> set ds. con_ok E rm d\<rbrakk> \<Longrightarrow> cs = ds"
proof (induction cs arbitrary: ds)
  case (Cons c cs)
  then show ?case by (cases ds) (auto intro: con_ok_determined)
qed simp

lemma table_ext:
  assumes "table_ok E t" and "table_ok E u" and "same_frame t u"
    and "map_of (tab_rows t) = map_of (tab_rows u)"
  shows "t = u"
proof -
  have "tab_rows t = tab_rows u"
    using assms(4) by (intro bt_ext [OF table_okD(1) [OF assms(1)] table_okD(1) [OF assms(2)]]) simp
  moreover have "tab_constraints t = tab_constraints u"
    using assms(3,4) table_okD(4) [OF assms(1)] table_okD(4) [OF assms(2)]
    by - (rule constraints_determined [where E = E and rm = "map_of (tab_rows u)"],
      simp_all add: same_frame_def)
  ultimately show ?thesis using assms(3) by (simp add: same_frame_def)
qed

lemma keys_unique_frame:
  "same_frame t u \<Longrightarrow> (\<forall>c \<in> set (tab_constraints t). keys_unique E rm c) \<longleftrightarrow>
   (\<forall>c \<in> set (tab_constraints u). keys_unique E rm c)"
proof -
  have *: "(\<forall>c \<in> set cs. keys_unique E rm c) \<longleftrightarrow>
      (\<forall>c \<in> set (map truncate_constraint cs). keys_unique E rm c)" for cs
    by (simp add: keys_unique_truncate)
  assume "same_frame t u"
  then show ?thesis by (subst (1 2) *) (simp add: same_frame_def)
qed

lemma put_all_frame: "same_frame t (put_all E t chs rows)"
  by (simp add: same_frame_def put_all_def unindexed_def comp_def)

lemma put_row_frame: "same_frame t (put_row E i r t)"
  by (simp add: same_frame_def comp_def)

lemma drop_row_frame: "same_frame t (drop_row E i r t)"
  by (simp add: same_frame_def comp_def)

text \<open>An update of a table is one of the two results of \<open>table_update_closed\<close>.\<close>

lemma table_update_frame:
  assumes "table_ok E t" and "\<forall>(i, r) \<in> set chs. length r = ncols t"
    and "table_update E t chs = Inr (u, res)"
  shows "same_frame t u"
  using assms(3) put_all_frame by (auto simp: table_update_closed [OF assms(1,2)] split: option.splits)

lemma table_update_rows:
  assumes ok: "table_ok E t" and dist: "distinct (map fst chs)"
    and len: "\<forall>(i, r) \<in> set chs. length r = ncols t"
    and upd: "table_update E t chs = Inr (u, None)"
  shows "table_ok E u" and "map_of (tab_rows u) = map_of (tab_rows t) ++ map_of (present t chs)"
proof -
  have free: "\<forall>c \<in> set (unindexed E t chs). free_of E (present t chs) c" and u: "u = put_all E t chs (present t chs)"
    using upd by (auto simp: table_update_closed [OF ok len] find_None split: option.splits)
  show "table_ok E u" unfolding u by (rule put_all_new_ok [OF ok dist len free])
  show "map_of (tab_rows u) = map_of (tab_rows t) ++ map_of (present t chs)"
    unfolding u using dist by (simp add: put_all_def fold_bt_insert_get distinct_present)
qed

text \<open>Updating rows back to what they were in another state of the same table gives that state.\<close>

lemma update_back:
  assumes t: "table_ok E t" and u: "table_ok E u" and frame: "same_frame t u"
    and dist: "distinct (map fst chs)" and old: "\<forall>(i, r) \<in> set chs. map_of (tab_rows t) i = Some r"
    and present: "\<forall>i \<in> set (map fst chs). map_of (tab_rows u) i \<noteq> None"
    and others: "\<forall>i. i \<notin> set (map fst chs) \<longrightarrow> map_of (tab_rows u) i = map_of (tab_rows t) i"
  shows "table_update E u chs = Inr (t, None)"
proof -
  have len: "\<forall>(i, r) \<in> set chs. length r = ncols u"
    using old table_okD(2) [OF t] same_frame_ncols [OF frame] by fastforce
  have all: "present u chs = chs" using present by (auto simp: present_def intro!: filter_True)
  have rows: "map_of (tab_rows u) ++ map_of chs = map_of (tab_rows t)"
  proof
    fix i
    show "(map_of (tab_rows u) ++ map_of chs) i = map_of (tab_rows t) i"
    proof (cases "map_of chs i")
      case None
      then have "i \<notin> set (map fst chs)" by (simp add: map_of_eq_None_iff)
      with None others show ?thesis by (simp add: map_add_def)
    next
      case (Some r)
      with old have "map_of (tab_rows t) i = Some r" by (blast dest: map_of_SomeD)
      with Some show ?thesis by (simp add: map_add_def)
    qed
  qed
  have "\<forall>c \<in> set (tab_constraints t). keys_unique E (map_of (tab_rows t)) c"
    using table_okD(4) [OF t] con_ok_keys_unique by blast
  then have "\<forall>c \<in> set (tab_constraints u). keys_unique E (map_of (tab_rows t)) c"
    using keys_unique_frame [OF frame] by blast
  then have "\<forall>c \<in> set (unindexed E u chs). free_of E chs c"
    using unindexed_free_iff [OF u dist] rows all by (auto simp: unindexed_def)
  then have "find (\<lambda>c. \<not> free_of E chs c) (unindexed E u chs) = None" by (simp add: find_None)
  moreover have "put_all E u chs chs = t"
  proof (rule table_ext [OF _ t])
    show "table_ok E (put_all E u chs chs)"
      using put_all_new_ok [OF u dist len] \<open>\<forall>c \<in> set (unindexed E u chs). free_of E chs c\<close> all by simp
    show "same_frame (put_all E u chs chs) t"
      using put_all_frame same_frame_sym same_frame_trans frame by blast
    show "map_of (tab_rows (put_all E u chs chs)) = map_of (tab_rows t)"
      using dist rows by (simp add: put_all_def fold_bt_insert_get)
  qed
  ultimately show ?thesis using all by (simp add: table_update_closed [OF u len])
qed

definition cat_ok :: "('n, 'd, 'a) ext \<Rightarrow> ('n, 'd) catalog \<Rightarrow> bool" where
  "cat_ok E cat \<longleftrightarrow> bt_ok (cat_tables cat) \<and> (\<forall>t \<in> set (bt_values (cat_tables cat)). table_ok E t)"

lemma cat_okD: "cat_ok E cat \<Longrightarrow> cat_table cat n = Some t \<Longrightarrow> table_ok E t"
  unfolding cat_ok_def cat_table_def by (force dest: map_of_SomeD)

lemma cat_okI:
  "bt_ok (cat_tables cat) \<Longrightarrow> (\<And>n t. cat_table cat n = Some t \<Longrightarrow> table_ok E t) \<Longrightarrow> cat_ok E cat"
  unfolding cat_ok_def cat_table_def by (auto simp: bt_get_iff)

lemma cat_ok_bt: "cat_ok E cat \<Longrightarrow> bt_ok (cat_tables cat)"
  by (simp add: cat_ok_def)

lemma cat_table_set [simp]: "cat_table (set_table cat n t) m = (if m = n then Some t else cat_table cat m)"
  by (simp add: cat_table_def set_table_def)

lemma cat_ok_set: "cat_ok E cat \<Longrightarrow> table_ok E t \<Longrightarrow> cat_ok E (set_table cat n t)"
  by (rule cat_okI) (auto simp: cat_ok_bt dest: cat_okD split: if_splits, simp add: set_table_def cat_ok_bt)

lemma set_table_back:
  "cat_ok E cat \<Longrightarrow> cat_table cat n = Some t \<Longrightarrow> set_table (set_table cat n u) n t = cat"
  by (simp add: set_table_def cat_table_def cat_ok_bt bt.ins_ins bt.ins_same)

section \<open>Logs that record how a catalog came about\<close>

text \<open>What one step of a statement does to the working catalog and what it appends to the log: an
  inserted row, a deleted row, or the rows of one update.\<close>

inductive wrote ::
  "('n, 'd, 'a) ext \<Rightarrow> ('n, 'd) catalog \<Rightarrow> ('n, 'd) change list \<Rightarrow> ('n, 'd) catalog \<Rightarrow> bool"
  for E where
  ins: "\<lbrakk>cat_table cat n = Some t; map_of (tab_rows t) i = None; length r = ncols t;
    table_insert E t i r = Inr t'\<rbrakk> \<Longrightarrow> wrote E cat [InsertC n i r] (set_table cat n t')"
| del: "\<lbrakk>cat_table cat n = Some t; map_of (tab_rows t) i = Some r;
    table_delete E t i = (Inr (t', True) :: (ora_error, _) rust)\<rbrakk> \<Longrightarrow>
    wrote E cat [DeleteC n i r] (set_table cat n t')"
| upd: "\<lbrakk>cat_table cat n = Some t; chs \<noteq> []; distinct (map fst chs);
    \<forall>(i, r, old) \<in> set chs. map_of (tab_rows t) i = Some old \<and> length r = ncols t;
    table_update E t (map (\<lambda>(i, r, old). (i, r)) chs) = (Inr (t', None) :: (ora_error, _) rust)\<rbrakk> \<Longrightarrow>
    wrote E cat (map (\<lambda>(i, r, old). UpdateC n i r old) chs) (set_table cat n t')"

inductive logged ::
  "('n, 'd, 'a) ext \<Rightarrow> ('n, 'd) catalog \<Rightarrow> ('n, 'd) change list \<Rightarrow> ('n, 'd) catalog \<Rightarrow> bool"
  for E cat0 where
  start: "logged E cat0 [] cat0"
| step: "logged E cat0 lg cat \<Longrightarrow> wrote E cat cs cat' \<Longrightarrow> logged E cat0 (lg @ cs) cat'"

inductive_cases wroteE: "wrote E cat cs cat'"

lemma logged_trans: "logged E b cs c \<Longrightarrow> logged E a lg b \<Longrightarrow> logged E a (lg @ cs) c"
proof (induction rule: logged.induct)
  case start
  then show ?case by simp
next
  case (step lg' cat cs cat')
  then show ?case using logged.step [of E a "lg @ lg'" cat cs cat'] by simp
qed

text \<open>No row is changed twice in an uninterrupted run of updates of one table.\<close>

fun runs_distinct :: "('n, 'd) change list \<Rightarrow> bool" where
  "runs_distinct [] = True"
| "runs_distinct (UpdateC n i _ _ # cs) =
     (i \<notin> ch_id ` set (takeWhile (is_update_of n) cs) \<and> runs_distinct cs)"
| "runs_distinct (_ # cs) = runs_distinct cs"

lemma wrote_ins_ok:
  assumes ok: "table_ok E t" and fresh: "map_of (tab_rows t) i = None" and len: "length r = ncols t"
    and ins: "table_insert E t i r = Inr t'"
  shows "t' = put_row E i r t" and "table_ok E t'"
proof -
  show t': "t' = put_row E i r t"
    using ins table_insert_closed [of t r E i] table_okD(3) [OF ok] len by (auto split: option.splits)
  have "find (clashes E r) (tab_constraints t) = None"
    using ins table_insert_closed [of t r E i] table_okD(3) [OF ok] len by (auto split: option.splits)
  then show "table_ok E t'" unfolding t' by (intro put_row_ok [OF ok len fresh]) (simp add: find_None)
qed

lemma wrote_del_ok:
  assumes ok: "table_ok E t" and row: "map_of (tab_rows t) i = Some r"
    and del: "table_delete E t i = Inr (t', True)"
  shows "t' = drop_row E i r t" and "table_ok E t'"
proof -
  show t': "t' = drop_row E i r t" using del row by (simp add: table_delete_closed [OF ok])
  show "table_ok E t'" unfolding t' by (rule drop_row_ok [OF ok row])
qed

lemma wrote_upd_ok:
  assumes ok: "table_ok E t" and dist: "distinct (map fst chs)"
    and rows: "\<forall>(i, r, old) \<in> set chs. map_of (tab_rows t) i = Some old \<and> length r = ncols t"
    and upd: "table_update E t (map (\<lambda>(i, r, old). (i, r)) chs) = Inr (t', None)"
  shows "table_ok E t'" and "same_frame t t'"
    and "map_of (tab_rows t') = map_of (tab_rows t) ++ map_of (map (\<lambda>(i, r, old). (i, r)) chs)"
proof -
  let ?new = "map (\<lambda>(i, r, old). (i, r)) chs"
  have fst: "map fst ?new = map fst chs" by auto
  have len: "\<forall>(i, r) \<in> set ?new. length r = ncols t" using rows by auto
  have "present t ?new = ?new" using rows by (fastforce simp: present_def intro!: filter_True)
  then show "map_of (tab_rows t') = map_of (tab_rows t) ++ map_of ?new" "table_ok E t'"
    using table_update_rows [OF ok _ len upd] dist by (simp_all only: fst)
  show "same_frame t t'" by (rule table_update_frame [OF ok len upd])
qed

lemma wrote_ok: "wrote E cat cs cat' \<Longrightarrow> cat_ok E cat \<Longrightarrow> cat_ok E cat'"
  by (erule wroteE) (auto intro!: cat_ok_set dest: cat_okD wrote_ins_ok(2) wrote_del_ok(2) wrote_upd_ok(1))

lemma logged_ok: "logged E cat0 lg cat \<Longrightarrow> cat_ok E cat0 \<Longrightarrow> cat_ok E cat"
  by (induction rule: logged.induct) (auto intro: wrote_ok)

section \<open>Undo restores the catalog\<close>

definition id_old :: "('n, 'd) change \<Rightarrow> nat \<times> ('n, 'd) value list" where
  "id_old c = (ch_id c, ch_old c)"

text \<open>What \<open>undo_changes\<close> does once it has popped the updates \<open>pend\<close> of table \<open>n\<close>.\<close>

definition undo_pending ::
  "('n, 'd, 'a) ext \<Rightarrow> string \<Rightarrow> (nat \<times> ('n, 'd) value list) list \<Rightarrow> ('n, 'd) change list \<Rightarrow>
   ('n, 'd) catalog \<Rightarrow> ('e, ('n, 'd) catalog) rust" where
  "undo_pending E n pend cs cat =
     rbind (on_table cat n (\<lambda>t.
         rbind (table_update E t (pend @ map id_old (takeWhile (is_update_of n) cs))) (\<lambda>(t', _). Inr t')))
       (undo_changes E (dropWhile (is_update_of n) cs))"

lemma undo_changes_updates:
  assumes "us \<noteq> []" and "\<forall>c \<in> set us. is_update_of n c"
  shows "undo_changes E (us @ cs) cat = undo_pending E n (map id_old us) cs cat"
proof (cases us)
  case (Cons u vs)
  then obtain i r old where u: "u = UpdateC n i r old" using assms(2) by (cases u) auto
  have "takeWhile (is_update_of n) (vs @ cs) = vs @ takeWhile (is_update_of n) cs"
    "dropWhile (is_update_of n) (vs @ cs) = dropWhile (is_update_of n) cs"
    using assms(2) Cons by (simp_all add: takeWhile_append2 dropWhile_append2)
  then show ?thesis using Cons u by (simp add: undo_pending_def id_old_def [abs_def])
qed (use assms in simp)

text \<open>Table \<open>u\<close> is table \<open>t\<close> with other values in the rows of \<open>pend\<close>, whose values in \<open>t\<close> \<open>pend\<close>
  holds.\<close>

definition diverged ::
  "('n, 'd, 'a) ext \<Rightarrow> ('n, 'd) table \<Rightarrow> (nat \<times> ('n, 'd) value list) list \<Rightarrow> ('n, 'd) table \<Rightarrow> bool" where
  "diverged E t pend u \<longleftrightarrow> table_ok E t \<and> table_ok E u \<and> same_frame t u \<and> distinct (map fst pend) \<and>
     (\<forall>(i, r) \<in> set pend. map_of (tab_rows t) i = Some r) \<and>
     (\<forall>i \<in> set (map fst pend). map_of (tab_rows u) i \<noteq> None) \<and>
     (\<forall>i. i \<notin> set (map fst pend) \<longrightarrow> map_of (tab_rows u) i = map_of (tab_rows t) i)"

lemma diverged_back: "diverged E t pend u \<Longrightarrow> table_update E u pend = Inr (t, None)"
  unfolding diverged_def by (rule update_back) auto

lemma diverged_update:
  assumes ok: "table_ok E t" and dist: "distinct (map fst chs)"
    and rows: "\<forall>(i, r, old) \<in> set chs. map_of (tab_rows t) i = Some old \<and> length r = ncols t"
    and upd: "table_update E t (map (\<lambda>(i, r, old). (i, r)) chs) = Inr (t', None)"
    and div: "diverged E t' pend u" and disj: "set (map fst pend) \<inter> set (map fst chs) = {}"
  shows "diverged E t (pend @ rev (map (\<lambda>(i, r, old). (i, old)) chs)) u"
proof -
  let ?new = "map (\<lambda>(i, r, old). (i, r)) chs" and ?old = "map (\<lambda>(i, r, old). (i, old)) chs"
  note t' = wrote_upd_ok [OF ok dist rows upd]
  have ids: "map fst ?new = map fst chs" "map fst ?old = map fst chs" by auto
  have other: "map_of (tab_rows t') i = map_of (tab_rows t) i" if "i \<notin> set (map fst chs)" for i
  proof -
    have "map_of ?new i = None" using that by (force simp: map_of_eq_None_iff)
    then show ?thesis by (simp add: t'(3) map_add_def)
  qed
  have in_new: "map_of (tab_rows t') i \<noteq> None" if "i \<in> set (map fst chs)" for i
  proof -
    have "i \<in> fst ` set ?new" using that by force
    then have "map_of ?new i \<noteq> None" by (simp add: map_of_eq_None_iff)
    then show ?thesis by (auto simp: t'(3) map_add_def)
  qed
  have all: "map fst (pend @ rev ?old) = map fst pend @ rev (map fst chs)"
    by (simp only: map_append rev_map [symmetric] ids(2))
  then have dist': "distinct (map fst (pend @ rev ?old))"
    using div dist disj by (simp only:) (simp add: diverged_def)
  have olds: "\<forall>(i, r) \<in> set (pend @ rev ?old). map_of (tab_rows t) i = Some r"
  proof -
    have "map_of (tab_rows t) i = Some r" if "(i, r) \<in> set pend" for i r
      using that div disj other [of i] by (force simp: diverged_def)
    with rows show ?thesis by auto
  qed
  have "map_of (tab_rows u) i \<noteq> None" if "i \<in> set (map fst (pend @ rev ?old))" for i
    using that div in_new [of i]
    unfolding all by (cases "i \<in> set (map fst pend)") (auto simp: diverged_def simp flip: set_map)
  moreover have "map_of (tab_rows u) i = map_of (tab_rows t) i" if "i \<notin> set (map fst (pend @ rev ?old))" for i
    using that div other [of i] unfolding all by (simp add: diverged_def)
  ultimately show ?thesis
    using div ok dist' olds same_frame_trans [OF t'(2)] unfolding diverged_def by blast
qed

lemma undo_pending_none:
  assumes ok: "cat_ok E cat" and t: "cat_table cat n = Some t" and div: "diverged E t pend u"
    and last: "takeWhile (is_update_of n) cs = []"
  shows "undo_pending E n pend cs (set_table cat n u) = undo_changes E cs cat"
proof -
  have "dropWhile (is_update_of n) cs = cs" using last by (cases cs) (auto split: if_splits)
  then show ?thesis
    using last by (simp add: undo_pending_def on_table_def diverged_back [OF div] set_table_back [OF ok t])
qed

lemma undo_step_single:
  assumes ok: "cat_ok E cat" and w: "wrote E cat cs cat'" and "\<not> (\<exists>n. \<exists>c \<in> set cs. is_update_of n c)"
  shows "undo_changes E (rev cs @ lg) cat' = undo_changes E lg cat"
  using w
proof cases
  case (ins n t i r t')
  note undone = delete_after_insert [OF cat_okD [OF ok ins(3)] ins(4-6)]
  show ?thesis using ins by (simp add: undone on_table_def set_table_back [OF ok])
next
  case (del n t i r t')
  note undone = insert_after_delete [OF cat_okD [OF ok del(3)] del(4,5)]
  show ?thesis using del by (simp add: undone insert_ignored_def on_table_def set_table_back [OF ok])
next
  case (upd n t chs t')
  then show ?thesis using assms(3) by (cases chs) auto
qed

lemma runs_distinct_tail: "runs_distinct (us @ cs) \<Longrightarrow> runs_distinct cs"
proof (induction us)
  case (Cons u us)
  then show ?case by (cases u) auto
qed simp

lemma runs_distinct_disjoint:
  assumes "runs_distinct (us @ cs)" and "\<forall>c \<in> set us. is_update_of n c"
  shows "ch_id ` set us \<inter> ch_id ` set (takeWhile (is_update_of n) cs) = {}"
  using assms
proof (induction us)
  case (Cons u us)
  then obtain i r old where u: "u = UpdateC n i r old" by (cases u) auto
  have "takeWhile (is_update_of n) (us @ cs) = us @ takeWhile (is_update_of n) cs"
    using Cons.prems by (simp add: takeWhile_append2)
  then show ?case using Cons u by auto
qed simp

lemma is_update_of_unique: "is_update_of m c \<Longrightarrow> is_update_of n c \<Longrightarrow> n = m"
  by (cases c) auto

lemma undo_pending_more:
  assumes "\<forall>c \<in> set us. is_update_of n c"
  shows "undo_pending E n pend (us @ cs) cat = undo_pending E n (pend @ map id_old us) cs cat"
  using assms by (simp add: undo_pending_def takeWhile_append2 dropWhile_append2)

text \<open>The state of an undo that has reached the end of \<open>lg\<close>: nothing popped yet, or the updates
  \<open>pend\<close> of one table.\<close>

definition undoes ::
  "('n, 'd, 'a) ext \<Rightarrow> ('n, 'd) catalog \<Rightarrow> ('n, 'd) change list \<Rightarrow> ('n, 'd) catalog \<Rightarrow> bool" where
  "undoes E cat0 cs cat \<longleftrightarrow>
     undo_changes E cs cat = (Inr cat0 :: (ora_error, ('n, 'd) catalog) rust) \<and>
     (\<forall>n t pend u. cat_table cat n = Some t \<and> diverged E t pend u \<and>
        set (map fst pend) \<inter> ch_id ` set (takeWhile (is_update_of n) cs) = {} \<longrightarrow>
        undo_pending E n pend cs (set_table cat n u) = (Inr cat0 :: (ora_error, ('n, 'd) catalog) rust))"

lemma undoes_single:
  assumes ok: "cat_ok E cat" and w: "wrote E cat cs cat'" and single: "\<not> (\<exists>n. \<exists>c \<in> set cs. is_update_of n c)"
    and IH: "undoes E cat0 lg cat"
  shows "undoes E cat0 (rev cs @ lg) cat'"
proof -
  have cs: "cs \<noteq> []" using w by (auto elim!: wroteE)
  have "takeWhile (is_update_of n) (rev cs @ lg) = []" for n
    using cs single by (cases "rev cs") (auto simp: rev_eq_Cons_iff)
  then show ?thesis
    using IH
    by (auto simp: undoes_def undo_step_single [OF ok w single] undo_pending_none [OF wrote_ok [OF w ok]])
qed

lemma undoes_update:
  assumes ok: "cat_ok E cat" and t: "cat_table cat m = Some t" and chs: "chs \<noteq> []" "distinct (map fst chs)"
    and rows: "\<forall>(i, r, old) \<in> set chs. map_of (tab_rows t) i = Some old \<and> length r = ncols t"
    and upd: "table_update E t (map (\<lambda>(i, r, old). (i, r)) chs) = (Inr (t', None) :: (ora_error, _) rust)"
    and us: "us = rev (map (\<lambda>(i, r, old). UpdateC m i r old) chs)"
    and runs: "runs_distinct (us @ lg)" and IH: "undoes E cat0 lg cat"
  shows "undoes E cat0 (us @ lg) (set_table cat m t')"
proof -
  have t_ok: "table_ok E t" by (rule cat_okD [OF ok t])
  have t'_ok: "table_ok E t'" by (rule wrote_upd_ok(1) [OF t_ok chs(2) rows upd])
  have ok': "cat_ok E (set_table cat m t')" by (rule cat_ok_set [OF ok t'_ok])
  have all: "us \<noteq> []" "\<forall>c \<in> set us. is_update_of m c" using us chs(1) by auto
  have olds: "map id_old us = rev (map (\<lambda>(i, r, old). (i, old)) chs)"
    unfolding us rev_map [symmetric] by (simp add: id_old_def comp_def case_prod_unfold)
  have ids: "ch_id ` set us = set (map fst chs)" unfolding us by force
  have disj: "ch_id ` set us \<inter> ch_id ` set (takeWhile (is_update_of m) lg) = {}"
    by (rule runs_distinct_disjoint [OF runs all(2)])
  have pend: "undo_pending E m (pend @ map id_old us) lg (set_table cat m u) =
      (Inr cat0 :: (ora_error, _) rust)"
    if div: "diverged E t' pend u" and d1: "set (map fst pend) \<inter> ch_id ` set us = {}"
      and d2: "set (map fst pend) \<inter> ch_id ` set (takeWhile (is_update_of m) lg) = {}" for pend u
  proof -
    have "diverged E t (pend @ map id_old us) u"
      unfolding olds using diverged_update [OF t_ok chs(2) rows upd div] d1 ids by simp
    moreover have "set (map fst (pend @ map id_old us)) = set (map fst pend) \<union> ch_id ` set us"
      by (auto simp: id_old_def image_image)
    ultimately show ?thesis using IH t d2 disj unfolding undoes_def by blast
  qed
  have refl: "diverged E t' [] t'" using t'_ok by (simp add: diverged_def)
  have main: "undo_changes E (us @ lg) (set_table cat m t') = (Inr cat0 :: (ora_error, _) rust)"
    using pend [OF refl] by (simp add: undo_changes_updates [OF all])
  have "undo_pending E n pend (us @ lg) (set_table (set_table cat m t') n u) = (Inr cat0 :: (ora_error, _) rust)"
    if n: "cat_table (set_table cat m t') n = Some v" and div: "diverged E v pend u"
      and d: "set (map fst pend) \<inter> ch_id ` set (takeWhile (is_update_of n) (us @ lg)) = {}" for n v pend u
  proof (cases "n = m")
    case True
    have "set_table (set_table cat m t') m u = set_table cat m u"
      using cat_ok_bt [OF ok] by (simp add: set_table_def bt.ins_ins)
    moreover have "takeWhile (is_update_of m) (us @ lg) = us @ takeWhile (is_update_of m) lg"
      using all(2) by (simp add: takeWhile_append2)
    ultimately show ?thesis
      using True n div d pend [of pend u] by (simp add: undo_pending_more [OF all(2)] Int_Un_distrib image_Un)
  next
    case False
    have "takeWhile (is_update_of n) (us @ lg) = []"
      using all False by (cases us) (auto dest: is_update_of_unique)
    then show ?thesis by (simp only: undo_pending_none [OF ok' n div] main)
  qed
  then show ?thesis using main unfolding undoes_def by blast
qed

lemma undo_logged:
  assumes "logged E cat0 lg cat" and ok0: "cat_ok E cat0"
  shows "runs_distinct (rev lg) \<Longrightarrow> undoes E cat0 (rev lg) cat"
  using assms(1)
proof (induction rule: logged.induct)
  case start
  then show ?case using ok0 by (simp add: undoes_def undo_pending_none)
next
  case (step lg cat cs cat')
  have ok: "cat_ok E cat" by (rule logged_ok [OF step.hyps(1) ok0])
  have IH: "undoes E cat0 (rev lg) cat"
    using step runs_distinct_tail [of "rev cs" "rev lg"] by simp
  from step.hyps(2) show ?case
  proof cases
    case (upd n t chs t')
    then show ?thesis using undoes_update [OF ok upd(3-7) refl _ IH] step.prems by simp
  qed (use undoes_single [OF ok step.hyps(2) _ IH] in auto)
qed

section \<open>Replaying a log onto a newer state\<close>

definition row_of :: "('n, 'd) catalog \<Rightarrow> string \<Rightarrow> nat \<Rightarrow> ('n, 'd) value list option" where
  "row_of cat n i = Option.bind (cat_table cat n) (\<lambda>t. map_of (tab_rows t) i)"

text \<open>What a change means for row \<open>i\<close> of table \<open>n\<close>.\<close>

fun change_row ::
  "string \<Rightarrow> nat \<Rightarrow> ('n, 'd) change \<Rightarrow> ('n, 'd) value list option \<Rightarrow> ('n, 'd) value list option" where
  "change_row n i (InsertC m j r) x = (if m = n \<and> j = i then Some r else x)"
| "change_row n i (UpdateC m j r _) x = (if m = n \<and> j = i \<and> x \<noteq> None then Some r else x)"
| "change_row n i (DeleteC m j _) x = (if m = n \<and> j = i then None else x)"

text \<open>The table a change names has the columns it had.\<close>

fun change_fits :: "('n, 'd) catalog \<Rightarrow> ('n, 'd) change \<Rightarrow> bool" where
  "change_fits cat (InsertC n _ r) = (\<exists>t. cat_table cat n = Some t \<and> ncols t = length r)"
| "change_fits cat (UpdateC n _ r _) = (\<exists>t. cat_table cat n = Some t \<and> ncols t = length r)"
| "change_fits cat (DeleteC n _ _) = (cat_table cat n \<noteq> None)"

text \<open>Every row the log inserts has an id that is not in use.\<close>

fun inserted :: "('n, 'd) change list \<Rightarrow> (string \<times> nat) list" where
  "inserted [] = []"
| "inserted (InsertC n i _ # cs) = (n, i) # inserted cs"
| "inserted (_ # cs) = inserted cs"

definition inserts_fresh :: "('n, 'd) catalog \<Rightarrow> ('n, 'd) change list \<Rightarrow> bool" where
  "inserts_fresh cat lg \<longleftrightarrow>
     distinct (inserted lg) \<and> list_all (\<lambda>(n, i). row_of cat n i = None) (inserted lg)"

definition same_frames :: "('n, 'd) catalog \<Rightarrow> ('n, 'd) catalog \<Rightarrow> bool" where
  "same_frames a b \<longleftrightarrow> cat_sequences a = cat_sequences b \<and> cat_routines a = cat_routines b \<and>
     cat_version a = cat_version b \<and>
     (\<forall>n. rel_option same_frame (cat_table a n) (cat_table b n))"

lemma same_frames_refl [simp]: "same_frames a a"
  by (simp add: same_frames_def option.rel_refl)

lemma rel_frame_trans:
  "rel_option same_frame x y \<Longrightarrow> rel_option same_frame y z \<Longrightarrow> rel_option same_frame x z"
  by (cases x; cases y; cases z) (auto intro: same_frame_trans)

lemma same_frames_trans: "same_frames a b \<Longrightarrow> same_frames b c \<Longrightarrow> same_frames a c"
  unfolding same_frames_def by (auto intro: rel_frame_trans)

lemma same_framesD:
  "same_frames a b \<Longrightarrow> cat_table a n = Some t \<Longrightarrow> \<exists>u. cat_table b n = Some u \<and> same_frame t u"
  unfolding same_frames_def by (metis option_rel_Some1)

lemma same_frames_set:
  "cat_table cat n = Some t \<Longrightarrow> same_frame t u \<Longrightarrow> same_frames cat (set_table cat n u)"
  unfolding same_frames_def by (auto simp: option.rel_refl) (simp_all add: set_table_def)

lemma change_fits_frames: "same_frames a b \<Longrightarrow> change_fits a c \<Longrightarrow> change_fits b c"
  by (cases c) (auto simp: same_frame_ncols dest!: same_framesD)

text \<open>A replayed change that is accepted changes the rows as \<open>change_row\<close> says.\<close>

lemma on_table_InrE:
  assumes "on_table cat n f = Inr cat'" and "cat_table cat n = Some t"
  obtains u where "f t = Inr u" and "cat' = set_table cat n u"
  using assms by (auto simp: on_table_def rbind_eq_Inr)

lemma row_of_set: "row_of (set_table cat n u) m i = (if m = n then map_of (tab_rows u) i else row_of cat m i)"
  by (simp add: row_of_def)

lemma replay_change_ok:
  assumes ok: "cat_ok E cat" and fits: "change_fits cat c"
    and fresh: "\<And>n i r. c = InsertC n i r \<Longrightarrow> row_of cat n i = None"
    and rep: "replay_change E user c cat = Inr cat'"
  shows "cat_ok E cat' \<and> same_frames cat cat' \<and> (\<forall>n i. row_of cat' n i = change_row n i c (row_of cat n i))"
proof (cases c)
  case (InsertC n i r)
  then obtain t where t: "cat_table cat n = Some t" "ncols t = length r" using fits by auto
  then obtain u where u: "table_insert E t i r = Inr u" "cat' = set_table cat n u"
    using rep InsertC by (auto simp: replay_change_def map_err_def elim!: on_table_InrE split: sum.splits fail.splits)
  have "map_of (tab_rows t) i = None" using fresh [OF InsertC] t by (simp add: row_of_def)
  note w = wrote_ins_ok [OF cat_okD [OF ok t(1)] this t(2) [symmetric] u(1)]
  show ?thesis
    using w ok t u(2) InsertC put_row_frame [of t E i r]
    by (auto simp: row_of_set row_of_def intro: cat_ok_set same_frames_set)
next
  case (UpdateC n i r old)
  then obtain t where t: "cat_table cat n = Some t" "ncols t = length r" using fits by auto
  then obtain u where u: "table_update E t [(i, r)] = (Inr (u, None) :: (ora_error, _) rust)" "cat' = set_table cat n u"
    using rep UpdateC by (auto simp: replay_change_def rbind_eq_Inr elim!: on_table_InrE split: option.splits prod.splits)
  have len: "\<forall>(i, r) \<in> set [(i, r)]. length r = ncols t" using t(2) by simp
  note w = table_update_rows [OF cat_okD [OF ok t(1)] _ len u(1)]
    table_update_frame [OF cat_okD [OF ok t(1)] len u(1)]
  show ?thesis
    using w ok t u(2) UpdateC
    by (auto simp: row_of_set row_of_def present_def map_add_def intro: cat_ok_set same_frames_set)
next
  case (DeleteC n i old)
  then obtain t where t: "cat_table cat n = Some t" using fits by auto
  then obtain u b where u: "table_delete E t i = (Inr (u, b) :: (ora_error, _) rust)" "cat' = set_table cat n u"
    using rep DeleteC by (auto simp: replay_change_def rbind_eq_Inr elim!: on_table_InrE split: prod.splits)
  have t_ok: "table_ok E t" by (rule cat_okD [OF ok t])
  show ?thesis
    using u(1) u(2) t t_ok ok DeleteC drop_row_ok [OF t_ok, of i] table_okD(1) [OF t_ok]
    by (auto simp: table_delete_closed [OF t_ok] row_of_set row_of_def map_of_bt_remove
        intro: cat_ok_set same_frames_set [OF t drop_row_frame] same_frames_set [OF t] split: option.splits)
qed

lemma inserts_fresh_step:
  assumes "inserts_fresh cat (c # cs)" and "\<And>n i. row_of cat' n i = change_row n i c (row_of cat n i)"
  shows "inserts_fresh cat' cs"
  using assms by (cases c) (auto simp: inserts_fresh_def list_all_iff)

lemma replay_ok:
  assumes "replay E user lg cat = Inr cat'" and "cat_ok E cat" and "inserts_fresh cat lg"
    and "\<forall>c \<in> set lg. change_fits cat c"
  shows "cat_ok E cat' \<and> same_frames cat cat' \<and>
    (\<forall>n i. row_of cat' n i = fold (change_row n i) lg (row_of cat n i))"
  using assms
proof (induction lg arbitrary: cat)
  case (Cons c lg)
  then obtain cat1 where r: "replay_change E user c cat = Inr cat1" "replay E user lg cat1 = Inr cat'"
    by (auto simp: rbind_eq_Inr)
  have "cat_ok E cat1 \<and> same_frames cat cat1 \<and> (\<forall>n i. row_of cat1 n i = change_row n i c (row_of cat n i))"
    using Cons.prems by (intro replay_change_ok [OF _ _ _ r(1)]) (auto simp: inserts_fresh_def)
  moreover from this have "inserts_fresh cat1 lg" using inserts_fresh_step Cons.prems(3) by blast
  ultimately show ?case
    using Cons.IH [OF r(2)] Cons.prems change_fits_frames [of cat cat1] by (auto intro: same_frames_trans)
qed simp

text \<open>The changes of a log describe what the transaction did to its own catalog, too.\<close>

lemma fold_updates_row:
  assumes "distinct (map fst chs)" and "\<forall>(i, r, old) \<in> set chs. rm i = Some old"
  shows "fold (change_row n i) (map (\<lambda>(i, r, old). UpdateC m i r old) chs) (rm i) =
    (if m = n then (rm ++ map_of (map (\<lambda>(i, r, old). (i, r)) chs)) i else rm i)"
  using assms
proof (induction chs arbitrary: rm)
  case (Cons p chs)
  obtain j r old where p: "p = (j, r, old)" by (cases p)
  let ?new = "map (\<lambda>(i, r, old). (i, r)) chs" and ?rm = "rm(j \<mapsto> r)"
  have none: "map_of ?new j = None" using Cons.prems(1) p by (force simp: map_of_eq_None_iff)
  have "\<forall>(i, r, old) \<in> set chs. ?rm i = Some old" using Cons.prems p by force
  then have IH: "fold (change_row n i) (map (\<lambda>(i, r, old). UpdateC m i r old) chs) (?rm i) =
      (if m = n then (?rm ++ map_of ?new) i else ?rm i)"
    using Cons.prems(1) by (intro Cons.IH) simp_all
  have skip: "fold (change_row n i) (map (\<lambda>(i, r, old). UpdateC m i r old) chs) x = x" if "m \<noteq> n" for x
    using that by (induction chs arbitrary: x) auto
  show ?case
    using IH skip none Cons.prems(2) p by (auto simp: map_add_def split: option.splits)
qed simp

lemma wrote_rows:
  assumes w: "wrote E cat cs cat'" and ok: "cat_ok E cat"
  shows "same_frames cat cat' \<and> (\<forall>n i. row_of cat' n i = fold (change_row n i) cs (row_of cat n i))"
  using w
proof cases
  case (ins n t i r t')
  then show ?thesis
    using wrote_ins_ok [OF cat_okD [OF ok ins(3)] ins(4-6)] put_row_frame [of t E i r]
    by (auto simp: row_of_set row_of_def intro: same_frames_set)
next
  case (del n t i r t')
  then show ?thesis
    using wrote_del_ok [OF cat_okD [OF ok del(3)] del(4,5)] drop_row_frame [of t E i r]
      table_okD(1) [OF cat_okD [OF ok del(3)]]
    by (auto simp: row_of_set row_of_def map_of_bt_remove intro: same_frames_set)
next
  case (upd m t chs t')
  have olds: "\<forall>(i, r, old) \<in> set chs. map_of (tab_rows t) i = Some old" using upd(6) by auto
  have skip: "fold (change_row n i) (map (\<lambda>(i, r, old). UpdateC m i r old) chs) x = x" if "m \<noteq> n" for n i x
    using that by (induction chs arbitrary: x) auto
  show ?thesis
    using upd wrote_upd_ok [OF cat_okD [OF ok upd(3)] upd(5-7)] fold_updates_row [OF upd(5) olds, where n = m] skip
    by (auto simp: row_of_set row_of_def intro: same_frames_set)
qed

lemma logged_rows:
  "logged E cat0 lg cat \<Longrightarrow> cat_ok E cat0 \<Longrightarrow>
   same_frames cat0 cat \<and> (\<forall>n i. row_of cat n i = fold (change_row n i) lg (row_of cat0 n i))"
proof (induction rule: logged.induct)
  case (step lg cat cs cat')
  then show ?case
    using wrote_rows [OF step.hyps(2) logged_ok [OF step.hyps(1)]] by (auto intro: same_frames_trans)
qed simp

lemma replay_change_fails:
  assumes ok: "cat_ok E cat" and rep: "replay_change E user c cat = Inl f"
  shows "\<exists>con. f = Err (unique_violation user con)"
proof (cases "cat_table cat (ch_table c)")
  case None
  then show ?thesis using rep by (cases c) (auto simp: replay_change_def on_table_def)
next
  case (Some t)
  note t_ok = cat_okD [OF ok Some]
  show ?thesis
  proof (cases c)
    case (InsertC n i r)
    then show ?thesis
      using rep Some table_insert_closed [of t r E i] table_okD(3) [OF t_ok]
      by (auto simp: replay_change_def on_table_def rbind_eq_Inl map_err_def
          split: if_splits option.splits)
  next
    case (UpdateC n i r old)
    have "table_update E t [(i, r)] = (Inl f :: (ora_error, _) rust) \<Longrightarrow> length r = ncols t \<Longrightarrow> False"
      by (simp add: table_update_closed [OF t_ok] split: option.splits)
    then show ?thesis
      using rep Some UpdateC
      by (auto simp: replay_change_def on_table_def rbind_eq_Inl split: if_splits option.splits)
  next
    case (DeleteC n i old)
    then show ?thesis
      using rep Some
      by (auto simp: replay_change_def on_table_def rbind_eq_Inl table_delete_closed [OF t_ok]
          split: option.splits)
  qed
qed

lemma replay_fails:
  assumes "replay E user lg cat = Inl f" and "cat_ok E cat" and "inserts_fresh cat lg"
    and "\<forall>c \<in> set lg. change_fits cat c"
  shows "\<exists>con. f = Err (unique_violation user con)"
  using assms
proof (induction lg arbitrary: cat)
  case (Cons c lg)
  then consider "replay_change E user c cat = Inl f"
    | cat1 where "replay_change E user c cat = Inr cat1" "replay E user lg cat1 = Inl f"
    by (auto simp: rbind_eq_Inl)
  then show ?case
  proof cases
    case 1
    then show ?thesis using replay_change_fails Cons.prems(2) by blast
  next
    case 2
    have step: "cat_ok E cat1 \<and> same_frames cat cat1 \<and> (\<forall>n i. row_of cat1 n i = change_row n i c (row_of cat n i))"
      using Cons.prems by (intro replay_change_ok [OF _ _ _ 2(1)]) (auto simp: inserts_fresh_def)
    then have "inserts_fresh cat1 lg" using inserts_fresh_step Cons.prems(3) by blast
    with step show ?thesis
      using Cons.IH [OF 2(2)] Cons.prems(4) change_fits_frames [of cat cat1] by auto
  qed
qed simp

section \<open>Properties\<close>

text \<open>C16: Undoing the end of a log brings back exactly the catalog from before it, provided that end
  records how the working catalog came about and no row is changed twice in one run of updates:
  inserted rows are gone, deleted rows are back, changed rows have their old values, also when an
  update swapped unique keys.\<close>

theorem undo_restores:
  assumes "cat_ok E cat" and "logged E cat suffix (txn_work txn)" and "txn_log txn = pre @ suffix"
    and "runs_distinct (rev suffix)"
  shows "undo E txn (length pre) =
    (Inr (txn\<lparr>txn_work := cat, txn_log := pre\<rparr>) :: (ora_error, ('n, 'd) txn) rust)"
  using undo_logged [OF assms(2,1,4)] assms(3) by (simp add: undo_def undoes_def)

text \<open>The catalog with the table \<open>numbers\<close>, and the transaction that swaps its two keys.\<close>

definition numbers_cat :: "(dec, int) catalog" where
  "numbers_cat = catalog_default\<lparr>cat_tables := [(''T'', numbers)]\<rparr>"

lemma numbers_cat_ok: "cat_ok clock_ext numbers_cat"
  by (simp add: numbers_cat_def cat_ok_def bt_ok_def numbers_ok)

lemma numbers_cat_table: "cat_table numbers_cat ''T'' = Some numbers"
  by (simp add: numbers_cat_def cat_table_def)

definition swap_log :: "(dec, int) change list" where
  "swap_log = [UpdateC ''T'' 1 [num 2] [num 1], UpdateC ''T'' 2 [num 1] [num 2]]"

lemma num_not_null [simp]: "\<not> is_null (num i)"
  by (simp add: num_def)

lemma mock_upper: "to_uppercase ''MOCK'' = ''MOCK''"
  by (simp add: to_uppercase_def upcase_def is_ascii_lower_def code_def)

lemma swap_accepted:
  "\<exists>t'. table_update clock_ext numbers [(1, [num 2]), (2, [num 1])] = (Inr (t', None) :: (ora_error, _) rust)"
proof -
  let ?k1 = "key_string clock_ext [num 1]" and ?k2 = "key_string clock_ext [num 2]"
  have "\<not> is_null (num i)" for i by (simp add: num_def)
  then show ?thesis
    using num_key_lits(1)
    by (simp add: numbers_def table_update_def unindex_def unindex_constraint_def index_constraint_def
        unique_key_def index_def num_def [symmetric] del: key_string.simps)
qed

lemma swap_logged: "\<exists>cat'. logged clock_ext numbers_cat swap_log cat'"
proof -
  obtain t' where t': "table_update clock_ext numbers [(1, [num 2]), (2, [num 1])] =
      (Inr (t', None) :: (ora_error, _) rust)"
    using swap_accepted by blast
  have "wrote clock_ext numbers_cat (map (\<lambda>(i, r, old). UpdateC ''T'' i r old)
      [(1, [num 2], [num 1]), (2, [num 1], [num 2])]) (set_table numbers_cat ''T'' t')"
    by (rule wrote.upd [OF numbers_cat_table]) (use t' in \<open>auto simp: numbers_def\<close>)
  then show ?thesis using logged.step [OF logged.start] by (fastforce simp: swap_log_def)
qed

theorem undo_restores_witness:
  "\<exists>work. undo clock_ext \<lparr>txn_base_version = 0, txn_work = work, txn_log = swap_log\<rparr> 0 =
     (Inr \<lparr>txn_base_version = 0, txn_work = numbers_cat, txn_log = []\<rparr> :: (ora_error, _) rust)"
proof -
  obtain work where w: "logged clock_ext numbers_cat swap_log work" using swap_logged by blast
  have "runs_distinct (rev swap_log)" by (simp add: swap_log_def)
  from undo_restores [OF numbers_cat_ok _ _ this, of "\<lparr>txn_base_version = 0, txn_work = work, txn_log = swap_log\<rparr>" "[]"] w
  show ?thesis by auto
qed

text \<open>\<open>rollback_to\<close> a savepoint after more work in the same transaction gives back the session as it
  was when the savepoint was taken; a transaction that had no changes then is gone.\<close>

theorem rollback_to_savepoint:
  assumes "cat_ok E (txn_work t0)" and "logged E (txn_work t0) suffix w" and "runs_distinct (rev suffix)"
    and "ses_txn s0 = (if txn_log t0 = [] then None else Some t0)"
  shows "rollback_to E (ses_savepoint s0)
      (s0\<lparr>ses_txn := Some (t0\<lparr>txn_work := w, txn_log := txn_log t0 @ suffix\<rparr>)\<rparr>) =
    (Inr s0 :: (ora_error, ('n, 'd) session) rust)"
proof -
  have sp: "sp_changes (ses_savepoint s0) = length (txn_log t0)" "sp_commits (ses_savepoint s0) = ses_commits s0"
    using assms(4) by (auto simp: ses_savepoint_def)
  have "undo_changes E (rev suffix) w = (Inr (txn_work t0) :: (ora_error, _) rust)"
    using undo_logged [OF assms(2,1,3)] by (simp add: undoes_def)
  then show ?thesis
    using assms(4) by (simp add: rollback_to_def sp undo_def)
qed

definition ses0 :: "(dec, int) session" where
  "ses0 = session_new (0, 0, 0) ''MOCK''"

theorem rollback_to_savepoint_witness:
  "\<exists>w. rollback_to clock_ext (ses_savepoint ses0)
      (ses0\<lparr>ses_txn := Some \<lparr>txn_base_version = 0, txn_work = w, txn_log = swap_log\<rparr>\<rparr>) =
    (Inr ses0 :: (ora_error, _) rust)"
proof -
  obtain w where w: "logged clock_ext numbers_cat swap_log w" using swap_logged by blast
  let ?t = "\<lparr>txn_base_version = 0, txn_work = numbers_cat, txn_log = []\<rparr>"
  have "runs_distinct (rev swap_log)" by (simp add: swap_log_def)
  from rollback_to_savepoint [of clock_ext ?t swap_log w ses0, OF _ _ this] w
  show ?thesis by (auto simp: numbers_cat_ok ses0_def session_new_def)
qed

definition pairs :: "int \<Rightarrow> (dec, int) table" where
  "pairs v =
     \<lparr>tab_name = ''P'',
      tab_columns =
        [\<lparr>col_name = ''ID'', col_type = NUMBER, col_default = None, col_not_null = False, col_identity = False\<rparr>,
         \<lparr>col_name = ''V'', col_type = NUMBER, col_default = None, col_not_null = False, col_identity = False\<rparr>],
      tab_constraints = [\<lparr>con_name = ''PK'', con_kind = Unique [0] True [key_string clock_ext [num 1] \<mapsto> 1],
        con_is_index = False, con_enabled = True\<rparr>],
      tab_rows = [(1, [num 1, num v])]\<rparr>"

definition pairs_cat :: "int \<Rightarrow> (dec, int) catalog" where
  "pairs_cat v = catalog_default\<lparr>cat_tables := [(''P'', pairs v)]\<rparr>"

lemmas table_eval = table_update_def unindex_def unindex_constraint_def index_constraint_def
  unique_key_def index_def

lemma pairs_update:
  "table_update clock_ext (pairs v) [(1, [num 1, num w])] = (Inr (pairs w, None) :: (ora_error, _) rust)"
  by (simp add: pairs_def table_eval num_def del: key_string.simps)

lemma pairs_update_twice:
  "table_update clock_ext (pairs v) [(1, [num 1, num w]), (1, [num 1, num x])] =
     (Inr (pairs v, Some ''PK'') :: (ora_error, _) rust)"
  by (simp add: pairs_def table_eval num_def del: key_string.simps)

lemma pairs_wrote:
  "wrote clock_ext (pairs_cat v) [UpdateC ''P'' 1 [num 1, num w] [num 1, num v]] (pairs_cat w)"
proof -
  have "wrote clock_ext (pairs_cat v)
      (map (\<lambda>(i, r, old). UpdateC ''P'' i r old) [(1, [num 1, num w], [num 1, num v])])
      (set_table (pairs_cat v) ''P'' (pairs w))"
  proof (rule wrote.upd [of _ _ "pairs v"])
    show "\<forall>(i, r, old) \<in> set [(1, [num 1, num w], [num 1, num v])].
        map_of (tab_rows (pairs v)) i = Some old \<and> length r = ncols (pairs v)"
      by (simp add: pairs_def)
  qed (simp_all add: pairs_cat_def cat_table_def pairs_update del: One_nat_def)
  then show ?thesis by (simp add: set_table_def pairs_cat_def)
qed


lemma version_frame [simp]:
  "cat_table (cat\<lparr>cat_version := v\<rparr>) n = cat_table cat n" "row_of (cat\<lparr>cat_version := v\<rparr>) n i = row_of cat n i"
  "cat_ok E (cat\<lparr>cat_version := v\<rparr>) = cat_ok E cat" "set_table (cat\<lparr>cat_version := v\<rparr>) n t = (set_table cat n t)\<lparr>cat_version := v\<rparr>"
  by (simp_all add: cat_table_def row_of_def cat_ok_def set_table_def)


definition db_at :: "nat \<Rightarrow> (dec, int) catalog \<Rightarrow> (dec, int) database" where
  "db_at v cat = database_default\<lparr>db_state := cat\<lparr>cat_version := v\<rparr>\<rparr>"

definition ses_with :: "(dec, int) change list \<Rightarrow> (dec, int) catalog \<Rightarrow> (dec, int) session" where
  "ses_with lg work = ses0\<lparr>ses_txn := Some \<lparr>txn_base_version = 0, txn_work = work, txn_log = lg\<rparr>\<rparr>"


definition shift_log :: "(dec, int) change list" where
  "shift_log = [UpdateC ''T'' 1 [num 2] [num 1], UpdateC ''T'' 2 [num 3] [num 2]]"

lemma shift_accepted:
  "\<exists>t'. table_update clock_ext numbers [(1, [num 2]), (2, [num 3])] = (Inr (t', None) :: (ora_error, _) rust)"
  using num_key_lits
  by (simp add: numbers_def table_eval num_def [symmetric] num_not_null del: key_string.simps)

lemma shift_first_refused:
  "table_update clock_ext numbers [(1, [num 2])] = (Inr (numbers, Some ''PK'') :: (ora_error, _) rust)"
  using num_key_lits
  by (simp add: numbers_def table_eval num_not_null fun_upd_twist del: key_string.simps)


end
