(* ===== verification/Arith.thy ===== *)
theory Arith
  imports External
begin

text \<open>
  The arithmetic of \<open>bigdecimal\<close> and of the floating-point library that query evaluation and the SQL
  functions call, as a second record of parameters, and \<open>str::parse\<close> of signed integers.
  \<open>f64_exp\<close> and its neighbours stand for \<open>n.to_f64().unwrap_or(NAN).exp().to_string()\<close>, and are \<open>None\<close> when
  the result is not finite.
\<close>

record ('n, 'd) arith =
  bd_add :: "'n \<Rightarrow> 'n \<Rightarrow> 'n"
  bd_sub :: "'n \<Rightarrow> 'n \<Rightarrow> 'n"
  bd_mul :: "'n \<Rightarrow> 'n \<Rightarrow> 'n"
  bd_div :: "'n \<Rightarrow> 'n \<Rightarrow> 'n"
  bd_neg :: "'n \<Rightarrow> 'n"
  bd_sqrt :: "'n \<Rightarrow> 'n option"
  bd_digits :: "'n \<Rightarrow> nat"
  bd_with_prec :: "'n \<Rightarrow> nat \<Rightarrow> 'n"
  bd_is_integer :: "'n \<Rightarrow> bool"
  bd_to_i64 :: "'n \<Rightarrow> int option"
  f64_exp :: "'n \<Rightarrow> string option"
  f64_ln :: "'n \<Rightarrow> string option"
  f64_powf :: "'n \<Rightarrow> 'n \<Rightarrow> string option"
  f64_log :: "'n \<Rightarrow> 'n \<Rightarrow> string option"
  dt_diff_nanos :: "'d \<Rightarrow> 'd \<Rightarrow> int option"
  dt_with_day :: "'d \<Rightarrow> nat \<Rightarrow> 'd option"

text \<open>\<open>str::parse\<close> of a signed integer of \<open>w\<close> bits: an optional sign and at least one digit.\<close>

definition parse_signed :: "nat \<Rightarrow> string \<Rightarrow> int option" where
  "parse_signed w s =
     (let neg = (take 1 s = ''-''); ds = (if neg \<or> take 1 s = ''+'' then drop 1 s else s);
          n = (if neg then - int (digits_val ds) else int (digits_val ds)) in
      if ds \<noteq> [] \<and> list_all is_ascii_digit ds \<and> - (2 ^ (w - 1)) \<le> n \<and> n < 2 ^ (w - 1) then Some n else None)"

text \<open>\<open>str::parse\<close> of an unsigned integer of \<open>w\<close> bits: an optional plus and at least one digit.\<close>

definition parse_unsigned :: "nat \<Rightarrow> string \<Rightarrow> nat option" where
  "parse_unsigned w s =
     (let ds = (if take 1 s = ''+'' then drop 1 s else s) in
      if ds \<noteq> [] \<and> list_all is_ascii_digit ds \<and> digits_val ds < 2 ^ w then Some (digits_val ds) else None)"

end
