(* ===== verification/Eval_Base.thy ===== *)
theory Eval_Base
  imports Txn Arith
begin

text \<open>
  The parts of \<open>crates/mock-oracle-core/src/eval.rs\<close> that do not evaluate expressions: relations and
  scopes, the sequence values of a row, column lookup, types of result columns, \<open>IN\<close> and \<open>LIKE\<close>.
  Evaluation reads a catalog, the binds and the PL/SQL variables (the record \<open>ex\<close>) and threads the
  database's counters and the cells of \<open>Env\<close> through every step; a failing step keeps what it has
  done to them, so a computation is a function from that state to a result and a state.
\<close>

section \<open>Computations\<close>

type_synonym ('n, 'd) est = "('n, 'd) database \<times> 'd env"

type_synonym ('n, 'd, 'r) ev = "('n, 'd) est \<Rightarrow> 'r ora_result \<times> ('n, 'd) est"

definition eret :: "'r \<Rightarrow> ('n, 'd, 'r) ev" where
  "eret r s = (Inr r, s)"

definition elift :: "'r ora_result \<Rightarrow> ('n, 'd, 'r) ev" where
  "elift r s = (r, s)"

definition ebind :: "('n, 'd, 'a) ev \<Rightarrow> ('a \<Rightarrow> ('n, 'd, 'b) ev) \<Rightarrow> ('n, 'd, 'b) ev" where
  "ebind m f s = (case m s of (Inl x, s') \<Rightarrow> (Inl x, s') | (Inr a, s') \<Rightarrow> f a s')"

abbreviation eora :: "nat \<Rightarrow> string \<Rightarrow> ('n, 'd, 'r) ev" where
  "eora c m \<equiv> elift (ora_fail c m)"

definition eenv :: "('d env \<Rightarrow> 'r) \<Rightarrow> ('n, 'd, 'r) ev" where
  "eenv f s = (Inr (f (snd s)), s)"

definition edb :: "(('n, 'd) database \<Rightarrow> 'r) \<Rightarrow> ('n, 'd, 'r) ev" where
  "edb f s = (Inr (f (fst s)), s)"

definition eset_env :: "('d env \<Rightarrow> 'd env) \<Rightarrow> ('n, 'd, unit) ev" where
  "eset_env f s = (Inr (), (fst s, f (snd s)))"

text \<open>An operation of \<open>Database\<close> that changes its counters.\<close>

definition estep :: "(('n, 'd) database \<Rightarrow> 'r \<times> ('n, 'd) database) \<Rightarrow> ('n, 'd, 'r) ev" where
  "estep f s = (let (r, db) = f (fst s) in (Inr r, (db, snd s)))"

definition estep_r :: "(('n, 'd) database \<Rightarrow> 'r ora_result \<times> ('n, 'd) database) \<Rightarrow> ('n, 'd, 'r) ev" where
  "estep_r f s = (let (r, db) = f (fst s) in (r, (db, snd s)))"

fun emap :: "('a \<Rightarrow> ('n, 'd, 'b) ev) \<Rightarrow> 'a list \<Rightarrow> ('n, 'd, 'b list) ev" where
  "emap f [] = eret []"
| "emap f (x # xs) = ebind (f x) (\<lambda>y. ebind (emap f xs) (\<lambda>ys. eret (y # ys)))"

fun efold :: "('a \<Rightarrow> 'b \<Rightarrow> ('n, 'd, 'b) ev) \<Rightarrow> 'a list \<Rightarrow> 'b \<Rightarrow> ('n, 'd, 'b) ev" where
  "efold f [] b = eret b"
| "efold f (x # xs) b = ebind (f x b) (efold f xs)"

text \<open>A guard's destructor runs when the scope is left, also with an error.\<close>

definition efinally :: "('n, 'd, 'r) ev \<Rightarrow> ('d env \<Rightarrow> 'd env) \<Rightarrow> ('n, 'd, 'r) ev" where
  "efinally m f s = (let (r, s') = m s in (r, (fst s', f (snd s'))))"

lemma ebind_simps [simp]: "ebind (eret a) f = f a" "ebind (elift (Inl x)) f = elift (Inl x)"
  "ebind (elift (Inr a)) f = f a"
  by (simp_all add: fun_eq_iff ebind_def eret_def elift_def)

section \<open>Relations and scopes\<close>

record rel_col =
  rc_qualifier :: "string option"
  rc_name :: string
  rc_type :: sql_type

record ('n, 'd) relation =
  rel_cols :: "rel_col list"
  rel_rows :: "('n, 'd) value list list"

datatype (dead 'n, dead 'd) scope =
  Scope (sc_cols: "rel_col list") (sc_row: "('n, 'd) value list") (sc_group: "('n, 'd) value list list option")
    (sc_rownum: int) (sc_parent: "('n, 'd) scope option")

definition scope_empty :: "('n, 'd) scope option \<Rightarrow> ('n, 'd) scope" where
  "scope_empty parent = Scope [] [] None 0 parent"

definition scope_row :: "rel_col list \<Rightarrow> ('n, 'd) value list \<Rightarrow> ('n, 'd) scope option \<Rightarrow> ('n, 'd) scope" where
  "scope_row cols row parent = Scope cols row None 0 parent"

text \<open>\<open>Ex\<close>, less the environment and the database, which are the state. Without PL/SQL variables the
  lookup finds nothing.\<close>

record ('n, 'd) ex =
  ex_cat :: "('n, 'd) catalog"
  ex_binds :: "('n, 'd) value list"
  ex_vars :: "string option \<Rightarrow> string \<Rightarrow> ('n, 'd) value option"

section \<open>Expressions\<close>

fun children :: "('n, 'd) expr \<Rightarrow> ('n, 'd) expr list" where
  "children (Neg a) = [a]"
| "children (NotE a) = [a]"
| "children (Binary _ a b) = [a, b]"
| "children (IsNull e _) = [e]"
| "children (InSubquery e _ _) = [e]"
| "children (Between e low high _) = [e, low, high]"
| "children (InList e xs _) = e # xs"
| "children (Like e p esc _) = [e, p] @ (case esc of Some x \<Rightarrow> [x] | None \<Rightarrow> [])"
| "children (CaseE operand whens els) =
     (case operand of Some x \<Rightarrow> [x] | None \<Rightarrow> []) @ concat (map (\<lambda>(w, t). [w, t]) whens) @
     (case els of Some x \<Rightarrow> [x] | None \<Rightarrow> [])"
| "children (Function _ args _) = args"
| "children _ = []"

lemma children_smaller: "c \<in> set (children e) \<Longrightarrow> size c < size e"
proof (cases e)
  case (CaseE operand whens els)
  assume "c \<in> set (children e)"
  moreover have "size c < Suc (size_list (size_prod size size) whens)" if "(w, t) \<in> set whens" "c = w \<or> c = t" for w t
    using that size_list_estimation' [OF that(1), of "size c" "size_prod size size"] by auto
  ultimately show ?thesis using CaseE by (fastforce split: option.splits)
next
  case (InList x xs b)
  assume "c \<in> set (children e)"
  then show ?thesis using InList size_list_estimation' [of c xs "size c" size] by auto
next
  case (Function n xs b)
  assume "c \<in> set (children e)"
  then show ?thesis using Function size_list_estimation' [of c xs "size c" size] by auto
qed (auto split: option.splits)

function nextval_names :: "('n, 'd) expr \<Rightarrow> string list \<Rightarrow> string list" where
  "nextval_names e out =
     fold nextval_names (children e)
       (case e of SequenceE name True \<Rightarrow> if name \<in> set out then out else out @ [name] | _ \<Rightarrow> out)"
  by pat_completeness auto

termination
  by (relation "measure (size \<circ> fst)") (auto dest: children_smaller)

declare nextval_names.simps [simp del]

definition short_name :: "string \<Rightarrow> string" where
  "short_name name = rev (takeWhile (\<lambda>c. c \<noteq> CHR ''.'') (rev name))"

definition AGGREGATES :: "string list" where
  "AGGREGATES = [''COUNT'', ''SUM'', ''AVG'', ''MIN'', ''MAX'', ''STDDEV'', ''VARIANCE'', ''MEDIAN'']"

definition is_aggregate :: "string \<Rightarrow> bool" where
  "is_aggregate name = (name \<in> set AGGREGATES)"

function contains_aggregate :: "('n, 'd) expr \<Rightarrow> bool" where
  "contains_aggregate e \<longleftrightarrow>
     (case e of CountStar \<Rightarrow> True | Function name _ _ \<Rightarrow> is_aggregate name | _ \<Rightarrow> False) \<or>
     list_ex contains_aggregate (children e)"
  by pat_completeness auto

termination
  by (relation "measure size") (auto simp del: children.simps dest: children_smaller)

declare contains_aggregate.simps [simp del]

section \<open>Columns and sequences\<close>

definition invalid_column :: "string option \<Rightarrow> string \<Rightarrow> ora_error" where
  "invalid_column table name =
     (case table of
        Some t \<Rightarrow> invalid_identifier (quoted t @ ''.'' @ quoted name)
      | None \<Rightarrow> invalid_identifier (quoted name))"

definition col_matches :: "string option \<Rightarrow> string \<Rightarrow> rel_col \<Rightarrow> bool" where
  "col_matches table name c =
     (rc_name c = name \<and> (case table of None \<Rightarrow> True | Some t \<Rightarrow> rc_qualifier c = Some t))"

text \<open>The loop of \<open>find_column\<close>; \<open>i\<close> is the position of the first column of the list.\<close>

fun find_from :: "nat \<Rightarrow> nat option \<Rightarrow> rel_col list \<Rightarrow> string option \<Rightarrow> string \<Rightarrow> nat option ora_result" where
  "find_from i found [] table name = Inr found"
| "find_from i found (c # cs) table name =
     (if col_matches table name c then
        if found \<noteq> None then ora_fail 918 ''column ambiguously defined''
        else find_from (i + 1) (Some i) cs table name
      else find_from (i + 1) found cs table name)"

definition find_column :: "rel_col list \<Rightarrow> string option \<Rightarrow> string \<Rightarrow> nat option ora_result" where
  "find_column cols table name = find_from 0 None cols table name"

definition advance_sequence :: "string \<Rightarrow> ('n, 'd, int) ev" where
  "advance_sequence name =
     (let short = short_name name in
      ebind (edb (db_sequence_def short)) (\<lambda>def.
      case def of
        None \<Rightarrow> eora 2289 ''sequence does not exist''
      | Some def \<Rightarrow>
          ebind (estep_r (next_sequence short def)) (\<lambda>v.
          ebind (eset_env (\<lambda>env. env\<lparr>env_currval := (env_currval env)(short \<mapsto> v)\<rparr>)) (\<lambda>_. eret v))))"

definition clear_row :: "'d env \<Rightarrow> 'd env" where
  "clear_row env = env\<lparr>env_row_sequences := Map.empty\<rparr>"

definition start_row :: "('n, 'd) expr list \<Rightarrow> ('n, 'd, unit) ev" where
  "start_row exprs =
     ebind (eset_env clear_row) (\<lambda>_.
     efold (\<lambda>name _.
       ebind (advance_sequence name) (\<lambda>v.
       eset_env (\<lambda>env. env\<lparr>env_row_sequences := (env_row_sequences env)(short_name name \<mapsto> v)\<rparr>)))
       (fold nextval_names exprs []) ())"

text \<open>The values last until the guard that \<open>start_row\<close> returns is dropped.\<close>

definition with_row :: "('n, 'd) expr list \<Rightarrow> ('n, 'd, 'r) ev \<Rightarrow> ('n, 'd, 'r) ev" where
  "with_row exprs m = efinally (ebind (start_row exprs) (\<lambda>_. m)) clear_row"

definition sequence :: "('n, 'd, 'a) ext \<Rightarrow> string \<Rightarrow> bool \<Rightarrow> ('n, 'd, ('n, 'd) value) ev" where
  "sequence E name nxt =
     (let short = short_name name in
      ebind (edb (db_sequence_def short)) (\<lambda>def.
      if def = None then eora 2289 ''sequence does not exist''
      else
        ebind (eenv (\<lambda>env. env_row_sequences env short)) (\<lambda>cached.
        ebind (case cached of
                 Some v \<Rightarrow> eret v
               | None \<Rightarrow>
                   if nxt then advance_sequence short
                   else
                     ebind (eenv (\<lambda>env. env_currval env short)) (\<lambda>c.
                     case c of
                       Some v \<Rightarrow> eret v
                     | None \<Rightarrow> eora 8002 (''sequence '' @ short @ ''.CURRVAL is not yet defined in this session'')))
        (\<lambda>v. eret (Number (bd_from_int E v))))))"

section \<open>Rows and result columns\<close>

definition round_number :: "('n, 'd, 'a) ext \<Rightarrow> ('n, 'd) arith \<Rightarrow> 'n \<Rightarrow> 'n" where
  "round_number E A n = (if bd_digits A n > 40 then bd_normalized E (bd_with_prec A n 40) else n)"

fun in_loop :: "('n, 'd, 'a) ext \<Rightarrow> ('n, 'd) value \<Rightarrow> string \<Rightarrow> bool \<Rightarrow> ('n, 'd) value list \<Rightarrow> bool option ora_result" where
  "in_loop E v fmt unknown [] = Inr (if unknown then None else Some False)"
| "in_loop E v fmt unknown (c # cs) =
     rbind (compare E v c fmt) (\<lambda>r.
     case r of
       Some Equal \<Rightarrow> Inr (Some True)
     | None \<Rightarrow> in_loop E v fmt True cs
     | _ \<Rightarrow> in_loop E v fmt unknown cs)"

definition in_values :: "('n, 'd, 'a) ext \<Rightarrow> ('n, 'd) value \<Rightarrow> ('n, 'd) value list \<Rightarrow> string \<Rightarrow> bool option ora_result" where
  "in_values E v candidates fmt = (if is_null v then Inr None else in_loop E v fmt False candidates)"

definition cross :: "('n, 'd) relation \<Rightarrow> ('n, 'd) relation \<Rightarrow> ('n, 'd) relation" where
  "cross left right =
     \<lparr>rel_cols = rel_cols left @ rel_cols right,
      rel_rows = concat (map (\<lambda>l. map (\<lambda>r. l @ r) (rel_rows right)) (rel_rows left))\<rparr>"

text \<open>\<open>retain\<close> or \<open>filter\<close> by \<open>seen.insert(key)\<close>: the first element with each key.\<close>

fun first_of_key :: "('a \<Rightarrow> string) \<Rightarrow> string list \<Rightarrow> 'a list \<Rightarrow> 'a list" where
  "first_of_key key seen [] = []"
| "first_of_key key seen (x # xs) =
     (if key x \<in> set seen then first_of_key key seen xs else x # first_of_key key (key x # seen) xs)"

definition distinct_rows :: "('n, 'd, 'a) ext \<Rightarrow> ('n, 'd) value list list \<Rightarrow> ('n, 'd) value list list" where
  "distinct_rows E rows = first_of_key (key_string E) [] rows"

definition position_literal :: "('n, 'd, 'a) ext \<Rightarrow> ('n, 'd) expr \<Rightarrow> int option" where
  "position_literal E e = (case e of Literal (Number n) \<Rightarrow> parse_signed 64 (bd_to_string E n) | _ \<Rightarrow> None)"

definition order_position :: "'r ora_result" where
  "order_position = ora_fail 1785 ''ORDER BY item must be the number of a SELECT-list expression''"

definition output_position :: "('n, 'd, 'a) ext \<Rightarrow> ('n, 'd) expr \<Rightarrow> rel_col list \<Rightarrow> nat option ora_result" where
  "output_position E e cols =
     (case position_literal E e of
        Some p \<Rightarrow> if p < 1 \<or> p > int (length cols) then order_position else Inr (Some (nat p - 1))
      | None \<Rightarrow>
          (case e of
             Column None name \<Rightarrow> Inr (position (\<lambda>c. rc_name c = name) cols)
           | _ \<Rightarrow> Inr None))"

fun text_width :: "sql_type \<Rightarrow> nat option" where
  "text_width (TVarchar2 n) = Some n"
| "text_width (TChar n) = Some n"
| "text_width _ = None"

fun is_date_type :: "sql_type \<Rightarrow> bool" where
  "is_date_type TDate = True"
| "is_date_type (TTimestamp _) = True"
| "is_date_type _ = False"

fun is_number_type :: "sql_type \<Rightarrow> bool" where
  "is_number_type (TNumber _ _) = True"
| "is_number_type _ = False"

definition union_type :: "sql_type \<Rightarrow> sql_type \<Rightarrow> sql_type ora_result" where
  "union_type a b =
     (if a = TVarchar2 0 then Inr b
      else if b = TVarchar2 0 then Inr a
      else if is_number_type a \<and> is_number_type b then Inr NUMBER
      else
        case (text_width a, text_width b) of
          (Some x, Some y) \<Rightarrow> Inr (TVarchar2 (max x y))
        | _ \<Rightarrow>
            if a = TDate \<and> b = TDate then Inr TDate
            else if is_date_type a \<and> is_date_type b then Inr (TTimestamp 9)
            else ora_fail 1790 ''expression must have same datatype as corresponding expression'')"

fun infer_loop :: "('n, 'd) value list \<Rightarrow> nat \<Rightarrow> sql_type option \<Rightarrow> nat \<times> sql_type option" where
  "infer_loop [] max_len kind = (max_len, kind)"
| "infer_loop (v # vs) max_len kind =
     (case v of
        Null \<Rightarrow> infer_loop vs max_len kind
      | Varchar2 s \<Rightarrow> infer_loop vs (max max_len (length s)) kind
      | other \<Rightarrow>
          infer_loop vs max_len
            (case kind of
               Some k \<Rightarrow> Some k
             | None \<Rightarrow> Some (case other of Number _ \<Rightarrow> NUMBER | Date _ \<Rightarrow> TDate | _ \<Rightarrow> TTimestamp 9)))"

definition infer_type :: "sql_type option \<Rightarrow> ('n, 'd) value list \<Rightarrow> sql_type" where
  "infer_type declared values =
     (case declared of
        Some t \<Rightarrow> t
      | None \<Rightarrow>
          (case infer_loop values 0 None of
             (max_len, kind) \<Rightarrow>
               (case kind of Some t \<Rightarrow> if max_len = 0 then t else TVarchar2 max_len | None \<Rightarrow> TVarchar2 max_len)))"

definition zero_nanos :: "('n, 'd, 'a) ext \<Rightarrow> 'd \<Rightarrow> 'd" where
  "zero_nanos E d = (case dt_with_nanosecond E d 0 of Some x \<Rightarrow> x | None \<Rightarrow> d)"

definition coerce_value :: "('n, 'd, 'a) ext \<Rightarrow> 'd env \<Rightarrow> sql_type \<Rightarrow> ('n, 'd) value \<Rightarrow> ('n, 'd) value ora_result" where
  "coerce_value E env t v =
     (case v of
        Null \<Rightarrow> Inr Null
      | Boolean _ \<Rightarrow> ora_fail 902 ''invalid datatype''
      | Varchar2 s \<Rightarrow>
          (case t of
             TNumber _ _ \<Rightarrow> rbind (to_number E v) (\<lambda>n. rbind (unwrap n) (\<lambda>n. Inr (Number n)))
           | TDate \<Rightarrow> rbind (to_datetime E (env_nls_date_format env) v) (\<lambda>d. rbind (unwrap d) (\<lambda>d. Inr (Date d)))
           | TTimestamp _ \<Rightarrow>
               rbind (to_datetime E (env_nls_timestamp_format env) v) (\<lambda>d. rbind (unwrap d) (\<lambda>d. Inr (Timestamp d)))
           | _ \<Rightarrow> Inr v)
      | Number n \<Rightarrow>
          if text_width t \<noteq> None then Inr (varchar (format_number E n))
          else if is_date_type t then Inl (Err (inconsistent ''DATE'' ''NUMBER''))
          else Inr v
      | Date d \<Rightarrow>
          (case t of
             TNumber _ _ \<Rightarrow> Inl (Err (inconsistent ''NUMBER'' ''DATE''))
           | TTimestamp _ \<Rightarrow> Inr (Timestamp d)
           | TDate \<Rightarrow> Inr v
           | _ \<Rightarrow> rbind (dt_format E d (env_nls_date_format env)) (\<lambda>s. Inr (varchar s)))
      | Timestamp d \<Rightarrow>
          (case t of
             TNumber _ _ \<Rightarrow> Inl (Err (inconsistent ''NUMBER'' ''DATE''))
           | TDate \<Rightarrow> Inr (Date (zero_nanos E d))
           | TTimestamp _ \<Rightarrow> Inr v
           | _ \<Rightarrow> rbind (dt_format E d (env_nls_timestamp_format env)) (\<lambda>s. Inr (varchar s))))"

definition coerce_row ::
  "('n, 'd, 'a) ext \<Rightarrow> ('n, 'd) value list \<Rightarrow> rel_col list \<Rightarrow> 'd env \<Rightarrow> ('n, 'd) value list ora_result" where
  "coerce_row E row cols env = map_rust (\<lambda>(v, c). coerce_value E env (rc_type c) v) (zip row cols)"

text \<open>Implicit conversion to text with the session's formats.\<close>

definition to_text :: "('n, 'd, 'a) ext \<Rightarrow> 'd env \<Rightarrow> ('n, 'd) value \<Rightarrow> string option ora_result" where
  "to_text E env v =
     (case v of
        Null \<Rightarrow> Inr None
      | Date d \<Rightarrow> rbind (dt_format E d (env_nls_date_format env)) (\<lambda>s. Inr (Some s))
      | Timestamp d \<Rightarrow> rbind (dt_format E d (env_nls_timestamp_format env)) (\<lambda>s. Inr (Some s))
      | _ \<Rightarrow> rbind (display E v) (\<lambda>s. Inr (Some s)))"

end
