(* ===== verification/Foreign_Keys.thy ===== *)
theory Foreign_Keys
  imports Txn
begin

text \<open>
  \<open>enforce_foreign_keys\<close> of \<open>crates/mock-oracle-core/src/session.rs\<close>, which runs after every DML
  statement: removed parent keys fail or cascade to their child rows in rounds over the log, then
  the rows the statement touched need their parent keys. The sets of removed keys are lists. Below
  the code, the proof that referential integrity survives every statement that succeeds, and that
  the rounds end.
\<close>

section \<open>One foreign key in one round\<close>

definition violated :: "string \<Rightarrow> nat \<Rightarrow> string \<Rightarrow> string \<Rightarrow> ora_error" where
  "violated user c n why = ora c (''integrity constraint ('' @ user @ ''.'' @ n @ '') violated - '' @ why)"

text \<open>The keys of \<open>f\<close>'s parent that a change removes: by a delete, and by an update.\<close>

definition removed_keys ::
  "('n, 'd, 'a) ext \<Rightarrow> foreign_key_ref \<Rightarrow> ('n, 'd) change \<Rightarrow> ('e, string list \<times> string list) rust" where
  "removed_keys E f c =
     (case c of
        DeleteC n _ old \<Rightarrow>
          if n = fk_parent f then
            rbind (foreign_key E (fk_parent_columns f) old) (\<lambda>k.
            Inr (case k of Some k \<Rightarrow> [k] | None \<Rightarrow> [], []))
          else Inr ([], [])
      | UpdateC n _ values old \<Rightarrow>
          if n = fk_parent f then
            rbind (foreign_key E (fk_parent_columns f) old) (\<lambda>k.
            if k \<noteq> None then
              rbind (foreign_key E (fk_parent_columns f) values) (\<lambda>k'.
              Inr ([], if k \<noteq> k' then (case k of Some k \<Rightarrow> [k] | None \<Rightarrow> []) else []))
            else Inr ([], []))
          else Inr ([], [])
      | InsertC _ _ _ \<Rightarrow> Inr ([], []))"

text \<open>\<open>retain(|k| !parent.has_key(..))\<close>.\<close>

fun retain_missing ::
  "('n, 'd, 'a) ext \<Rightarrow> ('n, 'd) table \<Rightarrow> nat list \<Rightarrow> string list \<Rightarrow> ('e, string list) rust" where
  "retain_missing E p cols [] = Inr []"
| "retain_missing E p cols (k # ks) =
     rbind (has_key E p cols k) (\<lambda>found.
     rbind (retain_missing E p cols ks) (\<lambda>rest. Inr (if found then rest else k # rest)))"

text \<open>The child rows that hold a deleted key; one that holds an updated key is an error.\<close>

fun find_hits ::
  "('n, 'd, 'a) ext \<Rightarrow> string \<Rightarrow> foreign_key_ref \<Rightarrow> string list \<Rightarrow> string list \<Rightarrow>
   (nat \<times> ('n, 'd) value list) list \<Rightarrow> (nat \<times> ('n, 'd) value list) list ora_result" where
  "find_hits E user f deleted updated [] = Inr []"
| "find_hits E user f deleted updated ((i, row) # rows) =
     rbind (foreign_key E (fk_columns f) row) (\<lambda>k.
     case k of
       None \<Rightarrow> find_hits E user f deleted updated rows
     | Some k \<Rightarrow>
         if k \<in> set updated then Inl (Err (violated user 2292 (fk_name f) ''child record found''))
         else
           rbind (find_hits E user f deleted updated rows) (\<lambda>hits.
           Inr (if k \<in> set deleted then (i, row) # hits else hits)))"

type_synonym ('n, 'd) txn_step = "('n, 'd) txn \<Rightarrow> unit ora_result \<times> ('n, 'd) txn"

definition push :: "('n, 'd) change list \<Rightarrow> ('n, 'd) txn \<Rightarrow> ('n, 'd) txn" where
  "push cs txn = txn\<lparr>txn_log := txn_log txn @ cs\<rparr>"

definition set_work :: "string \<Rightarrow> ('n, 'd) table \<Rightarrow> ('n, 'd) txn \<Rightarrow> ('n, 'd) txn" where
  "set_work n t txn = txn\<lparr>txn_work := set_table (txn_work txn) n t\<rparr>"

text \<open>\<open>table.delete(id); log.push(Delete)\<close> for each row, also the loop of \<open>DELETE\<close>.\<close>

fun delete_rows ::
  "('n, 'd, 'a) ext \<Rightarrow> string \<Rightarrow> (nat \<times> ('n, 'd) value list) list \<Rightarrow> ('n, 'd) txn_step" where
  "delete_rows E n [] txn = (Inr (), txn)"
| "delete_rows E n ((i, old) # rows) txn =
     (case cat_table (txn_work txn) n of
        None \<Rightarrow> (Inl Panic, txn)
      | Some t \<Rightarrow>
          (case table_delete E t i of
             Inl x \<Rightarrow> (Inl x, txn)
           | Inr (t', _) \<Rightarrow> delete_rows E n rows (push [DeleteC n i old] (set_work n t' txn))))"

text \<open>\<open>table.update(changes)\<close> and its log entries, also the end of \<open>UPDATE\<close>.\<close>

definition update_rows ::
  "('n, 'd, 'a) ext \<Rightarrow> string \<Rightarrow> string \<Rightarrow> (nat \<times> ('n, 'd) value list) list \<Rightarrow> ('n, 'd) value list list \<Rightarrow>
   ('n, 'd) txn_step" where
  "update_rows E user n changes olds txn =
     (case cat_table (txn_work txn) n of
        None \<Rightarrow> (Inl Panic, txn)
      | Some t \<Rightarrow>
          (case table_update E t changes of
             Inl x \<Rightarrow> (Inl x, txn)
           | Inr (t', Some con) \<Rightarrow> (Inl (Err (unique_violation user con)), set_work n t' txn)
           | Inr (t', None) \<Rightarrow>
               (Inr (), push (map (\<lambda>((i, r), old). UpdateC n i r old) (zip changes olds)) (set_work n t' txn))))"

definition primary_columns :: "('n, 'd) table \<Rightarrow> nat list" where
  "primary_columns t =
     (case find (\<lambda>c. is_primary c \<and> con_enabled c) (tab_constraints t) of
        Some c \<Rightarrow> (case con_kind c of Unique cols _ _ \<Rightarrow> cols | _ \<Rightarrow> [])
      | None \<Rightarrow> [])"

definition null_columns :: "nat list \<Rightarrow> ('n, 'd) value list \<Rightarrow> ('e, ('n, 'd) value list) rust" where
  "null_columns cols row =
     (if list_all (\<lambda>c. c < length row) cols then Inr (fold (\<lambda>c r. r[c := Null]) cols row) else Inl Panic)"

definition check_nullable ::
  "string \<Rightarrow> ('n, 'd) table \<Rightarrow> nat list \<Rightarrow> unit ora_result" where
  "check_nullable user t cols =
     each (\<lambda>c.
       rbind (index (tab_columns t) c) (\<lambda>col.
       if col_not_null col \<or> c \<in> set (primary_columns t) then
         ora_fail 1407 (''cannot update ('' @ quoted user @ ''.'' @ quoted (tab_name t) @ ''.'' @
           quoted (col_name col) @ '') to NULL'')
       else Inr ())) cols"

definition on_parent_removed ::
  "('n, 'd, 'a) ext \<Rightarrow> string \<Rightarrow> foreign_key_ref \<Rightarrow> ('n, 'd) table \<Rightarrow> (nat \<times> ('n, 'd) value list) list \<Rightarrow>
   ('n, 'd) txn_step" where
  "on_parent_removed E user f child hits txn =
     (case fk_on_delete f of
        Restrict \<Rightarrow> (Inl (Err (violated user 2292 (fk_name f) ''child record found'')), txn)
      | Cascade \<Rightarrow> delete_rows E (fk_child f) hits txn
      | SetNull \<Rightarrow>
          (case rbind (check_nullable user child (fk_columns f)) (\<lambda>_.
                map_rust (\<lambda>(i, old). rbind (null_columns (fk_columns f) old) (\<lambda>r. Inr (i, r))) hits) of
             Inl x \<Rightarrow> (Inl x, txn)
           | Inr changes \<Rightarrow> update_rows E user (fk_child f) changes (map snd hits) txn))"

definition parent_step ::
  "('n, 'd, 'a) ext \<Rightarrow> string \<Rightarrow> ('n, 'd) change list \<Rightarrow> foreign_key_ref \<Rightarrow> ('n, 'd) txn_step" where
  "parent_step E user changes f txn =
     (case rbind (map_rust (removed_keys E f) changes) (\<lambda>ks.
           rbind (unwrap (cat_table (txn_work txn) (fk_parent f))) (\<lambda>parent.
           rbind (retain_missing E parent (fk_parent_columns f) (concat (map fst ks))) (\<lambda>deleted.
           rbind (retain_missing E parent (fk_parent_columns f) (concat (map snd ks))) (\<lambda>updated.
           if deleted = [] \<and> updated = [] then Inr None
           else
             rbind (unwrap (cat_table (txn_work txn) (fk_child f))) (\<lambda>child.
             rbind (find_hits E user f deleted updated (tab_rows child)) (\<lambda>hits.
             Inr (if hits = [] then None else Some (child, hits)))))))) of
        Inl x \<Rightarrow> (Inl x, txn)
      | Inr None \<Rightarrow> (Inr (), txn)
      | Inr (Some (child, hits)) \<Rightarrow> on_parent_removed E user f child hits txn)"

section \<open>Rounds\<close>

fun parent_round ::
  "('n, 'd, 'a) ext \<Rightarrow> string \<Rightarrow> ('n, 'd) change list \<Rightarrow> foreign_key_ref list \<Rightarrow> ('n, 'd) txn_step" where
  "parent_round E user changes [] txn = (Inr (), txn)"
| "parent_round E user changes (f # fs) txn =
     (case parent_step E user changes f txn of
        (Inl x, txn') \<Rightarrow> (Inl x, txn')
      | (Inr _, txn') \<Rightarrow> parent_round E user changes fs txn')"

partial_function (option) parent_rounds ::
  "('n, 'd, 'a) ext \<Rightarrow> string \<Rightarrow> foreign_key_ref list \<Rightarrow> nat \<Rightarrow> ('n, 'd) txn \<Rightarrow>
   (unit ora_result \<times> ('n, 'd) txn) option" where
  "parent_rounds E user fks start txn =
     (if start < length (txn_log txn) then
        (case parent_round E user (drop start (txn_log txn)) fks txn of
           (Inl x, txn') \<Rightarrow> Some (Inl x, txn')
         | (Inr _, txn') \<Rightarrow> parent_rounds E user fks (length (txn_log txn)) txn')
      else Some (Inr (), txn))"

text \<open>The child side: the rows of the changes that are still there need their parent keys.\<close>

definition check_parent ::
  "('n, 'd, 'a) ext \<Rightarrow> string \<Rightarrow> ('n, 'd) catalog \<Rightarrow> ('n, 'd) value list \<Rightarrow> foreign_key_ref \<Rightarrow> unit ora_result" where
  "check_parent E user cat row f =
     rbind (foreign_key E (fk_columns f) row) (\<lambda>k.
     case k of
       None \<Rightarrow> Inr ()
     | Some k \<Rightarrow>
         rbind (case cat_table cat (fk_parent f) of
                  None \<Rightarrow> Inr False
                | Some p \<Rightarrow> has_key E p (fk_parent_columns f) k) (\<lambda>found.
         if found then Inr ()
         else Inl (Err (violated user 2291 (fk_name f) ''parent key not found''))))"

definition check_touched ::
  "('n, 'd, 'a) ext \<Rightarrow> string \<Rightarrow> foreign_key_ref list \<Rightarrow> ('n, 'd) catalog \<Rightarrow> ('n, 'd) change \<Rightarrow> unit ora_result" where
  "check_touched E user fks cat c =
     (case c of
        DeleteC _ _ _ \<Rightarrow> Inr ()
      | _ \<Rightarrow>
          (case Option.bind (cat_table cat (ch_table c)) (\<lambda>t. bt_get (tab_rows t) (ch_id c)) of
             None \<Rightarrow> Inr ()
           | Some row \<Rightarrow>
               each (check_parent E user cat row) (filter (\<lambda>f. fk_child f = ch_table c) fks)))"

definition enforce_foreign_keys ::
  "('n, 'd, 'a) ext \<Rightarrow> string \<Rightarrow> nat \<Rightarrow> ('n, 'd) txn_step" where
  "enforce_foreign_keys E user from txn =
     (let fks = filter fk_enabled (foreign_keys (txn_work txn)) in
      if fks = [] then (Inr (), txn)
      else
        (case parent_rounds E user fks from txn of
           None \<Rightarrow> (Inl Diverges, txn)
         | Some (Inl x, txn') \<Rightarrow> (Inl x, txn')
         | Some (Inr _, txn') \<Rightarrow>
             (each (check_touched E user fks (txn_work txn')) (drop from (txn_log txn')), txn')))"

section \<open>Steps that log what they do\<close>

definition extends :: "('n, 'd, 'a) ext \<Rightarrow> ('n, 'd) txn \<Rightarrow> ('n, 'd) change list \<Rightarrow> ('n, 'd) txn \<Rightarrow> bool" where
  "extends E txn cs txn' \<longleftrightarrow> txn_base_version txn' = txn_base_version txn \<and>
     txn_log txn' = txn_log txn @ cs \<and> logged E (txn_work txn) cs (txn_work txn')"

lemma extends_refl [simp]: "extends E txn [] txn"
  by (simp add: extends_def logged.start)

lemma extends_trans: "extends E a cs b \<Longrightarrow> extends E b ds c \<Longrightarrow> extends E a (cs @ ds) c"
  by (auto simp: extends_def intro: logged_trans)

lemma extends_ok: "extends E txn cs txn' \<Longrightarrow> cat_ok E (txn_work txn) \<Longrightarrow> cat_ok E (txn_work txn')"
  by (auto simp: extends_def intro: logged_ok)

lemma extends_wrote:
  "wrote E (txn_work txn) cs (set_table (txn_work txn) n t) \<Longrightarrow> extends E txn cs (push cs (set_work n t txn))"
  using logged.step [OF logged.start, of E "txn_work txn" cs] by (simp add: extends_def push_def set_work_def)

lemma set_table_same: "cat_ok E cat \<Longrightarrow> cat_table cat n = Some t \<Longrightarrow> set_table cat n t = cat"
  by (simp add: set_table_def cat_table_def cat_ok_bt bt.ins_same)

lemma delete_rows_extends:
  assumes "cat_ok E (txn_work txn)" and "cat_table (txn_work txn) n = Some t"
    and "distinct (map fst rows)" and "\<forall>(i, r) \<in> set rows. map_of (tab_rows t) i = Some r"
  shows "\<exists>txn'. delete_rows E n rows txn = (Inr (), txn') \<and>
    extends E txn (map (\<lambda>(i, r). DeleteC n i r) rows) txn'"
  using assms
proof (induction rows arbitrary: txn t)
  case (Cons p rows)
  obtain i r where p: "p = (i, r)" by (cases p)
  note t_ok = cat_okD [OF Cons.prems(1,2)]
  have row: "map_of (tab_rows t) i = Some r" using Cons.prems(4) p by auto
  have del: "table_delete E t i = (Inr (drop_row E i r t, True) :: (ora_error, _) rust)"
    using row by (simp add: table_delete_closed [OF t_ok])
  let ?txn = "push [DeleteC n i r] (set_work n (drop_row E i r t) txn)"
  have ext: "extends E txn [DeleteC n i r] ?txn"
    using Cons.prems(2) row del by (intro extends_wrote wrote.del) auto
  have rest: "\<forall>(j, s) \<in> set rows. map_of (tab_rows (drop_row E i r t)) j = Some s"
    using Cons.prems(3,4) p table_okD(1) [OF t_ok] by (force simp: map_of_bt_remove)
  obtain txn' where "delete_rows E n rows ?txn = (Inr (), txn')"
    "extends E ?txn (map (\<lambda>(i, r). DeleteC n i r) rows) txn'"
    using Cons.IH [OF extends_ok [OF ext Cons.prems(1)] _ _ rest] Cons.prems(3) p
    by (auto simp: push_def set_work_def)
  then show ?case
    using Cons.prems(2) p del extends_trans [OF ext] by (auto simp: push_def set_work_def)
qed simp

lemma update_rows_extends:
  assumes ok: "cat_ok E (txn_work txn)" and t: "cat_table (txn_work txn) n = Some t"
    and chs: "chs \<noteq> []" "distinct (map fst chs)" "\<forall>(i, r, old) \<in> set chs. map_of (tab_rows t) i = Some old \<and> length r = ncols t"
    and new: "changes = map (\<lambda>(i, r, old). (i, r)) chs" "olds = map (\<lambda>(i, r, old). old) chs"
  shows "(\<exists>txn'. update_rows E user n changes olds txn = (Inr (), txn') \<and>
      extends E txn (map (\<lambda>(i, r, old). UpdateC n i r old) chs) txn') \<or>
    (\<exists>con. update_rows E user n changes olds txn = (Inl (Err (unique_violation user con)), txn))"
proof -
  note t_ok = cat_okD [OF ok t]
  have len: "\<forall>(i, r) \<in> set changes. length r = ncols t" using chs(3) new by auto
  have dist: "distinct (map fst changes)" using chs(2) new by (simp add: comp_def case_prod_unfold)
  have zip: "map (\<lambda>((i, r), old). UpdateC n i r old) (zip changes olds) = map (\<lambda>(i, r, old). UpdateC n i r old) chs"
    unfolding new by (induction chs) auto
  obtain t' res where u: "table_update E t changes = (Inr (t', res) :: (ora_error, _) rust)"
    by (cases "find (\<lambda>c. \<not> free_of E (present t changes) c) (unindexed E t changes)")
      (auto simp: table_update_closed [OF t_ok len])
  show ?thesis
  proof (cases res)
    case None
    then have "extends E txn (map (\<lambda>(i, r, old). UpdateC n i r old) chs)
        (push (map (\<lambda>(i, r, old). UpdateC n i r old) chs) (set_work n t' txn))"
      using t chs u new(1) by (intro extends_wrote wrote.upd [OF t chs]) simp
    then show ?thesis using u t None by (simp add: update_rows_def zip)
  next
    case (Some con)
    then have "t' = t"
      using u put_all_old [OF t_ok dist] by (auto simp: table_update_closed [OF t_ok len] split: option.splits)
    then show ?thesis
      using u t Some set_table_same [OF ok t] by (auto simp: update_rows_def set_work_def)
  qed
qed

section \<open>Referential integrity and what breaks it\<close>

text \<open>The parent table has a row with key \<open>k\<close>, as \<open>has_key\<close> sees it.\<close>

definition holds :: "('n, 'd, 'a) ext \<Rightarrow> ('n, 'd) catalog \<Rightarrow> foreign_key_ref \<Rightarrow> string \<Rightarrow> bool" where
  "holds E cat f k \<longleftrightarrow> (\<exists>i r. row_of cat (fk_parent f) i = Some r \<and> ukey E (fk_parent_columns f) r = Some k)"

definition integrity :: "('n, 'd, 'a) ext \<Rightarrow> ('n, 'd) catalog \<Rightarrow> foreign_key_ref \<Rightarrow> bool" where
  "integrity E cat f \<longleftrightarrow>
     (\<forall>i r k. row_of cat (fk_child f) i = Some r \<longrightarrow> fkey E (fk_columns f) r = Some k \<longrightarrow> holds E cat f k)"

text \<open>The tables a foreign key names exist and have its columns.\<close>

definition fk_fits :: "('n, 'd) catalog \<Rightarrow> foreign_key_ref \<Rightarrow> bool" where
  "fk_fits cat f \<longleftrightarrow> fk_columns f \<noteq> [] \<and> fk_parent_columns f \<noteq> [] \<and>
     (\<exists>p. cat_table cat (fk_parent f) = Some p \<and> in_range (fk_parent_columns f) (ncols p)) \<and>
     (\<exists>c. cat_table cat (fk_child f) = Some c \<and> in_range (fk_columns f) (ncols c))"

text \<open>A parent key is not partly NULL.\<close>

definition whole :: "foreign_key_ref \<Rightarrow> ('n, 'd) value list \<Rightarrow> bool" where
  "whole f r \<longleftrightarrow>
     (list_ex is_null (cells (fk_parent_columns f) r) \<longrightarrow> list_all is_null (cells (fk_parent_columns f) r))"

definition whole_cat :: "foreign_key_ref list \<Rightarrow> ('n, 'd) catalog \<Rightarrow> bool" where
  "whole_cat fks cat \<longleftrightarrow> (\<forall>f \<in> set fks. \<forall>i r. row_of cat (fk_parent f) i = Some r \<longrightarrow> whole f r)"

fun written :: "('n, 'd) change \<Rightarrow> (string \<times> nat \<times> ('n, 'd) value list) option" where
  "written (InsertC n i r) = Some (n, i, r)"
| "written (UpdateC n i r _) = Some (n, i, r)"
| "written (DeleteC n i _) = None"

definition whole_log :: "foreign_key_ref list \<Rightarrow> ('n, 'd) change list \<Rightarrow> bool" where
  "whole_log fks lg \<longleftrightarrow>
     (\<forall>f \<in> set fks. \<forall>c \<in> set lg. \<forall>i r. written c = Some (fk_parent f, i, r) \<longrightarrow> whole f r)"

definition touched :: "('n, 'd) change list \<Rightarrow> string \<Rightarrow> nat \<Rightarrow> bool" where
  "touched lg n i \<longleftrightarrow> (\<exists>c \<in> set lg. \<exists>r. written c = Some (n, i, r))"

fun removes :: "('n, 'd, 'a) ext \<Rightarrow> foreign_key_ref \<Rightarrow> ('n, 'd) change \<Rightarrow> string \<Rightarrow> bool" where
  "removes E f (DeleteC n _ old) k = (n = fk_parent f \<and> fkey E (fk_parent_columns f) old = Some k)"
| "removes E f (UpdateC n _ r old) k =
     (n = fk_parent f \<and> fkey E (fk_parent_columns f) old = Some k \<and> fkey E (fk_parent_columns f) r \<noteq> Some k)"
| "removes E f (InsertC _ _ _) k = False"

definition removed :: "('n, 'd, 'a) ext \<Rightarrow> foreign_key_ref \<Rightarrow> ('n, 'd) change list \<Rightarrow> string \<Rightarrow> bool" where
  "removed E f lg k \<longleftrightarrow> (\<exists>c \<in> set lg. removes E f c k)"

lemma removed_append [simp]: "removed E f (a @ b) k \<longleftrightarrow> removed E f a k \<or> removed E f b k"
  and removed_Nil [simp]: "\<not> removed E f [] k"
  by (auto simp: removed_def)

lemma touched_append [simp]: "touched (a @ b) n i \<longleftrightarrow> touched a n i \<or> touched b n i"
  by (auto simp: touched_def)

lemma whole_log_append [simp]: "whole_log fks (a @ b) \<longleftrightarrow> whole_log fks a \<and> whole_log fks b"
  by (auto simp: whole_log_def)

lemma whole_fkey: "whole f r \<Longrightarrow> ukey E (fk_parent_columns f) r = Some k \<Longrightarrow> fkey E (fk_parent_columns f) r = Some k"
  by (auto simp: whole_def ukey_def fkey_def split: if_splits)

lemma fold_untouched:
  "\<lbrakk>fold (change_row n i) cs x = Some r; \<not> touched cs n i\<rbrakk> \<Longrightarrow> x = Some r"
proof (induction cs arbitrary: x)
  case (Cons c cs)
  then show ?case by (cases c) (auto simp: touched_def split: if_splits)
qed simp

lemma fold_some_touched:
  "\<lbrakk>fold (change_row n i) cs x = Some r; touched cs n i \<or> x = Some r\<rbrakk> \<Longrightarrow>
   x = Some r \<or> (\<exists>c \<in> set cs. written c = Some (n, i, r))"
proof (induction cs arbitrary: x)
  case (Cons c cs)
  show ?case
  proof (cases "touched cs n i \<or> change_row n i c x = Some r")
    case True
    then have "change_row n i c x = Some r \<or> (\<exists>c \<in> set cs. written c = Some (n, i, r))"
      using Cons by simp
    then show ?thesis by (cases c) (auto split: if_splits)
  next
    case False
    then have "change_row n i c x = Some r" using fold_untouched Cons.prems(1) by force
    then show ?thesis using False by simp
  qed
qed simp

lemma whole_wrote:
  assumes "wrote E cat cs cat'" and "cat_ok E cat" and "whole_cat fks cat" and "whole_log fks cs"
  shows "whole_cat fks cat'"
  unfolding whole_cat_def
proof (intro ballI allI impI)
  fix f i r assume f: "f \<in> set fks" and "row_of cat' (fk_parent f) i = Some r"
  then have "fold (change_row (fk_parent f) i) cs (row_of cat (fk_parent f) i) = Some r"
    using wrote_rows [OF assms(1,2)] by simp
  then have "row_of cat (fk_parent f) i = Some r \<or> (\<exists>c \<in> set cs. written c = Some (fk_parent f, i, r))"
    using fold_untouched fold_some_touched by metis
  then show "whole f r" using assms(3,4) f by (auto simp: whole_cat_def whole_log_def)
qed

text \<open>A key that a step takes away is among the keys its log entries remove.\<close>

lemma holds_wrote:
  assumes w: "wrote E cat cs cat'" and ok: "cat_ok E cat" and f: "f \<in> set fks" "fk_parent_columns f \<noteq> []"
    and whole: "whole_cat fks cat" and h: "holds E cat f k"
  shows "holds E cat' f k \<or> removed E f cs k"
proof -
  obtain i r where r: "row_of cat (fk_parent f) i = Some r" "ukey E (fk_parent_columns f) r = Some k"
    using h by (auto simp: holds_def)
  have fk: "fkey E (fk_parent_columns f) r = Some k"
    using whole f(1) r by (intro whole_fkey) (auto simp: whole_cat_def)
  have row': "row_of cat' (fk_parent f) i = fold (change_row (fk_parent f) i) cs (Some r)"
    using wrote_rows [OF w ok] r(1) by simp
  show ?thesis
    using w
  proof cases
    case (ins n t j s t')
    then have "n \<noteq> fk_parent f \<or> j \<noteq> i" using r(1) by (auto simp: row_of_def)
    then have "row_of cat' (fk_parent f) i = Some r" using row' ins(1) by auto
    then show ?thesis using r(2) by (auto simp: holds_def)
  next
    case (del n t j s t')
    show ?thesis
    proof (cases "n = fk_parent f \<and> j = i")
      case True
      then show ?thesis using del r(1) fk by (auto simp: removed_def row_of_def)
    next
      case False
      then have "row_of cat' (fk_parent f) i = Some r" using row' del(1) by auto
      then show ?thesis using r(2) by (auto simp: holds_def)
    qed
  next
    case (upd n t chs t')
    show ?thesis
    proof (cases "n = fk_parent f \<and> i \<in> fst ` set chs")
      case True
      then obtain s old where s: "(i, s, old) \<in> set chs" by auto
      then have "old = r" using upd(6) r(1) upd(3) True by (auto simp: row_of_def)
      have new: "map_of (map (\<lambda>(i, r, old). (i, r)) chs) i = Some s"
        using s upd(5) by (intro map_of_is_SomeI) (auto simp: comp_def case_prod_unfold rev_image_eqI)
      have "row_of cat' (fk_parent f) i = Some s"
        using wrote_upd_ok(3) [OF cat_okD [OF ok upd(3)] upd(5-7)] True upd(2) new by (simp add: row_of_set)
      then show ?thesis
        using s upd(1) True fk \<open>old = r\<close> fkey_ukey [OF _ f(2), of E s k]
        by (cases "fkey E (fk_parent_columns f) s = Some k") (force simp: holds_def removed_def)+
    next
      case False
      have "fold (change_row (fk_parent f) i) (map (\<lambda>(i, r, old). UpdateC n i r old) chs) x = x" for x
        using False by (induction chs arbitrary: x) auto
      then show ?thesis using row' r upd(1) by (auto simp: holds_def)
    qed
  qed
qed

section \<open>The invariant of the rounds\<close>

text \<open>A child row has its parent, or the statement wrote it, or its key is among those still to be
  looked at.\<close>

definition fk_inv ::
  "('n, 'd, 'a) ext \<Rightarrow> foreign_key_ref \<Rightarrow> ('n, 'd) catalog \<Rightarrow> ('n, 'd) change list \<Rightarrow> ('n, 'd) change list \<Rightarrow> bool" where
  "fk_inv E f cat past todo \<longleftrightarrow>
     (\<forall>i r k. row_of cat (fk_child f) i = Some r \<longrightarrow> fkey E (fk_columns f) r = Some k \<longrightarrow>
        holds E cat f k \<or> touched past (fk_child f) i \<or> removed E f todo k)"

lemma untouched_wrote:
  "\<lbrakk>wrote E cat cs cat'; cat_ok E cat; row_of cat' n i = Some r; \<not> touched cs n i\<rbrakk> \<Longrightarrow> row_of cat n i = Some r"
  using wrote_rows fold_untouched by metis

lemma fk_inv_wrote:
  assumes w: "wrote E cat cs cat'" and ok: "cat_ok E cat" and f: "f \<in> set fks" "fk_parent_columns f \<noteq> []"
    and whole: "whole_cat fks cat" and inv: "fk_inv E f cat past todo"
  shows "fk_inv E f cat' (past @ cs) (todo @ cs)"
  unfolding fk_inv_def
proof (intro allI impI)
  fix i r k assume r: "row_of cat' (fk_child f) i = Some r" and k: "fkey E (fk_columns f) r = Some k"
  show "holds E cat' f k \<or> touched (past @ cs) (fk_child f) i \<or> removed E f (todo @ cs) k"
  proof (cases "touched cs (fk_child f) i")
    case False
    then have "holds E cat f k \<or> touched past (fk_child f) i \<or> removed E f todo k"
      using inv untouched_wrote [OF w ok r] k by (auto simp: fk_inv_def)
    then show ?thesis using holds_wrote [OF w ok f whole] by auto
  qed simp
qed

lemma logged_whole_inv:
  assumes "logged E cat cs cat'" and "cat_ok E cat" and "whole_cat fks cat" and "whole_log fks cs"
    and "f \<in> set fks" "fk_parent_columns f \<noteq> []" and "fk_inv E f cat past todo"
  shows "whole_cat fks cat' \<and> fk_inv E f cat' (past @ cs) (todo @ cs)"
  using assms
proof (induction rule: logged.induct)
  case (step lg cat1 cs cat2)
  then have "whole_cat fks cat1" "fk_inv E f cat1 (past @ lg) (todo @ lg)" by auto
  moreover have "cat_ok E cat1" using step by (blast intro: logged_ok)
  ultimately show ?case
    using whole_wrote [OF step.hyps(2)] fk_inv_wrote [OF step.hyps(2) _ step.prems(4,5), of "past @ lg" "todo @ lg"]
      step.prems(3) by auto
qed simp

lemma logged_whole:
  "\<lbrakk>logged E cat cs cat'; cat_ok E cat; whole_cat fks cat; whole_log fks cs\<rbrakk> \<Longrightarrow> whole_cat fks cat'"
proof (induction rule: logged.induct)
  case (step lg cat1 cs cat2)
  then show ?case using whole_wrote [OF step.hyps(2)] logged_ok [OF step.hyps(1)] by auto
qed simp

lemma holds_logged:
  assumes "logged E cat cs cat'" and "cat_ok E cat" and "whole_cat fks cat" and "whole_log fks cs"
    and "f \<in> set fks" "fk_parent_columns f \<noteq> []" and "holds E cat f k"
  shows "holds E cat' f k \<or> removed E f cs k"
  using assms
proof (induction rule: logged.induct)
  case (step lg cat1 cs cat2)
  then have "whole_cat fks cat1" "cat_ok E cat1" using logged_whole [OF step.hyps(1)] logged_ok by auto
  then show ?case using step holds_wrote [OF step.hyps(2), of f fks k] by auto
qed simp

lemma untouched_logged:
  assumes "logged E cat cs cat'" and "cat_ok E cat" and "row_of cat' n i = Some r" and "\<not> touched cs n i"
  shows "row_of cat n i = Some r"
  using logged_rows [OF assms(1,2)] assms(3,4) fold_untouched by metis

lemma integrity_inv: "integrity E cat f \<Longrightarrow> fk_inv E f cat [] []"
  by (auto simp: integrity_def fk_inv_def)

section \<open>What a step finds\<close>

text \<open>The rows of a change have the length of their table.\<close>

fun sized :: "('n, 'd) catalog \<Rightarrow> ('n, 'd) change \<Rightarrow> bool" where
  "sized cat (InsertC n _ r) = (\<exists>t. cat_table cat n = Some t \<and> length r = ncols t)"
| "sized cat (UpdateC n _ r old) = (\<exists>t. cat_table cat n = Some t \<and> length r = ncols t \<and> length old = ncols t)"
| "sized cat (DeleteC n _ old) = (\<exists>t. cat_table cat n = Some t \<and> length old = ncols t)"

lemma sized_frames: "same_frames a b \<Longrightarrow> sized a c \<Longrightarrow> sized b c"
  by (cases c) (auto simp: same_frame_ncols dest!: same_framesD)

lemma fits_frames:
  assumes "same_frames a b" and "fk_fits a f"
  shows "fk_fits b f"
proof -
  have "\<exists>u. cat_table b n = Some u \<and> in_range cols (ncols u)"
    if "\<exists>t. cat_table a n = Some t \<and> in_range cols (ncols t)" for n cols
    using that same_framesD [OF assms(1)] same_frame_ncols by metis
  then show ?thesis using assms(2) by (simp add: fk_fits_def)
qed

lemma wrote_sized: "wrote E cat cs cat' \<Longrightarrow> cat_ok E cat \<Longrightarrow> c \<in> set cs \<Longrightarrow> sized cat c"
proof (erule wroteE)
  fix n t i r t' assume "cat_ok E cat" "c \<in> set cs" "cs = [DeleteC n i r]" "cat_table cat n = Some t"
    "map_of (tab_rows t) i = Some r"
  then show "sized cat c" using table_okD(2) cat_okD by fastforce
next
  fix n t chs t' assume *: "cat_ok E cat" "c \<in> set cs" "cs = map (\<lambda>(i, r, old). UpdateC n i r old) chs"
    "cat_table cat n = Some t" "\<forall>(i, r, old) \<in> set chs. map_of (tab_rows t) i = Some old \<and> length r = ncols t"
  then obtain i r old where "c = UpdateC n i r old" "(i, r, old) \<in> set chs" by auto
  then show "sized cat c" using * table_okD(2) [OF cat_okD [OF *(1,4)]] by fastforce
qed auto

lemma logged_sized: "logged E cat lg cat' \<Longrightarrow> cat_ok E cat \<Longrightarrow> c \<in> set lg \<Longrightarrow> sized cat' c"
proof (induction rule: logged.induct)
  case (step lg cat1 cs cat2)
  have ok: "cat_ok E cat1" using step by (blast intro: logged_ok)
  then have "same_frames cat1 cat2" using wrote_rows [OF step.hyps(2)] by blast
  moreover have "sized cat1 c" using step wrote_sized [OF step.hyps(2) ok] by auto
  ultimately show ?case using sized_frames by blast
qed simp

fun gone :: "('n, 'd, 'a) ext \<Rightarrow> foreign_key_ref \<Rightarrow> ('n, 'd) change \<Rightarrow> string list \<times> string list" where
  "gone E f (InsertC _ _ _) = ([], [])"
| "gone E f (DeleteC n _ old) =
     (if n = fk_parent f then (case fkey E (fk_parent_columns f) old of Some k \<Rightarrow> [k] | None \<Rightarrow> [], []) else ([], []))"
| "gone E f (UpdateC n _ r old) =
     (if n = fk_parent f
      then ([], case fkey E (fk_parent_columns f) old of
                  Some k \<Rightarrow> if fkey E (fk_parent_columns f) r = Some k then [] else [k]
                | None \<Rightarrow> [])
      else ([], []))"

lemma gone_removes: "k \<in> set (fst (gone E f c)) \<or> k \<in> set (snd (gone E f c)) \<longleftrightarrow> removes E f c k"
proof (cases c)
  case (UpdateC n i r old)
  then show ?thesis by (cases "fkey E (fk_parent_columns f) old") auto
next
  case (DeleteC n i old)
  then show ?thesis by (cases "fkey E (fk_parent_columns f) old") auto
qed simp

lemma removed_keys_delete:
  "in_range (fk_parent_columns f) (length old) \<Longrightarrow> removed_keys E f (DeleteC n i old) = Inr (gone E f (DeleteC n i old))"
  by (simp add: removed_keys_def foreign_key_fkey)

lemma removed_keys_update:
  assumes "in_range (fk_parent_columns f) (length old)" and "in_range (fk_parent_columns f) (length r)"
  shows "removed_keys E f (UpdateC (fk_parent f) i r old) = Inr (gone E f (UpdateC (fk_parent f) i r old))"
proof -
  note keys = foreign_key_fkey [OF assms(1)] foreign_key_fkey [OF assms(2)]
  show ?thesis
    by (cases "fkey E (fk_parent_columns f) old") (simp_all add: removed_keys_def keys)
qed

lemma removed_keys_elsewhere:
  "ch_table c \<noteq> fk_parent f \<Longrightarrow> removed_keys E f c = Inr (gone E f c)"
  "removed_keys E f (InsertC n i r) = Inr (gone E f (InsertC n i r))"
  by (cases c) (auto simp: removed_keys_def)

lemma removed_keys_gone:
  assumes fits: "fk_fits cat f" and c: "sized cat c"
  shows "removed_keys E f c = Inr (gone E f c)"
proof (cases "ch_table c = fk_parent f")
  case True
  then show ?thesis
    using fits c
    by (cases c) (auto simp: removed_keys_elsewhere removed_keys_delete removed_keys_update fk_fits_def simp del: gone.simps)
qed (rule removed_keys_elsewhere)

lemma removed_keys_all:
  assumes "fk_fits cat f" and "\<forall>c \<in> set changes. sized cat c"
  shows "map_rust (removed_keys E f) changes = Inr (map (gone E f) changes)"
  using assms by (intro map_rust_pure) (auto intro: removed_keys_gone)

lemma gone_all:
  "k \<in> set (concat (map fst (map (gone E f) changes))) \<or> k \<in> set (concat (map snd (map (gone E f) changes))) \<longleftrightarrow>
   removed E f changes k"
  by (auto simp: removed_def gone_removes [symmetric])

lemma has_key_holds:
  assumes "cat_ok E cat" and "fk_fits cat f" and "cat_table cat (fk_parent f) = Some p"
  shows "has_key E p (fk_parent_columns f) k = Inr (holds E cat f k)"
proof -
  note p_ok = cat_okD [OF assms(1,3)]
  have "has_key E p (fk_parent_columns f) k =
      Inr (list_ex (\<lambda>r. ukey E (fk_parent_columns f) r = Some k) (bt_values (tab_rows p)))"
    using assms(2,3) by (intro has_key_spec [OF p_ok]) (auto simp: fk_fits_def)
  moreover have "list_ex (\<lambda>r. ukey E (fk_parent_columns f) r = Some k) (bt_values (tab_rows p)) = holds E cat f k"
    using assms(3) table_okD(1) [OF p_ok]
    by (simp add: list_ex_iff bt_values_ran holds_def row_of_def ran_def del: set_map) blast
  ultimately show ?thesis by simp
qed

lemma retain_missing_pure:
  assumes "cat_ok E cat" and "fk_fits cat f" and "cat_table cat (fk_parent f) = Some p"
  shows "retain_missing E p (fk_parent_columns f) ks = Inr (filter (\<lambda>k. \<not> holds E cat f k) ks)"
  by (induction ks) (simp_all add: has_key_holds [OF assms])

lemma find_hits_pure:
  assumes "\<forall>(i, r) \<in> set rows. in_range (fk_columns f) (length r)"
  shows "find_hits E user f deleted updated rows =
    (if \<exists>(i, r) \<in> set rows. \<exists>k. fkey E (fk_columns f) r = Some k \<and> k \<in> set updated
     then Inl (Err (violated user 2292 (fk_name f) ''child record found''))
     else Inr (filter (\<lambda>(i, r). \<exists>k. fkey E (fk_columns f) r = Some k \<and> k \<in> set deleted) rows))"
  using assms
proof (induction rows)
  case (Cons p rows)
  obtain i r where p: "p = (i, r)" by (cases p)
  have "foreign_key E (fk_columns f) r = (Inr (fkey E (fk_columns f) r) :: (ora_error, _) rust)"
    using Cons.prems p by (intro foreign_key_fkey) auto
  then show ?case using Cons p by (cases "fkey E (fk_columns f) r") auto
qed simp

section \<open>What a step does\<close>

text \<open>Rows lose cells or go away.\<close>

definition filled :: "('n, 'd) value list \<Rightarrow> nat" where
  "filled r = card {i. i < length r \<and> \<not> is_null (r ! i)}"

definition shrinks :: "('n, 'd) catalog \<Rightarrow> ('n, 'd) catalog \<Rightarrow> bool" where
  "shrinks a b \<longleftrightarrow>
     (\<forall>n i r'. row_of b n i = Some r' \<longrightarrow> (\<exists>r. row_of a n i = Some r \<and> filled r' \<le> filled r)) \<and>
     (\<exists>n i r. row_of a n i = Some r \<and> (case row_of b n i of None \<Rightarrow> True | Some r' \<Rightarrow> filled r' < filled r))"

text \<open>A step's hits are gone from the child table, or written.\<close>

lemma fk_inv_step:
  assumes lg: "logged E cat cs cat'" and ok: "cat_ok E cat" and whole: "whole_cat fks cat" "whole_log fks cs"
    and f: "f \<in> set fks" "fk_parent_columns f \<noteq> []"
    and hit: "\<And>i r k. \<lbrakk>row_of cat (fk_child f) i = Some r; fkey E (fk_columns f) r = Some k; removed E f changes k;
        \<not> holds E cat f k\<rbrakk> \<Longrightarrow> touched cs (fk_child f) i \<or> row_of cat' (fk_child f) i = None"
    and inv: "fk_inv E f cat past (changes @ todo)"
  shows "fk_inv E f cat' (past @ cs) (todo @ cs)"
  unfolding fk_inv_def
proof (intro allI impI)
  fix i r k assume r: "row_of cat' (fk_child f) i = Some r" and k: "fkey E (fk_columns f) r = Some k"
  show "holds E cat' f k \<or> touched (past @ cs) (fk_child f) i \<or> removed E f (todo @ cs) k"
  proof (cases "touched cs (fk_child f) i")
    case False
    then have r0: "row_of cat (fk_child f) i = Some r" using untouched_logged [OF lg ok r] by blast
    then consider "holds E cat f k" | "touched past (fk_child f) i" | "removed E f todo k"
      using inv k hit [OF r0 k] False r by (fastforce simp: fk_inv_def)
    then show ?thesis using holds_logged [OF lg ok whole f] by cases auto
  qed simp
qed

lemma fold_deletes:
  "\<lbrakk>\<forall>c \<in> set cs. written c = None; \<exists>c \<in> set cs. ch_table c = n \<and> ch_id c = i\<rbrakk> \<Longrightarrow> fold (change_row n i) cs x = None"
proof -
  have none: "\<forall>c \<in> set cs. written c = None \<Longrightarrow> fold (change_row n i) cs None = None" for cs :: "('a, 'b) change list"
  proof (induction cs)
    case (Cons c cs)
    then show ?case by (cases c) auto
  qed simp
  show "\<lbrakk>\<forall>c \<in> set cs. written c = None; \<exists>c \<in> set cs. ch_table c = n \<and> ch_id c = i\<rbrakk> \<Longrightarrow> fold (change_row n i) cs x = None"
  proof (induction cs arbitrary: x)
    case (Cons c cs)
    then show ?case using none [of cs] by (cases c) auto
  qed simp
qed

lemma fold_no_insert:
  "\<lbrakk>fold (change_row n i) cs x = Some r; inserted cs = []\<rbrakk> \<Longrightarrow> x \<noteq> None"
proof (induction cs arbitrary: x)
  case (Cons c cs)
  then show ?case by (cases c) (auto split: if_splits)
qed simp

abbreviation nulled :: "nat list \<Rightarrow> ('n, 'd) value list \<Rightarrow> ('n, 'd) value list" where
  "nulled cols r \<equiv> fold (\<lambda>c r. r[c := Null]) cols r"

lemma length_nulled [simp]: "length (nulled cols r) = length r"
  by (induction cols arbitrary: r) auto

lemma nulled_nth: "i < length r \<Longrightarrow> nulled cols r ! i = (if i \<in> set cols then Null else r ! i)"
  by (induction cols arbitrary: r) (auto simp: nth_list_update)

lemma filled_nulled:
  assumes "cols \<noteq> []" and "in_range cols (length r)" and "fkey E cols r = Some k"
  shows "filled (nulled cols r) < filled r"
proof -
  obtain c where c: "c \<in> set cols" using assms(1) by (cases cols) auto
  have "c < length r" using assms(2) c by blast
  moreover have "\<not> is_null (r ! c)"
    using assms(3) c unfolding fkey_def cells_def list_ex_iff by (auto split: if_split_asm)
  ultimately have in_r: "c \<in> {i. i < length r \<and> \<not> is_null (r ! i)}" by simp
  have "{i. i < length r \<and> \<not> is_null (nulled cols r ! i)} \<subseteq> {i. i < length r \<and> \<not> is_null (r ! i)} - {c}"
  proof
    fix i assume "i \<in> {i. i < length r \<and> \<not> is_null (nulled cols r ! i)}"
    then have "i < length r" "\<not> is_null (if i \<in> set cols then Null else r ! i)"
      using nulled_nth [of i r cols] by simp_all
    then have "i < length r" "i \<notin> set cols" "\<not> is_null (r ! i)" by (simp_all split: if_split_asm)
    then show "i \<in> {i. i < length r \<and> \<not> is_null (r ! i)} - {c}" using c by auto
  qed
  then have "{i. i < length r \<and> \<not> is_null (nulled cols r ! i)} \<subset> {i. i < length r \<and> \<not> is_null (r ! i)}"
    using in_r by blast
  then show ?thesis by (simp add: filled_def psubset_card_mono)
qed

lemma shrinks_deletes:
  assumes lg: "logged E cat cs cat'" and ok: "cat_ok E cat" and del: "\<forall>c \<in> set cs. written c = None"
    and row: "DeleteC n i old \<in> set cs" "row_of cat n i = Some r"
  shows "shrinks cat cat'"
proof -
  note rows = logged_rows [OF lg ok]
  have "row_of cat' n i = None" using rows row fold_deletes [OF del, of n i] by force
  moreover have "row_of cat m j = Some s" if "row_of cat' m j = Some s" for m j s
    using that del by (intro untouched_logged [OF lg ok that]) (simp add: touched_def)
  ultimately show ?thesis using row(2) by (force simp: shrinks_def)
qed

lemma fold_updates_once:
  assumes "distinct (map fst chs)" and "(i, r, old) \<in> set chs"
  shows "fold (change_row n i) (map (\<lambda>(i, r, old). UpdateC n i r old) chs) (Some x) = Some r"
  using assms
proof (induction chs arbitrary: x)
  case (Cons p chs)
  have skip: "fold (change_row n i) (map (\<lambda>(i, r, old). UpdateC n i r old) chs) y = y" if "i \<notin> fst ` set chs"
    for y and chs :: "(nat \<times> ('a, 'b) value list \<times> ('a, 'b) value list) list"
    using that by (induction chs arbitrary: y) auto
  show ?case using Cons skip [of chs] by (cases p) (force simp: image_iff)
qed simp

lemma fold_updates_other:
  assumes "n \<noteq> m \<or> i \<notin> fst ` set chs"
  shows "fold (change_row m i) (map (\<lambda>(i, r, old). UpdateC n i r old) chs) x = x"
  using assms by (induction chs arbitrary: x) auto

lemma shrinks_nulled:
  assumes lg: "logged E cat (map (\<lambda>(i, r, old). UpdateC n i r old) chs) cat'" and ok: "cat_ok E cat"
    and chs: "chs \<noteq> []" "distinct (map fst chs)"
    and rows: "\<forall>(i, r, old) \<in> set chs. row_of cat n i = Some old \<and> filled r < filled old"
  shows "shrinks cat cat'"
proof -
  note eff = conjunct2 [OF logged_rows [OF lg ok]]
  have new: "row_of cat' n i = Some r" if "(i, r, old) \<in> set chs" for i r old
    using eff that rows fold_updates_once [OF chs(2) that, of n old] by fastforce
  have other: "row_of cat' m i = row_of cat m i" if "n \<noteq> m \<or> i \<notin> fst ` set chs" for m i
    using eff fold_updates_other [OF that] by simp
  have "\<exists>r0. row_of cat m i = Some r0 \<and> filled r' \<le> filled r0" if r': "row_of cat' m i = Some r'" for m i r'
  proof (cases "n = m \<and> i \<in> fst ` set chs")
    case True
    then obtain r old where "(i, r, old) \<in> set chs" by auto
    then show ?thesis using new [of i r old] rows r' True by fastforce
  next
    case False
    then have "row_of cat m i = Some r'" using other [of m i] r' by (simp only: de_Morgan_conj)
    then show ?thesis by simp
  qed
  moreover obtain i r old where "(i, r, old) \<in> set chs" using chs(1) by (cases chs) auto
  ultimately show ?thesis using new [of i r old] rows unfolding shrinks_def by fastforce
qed

lemma shrinks_trans: "shrinks a b \<Longrightarrow> shrinks b c \<Longrightarrow> shrinks a c"
proof -
  assume ab: "shrinks a b" and bc: "shrinks b c"
  have mono: "\<exists>r. row_of x n i = Some r \<and> filled r' \<le> filled r" if "shrinks x y" "row_of y n i = Some r'" for x y n i r'
    using that by (simp add: shrinks_def)
  have "\<exists>r. row_of a n i = Some r \<and> filled r' \<le> filled r" if "row_of c n i = Some r'" for n i r'
    using mono [OF bc that] mono [OF ab] by (metis order_trans)
  moreover obtain n i r where r: "row_of a n i = Some r" "\<And>r'. row_of b n i = Some r' \<Longrightarrow> filled r' < filled r"
    using ab by (force simp: shrinks_def split: option.splits)
  moreover have "filled r' < filled r" if "row_of c n i = Some r'" for r'
    using mono [OF bc that] r(2) by (metis le_less_trans)
  ultimately show ?thesis unfolding shrinks_def by (metis (no_types, lifting) option.case_eq_if option.exhaust_sel)
qed

lemma logged_Nil: "logged E a [] b \<Longrightarrow> a = b"
  by (erule logged.cases) (auto elim: wroteE)

definition round_ok ::
  "('n, 'd, 'a) ext \<Rightarrow> foreign_key_ref list \<Rightarrow> ('n, 'd) change list \<Rightarrow> ('n, 'd) txn \<Rightarrow>
   unit ora_result \<times> ('n, 'd) txn \<Rightarrow> bool" where
  "round_ok E fs changes txn out \<longleftrightarrow>
     (\<exists>cs. extends E txn cs (snd out) \<and>
        (fst out = Inr () \<or> (\<exists>e. fst out = Inl (Err e))) \<and>
        (cs = [] \<or> shrinks (txn_work txn) (txn_work (snd out))) \<and>
        ((\<forall>f \<in> set fs. fk_on_delete f \<noteq> SetNull) \<longrightarrow> (\<forall>c \<in> set cs. written c = None)) \<and>
        (fst out = Inr () \<longrightarrow>
           (\<forall>fks past todo. whole_cat fks (txn_work txn) \<longrightarrow> whole_log fks cs \<longrightarrow> set fs \<subseteq> set fks \<longrightarrow>
              (\<forall>f \<in> set fs. fk_inv E f (txn_work txn) past (changes @ todo)) \<longrightarrow>
              (\<forall>f \<in> set fs. fk_inv E f (txn_work (snd out)) (past @ cs) (todo @ cs)))))"

lemma round_ok_stay:
  assumes "x = Inr () \<or> (\<exists>e. x = Inl (Err e))" and "cat_ok E (txn_work txn)" and "fk_fits (txn_work txn) f"
    and "\<And>i r k. \<lbrakk>x = Inr (); row_of (txn_work txn) (fk_child f) i = Some r; fkey E (fk_columns f) r = Some k;
      removed E f changes k; \<not> holds E (txn_work txn) f k\<rbrakk> \<Longrightarrow> False"
  shows "round_ok E [f] changes txn (x, txn)"
proof -
  have "fk_inv E f (txn_work txn) past todo"
    if "x = Inr ()" "fk_inv E f (txn_work txn) past (changes @ todo)" for past todo
    unfolding fk_inv_def
  proof (intro allI impI)
    fix i r k assume r: "row_of (txn_work txn) (fk_child f) i = Some r" "fkey E (fk_columns f) r = Some k"
    then show "holds E (txn_work txn) f k \<or> touched past (fk_child f) i \<or> removed E f todo k"
      using that(2) assms(4) [OF that(1) r] by (auto simp: fk_inv_def)
  qed
  then show ?thesis using assms(1) by (auto simp: round_ok_def intro!: exI [of _ "[]"])
qed

lemma round_ok_change:
  assumes ext: "extends E txn cs txn'" and ok: "cat_ok E (txn_work txn)" and fits: "fk_fits (txn_work txn) f"
    and shr: "shrinks (txn_work txn) (txn_work txn')" and del: "fk_on_delete f \<noteq> SetNull \<Longrightarrow> \<forall>c \<in> set cs. written c = None"
    and hit: "\<And>i r k. \<lbrakk>row_of (txn_work txn) (fk_child f) i = Some r; fkey E (fk_columns f) r = Some k;
      removed E f changes k; \<not> holds E (txn_work txn) f k\<rbrakk> \<Longrightarrow>
      touched cs (fk_child f) i \<or> row_of (txn_work txn') (fk_child f) i = None"
  shows "round_ok E [f] changes txn (Inr (), txn')"
proof -
  have lg: "logged E (txn_work txn) cs (txn_work txn')" using ext by (simp add: extends_def)
  have "fk_inv E f (txn_work txn') (past @ cs) (todo @ cs)"
    if "whole_cat fks (txn_work txn)" "whole_log fks cs" "f \<in> set fks" "fk_inv E f (txn_work txn) past (changes @ todo)"
    for fks past todo
    using that fits by (intro fk_inv_step [OF lg ok _ _ _ _ hit]) (auto simp: fk_fits_def)
  then show ?thesis
    using ext shr del unfolding round_ok_def by (intro exI [of _ cs]) auto
qed

section \<open>One step\<close>

lemma check_nullable_result:
  assumes "in_range cols (ncols t)"
  shows "check_nullable user t cols = Inr () \<or> (\<exists>e. check_nullable user t cols = Inl (Err e))"
  using assms unfolding check_nullable_def
proof (induction cols)
  case (Cons c cols)
  then show ?case by (auto simp: index_def)
qed simp

lemma null_columns_pure: "in_range cols (length r) \<Longrightarrow> null_columns cols r = Inr (nulled cols r)"
  by (simp add: null_columns_def list_all_iff)

lemma on_parent_removed_ok:
  assumes ok: "cat_ok E (txn_work txn)" and fits: "fk_fits (txn_work txn) f"
    and child: "cat_table (txn_work txn) (fk_child f) = Some child"
    and hits: "hits \<noteq> []" "distinct (map fst hits)"
      "\<forall>(i, r) \<in> set hits. map_of (tab_rows child) i = Some r \<and> (\<exists>k. fkey E (fk_columns f) r = Some k)"
    and all: "\<And>i r k. \<lbrakk>row_of (txn_work txn) (fk_child f) i = Some r; fkey E (fk_columns f) r = Some k;
      removed E f changes k; \<not> holds E (txn_work txn) f k\<rbrakk> \<Longrightarrow> (i, r) \<in> set hits"
  shows "round_ok E [f] changes txn (on_parent_removed E user f child hits txn)"
proof (cases "fk_on_delete f")
  case Restrict
  then show ?thesis using ok fits by (auto simp: on_parent_removed_def intro!: round_ok_stay)
next
  case Cascade
  let ?cs = "map (\<lambda>(i, r). DeleteC (fk_child f) i r) hits"
  obtain txn' where del: "delete_rows E (fk_child f) hits txn = (Inr (), txn')" and ext: "extends E txn ?cs txn'"
    using delete_rows_extends [OF ok child hits(2)] hits(3) by auto
  have lg: "logged E (txn_work txn) ?cs (txn_work txn')" using ext by (simp add: extends_def)
  have dels: "\<forall>c \<in> set ?cs. written c = None" by auto
  obtain i r where ir: "(i, r) \<in> set hits" using hits(1) by (cases hits) auto
  have shr: "shrinks (txn_work txn) (txn_work txn')"
    using ir hits(3) child by (intro shrinks_deletes [OF lg ok dels, of "fk_child f" i r r]) (auto simp: row_of_def)
  have none: "row_of (txn_work txn') (fk_child f) i = None" if "(i, r) \<in> set hits" for i r
    using that logged_rows [OF lg ok] fold_deletes [OF dels, of "fk_child f" i] by force
  have "round_ok E [f] changes txn (Inr (), txn')"
    using dels by (intro round_ok_change [OF ext ok fits shr] disjI2 none [OF all])
  then show ?thesis using Cascade del by (simp add: on_parent_removed_def)
next
  case SetNull
  have cols: "in_range (fk_columns f) (ncols child)" "fk_columns f \<noteq> []" using fits child by (auto simp: fk_fits_def)
  have len: "in_range (fk_columns f) (length r)" if "(i, r) \<in> set hits" for i r
    using that hits(3) table_okD(2) [OF cat_okD [OF ok child]] cols by fastforce
  let ?chs = "map (\<lambda>(i, r). (i, nulled (fk_columns f) r, r)) hits"
  let ?cs = "map (\<lambda>(i, r, old). UpdateC (fk_child f) i r old) ?chs"
  have new: "map_rust (\<lambda>(i, old). rbind (null_columns (fk_columns f) old) (\<lambda>r. Inr (i, r))) hits =
      (Inr (map (\<lambda>(i, r, old). (i, r)) ?chs) :: (ora_error, _) rust)"
    using len by (subst map_rust_pure [where g = "\<lambda>(i, r). (i, nulled (fk_columns f) r)"])
      (auto simp: null_columns_pure comp_def case_prod_unfold)
  have dist: "distinct (map fst ?chs)" using hits(2) by (simp add: comp_def case_prod_unfold)
  have rows: "\<forall>(i, r, old) \<in> set ?chs. map_of (tab_rows child) i = Some old \<and> length r = ncols child"
    using hits(3) table_okD(2) [OF cat_okD [OF ok child]] by fastforce
  have upd: "(\<exists>txn'. update_rows E user (fk_child f) (map (\<lambda>(i, r, old). (i, r)) ?chs) (map snd hits) txn = (Inr (), txn') \<and>
      extends E txn ?cs txn') \<or>
    (\<exists>con. update_rows E user (fk_child f) (map (\<lambda>(i, r, old). (i, r)) ?chs) (map snd hits) txn =
      (Inl (Err (unique_violation user con)), txn))"
    using hits(1) by (intro update_rows_extends [OF ok child _ dist rows refl]) (auto simp: comp_def case_prod_unfold)
  consider e where "check_nullable user child (fk_columns f) = Inl (Err e)"
    | con where "check_nullable user child (fk_columns f) = Inr ()"
      "update_rows E user (fk_child f) (map (\<lambda>(i, r, old). (i, r)) ?chs) (map snd hits) txn =
         (Inl (Err (unique_violation user con)), txn)"
    | txn' where "check_nullable user child (fk_columns f) = Inr ()"
      "update_rows E user (fk_child f) (map (\<lambda>(i, r, old). (i, r)) ?chs) (map snd hits) txn = (Inr (), txn')"
      "extends E txn ?cs txn'"
    using check_nullable_result [OF cols(1), of user] upd by blast
  then show ?thesis
  proof cases
    case 1
    then show ?thesis using SetNull ok fits by (auto simp: on_parent_removed_def intro!: round_ok_stay)
  next
    case 2
    then show ?thesis using SetNull ok fits new by (auto simp: on_parent_removed_def intro!: round_ok_stay)
  next
    case 3
    have "logged E (txn_work txn) ?cs (txn_work txn')" using 3 by (simp add: extends_def)
    then have shr: "shrinks (txn_work txn) (txn_work txn')"
      using hits(1,3) child len cols(2) filled_nulled
      by (intro shrinks_nulled [OF _ ok _ dist]) (fastforce simp: row_of_def)+
    have upd: "touched ?cs (fk_child f) i" if "(i, r) \<in> set hits" for i r
      using that by (force simp: touched_def)
    have "round_ok E [f] changes txn (Inr (), txn')"
      using SetNull by (intro round_ok_change [OF 3(3) ok fits shr] disjI1 upd [OF all]) simp
    then show ?thesis using SetNull 3 new by (simp add: on_parent_removed_def)
  qed
qed

lemma parent_step_ok:
  assumes ok: "cat_ok E (txn_work txn)" and fits: "fk_fits (txn_work txn) f"
    and sized: "\<forall>c \<in> set changes. sized (txn_work txn) c"
  shows "round_ok E [f] changes txn (parent_step E user changes f txn)"
proof -
  obtain p c where p: "cat_table (txn_work txn) (fk_parent f) = Some p"
    and c: "cat_table (txn_work txn) (fk_child f) = Some c" "in_range (fk_columns f) (ncols c)"
    using fits by (auto simp: fk_fits_def)
  note c_ok = cat_okD [OF ok c(1)]
  define D where "D = filter (\<lambda>k. \<not> holds E (txn_work txn) f k) (concat (map (fst \<circ> gone E f) changes))"
  define U where "U = filter (\<lambda>k. \<not> holds E (txn_work txn) f k) (concat (map (snd \<circ> gone E f) changes))"
  define hits where "hits = filter (\<lambda>(i, r). \<exists>k. fkey E (fk_columns f) r = Some k \<and> k \<in> set D) (tab_rows c)"
  have DU: "k \<in> set D \<or> k \<in> set U" if "removed E f changes k" "\<not> holds E (txn_work txn) f k" for k
    using that gone_all [of k E f changes] unfolding D_def U_def by simp
  have len: "\<forall>(i, r) \<in> set (tab_rows c). in_range (fk_columns f) (length r)"
    using table_okD(1,2) [OF c_ok] c(2) by (fastforce simp: bt_get_iff)
  have rows: "(i, r) \<in> set (tab_rows c)" if "row_of (txn_work txn) (fk_child f) i = Some r" for i r
    using that c(1) by (simp add: row_of_def map_of_SomeD)
  have hits_ok: "distinct (map fst hits)"
      "\<forall>(i, r) \<in> set hits. map_of (tab_rows c) i = Some r \<and> (\<exists>k. fkey E (fk_columns f) r = Some k)"
    using table_okD(1) [OF c_ok] by (auto simp: hits_def bt_get_iff bt_ok_distinct intro: distinct_map_filter)
  note step = parent_step_def removed_keys_all [OF fits sized] p c(1) retain_missing_pure [OF ok fits p]
    find_hits_pure [OF len] D_def [symmetric] U_def [symmetric]
  consider "D = []" "U = []" | i r k where "(i, r) \<in> set (tab_rows c)" "fkey E (fk_columns f) r = Some k" "k \<in> set U"
    | "D \<noteq> [] \<or> U \<noteq> []" "\<not> (\<exists>(i, r) \<in> set (tab_rows c). \<exists>k. fkey E (fk_columns f) r = Some k \<and> k \<in> set U)"
    by blast
  then show ?thesis
  proof cases
    case 1
    then have "parent_step E user changes f txn = (Inr (), txn)" by (simp add: step)
    then show ?thesis using DU 1 by (auto intro!: round_ok_stay [OF _ ok fits])
  next
    case 2
    then have "parent_step E user changes f txn = (Inl (Err (violated user 2292 (fk_name f) ''child record found'')), txn)"
      by (auto simp: step)
    then show ?thesis by (auto intro!: round_ok_stay [OF _ ok fits])
  next
    case 3
    have all: "(i, r) \<in> set hits" if "row_of (txn_work txn) (fk_child f) i = Some r" "fkey E (fk_columns f) r = Some k"
      "removed E f changes k" "\<not> holds E (txn_work txn) f k" for i r k
      using rows [OF that(1)] that(2) DU [OF that(3,4)] 3(2) by (auto simp: hits_def)
    have eq: "parent_step E user changes f txn =
        (if hits = [] then (Inr (), txn) else on_parent_removed E user f c hits txn)"
      using 3 by (auto simp: step hits_def)
    show ?thesis
    proof (cases "hits = []")
      case True
      then show ?thesis using all by (auto simp: eq intro!: round_ok_stay [OF _ ok fits])
    next
      case False
      then show ?thesis
        using on_parent_removed_ok [OF ok fits c(1) False hits_ok all] by (simp add: eq)
    qed
  qed
qed

lemma round_ok_comp:
  assumes one: "round_ok E [f] changes txn (Inr (), txn1)" and rest: "round_ok E fs changes txn1 out"
    and ok: "cat_ok E (txn_work txn)" and fits: "\<forall>f \<in> set (f # fs). fk_fits (txn_work txn) f"
  shows "round_ok E (f # fs) changes txn out"
proof -
  obtain cs where cs: "extends E txn cs txn1" "cs = [] \<or> shrinks (txn_work txn) (txn_work txn1)"
      "fk_on_delete f \<noteq> SetNull \<longrightarrow> (\<forall>c \<in> set cs. written c = None)"
    and inv: "\<And>fks past todo. \<lbrakk>whole_cat fks (txn_work txn); whole_log fks cs; f \<in> set fks;
      fk_inv E f (txn_work txn) past (changes @ todo)\<rbrakk> \<Longrightarrow> fk_inv E f (txn_work txn1) (past @ cs) (todo @ cs)"
    using one by (auto simp: round_ok_def)
  obtain ds where ds: "extends E txn1 ds (snd out)" "ds = [] \<or> shrinks (txn_work txn1) (txn_work (snd out))"
      "(\<forall>f \<in> set fs. fk_on_delete f \<noteq> SetNull) \<longrightarrow> (\<forall>c \<in> set ds. written c = None)"
      "fst out = Inr () \<or> (\<exists>e. fst out = Inl (Err e))"
    and invs: "\<And>fks past todo. \<lbrakk>fst out = Inr (); whole_cat fks (txn_work txn1); whole_log fks ds; set fs \<subseteq> set fks;
      \<forall>f \<in> set fs. fk_inv E f (txn_work txn1) past (changes @ todo)\<rbrakk> \<Longrightarrow>
      \<forall>f \<in> set fs. fk_inv E f (txn_work (snd out)) (past @ ds) (todo @ ds)"
    using rest unfolding round_ok_def by (elim exE conjE) (rule that, assumption+, simp)
  have lg: "logged E (txn_work txn) cs (txn_work txn1)" "logged E (txn_work txn1) ds (txn_work (snd out))"
    using cs(1) ds(1) by (auto simp: extends_def)
  have ok1: "cat_ok E (txn_work txn1)" using logged_ok [OF lg(1) ok] .
  have shr: "cs @ ds = [] \<or> shrinks (txn_work txn) (txn_work (snd out))"
    using cs(2) ds(2) lg logged_Nil shrinks_trans by fastforce
  have "\<forall>g \<in> set (f # fs). fk_inv E g (txn_work (snd out)) (past @ cs @ ds) (todo @ cs @ ds)"
    if w: "fst out = Inr ()" "whole_cat fks (txn_work txn)" "whole_log fks (cs @ ds)" "set (f # fs) \<subseteq> set fks"
      and i: "\<forall>g \<in> set (f # fs). fk_inv E g (txn_work txn) past (changes @ todo)" for fks past todo
  proof -
    have w1: "whole_log fks cs" "whole_log fks ds" "whole_cat fks (txn_work txn1)"
      using w logged_whole [OF lg(1) ok] by auto
    have cols: "fk_parent_columns g \<noteq> []" if "g \<in> set (f # fs)" for g
      using fits that unfolding fk_fits_def by blast
    have "fk_inv E f (txn_work txn1) (past @ cs) (todo @ cs)" using inv w w1 i by simp
    then have "fk_inv E f (txn_work (snd out)) ((past @ cs) @ ds) ((todo @ cs) @ ds)"
      using logged_whole_inv [OF lg(2) ok1 w1(3,2) _ cols [of f]] w(4) by (metis list.set_intros(1) subsetD)
    moreover have "fk_inv E g (txn_work txn1) (past @ cs) ((changes @ todo) @ cs)" if "g \<in> set fs" for g
      using conjunct2 [OF logged_whole_inv [OF lg(1) ok w(2) w1(1) _ cols [of g], of past "changes @ todo"]]
        that w(4) i by auto
    then have "\<forall>g \<in> set fs. fk_inv E g (txn_work (snd out)) ((past @ cs) @ ds) ((todo @ cs) @ ds)"
      using invs [OF w(1) w1(3,2), of "past @ cs" "todo @ cs"] w(4) by simp
    ultimately show ?thesis by simp
  qed
  then show ?thesis
    using extends_trans [OF cs(1) ds(1)] shr cs(3) ds(3,4) unfolding round_ok_def
    by (intro exI [of _ "cs @ ds"]) auto
qed

lemma round_ok_fail:
  "round_ok E [f] changes txn (Inl x, txn1) \<Longrightarrow> round_ok E (f # fs) changes txn (Inl x, txn1)"
  by (fastforce simp: round_ok_def)

lemma round_ok_frames: "round_ok E fs changes txn out \<Longrightarrow> cat_ok E (txn_work txn) \<Longrightarrow>
    cat_ok E (txn_work (snd out)) \<and> same_frames (txn_work txn) (txn_work (snd out))"
  by (auto simp: round_ok_def extends_def dest: logged_ok logged_rows)

lemma parent_round_ok:
  assumes "cat_ok E (txn_work txn)" and "\<forall>f \<in> set fs. fk_fits (txn_work txn) f"
    and "\<forall>c \<in> set changes. sized (txn_work txn) c"
  shows "round_ok E fs changes txn (parent_round E user changes fs txn)"
  using assms
proof (induction fs arbitrary: txn)
  case Nil
  then show ?case by (auto simp: round_ok_def intro!: exI [of _ "[]"])
next
  case (Cons f fs)
  obtain x txn1 where step: "parent_step E user changes f txn = (x, txn1)" by fastforce
  have one: "round_ok E [f] changes txn (x, txn1)"
    using parent_step_ok [of E txn f changes user] Cons.prems step by simp
  show ?case
  proof (cases x)
    case (Inl y)
    then show ?thesis using one step round_ok_fail by simp
  next
    case (Inr u)
    have fr: "cat_ok E (txn_work txn1)" "same_frames (txn_work txn) (txn_work txn1)"
      using round_ok_frames [OF one Cons.prems(1)] by auto
    have "round_ok E fs changes txn1 (parent_round E user changes fs txn1)"
      using Cons.IH [OF fr(1)] fits_frames [OF fr(2)] sized_frames [OF fr(2)] Cons.prems by simp
    then show ?thesis
      using Inr one step round_ok_comp [OF _ _ Cons.prems(1,2)] by simp
  qed
qed

section \<open>The rounds end\<close>

definition row_ids :: "('n, 'd) catalog \<Rightarrow> (string \<times> nat) set" where
  "row_ids cat = {(n, i). row_of cat n i \<noteq> None}"

definition weight :: "('n, 'd) catalog \<Rightarrow> nat" where
  "weight cat = (\<Sum>(n, i) \<in> row_ids cat. case row_of cat n i of None \<Rightarrow> 0 | Some r \<Rightarrow> Suc (filled r))"

lemma finite_row_ids: "finite (row_ids cat)"
proof -
  have "row_ids cat \<subseteq> (\<Union>(n, t) \<in> set (cat_tables cat). {n} \<times> fst ` set (tab_rows t))"
  proof
    fix p assume "p \<in> row_ids cat"
    then obtain n i t r where "p = (n, i)" "map_of (cat_tables cat) n = Some t" "map_of (tab_rows t) i = Some r"
      by (auto simp: row_ids_def row_of_def cat_table_def bind_eq_Some_conv)
    then show "p \<in> (\<Union>(n, t) \<in> set (cat_tables cat). {n} \<times> fst ` set (tab_rows t))"
      by (force dest: map_of_SomeD)
  qed
  then show ?thesis by (rule finite_subset) auto
qed

lemma shrinks_weight:
  assumes "shrinks a b"
  shows "weight b < weight a"
proof -
  let ?g = "\<lambda>cat (n, i). case row_of cat n i of None \<Rightarrow> 0 | Some r \<Rightarrow> Suc (filled r)"
  have le: "?g b p \<le> ?g a p" for p
    using assms by (cases p) (fastforce simp: shrinks_def split: option.splits)
  obtain n i r where r: "row_of a n i = Some r" "case row_of b n i of None \<Rightarrow> True | Some r' \<Rightarrow> filled r' < filled r"
    using assms by (auto simp: shrinks_def)
  then have lt: "(n, i) \<in> row_ids a" "?g b (n, i) < ?g a (n, i)"
    by (auto simp: row_ids_def split: option.splits)
  have "row_ids b \<subseteq> row_ids a" using assms by (fastforce simp: shrinks_def row_ids_def)
  then have "weight b = (\<Sum>p \<in> row_ids a. ?g b p)"
    unfolding weight_def
    by (intro sum.mono_neutral_left finite_row_ids) (auto simp: row_ids_def split: option.splits)
  also have "\<dots> < weight a"
    unfolding weight_def using lt le by (intro sum_strict_mono_ex1 finite_row_ids) blast+
  finally show ?thesis .
qed

text \<open>What the rounds do, whether they end with \<open>Ok\<close> or with an error.\<close>

definition rounds_ok ::
  "('n, 'd, 'a) ext \<Rightarrow> foreign_key_ref list \<Rightarrow> ('n, 'd) change list \<Rightarrow> ('n, 'd) txn \<Rightarrow>
   unit ora_result \<times> ('n, 'd) txn \<Rightarrow> bool" where
  "rounds_ok E fks changes txn out \<longleftrightarrow>
     (\<exists>cs. extends E txn cs (snd out) \<and>
        (\<forall>n i. row_of (txn_work (snd out)) n i \<noteq> None \<longrightarrow> row_of (txn_work txn) n i \<noteq> None) \<and>
        (fst out = Inr () \<or> (\<exists>e. fst out = Inl (Err e))) \<and>
        ((\<forall>f \<in> set fks. fk_on_delete f \<noteq> SetNull) \<longrightarrow> (\<forall>c \<in> set cs. written c = None)) \<and>
        (fst out = Inr () \<longrightarrow>
           (\<forall>past. whole_cat fks (txn_work txn) \<longrightarrow> whole_log fks cs \<longrightarrow>
              (\<forall>f \<in> set fks. fk_inv E f (txn_work txn) past changes) \<longrightarrow>
              (\<forall>f \<in> set fks. fk_inv E f (txn_work (snd out)) (past @ cs) []))))"

lemma rounds_okI:
  assumes round: "round_ok E fks changes txn (x, txn1)"
    and more: "x = Inr () \<Longrightarrow> rounds_ok E fks (drop (length (txn_log txn)) (txn_log txn1)) txn1 out"
    and stop: "x \<noteq> Inr () \<Longrightarrow> out = (x, txn1)"
    and ok: "cat_ok E (txn_work txn)"
  shows "rounds_ok E fks changes txn out"
proof -
  obtain cs where cs: "extends E txn cs txn1" "x = Inr () \<or> (\<exists>e. x = Inl (Err e))"
      "cs = [] \<or> shrinks (txn_work txn) (txn_work txn1)"
      "(\<forall>f \<in> set fks. fk_on_delete f \<noteq> SetNull) \<longrightarrow> (\<forall>c \<in> set cs. written c = None)"
    and inv: "x = Inr () \<Longrightarrow> \<forall>past todo. whole_cat fks (txn_work txn) \<longrightarrow> whole_log fks cs \<longrightarrow>
      (\<forall>f \<in> set fks. fk_inv E f (txn_work txn) past (changes @ todo)) \<longrightarrow>
      (\<forall>f \<in> set fks. fk_inv E f (txn_work txn1) (past @ cs) (todo @ cs))"
    using round unfolding round_ok_def fst_conv snd_conv by (elim exE conjE) (rule that, assumption+, blast)
  have rows: "row_of (txn_work txn) n i \<noteq> None" if "row_of (txn_work txn1) n i \<noteq> None" for n i
    using cs(1,3) that by (fastforce simp: extends_def shrinks_def dest: logged_Nil)
  show ?thesis
  proof (cases "x = Inr ()")
    case False
    then show ?thesis using stop cs rows unfolding rounds_ok_def by auto
  next
    case True
    have new: "drop (length (txn_log txn)) (txn_log txn1) = cs" using cs(1) by (simp add: extends_def)
    obtain ds where ds: "extends E txn1 ds (snd out)"
        "\<forall>n i. row_of (txn_work (snd out)) n i \<noteq> None \<longrightarrow> row_of (txn_work txn1) n i \<noteq> None"
        "fst out = Inr () \<or> (\<exists>e. fst out = Inl (Err e))"
        "(\<forall>f \<in> set fks. fk_on_delete f \<noteq> SetNull) \<longrightarrow> (\<forall>c \<in> set ds. written c = None)"
      and inv': "fst out = Inr () \<longrightarrow> (\<forall>past. whole_cat fks (txn_work txn1) \<longrightarrow> whole_log fks ds \<longrightarrow>
        (\<forall>f \<in> set fks. fk_inv E f (txn_work txn1) past cs) \<longrightarrow>
        (\<forall>f \<in> set fks. fk_inv E f (txn_work (snd out)) (past @ ds) []))"
      using more [OF True] unfolding rounds_ok_def new by (elim exE conjE) (rule that)
    have whole: "whole_cat fks (txn_work txn) \<Longrightarrow> whole_log fks cs \<Longrightarrow> whole_cat fks (txn_work txn1)"
      using cs(1) logged_whole [OF _ ok] unfolding extends_def by blast
    have "\<forall>f \<in> set fks. fk_inv E f (txn_work (snd out)) (past @ cs @ ds) []"
      if w: "fst out = Inr ()" "whole_cat fks (txn_work txn)" "whole_log fks (cs @ ds)"
        "\<forall>f \<in> set fks. fk_inv E f (txn_work txn) past changes" for past
    proof -
      have "\<forall>f \<in> set fks. fk_inv E f (txn_work txn1) (past @ cs) cs"
        using inv [OF True, rule_format, of past "[]"] w by simp
      then show ?thesis using inv' [THEN mp, OF w(1), THEN spec, of "past @ cs"] w whole by simp
    qed
    then show ?thesis
      using extends_trans [OF cs(1) ds(1)] cs(4) ds(2-4) rows unfolding rounds_ok_def
      by (intro exI [of _ "cs @ ds"]) auto
  qed
qed

lemma rounds_ok_end: "rounds_ok E fks [] txn (Inr (), txn)"
  by (auto simp: rounds_ok_def intro!: exI [of _ "[]"])

lemma rounds_okE:
  assumes "rounds_ok E fks changes txn (Inr (), txn')"
  obtains cs where "extends E txn cs txn'"
    and "\<And>past. \<lbrakk>whole_cat fks (txn_work txn); whole_log fks cs; \<forall>f \<in> set fks. fk_inv E f (txn_work txn) past changes\<rbrakk> \<Longrightarrow>
      \<forall>f \<in> set fks. fk_inv E f (txn_work txn') (past @ cs) []"
  using assms unfolding rounds_ok_def fst_conv snd_conv by blast

lemma parent_rounds_ok:
  assumes "cat_ok E (txn_work txn)" and "\<forall>f \<in> set fks. fk_fits (txn_work txn) f"
    and "\<forall>c \<in> set (drop start (txn_log txn)). sized (txn_work txn) c"
  shows "\<exists>out. parent_rounds E user fks start txn = Some out \<and> rounds_ok E fks (drop start (txn_log txn)) txn out"
  using assms
proof (induction "weight (txn_work txn)" arbitrary: txn start rule: less_induct)
  case less
  show ?case
  proof (cases "start < length (txn_log txn)")
    case False
    then show ?thesis using rounds_ok_end by (simp add: parent_rounds.simps [of _ _ _ start])
  next
    case True
    obtain x txn1 where step: "parent_round E user (drop start (txn_log txn)) fks txn = (x, txn1)" by fastforce
    have round: "round_ok E fks (drop start (txn_log txn)) txn (x, txn1)"
      using parent_round_ok [OF less.prems, of user] step by simp
    note fr = round_ok_frames [OF round less.prems(1), simplified]
    obtain cs where cs: "extends E txn cs txn1" "cs = [] \<or> shrinks (txn_work txn) (txn_work txn1)"
      using round by (auto simp: round_ok_def)
    have log: "txn_log txn1 = txn_log txn @ cs" and lg: "logged E (txn_work txn) cs (txn_work txn1)"
      using cs(1) by (auto simp: extends_def)
    have unfold: "parent_rounds E user fks start txn =
        (case x of Inl y \<Rightarrow> Some (Inl y, txn1) | Inr _ \<Rightarrow> parent_rounds E user fks (length (txn_log txn)) txn1)"
      using True step by (simp add: parent_rounds.simps [of _ _ _ start])
    have rest: "\<exists>out. parent_rounds E user fks (length (txn_log txn)) txn1 = Some out \<and>
        rounds_ok E fks (drop (length (txn_log txn)) (txn_log txn1)) txn1 out"
    proof (cases "cs = []")
      case True
      then show ?thesis using log rounds_ok_end by (simp add: parent_rounds.simps)
    next
      case False
      then have "weight (txn_work txn1) < weight (txn_work txn)" using cs(2) shrinks_weight by blast
      then show ?thesis
        using log less.prems fr fits_frames [OF conjunct2 [OF fr]] logged_sized [OF lg less.prems(1)]
        by (intro less.hyps) auto
    qed
    show ?thesis
    proof (cases x)
      case (Inl y)
      then show ?thesis using unfold by (auto intro!: rounds_okI [OF round _ _ less.prems(1)])
    next
      case (Inr u)
      then show ?thesis using unfold rest by (auto intro!: rounds_okI [OF round _ _ less.prems(1)])
    qed
  qed
qed

section \<open>The whole check\<close>

definition fk_of :: "string \<Rightarrow> ('n, 'd) constraint \<Rightarrow> foreign_key_ref option" where
  "fk_of n c =
     (case con_kind c of
        ForeignKey columns parent parent_columns od \<Rightarrow>
          Some \<lparr>fk_child = n, fk_name = con_name c, fk_columns = columns, fk_parent = parent,
            fk_parent_columns = parent_columns, fk_on_delete = od, fk_enabled = con_enabled c\<rparr>
      | _ \<Rightarrow> None)"

lemma fk_of_truncate: "fk_of n (truncate_constraint c) = fk_of n c"
  by (simp add: fk_of_def truncate_constraint_def split: constraint_kind.split)

lemma foreign_keys_iff:
  "f \<in> set (foreign_keys cat) \<longleftrightarrow>
   (\<exists>(n, t) \<in> set (cat_tables cat). \<exists>c \<in> set (map truncate_constraint (tab_constraints t)). fk_of (tab_name t) c = Some f)"
proof -
  have "foreign_keys cat =
      concat (map (\<lambda>t. List.map_filter (fk_of (tab_name t)) (tab_constraints t)) (bt_values (cat_tables cat)))"
    by (simp add: foreign_keys_def fk_of_def [abs_def])
  then show ?thesis by (force simp: List.map_filter_def fk_of_truncate)
qed

lemma foreign_keys_frames:
  assumes "cat_ok E a" and "same_frames a b" and "cat_ok E b" and "f \<in> set (foreign_keys b)"
  shows "f \<in> set (foreign_keys a)"
proof -
  obtain n t c where t: "(n, t) \<in> set (cat_tables b)"
    and c: "c \<in> set (map truncate_constraint (tab_constraints t))" "fk_of (tab_name t) c = Some f"
    using assms(4) unfolding foreign_keys_iff by blast
  have "cat_table b n = Some t" using t cat_ok_bt [OF assms(3)] by (simp add: cat_table_def bt_get_iff)
  then obtain u where u: "cat_table a n = Some u" "same_frame u t"
    using assms(2) unfolding same_frames_def by (metis option_rel_Some2)
  have "(n, u) \<in> set (cat_tables a)" using u(1) cat_ok_bt [OF assms(1)] by (simp add: cat_table_def bt_get_iff)
  moreover have "c \<in> set (map truncate_constraint (tab_constraints u))" "fk_of (tab_name u) c = Some f"
    using c u(2) by (simp_all only: same_frame_def)
  ultimately show ?thesis unfolding foreign_keys_iff by blast
qed

lemma check_parent_spec:
  assumes ok: "cat_ok E cat" and fits: "fk_fits cat f" and r: "row_of cat (fk_child f) i = Some r"
  shows "check_parent E user cat r f =
    (case fkey E (fk_columns f) r of
       None \<Rightarrow> Inr ()
     | Some k \<Rightarrow> if holds E cat f k then Inr ()
         else Inl (Err (violated user 2291 (fk_name f) ''parent key not found'')))"
proof -
  obtain p t where p: "cat_table cat (fk_parent f) = Some p"
    and t: "cat_table cat (fk_child f) = Some t" "in_range (fk_columns f) (ncols t)"
    using fits by (auto simp: fk_fits_def)
  have "length r = ncols t" using r t table_okD(2) [OF cat_okD [OF ok t(1)]] by (simp add: row_of_def)
  then have key: "foreign_key E (fk_columns f) r = (Inr (fkey E (fk_columns f) r) :: (ora_error, _) rust)"
    using t(2) by (intro foreign_key_fkey) simp
  show ?thesis
    by (cases "fkey E (fk_columns f) r") (simp_all add: check_parent_def key p has_key_holds [OF ok fits p])
qed

lemma each_result:
  fixes g :: "'a \<Rightarrow> unit ora_result"
  assumes "\<And>x. x \<in> set xs \<Longrightarrow> g x = Inr () \<or> (\<exists>e. g x = Inl (Err e))"
  shows "each g xs = Inr () \<or> (\<exists>e. each g xs = Inl (Err e))"
  using assms
proof (induction xs)
  case (Cons x xs)
  then have "g x = Inr () \<or> (\<exists>e. g x = Inl (Err e))" "each g xs = Inr () \<or> (\<exists>e. each g xs = Inl (Err e))" by simp_all
  then show ?case by auto
qed simp

lemma check_touched_written:
  "check_touched E user fks cat c =
    (case written c of
       None \<Rightarrow> Inr ()
     | Some (n, i, _) \<Rightarrow>
         (case row_of cat n i of
            None \<Rightarrow> Inr ()
          | Some r \<Rightarrow> each (check_parent E user cat r) (filter (\<lambda>f. fk_child f = n) fks)))"
  by (cases c) (simp_all add: check_touched_def row_of_def split: option.split)

lemma check_touched_result:
  assumes ok: "cat_ok E cat" and fits: "\<forall>f \<in> set fks. fk_fits cat f"
  shows "check_touched E user fks cat c = Inr () \<or> (\<exists>e. check_touched E user fks cat c = Inl (Err e))"
proof -
  have "each (check_parent E user cat r) (filter (\<lambda>f. fk_child f = n) fks) = Inr () \<or>
      (\<exists>e. each (check_parent E user cat r) (filter (\<lambda>f. fk_child f = n) fks) = Inl (Err e))"
    if "row_of cat n i = Some r" for n i r
  proof (rule each_result)
    fix f assume f: "f \<in> set (filter (\<lambda>f. fk_child f = n) fks)"
    then show "check_parent E user cat r f = Inr () \<or> (\<exists>e. check_parent E user cat r f = Inl (Err e))"
      using that fits check_parent_spec [OF ok, of f i r user] by (auto split: option.splits)
  qed
  then show ?thesis by (simp add: check_touched_written split: option.split)
qed

lemma check_touched_holds:
  assumes ok: "cat_ok E cat" and fits: "\<forall>f \<in> set fks. fk_fits cat f"
    and checked: "each (check_touched E user fks cat) lg = Inr ()" and t: "touched lg (fk_child f) i"
    and r: "row_of cat (fk_child f) i = Some r" "fkey E (fk_columns f) r = Some k" and f: "f \<in> set fks"
  shows "holds E cat f k"
proof -
  obtain c s where c: "c \<in> set lg" "written c = Some (fk_child f, i, s)" using t by (auto simp: touched_def)
  then have "check_touched E user fks cat c = Inr ()" using checked by (simp add: each_eq_Inr)
  then have "check_parent E user cat r f = Inr ()"
    using c(2) r(1) f by (simp add: check_touched_written each_eq_Inr)
  then show ?thesis using check_parent_spec [OF ok _ r(1), of user] fits f r(2) by (auto split: if_splits)
qed

abbreviation enabled_fks :: "('n, 'd) catalog \<Rightarrow> foreign_key_ref list" where
  "enabled_fks cat \<equiv> filter fk_enabled (foreign_keys cat)"

lemma enforce_rounds:
  assumes ok: "cat_ok E (txn_work txn)" and fits: "\<forall>f \<in> set (enabled_fks (txn_work txn)). fk_fits (txn_work txn) f"
    and sized: "\<forall>c \<in> set (drop from (txn_log txn)). sized (txn_work txn) c"
  shows "\<exists>x txn'. rounds_ok E (enabled_fks (txn_work txn)) (drop from (txn_log txn)) txn (x, txn') \<and>
    enforce_foreign_keys E user from txn =
      (case x of
         Inl y \<Rightarrow> (Inl y, txn')
       | Inr _ \<Rightarrow> (each (check_touched E user (enabled_fks (txn_work txn)) (txn_work txn')) (drop from (txn_log txn')), txn'))"
proof (cases "enabled_fks (txn_work txn) = []")
  case True
  have each_ok: "each (check_touched E user [] cat) lg = Inr ()" for cat lg
    by (rule each_ok) (simp add: check_touched_written split: option.split)
  have "rounds_ok E [] changes txn (Inr (), txn)" for changes
    by (auto simp: rounds_ok_def intro!: exI [of _ "[]"])
  then show ?thesis using True each_ok by (intro exI [of _ "Inr ()"] exI [of _ txn]) (simp add: enforce_foreign_keys_def)
next
  case False
  obtain x txn' where "parent_rounds E user (enabled_fks (txn_work txn)) from txn = Some (x, txn')"
    "rounds_ok E (enabled_fks (txn_work txn)) (drop from (txn_log txn)) txn (x, txn')"
    using parent_rounds_ok [OF ok fits sized, of user] by auto
  then show ?thesis
    using False by (intro exI [of _ x] exI [of _ txn']) (simp add: enforce_foreign_keys_def split: sum.split)
qed

text \<open>C19: The check ends, whatever cycles the foreign keys form: every round that changes anything takes
  cells or rows away from the catalog. It ends with success or with an Oracle error, never with a
  panic, and what it did to the working catalog is what it added to the log.\<close>

theorem enforce_ends:
  assumes "cat_ok E (txn_work txn)" and "\<forall>f \<in> set (enabled_fks (txn_work txn)). fk_fits (txn_work txn) f"
    and "\<forall>c \<in> set (drop from (txn_log txn)). sized (txn_work txn) c"
  shows "\<exists>cs x txn'. enforce_foreign_keys E user from txn = (x, txn') \<and> (x = Inr () \<or> (\<exists>e. x = Inl (Err e))) \<and>
    txn_log txn' = txn_log txn @ cs \<and> logged E (txn_work txn) cs (txn_work txn')"
proof -
  obtain x txn' where rounds: "rounds_ok E (enabled_fks (txn_work txn)) (drop from (txn_log txn)) txn (x, txn')"
    and eq: "enforce_foreign_keys E user from txn =
      (case x of
         Inl y \<Rightarrow> (Inl y, txn')
       | Inr _ \<Rightarrow> (each (check_touched E user (enabled_fks (txn_work txn)) (txn_work txn')) (drop from (txn_log txn')), txn'))"
    using enforce_rounds [OF assms, of user] by blast
  obtain cs where ext: "extends E txn cs txn'" and x: "x = Inr () \<or> (\<exists>e. x = Inl (Err e))"
    using rounds by (auto simp: rounds_ok_def)
  then have lg: "txn_log txn' = txn_log txn @ cs" "logged E (txn_work txn) cs (txn_work txn')"
    by (simp_all add: extends_def)
  have "fk_fits (txn_work txn') f" if "f \<in> set (enabled_fks (txn_work txn))" for f
    using that assms(2) logged_rows [OF lg(2) assms(1)] fits_frames by blast
  then have "each (check_touched E user (enabled_fks (txn_work txn)) (txn_work txn')) cs' = Inr () \<or>
      (\<exists>e. each (check_touched E user (enabled_fks (txn_work txn)) (txn_work txn')) cs' = Inl (Err e))" for cs'
    using logged_ok [OF lg(2) assms(1)] by (intro each_result check_touched_result) auto
  then show ?thesis using x eq lg by (intro exI [of _ cs]) (auto split: sum.splits)
qed

lemma enforce_holds:
  assumes ok: "cat_ok E cat0" and lg: "logged E cat0 suffix (txn_work txn)" "txn_log txn = pre @ suffix"
    and fits: "\<forall>f \<in> set (enabled_fks (txn_work txn)). fk_fits (txn_work txn) f \<and> integrity E cat0 f"
    and whole: "whole_cat (enabled_fks (txn_work txn)) cat0"
      "whole_log (enabled_fks (txn_work txn)) (drop (length pre) (txn_log txn'))"
    and run: "enforce_foreign_keys E user (length pre) txn = (Inr (), txn')"
    and f: "f \<in> set (enabled_fks (txn_work txn'))"
  shows "integrity E (txn_work txn') f"
proof -
  let ?fks = "enabled_fks (txn_work txn)"
  have ok1: "cat_ok E (txn_work txn)" using logged_ok [OF lg(1) ok] .
  have fits1: "\<forall>f \<in> set ?fks. fk_fits (txn_work txn) f" using fits by blast
  have sized: "\<forall>c \<in> set (drop (length pre) (txn_log txn)). sized (txn_work txn) c"
    using logged_sized [OF lg(1) ok] lg(2) by simp
  obtain x txn'' where rounds: "rounds_ok E ?fks (drop (length pre) (txn_log txn)) txn (x, txn'')"
    and eq: "enforce_foreign_keys E user (length pre) txn =
      (case x of
         Inl y \<Rightarrow> (Inl y, txn'')
       | Inr _ \<Rightarrow> (each (check_touched E user ?fks (txn_work txn'')) (drop (length pre) (txn_log txn'')), txn''))"
    using enforce_rounds [OF ok1 fits1 sized, of user] by blast
  have x: "x = Inr ()" "txn'' = txn'" and
    checked: "each (check_touched E user ?fks (txn_work txn')) (drop (length pre) (txn_log txn')) = Inr ()"
    using eq run by (auto split: sum.splits)
  have rounds': "rounds_ok E ?fks suffix txn (Inr (), txn')"
    using rounds lg(2) unfolding x by simp
  obtain cs where ext: "extends E txn cs txn'"
    and inv: "\<And>past. \<lbrakk>whole_cat ?fks (txn_work txn); whole_log ?fks cs;
        \<forall>f \<in> set ?fks. fk_inv E f (txn_work txn) past suffix\<rbrakk> \<Longrightarrow>
      \<forall>f \<in> set ?fks. fk_inv E f (txn_work txn') (past @ cs) []"
    by (rule rounds_okE [OF rounds']) (rule that)
  then have lg': "txn_log txn' = txn_log txn @ cs" "logged E (txn_work txn) cs (txn_work txn')"
    by (simp_all add: extends_def)
  have wl: "whole_log ?fks suffix" "whole_log ?fks cs" using whole(2) lg(2) lg'(1) by simp_all
  have cols: "fk_parent_columns g \<noteq> []" if "g \<in> set ?fks" for g using fits that by (auto simp: fk_fits_def)
  have "fk_inv E g (txn_work txn) ([] @ suffix) ([] @ suffix)" if "g \<in> set ?fks" for g
    using logged_whole_inv [OF lg(1) ok whole(1) wl(1) that cols [OF that] integrity_inv] fits that by blast
  then have inv': "\<forall>f \<in> set ?fks. fk_inv E f (txn_work txn') (suffix @ cs) []"
    using inv [OF logged_whole [OF lg(1) ok whole(1) wl(1)] wl(2), of suffix] by simp
  have ok': "cat_ok E (txn_work txn')" and fr: "same_frames (txn_work txn) (txn_work txn')"
    using logged_ok [OF lg'(2) ok1] logged_rows [OF lg'(2) ok1] by auto
  have f': "f \<in> set ?fks" using f foreign_keys_frames [OF ok1 fr ok'] by simp
  have fits': "\<forall>f \<in> set ?fks. fk_fits (txn_work txn') f" using fits1 fits_frames [OF fr] by blast
  have tail: "drop (length pre) (txn_log txn') = suffix @ cs" using lg(2) lg'(1) by simp
  show ?thesis
    unfolding integrity_def
  proof (intro allI impI)
    fix i r k assume r: "row_of (txn_work txn') (fk_child f) i = Some r" "fkey E (fk_columns f) r = Some k"
    then consider "holds E (txn_work txn') f k" | "touched (suffix @ cs) (fk_child f) i"
      using inv' f' by (auto simp: fk_inv_def)
    then show "holds E (txn_work txn') f k"
      using check_touched_holds [OF ok' fits' checked _ r f'] tail by cases simp_all
  qed
qed


definition child :: "(dec, int) table" where
  "child =
     \<lparr>tab_name = ''C'',
      tab_columns = [\<lparr>col_name = ''REF'', col_type = NUMBER, col_default = None,
        col_not_null = False, col_identity = False\<rparr>],
      tab_constraints = [\<lparr>con_name = ''FK'', con_kind = ForeignKey [0] ''T'' [0] Cascade,
        con_is_index = False, con_enabled = True\<rparr>],
      tab_rows = [(7, [num 1]), (8, [num 2])]\<rparr>"

definition family :: "(dec, int) catalog" where
  "family = catalog_default\<lparr>cat_tables := [(''C'', child), (''T'', numbers)]\<rparr>"

abbreviation "family_fk \<equiv> \<lparr>fk_child = ''C'', fk_name = ''FK'', fk_columns = [0], fk_parent = ''T'', fk_parent_columns = [0],
  fk_on_delete = Cascade, fk_enabled = True\<rparr>"

definition orphaned :: "(dec, int) txn" where
  "orphaned = \<lparr>txn_base_version = 0, txn_work = set_table family ''T'' (drop_row clock_ext 2 [num 2] numbers),
     txn_log = [DeleteC ''T'' 2 [num 2]]\<rparr>"

lemma child_ok: "table_ok clock_ext child"
  by (simp add: child_def table_ok_iff bt_ok_def con_fits_def con_ok_def)

lemma family_ok: "cat_ok clock_ext family"
  by (simp add: family_def cat_ok_def bt_ok_def numbers_ok child_ok less_char_simp)

lemma family_tables: "cat_table family ''T'' = Some numbers" "cat_table family ''C'' = Some child"
  by (simp_all add: family_def cat_table_def)

lemma orphaned_logged: "logged clock_ext family [DeleteC ''T'' 2 [num 2]] (txn_work orphaned)"
proof -
  have "table_delete clock_ext numbers 2 = (Inr (drop_row clock_ext 2 [num 2] numbers, True) :: (ora_error, _) rust)"
    by (simp add: table_delete_closed [OF numbers_ok]) (simp add: numbers_def)
  moreover have "map_of (tab_rows numbers) 2 = Some [num 2]" by (simp add: numbers_def)
  ultimately have "wrote clock_ext family [DeleteC ''T'' 2 [num 2]] (set_table family ''T'' (drop_row clock_ext 2 [num 2] numbers))"
    by (intro wrote.del [OF family_tables(1)])
  then show ?thesis using logged.step [OF logged.start] by (fastforce simp: orphaned_def)
qed

lemma orphaned_tables:
  "cat_table (txn_work orphaned) ''T'' = Some (drop_row clock_ext 2 [num 2] numbers)"
  "cat_table (txn_work orphaned) ''C'' = Some child"
  by (simp_all add: orphaned_def family_def cat_table_def set_table_def)

lemma orphaned_fks: "enabled_fks (txn_work orphaned) = [family_fk]"
  by (simp add: orphaned_def family_def set_table_def foreign_keys_def List.map_filter_simps child_def numbers_def
      drop_row_def del_ix_def)

lemma orphaned_fits: "fk_fits (txn_work orphaned) family_fk"
  by (simp add: fk_fits_def orphaned_tables) (simp add: child_def numbers_def)

lemma family_integrity: "integrity clock_ext family family_fk"
proof -
  have "r = [num 1] \<or> r = [num 2]" if "row_of family ''C'' i = Some r" for i r
    using that by (auto simp: row_of_def family_tables child_def split: if_splits)
  moreover have "row_of family ''T'' 1 = Some [num 1]" "row_of family ''T'' 2 = Some [num 2]"
    by (simp_all add: row_of_def family_tables numbers_def)
  moreover have "ukey clock_ext [0] [num i] = fkey clock_ext [0] [num i]" for i
    by (simp add: ukey_def fkey_def cells_def num_def)
  ultimately show ?thesis by (fastforce simp: integrity_def holds_def)
qed

lemma single_whole: "fk_parent_columns f = [c] \<Longrightarrow> whole f r"
  by (simp add: whole_def cells_def)

definition cascaded :: "(dec, int) txn" where
  "cascaded = push [DeleteC ''C'' 8 [num 2]] (set_work ''C'' (drop_row clock_ext 8 [num 2] child) orphaned)"

lemma key_two_gone:
  "has_key clock_ext (drop_row clock_ext 2 [num 2] numbers) [0] (key_string clock_ext [num 2]) =
     (Inr False :: (ora_error, _) rust)"
  by (simp add: has_key_def numbers_def drop_row_def del_ix_def ix_del_def ukey_def cells_def num_not_null del: key_string.simps)

lemma child_delete: "table_delete clock_ext child 8 = (Inr (drop_row clock_ext 8 [num 2] child, True) :: (ora_error, _) rust)"
  by (simp add: table_delete_closed [OF child_ok]) (simp add: child_def)

lemma child_hit:
  "find_hits clock_ext u family_fk [key_string clock_ext [num 2]] [] (tab_rows child) = Inr [(8, [num 2])]"
  using num_key_lits(1) by (simp add: child_def foreign_key_def index_def num_not_null del: key_string.simps)

lemma orphaned_round:
  "parent_round clock_ext u [DeleteC ''T'' 2 [num 2]] [family_fk] orphaned = (Inr (), cascaded)"
  by (simp add: parent_step_def removed_keys_def foreign_key_def index_def num_not_null orphaned_tables key_two_gone
      child_hit on_parent_removed_def child_delete cascaded_def del: key_string.simps)

lemma cascaded_round:
  "parent_round clock_ext u [DeleteC ''C'' 8 [num 2]] [family_fk] cascaded = (Inr (), cascaded)"
  by (simp add: parent_step_def removed_keys_def cascaded_def push_def set_work_def cat_table_def set_table_def
      orphaned_def family_def)

lemma cascaded_log: "txn_log orphaned = [DeleteC ''T'' 2 [num 2]]" "txn_log cascaded = [DeleteC ''T'' 2 [num 2], DeleteC ''C'' 8 [num 2]]"
  by (simp_all add: cascaded_def push_def set_work_def orphaned_def)

lemma orphaned_enforced: "enforce_foreign_keys clock_ext u 0 orphaned = (Inr (), cascaded)"
proof -
  have "parent_rounds clock_ext u [family_fk] 2 cascaded = Some (Inr (), cascaded)"
    by (simp add: parent_rounds.simps cascaded_log)
  then have "parent_rounds clock_ext u [family_fk] 1 cascaded = Some (Inr (), cascaded)"
    by (subst parent_rounds.simps) (simp add: cascaded_log cascaded_round numeral_2_eq_2 del: parent_round.simps)
  then have "parent_rounds clock_ext u [family_fk] 0 orphaned = Some (Inr (), cascaded)"
    by (subst parent_rounds.simps) (simp add: cascaded_log orphaned_round del: parent_round.simps)
  then show ?thesis
    by (simp add: enforce_foreign_keys_def orphaned_fks cascaded_log check_touched_def)
qed

theorem enforce_ends_witness:
  "\<exists>cs x txn'. enforce_foreign_keys clock_ext ''MOCK'' 0 orphaned = (x, txn') \<and> (x = Inr () \<or> (\<exists>e. x = Inl (Err e))) \<and>
    txn_log txn' = DeleteC ''T'' 2 [num 2] # cs \<and> logged clock_ext (txn_work orphaned) cs (txn_work txn')"
proof -
  have "\<forall>c \<in> set (drop 0 (txn_log orphaned)). sized (txn_work orphaned) c"
    using logged_sized [OF orphaned_logged family_ok] by (simp add: cascaded_log)
  from enforce_ends [OF logged_ok [OF orphaned_logged family_ok] _ this] show ?thesis
    using orphaned_fits by (simp add: orphaned_fks cascaded_log)
qed


end
