(* ===== verification/Store.thy ===== *)
theory Store
  imports Eval_Base Foreign_Keys
begin

text \<open>
  What \<open>crates/mock-oracle-core/src/session.rs\<close> does to a value and to a row before a table takes
  them: \<open>store_value\<close> converts a value to the column's type and enforces length and precision,
  \<open>check_row\<close> checks \<open>NOT NULL\<close> and \<open>CHECK\<close> constraints. The three functions of query evaluation
  that statements call come in as a record, so that statements can be read without them.
\<close>

record ('n, 'd) evaluator =
  ev_eval :: "('n, 'd) ex \<Rightarrow> ('n, 'd) expr \<Rightarrow> ('n, 'd) scope \<Rightarrow> ('n, 'd, ('n, 'd) value) ev"
  ev_bool :: "('n, 'd) ex \<Rightarrow> ('n, 'd) expr \<Rightarrow> ('n, 'd) scope \<Rightarrow> ('n, 'd, bool option) ev"
  ev_query :: "('n, 'd) ex \<Rightarrow> ('n, 'd) query \<Rightarrow> ('n, 'd) scope option \<Rightarrow> ('n, 'd, ('n, 'd) relation) ev"

section \<open>Values\<close>

fun type_name :: "sql_type \<Rightarrow> string" where
  "type_name (TNumber _ _) = ''NUMBER''"
| "type_name (TVarchar2 _) = ''VARCHAR2''"
| "type_name (TChar _) = ''CHAR''"
| "type_name TDate = ''DATE''"
| "type_name (TTimestamp _) = ''TIMESTAMP''"

definition round_fraction :: "('n, 'd, 'a) ext \<Rightarrow> 'd \<Rightarrow> nat \<Rightarrow> 'd ora_result" where
  "round_fraction E d p =
     (let unit = 10 ^ (9 - min p 9); rounded = (dt_nanosecond E d + unit div 2) div unit * unit in
      if rounded \<ge> 1000000000 then
        rbind (unwrap (dt_with_nanosecond E d 0)) (\<lambda>d'. unwrap (dt_add_seconds E d' 1))
      else unwrap (dt_with_nanosecond E d rounded))"

definition too_large :: "string \<Rightarrow> string \<Rightarrow> string \<Rightarrow> nat \<Rightarrow> nat \<Rightarrow> ora_error" where
  "too_large user table name actual maximum =
     ora 12899 (''value too large for column '' @ quoted user @ ''.'' @ quoted table @ ''.'' @ quoted name @
       '' (actual: '' @ nat_str actual @ '', maximum: '' @ nat_str maximum @ '')'')"

text \<open>The digits before the decimal point.\<close>

definition int_digits :: "('n, 'd, 'a) ext \<Rightarrow> 'n \<Rightarrow> nat" where
  "int_digits E n =
     (let i = bd_with_scale_round E (bd_abs E n) 0 Down in
      if bd_cmp E i (bd_from_int E 0) = Equal then 0
      else length (dropWhile (\<lambda>c. c = CHR ''-'') (bd_to_string E i)))"

definition store_number :: "('n, 'd, 'a) ext \<Rightarrow> nat \<Rightarrow> int \<Rightarrow> ('n, 'd) value \<Rightarrow> ('n, 'd) value ora_result" where
  "store_number E p s v =
     rbind (case v of
              Date _ \<Rightarrow> Inl (Err (inconsistent ''NUMBER'' ''DATE''))
            | Timestamp _ \<Rightarrow> Inl (Err (inconsistent ''NUMBER'' ''DATE''))
            | _ \<Rightarrow> rbind (to_number E v) unwrap) (\<lambda>n.
     if p = 0 then Inr (Number n)
     else
       let n' = bd_normalized E (bd_with_scale_round E n s HalfUp) in
       if int (int_digits E n') > int p - s
       then ora_fail 1438 ''value larger than specified precision allowed for this column''
       else Inr (Number n'))"

definition store_text ::
  "('n, 'd, 'a) ext \<Rightarrow> 'd env \<Rightarrow> string \<Rightarrow> string \<Rightarrow> ('n, 'd) table_column \<Rightarrow> nat \<Rightarrow> bool \<Rightarrow> ('n, 'd) value \<Rightarrow>
   ('n, 'd) value ora_result" where
  "store_text E env user table col maximum fixed v =
     rbind (case v of
              Varchar2 s \<Rightarrow> Inr s
            | Number n \<Rightarrow> Inr (format_number E n)
            | Date d \<Rightarrow> dt_format E d (env_nls_date_format env)
            | Timestamp d \<Rightarrow> dt_format E d (env_nls_timestamp_format env)
            | _ \<Rightarrow> Inl Panic) (\<lambda>s0.
     let s = (if fixed then s0 @ replicate (maximum - length s0) (CHR '' '') else s0) in
     if length s > maximum then Inl (Err (too_large user table (col_name col) (length s) maximum))
     else Inr (varchar s))"

definition store_value ::
  "('n, 'd, 'a) ext \<Rightarrow> 'd env \<Rightarrow> string \<Rightarrow> string \<Rightarrow> ('n, 'd) table_column \<Rightarrow> ('n, 'd) value \<Rightarrow>
   ('n, 'd) value ora_result" where
  "store_value E env user table col v =
     (if is_null v then Inr Null
      else if is_boolean v then Inl (Err (inconsistent (type_name (col_type col)) ''BOOLEAN''))
      else
        (case col_type col of
           TNumber p s \<Rightarrow> store_number E p s v
         | TVarchar2 n \<Rightarrow> store_text E env user table col n False v
         | TChar n \<Rightarrow> store_text E env user table col n True v
         | TDate \<Rightarrow>
             if is_number v then Inl (Err (inconsistent ''DATE'' ''NUMBER''))
             else
               rbind (to_datetime E (env_nls_date_format env) v) (\<lambda>d. rbind (unwrap d) (\<lambda>d.
               rbind (unwrap (dt_with_nanosecond E d 0)) (\<lambda>d. Inr (Date d))))
         | TTimestamp p \<Rightarrow>
             if is_number v then Inl (Err (inconsistent ''TIMESTAMP'' ''NUMBER''))
             else
               rbind (to_datetime E (case v of Varchar2 _ \<Rightarrow> env_nls_timestamp_format env | _ \<Rightarrow> []) v) (\<lambda>d.
               rbind (unwrap d) (\<lambda>d. rbind (round_fraction E d p) (\<lambda>d. Inr (Timestamp d))))))"

section \<open>Rows\<close>

definition table_scope_cols :: "('n, 'd) table \<Rightarrow> string \<Rightarrow> rel_col list" where
  "table_scope_cols t qualifier =
     map (\<lambda>c. \<lparr>rc_qualifier = Some qualifier, rc_name = col_name c, rc_type = col_type c\<rparr>) (tab_columns t)"

definition null_target :: "string \<Rightarrow> ('n, 'd) table \<Rightarrow> ('n, 'd) table_column \<Rightarrow> bool \<Rightarrow> ora_error" where
  "null_target user t c updating =
     (let target = ''('' @ quoted user @ ''.'' @ quoted (tab_name t) @ ''.'' @ quoted (col_name c) @ '')'' in
      if updating then ora 1407 (''cannot update '' @ target @ '' to NULL'')
      else ora 1400 (''cannot insert NULL into '' @ target))"

definition check_not_null ::
  "string \<Rightarrow> ('n, 'd) table \<Rightarrow> ('n, 'd) value list \<Rightarrow> bool \<Rightarrow> unit ora_result" where
  "check_not_null user t values updating =
     each (\<lambda>(i, c, v).
       if (col_not_null c \<or> i \<in> set (primary_columns t)) \<and> is_null v
       then Inl (Err (null_target user t c updating)) else Inr ())
     (zip [0..<length (tab_columns t)] (zip (tab_columns t) values))"

definition check_row ::
  "('n, 'd) evaluator \<Rightarrow> ('n, 'd) ex \<Rightarrow> ('n, 'd) table \<Rightarrow> ('n, 'd) value list \<Rightarrow> bool \<Rightarrow> ('n, 'd, unit) ev" where
  "check_row V x t values updating =
     ebind (eenv env_user) (\<lambda>user.
     ebind (elift (check_not_null user t values updating)) (\<lambda>_.
     let cols = table_scope_cols t (tab_name t) in
     efold (\<lambda>c _.
       case con_kind c of
         Check e \<Rightarrow>
           ebind (ev_bool V x e (scope_row cols values None)) (\<lambda>b.
           if b = Some False
           then eora 2290 (''check constraint ('' @ user @ ''.'' @ con_name c @ '') violated'')
           else eret ())
       | _ \<Rightarrow> eret ()) (filter con_enabled (tab_constraints t)) ()))"

section \<open>Types of stored values\<close>

fun typed :: "('n, 'd, 'a) ext \<Rightarrow> sql_type \<Rightarrow> ('n, 'd) value \<Rightarrow> bool" where
  "typed E t Null = True"
| "typed E (TNumber p s) (Number n) =
     (p = 0 \<or> int (int_digits E n) \<le> int p - s \<and> bd_fractional_digit_count E n \<le> max s 0)"
| "typed E (TVarchar2 m) (Varchar2 s) = (0 < length s \<and> length s \<le> m)"
| "typed E (TChar m) (Varchar2 s) = (0 < length s \<and> length s = m)"
| "typed E TDate (Date d) = (dt_nanosecond E d = 0)"
| "typed E (TTimestamp p) (Timestamp d) = (dt_nanosecond E d mod 10 ^ (9 - min p 9) = 0)"
| "typed E _ _ = False"

text \<open>What storing relies on: of \<open>chrono\<close>, that setting the nanoseconds sets them and that whole seconds
  leave them; of \<open>bigdecimal\<close>, that rounding to a scale leaves at most that many decimals.\<close>

locale storage_laws =
  fixes E :: "('n, 'd, 'a) ext"
  assumes with_nanosecond: "\<lbrakk>n < 1000000000; dt_with_nanosecond E d n = Some d'\<rbrakk> \<Longrightarrow> dt_nanosecond E d' = n"
    and add_seconds: "\<lbrakk>dt_nanosecond E d < 1000000000; dt_add_seconds E d secs = Some d'\<rbrakk> \<Longrightarrow>
      dt_nanosecond E d' = dt_nanosecond E d"
    and scale_round: "bd_fractional_digit_count E (bd_normalized E (bd_with_scale_round E k s m)) \<le> max s 0"
begin

lemma round_fraction_typed:
  assumes "round_fraction E d p = Inr d'"
  shows "dt_nanosecond E d' mod 10 ^ (9 - min p 9) = 0"
proof -
  define u :: nat where "u = 10 ^ (9 - min p 9)"
  define r where "r = (dt_nanosecond E d + u div 2) div u * u"
  have eq: "round_fraction E d p =
      (if r \<ge> 1000000000 then rbind (unwrap (dt_with_nanosecond E d 0)) (\<lambda>d'. unwrap (dt_add_seconds E d' 1))
       else unwrap (dt_with_nanosecond E d r))"
    unfolding round_fraction_def r_def u_def Let_def ..
  have "dt_nanosecond E d' mod u = 0"
  proof (cases "r \<ge> 1000000000")
    case True
    then have "rbind (unwrap (dt_with_nanosecond E d 0)) (\<lambda>e. unwrap (dt_add_seconds E e 1)) = (Inr d' :: 'd ora_result)"
      using assms eq by simp
    then obtain e where e: "dt_with_nanosecond E d 0 = Some e" "dt_add_seconds E e 1 = Some d'"
      by (auto simp: rbind_eq_Inr unwrap_def split: option.splits)
    then have "dt_nanosecond E e = 0" using with_nanosecond [of 0] by simp
    then show ?thesis using add_seconds [of e 1 d'] e by simp
  next
    case False
    then have "dt_with_nanosecond E d r = Some d'"
      using assms eq by (simp add: unwrap_def split: option.splits)
    then have "dt_nanosecond E d' = r" using with_nanosecond [of r] False by simp
    then show ?thesis by (simp add: r_def)
  qed
  then show ?thesis by (simp add: u_def)
qed

lemma store_number_typed:
  assumes "store_number E p s v = Inr w"
  shows "typed E (TNumber p s) w"
proof (cases "p = 0")
  case True
  then show ?thesis using assms by (auto simp: store_number_def rbind_eq_Inr)
next
  case False
  then obtain n where "w = Number (bd_normalized E (bd_with_scale_round E n s HalfUp))"
      "int (int_digits E (bd_normalized E (bd_with_scale_round E n s HalfUp))) \<le> int p - s"
    using assms by (fastforce simp: store_number_def rbind_eq_Inr Let_def split: if_splits)
  then show ?thesis using scale_round by simp
qed

lemma store_text_typed:
  assumes "store_text E env user table col m fixed v = Inr w"
  shows "typed E (if fixed then TChar m else TVarchar2 m) w"
proof -
  obtain s where "w = varchar s" "length s \<le> m" "fixed \<longrightarrow> m \<le> length s"
    using assms by (fastforce simp: store_text_def rbind_eq_Inr Let_def split: if_splits)
  then show ?thesis by (auto simp: varchar_def)
qed

lemma store_value_typed:
  assumes "store_value E env user table col v = Inr w"
  shows "typed E (col_type col) w"
proof -
  consider "is_null v" | "\<not> is_null v" "\<not> is_boolean v"
    using assms by (auto simp: store_value_def split: if_splits)
  then show ?thesis
  proof cases
    case 1
    then show ?thesis using assms by (auto simp: store_value_def)
  next
    case 2
    show ?thesis
    proof (cases "col_type col")
      case (TNumber p s)
      then show ?thesis using assms 2 store_number_typed by (simp add: store_value_def)
    next
      case (TVarchar2 m)
      then show ?thesis using assms 2 store_text_typed [of env user table col m False] by (simp add: store_value_def)
    next
      case (TChar m)
      then show ?thesis using assms 2 store_text_typed [of env user table col m True] by (simp add: store_value_def)
    next
      case TDate
      then obtain d d' where "dt_with_nanosecond E d 0 = Some d'" "w = Date d'"
        using assms 2 by (auto simp: store_value_def rbind_eq_Inr unwrap_def split: if_splits option.splits)
      then show ?thesis using TDate with_nanosecond [of 0 d d'] by simp
    next
      case (TTimestamp p)
      then obtain d d' where "round_fraction E d p = Inr d'" "w = Timestamp d'"
        using assms 2 by (auto simp: store_value_def rbind_eq_Inr split: if_splits)
      then show ?thesis using TTimestamp round_fraction_typed by simp
    qed
  qed
qed

end

interpretation clock_storage: storage_laws clock_ext
proof
  show "dt_nanosecond clock_ext d' = n" if "n < 1000000000" "dt_with_nanosecond clock_ext d n = Some d'" for n d d'
  proof -
    have "(d - d mod 1000000000 + int n) mod 1000000000 = int n mod 1000000000"
      by (metis add.commute minus_mod_eq_mult_div mod_mult_self2)
    then show ?thesis using that by (simp add: clock_ext_def nanos_def)
  qed
  show "dt_nanosecond clock_ext d' = dt_nanosecond clock_ext d"
    if "dt_nanosecond clock_ext d < 1000000000" "dt_add_seconds clock_ext d s = Some d'" for d s d'
    using that by (auto simp: clock_ext_def)
  show "bd_fractional_digit_count clock_ext (bd_normalized clock_ext (bd_with_scale_round clock_ext n s m)) \<le> max s 0" for n s m
  proof -
    obtain a where x: "dec_with_scale_round n s m = (a, s)"
      by (cases "snd n \<le> s") (simp_all add: dec_with_scale_round_def)
    obtain a' b' where n: "strip_zeros a s = (a', b')" by fastforce
    show ?thesis using strip_zeros_normal [OF n] by (auto simp: clock_ext_def x dec_normalized_def n)
  qed
qed

text \<open>C11: A value that is stored has the type of its column: a number has no more digits before the
  decimal point and no more decimals than precision and scale allow, a string is not empty and not
  longer than the column (a \<open>CHAR\<close> exactly as long), a date has no fraction of a second and a time
  stamp no more digits of it than declared. Everything else is refused or \<open>NULL\<close>.\<close>

theorem store_value_fits:
  assumes "storage_laws E" and "store_value E env user table col v = Inr w"
  shows "typed E (col_type col) w"
  using storage_laws.store_value_typed [OF assms] .

definition flag_column :: "(dec, int) table_column" where
  "flag_column = \<lparr>col_name = ''F'', col_type = TChar 3, col_default = None, col_not_null = False, col_identity = False\<rparr>"

theorem store_value_fits_witness:
  "store_value clock_ext (env_new (0, 0, 0) ''MOCK'') ''MOCK'' ''T'' flag_column (Varchar2 ''Y'') = Inr (Varchar2 ''Y  '') \<and>
   typed clock_ext (TChar 3) (Varchar2 ''Y  '')"
proof -
  have "store_value clock_ext (env_new (0, 0, 0) ''MOCK'') ''MOCK'' ''T'' flag_column (Varchar2 ''Y'') = Inr (Varchar2 ''Y  '')"
    by (simp add: store_value_def store_text_def flag_column_def varchar_def numeral_2_eq_2)
  with store_value_fits [OF clock_storage.storage_laws_axioms this] show ?thesis by (simp add: flag_column_def)
qed

section \<open>What evaluation leaves alone\<close>

text \<open>A computation is quiet when it changes neither the committed state nor the user and hands no row
  id out twice: evaluation may only count sequences, identities and ids up, and fill the cells of \<open>Env\<close>.\<close>

definition quiet_step :: "('n, 'd) est \<Rightarrow> ('n, 'd) est \<Rightarrow> bool" where
  "quiet_step s s' \<longleftrightarrow> db_state (fst s') = db_state (fst s) \<and> db_next_row_id (fst s) \<le> db_next_row_id (fst s') \<and>
     env_user (snd s') = env_user (snd s)"

definition quiet :: "('n, 'd, 'r) ev \<Rightarrow> bool" where
  "quiet m \<longleftrightarrow> (\<forall>s. quiet_step s (snd (m s)))"

named_theorems quiet_intros \<open>computations that are quiet\<close>

lemma quiet_step_refl [simp]: "quiet_step s s"
  and quiet_step_trans: "quiet_step a b \<Longrightarrow> quiet_step b c \<Longrightarrow> quiet_step a c"
  by (auto simp: quiet_step_def)

lemma quietD: "quiet m \<Longrightarrow> m s = (r, s') \<Longrightarrow> quiet_step s s'"
  unfolding quiet_def by (metis snd_conv)

lemma quiet_basic [quiet_intros]:
  "quiet (eret r)" "quiet (elift x)" "quiet (eenv f)" "quiet (edb g)"
  by (simp_all add: quiet_def eret_def elift_def eenv_def edb_def)

lemma quiet_ebind [quiet_intros]:
  assumes "quiet m" and "\<And>a. quiet (f a)"
  shows "quiet (ebind m f)"
  unfolding quiet_def
proof
  fix s
  obtain r s1 where m: "m s = (r, s1)" by (cases "m s")
  have "quiet_step s s1" using quietD [OF assms(1) m] .
  moreover have "quiet_step s1 (snd (f a s1))" for a using assms(2) unfolding quiet_def by blast
  ultimately show "quiet_step s (snd (ebind m f s))"
    by (cases r) (auto simp: ebind_def m intro: quiet_step_trans)
qed

lemma quiet_emap [quiet_intros]: "(\<And>x. x \<in> set xs \<Longrightarrow> quiet (f x)) \<Longrightarrow> quiet (emap f xs)"
  by (induction xs) (auto intro!: quiet_intros)

lemma quiet_efold [quiet_intros]: "(\<And>x b. x \<in> set xs \<Longrightarrow> quiet (f x b)) \<Longrightarrow> quiet (efold f xs b)"
  by (induction xs arbitrary: b) (auto intro!: quiet_intros)

lemma quiet_set_env [quiet_intros]: "(\<And>env. env_user (f env) = env_user env) \<Longrightarrow> quiet (eset_env f)"
  by (simp add: quiet_def eset_env_def quiet_step_def)

lemma quiet_finally [quiet_intros]:
  "quiet m \<Longrightarrow> (\<And>env. env_user (f env) = env_user env) \<Longrightarrow> quiet (efinally m f)"
  unfolding quiet_def efinally_def quiet_step_def by (auto simp: case_prod_unfold Let_def)

lemma quiet_if [quiet_intros]: "quiet a \<Longrightarrow> quiet b \<Longrightarrow> quiet (if c then a else b)"
  by simp

lemma quiet_option [quiet_intros]: "quiet a \<Longrightarrow> (\<And>y. quiet (b y)) \<Longrightarrow> quiet (case x of None \<Rightarrow> a | Some y \<Rightarrow> b y)"
  by (cases x) auto

lemma quiet_pair [quiet_intros]: "(\<And>a b. quiet (f a b)) \<Longrightarrow> quiet (case p of (a, b) \<Rightarrow> f a b)"
  by (cases p) auto

lemma quiet_Let [quiet_intros]: "quiet (f x) \<Longrightarrow> quiet (Let x f)"
  by simp

lemma quiet_next_sequence [quiet_intros]: "quiet (estep_r (next_sequence n def))"
  by (auto simp: quiet_def estep_r_def next_sequence_def quiet_step_def Let_def)

lemma quiet_next_identity [quiet_intros]: "quiet (estep (next_identity t))"
  by (auto simp: quiet_def estep_def next_identity_def quiet_step_def Let_def)

lemma quiet_advance_sequence [quiet_intros]: "quiet (advance_sequence name)"
  unfolding advance_sequence_def by (intro quiet_intros) simp

lemma clear_row_user [simp]: "env_user (clear_row env) = env_user env"
  by (simp add: clear_row_def)

lemma quiet_start_row [quiet_intros]: "quiet (start_row exprs)"
  unfolding start_row_def by (intro quiet_intros) simp_all

lemma quiet_with_row [quiet_intros]: "quiet m \<Longrightarrow> quiet (with_row exprs m)"
  unfolding with_row_def by (intro quiet_intros) simp_all

lemma quiet_sequence [quiet_intros]: "quiet (sequence E name nxt)"
  unfolding sequence_def by (intro quiet_intros)

text \<open>What a computation returns when it succeeds.\<close>

definition yields :: "('n, 'd, 'r) ev \<Rightarrow> ('r \<Rightarrow> bool) \<Rightarrow> bool" where
  "yields m P \<longleftrightarrow> (\<forall>s r s'. m s = (Inr r, s') \<longrightarrow> P r)"

lemma yieldsD: "yields m P \<Longrightarrow> m s = (Inr r, s') \<Longrightarrow> P r"
  unfolding yields_def by blast

lemma yields_weaken: "yields m P \<Longrightarrow> (\<And>r. P r \<Longrightarrow> Q r) \<Longrightarrow> yields m Q"
  unfolding yields_def by blast

lemma yields_eret: "P r \<Longrightarrow> yields (eret r) P"
  by (simp add: yields_def eret_def)

lemma yields_elift: "(\<And>r. x = Inr r \<Longrightarrow> P r) \<Longrightarrow> yields (elift x) P"
  by (simp add: yields_def elift_def)

lemma yields_any: "yields m (\<lambda>_. True)"
  by (simp add: yields_def)

lemma yields_ebind:
  assumes "yields m Q" and "\<And>a. Q a \<Longrightarrow> yields (f a) P"
  shows "yields (ebind m f) P"
  using assms unfolding yields_def ebind_def by (fastforce split: prod.splits sum.splits)

lemma yields_then: "(\<And>a. yields (f a) P) \<Longrightarrow> yields (ebind m f) P"
  by (rule yields_ebind [OF yields_any])

lemma yields_finally: "yields m P \<Longrightarrow> yields (efinally m f) P"
  unfolding yields_def efinally_def Let_def by (fastforce split: prod.splits)

lemma yields_with_row: "yields m P \<Longrightarrow> yields (with_row exprs m) P"
  unfolding with_row_def by (intro yields_finally yields_then)

lemma yields_emap: "(\<And>x. x \<in> set xs \<Longrightarrow> yields (f x) (P x)) \<Longrightarrow> yields (emap f xs) (list_all2 P xs)"
proof (induction xs)
  case (Cons x xs)
  have "yields (f x) (P x)" "yields (emap f xs) (list_all2 P xs)" using Cons by simp_all
  then show ?case by (simp del: list_all2_Cons1) (intro yields_ebind yields_eret list.rel_intros(2))
qed (simp add: yields_eret)

lemma yields_efold:
  assumes "\<And>x b. x \<in> set xs \<Longrightarrow> P b \<Longrightarrow> yields (f x b) P"
  shows "P b \<Longrightarrow> yields (efold f xs b) P"
  using assms
proof (induction xs arbitrary: b)
  case (Cons x xs)
  have "yields (f x b) P" using Cons.prems by simp
  then show ?case using Cons by (auto intro!: yields_ebind)
qed (simp add: yields_eret)

text \<open>What statements rely on of evaluation.\<close>

locale quiet_evaluator =
  fixes V :: "('n, 'd) evaluator"
  assumes quiet_eval: "quiet (ev_eval V x e sc)"
    and quiet_bool: "quiet (ev_bool V x e sc)"
    and quiet_query: "quiet (ev_query V x q par)"
begin

lemmas evaluator_intros = quiet_eval quiet_bool quiet_query quiet_intros

lemma quiet_check_row: "quiet (check_row V x t values updating)"
  unfolding check_row_def by (intro evaluator_intros) (auto intro!: evaluator_intros split: constraint_kind.split)

end

end
