(* ===== verification/Dml.thy ===== *)
theory Dml
  imports Store
begin

text \<open>
  \<open>INSERT\<close>, \<open>UPDATE\<close> and \<open>DELETE\<close> of \<open>crates/mock-oracle-core/src/session.rs\<close>. A statement first
  evaluates everything it will write, then changes the working tables row by row and logs each
  change; \<open>dml\<close> opens a transaction when there is none, enforces the foreign keys and undoes the
  statement's own changes when any of this fails.
\<close>

section \<open>INSERT\<close>

definition returning_rows ::
  "('n, 'd) evaluator \<Rightarrow> ('n, 'd) ex \<Rightarrow> ('n, 'd) returning option \<Rightarrow> rel_col list \<Rightarrow>
   ('n, 'd) value list list \<Rightarrow> ('n, 'd, ('n, 'd) value list list) ev" where
  "returning_rows V x ret cols rows =
     (case ret of
        None \<Rightarrow> eret []
      | Some r \<Rightarrow> emap (\<lambda>row. emap (\<lambda>e. ev_eval V x e (scope_row cols row None)) (ret_exprs r)) rows)"

definition target_column :: "('n, 'd) table \<Rightarrow> string \<Rightarrow> nat ora_result" where
  "target_column t n = ok_or (column_index t n) (invalid_identifier (quoted n))"

text \<open>The loop over the named columns; \<open>out\<close> are the positions found so far.\<close>

fun target_columns :: "('n, 'd) table \<Rightarrow> ora_error \<Rightarrow> string list \<Rightarrow> nat list \<Rightarrow> nat list ora_result" where
  "target_columns t twice [] out = Inr out"
| "target_columns t twice (n # ns) out =
     rbind (target_column t n) (\<lambda>i.
     if i \<in> set out then Inl (Err twice) else target_columns t twice ns (out @ [i]))"

definition insert_targets :: "('n, 'd) table \<Rightarrow> string list option \<Rightarrow> nat list ora_result" where
  "insert_targets t names =
     (case names of
        Some ns \<Rightarrow> target_columns t (ora 957 ''duplicate column name'') ns []
      | None \<Rightarrow> Inr [0..<length (tab_columns t)])"

definition insert_defaults :: "('n, 'd) table \<Rightarrow> nat list \<Rightarrow> ('n, 'd) expr list" where
  "insert_defaults t targets =
     List.map_filter (\<lambda>(i, c). if i \<in> set targets then None else col_default c)
       (zip [0..<length (tab_columns t)] (tab_columns t))"

definition insert_sources ::
  "('n, 'd) evaluator \<Rightarrow> ('n, 'd) ex \<Rightarrow> ('n, 'd) insert_source \<Rightarrow> nat \<Rightarrow> ('n, 'd, ('n, 'd) value list list) ev" where
  "insert_sources V x src n =
     (case src of
        ValuesSource exprs \<Rightarrow>
          if length exprs > n then eora 913 ''too many values''
          else if length exprs < n then eora 947 ''not enough values''
          else ebind (emap (\<lambda>e. ev_eval V x e (scope_empty None)) exprs) (\<lambda>row. eret [row])
      | QuerySource q \<Rightarrow>
          ebind (ev_query V x q None) (\<lambda>rel.
          if length (rel_cols rel) > n then eora 913 ''too many values''
          else if length (rel_cols rel) < n then eora 947 ''not enough values''
          else eret (rel_rows rel)))"

definition insert_value ::
  "('n, 'd, 'a) ext \<Rightarrow> ('n, 'd) evaluator \<Rightarrow> ('n, 'd) ex \<Rightarrow> ('n, 'd) table \<Rightarrow> ('n, 'd) table_column \<Rightarrow>
   ('n, 'd) value option \<Rightarrow> ('n, 'd, ('n, 'd) value) ev" where
  "insert_value E V x t col v =
     (let identity = ebind (estep (next_identity (tab_name t))) (\<lambda>i. eret (Number (bd_from_int E i))) in
      case v of
        Some v \<Rightarrow> if col_identity col \<and> is_null v then identity else eret v
      | None \<Rightarrow>
          if col_identity col then identity
          else (case col_default col of Some d \<Rightarrow> ev_eval V x d (scope_empty None) | None \<Rightarrow> eret Null))"

definition insert_row ::
  "('n, 'd, 'a) ext \<Rightarrow> ('n, 'd) evaluator \<Rightarrow> ('n, 'd) ex \<Rightarrow> ('n, 'd) table \<Rightarrow> nat list \<Rightarrow> ('n, 'd) value list \<Rightarrow>
   ('n, 'd, ('n, 'd) value list) ev" where
  "insert_row E V x t targets src =
     (let values = fold (\<lambda>(i, v) vs. vs[i := Some v]) (zip targets src) (replicate (length (tab_columns t)) None) in
      ebind (emap (\<lambda>(col, v).
          ebind (insert_value E V x t col v) (\<lambda>v.
          ebind (eenv id) (\<lambda>env. elift (store_value E env (env_user env) (tab_name t) col v))))
        (zip (tab_columns t) values)) (\<lambda>full.
      ebind (check_row V x t full False) (\<lambda>_. eret full)))"

text \<open>Everything before the first row is written: the rows and the \<open>RETURNING\<close> values. A \<open>VALUES\<close> list is
  one row, whose sequence values also serve the defaults; of a query every row starts anew.\<close>

definition insert_plan ::
  "('n, 'd, 'a) ext \<Rightarrow> ('n, 'd) evaluator \<Rightarrow> ('n, 'd) ex \<Rightarrow> ('n, 'd) table \<Rightarrow> ('n, 'd) insert_stmt \<Rightarrow>
   ('n, 'd, ('n, 'd) value list list \<times> ('n, 'd) value list list) ev" where
  "insert_plan E V x t ins =
     ebind (elift (insert_targets t (ins_columns ins))) (\<lambda>targets.
     let defaults = insert_defaults t targets;
         sources = insert_sources V x (ins_source ins) (length targets) in
     ebind (case ins_source ins of
              ValuesSource exprs \<Rightarrow>
                with_row (exprs @ defaults) (ebind sources (emap (insert_row E V x t targets)))
            | QuerySource _ \<Rightarrow>
                ebind sources (emap (\<lambda>src. with_row defaults (insert_row E V x t targets src)))) (\<lambda>rows.
     ebind (returning_rows V x (ins_returning ins) (table_scope_cols t (tab_name t)) rows) (\<lambda>returned.
     eret (rows, returned))))"

fun insert_rows ::
  "('n, 'd, 'a) ext \<Rightarrow> string \<Rightarrow> string \<Rightarrow> ('n, 'd) value list list \<Rightarrow> ('n, 'd) txn \<Rightarrow> ('n, 'd) database \<Rightarrow>
   unit ora_result \<times> ('n, 'd) txn \<times> ('n, 'd) database" where
  "insert_rows E user n [] txn db = (Inr (), txn, db)"
| "insert_rows E user n (values # rows) txn db =
     (let (i, db') = next_row_id db in
      case cat_table (txn_work txn) n of
        None \<Rightarrow> (Inl Panic, txn, db')
      | Some t \<Rightarrow>
          (case table_insert E t i values of
             Inl x \<Rightarrow> (map_err (unique_violation user) (Inl x), txn, db')
           | Inr t' \<Rightarrow> insert_rows E user n rows (push [InsertC n i values] (set_work n t' txn)) db'))"

type_synonym ('n, 'd) dml_result = "(nat \<times> ('n, 'd) value list list) ora_result \<times> ('n, 'd) txn \<times> ('n, 'd) est"

definition dml_insert ::
  "('n, 'd, 'a) ext \<Rightarrow> ('n, 'd) evaluator \<Rightarrow> ('n, 'd) ex \<Rightarrow> ('n, 'd) insert_stmt \<Rightarrow> ('n, 'd) txn \<Rightarrow> ('n, 'd) est \<Rightarrow>
   ('n, 'd) dml_result" where
  "dml_insert E V x ins txn s =
     (case cat_table (txn_work txn) (ins_table ins) of
        None \<Rightarrow> (Inl (Err table_not_found), txn, s)
      | Some t \<Rightarrow>
          (case insert_plan E V x t ins s of
             (Inl e, s') \<Rightarrow> (Inl e, txn, s')
           | (Inr (rows, returned), s') \<Rightarrow>
               (case insert_rows E (env_user (snd s')) (ins_table ins) rows txn (fst s') of
                  (Inl e, txn', db') \<Rightarrow> (Inl e, txn', db', snd s')
                | (Inr _, txn', db') \<Rightarrow> (Inr (length rows, returned), txn', db', snd s'))))"

section \<open>UPDATE and DELETE\<close>

fun matching_loop ::
  "('n, 'd) evaluator \<Rightarrow> ('n, 'd) ex \<Rightarrow> rel_col list \<Rightarrow> ('n, 'd) expr option \<Rightarrow>
   (nat \<times> ('n, 'd) value list) list \<Rightarrow> (nat \<times> ('n, 'd) value list) list \<Rightarrow>
   ('n, 'd, (nat \<times> ('n, 'd) value list) list) ev" where
  "matching_loop V x cols w [] out = eret out"
| "matching_loop V x cols w ((i, row) # rows) out =
     ebind (case w of
              Some e \<Rightarrow>
                ebind (ev_bool V x e (Scope cols row None (int (length out) + 1) None)) (\<lambda>b. eret (b = Some True))
            | None \<Rightarrow> eret True) (\<lambda>keep.
     matching_loop V x cols w rows (if keep then out @ [(i, row)] else out))"

definition matching_rows ::
  "('n, 'd) evaluator \<Rightarrow> ('n, 'd) ex \<Rightarrow> ('n, 'd) table \<Rightarrow> rel_col list \<Rightarrow> ('n, 'd) expr option \<Rightarrow>
   ('n, 'd, (nat \<times> ('n, 'd) value list) list) ev" where
  "matching_rows V x t cols w = matching_loop V x cols w (tab_rows t) []"

definition assign_column ::
  "('n, 'd, 'a) ext \<Rightarrow> ('n, 'd) evaluator \<Rightarrow> ('n, 'd) ex \<Rightarrow> ('n, 'd) table \<Rightarrow> rel_col list \<Rightarrow> ('n, 'd) value list \<Rightarrow>
   ('n, 'd) expr \<times> nat \<Rightarrow> ('n, 'd) value list \<Rightarrow> ('n, 'd, ('n, 'd) value list) ev" where
  "assign_column E V x t cols old = (\<lambda>(e, i) row.
     ebind (ev_eval V x e (scope_row cols old None)) (\<lambda>v.
     ebind (eenv id) (\<lambda>env.
     ebind (elift (index (tab_columns t) i)) (\<lambda>col.
     ebind (elift (store_value E env (env_user env) (tab_name t) col v)) (\<lambda>v.
     eret (row[i := v]))))))"

definition update_row ::
  "('n, 'd, 'a) ext \<Rightarrow> ('n, 'd) evaluator \<Rightarrow> ('n, 'd) ex \<Rightarrow> ('n, 'd) table \<Rightarrow> rel_col list \<Rightarrow> ('n, 'd) expr list \<Rightarrow>
   nat list \<Rightarrow> nat \<times> ('n, 'd) value list \<Rightarrow> ('n, 'd, nat \<times> ('n, 'd) value list) ev" where
  "update_row E V x t cols exprs targets = (\<lambda>(i, old).
     with_row exprs
       (ebind (efold (assign_column E V x t cols old) (zip exprs targets) old) (\<lambda>row.
        ebind (check_row V x t row True) (\<lambda>_. eret (i, row)))))"

definition update_plan ::
  "('n, 'd, 'a) ext \<Rightarrow> ('n, 'd) evaluator \<Rightarrow> ('n, 'd) ex \<Rightarrow> ('n, 'd) table \<Rightarrow> ('n, 'd) update_stmt \<Rightarrow>
   ('n, 'd, (nat \<times> ('n, 'd) value list) list \<times> (nat \<times> ('n, 'd) value list) list \<times> ('n, 'd) value list list) ev" where
  "update_plan E V x t upd =
     (let cols = table_scope_cols t (case upd_alias upd of Some a \<Rightarrow> a | None \<Rightarrow> upd_table upd);
          exprs = map snd (upd_assignments upd) in
      ebind (elift (target_columns t
        (ora 1747 ''invalid user.table.column, table.column, or column specification'')
        (map fst (upd_assignments upd)) [])) (\<lambda>targets.
      ebind (matching_rows V x t cols (upd_where upd)) (\<lambda>hits.
      ebind (emap (update_row E V x t cols exprs targets) hits) (\<lambda>changes.
      ebind (returning_rows V x (upd_returning upd) cols (map snd changes)) (\<lambda>returned.
      eret (changes, hits, returned))))))"

definition dml_update ::
  "('n, 'd, 'a) ext \<Rightarrow> ('n, 'd) evaluator \<Rightarrow> ('n, 'd) ex \<Rightarrow> ('n, 'd) update_stmt \<Rightarrow> ('n, 'd) txn \<Rightarrow> ('n, 'd) est \<Rightarrow>
   ('n, 'd) dml_result" where
  "dml_update E V x upd txn s =
     (case cat_table (txn_work txn) (upd_table upd) of
        None \<Rightarrow> (Inl (Err table_not_found), txn, s)
      | Some t \<Rightarrow>
          (case update_plan E V x t upd s of
             (Inl e, s') \<Rightarrow> (Inl e, txn, s')
           | (Inr (changes, hits, returned), s') \<Rightarrow>
               (case update_rows E (env_user (snd s')) (upd_table upd) changes (map snd hits) txn of
                  (Inl e, txn') \<Rightarrow> (Inl e, txn', s')
                | (Inr _, txn') \<Rightarrow> (Inr (length changes, returned), txn', s'))))"

definition delete_plan ::
  "('n, 'd) evaluator \<Rightarrow> ('n, 'd) ex \<Rightarrow> ('n, 'd) table \<Rightarrow> ('n, 'd) delete_stmt \<Rightarrow>
   ('n, 'd, (nat \<times> ('n, 'd) value list) list \<times> ('n, 'd) value list list) ev" where
  "delete_plan V x t del =
     (let cols = table_scope_cols t (case del_alias del of Some a \<Rightarrow> a | None \<Rightarrow> del_table del) in
      ebind (matching_rows V x t cols (del_where del)) (\<lambda>rows.
      ebind (returning_rows V x (del_returning del) cols (map snd rows)) (\<lambda>returned.
      eret (rows, returned))))"

definition dml_delete ::
  "('n, 'd, 'a) ext \<Rightarrow> ('n, 'd) evaluator \<Rightarrow> ('n, 'd) ex \<Rightarrow> ('n, 'd) delete_stmt \<Rightarrow> ('n, 'd) txn \<Rightarrow> ('n, 'd) est \<Rightarrow>
   ('n, 'd) dml_result" where
  "dml_delete E V x del txn s =
     (case cat_table (txn_work txn) (del_table del) of
        None \<Rightarrow> (Inl (Err table_not_found), txn, s)
      | Some t \<Rightarrow>
          (case delete_plan V x t del s of
             (Inl e, s') \<Rightarrow> (Inl e, txn, s')
           | (Inr (rows, returned), s') \<Rightarrow>
               (case delete_rows E (del_table del) rows txn of
                  (Inl e, txn') \<Rightarrow> (Inl e, txn', s')
                | (Inr _, txn') \<Rightarrow> (Inr (length rows, returned), txn', s'))))"

section \<open>The statement\<close>

definition open_txn :: "('n, 'd) session \<Rightarrow> ('n, 'd) database \<Rightarrow> ('n, 'd) txn" where
  "open_txn s db =
     (case ses_txn s of
        Some t \<Rightarrow> t
      | None \<Rightarrow> \<lparr>txn_base_version = cat_version (db_state db), txn_work = db_state db, txn_log = []\<rparr>)"

definition dml_changes ::
  "('n, 'd, 'a) ext \<Rightarrow> ('n, 'd) evaluator \<Rightarrow> ('n, 'd) statement \<Rightarrow> ('n, 'd) ex \<Rightarrow> ('n, 'd) txn \<Rightarrow> ('n, 'd) est \<Rightarrow>
   ('n, 'd) dml_result" where
  "dml_changes E V stmt x txn s =
     (case stmt of
        InsertS i \<Rightarrow> dml_insert E V x i txn s
      | UpdateS u \<Rightarrow> dml_update E V x u txn s
      | DeleteS d \<Rightarrow> dml_delete E V x d txn s
      | _ \<Rightarrow> (Inl Panic, txn, s))"

text \<open>\<open>and_then(|r| enforce_foreign_keys(..).map(|_| r))\<close>, then \<open>undo\<close> on an error.\<close>

definition dml_checked ::
  "('n, 'd, 'a) ext \<Rightarrow> ('n, 'd) evaluator \<Rightarrow> ('n, 'd) statement \<Rightarrow> ('n, 'd) ex \<Rightarrow> ('n, 'd) txn \<Rightarrow> ('n, 'd) est \<Rightarrow>
   ('n, 'd) dml_result" where
  "dml_checked E V stmt x txn s =
     (case dml_changes E V stmt x txn s of
        (Inl e, txn', s') \<Rightarrow> (Inl e, txn', s')
      | (Inr r, txn', s') \<Rightarrow>
          (case enforce_foreign_keys E (env_user (snd s')) (length (txn_log txn)) txn' of
             (Inl e, txn'') \<Rightarrow> (Inl e, txn'', s')
           | (Inr _, txn'') \<Rightarrow> (Inr r, txn'', s')))"

definition keep_txn :: "('n, 'd) txn \<Rightarrow> ('n, 'd) txn option" where
  "keep_txn txn = (if txn_log txn = [] then None else Some txn)"

definition dml ::
  "('n, 'd, 'a) ext \<Rightarrow> ('n, 'd) evaluator \<Rightarrow> ('n, 'd) statement \<Rightarrow> ('n, 'd) value list \<Rightarrow>
   (string option \<Rightarrow> string \<Rightarrow> ('n, 'd) value option) \<Rightarrow> ('n, 'd) session \<Rightarrow> ('n, 'd) database \<Rightarrow>
   (nat \<times> ('n, 'd) value list list) ora_result \<times> ('n, 'd) session \<times> ('n, 'd) database" where
  "dml E V stmt binds vars s db =
     (let txn = open_txn s db;
          x = \<lparr>ex_cat = txn_work txn, ex_binds = binds, ex_vars = vars\<rparr> in
      case dml_checked E V stmt x txn (db, ses_env s) of
        (r, txn', db', env') \<Rightarrow>
          (case (case r of
                   Inl (Err e) \<Rightarrow> rbind (undo E txn' (length (txn_log txn))) (\<lambda>txn''. Inr (Inl (Err e), txn''))
                 | _ \<Rightarrow> Inr (r, txn')) of
             Inl p \<Rightarrow> (Inl p, s\<lparr>ses_env := env', ses_txn := Some txn'\<rparr>, db')
           | Inr (r', txn'') \<Rightarrow> (r', s\<lparr>ses_env := env', ses_txn := keep_txn txn''\<rparr>, db')))"

end
