(* ===== verification/Dml_Correct.thy ===== *)
theory Dml_Correct
  imports Dml "HOL-Library.Sublist"
begin

text \<open>
  What DML statements do: whatever they evaluate, they change the working catalog only as the log
  says, a statement that fails leaves the transaction as it was, one that succeeds keeps
  referential integrity, and both keep the invariant of the session that \<open>commit\<close> relies on.
\<close>

section \<open>Plans\<close>

text \<open>The rows to write have as many values as the table has columns; the rows found are rows of the
  table, each at most once.\<close>

lemma length_fold_set: "length (fold (\<lambda>(i, v) vs. vs[i := Some v]) ps xs) = length xs"
  by (induction ps arbitrary: xs) auto

lemma insert_row_length: "yields (insert_row E V x t targets src) (\<lambda>row. length row = ncols t)"
proof -
  define vals where "vals = fold (\<lambda>(i, v) vs. vs[i := Some v]) (zip targets src) (replicate (length (tab_columns t)) None)"
  have "length vals = ncols t" by (simp add: vals_def length_fold_set)
  then have len: "list_all2 (\<lambda>_ _. True) (zip (tab_columns t) vals) full \<Longrightarrow> length full = ncols t" for full
    by (simp add: list_all2_lengthD [symmetric])
  show ?thesis
    unfolding insert_row_def Let_def vals_def [symmetric]
    by (rule yields_ebind [OF yields_emap [OF yields_any]], rule yields_then, rule yields_eret, erule len)
qed

lemma insert_plan_rows: "yields (insert_plan E V x t ins) (\<lambda>(rows, _). \<forall>r \<in> set rows. length r = ncols t)"
proof -
  have all: "yields (emap f srcs) (\<lambda>rows. \<forall>r \<in> set rows. length r = ncols t)"
    if "\<And>src. yields (f src) (\<lambda>row. length row = ncols t)" for f :: "('n, 'd) value list \<Rightarrow> _" and srcs
  proof (rule yields_weaken)
    show "yields (emap f srcs) (list_all2 (\<lambda>_ row. length row = ncols t) srcs)" by (intro yields_emap that)
    show "\<forall>r \<in> set rows. length r = ncols t" if "list_all2 (\<lambda>_ row. length row = ncols t) srcs rows" for rows
      using that by (induction rule: list_all2_induct) auto
  qed
  have rows: "yields (case ins_source ins of
      ValuesSource exprs \<Rightarrow> with_row (exprs @ d) (ebind sources (emap (insert_row E V x t targets)))
    | QuerySource _ \<Rightarrow> ebind sources (emap (\<lambda>src. with_row d (insert_row E V x t targets src))))
    (\<lambda>rows. \<forall>r \<in> set rows. length r = ncols t)" for d sources targets
    by (auto intro!: yields_with_row yields_then all insert_row_length split: insert_source.split)
  show ?thesis
    unfolding insert_plan_def Let_def
    by (rule yields_then, rule yields_ebind [OF rows], rule yields_then, rule yields_eret, simp)
qed

lemma matching_loop_rows:
  "yields (matching_loop V x cols w rows out) (\<lambda>hits. \<exists>found. hits = out @ found \<and> subseq found rows)"
proof (induction rows arbitrary: out)
  case Nil
  then show ?case by (simp add: yields_eret)
next
  case (Cons p rows)
  obtain i row where p: "p = (i, row)" by (cases p)
  show ?case
    unfolding p matching_loop.simps
  proof (rule yields_then)
    fix keep
    show "yields (matching_loop V x cols w rows (if keep then out @ [(i, row)] else out))
        (\<lambda>hits. \<exists>found. hits = out @ found \<and> subseq found ((i, row) # rows))"
      by (rule yields_weaken [OF Cons.IH]) (auto split: if_splits)
  qed
qed

lemma matching_rows_subseq: "yields (matching_rows V x t cols w) (\<lambda>hits. subseq hits (tab_rows t))"
  unfolding matching_rows_def by (rule yields_weaken [OF matching_loop_rows]) simp

lemma subseq_subset: "subseq xs ys \<Longrightarrow> set xs \<subseteq> set ys"
  using set_nths_subset by (fastforce simp: subseq_conv_nths)

lemma subseq_rows:
  assumes "subseq hits (tab_rows t)" and "table_ok E t"
  shows "distinct (map fst hits)" and "\<forall>(i, r) \<in> set hits. map_of (tab_rows t) i = Some r \<and> length r = ncols t"
proof -
  have ok: "bt_ok (tab_rows t)" using table_okD(1) [OF assms(2)] .
  have "subseq (map fst hits) (map fst (tab_rows t))" using assms(1) by (rule subseq_map)
  then show "distinct (map fst hits)" using bt_ok_distinct [OF ok] subseq_conv_nths distinct_nthsI by metis
  have "set hits \<subseteq> set (tab_rows t)" using assms(1) by (rule subseq_subset)
  then show "\<forall>(i, r) \<in> set hits. map_of (tab_rows t) i = Some r \<and> length r = ncols t"
    using bt_get_iff [OF ok] table_okD(2) [OF assms(2)] by blast
qed

lemma update_row_length:
  assumes "length old = ncols t"
  shows "yields (update_row E V x t cols exprs targets (i, old)) (\<lambda>(j, row). j = i \<and> length row = ncols t)"
proof -
  have "yields (assign_column E V x t cols old ei row) (\<lambda>row. length row = ncols t)" if "length row = ncols t" for ei row
    using that unfolding assign_column_def by (cases ei) (auto intro!: yields_then yields_eret)
  then have "yields (efold (assign_column E V x t cols old) (zip exprs targets) old) (\<lambda>row. length row = ncols t)"
    using assms by (intro yields_efold)
  then show ?thesis
    unfolding update_row_def prod.case by (intro yields_with_row yields_ebind [of _ "\<lambda>row. length row = ncols t"] yields_then yields_eret) simp_all
qed

definition update_pairs ::
  "(nat \<times> ('n, 'd) value list) list \<Rightarrow> (nat \<times> ('n, 'd) value list) list \<Rightarrow> (nat \<times> ('n, 'd) value list \<times> ('n, 'd) value list) list" where
  "update_pairs changes hits = map (\<lambda>((i, r), (_, old)). (i, r, old)) (zip changes hits)"

lemma update_plan_rows:
  assumes "table_ok E t"
  shows "yields (update_plan E V x t upd) (\<lambda>(changes, hits, _). subseq hits (tab_rows t) \<and>
    list_all2 (\<lambda>(i, old) (j, row). j = i \<and> length row = ncols t) hits changes)"
proof -
  have step: "yields (emap (update_row E V x t cols exprs targets) hits)
      (list_all2 (\<lambda>(i, old) (j, row). j = i \<and> length row = ncols t) hits)"
    if "subseq hits (tab_rows t)" for cols exprs targets hits
  proof (rule yields_emap)
    fix h assume h: "h \<in> set hits"
    obtain i old where "h = (i, old)" by (cases h)
    then show "yields (update_row E V x t cols exprs targets h) ((\<lambda>(i, old) (j, row). j = i \<and> length row = ncols t) h)"
      using subseq_rows(2) [OF that assms] h update_row_length [of old t E V x cols exprs targets i] by fastforce
  qed
  show ?thesis
    unfolding update_plan_def Let_def
    by (rule yields_then, rule yields_ebind [OF matching_rows_subseq], rule yields_ebind [OF step], assumption,
        rule yields_then, rule yields_eret, simp)
qed

section \<open>Changes of a statement\<close>

definition fresh_ids :: "('n, 'd) database \<Rightarrow> ('n, 'd) catalog \<Rightarrow> bool" where
  "fresh_ids db cat \<longleftrightarrow> (\<forall>n i r. row_of cat n i = Some r \<longrightarrow> i < db_next_row_id db)"

lemma insert_rows_extends:
  assumes "cat_ok E (txn_work txn)" and "cat_table (txn_work txn) n = Some t" and "\<forall>r \<in> set rows. length r = ncols t"
    and "\<forall>i r. map_of (tab_rows t) i = Some r \<longrightarrow> i < db_next_row_id db"
  shows "\<exists>cs x txn' db'. insert_rows E user n rows txn db = (x, txn', db') \<and> (x = Inr () \<or> (\<exists>e. x = Inl (Err e))) \<and>
    extends E txn cs txn' \<and> (\<forall>c \<in> set cs. \<exists>i r. c = InsertC n i r \<and> i < db_next_row_id db') \<and>
    db_state db' = db_state db \<and> db_next_row_id db \<le> db_next_row_id db'"
  using assms
proof (induction rows arbitrary: txn t db)
  case Nil
  then show ?case by (intro exI [of _ "[]"]) simp
next
  case (Cons r rows)
  note t_ok = cat_okD [OF Cons.prems(1,2)]
  let ?i = "db_next_row_id db" and ?db = "db\<lparr>db_next_row_id := db_next_row_id db + 1\<rparr>"
  have fresh: "map_of (tab_rows t) ?i = None" using Cons.prems(4) by (metis less_irrefl not_None_eq)
  have len: "length r = ncols t" using Cons.prems(3) by simp
  note closed = table_insert_closed [of t r E ?i, OF _ len]
  show ?case
  proof (cases "table_insert E t ?i r")
    case (Inl f)
    then obtain c where "f = Err c" using closed table_okD(3) [OF t_ok] by (auto split: option.splits)
    then show ?thesis using Inl Cons.prems(2) by (intro exI [of _ "[]"]) (simp add: next_row_id_def)
  next
    case (Inr t')
    let ?txn = "push [InsertC n ?i r] (set_work n t' txn)"
    note ins = wrote_ins_ok [OF t_ok fresh len Inr]
    have ext: "extends E txn [InsertC n ?i r] ?txn"
      by (rule extends_wrote, rule wrote.ins [OF Cons.prems(2) fresh len Inr])
    have ok: "cat_ok E (txn_work ?txn)" using extends_ok [OF ext Cons.prems(1)] .
    have t': "cat_table (txn_work ?txn) n = Some t'" by (simp add: push_def set_work_def)
    have "\<forall>i r. map_of (tab_rows t') i = Some r \<longrightarrow> i < db_next_row_id ?db"
      using Cons.prems(4) ins(1) by (auto simp: put_row_def less_Suc_eq split: if_splits)
    then obtain cs x txn' db' where rest: "insert_rows E user n rows ?txn ?db = (x, txn', db')"
      "x = Inr () \<or> (\<exists>e. x = Inl (Err e))" "extends E ?txn cs txn'"
      "\<forall>c \<in> set cs. \<exists>i r. c = InsertC n i r \<and> i < db_next_row_id db'"
      "db_state db' = db_state ?db" "db_next_row_id ?db \<le> db_next_row_id db'"
      using Cons.IH [OF ok t', of ?db] Cons.prems(3) ins(1) by (auto simp: put_row_def)
    then show ?thesis
      using Inr Cons.prems(2) extends_trans [OF ext rest(3)]
      by (intro exI [of _ "InsertC n ?i r # cs"] exI [of _ x] exI [of _ txn'] exI [of _ db']) (simp add: next_row_id_def)
  qed
qed

lemma runs_distinct_skip:
  "\<forall>c \<in> set ds. \<forall>n. \<not> is_update_of n c \<Longrightarrow> runs_distinct (ds @ cs) = runs_distinct cs"
proof (induction ds)
  case (Cons d ds)
  then show ?case by (cases d) auto
qed simp

lemma runs_distinct_batch:
  "distinct (map fst chs) \<Longrightarrow> runs_distinct (map (\<lambda>(i, r, old). UpdateC n i r old) chs)"
proof (induction chs)
  case (Cons ch chs)
  have "ch_id ` set (takeWhile P (map (\<lambda>(i, r, old). UpdateC n i r old) chs)) \<subseteq> fst ` set chs" for P
    by (force dest: set_takeWhileD)
  then show ?case using Cons by (cases ch) auto
qed simp

lemma table_update_Nil: "table_update E t [] = (Inr (t, None) :: ('e, _) rust)"
proof -
  have "find_conflict E [] cs = (Inr None :: ('e, _) rust)" for cs
    by (induction cs) (auto split: constraint_kind.split)
  then show ?thesis by (simp add: table_update_def)
qed

text \<open>What a statement does before the foreign keys are looked at.\<close>

definition stmt_ok ::
  "('n, 'd, 'a) ext \<Rightarrow> ('n, 'd) txn \<Rightarrow> ('n, 'd) est \<Rightarrow> ('n, 'd) dml_result \<Rightarrow> bool" where
  "stmt_ok E txn s = (\<lambda>(x, txn', s').
     \<exists>cs. extends E txn cs txn' \<and> runs_distinct (rev cs) \<and> quiet_step s s' \<and>
       (\<forall>n i r. InsertC n i r \<in> set cs \<longrightarrow> i < db_next_row_id (fst s')))"

lemma stmt_ok_none: "quiet_step s s' \<Longrightarrow> stmt_ok E txn s (x, txn, s')"
  by (auto simp: stmt_ok_def intro!: exI [of _ "[]"])

context quiet_evaluator
begin

lemma quiet_returning_rows: "quiet (returning_rows V x ret cols rows)"
  unfolding returning_rows_def by (intro evaluator_intros)

lemma quiet_insert_row: "quiet (insert_row E V x t targets src)"
  unfolding insert_row_def insert_value_def by (intro evaluator_intros quiet_check_row)

lemma quiet_insert_plan: "quiet (insert_plan E V x t ins)"
proof -
  have "quiet (insert_sources V x src n)" for src n
    unfolding insert_sources_def by (auto split: insert_source.split intro!: evaluator_intros)
  then show ?thesis
    unfolding insert_plan_def
    by (intro evaluator_intros quiet_returning_rows)
      (auto split: insert_source.split intro!: evaluator_intros quiet_insert_row)
qed

lemma quiet_matching_rows: "quiet (matching_rows V x t cols w)"
proof -
  have "quiet (matching_loop V x cols w rows out)" for rows out
  proof (induction rows arbitrary: out)
    case (Cons p rows)
    then show ?case by (cases p) (auto intro!: evaluator_intros)
  qed (simp add: quiet_intros)
  then show ?thesis by (simp add: matching_rows_def)
qed

lemma quiet_assign_column: "quiet (assign_column E V x t cols old ei row)"
  unfolding assign_column_def by (cases ei) (simp, intro evaluator_intros)

lemma quiet_update_plan: "quiet (update_plan E V x t upd)"
  unfolding update_plan_def update_row_def
  by (intro evaluator_intros quiet_returning_rows quiet_matching_rows quiet_check_row quiet_assign_column)

lemma quiet_delete_plan: "quiet (delete_plan V x t del)"
  unfolding delete_plan_def by (intro evaluator_intros quiet_returning_rows quiet_matching_rows)

lemma dml_insert_ok:
  assumes ok: "cat_ok E (txn_work txn)" and fresh: "fresh_ids (fst s) (txn_work txn)"
  shows "stmt_ok E txn s (dml_insert E V x ins txn s)"
proof (cases "cat_table (txn_work txn) (ins_table ins)")
  case None
  then show ?thesis by (simp add: dml_insert_def stmt_ok_none)
next
  case (Some t)
  obtain p s1 where plan: "insert_plan E V x t ins s = (p, s1)" by (cases "insert_plan E V x t ins s")
  have q: "quiet_step s s1" using quietD [OF quiet_insert_plan plan] .
  show ?thesis
  proof (cases p)
    case (Inl e)
    then show ?thesis using Some plan q by (simp add: dml_insert_def stmt_ok_none)
  next
    case (Inr rr)
    obtain rows ret where rr: "rr = (rows, ret)" by (cases rr)
    have rows: "\<forall>r \<in> set rows. length r = ncols t"
      using yieldsD [OF insert_plan_rows plan [unfolded Inr rr]] by simp
    have ids: "\<forall>i r. map_of (tab_rows t) i = Some r \<longrightarrow> i < db_next_row_id (fst s1)"
    proof (intro allI impI)
      fix i r assume "map_of (tab_rows t) i = Some r"
      then have "row_of (txn_work txn) (ins_table ins) i = Some r" using Some by (simp add: row_of_def)
      then have "i < db_next_row_id (fst s)" using fresh unfolding fresh_ids_def by blast
      then show "i < db_next_row_id (fst s1)" using q by (simp add: quiet_step_def)
    qed
    obtain cs y txn' db' where ins: "insert_rows E (env_user (snd s1)) (ins_table ins) rows txn (fst s1) = (y, txn', db')"
        "extends E txn cs txn'" "\<forall>c \<in> set cs. \<exists>i r. c = InsertC (ins_table ins) i r \<and> i < db_next_row_id db'"
        "db_state db' = db_state (fst s1)" "db_next_row_id (fst s1) \<le> db_next_row_id db'"
      using insert_rows_extends [OF ok Some rows ids, of "env_user (snd s1)"] by blast
    have "quiet_step s (db', snd s1)" using q ins(4,5) by (simp add: quiet_step_def)
    moreover have "runs_distinct (rev cs)" using runs_distinct_skip [of "rev cs" "[]"] ins(3) by fastforce
    ultimately show ?thesis
      using ins Some plan Inr rr by (cases y) (fastforce simp: dml_insert_def stmt_ok_def)+
  qed
qed

lemma dml_update_ok:
  assumes ok: "cat_ok E (txn_work txn)"
  shows "stmt_ok E txn s (dml_update E V x upd txn s)"
proof (cases "cat_table (txn_work txn) (upd_table upd)")
  case None
  then show ?thesis by (simp add: dml_update_def stmt_ok_none)
next
  case (Some t)
  obtain p s1 where plan: "update_plan E V x t upd s = (p, s1)" by (cases "update_plan E V x t upd s")
  have q: "quiet_step s s1" using quietD [OF quiet_update_plan plan] .
  note t_ok = cat_okD [OF ok Some]
  show ?thesis
  proof (cases p)
    case (Inl e)
    then show ?thesis using Some plan q by (simp add: dml_update_def stmt_ok_none)
  next
    case (Inr rr)
    obtain changes hits ret where rr: "rr = (changes, hits, ret)" by (cases rr)
    have hits: "subseq hits (tab_rows t)" and ch: "list_all2 (\<lambda>(i, old) (j, row). j = i \<and> length row = ncols t) hits changes"
      using yieldsD [OF update_plan_rows [OF t_ok] plan [unfolded Inr rr]] by simp_all
    note rows = subseq_rows [OF hits t_ok]
    define chs where "chs = update_pairs changes hits"
    have chs: "changes = map (\<lambda>(i, r, old). (i, r)) chs" "map snd hits = map (\<lambda>(i, r, old). old) chs"
        "map fst chs = map fst hits" "\<forall>(i, r, old) \<in> set chs. (i, old) \<in> set hits \<and> length r = ncols t"
      using ch unfolding chs_def update_pairs_def by (induction rule: list_all2_induct) auto
    have "stmt_ok E txn s (case update_rows E (env_user (snd s1)) (upd_table upd) changes (map snd hits) txn of
        (Inl e, txn') \<Rightarrow> (Inl e, txn', s1) | (Inr _, txn') \<Rightarrow> (Inr (length changes, ret), txn', s1))"
    proof (cases "chs = []")
      case True
      have "table_update E t [] = (Inr (t, None) :: (ora_error, _) rust)"
        by (rule table_update_Nil)
      then show ?thesis
        using True chs Some q by (simp add: update_rows_def push_def set_work_def set_table_same [OF ok Some] stmt_ok_none)
    next
      case False
      let ?cs = "map (\<lambda>(i, r, old). UpdateC (upd_table upd) i r old) chs"
      have "\<forall>(i, r, old) \<in> set chs. map_of (tab_rows t) i = Some old \<and> length r = ncols t"
        using chs(4) rows(2) by fastforce
      from update_rows_extends [OF ok Some False _ this chs(1,2), of "env_user (snd s1)"]
      have "(\<exists>txn'. update_rows E (env_user (snd s1)) (upd_table upd) changes (map snd hits) txn = (Inr (), txn') \<and> extends E txn ?cs txn') \<or>
          (\<exists>con. update_rows E (env_user (snd s1)) (upd_table upd) changes (map snd hits) txn = (Inl (Err (unique_violation (env_user (snd s1)) con)), txn))"
        using chs(3) rows(1) by simp
      moreover have "runs_distinct (rev ?cs)"
        using runs_distinct_batch [of "rev chs" "upd_table upd"] chs(3) rows(1) by (simp flip: rev_map)
      ultimately consider txn' where
          "update_rows E (env_user (snd s1)) (upd_table upd) changes (map snd hits) txn = (Inr (), txn')"
          "stmt_ok E txn s (Inr (length changes, ret), txn', s1)"
        | e where "update_rows E (env_user (snd s1)) (upd_table upd) changes (map snd hits) txn = (Inl e, txn)"
        using q by (fastforce simp: stmt_ok_def)
      then show ?thesis using stmt_ok_none [OF q] by cases simp_all
    qed
    then show ?thesis using Some plan Inr rr by (simp add: dml_update_def)
  qed
qed

lemma dml_delete_ok:
  assumes ok: "cat_ok E (txn_work txn)"
  shows "stmt_ok E txn s (dml_delete E V x del txn s)"
proof (cases "cat_table (txn_work txn) (del_table del)")
  case None
  then show ?thesis by (simp add: dml_delete_def stmt_ok_none)
next
  case (Some t)
  obtain p s1 where plan: "delete_plan V x t del s = (p, s1)" by (cases "delete_plan V x t del s")
  have q: "quiet_step s s1" using quietD [OF quiet_delete_plan plan] .
  have "yields (delete_plan V x t del) (\<lambda>(rows, _). subseq rows (tab_rows t))"
    unfolding delete_plan_def Let_def
    by (rule yields_ebind [OF matching_rows_subseq], rule yields_then, rule yields_eret) simp
  note sub = yieldsD [OF this]
  show ?thesis
  proof (cases p)
    case (Inl e)
    then show ?thesis using Some plan q by (simp add: dml_delete_def stmt_ok_none)
  next
    case (Inr rr)
    obtain rows ret where rr: "rr = (rows, ret)" by (cases rr)
    have hits: "subseq rows (tab_rows t)" using sub [OF plan [unfolded Inr rr]] by simp
    let ?cs = "map (\<lambda>(i, r). DeleteC (del_table del) i r) rows"
    have "\<forall>(i, r) \<in> set rows. map_of (tab_rows t) i = Some r"
      using subseq_rows(2) [OF hits cat_okD [OF ok Some]] by blast
    from delete_rows_extends [OF ok Some subseq_rows(1) [OF hits cat_okD [OF ok Some]] this]
    obtain txn' where "delete_rows E (del_table del) rows txn = (Inr (), txn')" "extends E txn ?cs txn'" by blast
    moreover have "runs_distinct (rev ?cs)" using runs_distinct_skip [of "rev ?cs" "[]"] by fastforce
    ultimately show ?thesis using Some plan Inr rr q by (fastforce simp: dml_delete_def stmt_ok_def)
  qed
qed

lemma dml_changes_ok:
  assumes "cat_ok E (txn_work txn)" and "fresh_ids (fst s) (txn_work txn)"
  shows "stmt_ok E txn s (dml_changes E V stmt x txn s)"
  using assms by (cases stmt) (simp_all add: dml_changes_def stmt_ok_none dml_insert_ok dml_update_ok dml_delete_ok)

end

section \<open>Statements that fail and statements that succeed\<close>

lemma deletes_no_update: "\<forall>c \<in> set ds. written c = None \<Longrightarrow> \<forall>c \<in> set ds. \<forall>n. \<not> is_update_of n c"
proof
  fix c assume "\<forall>c \<in> set ds. written c = None" "c \<in> set ds"
  then show "\<forall>n. \<not> is_update_of n c" by (cases c) auto
qed

lemma enforce_log:
  assumes "cat_ok E (txn_work txn)" and "\<forall>f \<in> set (enabled_fks (txn_work txn)). fk_fits (txn_work txn) f"
    and "\<forall>c \<in> set (drop k (txn_log txn)). sized (txn_work txn) c"
    and run: "enforce_foreign_keys E user k txn = (x, txn')"
  obtains ds where "extends E txn ds txn'"
    and "\<forall>f \<in> set (enabled_fks (txn_work txn)). fk_on_delete f \<noteq> SetNull \<Longrightarrow> \<forall>c \<in> set ds. written c = None"
    and "\<forall>n i. row_of (txn_work txn') n i \<noteq> None \<longrightarrow> row_of (txn_work txn) n i \<noteq> None"
proof -
  obtain y txn1 where rounds: "rounds_ok E (enabled_fks (txn_work txn)) (drop k (txn_log txn)) txn (y, txn1)"
    and eq: "enforce_foreign_keys E user k txn =
      (case y of
         Inl z \<Rightarrow> (Inl z, txn1)
       | Inr _ \<Rightarrow> (each (check_touched E user (enabled_fks (txn_work txn)) (txn_work txn1)) (drop k (txn_log txn1)), txn1))"
    using enforce_rounds [OF assms(1-3), of user] by blast
  have "txn1 = txn'" using eq run by (cases y) simp_all
  then show thesis using rounds that unfolding rounds_ok_def by auto
qed

text \<open>The whole statement, before an error is undone.\<close>

definition fks_fit :: "('n, 'd) catalog \<Rightarrow> bool" where
  "fks_fit cat \<longleftrightarrow> (\<forall>f \<in> set (enabled_fks cat). fk_fits cat f)"

lemma fks_fit_frames:
  assumes "cat_ok E a" and "same_frames a b" and "cat_ok E b" and "fks_fit a"
  shows "fks_fit b"
  using foreign_keys_frames [OF assms(1-3)] fits_frames [OF assms(2)] assms(4) by (auto simp: fks_fit_def)

lemma fresh_logged:
  assumes lg: "logged E cat cs cat'" and ok: "cat_ok E cat" and fresh: "fresh_ids db cat"
    and ins: "\<forall>n i r. InsertC n i r \<in> set cs \<longrightarrow> i < db_next_row_id db'" and le: "db_next_row_id db \<le> db_next_row_id db'"
  shows "fresh_ids db' cat'"
  unfolding fresh_ids_def
proof (intro allI impI)
  fix n i r assume r: "row_of cat' n i = Some r"
  have "i < db_next_row_id db'" if "fold (change_row n i) cs x = Some r" "x \<noteq> None \<longrightarrow> i < db_next_row_id db'"
      "\<forall>n i r. InsertC n i r \<in> set cs \<longrightarrow> i < db_next_row_id db'" for x cs
    using that
  proof (induction cs arbitrary: x)
    case (Cons c cs)
    have "change_row n i c x \<noteq> None \<longrightarrow> i < db_next_row_id db'"
      using Cons.prems(2,3) by (cases c) (auto split: if_splits)
    moreover have "\<forall>n i r. InsertC n i r \<in> set cs \<longrightarrow> i < db_next_row_id db'" using Cons.prems(3) by simp
    ultimately show ?case using Cons.IH [of "change_row n i c x"] Cons.prems(1) by simp
  qed simp
  moreover have "row_of cat n i \<noteq> None \<longrightarrow> i < db_next_row_id db'"
    using fresh le unfolding fresh_ids_def by fastforce
  ultimately show "i < db_next_row_id db'" using logged_rows [OF lg ok] r ins by metis
qed

context quiet_evaluator
begin

lemma dml_checked_ok:
  assumes ok: "cat_ok E (txn_work txn)" and fresh: "fresh_ids (fst s) (txn_work txn)" and fit: "fks_fit (txn_work txn)"
    and run: "dml_checked E V stmt x txn s = (y, txn', s')"
  obtains cs where "extends E txn cs txn'" and "quiet_step s s'" and "fresh_ids (fst s') (txn_work txn')"
    and "\<forall>f \<in> set (enabled_fks (txn_work txn)). fk_on_delete f \<noteq> SetNull \<Longrightarrow> runs_distinct (rev cs)"
proof -
  obtain y1 txn1 s1 where ch: "dml_changes E V stmt x txn s = (y1, txn1, s1)" by (cases "dml_changes E V stmt x txn s")
  obtain cs where cs: "extends E txn cs txn1" "runs_distinct (rev cs)" "quiet_step s s1"
      "\<forall>n i r. InsertC n i r \<in> set cs \<longrightarrow> i < db_next_row_id (fst s1)"
    using dml_changes_ok [OF ok fresh, of stmt x] unfolding ch stmt_ok_def by auto
  have lg: "logged E (txn_work txn) cs (txn_work txn1)" "txn_log txn1 = txn_log txn @ cs" using cs(1) by (simp_all add: extends_def)
  note ok1 = logged_ok [OF lg(1) ok]
  have fr: "same_frames (txn_work txn) (txn_work txn1)" using logged_rows [OF lg(1) ok] by blast
  have fit1: "fks_fit (txn_work txn1)" using fks_fit_frames [OF ok fr ok1 fit] .
  have fresh1: "fresh_ids (fst s1) (txn_work txn1)"
    using fresh_logged [OF lg(1) ok fresh cs(4)] cs(3) by (simp add: quiet_step_def)
  show thesis
  proof (cases y1)
    case (Inl e)
    then have "txn1 = txn'" "s1 = s'" using ch run by (simp_all add: dml_checked_def)
    then show thesis using that cs fresh1 by blast
  next
    case (Inr n)
    obtain z where en: "enforce_foreign_keys E (env_user (snd s1)) (length (txn_log txn)) txn1 = (z, txn')" and s': "s' = s1"
      using run ch Inr by (auto simp: dml_checked_def split: prod.splits sum.splits)
    have sized: "\<forall>c \<in> set (drop (length (txn_log txn)) (txn_log txn1)). sized (txn_work txn1) c"
      using logged_sized [OF lg(1) ok] lg(2) by simp
    obtain ds where ds: "extends E txn1 ds txn'"
        "\<forall>f \<in> set (enabled_fks (txn_work txn1)). fk_on_delete f \<noteq> SetNull \<Longrightarrow> \<forall>c \<in> set ds. written c = None"
        "\<forall>n i. row_of (txn_work txn') n i \<noteq> None \<longrightarrow> row_of (txn_work txn1) n i \<noteq> None"
      using enforce_log [OF ok1 _ sized en] fit1 unfolding fks_fit_def by blast
    have "runs_distinct (rev (cs @ ds))" if "\<forall>f \<in> set (enabled_fks (txn_work txn)). fk_on_delete f \<noteq> SetNull"
    proof -
      have "\<forall>f \<in> set (enabled_fks (txn_work txn1)). fk_on_delete f \<noteq> SetNull"
        using that foreign_keys_frames [OF ok fr ok1] by auto
      then show ?thesis using ds(2) cs(2) runs_distinct_skip [of "rev ds" "rev cs"] deletes_no_update [of ds] by simp
    qed
    moreover have "fresh_ids (fst s') (txn_work txn')" using fresh1 ds(3) s' unfolding fresh_ids_def by blast
    ultimately show thesis using that [OF extends_trans [OF cs(1) ds(1)]] cs(3) s' by blast
  qed
qed

end

section \<open>Properties\<close>

text \<open>What a session and the database keep from statement to statement: both catalogs are sound, no id is
  handed out twice, a transaction has changes, and as long as nobody else commits its log tells how
  its catalog came from the committed one.\<close>

definition session_ok :: "('n, 'd, 'a) ext \<Rightarrow> ('n, 'd) session \<Rightarrow> ('n, 'd) database \<Rightarrow> bool" where
  "session_ok E s db \<longleftrightarrow> cat_ok E (db_state db) \<and> cat_ok E (ses_catalog s db) \<and> fresh_ids db (ses_catalog s db) \<and>
     (case ses_txn s of
        None \<Rightarrow> True
      | Some t \<Rightarrow> txn_log t \<noteq> [] \<and>
          (cat_version (db_state db) = txn_base_version t \<longrightarrow> logged E (db_state db) (txn_log t) (txn_work t)))"

lemma open_txn_work: "txn_work (open_txn s db) = ses_catalog s db"
  by (simp add: open_txn_def ses_catalog_def split: option.split)

lemma open_txn_logged:
  "session_ok E s db \<Longrightarrow> cat_version (db_state db) = txn_base_version (open_txn s db) \<Longrightarrow>
   logged E (db_state db) (txn_log (open_txn s db)) (txn_work (open_txn s db))"
  by (auto simp: session_ok_def open_txn_def intro: logged.start split: option.splits)

lemma keep_open_txn: "session_ok E s db \<Longrightarrow> keep_txn (open_txn s db) = ses_txn s"
  by (auto simp: session_ok_def open_txn_def keep_txn_def split: option.splits)

lemma undo_back:
  assumes "extends E txn cs txn'" and "cat_ok E (txn_work txn)" and "runs_distinct (rev cs)"
  shows "undo E txn' (length (txn_log txn)) = (Inr txn :: (ora_error, _) rust)"
proof -
  have lg: "txn_log txn' = txn_log txn @ cs" "txn_base_version txn' = txn_base_version txn"
    "logged E (txn_work txn) cs (txn_work txn')" using assms(1) by (simp_all add: extends_def)
  show ?thesis using undo_logged [OF lg(3) assms(2,3)] lg(1,2) by (simp add: undo_def undoes_def)
qed

abbreviation dml_ex ::
  "('n, 'd) value list \<Rightarrow> (string option \<Rightarrow> string \<Rightarrow> ('n, 'd) value option) \<Rightarrow> ('n, 'd) session \<Rightarrow>
   ('n, 'd) database \<Rightarrow> ('n, 'd) ex" where
  "dml_ex binds vars s db \<equiv> \<lparr>ex_cat = ses_catalog s db, ex_binds = binds, ex_vars = vars\<rparr>"

lemma dml_checked_run:
  assumes V: "quiet_evaluator V" and ok: "session_ok E s db" and fit: "fks_fit (ses_catalog s db)"
    and run: "dml_checked E V stmt (dml_ex binds vars s db) (open_txn s db) (db, ses_env s) = (r, txn', db', env')"
  obtains cs where "extends E (open_txn s db) cs txn'" and "db_state db' = db_state db"
    and "db_next_row_id db \<le> db_next_row_id db'" and "fresh_ids db' (txn_work txn')"
    and "\<forall>f \<in> set (enabled_fks (ses_catalog s db)). fk_on_delete f \<noteq> SetNull \<Longrightarrow> runs_distinct (rev cs)"
proof -
  have "cat_ok E (txn_work (open_txn s db))" "fresh_ids (fst (db, ses_env s)) (txn_work (open_txn s db))"
      "fks_fit (txn_work (open_txn s db))"
    using ok fit by (simp_all add: open_txn_work session_ok_def)
  from quiet_evaluator.dml_checked_ok [OF V this run] show thesis
    using that by (auto simp: quiet_step_def open_txn_work)
qed

lemma dml_error:
  assumes V: "quiet_evaluator V" and ok: "session_ok E s db" and fit: "fks_fit (ses_catalog s db)"
    and no_null: "\<forall>f \<in> set (enabled_fks (ses_catalog s db)). fk_on_delete f \<noteq> SetNull"
    and run: "dml E V stmt binds vars s db = (Inl (Err e), s', db')"
  shows "\<exists>env'. s' = s\<lparr>ses_env := env'\<rparr> \<and> db_state db' = db_state db \<and> db_next_row_id db \<le> db_next_row_id db'"
proof -
  obtain r txn' db1 env' where ch: "dml_checked E V stmt (dml_ex binds vars s db) (open_txn s db) (db, ses_env s) = (r, txn', db1, env')"
    by (cases "dml_checked E V stmt (dml_ex binds vars s db) (open_txn s db) (db, ses_env s)")
  obtain cs where cs: "extends E (open_txn s db) cs txn'" "db_state db1 = db_state db" "db_next_row_id db \<le> db_next_row_id db1"
      "runs_distinct (rev cs)"
    using dml_checked_run [OF V ok fit ch] no_null by metis
  have undone: "undo E txn' (length (txn_log (open_txn s db))) = (Inr (open_txn s db) :: (ora_error, _) rust)"
    using undo_back [OF cs(1) _ cs(4)] ok by (simp add: open_txn_work session_ok_def)
  obtain e' where "r = Inl (Err e')"
    using run ch by (auto simp: dml_def open_txn_work Let_def split: sum.splits fail.splits)
  then have "s' = s\<lparr>ses_env := env', ses_txn := keep_txn (open_txn s db)\<rparr>" "db' = db1"
    using run ch undone by (auto simp: dml_def open_txn_work Let_def)
  then show ?thesis using cs keep_open_txn [OF ok] by (intro exI [of _ env']) simp
qed

lemma dml_success:
  assumes "dml E V stmt binds vars s db = (Inr n, s', db')"
  obtains txn' env' where
    "dml_checked E V stmt (dml_ex binds vars s db) (open_txn s db) (db, ses_env s) = (Inr n, txn', db', env')"
    and "s' = s\<lparr>ses_env := env', ses_txn := keep_txn txn'\<rparr>"
proof -
  obtain r txn' db1 env' where ch: "dml_checked E V stmt (dml_ex binds vars s db) (open_txn s db) (db, ses_env s) = (r, txn', db1, env')"
    by (cases "dml_checked E V stmt (dml_ex binds vars s db) (open_txn s db) (db, ses_env s)")
  then have "r = Inr n" "db1 = db'" "s' = s\<lparr>ses_env := env', ses_txn := keep_txn txn'\<rparr>"
    using assms by (auto simp: dml_def open_txn_work Let_def rbind_eq_Inr split: sum.splits fail.splits)
  then show thesis using that ch by blast
qed

text \<open>Every DML statement, successful or not, keeps the invariant of the session: the working catalog's
  indexes are those of its rows, row ids stay unique, and the log records how the working catalog
  came about, which is what undo and commit rely on.\<close>

lemma dml_keeps:
  assumes V: "quiet_evaluator V" and ok: "session_ok E s db" and fit: "fks_fit (ses_catalog s db)"
    and no_null: "\<forall>f \<in> set (enabled_fks (ses_catalog s db)). fk_on_delete f \<noteq> SetNull"
    and run: "dml E V stmt binds vars s db = (r, s', db')" and r: "r \<noteq> Inl Panic" "r \<noteq> Inl Diverges"
  shows "session_ok E s' db'"
proof (cases r)
  case (Inl p)
  then obtain e where "p = Err e" using r by (cases p) auto
  then obtain env' where "s' = s\<lparr>ses_env := env'\<rparr>" "db_state db' = db_state db" "db_next_row_id db \<le> db_next_row_id db'"
    using dml_error [OF V ok fit no_null] run Inl by metis
  then show ?thesis
    using ok unfolding session_ok_def fresh_ids_def ses_catalog_def by (fastforce split: option.splits)
next
  case (Inr n)
  obtain txn' env' where ch: "dml_checked E V stmt (dml_ex binds vars s db) (open_txn s db) (db, ses_env s) = (Inr n, txn', db', env')"
    and s': "s' = s\<lparr>ses_env := env', ses_txn := keep_txn txn'\<rparr>"
    using dml_success run Inr by metis
  obtain cs where cs: "extends E (open_txn s db) cs txn'" "db_state db' = db_state db" "fresh_ids db' (txn_work txn')"
    using dml_checked_run [OF V ok fit ch] by metis
  have base: "txn_base_version txn' = txn_base_version (open_txn s db)" "txn_log txn' = txn_log (open_txn s db) @ cs"
      "logged E (txn_work (open_txn s db)) cs (txn_work txn')" using cs(1) by (simp_all add: extends_def)
  have ok': "cat_ok E (txn_work txn')"
    using logged_ok [OF base(3)] ok by (simp add: open_txn_work session_ok_def)
  show ?thesis
  proof (cases "txn_log txn' = []")
    case True
    then have nil: "cs = []" "txn_log (open_txn s db) = []" using base(2) by simp_all
    have "txn_work txn' = ses_catalog s db" using logged_Nil [of E "ses_catalog s db" "txn_work txn'"] base(3) nil(1) by (simp add: open_txn_work)
    moreover have "ses_txn s = None" using nil(2) ok by (auto simp: open_txn_def session_ok_def split: option.splits)
    ultimately have "txn_work txn' = ses_catalog s db" "ses_txn s = None" by simp_all
    then show ?thesis
      using True s' cs ok ok' by (simp add: session_ok_def keep_txn_def ses_catalog_def)
  next
    case False
    have "logged E (db_state db) (txn_log txn') (txn_work txn')" if "cat_version (db_state db) = txn_base_version txn'"
      using logged_trans [OF base(3) open_txn_logged [OF ok]] that base(1,2) by simp
    then show ?thesis
      using False s' cs ok ok' by (simp add: session_ok_def keep_txn_def ses_catalog_def)
  qed
qed

text \<open>Referential integrity is an invariant of DML: when every enabled foreign key holds in what the
  session sees before a statement that succeeds, it holds in what it sees after it.\<close>

lemma dml_integral:
  assumes V: "quiet_evaluator V" and ok: "session_ok E s db" and fit: "fks_fit (ses_catalog s db)"
    and refs: "\<forall>f \<in> set (enabled_fks (ses_catalog s db)). integrity E (ses_catalog s db) f \<and> length (fk_parent_columns f) = 1"
    and run: "dml E V stmt binds vars s db = (Inr n, s', db')"
    and f: "f \<in> set (enabled_fks (ses_catalog s' db'))"
  shows "integrity E (ses_catalog s' db') f"
proof -
  obtain txn' env' where ch: "dml_checked E V stmt (dml_ex binds vars s db) (open_txn s db) (db, ses_env s) = (Inr n, txn', db', env')"
    and s': "s' = s\<lparr>ses_env := env', ses_txn := keep_txn txn'\<rparr>"
    using dml_success [OF run] .
  obtain txn1 s1 where st: "dml_changes E V stmt (dml_ex binds vars s db) (open_txn s db) (db, ses_env s) = (Inr n, txn1, s1)"
    and en: "enforce_foreign_keys E (env_user (snd s1)) (length (txn_log (open_txn s db))) txn1 = (Inr (), txn')"
    using ch by (auto simp: dml_checked_def split: prod.splits sum.splits)
  have ok0: "cat_ok E (ses_catalog s db)" and fresh: "fresh_ids db (ses_catalog s db)" using ok by (simp_all add: session_ok_def)
  obtain cs where cs: "extends E (open_txn s db) cs txn1"
    using quiet_evaluator.dml_changes_ok [OF V, of E "open_txn s db" "(db, ses_env s)" stmt "dml_ex binds vars s db"] ok0 fresh
    unfolding st stmt_ok_def by (auto simp: open_txn_work)
  have lg: "logged E (ses_catalog s db) cs (txn_work txn1)" "txn_log txn1 = txn_log (open_txn s db) @ cs"
    using cs by (simp_all add: extends_def open_txn_work)
  note ok1 = logged_ok [OF lg(1) ok0]
  have fr: "same_frames (ses_catalog s db) (txn_work txn1)" using logged_rows [OF lg(1) ok0] by blast
  have fks: "g \<in> set (enabled_fks (ses_catalog s db))" if "g \<in> set (enabled_fks (txn_work txn1))" for g
    using that foreign_keys_frames [OF ok0 fr ok1] by simp
  have whole: "whole g r" if "g \<in> set (enabled_fks (txn_work txn1))" for g r
    using refs fks [OF that] by (auto simp: length_Suc_conv intro: single_whole)
  have hyps: "\<forall>g \<in> set (enabled_fks (txn_work txn1)). fk_fits (txn_work txn1) g \<and> integrity E (ses_catalog s db) g"
    using refs fks fks_fit_frames [OF ok0 fr ok1 fit] by (auto simp: fks_fit_def)
  have holds: "integrity E (txn_work txn') g" if "g \<in> set (enabled_fks (txn_work txn'))" for g
    by (rule enforce_holds [OF ok0 lg hyps _ _ en that]) (use whole in \<open>auto simp: whole_cat_def whole_log_def\<close>)
  have "ses_catalog s' db' = txn_work txn'"
  proof (cases "txn_log txn' = []")
    case True
    obtain cs' where cs': "extends E (open_txn s db) cs' txn'" "db_state db' = db_state db"
      using dml_checked_run [OF V ok fit ch] by metis
    then have "cs' = []" "txn_log (open_txn s db) = []" using True by (simp_all add: extends_def)
    then have "txn_work txn' = ses_catalog s db" "ses_txn s = None"
      using cs' ok logged_Nil [of E "ses_catalog s db" "txn_work txn'"]
      by (auto simp: extends_def open_txn_work) (auto simp: open_txn_def session_ok_def split: option.splits)
    then show ?thesis using True s' cs'(2) by (simp add: ses_catalog_def keep_txn_def)
  qed (simp add: s' ses_catalog_def keep_txn_def)
  then show ?thesis using holds f by simp
qed

end
