(* ===== verification/Ddl.thy ===== *)
theory Ddl
  imports Dml
begin

text \<open>
  Data definition of \<open>crates/mock-oracle-core/src/session.rs\<close>: constraints that are added, validated,
  dropped and switched, and \<open>CREATE\<close>, \<open>DROP\<close>, \<open>ALTER\<close> and \<open>TRUNCATE\<close> of tables, indexes, sequences and
  routines. A statement works on the committed catalog while it holds the lock. Where the code
  leaves a half changed catalog behind an error its callers discard it, so that a failing step
  here returns no catalog.
\<close>

section \<open>Constraints\<close>

definition resolve_columns :: "('n, 'd) table \<Rightarrow> string list \<Rightarrow> nat list ora_result" where
  "resolve_columns t names = map_rust (target_column t) names"

fun type_family :: "sql_type \<Rightarrow> nat" where
  "type_family (TNumber _ _) = 0"
| "type_family (TVarchar2 _) = 1"
| "type_family (TChar _) = 1"
| "type_family TDate = 2"
| "type_family (TTimestamp _) = 3"

definition rows_with_null :: "('n, 'd) table \<Rightarrow> nat list \<Rightarrow> ('e, bool) rust" where
  "rows_with_null t cols =
     any_rust (\<lambda>r. any_rust (\<lambda>i. rbind (index r i) (\<lambda>v. Inr (is_null v))) cols) (bt_values (tab_rows t))"

definition null_in_key :: ora_error where
  "null_in_key = ora 1449 ''column contains NULL values; cannot alter to NOT NULL''"

definition cannot_validate :: "string \<Rightarrow> nat \<Rightarrow> string \<Rightarrow> string \<Rightarrow> ora_error" where
  "cannot_validate user c n why = ora c (''cannot validate ('' @ user @ ''.'' @ n @ '') - '' @ why)"

definition validate_constraint ::
  "('n, 'd, 'a) ext \<Rightarrow> ('n, 'd) evaluator \<Rightarrow> ('n, 'd) catalog \<Rightarrow> string \<Rightarrow> nat \<Rightarrow> ('n, 'd, unit) ev" where
  "validate_constraint E V cat table i =
     ebind (elift (unwrap (cat_table cat table))) (\<lambda>t.
     ebind (elift (index (tab_constraints t) i)) (\<lambda>c.
     ebind (eenv env_user) (\<lambda>user.
     case con_kind c of
       Check e \<Rightarrow>
         efold (\<lambda>r _.
           ebind (ev_bool V \<lparr>ex_cat = cat, ex_binds = [], ex_vars = \<lambda>_ _. None\<rparr> e
             (scope_row (table_scope_cols t (tab_name t)) r None)) (\<lambda>b.
           if b = Some False
           then elift (Inl (Err (cannot_validate user 2293 (con_name c) ''check constraint violated'')))
           else eret ())) (bt_values (tab_rows t)) ()
     | ForeignKey columns parent parent_columns _ \<Rightarrow>
         elift (rbind (ok_or (cat_table cat parent) table_not_found) (\<lambda>p.
           each (\<lambda>r.
             rbind (foreign_key E columns r) (\<lambda>k.
             case k of
               None \<Rightarrow> Inr ()
             | Some k \<Rightarrow>
                 rbind (has_key E p parent_columns k) (\<lambda>found.
                 if found then Inr ()
                 else Inl (Err (cannot_validate user 2298 (con_name c) ''parent keys not found'')))))
           (bt_values (tab_rows t))))
     | Unique columns True _ \<Rightarrow>
         elift (rbind (rows_with_null t columns) (\<lambda>b. if b then Inl (Err null_in_key) else Inr ()))
     | _ \<Rightarrow> eret ())))"

definition unique_columns :: "('n, 'd) constraint \<Rightarrow> nat list option" where
  "unique_columns c = (case con_kind c of Unique cols _ _ \<Rightarrow> Some cols | _ \<Rightarrow> None)"

text \<open>The key a foreign key points at: the named columns in the order of the primary key or unique
  constraint that covers them, with this table's columns lined up.\<close>

definition foreign_key_kind ::
  "('n, 'd) catalog \<Rightarrow> ('n, 'd) table \<Rightarrow> string list \<Rightarrow> string \<Rightarrow> string list \<Rightarrow> on_delete \<Rightarrow>
   ('n, 'd) constraint_kind ora_result" where
  "foreign_key_kind cat t columns parent ref_columns od =
     rbind (resolve_columns t columns) (\<lambda>idx.
     rbind (ok_or (cat_table cat parent) table_not_found) (\<lambda>p.
     rbind (if ref_columns = [] then
              ok_or (Option.bind (find is_primary (tab_constraints p)) unique_columns)
                (ora 2268 ''referenced table does not have a primary key'')
            else resolve_columns p ref_columns) (\<lambda>refs.
     if length refs \<noteq> length idx
     then ora_fail 2256 ''number of referencing columns must match referenced columns''
     else
       rbind (ok_or (find (\<lambda>cols. length cols = length refs \<and> list_all (\<lambda>c. c \<in> set refs) cols)
           (List.map_filter unique_columns (filter (\<lambda>k. \<not> con_is_index k) (tab_constraints p))))
           (ora 2270 ''no matching unique or primary key for this column-list'')) (\<lambda>key.
       rbind (map_rust (\<lambda>k. rbind (unwrap (position (\<lambda>r. r = k) refs)) (index idx)) key) (\<lambda>cols.
       rbind (each (\<lambda>(c, k).
           rbind (index (tab_columns t) c) (\<lambda>tc.
           rbind (index (tab_columns p) k) (\<lambda>pc.
           if type_family (col_type tc) \<noteq> type_family (col_type pc)
           then ora_fail 2267 ''column type incompatible with referenced column type'' else Inr ())))
         (zip cols key)) (\<lambda>_.
       Inr (ForeignKey cols parent key od)))))))"

definition add_key ::
  "('n, 'd, 'a) ext \<Rightarrow> ('n, 'd) catalog \<Rightarrow> string \<Rightarrow> ('n, 'd) table \<Rightarrow> string \<Rightarrow> nat list \<Rightarrow> bool \<Rightarrow> bool \<Rightarrow>
   ora_error \<Rightarrow> ('n, 'd) catalog ora_result" where
  "add_key E cat table t name idx primary enabled e =
     rbind (map_err (\<lambda>_. e) (add_unique E t name idx primary False enabled)) (\<lambda>t'.
     Inr (set_table cat table t'))"

definition add_constraint ::
  "('n, 'd, 'a) ext \<Rightarrow> ('n, 'd) evaluator \<Rightarrow> string \<Rightarrow> ('n, 'd) table_constraint \<Rightarrow> ('n, 'd) catalog \<Rightarrow>
   ('n, 'd, ('n, 'd) catalog) ev" where
  "add_constraint E V table c cat =
     ebind (eenv env_user) (\<lambda>user.
     ebind (case tc_name c of Some n \<Rightarrow> eret n | None \<Rightarrow> estep constraint_name) (\<lambda>name.
     if list_ex (\<lambda>t. list_ex (\<lambda>k. \<not> con_is_index k \<and> con_name k = name) (tab_constraints t)) (bt_values (cat_tables cat))
     then eora 2264 ''name already used by an existing constraint''
     else
       ebind (elift (ok_or (cat_table cat table) table_not_found)) (\<lambda>t.
       let other = (\<lambda>kind.
             let cat' = set_table cat table (t\<lparr>tab_constraints := tab_constraints t @
                   [\<lparr>con_name = name, con_kind = kind, con_is_index = False, con_enabled = tc_enabled c\<rparr>]\<rparr>) in
             if tc_enabled c \<and> tc_validate c
             then ebind (validate_constraint E V cat' table (length (tab_constraints t))) (\<lambda>_. eret cat')
             else eret cat') in
       case tc_kind c of
         PrimaryKeyK cols \<Rightarrow>
           if has_primary_key t then eora 2260 ''table can have only one primary key''
           else
             ebind (elift (resolve_columns t cols)) (\<lambda>idx.
             ebind (elift (if tc_enabled c then rows_with_null t idx else Inr False)) (\<lambda>b.
             if b then elift (Inl (Err null_in_key))
             else elift (add_key E cat table t name idx True (tc_enabled c)
               (cannot_validate user 2437 name ''primary key violated''))))
       | UniqueK cols \<Rightarrow>
           ebind (elift (resolve_columns t cols)) (\<lambda>idx.
           elift (add_key E cat table t name idx False (tc_enabled c)
             (cannot_validate user 2299 name ''duplicate keys found'')))
       | CheckK e \<Rightarrow> other (Check e)
       | ForeignKeyK columns parent ref_columns od \<Rightarrow>
           ebind (elift (foreign_key_kind cat t columns parent ref_columns od)) other)))"

definition find_constraint :: "('n, 'd) table \<Rightarrow> string option \<Rightarrow> nat option" where
  "find_constraint t name =
     position (\<lambda>c. \<not> con_is_index c \<and> (case name of Some n \<Rightarrow> con_name c = n | None \<Rightarrow> is_primary c))
       (tab_constraints t)"

text \<open>\<open>constraints.retain(|c| c.is_index || c.name != n)\<close>.\<close>

definition retain_constraints :: "string \<Rightarrow> ('n, 'd) table \<Rightarrow> ('n, 'd) table" where
  "retain_constraints n t = t\<lparr>tab_constraints := filter (\<lambda>c. con_is_index c \<or> con_name c \<noteq> n) (tab_constraints t)\<rparr>"

fun drop_foreign_keys :: "foreign_key_ref list \<Rightarrow> ('n, 'd) catalog \<Rightarrow> ('n, 'd) catalog ora_result" where
  "drop_foreign_keys [] cat = Inr cat"
| "drop_foreign_keys (f # fs) cat =
     rbind (unwrap (cat_table cat (fk_child f))) (\<lambda>child.
     drop_foreign_keys fs (set_table cat (fk_child f) (retain_constraints (fk_name f) child)))"

definition drop_constraint ::
  "('n, 'd) catalog \<Rightarrow> string \<Rightarrow> ('n, 'd) table \<Rightarrow> string option \<Rightarrow> bool \<Rightarrow> ('n, 'd) catalog ora_result" where
  "drop_constraint cat table t name cascade =
     rbind (ok_or (find_constraint t name)
       (case name of
          Some _ \<Rightarrow> ora 2443 ''Cannot drop constraint  - nonexistent constraint''
        | None \<Rightarrow> ora 2441 ''Cannot drop nonexistent primary key'')) (\<lambda>i.
     rbind (index (tab_constraints t) i) (\<lambda>c.
     rbind (case unique_columns c of
              Some columns \<Rightarrow>
                let refs = referencing cat table columns in
                if refs \<noteq> [] \<and> \<not> cascade
                then ora_fail 2273 ''this unique/primary key is referenced by some foreign keys''
                else drop_foreign_keys refs cat
            | None \<Rightarrow> Inr cat) (\<lambda>cat'.
     rbind (unwrap (cat_table cat' table)) (\<lambda>t'.
     rbind (index (tab_constraints t') i) (\<lambda>c'.
     Inr (set_table cat' table (retain_constraints (con_name c') t')))))))"

text \<open>\<open>let _ = child.set_enabled(j, false)\<close> for the foreign keys on a key that is disabled.\<close>

fun disable_foreign_keys ::
  "('n, 'd, 'a) ext \<Rightarrow> foreign_key_ref list \<Rightarrow> ('n, 'd) catalog \<Rightarrow> ('n, 'd) catalog ora_result" where
  "disable_foreign_keys E [] cat = Inr cat"
| "disable_foreign_keys E (f # fs) cat =
     rbind (unwrap (cat_table cat (fk_child f))) (\<lambda>child.
     rbind (unwrap (position (\<lambda>c. \<not> con_is_index c \<and> con_name c = fk_name f) (tab_constraints child))) (\<lambda>j.
     case set_enabled E child j False of
       Inr child' \<Rightarrow> disable_foreign_keys E fs (set_table cat (fk_child f) child')
     | Inl (Err _) \<Rightarrow> disable_foreign_keys E fs cat
     | Inl Panic \<Rightarrow> Inl Panic
     | Inl Diverges \<Rightarrow> Inl Diverges))"

definition set_constraint ::
  "('n, 'd, 'a) ext \<Rightarrow> ('n, 'd) evaluator \<Rightarrow> ('n, 'd) catalog \<Rightarrow> string \<Rightarrow> ('n, 'd) table \<Rightarrow> string option \<Rightarrow> bool \<Rightarrow>
   bool \<Rightarrow> bool \<Rightarrow> ('n, 'd, ('n, 'd) catalog) ev" where
  "set_constraint E V cat table t name enabled validate cascade =
     ebind (eenv env_user) (\<lambda>user.
     ebind (elift (rbind (ok_or (find_constraint t name)
       (case name of
          Some n \<Rightarrow>
            if enabled then ora 2430 (''cannot enable constraint ('' @ user @ ''.'' @ n @ '') - no such constraint'')
            else ora 2431 (''cannot disable constraint ('' @ user @ ''.'' @ n @ '') - no such constraint'')
        | None \<Rightarrow> ora 2432 ''cannot enable primary key - primary key not defined for table'')) (\<lambda>i.
     rbind (index (tab_constraints t) i) (\<lambda>c.
     rbind (if enabled then Inr cat
            else
              (case unique_columns c of
                 Some columns \<Rightarrow>
                   let refs = filter fk_enabled (referencing cat table columns) in
                   if refs \<noteq> [] \<and> \<not> cascade
                   then ora_fail 2297 (''cannot disable constraint ('' @ user @ ''.'' @ con_name c @ '') - dependencies exist'')
                   else disable_foreign_keys E refs cat
               | None \<Rightarrow> Inr cat)) (\<lambda>cat'.
     rbind (unwrap (cat_table cat' table)) (\<lambda>t'.
     rbind (index (tab_constraints t') i) (\<lambda>c'.
     rbind (map_err (\<lambda>_.
         if is_primary c' then cannot_validate user 2437 (con_name c) ''primary key violated''
         else cannot_validate user 2299 (con_name c) ''duplicate keys found'') (set_enabled E t' i enabled)) (\<lambda>t''.
     Inr (i, is_primary c', con_enabled c', set_table cat' table t'')))))))))
     (\<lambda>(i, primary, was_enabled, cat'').
     if enabled \<and> (validate \<or> primary) \<and> \<not> was_enabled
     then ebind (validate_constraint E V cat'' table i) (\<lambda>_. eret cat'')
     else eret cat''))"

definition alter_table ::
  "('n, 'd, 'a) ext \<Rightarrow> ('n, 'd) evaluator \<Rightarrow> string \<Rightarrow> ('n, 'd) alter_table_action \<Rightarrow> ('n, 'd) catalog \<Rightarrow>
   ('n, 'd, ('n, 'd) catalog) ev" where
  "alter_table E V table action cat =
     ebind (elift (ok_or (cat_table cat table) table_not_found)) (\<lambda>t.
     case action of
       AddConstraints cs \<Rightarrow> efold (add_constraint E V table) cs cat
     | DropConstraint name cascade \<Rightarrow> elift (drop_constraint cat table t name cascade)
     | SetConstraint name enabled validate cascade \<Rightarrow> set_constraint E V cat table t name enabled validate cascade)"

section \<open>Statements\<close>

definition bump :: "('n, 'd) catalog \<Rightarrow> ('n, 'd) catalog" where
  "bump cat = cat\<lparr>cat_version := cat_version cat + 1\<rparr>"

definition name_taken :: ora_error where
  "name_taken = ora 955 ''name is already used by an existing object''"

definition no_sequence :: ora_error where
  "no_sequence = ora 2289 ''sequence does not exist''"

text \<open>\<open>CREATE TABLE\<close>: the columns of the query (an empty \<open>VARCHAR2\<close> gets one character) or of the
  statement.\<close>

definition query_columns :: "('n, 'd) relation \<Rightarrow> ('n, 'd) table_column list" where
  "query_columns rel =
     map (\<lambda>c. \<lparr>col_name = rc_name c, col_type = (if rc_type c = TVarchar2 0 then TVarchar2 1 else rc_type c),
       col_default = None, col_not_null = False, col_identity = False\<rparr>) (rel_cols rel)"

definition declared_columns :: "('n, 'd) column_def list \<Rightarrow> ('n, 'd) table_column list" where
  "declared_columns cols =
     map (\<lambda>c. \<lparr>col_name = cd_name c, col_type = cd_type c, col_default = cd_default c,
       col_not_null = cd_not_null c, col_identity = cd_identity c\<rparr>) cols"

fun is_foreign_key :: "('n, 'd) ast_constraint_kind \<Rightarrow> bool" where
  "is_foreign_key (ForeignKeyK _ _ _ _) = True"
| "is_foreign_key _ = False"

definition name_constraint :: "('n, 'd) table_constraint \<Rightarrow> ('n, 'd, ('n, 'd) table_constraint) ev" where
  "name_constraint c =
     (case tc_name c of
        Some _ \<Rightarrow> eret c
      | None \<Rightarrow> ebind (estep constraint_name) (\<lambda>n. eret (c\<lparr>tc_name := Some n\<rparr>)))"

text \<open>\<open>sort_by_key\<close> is stable, so foreign keys move behind the others.\<close>

definition foreign_keys_last :: "('n, 'd) table_constraint list \<Rightarrow> ('n, 'd) table_constraint list" where
  "foreign_keys_last cs =
     filter (\<lambda>c. \<not> is_foreign_key (tc_kind c)) cs @ filter (\<lambda>c. is_foreign_key (tc_kind c)) cs"

fun create_rows ::
  "('n, 'd, 'a) ext \<Rightarrow> string \<Rightarrow> ('n, 'd) value list list \<Rightarrow> ('n, 'd) table \<Rightarrow> ('n, 'd, ('n, 'd) table) ev" where
  "create_rows E user [] t = eret t"
| "create_rows E user (r # rows) t =
     ebind (estep next_row_id) (\<lambda>i.
     ebind (elift (map_err (unique_violation user) (table_insert E t i r))) (create_rows E user rows))"

definition build_table ::
  "('n, 'd, 'a) ext \<Rightarrow> ('n, 'd) evaluator \<Rightarrow> ('n, 'd) create_table \<Rightarrow> ('n, 'd) table_column list \<Rightarrow>
   ('n, 'd) value list list \<Rightarrow> ('n, 'd) catalog \<Rightarrow> ('n, 'd, ('n, 'd) catalog) ev" where
  "build_table E V ct columns rows cat =
     ebind (emap name_constraint (ct_constraints ct)) (\<lambda>cs.
     ebind (efold (add_constraint E V (ct_name ct)) (foreign_keys_last cs)
       (cat\<lparr>cat_tables := bt_insert (ct_name ct) (table_new (ct_name ct) columns) (cat_tables cat)\<rparr>)) (\<lambda>cat1.
     ebind (elift (unwrap (cat_table cat1 (ct_name ct)))) (\<lambda>t.
     ebind (eenv env_user) (\<lambda>user.
     ebind (create_rows E user rows t) (\<lambda>t'.
     eret (bump (set_table cat1 (ct_name ct) t')))))))"

type_synonym ('n, 'd) ddl_step = "('n, 'd) est \<Rightarrow> unit ora_result \<times> ('n, 'd) est"

definition forget_identity :: "string \<Rightarrow> ('n, 'd) database \<Rightarrow> ('n, 'd) database" where
  "forget_identity n db = db\<lparr>db_identities := (db_identities db)(n := None)\<rparr>"

text \<open>The new table is in the locked catalog while its constraints and rows are added, and is taken out
  again when one of them fails.\<close>

definition ddl_create_table ::
  "('n, 'd, 'a) ext \<Rightarrow> ('n, 'd) evaluator \<Rightarrow> ('n, 'd) create_table \<Rightarrow> ('n, 'd) value list \<Rightarrow> ('n, 'd) ddl_step" where
  "ddl_create_table E V ct binds =
     ebind (case ct_as_query ct of
              Some q \<Rightarrow>
                ebind (edb db_state) (\<lambda>cat.
                ebind (ev_query V \<lparr>ex_cat = cat, ex_binds = binds, ex_vars = \<lambda>_ _. None\<rparr> q None) (\<lambda>rel. eret (Some rel)))
            | None \<Rightarrow> eret None) (\<lambda>from_query.
     ebind (edb db_state) (\<lambda>cat.
     if name_in_use cat (ct_name ct) then elift (Inl (Err name_taken))
     else
       let columns = (case from_query of Some rel \<Rightarrow> query_columns rel | None \<Rightarrow> declared_columns (ct_columns ct));
           rows = (case from_query of Some rel \<Rightarrow> rel_rows rel | None \<Rightarrow> []) in
       if \<not> distinct (map col_name columns) then eora 957 ''duplicate column name''
       else
         (\<lambda>s. case build_table E V ct columns rows cat s of
                (Inl (Err e), (db, env)) \<Rightarrow>
                  (Inl (Err e), (db\<lparr>db_state := cat\<lparr>cat_tables := bt_remove (ct_name ct) (cat_tables cat)\<rparr>\<rparr>, env))
              | (Inl x, s') \<Rightarrow> (Inl x, s')
              | (Inr cat', (db, env)) \<Rightarrow>
                  (Inr (), (forget_identity (ct_name ct) (db\<lparr>db_state := cat'\<rparr>), env)))))"

text \<open>A step that changes the locked catalog, or fails before it does.\<close>

definition on_catalog :: "(('n, 'd) catalog \<Rightarrow> ('n, 'd) catalog ora_result) \<Rightarrow> ('n, 'd) ddl_step" where
  "on_catalog f s =
     (case f (db_state (fst s)) of
        Inl x \<Rightarrow> (Inl x, s)
      | Inr cat \<Rightarrow> (Inr (), ((fst s)\<lparr>db_state := bump cat\<rparr>, snd s)))"

definition drop_table :: "string \<Rightarrow> bool \<Rightarrow> ('n, 'd) catalog \<Rightarrow> ('n, 'd) catalog ora_result" where
  "drop_table name cascade cat =
     (if \<not> bt_has (cat_tables cat) name then Inl (Err table_not_found)
      else
        let refs = filter (\<lambda>f. fk_parent f = name \<and> fk_child f \<noteq> name) (foreign_keys cat) in
        if refs \<noteq> [] \<and> \<not> cascade then ora_fail 2449 ''unique/primary keys in table referenced by foreign keys''
        else
          rbind (drop_foreign_keys refs cat) (\<lambda>cat'.
          Inr (cat'\<lparr>cat_tables := bt_remove name (cat_tables cat')\<rparr>)))"

definition truncate_table :: "string \<Rightarrow> ('n, 'd) catalog \<Rightarrow> ('n, 'd) catalog ora_result" where
  "truncate_table name cat =
     (if list_ex (\<lambda>f. fk_parent f = name \<and> fk_child f \<noteq> name \<and> fk_enabled f) (foreign_keys cat)
      then ora_fail 2266 ''unique/primary keys in table referenced by enabled foreign keys''
      else
        rbind (ok_or (cat_table cat name) table_not_found) (\<lambda>t.
        Inr (set_table cat name (table_truncate t))))"

definition create_index ::
  "('n, 'd, 'a) ext \<Rightarrow> string \<Rightarrow> string \<Rightarrow> string list \<Rightarrow> bool \<Rightarrow> ('n, 'd) catalog \<Rightarrow> ('n, 'd) catalog ora_result" where
  "create_index E name table columns uniq cat =
     (if name_in_use cat name then Inl (Err name_taken)
      else
        rbind (ok_or (cat_table cat table) table_not_found) (\<lambda>t.
        rbind (resolve_columns t columns) (\<lambda>idx.
        if uniq then
          rbind (map_err (\<lambda>_. ora 1452 ''cannot CREATE UNIQUE INDEX; duplicate keys found'')
            (add_unique E t name idx False True True)) (\<lambda>t'.
          Inr (set_table cat table t'))
        else
          Inr (set_table cat table (t\<lparr>tab_constraints := tab_constraints t @
            [\<lparr>con_name = name, con_kind = PlainIndex, con_is_index = True, con_enabled = True\<rparr>]\<rparr>)))))"

definition drop_index :: "string \<Rightarrow> ('n, 'd) catalog \<Rightarrow> ('n, 'd) catalog ora_result" where
  "drop_index name cat =
     rbind (ok_or (find (\<lambda>(n, t). list_ex (\<lambda>c. con_is_index c \<and> con_name c = name) (tab_constraints t)) (cat_tables cat))
       (ora 1418 ''specified index does not exist'')) (\<lambda>(owner, t).
     Inr (set_table cat owner
       (t\<lparr>tab_constraints := filter (\<lambda>c. \<not> (con_is_index c \<and> con_name c = name)) (tab_constraints t)\<rparr>)))"

definition set_sequences ::
  "((string, sequence_def) btree \<Rightarrow> (string, sequence_def) btree) \<Rightarrow> ('n, 'd) database \<Rightarrow> ('n, 'd) database" where
  "set_sequences f db =
     db\<lparr>db_state := bump ((db_state db)\<lparr>cat_sequences := f (cat_sequences (db_state db))\<rparr>)\<rparr>"

definition create_sequence :: "string \<Rightarrow> sequence_option list \<Rightarrow> ('n, 'd) ddl_step" where
  "create_sequence name options s =
     (if name_in_use (db_state (fst s)) name then (Inl (Err name_taken), s)
      else
        (case sequence_def None options of
           Inl x \<Rightarrow> (Inl x, s)
         | Inr def \<Rightarrow> (Inr (), (set_sequences (bt_insert name def) (set_sequence name None (fst s)), snd s))))"

definition alter_sequence :: "string \<Rightarrow> sequence_option list \<Rightarrow> ('n, 'd) ddl_step" where
  "alter_sequence name options s =
     (case bt_get (cat_sequences (db_state (fst s))) name of
        None \<Rightarrow> (Inl (Err no_sequence), s)
      | Some old \<Rightarrow>
          (case rbind (sequence_def (Some old) options) (\<lambda>def.
                rbind (alter_next old def (peek_sequence name (fst s))) (\<lambda>nxt.
                Inr (def, restart_next def options nxt))) of
             Inl x \<Rightarrow> (Inl x, s)
           | Inr (def, nxt) \<Rightarrow> (Inr (), (set_sequences (bt_insert name def) (set_sequence name nxt (fst s)), snd s))))"

definition drop_sequence :: "string \<Rightarrow> ('n, 'd) ddl_step" where
  "drop_sequence name s =
     (if \<not> bt_has (cat_sequences (db_state (fst s))) name then (Inl (Err no_sequence), s)
      else (Inr (), (set_sequences (bt_remove name) (set_sequence name None (fst s)), snd s)))"

definition create_routine :: "('n, 'd) routine \<Rightarrow> bool \<Rightarrow> ('n, 'd) catalog \<Rightarrow> ('n, 'd) catalog ora_result" where
  "create_routine r or_replace cat =
     (let replacing = or_replace \<and> bt_has (cat_routines cat) (r_name r) in
      if \<not> replacing \<and> name_in_use cat (r_name r) then Inl (Err name_taken)
      else Inr (cat\<lparr>cat_routines := bt_insert (r_name r) r (cat_routines cat)\<rparr>))"

definition drop_routine :: "string \<Rightarrow> bool \<Rightarrow> ('n, 'd) catalog \<Rightarrow> ('n, 'd) catalog ora_result" where
  "drop_routine name function cat =
     (case bt_get (cat_routines cat) name of
        Some r \<Rightarrow>
          if is_function r = function then Inr (cat\<lparr>cat_routines := bt_remove name (cat_routines cat)\<rparr>)
          else ora_fail 4043 (''object '' @ name @ '' does not exist'')
      | None \<Rightarrow> ora_fail 4043 (''object '' @ name @ '' does not exist''))"

text \<open>\<open>ALTER TABLE\<close> validates without the lock and retries when another session has changed the state
  meanwhile. \<open>others\<close> is what the other sessions do to the database between the reading and the lock, round
  by round; with nobody interfering it is empty.\<close>

fun alter_table_loop ::
  "('n, 'd, 'a) ext \<Rightarrow> ('n, 'd) evaluator \<Rightarrow> string \<Rightarrow> ('n, 'd) alter_table_action \<Rightarrow>
   (('n, 'd) database \<Rightarrow> ('n, 'd) database) list \<Rightarrow> ('n, 'd) ddl_step" where
  "alter_table_loop E V name action others s =
     (case alter_table E V name action (db_state (fst s)) s of
        (Inl x, s') \<Rightarrow> (Inl x, s')
      | (Inr cat, (db, env)) \<Rightarrow>
          (case others of
             [] \<Rightarrow>
               if cat_version (db_state db) = cat_version cat then (Inr (), (db\<lparr>db_state := bump cat\<rparr>, env))
               else (Inl Diverges, (db, env))
           | f # others' \<Rightarrow>
               if cat_version (db_state (f db)) = cat_version cat
               then (Inr (), ((f db)\<lparr>db_state := bump cat\<rparr>, env))
               else alter_table_loop E V name action others' (f db, env)))"

definition ddl ::
  "('n, 'd, 'a) ext \<Rightarrow> ('n, 'd) evaluator \<Rightarrow> (('n, 'd) database \<Rightarrow> ('n, 'd) database) list \<Rightarrow> ('n, 'd) statement \<Rightarrow>
   ('n, 'd) value list \<Rightarrow> ('n, 'd) ddl_step" where
  "ddl E V others stmt binds s =
     (case stmt of
        CreateTable ct \<Rightarrow> ddl_create_table E V ct binds s
      | DropTable name cascade \<Rightarrow>
          (case on_catalog (drop_table name cascade) s of
             (Inr _, (db, env)) \<Rightarrow> (Inr (), (forget_identity name db, env))
           | r \<Rightarrow> r)
      | Truncate name \<Rightarrow> on_catalog (truncate_table name) s
      | CreateIndex name table columns uniq \<Rightarrow> on_catalog (create_index E name table columns uniq) s
      | DropIndex name \<Rightarrow> on_catalog (drop_index name) s
      | AlterTable name action \<Rightarrow> alter_table_loop E V name action others s
      | CreateSequence name options \<Rightarrow> create_sequence name options s
      | AlterSequence name options \<Rightarrow> alter_sequence name options s
      | DropSequence name \<Rightarrow> drop_sequence name s
      | CreateRoutine r or_replace \<Rightarrow> on_catalog (create_routine r or_replace) s
      | DropRoutine name function \<Rightarrow> on_catalog (drop_routine name function) s
      | PartitionMaintenance table \<Rightarrow>
          (case table of
             Some name \<Rightarrow>
               if bt_has (cat_tables (db_state (fst s))) name then (Inr (), s) else (Inl (Err table_not_found), s)
           | None \<Rightarrow> (Inr (), s))
      | _ \<Rightarrow> (Inl Panic, s))"

end
