(* ===== verification/Functions.thy ===== *)
theory Functions
  imports Eval_Base
begin

text \<open>
  \<open>crates/mock-oracle-core/src/functions.rs\<close>: the built-in scalar functions. Each group of functions is
  one definition that takes the session's settings and the argument values and returns \<open>None\<close> for
  a name outside the group; \<open>call\<close> tries the groups and then the stored functions. Text is a list of
  bytes and the character functions take one byte for one character, as for ASCII text.
\<close>

section \<open>Arguments\<close>

definition arg_count :: ora_error where
  "arg_count = ora 909 ''invalid number of arguments''"

definition check_args :: "('n, 'd) value list \<Rightarrow> nat \<Rightarrow> nat \<Rightarrow> unit ora_result" where
  "check_args args lo hi = (if length args < lo \<or> length args > hi then Inl (Err arg_count) else Inr ())"

definition MAX_INT_ARG :: int where
  "MAX_INT_ARG = 1000000000000"

definition MAX_STRING_CHARS :: nat where
  "MAX_STRING_CHARS = 32767"

definition clamp :: "int \<Rightarrow> int \<Rightarrow> int \<Rightarrow> int" where
  "clamp lo hi i = max lo (min hi i)"

definition int_arg :: "('n, 'd, 'a) ext \<Rightarrow> ('n, 'd) arith \<Rightarrow> ('n, 'd) value \<Rightarrow> int option ora_result" where
  "int_arg E A v =
     rbind (to_number E v) (\<lambda>n. Inr (map_option (\<lambda>n.
       let n' = bd_with_scale_round E n 0 Down;
           fallback = (if bd_cmp E n' (bd_from_int E 0) = Less then - MAX_INT_ARG else MAX_INT_ARG) in
       clamp (- MAX_INT_ARG) MAX_INT_ARG (case bd_to_i64 A n' of Some i \<Rightarrow> i | None \<Rightarrow> fallback)) n))"

abbreviation numeric_overflow :: ora_error where
  "numeric_overflow \<equiv> ora 1426 ''numeric overflow''"

text \<open>The text of a floating-point result, \<open>None\<close> when it is not finite.\<close>

definition from_f64 :: "('n, 'd, 'a) ext \<Rightarrow> ('n, 'd) arith \<Rightarrow> string option \<Rightarrow> ('n, 'd) value ora_result" where
  "from_f64 E A f =
     rbind (ok_or f numeric_overflow) (\<lambda>s.
     rbind (ok_or (bd_from_str E s) numeric_overflow) (\<lambda>n.
     Inr (Number (round_number E A n))))"

definition value_number :: "('n, 'd, 'a) ext \<Rightarrow> int \<Rightarrow> ('n, 'd) value" where
  "value_number E i = Number (bd_from_int E i)"

definition unwrap_text :: "string option \<Rightarrow> string" where
  "unwrap_text s = (case s of Some t \<Rightarrow> t | None \<Rightarrow> [])"

text \<open>\<open>let Some(x) = m else { return Ok(Value::Null) }\<close>.\<close>

definition or_null :: "'b option ora_result \<Rightarrow> ('b \<Rightarrow> ('n, 'd) value ora_result) \<Rightarrow> ('n, 'd) value ora_result" where
  "or_null m f = rbind m (\<lambda>x. case x of Some y \<Rightarrow> f y | None \<Rightarrow> Inr Null)"

definition get_arg :: "('n, 'd) value list \<Rightarrow> nat \<Rightarrow> ('n, 'd) value" where
  "get_arg a i = (if i < length a then a ! i else Null)"

section \<open>NULL handling\<close>

text \<open>The loop of \<open>DECODE\<close> over the arguments behind the subject: pairs, then perhaps a default.\<close>

fun decode_args ::
  "('n, 'd, 'a) ext \<Rightarrow> string \<Rightarrow> ('n, 'd) value \<Rightarrow> ('n, 'd) value list \<Rightarrow> ('n, 'd) value ora_result" where
  "decode_args E fmt subject (x # y # rest) =
     rbind (if is_null subject \<or> is_null x then Inr (is_null subject \<and> is_null x)
            else rbind (compare E subject x fmt) (\<lambda>r. Inr (r = Some Equal))) (\<lambda>hit.
     if hit then Inr y else decode_args E fmt subject rest)"
| "decode_args E fmt subject [x] = Inr x"
| "decode_args E fmt subject [] = Inr Null"

definition null_function ::
  "('n, 'd, 'a) ext \<Rightarrow> 'd env \<Rightarrow> string \<Rightarrow> ('n, 'd) value list \<Rightarrow> ('n, 'd) value ora_result option" where
  "null_function E env name a =
     (if name = ''NVL'' then Some (rbind (check_args a 2 2) (\<lambda>_. Inr (if is_null (a ! 0) then a ! 1 else a ! 0)))
      else if name = ''NVL2'' then Some (rbind (check_args a 3 3) (\<lambda>_. Inr (if is_null (a ! 0) then a ! 2 else a ! 1)))
      else if name = ''COALESCE'' then
        Some (rbind (check_args a 2 (2 ^ 64 - 1)) (\<lambda>_.
          Inr (case find (\<lambda>v. \<not> is_null v) a of Some v \<Rightarrow> v | None \<Rightarrow> Null)))
      else if name = ''NULLIF'' then
        Some (rbind (check_args a 2 2) (\<lambda>_.
          rbind (compare E (a ! 0) (a ! 1) (env_nls_date_format env)) (\<lambda>r.
          Inr (if r = Some Equal then Null else a ! 0))))
      else if name = ''DECODE'' then
        Some (rbind (check_args a 3 255) (\<lambda>_. decode_args E (env_nls_date_format env) (hd a) (tl a)))
      else None)"

section \<open>Strings\<close>

fun initcap :: "bool \<Rightarrow> string \<Rightarrow> string" where
  "initcap start [] = []"
| "initcap start (c # cs) =
     (if is_ascii_alphanumeric c then (if start then upcase c else downcase c) # initcap False cs
      else c # initcap True cs)"

text \<open>The slice that \<open>SUBSTR\<close> takes; \<open>count\<close> is \<open>None\<close> without a third argument.\<close>

definition substr_start :: "int \<Rightarrow> int \<Rightarrow> int" where
  "substr_start len pos = (if pos > 0 then pos - 1 else if pos = 0 then 0 else len + pos)"

definition substr :: "('n, 'd, 'a) ext \<Rightarrow> ('n, 'd) arith \<Rightarrow> string \<Rightarrow> int \<Rightarrow> ('n, 'd) value option \<Rightarrow> ('n, 'd) value ora_result" where
  "substr E A s pos count =
     (let len = int (length s); start = substr_start len pos in
      if start < 0 \<or> start \<ge> len then Inr Null
      else
        or_null (case count of Some v \<Rightarrow> rbind (int_arg E A v) (\<lambda>n. Inr (case n of Some n \<Rightarrow> if n \<ge> 1 then Some n else None | None \<Rightarrow> None))
                 | None \<Rightarrow> Inr (Some len)) (\<lambda>n.
        let stop = min (start + n) len in
        Inr (varchar (take (nat (stop - start)) (drop (nat start) s)))))"

text \<open>The loops of \<open>INSTR\<close>: the \<open>occ\<close>-th of the tried positions at which the text matches, counted from
  1, or 0.\<close>

definition matches_at :: "string \<Rightarrow> string \<Rightarrow> int \<Rightarrow> bool" where
  "matches_at hay needle i =
     (i \<ge> 0 \<and> i + int (length needle) \<le> int (length hay) \<and> take (length needle) (drop (nat i) hay) = needle)"

fun nth_match :: "(int \<Rightarrow> bool) \<Rightarrow> int \<Rightarrow> int list \<Rightarrow> int" where
  "nth_match P occ [] = 0"
| "nth_match P occ (i # is) =
     (if P i then if occ = 1 then i + 1 else nth_match P (occ - 1) is else nth_match P occ is)"

definition instr :: "string \<Rightarrow> string \<Rightarrow> int \<Rightarrow> int \<Rightarrow> int" where
  "instr hay needle pos occ =
     (let n = int (length hay); m = int (length needle) in
      nth_match (matches_at hay needle) occ
        (if pos > 0 then [pos - 1..n - m] else rev [0..n + pos - m + 1]))"

text \<open>\<open>str::replace\<close>: an empty pattern matches before every character and at the end.\<close>

function replace_all :: "string \<Rightarrow> string \<Rightarrow> string \<Rightarrow> string" where
  "replace_all s old new =
     (if old = [] then new @ concat (map (\<lambda>c. c # new) s)
      else
        (case s of
           [] \<Rightarrow> []
         | c # cs \<Rightarrow>
             if starts_with s old then new @ replace_all (drop (length old) s) old new
             else c # replace_all cs old new))"
  by pat_completeness auto

termination
  by (relation "measure (\<lambda>(s, _, _). length s)") auto

declare replace_all.simps [simp del]

definition translate :: "string \<Rightarrow> string \<Rightarrow> string \<Rightarrow> string" where
  "translate s old new =
     List.map_filter (\<lambda>c.
       case position (\<lambda>f. f = c) old of
         Some i \<Rightarrow> if i < length new then Some (new ! i) else None
       | None \<Rightarrow> Some c) s"

definition trim_one :: "string \<Rightarrow> char \<Rightarrow> string \<Rightarrow> string" where
  "trim_one mode c s =
     (if mode = ''LEADING'' then dropWhile (\<lambda>x. x = c) s
      else if mode = ''TRAILING'' then trim_end_matches (\<lambda>x. x = c) s
      else trim_end_matches (\<lambda>x. x = c) (dropWhile (\<lambda>x. x = c) s))"

text \<open>\<open>pad.chars().cycle().take(k)\<close>.\<close>

definition cycle_take :: "nat \<Rightarrow> string \<Rightarrow> string" where
  "cycle_take k pad = (if pad = [] then [] else map (\<lambda>i. pad ! (i mod length pad)) [0..<k])"

definition pad_text :: "bool \<Rightarrow> string \<Rightarrow> int \<Rightarrow> string \<Rightarrow> ('n, 'd) value" where
  "pad_text left s n0 pad =
     (if n0 \<le> 0 then Null
      else
        let n = min (nat n0) MAX_STRING_CHARS in
        if length s \<ge> n then varchar (take n s)
        else
          let fill = cycle_take (n - length s) pad in
          varchar (if left then fill @ s else s @ fill))"

text \<open>\<open>char::from_u32\<close> and the UTF-8 bytes of the character.\<close>

definition utf8 :: "nat \<Rightarrow> string" where
  "utf8 n =
     (if n < 0x80 then [ch n]
      else if n < 0x800 then [ch (0xC0 + n div 0x40), ch (0x80 + n mod 0x40)]
      else if n < 0x10000 then [ch (0xE0 + n div 0x1000), ch (0x80 + n div 0x40 mod 0x40), ch (0x80 + n mod 0x40)]
      else [ch (0xF0 + n div 0x40000), ch (0x80 + n div 0x1000 mod 0x40), ch (0x80 + n div 0x40 mod 0x40),
            ch (0x80 + n mod 0x40)])"

definition from_u32 :: "nat \<Rightarrow> string option" where
  "from_u32 n = (if n < 0xD800 \<or> (0xE000 \<le> n \<and> n < 0x110000) then Some (utf8 n) else None)"

definition string_fn ::
  "('n, 'd, 'a) ext \<Rightarrow> 'd env \<Rightarrow> (string \<Rightarrow> string) \<Rightarrow> ('n, 'd) value list \<Rightarrow> ('n, 'd) value ora_result" where
  "string_fn E env f a =
     rbind (check_args a 1 1) (\<lambda>_. or_null (to_text E env (a ! 0)) (\<lambda>s. Inr (varchar (f s))))"

definition instr_function ::
  "('n, 'd, 'a) ext \<Rightarrow> ('n, 'd) arith \<Rightarrow> 'd env \<Rightarrow> ('n, 'd) value list \<Rightarrow> ('n, 'd) value ora_result" where
  "instr_function E A env a =
     rbind (check_args a 2 4) (\<lambda>_.
     rbind (to_text E env (a ! 0)) (\<lambda>s.
     rbind (to_text E env (a ! 1)) (\<lambda>sub.
     if s = None \<or> sub = None then Inr Null
     else
       rbind (if length a > 2 then int_arg E A (a ! 2) else Inr (Some 1)) (\<lambda>pos.
       rbind (if length a > 3 then int_arg E A (a ! 3) else Inr (Some 1)) (\<lambda>occ.
       case (pos, occ) of
         (Some pos, Some occ) \<Rightarrow>
           if pos = 0 then Inr (value_number E 0)
           else if occ < 1 then ora_fail 1428 (''argument '' @ [CHR 0x27] @ int_str occ @ [CHR 0x27] @ '' is out of range'')
           else Inr (value_number E (instr (the s) (the sub) pos occ))
       | _ \<Rightarrow> Inr Null)))))"

definition pad_function ::
  "('n, 'd, 'a) ext \<Rightarrow> ('n, 'd) arith \<Rightarrow> 'd env \<Rightarrow> bool \<Rightarrow> ('n, 'd) value list \<Rightarrow> ('n, 'd) value ora_result" where
  "pad_function E A env left a =
     rbind (check_args a 2 3) (\<lambda>_.
     rbind (to_text E env (a ! 0)) (\<lambda>s.
     rbind (int_arg E A (a ! 1)) (\<lambda>n.
     case (s, n) of
       (Some s, Some n) \<Rightarrow>
         or_null (if length a > 2 then to_text E env (a ! 2) else Inr (Some '' '')) (\<lambda>pad. Inr (pad_text left s n pad))
     | _ \<Rightarrow> Inr Null)))"

definition trim_function ::
  "('n, 'd, 'a) ext \<Rightarrow> 'd env \<Rightarrow> ('n, 'd) value list \<Rightarrow> ('n, 'd) value ora_result" where
  "trim_function E env a =
     rbind (to_text E env (get_arg a 0)) (\<lambda>mode.
     rbind (to_text E env (get_arg a 1)) (\<lambda>chars.
     rbind (to_text E env (get_arg a 2)) (\<lambda>s.
     case (mode, chars, s) of
       (Some mode, Some chars, Some s) \<Rightarrow>
         (case chars of
            [c] \<Rightarrow> Inr (varchar (trim_one mode c s))
          | _ \<Rightarrow> ora_fail 30001 ''trim set should have only one character'')
     | _ \<Rightarrow> Inr Null)))"

definition trim_set_function ::
  "('n, 'd, 'a) ext \<Rightarrow> 'd env \<Rightarrow> bool \<Rightarrow> ('n, 'd) value list \<Rightarrow> ('n, 'd) value ora_result" where
  "trim_set_function E env left a =
     rbind (check_args a 1 2) (\<lambda>_.
     or_null (to_text E env (a ! 0)) (\<lambda>s.
     or_null (if length a > 1 then to_text E env (a ! 1) else Inr (Some '' '')) (\<lambda>chars.
     let P = (\<lambda>c. c \<in> set chars) in
     Inr (varchar (if left then dropWhile P s else trim_end_matches P s)))))"

definition string_function ::
  "('n, 'd, 'a) ext \<Rightarrow> ('n, 'd) arith \<Rightarrow> 'd env \<Rightarrow> string \<Rightarrow> ('n, 'd) value list \<Rightarrow> ('n, 'd) value ora_result option" where
  "string_function E A env name a =
     (if name = ''UPPER'' then Some (string_fn E env to_uppercase a)
      else if name = ''LOWER'' then Some (string_fn E env to_lowercase a)
      else if name = ''INITCAP'' then Some (string_fn E env (initcap True) a)
      else if name = ''LENGTH'' \<or> name = ''LENGTHB'' then
        Some (rbind (check_args a 1 1) (\<lambda>_.
          or_null (to_text E env (a ! 0)) (\<lambda>s. Inr (value_number E (int (length s))))))
      else if name = ''SUBSTR'' then
        Some (rbind (check_args a 2 3) (\<lambda>_.
          rbind (to_text E env (a ! 0)) (\<lambda>s.
          rbind (int_arg E A (a ! 1)) (\<lambda>pos.
          case (s, pos) of
            (Some s, Some pos) \<Rightarrow> substr E A s pos (if length a > 2 then Some (a ! 2) else None)
          | _ \<Rightarrow> Inr Null))))
      else if name = ''INSTR'' then Some (instr_function E A env a)
      else if name = ''REPLACE'' then
        Some (rbind (check_args a 2 3) (\<lambda>_.
          or_null (to_text E env (a ! 0)) (\<lambda>s.
          rbind (to_text E env (a ! 1)) (\<lambda>old.
          case old of
            None \<Rightarrow> Inr (varchar s)
          | Some old \<Rightarrow>
              rbind (if length a > 2 then to_text E env (a ! 2) else Inr None) (\<lambda>new.
              Inr (varchar (replace_all s old (unwrap_text new))))))))
      else if name = ''TRANSLATE'' then
        Some (rbind (check_args a 3 3) (\<lambda>_.
          rbind (to_text E env (a ! 0)) (\<lambda>s.
          rbind (to_text E env (a ! 1)) (\<lambda>old.
          rbind (to_text E env (a ! 2)) (\<lambda>new.
          case (s, old, new) of
            (Some s, Some old, Some new) \<Rightarrow> Inr (varchar (translate s old new))
          | _ \<Rightarrow> Inr Null)))))
      else if name = ''TRIM'' then Some (trim_function E env a)
      else if name = ''LTRIM'' \<or> name = ''RTRIM'' then Some (trim_set_function E env (name = ''LTRIM'') a)
      else if name = ''LPAD'' \<or> name = ''RPAD'' then Some (pad_function E A env (name = ''LPAD'') a)
      else if name = ''CONCAT'' then
        Some (rbind (check_args a 2 2) (\<lambda>_.
          rbind (to_text E env (a ! 0)) (\<lambda>s.
          rbind (to_text E env (a ! 1)) (\<lambda>t. Inr (varchar (unwrap_text s @ unwrap_text t))))))
      else if name = ''CHR'' then
        Some (rbind (check_args a 1 1) (\<lambda>_.
          or_null (int_arg E A (a ! 0)) (\<lambda>n.
          Inr (varchar (unwrap_text (from_u32 (nat (n mod 2 ^ 32))))))))
      else if name = ''ASCII'' then
        Some (rbind (check_args a 1 1) (\<lambda>_.
          rbind (to_text E env (a ! 0)) (\<lambda>s.
          Inr (case s of Some (c # cs) \<Rightarrow> value_number E (int (code c)) | _ \<Rightarrow> Null))))
      else if name = ''REVERSE'' then Some (string_fn E env rev a)
      else None)"

section \<open>Numbers\<close>

definition arg_out_of_range :: "('n, 'd, 'a) ext \<Rightarrow> 'n \<Rightarrow> ora_error" where
  "arg_out_of_range E n = ora 1428 (''argument '' @ [CHR 0x27] @ format_number E n @ [CHR 0x27] @ '' is out of range'')"

definition bd_zero :: "('n, 'd, 'a) ext \<Rightarrow> 'n" where
  "bd_zero E = bd_from_int E 0"

abbreviation divisor_zero :: ora_error where
  "divisor_zero \<equiv> ora 1476 ''divisor is equal to zero''"

definition sign_of :: "ordering \<Rightarrow> int" where
  "sign_of r = (case r of Less \<Rightarrow> -1 | Equal \<Rightarrow> 0 | Greater \<Rightarrow> 1)"

definition unary_number ::
  "('n, 'd, 'a) ext \<Rightarrow> ('n, 'd) arith \<Rightarrow> string \<Rightarrow> 'n \<Rightarrow> ('n, 'd) value ora_result" where
  "unary_number E A name n =
     (if name = ''ABS'' then Inr (Number (bd_abs E n))
      else if name = ''SIGN'' then Inr (value_number E (sign_of (bd_cmp E n (bd_zero E))))
      else if name = ''CEIL'' then Inr (Number (bd_with_scale_round E n 0 Ceiling))
      else if name = ''FLOOR'' then Inr (Number (bd_with_scale_round E n 0 Floor))
      else if name = ''SQRT'' then
        if bd_cmp E n (bd_zero E) = Less then Inl (Err (arg_out_of_range E n))
        else Inr (Number (round_number E A (case bd_sqrt A n of Some r \<Rightarrow> r | None \<Rightarrow> bd_zero E)))
      else if name = ''EXP'' then from_f64 E A (f64_exp A n)
      else if bd_cmp E n (bd_zero E) \<noteq> Greater then Inl (Err (arg_out_of_range E n))
      else from_f64 E A (f64_ln A n))"

definition number_power :: "('n, 'd, 'a) ext \<Rightarrow> ('n, 'd) arith \<Rightarrow> 'n \<Rightarrow> 'n \<Rightarrow> ('n, 'd) value ora_result" where
  "number_power E A x y =
     (if bd_is_integer A y \<and> bd_cmp E (bd_abs E y) (bd_from_int E 1000) \<noteq> Greater then
        rbind (unwrap (bd_to_i64 A y)) (\<lambda>e.
        let r = ((\<lambda>r. round_number E A (bd_mul A r x)) ^^ nat \<bar>e\<bar>) (bd_from_int E 1) in
        if e < 0 then
          if bd_cmp E r (bd_zero E) = Equal then Inl (Err divisor_zero)
          else Inr (Number (round_number E A (bd_div A (bd_from_int E 1) r)))
        else Inr (Number r))
      else from_f64 E A (f64_powf A x y))"

definition binary_number ::
  "('n, 'd, 'a) ext \<Rightarrow> ('n, 'd) arith \<Rightarrow> string \<Rightarrow> 'n \<Rightarrow> 'n \<Rightarrow> ('n, 'd) value ora_result" where
  "binary_number E A name x y =
     (let rest = (\<lambda>mode. Number (bd_sub A x (bd_mul A (bd_with_scale_round E (bd_div A x y) 0 mode) y))) in
      if name = ''MOD'' then Inr (if bd_cmp E y (bd_zero E) = Equal then Number x else rest Down)
      else if name = ''REMAINDER'' then
        if bd_cmp E y (bd_zero E) = Equal then Inl (Err divisor_zero) else Inr (rest HalfEven)
      else if name = ''POWER'' then number_power E A x y
      else from_f64 E A (f64_log A y x))"

text \<open>Rounding a date adds half the unit before it truncates; the addition panics when it leaves
  \<open>chrono\<close>'s range.\<close>

definition round_date :: "('n, 'd, 'a) ext \<Rightarrow> 'd \<Rightarrow> string \<Rightarrow> 'd ora_result" where
  "round_date E d unit' =
     (let u = to_uppercase unit';
          half = (\<lambda>secs u'. rbind (unwrap (dt_add_seconds E d secs)) (\<lambda>d'. dt_trunc E d' u')) in
      if u \<in> {''DD'', ''DDD'', ''J''} then half 43200 ''DD''
      else if u \<in> {''HH'', ''HH24''} then half 1800 ''HH''
      else if u = ''MI'' then half 30 ''MI''
      else if u \<in> {''MM'', ''MON'', ''MONTH''} then
        rbind (dt_trunc E d ''MM'') (\<lambda>start. if dt_day E d \<ge> 16 then add_months E start 1 else Inr start)
      else if u \<in> {''YYYY'', ''YEAR'', ''Y'', ''YY'', ''YYY''} then
        rbind (dt_trunc E d ''YYYY'') (\<lambda>start. if dt_month E d \<ge> 7 then add_months E start 12 else Inr start)
      else dt_trunc E d unit')"

definition round_function ::
  "('n, 'd, 'a) ext \<Rightarrow> ('n, 'd) arith \<Rightarrow> 'd env \<Rightarrow> bool \<Rightarrow> ('n, 'd) value list \<Rightarrow> ('n, 'd) value ora_result" where
  "round_function E A env rounding a =
     rbind (check_args a 1 2) (\<lambda>_.
     let date = (\<lambda>d.
           or_null (if length a > 1 then to_text E env (a ! 1) else Inr (Some ''DD'')) (\<lambda>unit'.
           rbind (if rounding then round_date E d unit' else dt_trunc E d unit') (\<lambda>d'. Inr (Date d')))) in
     case a ! 0 of
       Null \<Rightarrow> Inr Null
     | Date d \<Rightarrow> date d
     | Timestamp d \<Rightarrow> date d
     | v \<Rightarrow>
         or_null (to_number E v) (\<lambda>n.
         or_null (if length a > 1 then rbind (int_arg E A (a ! 1)) (\<lambda>p. Inr (map_option (clamp (-126) 127) p))
                  else Inr (Some 0)) (\<lambda>places.
         Inr (Number (bd_normalized E (bd_with_scale_round E n places (if rounding then HalfUp else Down)))))))"

fun best_of ::
  "('n, 'd, 'a) ext \<Rightarrow> string \<Rightarrow> bool \<Rightarrow> ('n, 'd) value \<Rightarrow> ('n, 'd) value list \<Rightarrow> ('n, 'd) value ora_result" where
  "best_of E fmt greatest best [] = Inr best"
| "best_of E fmt greatest best (v # vs) =
     rbind (compare E v best fmt) (\<lambda>r.
     best_of E fmt greatest (if r = Some (if greatest then Greater else Less) then v else best) vs)"

definition number_function ::
  "('n, 'd, 'a) ext \<Rightarrow> ('n, 'd) arith \<Rightarrow> 'd env \<Rightarrow> string \<Rightarrow> ('n, 'd) value list \<Rightarrow> ('n, 'd) value ora_result option" where
  "number_function E A env name a =
     (if name \<in> {''ABS'', ''SIGN'', ''CEIL'', ''FLOOR'', ''SQRT'', ''EXP'', ''LN''} then
        Some (rbind (check_args a 1 1) (\<lambda>_. or_null (to_number E (a ! 0)) (unary_number E A name)))
      else if name \<in> {''MOD'', ''REMAINDER'', ''POWER'', ''LOG''} then
        Some (rbind (check_args a 2 2) (\<lambda>_.
          rbind (to_number E (a ! 0)) (\<lambda>x.
          rbind (to_number E (a ! 1)) (\<lambda>y.
          case (x, y) of (Some x, Some y) \<Rightarrow> binary_number E A name x y | _ \<Rightarrow> Inr Null))))
      else if name = ''ROUND'' \<or> name = ''TRUNC'' then Some (round_function E A env (name = ''ROUND'') a)
      else if name = ''GREATEST'' \<or> name = ''LEAST'' then
        Some (rbind (check_args a 1 255) (\<lambda>_.
          if list_ex is_null a then Inr Null
          else best_of E (env_nls_date_format env) (name = ''GREATEST'') (hd a) (tl a)))
      else None)"

section \<open>Number formats\<close>

text \<open>The integer part from its right end: the format's characters with their positions, the digits
  that are left, whether all of them are placed, and what is put out (last character first).\<close>

fun fill_digits :: "nat option \<Rightarrow> (nat \<times> char) list \<Rightarrow> string \<Rightarrow> bool \<Rightarrow> string \<Rightarrow> string" where
  "fill_digits first_zero [] digits placed out = out"
| "fill_digits first_zero ((pos, c) # fs) digits placed out =
     (if c = CHR ''9'' \<or> c = CHR ''0'' then
        (case digits of
           d # ds \<Rightarrow> fill_digits first_zero fs ds (placed \<or> ds = []) (out @ [d])
         | [] \<Rightarrow>
             fill_digits first_zero fs [] placed
               (out @ [if (case first_zero of Some z \<Rightarrow> pos \<ge> z | None \<Rightarrow> False) then CHR ''0'' else CHR '' '']))
      else
        fill_digits first_zero fs digits placed
          (out @ [if \<not> placed \<or> (case first_zero of Some z \<Rightarrow> pos > z | None \<Rightarrow> False) then CHR '','' else CHR '' '']))"

text \<open>\<open>while frac.len() > keep && frac.ends_with('0') { frac.pop(); }\<close>, on the reversed text.\<close>

fun drop_zeros :: "nat \<Rightarrow> string \<Rightarrow> string" where
  "drop_zeros keep (c # cs) = (if length (c # cs) > keep \<and> c = CHR ''0'' then drop_zeros keep cs else c # cs)"
| "drop_zeros keep [] = []"

text \<open>The parts of a format model: \<open>FM\<close>, \<open>$\<close>, where the sign stands, and the digits before and after the
  point.\<close>

record number_format =
  nf_fm :: bool
  nf_dollar :: bool
  nf_leading_sign :: bool
  nf_trailing_mi :: bool
  nf_trailing_s :: bool
  nf_int :: string
  nf_frac :: "string option"

definition ends_with :: "string \<Rightarrow> string \<Rightarrow> bool" where
  "ends_with s t = starts_with (rev s) (rev t)"

definition is_point :: "char \<Rightarrow> bool" where
  "is_point c = (c = CHR ''.'' \<or> c = CHR ''D'')"

definition read_format :: "string \<Rightarrow> number_format" where
  "read_format fmt =
     (let f0 = to_uppercase fmt; fm = starts_with f0 ''FM''; f = (if fm then drop 2 f0 else f0);
          leading_sign = starts_with f ''S'';
          core = replace_all (filter (\<lambda>c. c \<noteq> CHR ''$'' \<and> c \<noteq> CHR ''S'') f) ''MI'' [];
          int_fmt = takeWhile (\<lambda>c. \<not> is_point c) core in
      \<lparr>nf_fm = fm, nf_dollar = (CHR ''$'' \<in> set f), nf_leading_sign = leading_sign,
       nf_trailing_mi = ends_with f ''MI'', nf_trailing_s = (\<not> leading_sign \<and> ends_with f ''S''),
       nf_int = int_fmt,
       nf_frac = (if length int_fmt < length core then Some (drop (length int_fmt + 1) core) else None)\<rparr>)"

definition valid_format :: "number_format \<Rightarrow> bool" where
  "valid_format p =
     (list_all (\<lambda>c. c \<in> {CHR ''9'', CHR ''0'', CHR '','', CHR ''G''}) (nf_int p) \<and>
      list_all (\<lambda>c. c \<in> {CHR ''9'', CHR ''0''}) (unwrap_text (nf_frac p)))"

definition sign_before :: "number_format \<Rightarrow> bool \<Rightarrow> string" where
  "sign_before p negative =
     (if nf_leading_sign p then (if negative then ''-'' else ''+'')
      else if nf_trailing_mi p \<or> nf_trailing_s p then []
      else if negative then ''-'' else if nf_fm p then [] else '' '')"

definition sign_after :: "number_format \<Rightarrow> bool \<Rightarrow> string" where
  "sign_after p negative =
     (if nf_trailing_mi p then (if negative then ''-'' else if nf_fm p then [] else '' '')
      else if nf_trailing_s p then (if negative then ''-'' else ''+'')
      else [])"

definition int_slots :: "number_format \<Rightarrow> string \<Rightarrow> string" where
  "int_slots p int_digits =
     (let out = fill_digits (position (\<lambda>c. c = CHR ''0'') (nf_int p)) (rev (List.enumerate 0 (nf_int p)))
            (rev int_digits) (int_digits = []) [] in
      rev (if int_digits = [] \<and> nf_frac p = None \<and> CHR ''0'' \<notin> set out then
             (case out of [] \<Rightarrow> [] | _ # rest \<Rightarrow> CHR ''0'' # rest)
           else out))"

definition frac_text :: "number_format \<Rightarrow> string \<Rightarrow> string" where
  "frac_text p frac_part =
     (case nf_frac p of
        None \<Rightarrow> []
      | Some ff \<Rightarrow>
          CHR ''.'' #
          (if nf_fm p then
             let keep = length (dropWhile (\<lambda>c. c \<noteq> CHR ''0'') (rev ff)) in rev (drop_zeros keep (rev frac_part))
           else frac_part))"

definition format_number_with :: "('n, 'd, 'a) ext \<Rightarrow> 'n \<Rightarrow> string \<Rightarrow> string ora_result" where
  "format_number_with E n fmt =
     (let p = read_format fmt in
      if \<not> valid_format p then ora_fail 1481 ''invalid number format model''
      else
        let frac_digits = int (length (unwrap_text (nf_frac p)));
            rounded = bd_with_scale_round E n frac_digits HalfUp;
            negative = (bd_cmp E rounded (bd_zero E) = Less);
            plain = bd_to_plain_string E (bd_with_scale E (bd_abs E rounded) frac_digits);
            (int0, frac_part) = (case split_at (CHR ''.'') plain of Some ab \<Rightarrow> ab | None \<Rightarrow> (plain, []));
            int_digits = (if int0 = ''0'' then [] else int0) in
        if length int_digits > length (filter (\<lambda>c. c = CHR ''9'' \<or> c = CHR ''0'') (nf_int p))
        then Inr (replicate (length fmt + 1) (CHR ''#''))
        else
          let slots = int_slots p int_digits; body = trim_start slots in
          Inr ((if nf_fm p then [] else replicate (length slots - length body) (CHR '' '')) @ sign_before p negative @
            (if nf_dollar p then ''$'' else []) @ body @ frac_text p frac_part @ sign_after p negative))"

section \<open>Conversion\<close>

definition cast_function ::
  "('n, 'd, 'a) ext \<Rightarrow> 'd env \<Rightarrow> ('n, 'd) value list \<Rightarrow> ('n, 'd) value ora_result" where
  "cast_function E env a =
     rbind (to_text E env (get_arg a 1)) (\<lambda>t.
     let target = unwrap_text t in
     rbind (index a 0) (\<lambda>v.
     if is_null v then Inr Null
     else if target = ''NUMBER'' then
       (case v of
          Varchar2 _ \<Rightarrow> rbind (to_number E v) (\<lambda>n. rbind (unwrap n) (\<lambda>n. Inr (Number n)))
        | Number _ \<Rightarrow> rbind (to_number E v) (\<lambda>n. rbind (unwrap n) (\<lambda>n. Inr (Number n)))
        | _ \<Rightarrow> Inl (Err (inconsistent ''NUMBER'' ''DATE'')))
     else if target = ''DATE'' then
       rbind (to_datetime E (env_nls_date_format env) v) (\<lambda>d. rbind (unwrap d) (\<lambda>d.
       rbind (unwrap (dt_with_nanosecond E d 0)) (\<lambda>d. Inr (Date d))))
     else if target = ''TIMESTAMP'' then
       rbind (to_datetime E (env_nls_timestamp_format env) v) (\<lambda>d. rbind (unwrap d) (\<lambda>d. Inr (Timestamp d)))
     else
       let max = (case (if starts_with target ''VARCHAR2:'' then parse_unsigned 64 (drop 9 target) else None) of
                    Some n \<Rightarrow> n | None \<Rightarrow> 4000) in
       rbind (to_text E env v) (\<lambda>s.
       if length (unwrap_text s) > max then ora_fail 25137 ''Data value out of range''
       else Inr (varchar (unwrap_text s)))))"

definition to_char_function ::
  "('n, 'd, 'a) ext \<Rightarrow> 'd env \<Rightarrow> ('n, 'd) value list \<Rightarrow> ('n, 'd) value ora_result" where
  "to_char_function E env a =
     rbind (check_args a 1 3) (\<lambda>_.
     or_null (if length a > 1 then rbind (to_text E env (a ! 1)) (\<lambda>f. Inr (map_option Some f)) else Inr (Some None)) (\<lambda>fmt.
     let use = (\<lambda>default. case fmt of Some f \<Rightarrow> f | None \<Rightarrow> default) in
     case a ! 0 of
       Null \<Rightarrow> Inr Null
     | Date d \<Rightarrow> rbind (dt_format E d (use (env_nls_date_format env))) (\<lambda>s. Inr (varchar s))
     | Timestamp d \<Rightarrow> rbind (dt_format E d (use (env_nls_timestamp_format env))) (\<lambda>s. Inr (varchar s))
     | v \<Rightarrow>
         (case fmt of
            None \<Rightarrow> rbind (to_text E env v) (\<lambda>s. Inr (varchar (unwrap_text s)))
          | Some f \<Rightarrow>
              rbind (to_number E v) (\<lambda>n. rbind (unwrap n) (\<lambda>n.
              rbind (format_number_with E n f) (\<lambda>s. Inr (varchar s)))))))"

definition to_number_function ::
  "('n, 'd, 'a) ext \<Rightarrow> 'd env \<Rightarrow> ('n, 'd) value list \<Rightarrow> ('n, 'd) value ora_result" where
  "to_number_function E env a =
     rbind (check_args a 1 3) (\<lambda>_.
     or_null (to_text E env (a ! 0)) (\<lambda>s.
     let s' = (if length a > 1 then filter (\<lambda>c. c \<noteq> CHR '','' \<and> c \<noteq> CHR ''$'') s else s) in
     rbind (to_number E (varchar s')) (\<lambda>n.
     Inr (Number (case n of Some n \<Rightarrow> n | None \<Rightarrow> bd_zero E)))))"

definition to_date_function ::
  "('n, 'd, 'a) ext \<Rightarrow> 'd env \<Rightarrow> bool \<Rightarrow> ('n, 'd) value list \<Rightarrow> ('n, 'd) value ora_result" where
  "to_date_function E env date a =
     rbind (check_args a 1 3) (\<lambda>_.
     or_null (to_text E env (a ! 0)) (\<lambda>s.
     or_null (if length a > 1 then to_text E env (a ! 1)
              else Inr (Some (if date then env_nls_date_format env else env_nls_timestamp_format env))) (\<lambda>fmt.
     rbind (dt_parse E s fmt) (\<lambda>d.
     if date then rbind (unwrap (dt_with_nanosecond E d 0)) (\<lambda>d. Inr (Date d)) else Inr (Timestamp d)))))"

section \<open>Dates\<close>

definition truncate_micros :: "('n, 'd, 'a) ext \<Rightarrow> 'd \<Rightarrow> 'd" where
  "truncate_micros E d =
     (case dt_with_nanosecond E d (dt_nanosecond E d div 1000 * 1000) of Some x \<Rightarrow> x | None \<Rightarrow> d)"

text \<open>The seconds since the first of the month.\<close>

definition month_seconds :: "('n, 'd, 'a) ext \<Rightarrow> 'd \<Rightarrow> int" where
  "month_seconds E d =
     (int (dt_day E d) - 1) * 86400 + int (dt_hour E d * 3600 + dt_minute E d * 60 + dt_second E d)"

definition months_between ::
  "('n, 'd, 'a) ext \<Rightarrow> ('n, 'd) arith \<Rightarrow> 'd \<Rightarrow> 'd \<Rightarrow> ('n, 'd) value ora_result" where
  "months_between E A x y =
     (let whole = (dt_year E x - dt_year E y) * 12 + int (dt_month E x) - int (dt_month E y) in
      rbind (last_day_of E (dt_year E x) (dt_month E x)) (\<lambda>lx.
      rbind (if dt_day E x = lx then rbind (last_day_of E (dt_year E y) (dt_month E y)) (\<lambda>ly. Inr (dt_day E y = ly))
             else Inr False) (\<lambda>both_last.
      if dt_day E x = dt_day E y \<or> both_last then Inr (value_number E whole)
      else
        let frac = bd_div A (bd_from_int E (month_seconds E x - month_seconds E y)) (bd_from_int E (31 * 86400)) in
        Inr (Number (round_number E A (bd_add A (bd_from_int E whole) frac))))))"

definition extract_field ::
  "('n, 'd, 'a) ext \<Rightarrow> ('n, 'd) arith \<Rightarrow> string \<Rightarrow> 'd \<Rightarrow> ('n, 'd) value ora_result" where
  "extract_field E A field d =
     (if field = ''YEAR'' then Inr (value_number E (dt_year E d))
      else if field = ''MONTH'' then Inr (value_number E (int (dt_month E d)))
      else if field = ''DAY'' then Inr (value_number E (int (dt_day E d)))
      else if field = ''HOUR'' then Inr (value_number E (int (dt_hour E d)))
      else if field = ''MINUTE'' then Inr (value_number E (int (dt_minute E d)))
      else if field = ''SECOND'' then
        Inr (Number (bd_normalized E (bd_add A (bd_from_int E (int (dt_second E d)))
          (bd_div A (bd_from_int E (int (dt_nanosecond E d))) (bd_from_int E 1000000000)))))
      else ora_fail 907 ''missing right parenthesis'')"

definition date_function ::
  "('n, 'd, 'a) ext \<Rightarrow> ('n, 'd) arith \<Rightarrow> 'd env \<Rightarrow> string \<Rightarrow> ('n, 'd) value list \<Rightarrow> ('n, 'd) value ora_result option" where
  "date_function E A env name a =
     (let date = to_datetime E (env_nls_date_format env);
          whole = (\<lambda>d. rbind (unwrap (dt_with_nanosecond E d 0)) (\<lambda>d. Inr (Date d))) in
      if name = ''TO_CHAR'' then Some (to_char_function E env a)
      else if name = ''TO_NUMBER'' then Some (to_number_function E env a)
      else if name = ''TO_DATE'' \<or> name = ''TO_TIMESTAMP'' then Some (to_date_function E env (name = ''TO_DATE'') a)
      else if name = ''CAST'' then Some (cast_function E env a)
      else if name = ''SYSDATE'' then Some (whole (env_now_local env))
      else if name = ''SYSTIMESTAMP'' then Some (Inr (Timestamp (truncate_micros E (env_now_local env))))
      else if name = ''CURRENT_DATE'' then Some (rbind (session_now E env) whole)
      else if name = ''CURRENT_TIMESTAMP'' \<or> name = ''LOCALTIMESTAMP'' then
        Some (rbind (session_now E env) (\<lambda>d. Inr (Timestamp (truncate_micros E d))))
      else if name = ''USER'' then Some (Inr (varchar (env_user env)))
      else if name = ''ADD_MONTHS'' then
        Some (rbind (check_args a 2 2) (\<lambda>_.
          rbind (date (a ! 0)) (\<lambda>d.
          rbind (int_arg E A (a ! 1)) (\<lambda>n.
          case (d, n) of
            (Some d, Some n) \<Rightarrow>
              rbind (unwrap (dt_with_nanosecond E d 0)) (\<lambda>d. rbind (add_months E d n) (\<lambda>d. Inr (Date d)))
          | _ \<Rightarrow> Inr Null))))
      else if name = ''LAST_DAY'' then
        Some (rbind (check_args a 1 1) (\<lambda>_.
          or_null (date (a ! 0)) (\<lambda>d.
          rbind (last_day_of E (dt_year E d) (dt_month E d)) (\<lambda>day.
          rbind (unwrap (dt_with_day A d day)) whole))))
      else if name = ''MONTHS_BETWEEN'' then
        Some (rbind (check_args a 2 2) (\<lambda>_.
          rbind (date (a ! 0)) (\<lambda>x.
          rbind (date (a ! 1)) (\<lambda>y.
          case (x, y) of (Some x, Some y) \<Rightarrow> months_between E A x y | _ \<Rightarrow> Inr Null))))
      else if name = ''EXTRACT'' then
        Some (rbind (to_text E env (get_arg a 0)) (\<lambda>field.
          or_null (date (get_arg a 1)) (extract_field E A (unwrap_text field))))
      else if name = ''SYS_GUID'' then Some (ora_fail 3001 ''unimplemented feature: SYS_GUID'')
      else None)"

section \<open>Calls\<close>

definition builtin ::
  "('n, 'd, 'a) ext \<Rightarrow> ('n, 'd) arith \<Rightarrow> 'd env \<Rightarrow> string \<Rightarrow> ('n, 'd) value list \<Rightarrow> ('n, 'd) value ora_result option" where
  "builtin E A env name a =
     (case null_function E env name a of
        Some r \<Rightarrow> Some r
      | None \<Rightarrow>
          (case string_function E A env name a of
             Some r \<Rightarrow> Some r
           | None \<Rightarrow>
               (case number_function E A env name a of
                  Some r \<Rightarrow> Some r
                | None \<Rightarrow> date_function E A env name a)))"

text \<open>A stored function is run by \<open>F\<close>, which stands for \<open>plsql::exec::call_function\<close> on a \<open>QueryHost\<close> with
  the catalog of the query.\<close>

definition call ::
  "('n, 'd, 'a) ext \<Rightarrow> ('n, 'd) arith \<Rightarrow>
   (('n, 'd) catalog \<Rightarrow> ('n, 'd) routine \<Rightarrow> ('n, 'd) value list \<Rightarrow> ('n, 'd, ('n, 'd) value) ev) \<Rightarrow>
   ('n, 'd) ex \<Rightarrow> string \<Rightarrow> ('n, 'd) value list \<Rightarrow> ('n, 'd, ('n, 'd) value) ev" where
  "call E A F x name a =
     ebind (eenv (\<lambda>env. builtin E A env name a)) (\<lambda>b.
     case b of
       Some r \<Rightarrow> elift r
     | None \<Rightarrow>
         ebind (edb (db_routine (short_name name))) (\<lambda>r.
         case r of
           Some r \<Rightarrow> F (ex_cat x) r a
         | None \<Rightarrow> elift (Inl (Err (invalid_identifier (quoted name))))))"

end
