(* ===== verification/Like.thy ===== *)
theory Like
  imports Ora_Error
begin

text \<open>
  \<open>like\<close> of \<open>crates/mock-oracle-core/src/eval.rs\<close>: the pattern is compiled to parts, then matched by a
  loop that goes back to the last \<open>%\<close> when it is stuck. The loop keeps the rest of the text and of
  the parts instead of their indices; the place to go back to is the parts after the last \<open>%\<close> and the
  text it was tried at. That the loop ends, and gives what the meaning of the pattern says, is proved
  below. Characters are bytes.
\<close>

datatype like_part = AnyP | OneP | LitP char

fun like_parts :: "char option \<Rightarrow> string \<Rightarrow> like_part list ora_result" where
  "like_parts escape [] = Inr []"
| "like_parts escape (c # cs) =
     (if Some c = escape then
        (case cs of
           n # cs' \<Rightarrow>
             if n = CHR ''%'' \<or> n = CHR ''_'' \<or> Some n = escape
             then rbind (like_parts escape cs') (\<lambda>ps. Inr (LitP n # ps))
             else ora_fail 1424 ''missing or illegal character following the escape character''
         | [] \<Rightarrow> ora_fail 1424 ''missing or illegal character following the escape character'')
      else
        rbind (like_parts escape cs) (\<lambda>ps.
        Inr ((if c = CHR ''%'' then AnyP else if c = CHR ''_'' then OneP else LitP c) # ps)))"

partial_function (option) like_loop ::
  "string \<Rightarrow> like_part list \<Rightarrow> (like_part list \<times> string) option \<Rightarrow> bool option" where
  "like_loop s parts star =
     (case s of
        [] \<Rightarrow> Some (list_all (\<lambda>p. p = AnyP) parts)
      | c # s' \<Rightarrow>
          (case parts of
             OneP # ps \<Rightarrow> like_loop s' ps star
           | AnyP # ps \<Rightarrow> like_loop s ps (Some (ps, s))
           | LitP d # ps \<Rightarrow>
               if d = c then like_loop s' ps star
               else
                 (case star of
                    Some (sp, ss) \<Rightarrow> like_loop (tl ss) sp (Some (sp, tl ss))
                  | None \<Rightarrow> Some False)
           | [] \<Rightarrow>
               (case star of
                  Some (sp, ss) \<Rightarrow> like_loop (tl ss) sp (Some (sp, tl ss))
                | None \<Rightarrow> Some False)))"

definition like :: "string \<Rightarrow> string \<Rightarrow> char option \<Rightarrow> bool ora_result" where
  "like s pattern escape =
     rbind (like_parts escape pattern) (\<lambda>parts.
     case like_loop s parts None of Some b \<Rightarrow> Inr b | None \<Rightarrow> Inl Diverges)"

section \<open>The meaning of a pattern\<close>

fun matches :: "like_part list \<Rightarrow> string \<Rightarrow> bool" where
  "matches [] s = (s = [])"
| "matches (AnyP # ps) [] = matches ps []"
| "matches (AnyP # ps) (c # s) = (matches ps (c # s) \<or> matches (AnyP # ps) s)"
| "matches (OneP # ps) s = (\<exists>c r. s = c # r \<and> matches ps r)"
| "matches (LitP d # ps) s = (\<exists>r. s = d # r \<and> matches ps r)"

text \<open>\<open>%\<close> stands for any text.\<close>

lemma matches_Any: "matches (AnyP # ps) s \<longleftrightarrow> (\<exists>a b. s = a @ b \<and> matches ps b)"
proof (induction s)
  case Nil
  then show ?case by simp
next
  case (Cons c s)
  have "(\<exists>a b. c # s = a @ b \<and> matches ps b) \<longleftrightarrow> matches ps (c # s) \<or> (\<exists>a b. s = a @ b \<and> matches ps b)"
    by (metis (no_types, lifting) append_Cons append_Nil list.inject neq_Nil_conv)
  then show ?case using Cons by simp
qed

lemma matches_Any_longer: "matches (AnyP # ps) b \<Longrightarrow> matches (AnyP # ps) (a @ b)"
  unfolding matches_Any by (metis append_assoc)

lemma matches_Nil: "matches ps [] \<longleftrightarrow> list_all (\<lambda>p. p = AnyP) ps"
proof (induction ps)
  case (Cons p ps)
  then show ?case by (cases p) auto
qed simp

text \<open>A part without \<open>%\<close> matches a text of its own length.\<close>

lemma matches_fixed:
  "\<lbrakk>AnyP \<notin> set q; matches (q @ ps) s\<rbrakk> \<Longrightarrow> length q \<le> length s \<and> matches ps (drop (length q) s)"
proof (induction q arbitrary: s)
  case (Cons p q)
  then show ?case by (cases p) auto
qed simp

lemma drop_behind: "\<exists>x. drop n (a @ b) = x @ drop n b"
proof -
  have "drop (n - length a) b = take (n - (n - length a)) (drop (n - length a) b) @ drop n b"
    by (metis append_take_drop_id diff_le_self drop_drop le_add_diff_inverse2)
  then show ?thesis by (metis append_assoc drop_append)
qed

text \<open>What the loop has still to decide: the rest matches, or a later place for the last \<open>%\<close> does. Since
  that \<open>%\<close> the loop has matched parts \<open>q\<close> of one character each.\<close>

definition back_ok :: "string \<Rightarrow> like_part list \<Rightarrow> (like_part list \<times> string) option \<Rightarrow> bool" where
  "back_ok s parts star =
     (case star of
        None \<Rightarrow> True
      | Some (sp, ss) \<Rightarrow> \<exists>q pre. AnyP \<notin> set q \<and> sp = q @ parts \<and> ss = pre @ s \<and> length pre = length q)"

definition later :: "(like_part list \<times> string) option \<Rightarrow> bool" where
  "later star = (case star of None \<Rightarrow> False | Some (sp, ss) \<Rightarrow> ss \<noteq> [] \<and> matches (AnyP # sp) (tl ss))"

lemma later_past_Any:
  assumes "back_ok s (AnyP # ps) star" and "later star"
  shows "matches (AnyP # ps) s"
proof -
  obtain sp ss q pre where star: "star = Some (sp, ss)" and q: "AnyP \<notin> set q" "sp = q @ AnyP # ps"
    "ss = pre @ s" "length pre = length q" and m: "ss \<noteq> []" "matches (AnyP # sp) (tl ss)"
    using assms by (auto simp: back_ok_def later_def split: option.splits)
  obtain a b where ab: "tl ss = a @ b" "matches (q @ AnyP # ps) b" using m(2) q(2) by (auto simp: matches_Any)
  note fixed = matches_fixed [OF q(1) ab(2)]
  have "ss = hd ss # a @ b" using m(1) ab(1) by (metis list.collapse)
  then have "drop (length q) ss = drop (length q) (hd ss # a @ b)" by simp
  moreover have "drop (length q) ss = s" using q(3,4) by simp
  moreover obtain x where "drop (length q) ((hd ss # a) @ b) = x @ drop (length q) b"
    using drop_behind [of "length q" "hd ss # a" b] by blast
  ultimately show ?thesis using fixed matches_Any_longer [of ps "drop (length q) b" x] by simp
qed

lemma later_step:
  "ss \<noteq> [] \<Longrightarrow> later (Some (sp, ss)) \<longleftrightarrow> matches sp (tl ss) \<or> later (Some (sp, tl ss))"
  by (cases "tl ss") (auto simp: later_def)

text \<open>The loop goes through fewer places of the last \<open>%\<close>, then through the text, then through the parts.\<close>

definition like_rank :: "string \<Rightarrow> like_part list \<Rightarrow> (like_part list \<times> string) option \<Rightarrow> (nat \<times> nat) \<times> nat" where
  "like_rank s parts star = ((case star of None \<Rightarrow> Suc (length s) | Some (_, ss) \<Rightarrow> length ss, length s), length parts)"

lemma later_end: "back_ok [] parts star \<Longrightarrow> \<not> later star"
proof
  assume "back_ok [] parts star" "later star"
  then obtain q ss where "AnyP \<notin> set q" "length ss = length q" "ss \<noteq> []" "matches (AnyP # q @ parts) (tl ss)"
    by (auto simp: back_ok_def later_def split: option.splits)
  moreover from this obtain b where "length b \<le> length (tl ss)" "matches (q @ parts) b"
    unfolding matches_Any by (metis le_add2 length_append)
  ultimately show False using matches_fixed [of q parts b] by (cases ss) auto
qed

lemma back_ok_step:
  assumes "back_ok (c # s) (p # ps) star" and "p \<noteq> AnyP"
  shows "back_ok s ps star"
proof (cases star)
  case (Some x)
  then obtain q pre where "AnyP \<notin> set q" "fst x = q @ p # ps" "snd x = pre @ c # s" "length pre = length q"
    using assms(1) by (auto simp: back_ok_def split: prod.splits)
  then show ?thesis
    using assms(2) Some
    by (auto simp: back_ok_def split_beta intro!: exI [of _ "q @ [p]"] exI [of _ "pre @ [c]"])
qed (simp add: back_ok_def)

lemma back_ok_start: "back_ok s ps (Some (ps, s))"
  by (simp add: back_ok_def)

abbreviation rank_order :: "(((nat \<times> nat) \<times> nat) \<times> ((nat \<times> nat) \<times> nat)) set" where
  "rank_order \<equiv> (less_than <*lex*> less_than) <*lex*> less_than"

lemma wf_rank: "wf rank_order"
  by (simp add: wf_lex_prod)

lemma like_loop_matches:
  "back_ok s parts star \<Longrightarrow> like_loop s parts star = Some (matches parts s \<or> later star)"
proof (induction "like_rank s parts star" arbitrary: s parts star rule: wf_induct_rule [OF wf_rank])
  case (1 s parts star)
  note IH = 1(1) and ok = 1(2)
  show ?case
  proof (cases s)
    case Nil
    then show ?thesis using later_end ok by (subst like_loop.simps) (auto simp: matches_Nil)
  next
    case (Cons c r)
    have again: "like_loop (tl ss) sp (Some (sp, tl ss)) = Some (later star)" if star: "star = Some (sp, ss)" for sp ss
    proof -
      have "ss \<noteq> []" using ok star Cons by (auto simp: back_ok_def)
      then have "(like_rank (tl ss) sp (Some (sp, tl ss)), like_rank s parts star) \<in> rank_order"
        using star by (simp add: like_rank_def)
      then show ?thesis using IH [OF _ back_ok_start] later_step [OF \<open>ss \<noteq> []\<close>, of sp] star by simp
    qed
    have stuck: "like_loop s parts star = Some (matches parts s \<or> later star)"
      if "parts = [] \<or> (\<exists>d ps. parts = LitP d # ps \<and> d \<noteq> c)"
      using that Cons again by (subst like_loop.simps) (auto simp: later_def split: option.splits)
    have step: "like_loop r ps star = Some (matches ps r \<or> later star)" if "parts = p # ps" "p \<noteq> AnyP" for p ps
      using that Cons ok by (intro IH back_ok_step [of c r p]) (auto simp: like_rank_def split: option.splits)
    show ?thesis
    proof (cases parts)
      case Nil
      then show ?thesis using stuck by blast
    next
      case parts: (Cons p ps)
      show ?thesis
      proof (cases p)
        case AnyP
        have "(like_rank s ps (Some (ps, s)), like_rank s parts star) \<in> rank_order"
          using ok parts AnyP Cons by (auto simp: like_rank_def back_ok_def split: option.splits)
        then have "like_loop s ps (Some (ps, s)) = Some (matches ps s \<or> later (Some (ps, s)))"
          using IH back_ok_start by blast
        moreover have "later star \<Longrightarrow> matches (AnyP # ps) s" using later_past_Any ok parts AnyP by blast
        ultimately show ?thesis
          using parts AnyP Cons by (subst like_loop.simps) (auto simp: later_def)
      next
        case OneP
        then show ?thesis using parts Cons step [OF parts] by (subst like_loop.simps) auto
      next
        case (LitP d)
        then show ?thesis
          using parts Cons step [OF parts] stuck by (cases "d = c") (auto simp: like_loop.simps [of "c # r"])
      qed
    qed
  qed
qed

section \<open>Properties\<close>

text \<open>C30: The matching loop with backtracking to the last percent sign ends on every text and pattern, and its
  answer is what the pattern means: a percent sign stands for any text, an underscore for one
  character, everything else for itself. An error is reported only for a misused escape character.\<close>

theorem like_correct:
  "like s pattern escape = rbind (like_parts escape pattern) (\<lambda>parts. Inr (matches parts s))"
  by (cases "like_parts escape pattern") (simp_all add: like_def like_loop_matches back_ok_def later_def)

end
