(* ===== verification/Eval.thy ===== *)
theory Eval
  imports Functions Store Like
begin

text \<open>
  Evaluation of \<open>crates/mock-oracle-core/src/eval.rs\<close>: expressions, conditions, joins, grouping, set
  operations and sorting. Every function of the source is a definition over the evaluator \<open>V\<close> that it
  calls for its parts; \<open>evaluator_at\<close> closes the recursion with fuel for the depth of the syntax tree.
  The sort is the stable insertion sort that the standard library uses for short slices, with the error of its
  first failing comparison; a stable sort by a total order has one result, whatever its algorithm.
\<close>

section \<open>Arithmetic and aggregates\<close>

definition is_date :: "('n, 'd) value \<Rightarrow> bool" where
  "is_date v = (case v of Date _ \<Rightarrow> True | Timestamp _ \<Rightarrow> True | _ \<Rightarrow> False)"

text \<open>\<open>Duration::try_seconds\<close> and \<open>checked_add_signed\<close>.\<close>

definition checked_add_seconds :: "('n, 'd, 'a) ext \<Rightarrow> 'd \<Rightarrow> int \<Rightarrow> 'd option" where
  "checked_add_seconds E d secs = (if \<bar>secs\<bar> \<le> (2 ^ 63 - 1) div 1000 then dt_add_seconds E d secs else None)"

definition add_days ::
  "('n, 'd, 'a) ext \<Rightarrow> ('n, 'd) arith \<Rightarrow> bool \<Rightarrow> ('n, 'd) value \<Rightarrow> ('n, 'd) value \<Rightarrow> ('n, 'd) value ora_result" where
  "add_days E A neg d n =
     rbind (to_datetime E [] d) (\<lambda>d. rbind (unwrap d) (\<lambda>d.
     rbind (to_number E n) (\<lambda>n. rbind (unwrap n) (\<lambda>days.
     rbind (ok_or (parse_signed 64 (bd_to_string E
       (bd_with_scale_round E (bd_mul A days (bd_from_int E 86400)) 0 HalfUp))) out_of_range) (\<lambda>secs.
     rbind (if neg then if secs = - (2 ^ 63) then Inl (Err out_of_range) else Inr (- secs) else Inr secs) (\<lambda>secs.
     rbind (ok_or (Option.bind (checked_add_seconds E (zero_nanos E d) secs)
       (\<lambda>d. if -4713 \<le> dt_year E d \<and> dt_year E d \<le> 9999 then Some d else None)) out_of_range) (\<lambda>d.
     Inr (Date d))))))))"

definition arithmetic ::
  "('n, 'd, 'a) ext \<Rightarrow> ('n, 'd) arith \<Rightarrow> binary_op \<Rightarrow> ('n, 'd) value \<Rightarrow> ('n, 'd) value \<Rightarrow> ('n, 'd) value ora_result" where
  "arithmetic E A op x y =
     (if is_null x \<or> is_null y then Inr Null
      else if op = Sub \<and> is_date x \<and> is_date y then
        rbind (to_datetime E [] x) (\<lambda>a. rbind (unwrap a) (\<lambda>a.
        rbind (to_datetime E [] y) (\<lambda>b. rbind (unwrap b) (\<lambda>b.
        let nanos = (case dt_diff_nanos A a b of Some n \<Rightarrow> n | None \<Rightarrow> 0) in
        Inr (Number (round_number E A (bd_div A (bd_from_int E nanos) (bd_from_int E 86400000000000))))))))
      else if (op = Add \<or> op = Sub) \<and> is_date x \<and> \<not> is_date y then add_days E A (op = Sub) x y
      else if op = Add \<and> \<not> is_date x \<and> is_date y then add_days E A False y x
      else if is_date x \<or> is_date y then Inl (Err (inconsistent ''NUMBER'' ''DATE''))
      else
        rbind (to_number E x) (\<lambda>a. rbind (unwrap a) (\<lambda>a.
        rbind (to_number E y) (\<lambda>b. rbind (unwrap b) (\<lambda>b.
        case op of
          Add \<Rightarrow> Inr (Number (bd_add A a b))
        | Sub \<Rightarrow> Inr (Number (bd_sub A a b))
        | Mul \<Rightarrow> Inr (Number (round_number E A (bd_mul A a b)))
        | Div \<Rightarrow>
            if bd_cmp E b (bd_from_int E 0) = Equal then Inl (Err divisor_zero)
            else Inr (Number (round_number E A (bd_div A a b)))
        | _ \<Rightarrow> Inl Panic)))))"

definition bd_sum :: "('n, 'd, 'a) ext \<Rightarrow> ('n, 'd) arith \<Rightarrow> 'n list \<Rightarrow> 'n" where
  "bd_sum E A ns = foldl (bd_add A) (bd_from_int E 0) ns"

fun best_value ::
  "('n, 'd, 'a) ext \<Rightarrow> string \<Rightarrow> bool \<Rightarrow> ('n, 'd) value option \<Rightarrow> ('n, 'd) value list \<Rightarrow> ('n, 'd) value ora_result" where
  "best_value E fmt least best [] = Inr (case best of Some b \<Rightarrow> b | None \<Rightarrow> Null)"
| "best_value E fmt least best (v # vs) =
     (case best of
        None \<Rightarrow> best_value E fmt least (Some v) vs
      | Some b \<Rightarrow>
          rbind (compare E v b fmt) (\<lambda>r.
          let r' = (case r of Some r' \<Rightarrow> r' | None \<Rightarrow> Equal) in
          best_value E fmt least (Some (if least = (r' = Less) \<and> r' \<noteq> Equal then v else b)) vs))"

text \<open>\<open>sort\<close> is stable: a new element goes behind those that are not greater.\<close>

fun insert_sorted :: "('b \<Rightarrow> 'b \<Rightarrow> ordering) \<Rightarrow> 'b \<Rightarrow> 'b list \<Rightarrow> 'b list" where
  "insert_sorted f x [] = [x]"
| "insert_sorted f x (y # ys) = (if f x y = Less then x # y # ys else y # insert_sorted f x ys)"

definition bd_sort :: "('n, 'd, 'a) ext \<Rightarrow> 'n list \<Rightarrow> 'n list" where
  "bd_sort E ns = fold (insert_sorted (bd_cmp E)) ns []"

definition median :: "('n, 'd, 'a) ext \<Rightarrow> ('n, 'd) arith \<Rightarrow> 'n list \<Rightarrow> ('n, 'd) value" where
  "median E A ns0 =
     (let ns = bd_sort E ns0; mid = length ns div 2 in
      if ns = [] then Null
      else if length ns mod 2 = 1 then Number (ns ! mid)
      else Number (round_number E A (bd_div A (bd_add A (ns ! (mid - 1)) (ns ! mid)) (bd_from_int E 2))))"

definition variance :: "('n, 'd, 'a) ext \<Rightarrow> ('n, 'd) arith \<Rightarrow> bool \<Rightarrow> 'n list \<Rightarrow> ('n, 'd) value" where
  "variance E A deviation ns =
     (if ns = [] then Null
      else if length ns = 1 then Number (bd_from_int E 0)
      else
        let count = bd_from_int E (int (length ns)); mean = bd_div A (bd_sum E A ns) count;
            var = round_number E A (bd_div A (bd_sum E A (map (\<lambda>x. bd_mul A (bd_sub A x mean) (bd_sub A x mean)) ns))
              (bd_sub A count (bd_from_int E 1))) in
        if deviation then Number (round_number E A (case bd_sqrt A var of Some r \<Rightarrow> r | None \<Rightarrow> bd_from_int E 0))
        else Number var)"

definition numbers :: "('n, 'd, 'a) ext \<Rightarrow> ('n, 'd) value list \<Rightarrow> 'n list ora_result" where
  "numbers E vs = map_rust (\<lambda>v. rbind (to_number E v) unwrap) vs"

definition aggregate_values ::
  "('n, 'd, 'a) ext \<Rightarrow> ('n, 'd) arith \<Rightarrow> string \<Rightarrow> string \<Rightarrow> ('n, 'd) value list \<Rightarrow> ('n, 'd) value ora_result" where
  "aggregate_values E A fmt name vs =
     (if name = ''COUNT'' then Inr (value_number E (int (length vs)))
      else if name = ''SUM'' then
        if vs = [] then Inr Null else rbind (numbers E vs) (\<lambda>ns. Inr (Number (bd_sum E A ns)))
      else if name = ''AVG'' then
        if vs = [] then Inr Null
        else
          rbind (numbers E vs) (\<lambda>ns.
          Inr (Number (round_number E A (bd_div A (bd_sum E A ns) (bd_from_int E (int (length vs)))))))
      else if name = ''MIN'' \<or> name = ''MAX'' then best_value E fmt (name = ''MIN'') None vs
      else if name = ''MEDIAN'' then rbind (numbers E vs) (\<lambda>ns. Inr (median E A ns))
      else rbind (numbers E vs) (\<lambda>ns. Inr (variance E A (name \<noteq> ''VARIANCE'') ns)))"

definition no_group :: ora_error where
  "no_group = ora 934 ''group function is not allowed here''"

definition with_row_of :: "('n, 'd) value list \<Rightarrow> ('n, 'd) scope \<Rightarrow> ('n, 'd) scope" where
  "with_row_of row sc = Scope (sc_cols sc) row None (sc_rownum sc) (sc_parent sc)"

definition aggregate ::
  "('n, 'd, 'a) ext \<Rightarrow> ('n, 'd) arith \<Rightarrow> ('n, 'd) evaluator \<Rightarrow> ('n, 'd) ex \<Rightarrow> string \<Rightarrow> ('n, 'd) expr list \<Rightarrow> bool \<Rightarrow>
   ('n, 'd) scope \<Rightarrow> ('n, 'd, ('n, 'd) value) ev" where
  "aggregate E A V x name args uniq sc =
     ebind (elift (ok_or (sc_group sc) no_group)) (\<lambda>group.
     case args of
       [arg] \<Rightarrow>
         ebind (emap (\<lambda>row. ev_eval V x arg (with_row_of row sc)) group) (\<lambda>vs0.
         let vs = filter (\<lambda>v. \<not> is_null v) vs0;
             vs' = (if uniq then first_of_key (\<lambda>v. key_string E [v]) [] vs else vs) in
         ebind (eenv env_nls_date_format) (\<lambda>fmt. elift (aggregate_values E A fmt name vs')))
     | _ \<Rightarrow> elift (Inl (Err arg_count)))"

section \<open>Names\<close>

fun resolve_scope :: "('n, 'd) scope option \<Rightarrow> string option \<Rightarrow> string \<Rightarrow> ('n, 'd) value option ora_result" where
  "resolve_scope None table name = Inr None"
| "resolve_scope (Some (Scope cols row grp n par)) table name =
     rbind (find_column cols table name) (\<lambda>i.
     case i of
       Some i \<Rightarrow> Inr (Some (if i < length row then row ! i else Null))
     | None \<Rightarrow> resolve_scope par table name)"

type_synonym ('n, 'd) caller =
  "('n, 'd) catalog \<Rightarrow> ('n, 'd) routine \<Rightarrow> ('n, 'd) value list \<Rightarrow> ('n, 'd, ('n, 'd) value) ev"

definition resolve ::
  "('n, 'd, 'a) ext \<Rightarrow> ('n, 'd) arith \<Rightarrow> ('n, 'd) caller \<Rightarrow> ('n, 'd) ex \<Rightarrow> ('n, 'd) scope \<Rightarrow> string option \<Rightarrow> string \<Rightarrow>
   ('n, 'd, ('n, 'd) value) ev" where
  "resolve E A F x sc table name =
     ebind (elift (resolve_scope (Some sc) table name)) (\<lambda>v.
     case v of
       Some v \<Rightarrow> eret v
     | None \<Rightarrow>
         (case ex_vars x table name of
            Some v \<Rightarrow> eret v
          | None \<Rightarrow>
              ebind (edb (db_routine name)) (\<lambda>r.
              if table = None \<and> r \<noteq> None then call E A F x name []
              else elift (Inl (Err (invalid_column table name))))))"

section \<open>Conditions\<close>

fun and3 :: "bool option \<Rightarrow> bool option \<Rightarrow> bool option" where
  "and3 _ (Some False) = Some False"
| "and3 (Some True) (Some True) = Some True"
| "and3 _ _ = None"

fun or3 :: "bool option \<Rightarrow> bool option \<Rightarrow> bool option" where
  "or3 _ (Some True) = Some True"
| "or3 (Some False) (Some False) = Some False"
| "or3 _ _ = None"

fun compare_op :: "binary_op \<Rightarrow> ordering \<Rightarrow> bool" where
  "compare_op Eq r = (r = Equal)"
| "compare_op NotEq r = (r \<noteq> Equal)"
| "compare_op Lt r = (r = Less)"
| "compare_op LtEq r = (r \<noteq> Greater)"
| "compare_op Gt r = (r = Greater)"
| "compare_op _ r = (r \<noteq> Less)"

definition is_comparison :: "binary_op \<Rightarrow> bool" where
  "is_comparison op = (op \<in> {Eq, NotEq, Lt, LtEq, Gt, GtEq})"

definition between3 :: "bool option \<Rightarrow> bool option \<Rightarrow> bool option" where
  "between3 lo hi =
     (if lo = Some False \<or> hi = Some False then Some False
      else if lo = Some True \<and> hi = Some True then Some True else None)"

definition single_column ::
  "('n, 'd) evaluator \<Rightarrow> ('n, 'd) ex \<Rightarrow> ('n, 'd) query \<Rightarrow> ('n, 'd) scope \<Rightarrow> ('n, 'd, ('n, 'd) value list) ev" where
  "single_column V x q sc =
     ebind (ev_query V x q (Some sc)) (\<lambda>rel.
     if length (rel_cols rel) \<noteq> 1 then eora 913 ''too many values''
     else elift (map_rust (\<lambda>r. if r = [] then Inl Panic else Inr (last r)) (rel_rows rel)))"

definition escape_char ::
  "('n, 'd, 'a) ext \<Rightarrow> ('n, 'd) evaluator \<Rightarrow> ('n, 'd) ex \<Rightarrow> ('n, 'd) scope \<Rightarrow> ('n, 'd) expr option \<Rightarrow> ('n, 'd, char option) ev" where
  "escape_char E V x sc esc =
     (case esc of
        None \<Rightarrow> eret None
      | Some e \<Rightarrow>
          ebind (ev_eval V x e sc) (\<lambda>v.
          ebind (eenv (\<lambda>env. to_text E env v)) (\<lambda>t.
          ebind (elift t) (\<lambda>s.
          case s of
            Some [c] \<Rightarrow> eret (Some c)
          | _ \<Rightarrow> eora 1425 ''escape character must be character string of length 1''))))"

definition eval_bool ::
  "('n, 'd, 'a) ext \<Rightarrow> ('n, 'd) evaluator \<Rightarrow> ('n, 'd) ex \<Rightarrow> ('n, 'd) expr \<Rightarrow> ('n, 'd) scope \<Rightarrow> ('n, 'd, bool option) ev" where
  "eval_bool E V x e sc =
     (let other =
            ebind (ev_eval V x e sc) (\<lambda>v.
            case v of
              Boolean b \<Rightarrow> eret (Some b)
            | Null \<Rightarrow> eret None
            | _ \<Rightarrow> eora 920 ''invalid relational operator'') in
      ebind (eenv env_nls_date_format) (\<lambda>fmt.
      case e of
        Binary op a b \<Rightarrow>
          if op = And then
            ebind (ev_bool V x a sc) (\<lambda>p.
            if p = Some False then eret (Some False) else ebind (ev_bool V x b sc) (\<lambda>q. eret (and3 p q)))
          else if op = Or then
            ebind (ev_bool V x a sc) (\<lambda>p.
            if p = Some True then eret (Some True) else ebind (ev_bool V x b sc) (\<lambda>q. eret (or3 p q)))
          else if is_comparison op then
            ebind (ev_eval V x a sc) (\<lambda>v.
            ebind (ev_eval V x b sc) (\<lambda>w.
            ebind (elift (compare E v w fmt)) (\<lambda>r. eret (map_option (compare_op op) r))))
          else other
      | NotE a \<Rightarrow> ebind (ev_bool V x a sc) (\<lambda>p. eret (map_option Not p))
      | IsNull a negated \<Rightarrow> ebind (ev_eval V x a sc) (\<lambda>v. eret (Some (is_null v \<noteq> negated)))
      | Between a low high negated \<Rightarrow>
          ebind (ev_eval V x a sc) (\<lambda>v.
          ebind (ev_eval V x low sc) (\<lambda>l.
          ebind (elift (compare E v l fmt)) (\<lambda>lo.
          ebind (ev_eval V x high sc) (\<lambda>h.
          ebind (elift (compare E v h fmt)) (\<lambda>hi.
          eret (map_option (\<lambda>b. b \<noteq> negated)
            (between3 (map_option (\<lambda>r. r \<noteq> Less) lo) (map_option (\<lambda>r. r \<noteq> Greater) hi))))))))
      | InList a xs negated \<Rightarrow>
          ebind (ev_eval V x a sc) (\<lambda>v.
          ebind (emap (\<lambda>i. ev_eval V x i sc) xs) (\<lambda>cs.
          ebind (elift (in_values E v cs fmt)) (\<lambda>r. eret (map_option (\<lambda>b. b \<noteq> negated) r))))
      | InSubquery a q negated \<Rightarrow>
          ebind (ev_eval V x a sc) (\<lambda>v.
          ebind (single_column V x q sc) (\<lambda>cs.
          ebind (elift (in_values E v cs fmt)) (\<lambda>r. eret (map_option (\<lambda>b. b \<noteq> negated) r))))
      | Exists q \<Rightarrow> ebind (ev_query V x q (Some sc)) (\<lambda>rel. eret (Some (rel_rows rel \<noteq> [])))
      | Like a p esc negated \<Rightarrow>
          ebind (ev_eval V x a sc) (\<lambda>v.
          ebind (ev_eval V x p sc) (\<lambda>p.
          ebind (escape_char E V x sc esc) (\<lambda>c.
          ebind (eenv (\<lambda>env. to_text E env v)) (\<lambda>s. ebind (elift s) (\<lambda>s.
          ebind (eenv (\<lambda>env. to_text E env p)) (\<lambda>t. ebind (elift t) (\<lambda>t.
          case (s, t) of
            (Some s, Some t) \<Rightarrow> ebind (elift (like s t c)) (\<lambda>b. eret (Some (b \<noteq> negated)))
          | _ \<Rightarrow> eret None)))))))
      | _ \<Rightarrow> other))"

section \<open>Expressions\<close>

definition condition_value ::
  "('n, 'd) evaluator \<Rightarrow> ('n, 'd) ex \<Rightarrow> ('n, 'd) expr \<Rightarrow> ('n, 'd) scope \<Rightarrow> ('n, 'd, ('n, 'd) value) ev" where
  "condition_value V x e sc =
     ebind (ev_bool V x e sc) (\<lambda>p. eret (case p of Some b \<Rightarrow> Boolean b | None \<Rightarrow> Null))"

fun eval_whens ::
  "('n, 'd, 'a) ext \<Rightarrow> ('n, 'd) evaluator \<Rightarrow> ('n, 'd) ex \<Rightarrow> ('n, 'd) scope \<Rightarrow> ('n, 'd) value option \<Rightarrow>
   (('n, 'd) expr \<times> ('n, 'd) expr) list \<Rightarrow> ('n, 'd) expr option \<Rightarrow> ('n, 'd, ('n, 'd) value) ev" where
  "eval_whens E V x sc subject [] els = (case els of Some e \<Rightarrow> ev_eval V x e sc | None \<Rightarrow> eret Null)"
| "eval_whens E V x sc subject ((w, t) # whens) els =
     ebind (case subject of
              Some v \<Rightarrow>
                ebind (ev_eval V x w sc) (\<lambda>c.
                ebind (eenv env_nls_date_format) (\<lambda>fmt.
                ebind (elift (compare E v c fmt)) (\<lambda>r. eret (r = Some Equal))))
            | None \<Rightarrow> ebind (ev_bool V x w sc) (\<lambda>p. eret (p = Some True))) (\<lambda>hit.
     if hit then ev_eval V x t sc else eval_whens E V x sc subject whens els)"

definition eval ::
  "('n, 'd, 'a) ext \<Rightarrow> ('n, 'd) arith \<Rightarrow> ('n, 'd) caller \<Rightarrow> ('n, 'd) evaluator \<Rightarrow> ('n, 'd) ex \<Rightarrow> ('n, 'd) expr \<Rightarrow>
   ('n, 'd) scope \<Rightarrow> ('n, 'd, ('n, 'd) value) ev" where
  "eval E A F V x e sc =
     (case e of
        Literal v \<Rightarrow> eret v
      | Bind i \<Rightarrow> eret (if i < length (ex_binds x) then ex_binds x ! i else Null)
      | Column table name \<Rightarrow> resolve E A F x sc table name
      | RowNum \<Rightarrow> eret (value_number E (sc_rownum sc))
      | SequenceE name nxt \<Rightarrow> sequence E name nxt
      | Neg a \<Rightarrow>
          ebind (ev_eval V x a sc) (\<lambda>v.
          ebind (elift (to_number E v)) (\<lambda>n. eret (case n of Some n \<Rightarrow> Number (bd_neg A n) | None \<Rightarrow> Null)))
      | Binary op a b \<Rightarrow>
          if op \<in> {And, Or, Eq, NotEq, Lt, LtEq, Gt, GtEq} then condition_value V x e sc
          else
            ebind (ev_eval V x a sc) (\<lambda>v.
            ebind (ev_eval V x b sc) (\<lambda>w.
            if op = Concat then
              ebind (eenv (\<lambda>env. to_text E env v)) (\<lambda>s. ebind (elift s) (\<lambda>s.
              ebind (eenv (\<lambda>env. to_text E env w)) (\<lambda>t. ebind (elift t) (\<lambda>t.
              eret (varchar (unwrap_text s @ unwrap_text t))))))
            else elift (arithmetic E A op v w)))
      | CaseE operand whens els \<Rightarrow>
          ebind (case operand of Some o1 \<Rightarrow> ebind (ev_eval V x o1 sc) (\<lambda>v. eret (Some v)) | None \<Rightarrow> eret None) (\<lambda>subject.
          eval_whens E V x sc subject whens els)
      | CountStar \<Rightarrow>
          ebind (elift (ok_or (sc_group sc) no_group)) (\<lambda>group. eret (value_number E (int (length group))))
      | Function name args uniq \<Rightarrow>
          if is_aggregate name then aggregate E A V x name args uniq sc
          else ebind (emap (\<lambda>a. ev_eval V x a sc) args) (call E A F x name)
      | Subquery q \<Rightarrow>
          ebind (single_column V x q sc) (\<lambda>vs.
          case vs of
            [] \<Rightarrow> eret Null
          | [v] \<Rightarrow> eret v
          | _ \<Rightarrow> eora 1427 ''single-row subquery returns more than one row'')
      | _ \<Rightarrow> condition_value V x e sc)"

section \<open>Types of expressions\<close>

text \<open>\<open>find_map\<close>: later results are not looked at, and a panic among them does not happen.\<close>

fun first_some :: "('e, 'b option) rust list \<Rightarrow> ('e, 'b option) rust" where
  "first_some [] = Inr None"
| "first_some (r # rs) = rbind r (\<lambda>x. case x of Some y \<Rightarrow> Inr (Some y) | None \<Rightarrow> first_some rs)"

definition NUMBER_FUNCTIONS :: "string list" where
  "NUMBER_FUNCTIONS =
     [''COUNT'', ''SUM'', ''AVG'', ''STDDEV'', ''VARIANCE'', ''MEDIAN'', ''LENGTH'', ''LENGTHB'', ''INSTR'', ''ABS'',
      ''SIGN'', ''CEIL'', ''FLOOR'', ''MOD'', ''POWER'', ''SQRT'', ''TO_NUMBER'', ''ASCII'', ''MONTHS_BETWEEN'', ''EXP'',
      ''LN'', ''LOG'', ''REMAINDER'']"

definition cast_type :: "('n, 'd) expr \<Rightarrow> sql_type option" where
  "cast_type e =
     (case e of
        Literal (Varchar2 t) \<Rightarrow>
          if t = ''NUMBER'' then Some NUMBER
          else if t = ''DATE'' then Some TDate
          else if t = ''TIMESTAMP'' then Some (TTimestamp 6)
          else if starts_with t ''VARCHAR2:'' then map_option TVarchar2 (parse_unsigned 32 (drop 9 t))
          else None
      | _ \<Rightarrow> None)"

definition is_date_or_none :: "sql_type option \<Rightarrow> bool" where
  "is_date_or_none t = (case t of Some t \<Rightarrow> is_date_type t | None \<Rightarrow> False)"

text \<open>The type of a call; \<open>first\<close> is the type of its first argument.\<close>

definition function_type ::
  "string \<Rightarrow> ('n, 'd) expr list \<Rightarrow> (ora_error, sql_type option) rust \<Rightarrow> (ora_error, sql_type option) rust" where
  "function_type name args first =
     (if name \<in> set NUMBER_FUNCTIONS then Inr (Some NUMBER)
      else if name \<in> {''SYSDATE'', ''CURRENT_DATE'', ''TO_DATE'', ''ADD_MONTHS'', ''LAST_DAY'', ''NEXT_DAY''} then Inr (Some TDate)
      else if name \<in> {''SYSTIMESTAMP'', ''CURRENT_TIMESTAMP'', ''LOCALTIMESTAMP'', ''TO_TIMESTAMP''} then Inr (Some (TTimestamp 6))
      else if name = ''ROUND'' \<or> name = ''TRUNC'' then
        rbind first (\<lambda>t. Inr (Some (if is_date_or_none t then TDate else NUMBER)))
      else if name \<in> {''MIN'', ''MAX'', ''NVL'', ''COALESCE'', ''GREATEST'', ''LEAST''} then first
      else if name \<in> {''UPPER'', ''LOWER'', ''INITCAP''} then
        rbind first (\<lambda>t.
        Inr (case t of Some t \<Rightarrow> if text_width t \<noteq> None then Some t else None | None \<Rightarrow> None))
      else if name = ''EXTRACT'' then Inr (Some NUMBER)
      else if name = ''CAST'' then rbind (index args 1) (\<lambda>a. Inr (cast_type a))
      else Inr None)"

fun static_type :: "rel_col list \<Rightarrow> ('n, 'd) expr \<Rightarrow> (ora_error, sql_type option) rust" where
  "static_type cols (Column table name) =
     Inr (case find_column cols table name of Inr (Some i) \<Rightarrow> Some (rc_type (cols ! i)) | _ \<Rightarrow> None)"
| "static_type cols (Literal v) =
     Inr (case v of Number _ \<Rightarrow> Some NUMBER | Date _ \<Rightarrow> Some TDate | Timestamp _ \<Rightarrow> Some (TTimestamp 9) | _ \<Rightarrow> None)"
| "static_type cols CountStar = Inr (Some NUMBER)"
| "static_type cols RowNum = Inr (Some NUMBER)"
| "static_type cols (Neg _) = Inr (Some NUMBER)"
| "static_type cols (Binary op a b) =
     (if op = Mul \<or> op = Div then Inr (Some NUMBER)
      else if op = Add \<or> op = Sub then
        rbind (static_type cols a) (\<lambda>ta.
        rbind (static_type cols b) (\<lambda>tb.
        Inr (Some (if is_date_or_none ta \<noteq> is_date_or_none tb then TDate else NUMBER))))
      else Inr None)"
| "static_type cols (Function name args _) =
     function_type name args (case map (static_type cols) args of [] \<Rightarrow> Inr None | t # _ \<Rightarrow> t)"
| "static_type cols (CaseE _ whens els) =
     rbind (first_some (map (\<lambda>(_, t). static_type cols t) whens @
       (case els of Some e \<Rightarrow> [static_type cols e] | None \<Rightarrow> []))) (\<lambda>t.
     Inr (case t of Some t \<Rightarrow> if is_number_type t \<or> is_date_type t then Some t else None | None \<Rightarrow> None))"
| "static_type cols _ = Inr None"

section \<open>Sources\<close>

definition table_factor ::
  "('n, 'd) evaluator \<Rightarrow> ('n, 'd) ex \<Rightarrow> ('n, 'd) scope option \<Rightarrow> ('n, 'd) table_factor \<Rightarrow> ('n, 'd, ('n, 'd) relation) ev" where
  "table_factor V x par factor =
     (case factor of
        TableFactor name alias \<Rightarrow>
          let qualifier = Some (case alias of Some a \<Rightarrow> a | None \<Rightarrow> name) in
          (case cat_table (ex_cat x) name of
             Some t \<Rightarrow>
               eret \<lparr>rel_cols = map (\<lambda>c. \<lparr>rc_qualifier = qualifier, rc_name = col_name c, rc_type = col_type c\<rparr>) (tab_columns t),
                     rel_rows = bt_values (tab_rows t)\<rparr>
           | None \<Rightarrow>
               if name = ''DUAL''
               then eret \<lparr>rel_cols = [\<lparr>rc_qualifier = qualifier, rc_name = ''DUMMY'', rc_type = TVarchar2 1\<rparr>],
                          rel_rows = [[varchar ''X'']]\<rparr>
               else elift (Inl (Err table_not_found)))
      | SubqueryFactor q alias \<Rightarrow>
          ebind (ev_query V x q par) (\<lambda>rel.
          eret (rel\<lparr>rel_cols := map (\<lambda>c. c\<lparr>rc_qualifier := alias\<rparr>) (rel_cols rel)\<rparr>)))"

text \<open>The two loops of \<open>join\<close>. The inner one returns, for one row of the left side, which rows of the right side it
  matches; the outer one collects the joined rows and the matched rows of the right side.\<close>

definition join_matches ::
  "('n, 'd) evaluator \<Rightarrow> ('n, 'd) ex \<Rightarrow> ('n, 'd) scope option \<Rightarrow> rel_col list \<Rightarrow> ('n, 'd) expr option \<Rightarrow>
   ('n, 'd) value list list \<Rightarrow> ('n, 'd) value list \<Rightarrow> ('n, 'd, bool list) ev" where
  "join_matches V x par cols on rights l =
     emap (\<lambda>r.
       case on of
         Some on \<Rightarrow> ebind (ev_bool V x on (scope_row cols (l @ r) par)) (\<lambda>p. eret (p = Some True))
       | None \<Rightarrow> eret True) rights"

definition matched_rows :: "'b list \<Rightarrow> bool list \<Rightarrow> 'b list" where
  "matched_rows rows ms = map fst (filter snd (zip rows ms))"

fun join_rows ::
  "join_kind \<Rightarrow> nat \<Rightarrow> ('n, 'd) value list list \<Rightarrow> (('n, 'd) value list \<Rightarrow> ('n, 'd, bool list) ev) \<Rightarrow>
   ('n, 'd) value list list \<Rightarrow> bool list \<Rightarrow> ('n, 'd, ('n, 'd) value list list \<times> bool list) ev" where
  "join_rows kind rw rights match [] seen = eret ([], seen)"
| "join_rows kind rw rights match (l # ls) seen =
     ebind (match l) (\<lambda>ms.
     ebind (join_rows kind rw rights match ls (map2 (\<or>) seen ms)) (\<lambda>(rows, seen').
     eret (map (\<lambda>r. l @ r) (matched_rows rights ms) @
       (if True \<notin> set ms \<and> kind \<in> {LeftJoin, FullJoin} then [l @ replicate rw Null] else []) @ rows, seen')))"

definition join ::
  "('n, 'd) evaluator \<Rightarrow> ('n, 'd) ex \<Rightarrow> ('n, 'd) scope option \<Rightarrow> join_kind \<Rightarrow> ('n, 'd) relation \<Rightarrow> ('n, 'd) relation \<Rightarrow>
   ('n, 'd) expr option \<Rightarrow> ('n, 'd, ('n, 'd) relation) ev" where
  "join V x par kind left right on =
     (let cols = rel_cols left @ rel_cols right in
      ebind (join_rows kind (length (rel_cols right)) (rel_rows right) (join_matches V x par cols on (rel_rows right))
        (rel_rows left) (replicate (length (rel_rows right)) False)) (\<lambda>(rows, seen).
      eret \<lparr>rel_cols = cols,
            rel_rows = rows @
              (if kind \<in> {RightJoin, FullJoin}
               then map (\<lambda>r. replicate (length (rel_cols left)) Null @ r) (matched_rows (rel_rows right) (map Not seen))
               else [])\<rparr>))"

definition source_item ::
  "('n, 'd) evaluator \<Rightarrow> ('n, 'd) ex \<Rightarrow> ('n, 'd) scope option \<Rightarrow> ('n, 'd) from_item \<Rightarrow> ('n, 'd, ('n, 'd) relation) ev" where
  "source_item V x par item =
     ebind (table_factor V x par (f_factor item)) (\<lambda>left.
     efold (\<lambda>j left.
       ebind (table_factor V x par (j_factor j)) (\<lambda>right.
       if j_kind j = CrossJoin then eret (cross left right) else join V x par (j_kind j) left right (j_on j)))
       (f_joins item) left)"

text \<open>The sources of the \<open>FROM\<close> clause, one after the other; without one there is the empty relation.\<close>

definition from_sources ::
  "('n, 'd) evaluator \<Rightarrow> ('n, 'd) ex \<Rightarrow> ('n, 'd) scope option \<Rightarrow> ('n, 'd) from_item list \<Rightarrow> ('n, 'd, ('n, 'd) relation) ev" where
  "from_sources V x par items =
     ebind (efold (\<lambda>item source.
       ebind (source_item V x par item) (\<lambda>rel.
       eret (Some (case source of None \<Rightarrow> rel | Some left \<Rightarrow> cross left rel)))) items None) (\<lambda>source.
     eret (case source of Some rel \<Rightarrow> rel | None \<Rightarrow> \<lparr>rel_cols = [], rel_rows = []\<rparr>))"

section \<open>SELECT\<close>

datatype (dead 'n, dead 'd) sort_key = OutputKey nat | ExprKey "('n, 'd) expr"

datatype (dead 'n, dead 'd) item = SourceItem nat | ExprItem "('n, 'd) expr"

type_synonym ('n, 'd) keyed_rows = "(('n, 'd) value list \<times> ('n, 'd) value list) list"

definition expand_item ::
  "rel_col list \<Rightarrow> ('n, 'd) select_item \<Rightarrow> (('n, 'd) item \<times> string) list ora_result" where
  "expand_item cols item =
     (let source = map (\<lambda>(i, c). (SourceItem i, rc_name c)) in
      case item of
        Star \<Rightarrow> Inr (source (List.enumerate 0 cols))
      | QualifiedStar t \<Rightarrow>
          let found = filter (\<lambda>(i, c). rc_qualifier c = Some t) (List.enumerate 0 cols) in
          if found = [] then Inl (Err (invalid_identifier (quoted t))) else Inr (source found)
      | ItemExpr e name \<Rightarrow> Inr [(ExprItem e, name)])"

definition is_column_item :: "('n, 'd) item \<Rightarrow> bool" where
  "is_column_item i = (case i of SourceItem _ \<Rightarrow> True | ExprItem (Column _ _) \<Rightarrow> True | _ \<Rightarrow> False)"

definition sort_key_by_name :: "(('n, 'd) item \<times> string) list \<Rightarrow> ('n, 'd) expr \<Rightarrow> nat option ora_result" where
  "sort_key_by_name items e =
     (case e of
        Column None name \<Rightarrow>
          (case filter (\<lambda>i. snd (items ! i) = name) [0..<length items] of
             [] \<Rightarrow> Inr None
           | [i] \<Rightarrow> Inr (Some i)
           | is \<Rightarrow>
               if list_all (\<lambda>i. is_column_item (fst (items ! i))) is then Inr (Some (hd is))
               else ora_fail 960 ''ambiguous column naming in select list'')
      | _ \<Rightarrow> Inr None)"

definition sort_key_of ::
  "('n, 'd, 'a) ext \<Rightarrow> (('n, 'd) item \<times> string) list \<Rightarrow> ('n, 'd) order_item \<Rightarrow> ('n, 'd) sort_key ora_result" where
  "sort_key_of E items o1 =
     rbind (sort_key_by_name items (o_expr o1)) (\<lambda>by_name.
     case position_literal E (o_expr o1) of
       Some p \<Rightarrow> if p < 1 \<or> p > int (length items) then order_position else Inr (OutputKey (nat p - 1))
     | None \<Rightarrow> Inr (case by_name of Some i \<Rightarrow> OutputKey i | None \<Rightarrow> ExprKey (o_expr o1)))"

text \<open>The \<open>WHERE\<close> loop: a row's \<open>ROWNUM\<close> is one more than the number of rows accepted before it.\<close>

fun accept_rows ::
  "('n, 'd) evaluator \<Rightarrow> ('n, 'd) ex \<Rightarrow> ('n, 'd) scope option \<Rightarrow> rel_col list \<Rightarrow> ('n, 'd) expr option \<Rightarrow>
   ('n, 'd) value list list \<Rightarrow> (int \<times> ('n, 'd) value list) list \<Rightarrow> ('n, 'd, (int \<times> ('n, 'd) value list) list) ev" where
  "accept_rows V x par cols wh [] accepted = eret accepted"
| "accept_rows V x par cols wh (row # rows) accepted =
     (let rownum = int (length accepted) + 1 in
      ebind (case wh of
               None \<Rightarrow> eret True
             | Some w \<Rightarrow>
                 if contains_aggregate w then elift (Inl (Err no_group))
                 else ebind (ev_bool V x w (Scope cols row None rownum par)) (\<lambda>p. eret (p = Some True))) (\<lambda>keep.
      accept_rows V x par cols wh rows (if keep then accepted @ [(rownum, row)] else accepted)))"

definition item_exprs :: "(('n, 'd) item \<times> string) list \<Rightarrow> ('n, 'd) sort_key list \<Rightarrow> ('n, 'd) expr list" where
  "item_exprs items keys =
     List.map_filter (\<lambda>(i, _). case i of ExprItem e \<Rightarrow> Some e | SourceItem _ \<Rightarrow> None) items @
     List.map_filter (\<lambda>k. case k of ExprKey e \<Rightarrow> Some e | OutputKey _ \<Rightarrow> None) keys"

definition compute_row ::
  "('n, 'd) evaluator \<Rightarrow> ('n, 'd) ex \<Rightarrow> (('n, 'd) item \<times> string) list \<Rightarrow> ('n, 'd) sort_key list \<Rightarrow> ('n, 'd) scope \<Rightarrow>
   ('n, 'd, ('n, 'd) value list \<times> ('n, 'd) value list) ev" where
  "compute_row V x items keys sc =
     with_row (item_exprs items keys)
       (ebind (emap (\<lambda>(i, _). case i of SourceItem i \<Rightarrow> elift (index (sc_row sc) i) | ExprItem e \<Rightarrow> ev_eval V x e sc) items) (\<lambda>vs.
        ebind (emap (\<lambda>k. case k of OutputKey i \<Rightarrow> elift (index vs i) | ExprKey e \<Rightarrow> ev_eval V x e sc) keys) (\<lambda>ks.
        eret (vs, ks))))"

text \<open>Groups in first-seen order, each with the text of its key.\<close>

fun add_to_group :: "string \<Rightarrow> 'b \<Rightarrow> (string \<times> 'b list) list \<Rightarrow> (string \<times> 'b list) list" where
  "add_to_group k row [] = [(k, [row])]"
| "add_to_group k row ((k', rows) # gs) =
     (if k = k' then (k', rows @ [row]) # gs else (k', rows) # add_to_group k row gs)"

definition group_rows ::
  "('n, 'd, 'a) ext \<Rightarrow> ('n, 'd) evaluator \<Rightarrow> ('n, 'd) ex \<Rightarrow> ('n, 'd) scope option \<Rightarrow> rel_col list \<Rightarrow> ('n, 'd) expr list \<Rightarrow>
   (int \<times> ('n, 'd) value list) list \<Rightarrow> ('n, 'd, ('n, 'd) value list list list) ev" where
  "group_rows E V x par cols group_by accepted =
     (if group_by = [] then eret [map snd accepted]
      else
        ebind (efold (\<lambda>(rownum, row) groups.
          ebind (emap (\<lambda>g.
            if contains_aggregate g then elift (Inl (Err no_group))
            else ev_eval V x g (Scope cols row None rownum par)) group_by) (\<lambda>key.
          eret (add_to_group (key_string E key) row groups))) accepted []) (\<lambda>groups.
        eret (map snd groups)))"

definition compute_group ::
  "('n, 'd) evaluator \<Rightarrow> ('n, 'd) ex \<Rightarrow> ('n, 'd) scope option \<Rightarrow> rel_col list \<Rightarrow> ('n, 'd) expr option \<Rightarrow>
   (('n, 'd) item \<times> string) list \<Rightarrow> ('n, 'd) sort_key list \<Rightarrow> nat \<times> ('n, 'd) value list list \<Rightarrow>
   ('n, 'd) keyed_rows \<Rightarrow> ('n, 'd, ('n, 'd) keyed_rows) ev" where
  "compute_group V x par cols having items keys ng out =
     (case ng of (n, grp) \<Rightarrow>
        let first = (case grp of [] \<Rightarrow> replicate (length cols) Null | r # _ \<Rightarrow> r);
            sc = Scope cols first (Some grp) (int n + 1) par in
        ebind (case having of
                 None \<Rightarrow> eret True
               | Some h \<Rightarrow> ebind (ev_bool V x h sc) (\<lambda>p. eret (p = Some True))) (\<lambda>keep.
        if keep then ebind (compute_row V x items keys sc) (\<lambda>r. eret (out @ [r])) else eret out))"

definition is_aggregated ::
  "('n, 'd) select \<Rightarrow> (('n, 'd) item \<times> string) list \<Rightarrow> ('n, 'd) sort_key list \<Rightarrow> bool" where
  "is_aggregated s items keys =
     (s_group_by s \<noteq> [] \<or> s_having s \<noteq> None \<or> list_ex contains_aggregate (item_exprs items keys))"

definition is_source_item :: "('n, 'd) item \<Rightarrow> bool" where
  "is_source_item i = (case i of SourceItem _ \<Rightarrow> True | ExprItem _ \<Rightarrow> False)"

definition result_col ::
  "rel_col list \<Rightarrow> ('n, 'd) keyed_rows \<Rightarrow> nat \<times> ('n, 'd) item \<times> string \<Rightarrow> rel_col ora_result" where
  "result_col cols out p =
     (case p of (i, item, name) \<Rightarrow>
        rbind (case item of
                 SourceItem c \<Rightarrow> rbind (index cols c) (\<lambda>c. Inr (Some (rc_type c)))
               | ExprItem e \<Rightarrow> static_type cols e) (\<lambda>declared.
        Inr \<lparr>rc_qualifier = None, rc_name = name, rc_type = infer_type declared (map (\<lambda>(r, _). r ! i) out)\<rparr>))"

definition eval_select ::
  "('n, 'd, 'a) ext \<Rightarrow> ('n, 'd) evaluator \<Rightarrow> ('n, 'd) ex \<Rightarrow> ('n, 'd) select \<Rightarrow> ('n, 'd) order_item list \<Rightarrow>
   ('n, 'd) scope option \<Rightarrow> ('n, 'd, rel_col list \<times> ('n, 'd) keyed_rows) ev" where
  "eval_select E V x s order_by par =
     ebind (from_sources V x par (s_from s)) (\<lambda>source.
     let cols = rel_cols source in
     ebind (elift (rbind (map_rust (expand_item cols) (s_items s)) (\<lambda>is. Inr (concat is)))) (\<lambda>items.
     ebind (elift (map_rust (sort_key_of E items) order_by)) (\<lambda>keys.
     ebind (accept_rows V x par cols (s_where s) (rel_rows source) []) (\<lambda>accepted.
     ebind (if is_aggregated s items keys then
              if list_ex (\<lambda>(i, _). is_source_item i) items then eora 979 ''not a GROUP BY expression''
              else
                ebind (group_rows E V x par cols (s_group_by s) accepted) (\<lambda>groups.
                efold (compute_group V x par cols (s_having s) items keys) (List.enumerate 0 groups) [])
            else emap (\<lambda>(rownum, row). compute_row V x items keys (Scope cols row None rownum par)) accepted) (\<lambda>out0.
     let out = (if s_distinct s then first_of_key (\<lambda>(vs, _). key_string E vs) [] out0 else out0) in
     ebind (elift (map_rust (result_col cols out) (List.enumerate 0 items))) (\<lambda>out_cols.
     ebind (eenv (\<lambda>env. map_rust (\<lambda>(vs, ks). rbind (coerce_row E vs out_cols env) (\<lambda>vs'. Inr (vs', ks))) out)) (\<lambda>r.
     ebind (elift r) (\<lambda>rows. eret (out_cols, rows)))))))))"

section \<open>Set operations and queries\<close>

definition combine :: "('n, 'd, 'a) ext \<Rightarrow> set_op \<Rightarrow> ('n, 'd) value list list \<Rightarrow> ('n, 'd) value list list \<Rightarrow> ('n, 'd) value list list" where
  "combine E op l r =
     (let right = map (key_string E) r in
      case op of
        UnionAll \<Rightarrow> l @ r
      | Union_op \<Rightarrow> distinct_rows E (l @ r)
      | Intersect \<Rightarrow> distinct_rows E (filter (\<lambda>row. key_string E row \<in> set right) l)
      | Minus \<Rightarrow> distinct_rows E (filter (\<lambda>row. key_string E row \<notin> set right) l))"

fun eval_set_expr ::
  "('n, 'd, 'a) ext \<Rightarrow> ('n, 'd) evaluator \<Rightarrow> ('n, 'd) ex \<Rightarrow> ('n, 'd) scope option \<Rightarrow> ('n, 'd) set_expr \<Rightarrow>
   ('n, 'd, ('n, 'd) relation) ev" where
  "eval_set_expr E V x par (SelectBody s) =
     ebind (eval_select E V x s [] par) (\<lambda>(cols, rows). eret \<lparr>rel_cols = cols, rel_rows = map fst rows\<rparr>)"
| "eval_set_expr E V x par (SetOp op l r) =
     ebind (eval_set_expr E V x par l) (\<lambda>lr.
     ebind (eval_set_expr E V x par r) (\<lambda>rr.
     if length (rel_cols lr) \<noteq> length (rel_cols rr)
     then eora 1789 ''query block has incorrect number of result columns''
     else
       ebind (elift (map_rust (\<lambda>(a, b). rbind (union_type (rc_type a) (rc_type b)) (\<lambda>t. Inr (a\<lparr>rc_type := t\<rparr>)))
         (zip (rel_cols lr) (rel_cols rr)))) (\<lambda>cols.
       ebind (eenv (\<lambda>env. map_rust (\<lambda>row. coerce_row E row cols env) (combine E op (rel_rows lr) (rel_rows rr)))) (\<lambda>rows.
       ebind (elift rows) (\<lambda>rows. eret \<lparr>rel_cols = cols, rel_rows = rows\<rparr>)))))"

text \<open>The comparison of two rows' sort keys; it keeps the first error and goes on with \<open>Equal\<close>.\<close>

fun order_keys ::
  "('n, 'd, 'a) ext \<Rightarrow> string \<Rightarrow> ('n, 'd) order_item list \<Rightarrow> ('n, 'd) value list \<Rightarrow> ('n, 'd) value list \<Rightarrow> ora_error option \<Rightarrow>
   (ora_error, ordering \<times> ora_error option) rust" where
  "order_keys E fmt [] as bs err = Inr (Equal, err)"
| "order_keys E fmt (item # items) (a # as) (b # bs) err =
     (let nulls_first = (case o_nulls_first item of Some f \<Rightarrow> f | None \<Rightarrow> o_desc item) in
      if is_null a \<and> \<not> is_null b then Inr (if nulls_first then Less else Greater, err)
      else if \<not> is_null a \<and> is_null b then Inr (if nulls_first then Greater else Less, err)
      else
        rbind (if is_null a then Inr (Equal, err)
               else
                 (case compare E a b fmt of
                    Inr r \<Rightarrow> Inr (case r of Some r \<Rightarrow> r | None \<Rightarrow> Equal, err)
                  | Inl (Err e) \<Rightarrow> Inr (Equal, case err of Some e' \<Rightarrow> Some e' | None \<Rightarrow> Some e)
                  | Inl Panic \<Rightarrow> Inl Panic
                  | Inl Diverges \<Rightarrow> Inl Diverges)) (\<lambda>(r, err').
        let r' = (if o_desc item then ord_reverse r else r) in
        if r' \<noteq> Equal then Inr (r', err') else order_keys E fmt items as bs err'))"
| "order_keys E fmt (item # items) _ _ err = Inl Panic"

text \<open>One step of the insertion sort: the new row moves left while it is less than the row before it. The sorted
  rows are kept last first.\<close>

fun insert_tail ::
  "('b \<Rightarrow> 'b \<Rightarrow> 'e \<Rightarrow> (ora_error, ordering \<times> 'e) rust) \<Rightarrow> 'b \<Rightarrow> 'b list \<Rightarrow> 'e \<Rightarrow> (ora_error, 'b list \<times> 'e) rust" where
  "insert_tail f x [] err = Inr ([x], err)"
| "insert_tail f x (y # ys) err =
     rbind (f x y err) (\<lambda>(r, err').
     if r = Less then rbind (insert_tail f x ys err') (\<lambda>(zs, err''). Inr (y # zs, err''))
     else Inr (x # y # ys, err'))"

fun sort_by ::
  "('b \<Rightarrow> 'b \<Rightarrow> 'e \<Rightarrow> (ora_error, ordering \<times> 'e) rust) \<Rightarrow> 'b list \<Rightarrow> 'b list \<Rightarrow> 'e \<Rightarrow> (ora_error, 'b list \<times> 'e) rust" where
  "sort_by f [] acc err = Inr (rev acc, err)"
| "sort_by f (x # xs) acc err =
     rbind (insert_tail f x acc err) (\<lambda>(acc', err'). sort_by f xs acc' err')"

definition sort_rows ::
  "('n, 'd, 'a) ext \<Rightarrow> string \<Rightarrow> ('n, 'd) order_item list \<Rightarrow> ('n, 'd) keyed_rows \<Rightarrow> ('n, 'd) keyed_rows ora_result" where
  "sort_rows E fmt order_by rows =
     rbind (sort_by (\<lambda>a b. order_keys E fmt order_by (snd a) (snd b)) rows [] None) (\<lambda>(rows', err).
     case err of None \<Rightarrow> Inr rows' | Some e \<Rightarrow> Inl (Err e))"

definition row_limit ::
  "('n, 'd, 'a) ext \<Rightarrow> ('n, 'd) evaluator \<Rightarrow> ('n, 'd) ex \<Rightarrow> ('n, 'd) scope option \<Rightarrow> ('n, 'd) expr option \<Rightarrow> ('n, 'd, nat option) ev" where
  "row_limit E V x par e =
     (case e of
        None \<Rightarrow> eret None
      | Some e \<Rightarrow>
          ebind (ev_eval V x e (scope_empty par)) (\<lambda>v.
          ebind (elift (to_number E v)) (\<lambda>n.
          eret (Some (case n of
            None \<Rightarrow> 0
          | Some n \<Rightarrow>
              let n' = bd_with_scale_round E n 0 Down in
              if bd_cmp E n' (bd_from_int E 0) \<noteq> Greater then 0
              else (case parse_unsigned 64 (bd_to_string E n') of Some k \<Rightarrow> k | None \<Rightarrow> 2 ^ 64 - 1))))))"

definition eval_query ::
  "('n, 'd, 'a) ext \<Rightarrow> ('n, 'd) evaluator \<Rightarrow> ('n, 'd) ex \<Rightarrow> ('n, 'd) query \<Rightarrow> ('n, 'd) scope option \<Rightarrow>
   ('n, 'd, ('n, 'd) relation) ev" where
  "eval_query E V x q par =
     ebind (case q_body q of
              SelectBody s \<Rightarrow> eval_select E V x s (q_order_by q) par
            | body \<Rightarrow>
                ebind (eval_set_expr E V x par body) (\<lambda>rel.
                ebind (elift (map_rust (\<lambda>item.
                    rbind (output_position E (o_expr item) (rel_cols rel)) (\<lambda>i.
                    case i of Some i \<Rightarrow> Inr i | None \<Rightarrow> order_position)) (q_order_by q))) (\<lambda>keys.
                ebind (elift (map_rust (\<lambda>r. rbind (map_rust (index r) keys) (\<lambda>ks. Inr (r, ks))) (rel_rows rel))) (\<lambda>rows.
                eret (rel_cols rel, rows))))) (\<lambda>(cols, rows0).
     ebind (eenv env_nls_date_format) (\<lambda>fmt.
     ebind (elift (if q_order_by q = [] then Inr rows0 else sort_rows E fmt (q_order_by q) rows0)) (\<lambda>rows1.
     ebind (row_limit E V x par (q_offset q)) (\<lambda>offset.
     ebind (row_limit E V x par (q_fetch q)) (\<lambda>fetch.
     let rows2 = (case offset of Some k \<Rightarrow> drop k (map fst rows1) | None \<Rightarrow> map fst rows1) in
     eret \<lparr>rel_cols = cols, rel_rows = (case fetch of Some k \<Rightarrow> take k rows2 | None \<Rightarrow> rows2)\<rparr>)))))"

section \<open>The evaluator\<close>

definition stuck :: "('n, 'd) evaluator" where
  "stuck = \<lparr>ev_eval = \<lambda>_ _ _. elift (Inl Diverges), ev_bool = \<lambda>_ _ _. elift (Inl Diverges),
            ev_query = \<lambda>_ _ _. elift (Inl Diverges)\<rparr>"

definition eval_step ::
  "('n, 'd, 'a) ext \<Rightarrow> ('n, 'd) arith \<Rightarrow> ('n, 'd) caller \<Rightarrow> ('n, 'd) evaluator \<Rightarrow> ('n, 'd) evaluator" where
  "eval_step E A F V = \<lparr>ev_eval = eval E A F V, ev_bool = eval_bool E V, ev_query = eval_query E V\<rparr>"

definition evaluator_at ::
  "('n, 'd, 'a) ext \<Rightarrow> ('n, 'd) arith \<Rightarrow> ('n, 'd) caller \<Rightarrow> nat \<Rightarrow> ('n, 'd) evaluator" where
  "evaluator_at E A F n = (eval_step E A F ^^ n) stuck"

end
