(* ===== verification/Plsql.thy ===== *)
theory Plsql
  imports Eval
begin

text \<open>
  The state of the PL/SQL interpreter (\<open>crates/mock-oracle-core/src/plsql/exec.rs\<close>): exceptions, variables,
  cursors and frames, what a host provides, and the operations on them that run no statement. The
  interpreter works on a host, the session or the read-only host of a stored function that SQL calls; a host
  is a record of what the trait \<open>Host\<close> offers over its own state \<open>'h\<close>.
\<close>

section \<open>Runtime state\<close>

record exc =
  exc_err :: ora_error
  exc_user :: "string option"

definition exc_of :: "ora_error \<Rightarrow> exc" where
  "exc_of e = \<lparr>exc_err = e, exc_user = None\<rparr>"

definition sqlcode :: "exc \<Rightarrow> int" where
  "sqlcode x =
     (if exc_user x \<noteq> None \<and> err_code (exc_err x) = 6510 then 1
      else if err_code (exc_err x) = 1403 then 100
      else - int (err_code (exc_err x)))"

definition sqlerrm :: "exc \<Rightarrow> string" where
  "sqlerrm x =
     (if exc_user x \<noteq> None \<and> err_code (exc_err x) = 6510 then ''User-Defined Exception'' else ora_display (exc_err x))"

datatype (dead 'n, dead 'd) flow =
    FNormal
  | FExit "string option"
  | FContinue "string option"
  | FReturn "('n, 'd) value option"

datatype var_type = VSql sql_type | VBoolean | VInteger | VRecord

datatype (dead 'n, dead 'd) slot =
    Scalar "('n, 'd) value"
  | Fields "(string \<times> ('n, 'd) value) list"

record ('n, 'd) var =
  var_ty :: var_type
  var_slot :: "('n, 'd) slot"
  var_constant :: bool
  var_not_null :: bool

record ('n, 'd) open_cursor =
  oc_rows :: "('n, 'd) value list list"
  oc_columns :: "string list"
  oc_rowcount :: nat
  oc_found :: "bool option"

record ('n, 'd) cursor =
  cs_decl :: "('n, 'd) cursor_decl"
  cs_open :: "('n, 'd) open_cursor option"

record ('n, 'd) frame =
  fr_vars :: "(string \<times> ('n, 'd) var) list"
  fr_exceptions :: "(string \<times> nat option) list"
  fr_cursors :: "(string \<times> ('n, 'd) cursor) list"
  fr_routines :: "('n, 'd) routine list"

definition frame_default :: "('n, 'd) frame" where
  "frame_default = \<lparr>fr_vars = [], fr_exceptions = [], fr_cursors = [], fr_routines = []\<rparr>"

record column =
  c_name :: string
  c_type :: sql_type

record ('n, 'd) outcome =
  o_rows_affected :: nat
  o_rows :: "('n, 'd) value list list"
  o_columns :: "column list"

definition outcome_default :: "('n, 'd) outcome" where
  "outcome_default = \<lparr>o_rows_affected = 0, o_rows = [], o_columns = []\<rparr>"

definition outcome_of :: "('n, 'd) relation \<Rightarrow> ('n, 'd) outcome" where
  "outcome_of rel =
     \<lparr>o_rows_affected = length (rel_rows rel), o_rows = rel_rows rel,
      o_columns = map (\<lambda>c. \<lparr>c_name = rc_name c, c_type = rc_type c\<rparr>) (rel_cols rel)\<rparr>"

definition names :: "('n, 'd) outcome \<Rightarrow> string list" where
  "names o1 = map c_name (o_columns o1)"

type_synonym ('n, 'd) vars = "string option \<Rightarrow> string \<Rightarrow> ('n, 'd) value option"

abbreviation no_vars :: "('n, 'd) vars" where
  "no_vars \<equiv> (\<lambda>_ _. None)"

record ('n, 'd, 'h) host =
  h_cat :: "'h \<Rightarrow> ('n, 'd) catalog"
  h_est :: "'h \<Rightarrow> ('n, 'd) est"
  h_put :: "('n, 'd) est \<Rightarrow> 'h \<Rightarrow> 'h"
  h_execute :: "('n, 'd) statement \<Rightarrow> ('n, 'd) value list \<Rightarrow> ('n, 'd) vars \<Rightarrow> 'h \<Rightarrow> ('n, 'd) outcome ora_result \<times> 'h"

text \<open>What an interpreter is given: the two crates, the query evaluator, its host, and \<open>parser::parse\<close>, which
  \<open>EXECUTE IMMEDIATE\<close> calls and which returns the statement and its number of binds.\<close>

record ('n, 'd, 'a, 'h) world =
  w_ext :: "('n, 'd, 'a) ext"
  w_arith :: "('n, 'd) arith"
  w_eval :: "('n, 'd) evaluator"
  w_host :: "('n, 'd, 'h) host"
  w_parse :: "string \<Rightarrow> (('n, 'd) statement \<times> nat) ora_result"

record ('n, 'd, 'h) interp =
  ip_host :: 'h
  ip_binds :: "('n, 'd) value list"
  ip_frames :: "('n, 'd) frame list"
  ip_rowcount :: "nat option"
  ip_handling :: "exc list"

definition interp_new :: "'h \<Rightarrow> ('n, 'd) value list \<Rightarrow> ('n, 'd, 'h) interp" where
  "interp_new host binds = \<lparr>ip_host = host, ip_binds = binds, ip_frames = [], ip_rowcount = None, ip_handling = []\<rparr>"

section \<open>Computations\<close>

type_synonym ('n, 'd, 'h, 'r) im = "('n, 'd, 'h) interp \<Rightarrow> (exc, 'r) rust \<times> ('n, 'd, 'h) interp"

definition iret :: "'r \<Rightarrow> ('n, 'd, 'h, 'r) im" where
  "iret r s = (Inr r, s)"

definition ilift :: "(exc, 'r) rust \<Rightarrow> ('n, 'd, 'h, 'r) im" where
  "ilift r s = (r, s)"

definition ibind :: "('n, 'd, 'h, 'p) im \<Rightarrow> ('p \<Rightarrow> ('n, 'd, 'h, 'r) im) \<Rightarrow> ('n, 'd, 'h, 'r) im" where
  "ibind m f s = (case m s of (Inl x, s') \<Rightarrow> (Inl x, s') | (Inr a, s') \<Rightarrow> f a s')"

definition iget :: "(('n, 'd, 'h) interp \<Rightarrow> 'r) \<Rightarrow> ('n, 'd, 'h, 'r) im" where
  "iget f s = (Inr (f s), s)"

definition imod :: "(('n, 'd, 'h) interp \<Rightarrow> ('n, 'd, 'h) interp) \<Rightarrow> ('n, 'd, 'h, unit) im" where
  "imod f s = (Inr (), f s)"

definition iora :: "'r ora_result \<Rightarrow> ('n, 'd, 'h, 'r) im" where
  "iora r = ilift (map_err exc_of r)"

abbreviation ifail :: "ora_error \<Rightarrow> ('n, 'd, 'h, 'r) im" where
  "ifail e \<equiv> ilift (Inl (Err (exc_of e)))"

fun imap :: "('p \<Rightarrow> ('n, 'd, 'h, 'r) im) \<Rightarrow> 'p list \<Rightarrow> ('n, 'd, 'h, 'r list) im" where
  "imap f [] = iret []"
| "imap f (x # xs) = ibind (f x) (\<lambda>y. ibind (imap f xs) (\<lambda>ys. iret (y # ys)))"

fun ieach :: "('p \<Rightarrow> ('n, 'd, 'h, unit) im) \<Rightarrow> 'p list \<Rightarrow> ('n, 'd, 'h, unit) im" where
  "ieach f [] = iret ()"
| "ieach f (x # xs) = ibind (f x) (\<lambda>_. ieach f xs)"

text \<open>\<open>let result = m; cleanup; result\<close>: the cleanup also follows an exception, not a panic.\<close>

definition ifinally :: "('n, 'd, 'h, 'r) im \<Rightarrow> (('n, 'd, 'h) interp \<Rightarrow> ('n, 'd, 'h) interp) \<Rightarrow> ('n, 'd, 'h, 'r) im" where
  "ifinally m f s =
     (case m s of
        (Inr r, s') \<Rightarrow> (Inr r, f s')
      | (Inl (Err e), s') \<Rightarrow> (Inl (Err e), f s')
      | (Inl x, s') \<Rightarrow> (Inl x, s'))"

text \<open>A computation over the database and \<open>Env\<close> of the host.\<close>

definition iev :: "('n, 'd, 'a, 'h) world \<Rightarrow> ('n, 'd, 'r) ev \<Rightarrow> ('n, 'd, 'h, 'r) im" where
  "iev W m s =
     (let H = w_host W in
      case m (h_est H (ip_host s)) of
        (r, est) \<Rightarrow> (map_err exc_of r, s\<lparr>ip_host := h_put H est (ip_host s)\<rparr>))"

definition ienv :: "('n, 'd, 'a, 'h) world \<Rightarrow> ('d env \<Rightarrow> 'r) \<Rightarrow> ('n, 'd, 'h, 'r) im" where
  "ienv W f = iget (\<lambda>s. f (snd (h_est (w_host W) (ip_host s))))"

section \<open>Errors\<close>

definition pls :: "nat \<Rightarrow> string \<Rightarrow> ora_error" where
  "pls c m = ora 6550 (''PLS-'' @ pad_zero 5 (nat_str c) @ '': '' @ m)"

definition apos :: "string \<Rightarrow> string" where
  "apos s = [CHR 0x27] @ s @ [CHR 0x27]"

definition not_declared :: "string \<Rightarrow> ora_error" where
  "not_declared n = pls 201 (''identifier '' @ apos n @ '' must be declared'')"

definition undeclared :: "ora_error \<Rightarrow> ora_error" where
  "undeclared e =
     (if err_code e \<noteq> 904 then e
      else
        let quote = (\<lambda>c. c = CHR 0x22); first = takeWhile (\<lambda>c. c \<noteq> CHR '':'') (err_message e) in
        not_declared (trim_end_matches quote (dropWhile quote first)))"

definition value_error :: "string \<Rightarrow> ora_error" where
  "value_error detail = ora 6502 (''PL/SQL: numeric or value error'' @ detail)"

definition wrong_type :: ora_error where
  "wrong_type = pls 382 ''expression is of wrong type''"

definition no_data_found :: ora_error where
  "no_data_found = ora 1403 ''no data found''"

definition too_many_rows :: ora_error where
  "too_many_rows = ora 1422 ''exact fetch returns more than requested number of rows''"

definition invalid_cursor :: ora_error where
  "invalid_cursor = ora 1001 ''invalid cursor''"

definition PREDEFINED :: "(string \<times> nat \<times> string) list" where
  "PREDEFINED =
     [(''NO_DATA_FOUND'', 1403, ''no data found''),
      (''TOO_MANY_ROWS'', 1422, ''exact fetch returns more than requested number of rows''),
      (''DUP_VAL_ON_INDEX'', 1, ''unique constraint violated''),
      (''ZERO_DIVIDE'', 1476, ''divisor is equal to zero''),
      (''VALUE_ERROR'', 6502, ''PL/SQL: numeric or value error''),
      (''INVALID_NUMBER'', 1722, ''invalid number''),
      (''INVALID_CURSOR'', 1001, ''invalid cursor''),
      (''CURSOR_ALREADY_OPEN'', 6511, ''PL/SQL: cursor already open''),
      (''CASE_NOT_FOUND'', 6592, ''CASE not found while executing CASE statement''),
      (''PROGRAM_ERROR'', 6501, ''PL/SQL: program error''),
      (''STORAGE_ERROR'', 6500, ''PL/SQL: storage error''),
      (''LOGIN_DENIED'', 1017, ''invalid username/password; logon denied''),
      (''NOT_LOGGED_ON'', 1012, ''not logged on''),
      (''TIMEOUT_ON_RESOURCE'', 51, ''timeout occurred while waiting for a resource''),
      (''ROWTYPE_MISMATCH'', 6504, ''PL/SQL: Return types of Result Set variables or query do not match'')]"

definition predefined :: "string \<Rightarrow> (nat \<times> string) option" where
  "predefined name = map_of PREDEFINED name"

definition as_value_error :: "ora_error \<Rightarrow> ora_error" where
  "as_value_error e =
     (if err_code e = 12899 then value_error '': character string buffer too small''
      else if err_code e = 1438 then value_error '': number precision too large''
      else if err_code e = 1722 then value_error '': character to number conversion error''
      else e)"

section \<open>Names\<close>

text \<open>The innermost frame that has the name, and in it the latest entry.\<close>

fun lookup_frames :: "(('n, 'd) frame \<Rightarrow> (string \<times> 'v) list) \<Rightarrow> ('n, 'd) frame list \<Rightarrow> string \<Rightarrow> 'v option" where
  "lookup_frames sel [] n = None"
| "lookup_frames sel (f # fs) n =
     (case lookup_frames sel fs n of Some v \<Rightarrow> Some v | None \<Rightarrow> map_of (rev (sel f)) n)"

fun update_latest :: "string \<Rightarrow> ('v \<Rightarrow> 'v) \<Rightarrow> (string \<times> 'v) list \<Rightarrow> (string \<times> 'v) list" where
  "update_latest n g [] = []"
| "update_latest n g ((m, v) # xs) =
     (if map_of xs n \<noteq> None then (m, v) # update_latest n g xs
      else if m = n then (m, g v) # xs else (m, v) # xs)"

fun update_frames ::
  "(('n, 'd) frame \<Rightarrow> (string \<times> 'v) list) \<Rightarrow>
   (((string \<times> 'v) list \<Rightarrow> (string \<times> 'v) list) \<Rightarrow> ('n, 'd) frame \<Rightarrow> ('n, 'd) frame) \<Rightarrow>
   string \<Rightarrow> ('v \<Rightarrow> 'v) \<Rightarrow> ('n, 'd) frame list \<Rightarrow> ('n, 'd) frame list" where
  "update_frames sel put n g [] = []"
| "update_frames sel put n g (f # fs) =
     (if lookup_frames sel fs n \<noteq> None then f # update_frames sel put n g fs
      else put (update_latest n g) f # fs)"

definition find_var :: "string \<Rightarrow> ('n, 'd, 'h, ('n, 'd) var option) im" where
  "find_var n = iget (\<lambda>s. lookup_frames fr_vars (ip_frames s) n)"

definition set_var :: "string \<Rightarrow> (('n, 'd) var \<Rightarrow> ('n, 'd) var) \<Rightarrow> ('n, 'd, 'h, unit) im" where
  "set_var n g = imod (\<lambda>s. s\<lparr>ip_frames := update_frames fr_vars fr_vars_update n g (ip_frames s)\<rparr>)"

definition is_var :: "('n, 'd) frame list \<Rightarrow> string \<Rightarrow> bool" where
  "is_var frames name = list_ex (\<lambda>f. list_ex (\<lambda>(n, _). n = name) (fr_vars f)) frames"

text \<open>\<open>name.split('.').count()\<close> and the routine a name stands for: a local one, innermost first, or a stored one.\<close>

definition dots :: "string \<Rightarrow> nat" where
  "dots name = length (filter (\<lambda>c. c = CHR ''.'') name)"

definition find_routine :: "('n, 'd) frame list \<Rightarrow> ('n, 'd) database \<Rightarrow> string \<Rightarrow> ('n, 'd) routine option" where
  "find_routine frames db name =
     (case find (\<lambda>r. r_name r = name) (concat (map (\<lambda>f. rev (fr_routines f)) (rev frames))) of
        Some r \<Rightarrow> Some r
      | None \<Rightarrow>
          let short = short_name name in
          if short \<noteq> name \<and> dots name + 1 > 2 then None else db_routine short db)"

text \<open>\<open>Vars::lookup\<close>: the variables a SQL expression sees, \<open>SQLCODE\<close> and \<open>SQLERRM\<close>, and the attributes of cursors.\<close>

definition boolean_value :: "bool option \<Rightarrow> ('n, 'd) value" where
  "boolean_value b = (case b of Some b \<Rightarrow> Boolean b | None \<Rightarrow> Null)"

definition sql_attribute :: "('n, 'd, 'a) ext \<Rightarrow> nat option \<Rightarrow> string \<Rightarrow> ('n, 'd) value option" where
  "sql_attribute E rowcount name =
     (if name = ''ROWCOUNT'' then Some (case rowcount of Some n \<Rightarrow> value_number E (int n) | None \<Rightarrow> Null)
      else if name = ''FOUND'' then Some (boolean_value (map_option (\<lambda>n. n > 0) rowcount))
      else if name = ''NOTFOUND'' then Some (boolean_value (map_option (\<lambda>n. n = 0) rowcount))
      else if name = ''ISOPEN'' then Some (Boolean False)
      else None)"

definition cursor_attribute :: "('n, 'd, 'a) ext \<Rightarrow> ('n, 'd) open_cursor option \<Rightarrow> string \<Rightarrow> ('n, 'd) value option" where
  "cursor_attribute E oc name =
     (if name = ''ISOPEN'' then Some (Boolean (oc \<noteq> None))
      else if name = ''FOUND'' then Some (boolean_value (Option.bind oc oc_found))
      else if name = ''NOTFOUND'' then Some (boolean_value (map_option Not (Option.bind oc oc_found)))
      else if name = ''ROWCOUNT'' then Some (case oc of Some c \<Rightarrow> value_number E (int (oc_rowcount c)) | None \<Rightarrow> Null)
      else None)"

definition vars_lookup ::
  "('n, 'd, 'a) ext \<Rightarrow> ('n, 'd) frame list \<Rightarrow> nat option \<Rightarrow> exc option \<Rightarrow> ('n, 'd) vars" where
  "vars_lookup E frames rowcount handling qualifier name =
     (case qualifier of
        None \<Rightarrow>
          (case lookup_frames fr_vars frames name of
             Some v \<Rightarrow> (case var_slot v of Scalar x \<Rightarrow> Some x | Fields _ \<Rightarrow> None)
           | None \<Rightarrow>
               if name = ''SQLCODE'' then Some (value_number E (case handling of Some x \<Rightarrow> sqlcode x | None \<Rightarrow> 0))
               else if name = ''SQLERRM'' then
                 Some (varchar (case handling of Some x \<Rightarrow> sqlerrm x | None \<Rightarrow> ''ORA-0000: normal, successful completion''))
               else None)
      | Some q \<Rightarrow>
          if q = ''SQL%'' then sql_attribute E rowcount name
          else if ends_with q ''%'' then
            Option.bind (lookup_frames fr_cursors frames (butlast q)) (\<lambda>c. cursor_attribute E (cs_open c) name)
          else
            (case lookup_frames fr_vars frames q of
               Some v \<Rightarrow> (case var_slot v of Fields fs \<Rightarrow> map_of fs name | Scalar _ \<Rightarrow> None)
             | None \<Rightarrow> None))"

definition ip_vars :: "('n, 'd, 'a, 'h) world \<Rightarrow> ('n, 'd, 'h) interp \<Rightarrow> ('n, 'd) vars" where
  "ip_vars W s =
     vars_lookup (w_ext W) (ip_frames s) (ip_rowcount s)
       (if ip_handling s = [] then None else Some (last (ip_handling s)))"

text \<open>\<open>with_ex(&self.binds, Some(&vars), ..)\<close>.\<close>

definition with_ex :: "('n, 'd, 'a, 'h) world \<Rightarrow> (('n, 'd) ex \<Rightarrow> ('n, 'd, 'r) ev) \<Rightarrow> ('n, 'd, 'h, 'r) im" where
  "with_ex W f s =
     iev W (f \<lparr>ex_cat = h_cat (w_host W) (ip_host s), ex_binds = ip_binds s, ex_vars = ip_vars W s\<rparr>) s"

definition icat :: "('n, 'd, 'a, 'h) world \<Rightarrow> (('n, 'd) catalog \<Rightarrow> 'r) \<Rightarrow> ('n, 'd, 'h, 'r) im" where
  "icat W f = iget (\<lambda>s. f (h_cat (w_host W) (ip_host s)))"

section \<open>Variables\<close>

definition on_last_frame :: "(('n, 'd) frame \<Rightarrow> ('n, 'd) frame) \<Rightarrow> ('n, 'd, 'h, unit) im" where
  "on_last_frame f s =
     (if ip_frames s = [] then (Inl Panic, s)
      else (Inr (), s\<lparr>ip_frames := butlast (ip_frames s) @ [f (last (ip_frames s))]\<rparr>))"

definition declare_var :: "string \<Rightarrow> ('n, 'd) var \<Rightarrow> ('n, 'd, 'h, unit) im" where
  "declare_var n v = on_last_frame (\<lambda>f. f\<lparr>fr_vars := fr_vars f @ [(n, v)]\<rparr>)"

definition resolve_type :: "('n, 'd, 'a, 'h) world \<Rightarrow> type_ref \<Rightarrow> ('n, 'd, 'h, var_type \<times> ('n, 'd) slot) im" where
  "resolve_type W ty =
     (case ty of
        SqlRef t \<Rightarrow> iret (VSql t, Scalar Null)
      | BooleanRef \<Rightarrow> iret (VBoolean, Scalar Null)
      | IntegerRef \<Rightarrow> iret (VInteger, Scalar Null)
      | TypeOf (Some table) name \<Rightarrow>
          ibind (icat W (\<lambda>cat. Option.bind (cat_table cat table) (\<lambda>t.
            map_option (\<lambda>i. col_type (tab_columns t ! i)) (column_index t name)))) (\<lambda>t.
          case t of
            Some t \<Rightarrow> iret (VSql t, Scalar Null)
          | None \<Rightarrow> ifail (not_declared (table @ ''.'' @ name)))
      | TypeOf None name \<Rightarrow>
          ibind (find_var name) (\<lambda>v.
          case v of
            Some v \<Rightarrow>
              (case var_slot v of
                 Scalar _ \<Rightarrow> iret (var_ty v, Scalar Null)
               | Fields fs \<Rightarrow> iret (VRecord, Fields (map (\<lambda>(n, _). (n, Null)) fs)))
          | None \<Rightarrow> ifail (not_declared name))
      | RowType name \<Rightarrow>
          ibind (iget (\<lambda>s. list_ex (\<lambda>f. list_ex (\<lambda>(n, _). n = name) (fr_cursors f)) (ip_frames s))) (\<lambda>cursor.
          if cursor then iret (VRecord, Fields [])
          else
            ibind (icat W (\<lambda>cat. cat_table cat name)) (\<lambda>t.
            case t of
              Some t \<Rightarrow> iret (VRecord, Fields (map (\<lambda>c. (col_name c, Null)) (tab_columns t)))
            | None \<Rightarrow> ifail (not_declared name))))"

definition nameless_column :: "sql_type \<Rightarrow> ('n, 'd) table_column" where
  "nameless_column t = \<lparr>col_name = [], col_type = t, col_default = None, col_not_null = False, col_identity = False\<rparr>"

definition convert :: "('n, 'd, 'a, 'h) world \<Rightarrow> var_type \<Rightarrow> ('n, 'd) value \<Rightarrow> ('n, 'd, 'h, ('n, 'd) value) im" where
  "convert W ty v =
     (if is_null v then iret Null
      else
        (case ty of
           VRecord \<Rightarrow> ifail wrong_type
         | VBoolean \<Rightarrow> if is_boolean v then iret v else ifail wrong_type
         | VInteger \<Rightarrow>
             if is_boolean v then ifail wrong_type
             else
               ibind (iora (map_err as_value_error (to_number (w_ext W) v))) (\<lambda>n.
               ibind (iora (unwrap n)) (\<lambda>n. iret (Number (bd_with_scale_round (w_ext W) n 0 HalfUp))))
         | VSql t \<Rightarrow>
             if is_boolean v then ifail wrong_type
             else
               ibind (ienv W id) (\<lambda>env.
               iora (map_err as_value_error (store_value (w_ext W) env (env_user env) [] (nameless_column t) v)))))"

text \<open>The field of a record; a record without fields takes its first one from the assignment.\<close>

definition set_field ::
  "string \<Rightarrow> ('n, 'd) value \<Rightarrow> (string \<times> ('n, 'd) value) list \<Rightarrow> (string \<times> ('n, 'd) value) list option" where
  "set_field field v fs =
     (if fs = [] then Some [(field, v)]
      else
        (case position (\<lambda>(n, _). n = field) fs of
           Some i \<Rightarrow> Some (fs[i := (field, v)])
         | None \<Rightarrow> None))"

definition assign :: "('n, 'd, 'a, 'h) world \<Rightarrow> target \<Rightarrow> ('n, 'd) value \<Rightarrow> ('n, 'd, 'h, unit) im" where
  "assign W target v =
     (case target of
        BindTarget i \<Rightarrow>
          imod (\<lambda>s. s\<lparr>ip_binds := (ip_binds s @ replicate (i + 1 - length (ip_binds s)) Null)[i := v]\<rparr>)
      | VarTarget name \<Rightarrow>
          ibind (find_var name) (\<lambda>var.
          case var of
            None \<Rightarrow> ifail (not_declared name)
          | Some var \<Rightarrow>
              if var_constant var
              then ifail (pls 363 (''expression '' @ apos name @ '' cannot be used as an assignment target''))
              else
                ibind (convert W (var_ty var) v) (\<lambda>v'.
                if var_not_null var \<and> is_null v' then ifail (value_error [])
                else set_var name (\<lambda>var. var\<lparr>var_slot := Scalar v'\<rparr>)))
      | FieldTarget rcd field \<Rightarrow>
          ibind (find_var rcd) (\<lambda>var.
          case var of
            None \<Rightarrow> ifail (not_declared rcd)
          | Some var \<Rightarrow>
              (case var_slot var of
                 Scalar _ \<Rightarrow> ifail (pls 302 (''component '' @ apos field @ '' must be declared''))
               | Fields fs \<Rightarrow>
                   (case set_field field v fs of
                      Some fs' \<Rightarrow> set_var rcd (\<lambda>var. var\<lparr>var_slot := Fields fs'\<rparr>)
                    | None \<Rightarrow> ifail (pls 302 (''component '' @ apos field @ '' must be declared''))))))"

definition assign_values :: "('n, 'd, 'a, 'h) world \<Rightarrow> target list \<Rightarrow> ('n, 'd) value list \<Rightarrow> ('n, 'd, 'h, unit) im" where
  "assign_values W targets row =
     (if length targets < length row then ifail (ora 913 ''too many values'')
      else if length targets > length row then ifail (ora 947 ''not enough values'')
      else ieach (\<lambda>(t, v). assign W t v) (zip targets row))"

definition fill_record :: "string list \<Rightarrow> ('n, 'd) value list \<Rightarrow> (string \<times> ('n, 'd) value) list \<Rightarrow> (string \<times> ('n, 'd) value) list" where
  "fill_record columns row fs = (if length fs = length row then zip (map fst fs) row else zip columns row)"

definition assign_row ::
  "('n, 'd, 'a, 'h) world \<Rightarrow> target list \<Rightarrow> string list \<Rightarrow> ('n, 'd) value list \<Rightarrow> ('n, 'd, 'h, unit) im" where
  "assign_row W targets columns row =
     (case targets of
        [VarTarget name] \<Rightarrow>
          ibind (find_var name) (\<lambda>var.
          case var of
            Some var \<Rightarrow>
              (case var_slot var of
                 Fields fs \<Rightarrow> set_var name (\<lambda>var. var\<lparr>var_slot := Fields (fill_record columns row fs)\<rparr>)
               | Scalar _ \<Rightarrow> assign_values W targets row)
          | None \<Rightarrow> assign_values W targets row)
      | _ \<Rightarrow> assign_values W targets row)"

definition find_cursor :: "string \<Rightarrow> ('n, 'd, 'h, ('n, 'd) cursor) im" where
  "find_cursor name =
     ibind (iget (\<lambda>s. lookup_frames fr_cursors (ip_frames s) name)) (\<lambda>c.
     case c of Some c \<Rightarrow> iret c | None \<Rightarrow> ifail (not_declared name))"

definition set_cursor :: "string \<Rightarrow> ('n, 'd) open_cursor option \<Rightarrow> ('n, 'd, 'h, unit) im" where
  "set_cursor name oc =
     imod (\<lambda>s. s\<lparr>ip_frames := update_frames fr_cursors fr_cursors_update name (\<lambda>c. c\<lparr>cs_open := oc\<rparr>) (ip_frames s)\<rparr>)"

section \<open>Exceptions\<close>

definition exc_matches :: "('n, 'd) frame list \<Rightarrow> string \<Rightarrow> exc \<Rightarrow> bool" where
  "exc_matches frames name x =
     (if name = ''OTHERS'' then True
      else
        (case lookup_frames fr_exceptions frames name of
           Some (Some c) \<Rightarrow> err_code (exc_err x) = c
         | Some None \<Rightarrow> exc_user x = Some name
         | None \<Rightarrow>
             (case predefined (short_name name) of
                Some (c, _) \<Rightarrow> err_code (exc_err x) = c
              | None \<Rightarrow> False)))"

definition raise_name :: "('n, 'd) frame list \<Rightarrow> string \<Rightarrow> exc" where
  "raise_name frames name =
     (case lookup_frames fr_exceptions frames name of
        Some (Some c) \<Rightarrow> \<lparr>exc_err = ora c [], exc_user = Some name\<rparr>
      | Some None \<Rightarrow> \<lparr>exc_err = ora 6510 ''PL/SQL: unhandled user-defined exception'', exc_user = Some name\<rparr>
      | None \<Rightarrow>
          (case predefined (short_name name) of
             Some (c, m) \<Rightarrow> exc_of (ora c m)
           | None \<Rightarrow> exc_of (not_declared name)))"

end
