(* ===== verification/Plsql_Exec.thy ===== *)
theory Plsql_Exec
  imports Plsql
begin

text \<open>
  The interpreter of \<open>crates/mock-oracle-core/src/plsql/exec.rs\<close>: expressions with calls, statements, blocks with
  their handlers, cursors, dynamic SQL, and calls of procedures and functions. As in query evaluation, each
  function is a definition over the interpreter \<open>I\<close> it calls for its parts; \<open>interpreter_at\<close> closes the
  recursion with fuel, which nesting, loops and calls use up.
\<close>

record ('n, 'd, 'h) interpreter =
  i_eval :: "('n, 'd) expr \<Rightarrow> ('n, 'd, 'h, ('n, 'd) value) im"
  i_bool :: "('n, 'd) expr \<Rightarrow> ('n, 'd, 'h, bool option) im"
  i_resolve :: "('n, 'd) expr \<Rightarrow> ('n, 'd, 'h, ('n, 'd) expr) im"
  i_statements :: "('n, 'd) stmt list \<Rightarrow> ('n, 'd, 'h, ('n, 'd) flow) im"

section \<open>Expressions\<close>

definition iroutine :: "('n, 'd, 'a, 'h) world \<Rightarrow> string \<Rightarrow> ('n, 'd, 'h, ('n, 'd) routine option) im" where
  "iroutine W name = iget (\<lambda>s. find_routine (ip_frames s) (fst (h_est (w_host W) (ip_host s))) name)"

function has_call :: "('n, 'd) frame list \<Rightarrow> ('n, 'd) database \<Rightarrow> ('n, 'd) expr \<Rightarrow> bool" where
  "has_call frames db e \<longleftrightarrow>
     (case e of
        Column None name \<Rightarrow> \<not> is_var frames name \<and> find_routine frames db name \<noteq> None
      | Function name _ _ \<Rightarrow> find_routine frames db name \<noteq> None
      | _ \<Rightarrow> False) \<or>
     (case e of InSubquery _ _ _ \<Rightarrow> False | _ \<Rightarrow> list_ex (has_call frames db) (children e))"
  by pat_completeness auto

termination
  by (relation "measure (\<lambda>(_, _, e). size e)") (auto simp del: children.simps dest: children_smaller)

declare has_call.simps [simp del]

definition icalls :: "('n, 'd, 'a, 'h) world \<Rightarrow> ('n, 'd) expr \<Rightarrow> ('n, 'd, 'h, bool) im" where
  "icalls W e = iget (\<lambda>s. has_call (ip_frames s) (fst (h_est (w_host W) (ip_host s))) e)"

text \<open>The value of a resolved expression in an empty scope; an unknown name is a compile error here.\<close>

definition undeclared_exc :: "(exc, 'r) rust \<Rightarrow> (exc, 'r) rust" where
  "undeclared_exc r = map_err (\<lambda>x. exc_of (undeclared (exc_err x))) r"

definition ex_eval :: "('n, 'd, 'a, 'h) world \<Rightarrow> ('n, 'd) expr \<Rightarrow> ('n, 'd, 'h, ('n, 'd) value) im" where
  "ex_eval W e s = (case with_ex W (\<lambda>x. ev_eval (w_eval W) x e (scope_empty None)) s of (r, s') \<Rightarrow> (undeclared_exc r, s'))"

definition ex_bool :: "('n, 'd, 'a, 'h) world \<Rightarrow> ('n, 'd) expr \<Rightarrow> ('n, 'd, 'h, bool option) im" where
  "ex_bool W e s = (case with_ex W (\<lambda>x. ev_bool (w_eval W) x e (scope_empty None)) s of (r, s') \<Rightarrow> (undeclared_exc r, s'))"

definition ip_eval :: "('n, 'd, 'a, 'h) world \<Rightarrow> ('n, 'd, 'h) interpreter \<Rightarrow> ('n, 'd) expr \<Rightarrow> ('n, 'd, 'h, ('n, 'd) value) im" where
  "ip_eval W I e = ibind (i_resolve I e) (ex_eval W)"

definition ip_bool :: "('n, 'd, 'a, 'h) world \<Rightarrow> ('n, 'd, 'h) interpreter \<Rightarrow> ('n, 'd) expr \<Rightarrow> ('n, 'd, 'h, bool option) im" where
  "ip_bool W I e =
     (let plain = ibind (i_resolve I e) (ex_bool W) in
      ibind (icalls W e) (\<lambda>calls.
      if \<not> calls then plain
      else
        (case e of
           Binary op a b \<Rightarrow>
             if op = And then
               ibind (i_bool I a) (\<lambda>l.
               if l = Some False then iret (Some False) else ibind (i_bool I b) (\<lambda>r. iret (and3 l r)))
             else if op = Or then
               ibind (i_bool I a) (\<lambda>l.
               if l = Some True then iret (Some True) else ibind (i_bool I b) (\<lambda>r. iret (or3 l r)))
             else plain
         | NotE a \<Rightarrow> ibind (i_bool I a) (\<lambda>b. iret (map_option Not b))
         | _ \<Rightarrow> plain)))"

definition eval_int :: "('n, 'd, 'a, 'h) world \<Rightarrow> ('n, 'd, 'h) interpreter \<Rightarrow> ('n, 'd) expr \<Rightarrow> ('n, 'd, 'h, int) im" where
  "eval_int W I e =
     ibind (i_eval I e) (\<lambda>v.
     ibind (iora (map_err as_value_error (to_number (w_ext W) v))) (\<lambda>n.
     ibind (iora (ok_or n (value_error []))) (\<lambda>n.
     iora (ok_or (bd_to_i64 (w_arith W) (bd_with_scale_round (w_ext W) n 0 HalfUp)) (value_error [])))))"

definition values_equal :: "('n, 'd, 'a, 'h) world \<Rightarrow> ('n, 'd) value \<Rightarrow> ('n, 'd) value \<Rightarrow> ('n, 'd, 'h, bool) im" where
  "values_equal W a b =
     ibind (ienv W env_nls_date_format) (\<lambda>fmt.
     ibind (iora (compare (w_ext W) a b fmt)) (\<lambda>r. iret (r = Some Equal)))"

fun lazy_whens ::
  "('n, 'd, 'a, 'h) world \<Rightarrow> ('n, 'd, 'h) interpreter \<Rightarrow> ('n, 'd) value option \<Rightarrow> (('n, 'd) expr \<times> ('n, 'd) expr) list \<Rightarrow>
   ('n, 'd) expr option \<Rightarrow> ('n, 'd, 'h, ('n, 'd) value) im" where
  "lazy_whens W I subject [] els = (case els of Some e \<Rightarrow> i_eval I e | None \<Rightarrow> iret Null)"
| "lazy_whens W I subject ((w, t) # whens) els =
     ibind (case subject of
              Some v \<Rightarrow> ibind (i_eval I w) (values_equal W v)
            | None \<Rightarrow> ibind (i_bool I w) (\<lambda>b. iret (b = Some True))) (\<lambda>hit.
     if hit then i_eval I t else lazy_whens W I subject whens els)"

fun lazy_coalesce :: "('n, 'd, 'h) interpreter \<Rightarrow> ('n, 'd) expr list \<Rightarrow> ('n, 'd, 'h, ('n, 'd) value) im" where
  "lazy_coalesce I [] = iret Null"
| "lazy_coalesce I (a # as) = ibind (i_eval I a) (\<lambda>v. if \<not> is_null v then iret v else lazy_coalesce I as)"

fun lazy_decode ::
  "('n, 'd, 'a, 'h) world \<Rightarrow> ('n, 'd, 'h) interpreter \<Rightarrow> ('n, 'd) value \<Rightarrow> ('n, 'd) expr list \<Rightarrow> ('n, 'd, 'h, ('n, 'd) value) im" where
  "lazy_decode W I v [] = iret Null"
| "lazy_decode W I v [other] = i_eval I other"
| "lazy_decode W I v (search # result # rest) =
     ibind (i_eval I search) (\<lambda>x.
     ibind (if is_null v \<and> is_null x then iret True else values_equal W v x) (\<lambda>hit.
     if hit then i_eval I result else lazy_decode W I v rest))"

definition lazy_function ::
  "('n, 'd, 'a, 'h) world \<Rightarrow> ('n, 'd, 'h) interpreter \<Rightarrow> string \<Rightarrow> ('n, 'd) expr list \<Rightarrow>
   ('n, 'd, 'h, ('n, 'd) value) im option" where
  "lazy_function W I name args =
     (if (name = ''NVL'' \<and> length args = 2) \<or> (name = ''COALESCE'' \<and> length args \<ge> 1) then Some (lazy_coalesce I args)
      else if name = ''NVL2'' \<and> length args = 3 then
        Some (ibind (i_eval I (args ! 0)) (\<lambda>v. i_eval I (args ! (if is_null v then 2 else 1))))
      else if name = ''DECODE'' \<and> length args \<ge> 3 then
        Some (ibind (i_eval I (hd args)) (\<lambda>v. lazy_decode W I v (tl args)))
      else None)"

definition eval_lazy ::
  "('n, 'd, 'a, 'h) world \<Rightarrow> ('n, 'd, 'h) interpreter \<Rightarrow> ('n, 'd) expr \<Rightarrow> ('n, 'd, 'h, ('n, 'd) value option) im" where
  "eval_lazy W I e =
     (let some = (\<lambda>m. ibind m (\<lambda>v. iret (Some v))) in
      case e of
        Binary op a b \<Rightarrow>
          if op = And \<or> op = Or then ibind (i_bool I e) (\<lambda>b. iret (Some (boolean_value b))) else iret None
      | CaseE operand whens els \<Rightarrow>
          some (ibind (case operand of Some o1 \<Rightarrow> ibind (i_eval I o1) (\<lambda>v. iret (Some v)) | None \<Rightarrow> iret None) (\<lambda>subject.
            lazy_whens W I subject whens els))
      | Function name args _ \<Rightarrow>
          ibind (iroutine W name) (\<lambda>r.
          if r = None then (case lazy_function W I name args of Some m \<Rightarrow> some m | None \<Rightarrow> iret None) else iret None)
      | _ \<Rightarrow> iret None)"

section \<open>Calls\<close>

datatype (dead 'n, dead 'd) arg_value = ArgIn "('n, 'd) value" | ArgOut target "('n, 'd) value"

definition wrong_args :: "string \<Rightarrow> ora_error" where
  "wrong_args name = pls 306 (''wrong number or types of arguments in call to '' @ apos name)"

definition not_assignable :: ora_error where
  "not_assignable = pls 363 ''expression cannot be used as an assignment target''"

text \<open>Arguments to parameters: the positional ones first, then the named ones.\<close>

fun match_args ::
  "('n, 'd) routine \<Rightarrow> nat \<Rightarrow> bool \<Rightarrow> ('n, 'd) arg list \<Rightarrow> ('n, 'd) expr option list \<Rightarrow> ('n, 'd) expr option list ora_result" where
  "match_args r i named [] slots = Inr slots"
| "match_args r i named (a # as) slots =
     (case arg_name a of
        None \<Rightarrow>
          if named \<or> i \<ge> length slots then Inl (Err (wrong_args (r_name r)))
          else match_args r (i + 1) named as (slots[i := Some (arg_value a)])
      | Some n \<Rightarrow>
          (case position (\<lambda>p. par_name p = n) (r_params r) of
             None \<Rightarrow> Inl (Err (wrong_args (r_name r)))
           | Some p \<Rightarrow>
               if slots ! p \<noteq> None then Inl (Err (wrong_args (r_name r)))
               else match_args r (i + 1) True as (slots[p := Some (arg_value a)])))"

fun out_target :: "('n, 'd) expr \<Rightarrow> target option" where
  "out_target (Bind i) = Some (BindTarget i)"
| "out_target (Column None name) = Some (VarTarget name)"
| "out_target (Column (Some rcd) name) = (if ends_with rcd ''%'' then None else Some (FieldTarget rcd name))"
| "out_target _ = None"

definition eval_arg ::
  "('n, 'd, 'h) interpreter \<Rightarrow> ('n, 'd) routine \<Rightarrow> ('n, 'd) param \<times> ('n, 'd) expr option \<Rightarrow>
   ('n, 'd, 'h, ('n, 'd) arg_value) im" where
  "eval_arg I r pa =
     (case pa of (p, arg) \<Rightarrow>
        if par_mode p = ModeIn then
          (case (case arg of Some e \<Rightarrow> Some e | None \<Rightarrow> par_default p) of
             Some e \<Rightarrow> ibind (i_eval I e) (\<lambda>v. iret (ArgIn v))
           | None \<Rightarrow> ifail (wrong_args (r_name r)))
        else
          (case arg of
             Some e \<Rightarrow>
               (case out_target e of
                  Some t \<Rightarrow>
                    ibind (if par_mode p = ModeInOut then i_eval I e else iret Null) (\<lambda>v. iret (ArgOut t v))
                | None \<Rightarrow> ifail not_assignable)
           | None \<Rightarrow> ifail (wrong_args (r_name r))))"

text \<open>Declarations.\<close>

definition declare_one ::
  "('n, 'd, 'a, 'h) world \<Rightarrow> ('n, 'd, 'h) interpreter \<Rightarrow> ('n, 'd) decl \<Rightarrow> ('n, 'd, 'h, unit) im" where
  "declare_one W I d =
     (case d of
        VarD v \<Rightarrow>
          ibind (resolve_type W (vd_type v)) (\<lambda>(ty, slot0).
          ibind (case vd_default v of
                   Some e \<Rightarrow> ibind (i_eval I e) (\<lambda>x. ibind (convert W ty x) (\<lambda>x. iret (Scalar x)))
                 | None \<Rightarrow> iret slot0) (\<lambda>slot.
          if vd_not_null v \<and> slot = Scalar Null then ifail (value_error [])
          else declare_var (vd_name v)
            \<lparr>var_ty = ty, var_slot = slot, var_constant = vd_constant v, var_not_null = vd_not_null v\<rparr>))
      | ExceptionD name \<Rightarrow> on_last_frame (\<lambda>f. f\<lparr>fr_exceptions := fr_exceptions f @ [(name, None)]\<rparr>)
      | ExceptionInit name c \<Rightarrow>
          ibind (iget (\<lambda>s. lookup_frames fr_exceptions (ip_frames s) name)) (\<lambda>found.
          if found = None then ifail (not_declared name)
          else imod (\<lambda>s. s\<lparr>ip_frames := update_frames fr_exceptions fr_exceptions_update name (\<lambda>_. Some c) (ip_frames s)\<rparr>))
      | CursorD c \<Rightarrow>
          on_last_frame (\<lambda>f. f\<lparr>fr_cursors := fr_cursors f @ [(cur_name c, \<lparr>cs_decl = c, cs_open = None\<rparr>)]\<rparr>)
      | RoutineD r \<Rightarrow> on_last_frame (\<lambda>f. f\<lparr>fr_routines := fr_routines f @ [r]\<rparr>))"

definition push_frame :: "('n, 'd) frame \<Rightarrow> ('n, 'd, 'h) interp \<Rightarrow> ('n, 'd, 'h) interp" where
  "push_frame f s = s\<lparr>ip_frames := ip_frames s @ [f]\<rparr>"

definition pop_frame :: "('n, 'd, 'h) interp \<Rightarrow> ('n, 'd, 'h) interp" where
  "pop_frame s = s\<lparr>ip_frames := butlast (ip_frames s)\<rparr>"

text \<open>\<open>frames.push(frame); let result = m; frames.pop(); result\<close>.\<close>

definition in_frame :: "('n, 'd) frame \<Rightarrow> ('n, 'd, 'h, 'r) im \<Rightarrow> ('n, 'd, 'h, 'r) im" where
  "in_frame f m = ibind (imod (push_frame f)) (\<lambda>_. ifinally m pop_frame)"

definition handle ::
  "('n, 'd, 'h) interpreter \<Rightarrow> ('n, 'd) handler list \<Rightarrow> exc \<Rightarrow> ('n, 'd, 'h, ('n, 'd) flow) im" where
  "handle I handlers x =
     ibind (iget (\<lambda>s. find (\<lambda>h. list_ex (\<lambda>name. exc_matches (ip_frames s) name x) (h_exceptions h)) handlers)) (\<lambda>h.
     case h of
       Some h \<Rightarrow>
         ibind (imod (\<lambda>s. s\<lparr>ip_handling := ip_handling s @ [x]\<rparr>)) (\<lambda>_.
         ifinally (i_statements I (h_body h)) (\<lambda>s. s\<lparr>ip_handling := butlast (ip_handling s)\<rparr>))
     | None \<Rightarrow> ilift (Inl (Err x)))"

text \<open>\<open>match m { Err(exc) => handler(exc), other => other }\<close>.\<close>

definition icatch :: "('n, 'd, 'h, 'r) im \<Rightarrow> (exc \<Rightarrow> ('n, 'd, 'h, 'r) im) \<Rightarrow> ('n, 'd, 'h, 'r) im" where
  "icatch m f s = (case m s of (Inl (Err x), s') \<Rightarrow> f x s' | r \<Rightarrow> r)"

definition block_in_frame ::
  "('n, 'd, 'a, 'h) world \<Rightarrow> ('n, 'd, 'h) interpreter \<Rightarrow> ('n, 'd) block \<Rightarrow> ('n, 'd, 'h, ('n, 'd) flow) im" where
  "block_in_frame W I b =
     ibind (ieach (declare_one W I) (b_decls b)) (\<lambda>_.
     if b_handlers b = [] then i_statements I (b_body b)
     else icatch (i_statements I (b_body b)) (handle I (b_handlers b)))"

definition run_block_stmt ::
  "('n, 'd, 'a, 'h) world \<Rightarrow> ('n, 'd, 'h) interpreter \<Rightarrow> ('n, 'd) block \<Rightarrow> ('n, 'd, 'h, ('n, 'd) flow) im" where
  "run_block_stmt W I b = in_frame frame_default (block_in_frame W I b)"

text \<open>A nested interpreter works on the same host and gives it back.\<close>

definition with_inner :: "(('n, 'd, 'h) interp \<Rightarrow> ('n, 'd, 'h) interp) \<Rightarrow> ('n, 'd, 'h, 'r) im \<Rightarrow> ('n, 'd, 'h, 'r) im" where
  "with_inner start m s = (case m (start s) of (r, inner) \<Rightarrow> (r, s\<lparr>ip_host := ip_host inner\<rparr>))"

definition bind_param ::
  "('n, 'd, 'a, 'h) world \<Rightarrow> ('n, 'd) param \<times> ('n, 'd) arg_value \<Rightarrow> ('n, 'd, 'h, unit) im" where
  "bind_param W pa =
     (case pa of (p, a) \<Rightarrow>
        ibind (resolve_type W (par_type p)) (\<lambda>(ty, slot0).
        let (v, const) = (case a of ArgIn v \<Rightarrow> (v, True) | ArgOut _ v \<Rightarrow> (v, False)) in
        ibind (case slot0 of
                 Scalar _ \<Rightarrow> ibind (convert W ty v) (\<lambda>x. iret (Scalar x))
               | Fields fs \<Rightarrow> iret (Fields fs)) (\<lambda>slot.
        declare_var (par_name p) \<lparr>var_ty = ty, var_slot = slot, var_constant = const, var_not_null = False\<rparr>)))"

definition out_params :: "('n, 'd) routine \<Rightarrow> ('n, 'd) arg_value list \<Rightarrow> (string \<times> target) list" where
  "out_params r args =
     List.map_filter (\<lambda>(p, a). case a of ArgOut t _ \<Rightarrow> Some (par_name p, t) | ArgIn _ \<Rightarrow> None) (zip (r_params r) args)"

definition out_value :: "string \<times> target \<Rightarrow> ('n, 'd, 'h, target \<times> ('n, 'd) value) im" where
  "out_value nt =
     ibind (find_var (fst nt)) (\<lambda>v.
     iret (snd nt, case v of Some v \<Rightarrow> (case var_slot v of Scalar x \<Rightarrow> x | Fields _ \<Rightarrow> Null) | None \<Rightarrow> Null))"

definition function_result ::
  "('n, 'd, 'a, 'h) world \<Rightarrow> ('n, 'd) routine \<Rightarrow> ('n, 'd) flow \<Rightarrow> ('n, 'd, 'h, ('n, 'd) value) im" where
  "function_result W r flow =
     (case r_returns r of
        None \<Rightarrow> iret Null
      | Some ty \<Rightarrow>
          (case flow of
             FReturn (Some v) \<Rightarrow> ibind (resolve_type W ty) (\<lambda>(ty, _). convert W ty v)
           | _ \<Rightarrow> ifail (ora 6503 ''PL/SQL: Function returned without value'')))"

definition invoke_inner ::
  "('n, 'd, 'a, 'h) world \<Rightarrow> ('n, 'd, 'h) interpreter \<Rightarrow> ('n, 'd) routine \<Rightarrow> ('n, 'd) arg_value list \<Rightarrow>
   ('n, 'd, 'h, ('n, 'd) value \<times> (target \<times> ('n, 'd) value) list) im" where
  "invoke_inner W I r args =
     with_inner (\<lambda>s. push_frame (frame_default\<lparr>fr_routines := concat (map fr_routines (ip_frames s))\<rparr>)
         (interp_new (ip_host s) []))
       (ibind (ieach (bind_param W) (zip (r_params r) args)) (\<lambda>_.
        ibind (run_block_stmt W I (r_block r)) (\<lambda>flow.
        ibind (function_result W r flow) (\<lambda>result.
        ibind (imap out_value (out_params r args)) (\<lambda>outs. iret (result, outs))))))"

definition MAX_CALL_DEPTH :: nat where
  "MAX_CALL_DEPTH = 50"

definition set_depth :: "('n, 'd, 'a, 'h) world \<Rightarrow> (nat \<Rightarrow> nat) \<Rightarrow> ('n, 'd, 'h) interp \<Rightarrow> ('n, 'd, 'h) interp" where
  "set_depth W f s =
     (let H = w_host W; (db, env) = h_est H (ip_host s) in
      s\<lparr>ip_host := h_put H (db, env\<lparr>env_depth := f (env_depth env)\<rparr>) (ip_host s)\<rparr>)"

definition invoke ::
  "('n, 'd, 'a, 'h) world \<Rightarrow> ('n, 'd, 'h) interpreter \<Rightarrow> ('n, 'd) routine \<Rightarrow> ('n, 'd) arg_value list \<Rightarrow>
   ('n, 'd, 'h, ('n, 'd) value \<times> (target \<times> ('n, 'd) value) list) im" where
  "invoke W I r args =
     ibind (ienv W env_depth) (\<lambda>depth.
     if depth \<ge> MAX_CALL_DEPTH
     then ifail (ora 36 (''maximum number of recursive SQL levels ('' @ nat_str MAX_CALL_DEPTH @ '') exceeded''))
     else
       ibind (imod (set_depth W Suc)) (\<lambda>_. ifinally (invoke_inner W I r args) (set_depth W (\<lambda>d. d - 1))))"

definition call_routine ::
  "('n, 'd, 'a, 'h) world \<Rightarrow> ('n, 'd, 'h) interpreter \<Rightarrow> ('n, 'd) routine \<Rightarrow> ('n, 'd) arg list \<Rightarrow>
   ('n, 'd, 'h, ('n, 'd) value option) im" where
  "call_routine W I r args =
     ibind (iora (match_args r 0 False args (replicate (length (r_params r)) None))) (\<lambda>slots.
     ibind (imap (eval_arg I r) (zip (r_params r) slots)) (\<lambda>vals.
     ibind (invoke W I r vals) (\<lambda>(result, outs).
     ibind (ieach (\<lambda>(t, v). assign W t v) outs) (\<lambda>_.
     iret (if is_function r then Some result else None)))))"

section \<open>Resolving calls\<close>

definition literal_of :: "('n, 'd) value option \<Rightarrow> ('n, 'd) expr" where
  "literal_of v = Literal (case v of Some v \<Rightarrow> v | None \<Rightarrow> Null)"

definition iopt :: "('p \<Rightarrow> ('n, 'd, 'h, 'r) im) \<Rightarrow> 'p option \<Rightarrow> ('n, 'd, 'h, 'r option) im" where
  "iopt f x = (case x of Some y \<Rightarrow> ibind (f y) (\<lambda>r. iret (Some r)) | None \<Rightarrow> iret None)"

definition resolve_parts ::
  "('n, 'd, 'a, 'h) world \<Rightarrow> ('n, 'd, 'h) interpreter \<Rightarrow> ('n, 'd) expr \<Rightarrow> ('n, 'd, 'h, ('n, 'd) expr) im" where
  "resolve_parts W I e =
     (let res = i_resolve I in
      case e of
        Column None name \<Rightarrow>
          ibind (iroutine W name) (\<lambda>r.
          case r of
            Some r \<Rightarrow> ibind (call_routine W I r []) (\<lambda>v. iret (literal_of v))
          | None \<Rightarrow> iret e)
      | Function name args uniq \<Rightarrow>
          ibind (iroutine W name) (\<lambda>r.
          case r of
            Some r \<Rightarrow>
              ibind (imap (\<lambda>a. ibind (res a) (\<lambda>a'. iret \<lparr>arg_name = None, arg_value = a'\<rparr>)) args) (\<lambda>vals.
              ibind (call_routine W I r vals) (\<lambda>v. iret (literal_of v)))
          | None \<Rightarrow> ibind (imap res args) (\<lambda>args'. iret (Function name args' uniq)))
      | Neg a \<Rightarrow> ibind (res a) (\<lambda>a'. iret (Neg a'))
      | NotE a \<Rightarrow> ibind (res a) (\<lambda>a'. iret (NotE a'))
      | Binary op a b \<Rightarrow> ibind (res a) (\<lambda>a'. ibind (res b) (\<lambda>b'. iret (Binary op a' b')))
      | IsNull a n \<Rightarrow> ibind (res a) (\<lambda>a'. iret (IsNull a' n))
      | Between a l h n \<Rightarrow>
          ibind (res a) (\<lambda>a'. ibind (res l) (\<lambda>l'. ibind (res h) (\<lambda>h'. iret (Between a' l' h' n))))
      | InList a xs n \<Rightarrow> ibind (res a) (\<lambda>a'. ibind (imap res xs) (\<lambda>xs'. iret (InList a' xs' n)))
      | Like a p esc n \<Rightarrow>
          ibind (res a) (\<lambda>a'. ibind (res p) (\<lambda>p'. ibind (iopt res esc) (\<lambda>esc'. iret (Like a' p' esc' n))))
      | CaseE operand whens els \<Rightarrow>
          ibind (iopt res operand) (\<lambda>operand'.
          ibind (imap (\<lambda>(w, t). ibind (res w) (\<lambda>w'. ibind (res t) (\<lambda>t'. iret (w', t')))) whens) (\<lambda>whens'.
          ibind (iopt res els) (\<lambda>els'. iret (CaseE operand' whens' els'))))
      | _ \<Rightarrow> iret e)"

definition resolve_calls ::
  "('n, 'd, 'a, 'h) world \<Rightarrow> ('n, 'd, 'h) interpreter \<Rightarrow> ('n, 'd) expr \<Rightarrow> ('n, 'd, 'h, ('n, 'd) expr) im" where
  "resolve_calls W I e =
     ibind (icalls W e) (\<lambda>calls.
     if \<not> calls then iret e
     else
       ibind (eval_lazy W I e) (\<lambda>v.
       case v of Some v \<Rightarrow> iret (Literal v) | None \<Rightarrow> resolve_parts W I e))"

section \<open>SQL\<close>

definition run_sql :: "('n, 'd, 'a, 'h) world \<Rightarrow> ('n, 'd) statement \<Rightarrow> ('n, 'd, 'h, ('n, 'd) outcome) im" where
  "run_sql W stmt s =
     (case h_execute (w_host W) stmt (ip_binds s) (ip_vars W s) (ip_host s) of
        (r, h) \<Rightarrow> (map_err exc_of r, s\<lparr>ip_host := h\<rparr>))"

definition set_rowcount :: "nat \<Rightarrow> ('n, 'd, 'h, unit) im" where
  "set_rowcount n = imod (\<lambda>s. s\<lparr>ip_rowcount := Some n\<rparr>)"

fun into_target :: "('n, 'd) expr \<Rightarrow> target option" where
  "into_target (Bind i) = Some (BindTarget i)"
| "into_target (Column None name) = Some (VarTarget name)"
| "into_target (Column (Some rcd) name) = Some (FieldTarget rcd name)"
| "into_target _ = None"

definition assign_returning ::
  "('n, 'd, 'a, 'h) world \<Rightarrow> ('n, 'd) expr list \<Rightarrow> ('n, 'd) value list list \<Rightarrow> ('n, 'd, 'h, unit) im" where
  "assign_returning W into rows =
     (if length rows > 1 then ifail too_many_rows
      else
        ieach (\<lambda>(e, v). case into_target e of Some t \<Rightarrow> assign W t v | None \<Rightarrow> ifail wrong_type)
          (zip into (case rows of [] \<Rightarrow> replicate (length into) Null | row # _ \<Rightarrow> row)))"

definition returning :: "('n, 'd) statement \<Rightarrow> ('n, 'd) returning option" where
  "returning stmt =
     (case stmt of
        InsertS i \<Rightarrow> ins_returning i
      | UpdateS u \<Rightarrow> upd_returning u
      | DeleteS d \<Rightarrow> del_returning d
      | _ \<Rightarrow> None)"

definition is_dml :: "('n, 'd) statement \<Rightarrow> bool" where
  "is_dml stmt = (case stmt of InsertS _ \<Rightarrow> True | UpdateS _ \<Rightarrow> True | DeleteS _ \<Rightarrow> True | _ \<Rightarrow> False)"

definition is_query :: "('n, 'd) statement \<Rightarrow> bool" where
  "is_query stmt = (case stmt of QueryS _ \<Rightarrow> True | _ \<Rightarrow> False)"

definition sql_statement ::
  "('n, 'd, 'a, 'h) world \<Rightarrow> ('n, 'd) statement \<Rightarrow> target list \<Rightarrow> ('n, 'd, 'h, unit) im" where
  "sql_statement W stmt into =
     ibind (run_sql W stmt) (\<lambda>o1.
     if is_query stmt then
       (case o_rows o1 of
          [] \<Rightarrow> ibind (set_rowcount 0) (\<lambda>_. ifail no_data_found)
        | [row] \<Rightarrow> ibind (set_rowcount 1) (\<lambda>_. assign_row W into (names o1) row)
        | _ \<Rightarrow> ibind (set_rowcount 2) (\<lambda>_. ifail too_many_rows))
     else if is_dml stmt then
       ibind (set_rowcount (o_rows_affected o1)) (\<lambda>_.
       case returning stmt of
         Some r \<Rightarrow> assign_returning W (ret_into r) (o_rows o1)
       | None \<Rightarrow> iret ())
     else iret ())"

definition open_param ::
  "('n, 'd, 'a, 'h) world \<Rightarrow> ('n, 'd, 'h) interpreter \<Rightarrow> string \<Rightarrow> ('n, 'd) expr list \<Rightarrow> nat \<times> ('n, 'd) param \<Rightarrow>
   ('n, 'd, 'h, string \<times> ('n, 'd) var) im" where
  "open_param W I name args ip =
     (case ip of (i, p) \<Rightarrow>
        ibind (case (if i < length args then Some (args ! i) else par_default p) of
                 Some e \<Rightarrow> i_eval I e
               | None \<Rightarrow> ifail (wrong_args name)) (\<lambda>v.
        ibind (resolve_type W (par_type p)) (\<lambda>(ty, _).
        ibind (convert W ty v) (\<lambda>v'.
        iret (par_name p, \<lparr>var_ty = ty, var_slot = Scalar v', var_constant = True, var_not_null = False\<rparr>)))))"

definition open_query ::
  "('n, 'd, 'a, 'h) world \<Rightarrow> ('n, 'd, 'h) interpreter \<Rightarrow> string \<Rightarrow> ('n, 'd) expr list \<Rightarrow> ('n, 'd, 'h, ('n, 'd) open_cursor) im" where
  "open_query W I name args =
     ibind (find_cursor name) (\<lambda>c.
     if length args > length (cur_params (cs_decl c)) then ifail (wrong_args name)
     else
       ibind (imap (open_param W I name args) (List.enumerate 0 (cur_params (cs_decl c)))) (\<lambda>params.
       ibind (in_frame (frame_default\<lparr>fr_vars := params\<rparr>) (run_sql W (QueryS (cur_query (cs_decl c))))) (\<lambda>o1.
       iret \<lparr>oc_rows = o_rows o1, oc_columns = names o1, oc_rowcount = 0, oc_found = None\<rparr>)))"

definition execute_immediate ::
  "('n, 'd, 'a, 'h) world \<Rightarrow> ('n, 'd, 'h) interpreter \<Rightarrow> ('n, 'd) expr \<Rightarrow> target list \<Rightarrow> ('n, 'd) expr list \<Rightarrow>
   ('n, 'd, 'h, unit) im" where
  "execute_immediate W I sql into using' =
     ibind (i_eval I sql) (\<lambda>v.
     if is_null v then ifail (ora 900 ''invalid SQL statement'')
     else
       ibind (iora (display (w_ext W) v)) (\<lambda>text.
       ibind (imap (i_eval I) using') (\<lambda>binds.
       ibind (iora (w_parse W (trim text))) (\<lambda>(stmt, nbinds).
       if length binds < nbinds then ifail (ora 1008 ''not all variables bound'')
       else
         (case stmt of
            BlockS b \<Rightarrow>
              ibind (with_inner (\<lambda>s. interp_new (ip_host s) binds) (run_block_stmt W I b)) (\<lambda>_. iret ())
          | _ \<Rightarrow>
              ibind (\<lambda>s. case h_execute (w_host W) stmt binds no_vars (ip_host s) of
                       (r, h) \<Rightarrow> (map_err exc_of r, s\<lparr>ip_host := h\<rparr>)) (\<lambda>o1.
              if is_query stmt \<and> into \<noteq> [] then
                (case o_rows o1 of
                   [] \<Rightarrow> ifail no_data_found
                 | [row] \<Rightarrow> ibind (set_rowcount 1) (\<lambda>_. assign_row W into (names o1) row)
                 | _ \<Rightarrow> ifail too_many_rows)
              else set_rowcount (if is_dml stmt then o_rows_affected o1 else 0)))))))"

section \<open>Built-in procedures\<close>

definition value_text :: "('n, 'd, 'a, 'h) world \<Rightarrow> ('n, 'd) value \<Rightarrow> ('n, 'd, 'h, string) im" where
  "value_text W v =
     ibind (ienv W id) (\<lambda>env.
     iora (case v of
             Date d \<Rightarrow> dt_format (w_ext W) d (env_nls_date_format env)
           | Timestamp d \<Rightarrow> dt_format (w_ext W) d (env_nls_timestamp_format env)
           | _ \<Rightarrow> display (w_ext W) v))"

definition on_output ::
  "('n, 'd, 'a, 'h) world \<Rightarrow> (dbms_output \<Rightarrow> 'r ora_result \<times> dbms_output) \<Rightarrow> ('n, 'd, 'h, 'r) im" where
  "on_output W f =
     iev W (\<lambda>(db, env). case f (env_output env) of (r, out) \<Rightarrow> (r, (db, env\<lparr>env_output := out\<rparr>)))"

definition raise_application_error ::
  "('n, 'd, 'a, 'h) world \<Rightarrow> ('n, 'd, 'h) interpreter \<Rightarrow> ('n, 'd) arg list \<Rightarrow> ('n, 'd, 'h, bool) im" where
  "raise_application_error W I args =
     (case args of
        c # m # _ \<Rightarrow>
          ibind (eval_int W I (arg_value c)) (\<lambda>c.
          ibind (i_eval I (arg_value m)) (\<lambda>v.
          ibind (iora (display (w_ext W) v)) (\<lambda>message.
          if c < -20999 \<or> c > -20000
          then ifail (ora 21000 (''error number argument to raise_application_error of '' @ int_str c @ '' is out of range''))
          else ifail (ora (nat \<bar>c\<bar>) message))))
      | _ \<Rightarrow> ifail (wrong_args ''RAISE_APPLICATION_ERROR''))"

fun line_target :: "('n, 'd) expr \<Rightarrow> target ora_result" where
  "line_target (Bind i) = Inr (BindTarget i)"
| "line_target (Column None name) = Inr (VarTarget name)"
| "line_target _ = Inl (Err not_assignable)"

definition get_line :: "('n, 'd, 'a, 'h) world \<Rightarrow> ('n, 'd) arg list \<Rightarrow> ('n, 'd, 'h, bool) im" where
  "get_line W args =
     ibind (iora (map_rust (\<lambda>a. line_target (arg_value a)) (take 2 args))) (\<lambda>targets.
     case targets of
       [t, u] \<Rightarrow>
         ibind (on_output W (\<lambda>out. case take_line out of (l, out') \<Rightarrow> (Inr l, out'))) (\<lambda>line.
         ibind (assign W t (case line of Some l \<Rightarrow> varchar l | None \<Rightarrow> Null)) (\<lambda>_.
         ibind (assign W u (value_number (w_ext W) (if line = None then 1 else 0))) (\<lambda>_. iret True)))
     | _ \<Rightarrow> ifail (wrong_args ''GET_LINE''))"

definition put_text ::
  "('n, 'd, 'a, 'h) world \<Rightarrow> ('n, 'd, 'h) interpreter \<Rightarrow> ('n, 'd) arg list \<Rightarrow> bool \<Rightarrow> ('n, 'd, 'h, bool) im" where
  "put_text W I args line =
     ibind (case args of a # _ \<Rightarrow> ibind (i_eval I (arg_value a)) (value_text W) | [] \<Rightarrow> iret []) (\<lambda>text.
     ibind (on_output W (output_put text line)) (\<lambda>_. iret True))"

definition builtin_procedure ::
  "('n, 'd, 'a, 'h) world \<Rightarrow> ('n, 'd, 'h) interpreter \<Rightarrow> string \<Rightarrow> ('n, 'd) arg list \<Rightarrow> ('n, 'd, 'h, bool) im" where
  "builtin_procedure W I name args =
     (let short = (if starts_with name ''SYS.'' then drop 4 name else name) in
      if short = ''RAISE_APPLICATION_ERROR'' then raise_application_error W I args
      else if short = ''DBMS_OUTPUT.PUT_LINE'' then put_text W I args True
      else if short = ''DBMS_OUTPUT.PUT'' then put_text W I args False
      else if short = ''DBMS_OUTPUT.NEW_LINE'' then ibind (on_output W (output_put [] True)) (\<lambda>_. iret True)
      else if short = ''DBMS_OUTPUT.ENABLE'' then
        on_output W (\<lambda>out. (Inr True, out\<lparr>out_enabled := True\<rparr>))
      else if short = ''DBMS_OUTPUT.DISABLE'' then
        on_output W (\<lambda>out. (Inr True, out\<lparr>out_enabled := False, out_lines := [], out_partial := [], out_bytes := 0\<rparr>))
      else if short = ''DBMS_OUTPUT.GET_LINE'' then get_line W args
      else if short = ''DBMS_LOCK.SLEEP'' \<or> short = ''DBMS_SESSION.SLEEP'' then
        ibind (imap (\<lambda>a. i_eval I (arg_value a)) args) (\<lambda>_. iret True)
      else iret (starts_with short ''DBMS_STATS.''))"

definition call_statement ::
  "('n, 'd, 'a, 'h) world \<Rightarrow> ('n, 'd, 'h) interpreter \<Rightarrow> string \<Rightarrow> ('n, 'd) arg list \<Rightarrow> ('n, 'd, 'h, unit) im" where
  "call_statement W I name args =
     ibind (builtin_procedure W I name args) (\<lambda>b.
     if b then iret ()
     else
       ibind (iroutine W name) (\<lambda>r.
       case r of
         None \<Rightarrow> ifail (not_declared name)
       | Some r \<Rightarrow>
           if is_function r then ifail (pls 221 (apos (r_name r) @ '' is not a procedure or is undefined''))
           else ibind (call_routine W I r args) (\<lambda>_. iret ())))"

section \<open>Statements\<close>

definition is_mine :: "string option \<Rightarrow> string option \<Rightarrow> bool" where
  "is_mine label l = (l = None \<or> l = label)"

definition loop_iteration ::
  "('n, 'd, 'h) interpreter \<Rightarrow> string option \<Rightarrow> ('n, 'd) stmt list \<Rightarrow> ('n, 'd, 'h, ('n, 'd) flow option) im" where
  "loop_iteration I label body =
     ibind (i_statements I body) (\<lambda>flow.
     iret (case flow of
             FNormal \<Rightarrow> None
           | FContinue l \<Rightarrow> if is_mine label l then None else Some flow
           | FExit l \<Rightarrow> if is_mine label l then Some FNormal else Some flow
           | FReturn _ \<Rightarrow> Some flow))"

fun for_each ::
  "('p \<Rightarrow> ('n, 'd, 'h, unit) im) \<Rightarrow> ('n, 'd, 'h, ('n, 'd) flow option) im \<Rightarrow> ('n, 'd, 'h, ('n, 'd) flow) im \<Rightarrow> 'p list \<Rightarrow>
   ('n, 'd, 'h, ('n, 'd) flow) im" where
  "for_each start body finish [] = finish"
| "for_each start body finish (x # xs) =
     ibind (start x) (\<lambda>_.
     ibind body (\<lambda>r.
     case r of Some flow \<Rightarrow> iret flow | None \<Rightarrow> for_each start body finish xs))"

definition loop_var :: "string \<Rightarrow> ('n, 'd) var \<Rightarrow> ('n, 'd, 'h, unit) im" where
  "loop_var name v = on_last_frame (\<lambda>f. f\<lparr>fr_vars := [(name, v)]\<rparr>)"

text \<open>The counter is stepped once more behind the last iteration, which overflows at the end of the range of
  \<open>i64\<close>.\<close>

definition range_end :: "bool \<Rightarrow> int \<Rightarrow> int \<Rightarrow> ('n, 'd, 'h, ('n, 'd) flow) im" where
  "range_end back_to_front lo hi =
     (if lo \<le> hi \<and> (if back_to_front then lo = - (2 ^ 63) else hi = 2 ^ 63 - 1) then ilift (Inl Panic) else iret FNormal)"

definition for_range ::
  "('n, 'd, 'a, 'h) world \<Rightarrow> ('n, 'd, 'h) interpreter \<Rightarrow> string option \<Rightarrow> string \<Rightarrow> bool \<Rightarrow> int \<Rightarrow> int \<Rightarrow> ('n, 'd) stmt list \<Rightarrow>
   ('n, 'd, 'h, ('n, 'd) flow) im" where
  "for_range W I label var back_to_front lo hi body =
     in_frame frame_default (for_each
       (\<lambda>i. loop_var var \<lparr>var_ty = VInteger, var_slot = Scalar (value_number (w_ext W) i), var_constant = True, var_not_null = True\<rparr>)
       (loop_iteration I label body) (range_end back_to_front lo hi) (if back_to_front then rev [lo..hi] else [lo..hi]))"

definition for_rows ::
  "('n, 'd, 'h) interpreter \<Rightarrow> string option \<Rightarrow> string \<Rightarrow> string list \<Rightarrow> ('n, 'd) value list list \<Rightarrow> ('n, 'd) stmt list \<Rightarrow>
   ('n, 'd, 'h, ('n, 'd) flow) im" where
  "for_rows I label var columns rows body =
     in_frame frame_default (for_each
       (\<lambda>row. loop_var var \<lparr>var_ty = VRecord, var_slot = Fields (zip columns row), var_constant = False, var_not_null = False\<rparr>)
       (loop_iteration I label body) (iret FNormal) rows)"

fun if_branches ::
  "('n, 'd, 'h) interpreter \<Rightarrow> (('n, 'd) expr \<times> ('n, 'd) stmt list) list \<Rightarrow> ('n, 'd) stmt list option \<Rightarrow>
   ('n, 'd, 'h, ('n, 'd) flow) im" where
  "if_branches I [] els = (case els of Some body \<Rightarrow> i_statements I body | None \<Rightarrow> iret FNormal)"
| "if_branches I ((c, body) # bs) els =
     ibind (i_bool I c) (\<lambda>b. if b = Some True then i_statements I body else if_branches I bs els)"

fun case_branches ::
  "('n, 'd, 'a, 'h) world \<Rightarrow> ('n, 'd, 'h) interpreter \<Rightarrow> ('n, 'd) value option \<Rightarrow> (('n, 'd) expr \<times> ('n, 'd) stmt list) list \<Rightarrow>
   ('n, 'd) stmt list option \<Rightarrow> ('n, 'd, 'h, ('n, 'd) flow) im" where
  "case_branches W I subject [] els =
     (case els of
        Some body \<Rightarrow> i_statements I body
      | None \<Rightarrow> ifail (ora 6592 ''CASE not found while executing CASE statement''))"
| "case_branches W I subject ((w, body) # bs) els =
     ibind (case subject of
              Some v \<Rightarrow> ibind (i_eval I w) (values_equal W v)
            | None \<Rightarrow> ibind (i_bool I w) (\<lambda>b. iret (b = Some True))) (\<lambda>hit.
     if hit then i_statements I body else case_branches W I subject bs els)"

definition leave_when ::
  "('n, 'd, 'h) interpreter \<Rightarrow> ('n, 'd) expr option \<Rightarrow> ('n, 'd) flow \<Rightarrow> ('n, 'd, 'h, ('n, 'd) flow) im" where
  "leave_when I cond flow =
     (case cond of
        None \<Rightarrow> iret flow
      | Some c \<Rightarrow> ibind (i_bool I c) (\<lambda>b. iret (if b = Some True then flow else FNormal)))"

definition fetch :: "('n, 'd, 'a, 'h) world \<Rightarrow> string \<Rightarrow> target list \<Rightarrow> ('n, 'd, 'h, unit) im" where
  "fetch W cursor into =
     ibind (find_cursor cursor) (\<lambda>c.
     case cs_open c of
       None \<Rightarrow> ifail invalid_cursor
     | Some oc \<Rightarrow>
         (case oc_rows oc of
            [] \<Rightarrow> set_cursor cursor (Some (oc\<lparr>oc_found := Some False\<rparr>))
          | row # rows \<Rightarrow>
              ibind (set_cursor cursor (Some (oc\<lparr>oc_rows := rows, oc_found := Some True, oc_rowcount := oc_rowcount oc + 1\<rparr>))) (\<lambda>_.
              assign_row W into (oc_columns oc) row)))"

definition statement_step ::
  "('n, 'd, 'a, 'h) world \<Rightarrow> ('n, 'd, 'h) interpreter \<Rightarrow> ('n, 'd) stmt \<Rightarrow> ('n, 'd, 'h, ('n, 'd) flow) im" where
  "statement_step W I st =
     (let normal = (\<lambda>m. ibind m (\<lambda>_. iret FNormal)) in
      case st of
        NullStmt \<Rightarrow> iret FNormal
      | Assign target e \<Rightarrow> normal (ibind (i_eval I e) (assign W target))
      | IfStmt branches els \<Rightarrow> if_branches I branches els
      | CaseStmt operand whens els \<Rightarrow>
          ibind (iopt (i_eval I) operand) (\<lambda>subject. case_branches W I subject whens els)
      | LoopStmt label body \<Rightarrow>
          ibind (loop_iteration I label body) (\<lambda>r.
          case r of Some flow \<Rightarrow> iret flow | None \<Rightarrow> i_statements I [st])
      | WhileStmt label cond body \<Rightarrow>
          ibind (i_bool I cond) (\<lambda>b.
          if b = Some True then
            ibind (loop_iteration I label body) (\<lambda>r.
            case r of Some flow \<Rightarrow> iret flow | None \<Rightarrow> i_statements I [st])
          else iret FNormal)
      | ForRange label var back_to_front low high body \<Rightarrow>
          ibind (eval_int W I low) (\<lambda>lo. ibind (eval_int W I high) (\<lambda>hi. for_range W I label var back_to_front lo hi body))
      | ForCursor label var source body \<Rightarrow>
          ibind (case source of
                   QueryCursor q \<Rightarrow> ibind (run_sql W (QueryS q)) (\<lambda>o1. iret (names o1, o_rows o1))
                 | NamedCursor name args \<Rightarrow> ibind (open_query W I name args) (\<lambda>oc. iret (oc_columns oc, oc_rows oc))) (\<lambda>(columns, rows).
          for_rows I label var columns rows body)
      | Exit label cond \<Rightarrow> leave_when I cond (FExit label)
      | ContinueStmt label cond \<Rightarrow> leave_when I cond (FContinue label)
      | ReturnStmt e \<Rightarrow> ibind (iopt (i_eval I) e) (\<lambda>v. iret (FReturn v))
      | Raise None \<Rightarrow>
          ibind (iget ip_handling) (\<lambda>h.
          ilift (Inl (Err (if h = []
            then exc_of (pls 367 ''a RAISE statement with no exception name must be inside an exception handler'')
            else last h))))
      | Raise (Some name) \<Rightarrow> ibind (iget ip_frames) (\<lambda>frames. ilift (Inl (Err (raise_name frames name))))
      | SqlStmt stmt into \<Rightarrow> normal (sql_statement W stmt into)
      | CallStmt name args \<Rightarrow> normal (call_statement W I name args)
      | ExecuteImmediate sql into us \<Rightarrow> normal (execute_immediate W I sql into us)
      | OpenStmt cursor args \<Rightarrow>
          ibind (find_cursor cursor) (\<lambda>c.
          if cs_open c \<noteq> None then ifail (ora 6511 ''PL/SQL: cursor already open'')
          else normal (ibind (open_query W I cursor args) (\<lambda>oc. set_cursor cursor (Some oc))))
      | FetchStmt cursor into \<Rightarrow> normal (fetch W cursor into)
      | CloseStmt cursor \<Rightarrow>
          ibind (find_cursor cursor) (\<lambda>c.
          if cs_open c = None then ifail invalid_cursor else normal (set_cursor cursor None))
      | BlockStmt b \<Rightarrow> run_block_stmt W I b)"

fun run_statements ::
  "('n, 'd, 'a, 'h) world \<Rightarrow> ('n, 'd, 'h) interpreter \<Rightarrow> ('n, 'd) stmt list \<Rightarrow> ('n, 'd, 'h, ('n, 'd) flow) im" where
  "run_statements W I [] = iret FNormal"
| "run_statements W I (st # sts) =
     ibind (statement_step W I st) (\<lambda>flow.
     case flow of FNormal \<Rightarrow> run_statements W I sts | _ \<Rightarrow> iret flow)"

section \<open>The interpreter\<close>

definition halted :: "('n, 'd, 'h) interpreter" where
  "halted = \<lparr>i_eval = \<lambda>_. ilift (Inl Diverges), i_bool = \<lambda>_. ilift (Inl Diverges), i_resolve = \<lambda>_. ilift (Inl Diverges),
     i_statements = \<lambda>_. ilift (Inl Diverges)\<rparr>"

definition interpreter_step ::
  "('n, 'd, 'a, 'h) world \<Rightarrow> ('n, 'd, 'h) interpreter \<Rightarrow> ('n, 'd, 'h) interpreter" where
  "interpreter_step W I =
     \<lparr>i_eval = ip_eval W I, i_bool = ip_bool W I, i_resolve = resolve_calls W I, i_statements = run_statements W I\<rparr>"

definition interpreter_at :: "('n, 'd, 'a, 'h) world \<Rightarrow> nat \<Rightarrow> ('n, 'd, 'h) interpreter" where
  "interpreter_at W n = (interpreter_step W ^^ n) halted"

definition run_block ::
  "('n, 'd, 'a, 'h) world \<Rightarrow> nat \<Rightarrow> ('n, 'd) block \<Rightarrow> ('n, 'd) value list \<Rightarrow> 'h \<Rightarrow> ('n, 'd) value list ora_result \<times> 'h" where
  "run_block W n b binds h =
     (case run_block_stmt W (interpreter_at W n) b (interp_new h binds) of
        (r, s) \<Rightarrow> (map_err exc_err (rbind r (\<lambda>_. Inr (ip_binds s))), ip_host s))"

section \<open>Functions called from SQL\<close>

text \<open>\<open>QueryHost\<close>: the catalog is fixed and only queries run.\<close>

definition query_host :: "('n, 'd) evaluator \<Rightarrow> ('n, 'd) catalog \<Rightarrow> ('n, 'd, ('n, 'd) est) host" where
  "query_host V cat =
     \<lparr>h_cat = \<lambda>_. cat, h_est = id, h_put = \<lambda>est _. est,
      h_execute = \<lambda>stmt binds vars.
        (case stmt of
           QueryS q \<Rightarrow>
             ebind (ev_query V \<lparr>ex_cat = cat, ex_binds = binds, ex_vars = vars\<rparr> q None) (\<lambda>rel. eret (outcome_of rel))
         | _ \<Rightarrow> eora 14551 ''cannot perform a DML operation inside a query'')\<rparr>"

definition call_function ::
  "('n, 'd, 'a, 'h) world \<Rightarrow> nat \<Rightarrow> ('n, 'd) routine \<Rightarrow> ('n, 'd) value list \<Rightarrow> 'h \<Rightarrow> ('n, 'd) value ora_result \<times> 'h" where
  "call_function W n r args h =
     (if \<not> is_function r then (Inl (Err (invalid_identifier (quoted (r_name r)))), h)
      else if list_ex (\<lambda>p. par_mode p \<noteq> ModeIn) (r_params r)
      then (Inl (Err (ora 6572 (''Function '' @ r_name r @ '' has out arguments''))), h)
      else
        (case invoke W (interpreter_at W n) r (map ArgIn args) (interp_new h []) of
           (x, s) \<Rightarrow> (map_err exc_err (rbind x (\<lambda>(v, _). Inr v)), ip_host s)))"

text \<open>Stored functions call SQL, which calls stored functions. One number bounds the depth of both.\<close>

fun stored_function ::
  "('n, 'd, 'a) ext \<Rightarrow> ('n, 'd) arith \<Rightarrow> (string \<Rightarrow> (('n, 'd) statement \<times> nat) ora_result) \<Rightarrow> nat \<Rightarrow> ('n, 'd) caller" where
  "stored_function E A parse 0 cat r args = elift (Inl Diverges)"
| "stored_function E A parse (Suc n) cat r args =
     (let V = evaluator_at E A (stored_function E A parse n) n in
      call_function \<lparr>w_ext = E, w_arith = A, w_eval = V, w_host = query_host V cat, w_parse = parse\<rparr> n r args)"

definition sql_evaluator ::
  "('n, 'd, 'a) ext \<Rightarrow> ('n, 'd) arith \<Rightarrow> (string \<Rightarrow> (('n, 'd) statement \<times> nat) ora_result) \<Rightarrow> nat \<Rightarrow> ('n, 'd) evaluator" where
  "sql_evaluator E A parse n = evaluator_at E A (stored_function E A parse n) n"

end
