(* ===== verification/Eval_Correct.thy ===== *)
theory Eval_Correct
  imports Eval
begin

text \<open>
  Evaluation changes nothing but the counters of the database and the cells of \<open>Env\<close> as long as the stored
  functions it calls do not, and its recursion ends: fuel for the depth of the syntax tree is enough.
\<close>

section \<open>Evaluation is quiet\<close>

locale quiet_caller =
  fixes F :: "('n, 'd) caller"
  assumes quiet_caller: "quiet (F cat r args)"
begin

lemma quiet_call: "quiet (call E A F x name a)"
  unfolding call_def by (intro quiet_intros quiet_caller)

lemma quiet_resolve: "quiet (resolve E A F x sc table name)"
  unfolding resolve_def by (intro quiet_intros quiet_call)

end

lemma quiet_pair_fun: "(\<And>a b. quiet (f a b z)) \<Longrightarrow> quiet ((case p of (a, b) \<Rightarrow> f a b) z)"
  by (cases p) auto

context quiet_evaluator
begin

lemma quiet_aggregate: "quiet (aggregate E A V x name args uniq sc)"
  unfolding aggregate_def by (intro evaluator_intros) (auto intro!: evaluator_intros split: list.split)

lemma quiet_single_column: "quiet (single_column V x q sc)"
  unfolding single_column_def by (intro evaluator_intros)

lemma quiet_escape_char: "quiet (escape_char E V x sc esc)"
  unfolding escape_char_def by (intro evaluator_intros) (auto intro!: evaluator_intros split: option.split list.split)

lemma quiet_eval_bool: "quiet (eval_bool E V x e sc)"
  unfolding eval_bool_def Let_def
  by (cases e; simp) (intro evaluator_intros quiet_single_column quiet_escape_char impI conjI;
    auto intro!: evaluator_intros split: "value.split")+

lemma quiet_eval_whens: "quiet (eval_whens E V x sc subject whens els)"
  by (induction whens) (auto intro!: evaluator_intros split: option.split)

lemma quiet_condition_value: "quiet (condition_value V x e sc)"
  unfolding condition_value_def by (intro evaluator_intros)

lemma quiet_eval_step:
  assumes "quiet_caller F"
  shows "quiet (eval E A F V x e sc)"
proof -
  note intros = evaluator_intros quiet_single_column quiet_condition_value quiet_eval_whens quiet_aggregate
    quiet_caller.quiet_call [OF assms] quiet_caller.quiet_resolve [OF assms]
  show ?thesis unfolding eval_def
    by (cases e; simp) (intro intros impI conjI; auto intro!: intros split: list.split)+
qed

lemma quiet_table_factor: "quiet (table_factor V x par f)"
  unfolding table_factor_def by (cases f; simp add: Let_def) (intro evaluator_intros impI conjI)+

lemma quiet_join_rows: "(\<And>l. quiet (match l)) \<Longrightarrow> quiet (join_rows kind rw rights match ls seen)"
  by (induction ls arbitrary: seen) (simp; intro evaluator_intros; simp)+

lemma quiet_join: "quiet (join V x par kind left right on)"
  unfolding join_def join_matches_def by (intro evaluator_intros quiet_join_rows)

lemma quiet_source_item: "quiet (source_item V x par item)"
  unfolding source_item_def by (intro evaluator_intros quiet_table_factor quiet_join)

lemma quiet_accept_rows: "quiet (accept_rows V x par cols wh rows acc)"
  by (induction rows arbitrary: acc) (simp add: Let_def; intro evaluator_intros; simp)+

lemma quiet_compute_row: "quiet (compute_row V x items keys sc)"
  unfolding compute_row_def
  by (intro evaluator_intros) (auto intro!: evaluator_intros split: item.split sort_key.split)

lemma quiet_select: "quiet (eval_select E V x s order_by par)"
  unfolding eval_select_def from_sources_def group_rows_def compute_group_def
  by (intro evaluator_intros quiet_source_item quiet_accept_rows quiet_compute_row quiet_pair_fun)

lemma quiet_set_expr: "quiet (eval_set_expr E V x par body)"
  by (induction body) (simp; intro evaluator_intros quiet_select; simp)+

lemma quiet_query_step: "quiet (eval_query E V x q par)"
  unfolding eval_query_def row_limit_def
  by (intro evaluator_intros) (auto intro!: evaluator_intros quiet_select quiet_set_expr split: set_expr.split)

end

lemma stuck_quiet: "quiet_evaluator stuck"
  by unfold_locales (simp_all add: stuck_def quiet_basic)

lemma step_quiet: "quiet_caller F \<Longrightarrow> quiet_evaluator V \<Longrightarrow> quiet_evaluator (eval_step E A F V)"
  by unfold_locales
    (simp_all add: eval_step_def quiet_evaluator.quiet_eval_step quiet_evaluator.quiet_eval_bool
      quiet_evaluator.quiet_query_step)

lemma evaluator_quiet: "quiet_caller F \<Longrightarrow> quiet_evaluator (evaluator_at E A F n)"
  unfolding evaluator_at_def by (induction n) (simp_all add: stuck_quiet step_quiet)

sublocale quiet_caller \<subseteq> at: quiet_evaluator "evaluator_at E A F n" for E A n
  by (rule evaluator_quiet) unfold_locales

end
