(* ===== verification/Decimal_Arith.thy ===== *)
theory Decimal_Arith
  imports Arith Decimal_Clock
begin

text \<open>
  The arithmetic of \<open>Arith\<close> on the numbers and time stamps of \<open>Decimal_Clock\<close>, at which witnesses evaluate.
  Quotients are cut off 40 digits behind the point, and no floating-point function has a result.
\<close>

definition dec_align :: "(int \<Rightarrow> int \<Rightarrow> int) \<Rightarrow> dec \<Rightarrow> dec \<Rightarrow> dec" where
  "dec_align f x y = (let s = max (snd x) (snd y) in (f (fst x * pow10 (s - snd x)) (fst y * pow10 (s - snd y)), s))"

definition dec_digits :: "dec \<Rightarrow> nat" where
  "dec_digits x = length (nat_str (nat \<bar>fst x\<bar>))"

definition dec_arith :: "(dec, int) arith" where
  "dec_arith =
     \<lparr>bd_add = dec_align (+), bd_sub = dec_align (-), bd_mul = \<lambda>x y. (fst x * fst y, snd x + snd y),
      bd_div = \<lambda>x y. (fst x * pow10 40 div fst y, 40 + snd x - snd y), bd_neg = \<lambda>x. (- fst x, snd x),
      bd_sqrt = \<lambda>_. None, bd_digits = dec_digits,
      bd_with_prec = \<lambda>x p. (let cut = int (dec_digits x - p) in (fst x div pow10 cut, snd x - cut)),
      bd_is_integer = \<lambda>x. snd (dec_normalized x) \<le> 0,
      bd_to_i64 = \<lambda>x. (let i = fst x * pow10 (- snd x) div pow10 (snd x) in
        if - (2 ^ 63) \<le> i \<and> i < 2 ^ 63 then Some i else None),
      f64_exp = \<lambda>_. None, f64_ln = \<lambda>_. None, f64_powf = \<lambda>_ _. None, f64_log = \<lambda>_ _. None,
      dt_diff_nanos = \<lambda>a b. (if - (2 ^ 63) \<le> a - b \<and> a - b < 2 ^ 63 then Some (a - b) else None),
      dt_with_day = \<lambda>d k. dt_add_seconds clock_ext d ((int k - int (dt_day clock_ext d)) * 86400)\<rparr>"

end
