(* ===== verification/Eval_Ends.thy ===== *)
theory Eval_Ends
  imports Eval_Correct Decimal_Arith
begin

text \<open>
  Evaluation ends. A result that is not \<open>Diverges\<close> is a value, an error of Oracle or a panic; the
  conversions, comparisons and functions never diverge, and the evaluator with fuel for twice the size of
  a syntax tree does not either.
\<close>

section \<open>Results that are not divergence\<close>

definition ends :: "('e, 'b) rust \<Rightarrow> bool" where
  "ends r \<longleftrightarrow> r \<noteq> Inl Diverges"

named_theorems ends_intros \<open>results that are not divergence\<close>

lemma ends_simps [simp]: "ends (Inr b)" "ends (Inl x) \<longleftrightarrow> x \<noteq> Diverges"
  by (simp_all add: ends_def)

lemma ends_basic [ends_intros]: "ends (Inr b)" "ends (Inl (Err e))" "ends (Inl Panic)"
  by simp_all

lemma ends_rbind [ends_intros]: "ends m \<Longrightarrow> (\<And>a. m = Inr a \<Longrightarrow> ends (f a)) \<Longrightarrow> ends (rbind m f)"
  by (cases m) (auto simp: ends_def)

lemma ends_ok_or [ends_intros]: "ends (ok_or x e)"
  by (cases x) simp_all

lemma ends_unwrap [ends_intros]: "ends (unwrap x)"
  by (cases x) simp_all

lemma ends_index [ends_intros]: "ends (index xs i)"
  by (simp add: index_def)

lemma ends_map_rust [ends_intros]: "(\<And>x. x \<in> set xs \<Longrightarrow> ends (f x)) \<Longrightarrow> ends (map_rust f xs)"
  by (induction xs) (auto intro!: ends_rbind)

lemma ends_if [ends_intros]: "ends a \<Longrightarrow> ends b \<Longrightarrow> ends (if c then a else b)"
  by simp

lemma ends_option [ends_intros]:
  "(x = None \<Longrightarrow> ends a) \<Longrightarrow> (\<And>y. x = Some y \<Longrightarrow> ends (b y)) \<Longrightarrow> ends (case x of None \<Rightarrow> a | Some y \<Rightarrow> b y)"
  by (cases x) auto

lemma ends_pair [ends_intros]: "(\<And>a b. ends (f a b)) \<Longrightarrow> ends (case p of (a, b) \<Rightarrow> f a b)"
  by (cases p) auto

lemma ends_pair_fun [ends_intros]: "(\<And>a b. ends (f a b z)) \<Longrightarrow> ends ((case p of (a, b) \<Rightarrow> f a b) z)"
  by (cases p) auto

lemma ends_ordering [ends_intros]:
  "ends a \<Longrightarrow> ends b \<Longrightarrow> ends c \<Longrightarrow> ends (case r of Less \<Rightarrow> a | Equal \<Rightarrow> b | Greater \<Rightarrow> c)"
  by (cases r) auto

lemma ends_Let [ends_intros]: "ends (f x) \<Longrightarrow> ends (Let x f)"
  by simp

lemma ends_list [ends_intros]:
  "ends a \<Longrightarrow> (\<And>y ys. xs = y # ys \<Longrightarrow> ends (b y ys)) \<Longrightarrow> ends (case xs of [] \<Rightarrow> a | y # ys \<Rightarrow> b y ys)"
  by (cases xs) auto

lemma ends_value [ends_intros]:
  "ends a \<Longrightarrow> (\<And>n. ends (b n)) \<Longrightarrow> (\<And>s. ends (c s)) \<Longrightarrow> (\<And>d. ends (d' d)) \<Longrightarrow> (\<And>d. ends (e d)) \<Longrightarrow> (\<And>p. ends (g p)) \<Longrightarrow>
   ends (case v of Null \<Rightarrow> a | Number n \<Rightarrow> b n | Varchar2 s \<Rightarrow> c s | Date d \<Rightarrow> d' d | Timestamp d \<Rightarrow> e d | Boolean p \<Rightarrow> g p)"
  by (cases v) auto

lemma ends_type [ends_intros]:
  "(\<And>p s. ends (a p s)) \<Longrightarrow> (\<And>n. ends (b n)) \<Longrightarrow> (\<And>n. ends (c n)) \<Longrightarrow> ends d \<Longrightarrow> (\<And>n. ends (e n)) \<Longrightarrow>
   ends (case t of TNumber p s \<Rightarrow> a p s | TVarchar2 n \<Rightarrow> b n | TChar n \<Rightarrow> c n | TDate \<Rightarrow> d | TTimestamp n \<Rightarrow> e n)"
  by (cases t) auto

section \<open>Values and dates\<close>

lemma ends_next_elem [ends_intros]: "ends (next_elem s)"
  unfolding next_elem_def by (intro ends_intros)

lemma ends_tokenize [ends_intros]: "ends (dt_tokenize s)"
proof (induction s rule: dt_tokenize.induct)
  case (1 s)
  then show ?case
    using ends_next_elem [of s] by (subst dt_tokenize.simps) (cases "next_elem s", auto intro!: ends_intros)
qed

lemma ends_format_elem [ends_intros]: "ends (format_elem E d fm e c)"
  unfolding format_elem_def by (cases e; simp) (intro ends_intros)+

lemma ends_format_elems [ends_intros]: "ends (format_elems E d fm es)"
  by (induction es arbitrary: fm) (auto intro!: ends_intros)

lemma ends_dt_format [ends_intros]: "ends (dt_format E d fmt)"
  unfolding dt_format_def by (cases "dt_tokenize fmt") (auto intro!: ends_intros)

lemma ends_number [ends_intros]: "ends (number k s)"
  unfolding number_def by (intro ends_intros)

lemma ends_parse_elem [ends_intros]: "ends (parse_elem e st)"
  unfolding parse_elem_def parse_meridian_def by (cases st; cases e; simp) (intro ends_intros)+

lemma ends_parse_elems [ends_intros]: "ends (parse_elems es st)"
  by (induction es st rule: parse_elems.induct) (auto intro!: ends_intros)

lemma ends_dt_parse [ends_intros]: "ends (dt_parse E s fmt)"
  unfolding dt_parse_def finish_date_def hour_24_def by (intro ends_intros)

lemma ends_last_day_of [ends_intros]: "ends (last_day_of E y m)"
  unfolding last_day_of_def by (intro ends_intros)

lemma ends_add_months [ends_intros]: "ends (add_months E d n)"
  unfolding add_months_def by (intro ends_intros)

lemma ends_dt_trunc [ends_intros]: "ends (dt_trunc E d u)"
  unfolding dt_trunc_def at_time_def by (intro ends_intros)

lemma ends_to_number [ends_intros]: "ends (to_number E v)"
  by (cases v) (auto intro!: ends_intros)

lemma ends_to_datetime [ends_intros]: "ends (to_datetime E fmt v)"
  by (cases v) (auto intro!: ends_intros)

lemma ends_display [ends_intros]: "ends (display E v)"
  by (cases v) (auto intro!: ends_intros)

lemma ends_compare [ends_intros]: "ends (compare E a b fmt)"
  unfolding compare_def by (intro ends_intros)

lemma ends_to_text [ends_intros]: "ends (to_text E env v)"
  unfolding to_text_def by (intro ends_intros)

lemma ends_find_column [ends_intros]: "ends (find_column cols table name)"
proof -
  have "ends (find_from i found cols table name)" for i found
    by (induction cols arbitrary: i found) auto
  then show ?thesis by (simp add: find_column_def)
qed

lemma ends_in_values [ends_intros]: "ends (in_values E v cs fmt)"
proof -
  have "ends (in_loop E v fmt unknown cs)" for unknown
  proof (induction cs arbitrary: unknown)
    case (Cons c cs)
    show ?case by (simp only: in_loop.simps) (intro ends_intros Cons)
  qed simp
  then show ?thesis by (simp add: in_values_def)
qed

lemma ends_coerce_row [ends_intros]: "ends (coerce_row E row cols env)"
  unfolding coerce_row_def coerce_value_def by (intro ends_intros)

lemma ends_like_parts: "ends (like_parts c p)"
proof (induction p rule: length_induct)
  case (1 p)
  then have IH: "ends (like_parts c r)" if "length r < length p" for r using that by blast
  show ?case
  proof (cases p)
    case (Cons d cs)
    show ?thesis unfolding Cons like_parts.simps by (intro ends_intros IH) (simp_all add: Cons)
  qed simp
qed

lemma ends_like [ends_intros]: "ends (like s p c)"
  unfolding like_def by (intro ends_intros ends_like_parts) (simp add: like_loop_matches back_ok_def)

section \<open>Functions\<close>

lemma ends_check_args [ends_intros]: "ends (check_args a lo hi)"
  unfolding check_args_def by (intro ends_intros)

lemma ends_or_null [ends_intros]: "ends m \<Longrightarrow> (\<And>y. ends (f y)) \<Longrightarrow> ends (or_null m f)"
  unfolding or_null_def by (intro ends_intros)

lemma ends_int_arg [ends_intros]: "ends (int_arg E A v)"
  unfolding int_arg_def by (intro ends_intros)

lemma ends_from_f64 [ends_intros]: "ends (from_f64 E A f)"
  unfolding from_f64_def by (intro ends_intros)

definition all_end :: "('e, 'b) rust option \<Rightarrow> bool" where
  "all_end r \<longleftrightarrow> (\<forall>x. r = Some x \<longrightarrow> ends x)"

lemma all_end_intros: "ends x \<Longrightarrow> all_end (Some x)" "all_end None"
  "all_end p \<Longrightarrow> all_end q \<Longrightarrow> all_end (if c then p else q)" "all_end (f y) \<Longrightarrow> all_end (Let y f)"
  by (simp_all add: all_end_def)

lemma ends_decode_args [ends_intros]: "ends (decode_args E fmt subject a)"
proof (induction a rule: length_induct)
  case (1 a)
  then have IH: "ends (decode_args E fmt subject r)" if "length r < length a" for r using that by blast
  consider "a = []" | x where "a = [x]" | x y r where "a = x # y # r" by (cases a; cases "tl a") auto
  then show ?case
  proof cases
    case (3 x y r)
    show ?thesis unfolding 3 decode_args.simps by (intro ends_intros IH) (simp add: 3)
  qed simp_all
qed

lemma null_function_ends: "all_end (null_function E env name a)"
  unfolding null_function_def by (intro all_end_intros ends_intros)

lemma string_function_ends: "all_end (string_function E A env name a)"
  unfolding string_function_def string_fn_def instr_function_def pad_function_def trim_function_def trim_set_function_def
    substr_def
  by (intro all_end_intros ends_intros)

lemma ends_round_date [ends_intros]: "ends (round_date E d u)"
  unfolding round_date_def by (intro ends_intros)

lemma ends_best_of [ends_intros]: "ends (best_of E fmt g best vs)"
  by (induction vs arbitrary: best) (auto intro!: ends_intros)

lemma number_function_ends: "all_end (number_function E A env name a)"
  unfolding number_function_def unary_number_def binary_number_def number_power_def round_function_def
  by (intro all_end_intros ends_intros)

lemma ends_format_number_with [ends_intros]: "ends (format_number_with E n fmt)"
  unfolding format_number_with_def by (intro ends_intros)

lemma date_function_ends: "all_end (date_function E A env name a)"
  unfolding date_function_def to_char_function_def to_number_function_def to_date_function_def cast_function_def
    months_between_def extract_field_def session_now_def
  by (intro all_end_intros ends_intros)

lemma builtin_ends: "builtin E A env name a = Some r \<Longrightarrow> ends r"
  using null_function_ends [of E env name a] string_function_ends [of E A env name a]
    number_function_ends [of E A env name a] date_function_ends [of E A env name a]
  unfolding builtin_def all_end_def by (auto split: option.splits)

section \<open>Computations that end\<close>

definition settles :: "('n, 'd, 'r) ev \<Rightarrow> bool" where
  "settles m \<longleftrightarrow> (\<forall>s. ends (fst (m s)))"

named_theorems settles_intros \<open>computations that end\<close>

lemma settles_eret [settles_intros]: "settles (eret r)"
  by (simp add: settles_def eret_def)

lemma settles_elift [settles_intros]: "ends r \<Longrightarrow> settles (elift r)"
  by (simp add: settles_def elift_def)

lemma settles_ebind: "settles m \<Longrightarrow> (\<And>a. settles (f a)) \<Longrightarrow> settles (ebind m f)"
  unfolding settles_def ebind_def by (auto split: prod.split sum.split) (metis fst_conv ends_simps(2))

lemma settles_eenv_bind: "(\<And>env. settles (f (g env))) \<Longrightarrow> settles (ebind (eenv g) f)"
  by (simp add: settles_def ebind_def eenv_def)

lemma settles_edb_bind: "(\<And>db. settles (f (g db))) \<Longrightarrow> settles (ebind (edb g) f)"
  by (simp add: settles_def ebind_def edb_def)

lemma settles_elift_bind: "ends r \<Longrightarrow> (\<And>a. r = Inr a \<Longrightarrow> settles (f a)) \<Longrightarrow> settles (ebind (elift r) f)"
  by (cases r) (auto simp: settles_def ebind_def elift_def)

lemmas [settles_intros] = settles_eenv_bind settles_edb_bind settles_elift_bind settles_ebind

lemma settles_emap [settles_intros]: "(\<And>x. x \<in> set xs \<Longrightarrow> settles (f x)) \<Longrightarrow> settles (emap f xs)"
  by (induction xs) (auto intro!: settles_intros)

lemma settles_efold [settles_intros]: "(\<And>x b. x \<in> set xs \<Longrightarrow> settles (f x b)) \<Longrightarrow> settles (efold f xs b)"
  by (induction xs arbitrary: b) (auto intro!: settles_intros)

lemma settles_set_env [settles_intros]: "settles (eset_env f)"
  by (simp add: settles_def eset_env_def)

lemma settles_finally [settles_intros]: "settles m \<Longrightarrow> settles (efinally m f)"
  unfolding settles_def efinally_def by (simp add: case_prod_unfold Let_def)

lemma settles_if [settles_intros]: "settles a \<Longrightarrow> settles b \<Longrightarrow> settles (if c then a else b)"
  by simp

lemma settles_option [settles_intros]:
  "(x = None \<Longrightarrow> settles a) \<Longrightarrow> (\<And>y. x = Some y \<Longrightarrow> settles (b y)) \<Longrightarrow> settles (case x of None \<Rightarrow> a | Some y \<Rightarrow> b y)"
  by (cases x) auto

lemma settles_pair [settles_intros]: "(\<And>a b. p = (a, b) \<Longrightarrow> settles (f a b)) \<Longrightarrow> settles (case p of (a, b) \<Rightarrow> f a b)"
  by (cases p) auto

lemma settles_pair_fun [settles_intros]: "(\<And>a b. settles (f a b z)) \<Longrightarrow> settles ((case p of (a, b) \<Rightarrow> f a b) z)"
  by (cases p) auto

lemma settles_Let [settles_intros]: "settles (f x) \<Longrightarrow> settles (Let x f)"
  by simp

lemma settles_list [settles_intros]:
  "(xs = [] \<Longrightarrow> settles a) \<Longrightarrow> (\<And>y ys. xs = y # ys \<Longrightarrow> settles (b y ys)) \<Longrightarrow> settles (case xs of [] \<Rightarrow> a | y # ys \<Rightarrow> b y ys)"
  by (cases xs) auto

lemma settles_value [settles_intros]:
  "settles a \<Longrightarrow> (\<And>n. settles (b n)) \<Longrightarrow> (\<And>s. settles (c s)) \<Longrightarrow> (\<And>d. settles (d' d)) \<Longrightarrow> (\<And>d. settles (e d)) \<Longrightarrow>
   (\<And>p. settles (g p)) \<Longrightarrow>
   settles (case v of Null \<Rightarrow> a | Number n \<Rightarrow> b n | Varchar2 s \<Rightarrow> c s | Date d \<Rightarrow> d' d | Timestamp d \<Rightarrow> e d | Boolean p \<Rightarrow> g p)"
  by (cases v) auto

lemma settles_next_sequence [settles_intros]: "settles (estep_r (next_sequence n def))"
  by (auto simp: settles_def estep_r_def next_sequence_def Let_def)

lemma settles_advance_sequence [settles_intros]: "settles (advance_sequence name)"
  unfolding advance_sequence_def by (intro settles_intros ends_intros)

lemma settles_with_row [settles_intros]: "settles m \<Longrightarrow> settles (with_row exprs m)"
  unfolding with_row_def start_row_def by (intro settles_intros)

lemma settles_sequence [settles_intros]: "settles (sequence E name nxt)"
  unfolding sequence_def by (intro settles_intros ends_intros)

section \<open>One step of evaluation\<close>

text \<open>The evaluator ends on every syntax tree smaller than \<open>m\<close>.\<close>

definition settled_below :: "('n, 'd) evaluator \<Rightarrow> nat \<Rightarrow> bool" where
  "settled_below V m \<longleftrightarrow>
     (\<forall>x e sc. size e < m \<longrightarrow> settles (ev_eval V x e sc) \<and> settles (ev_bool V x e sc)) \<and>
     (\<forall>x q par. size q < m \<longrightarrow> settles (ev_query V x q par))"

lemma below_eval: "settled_below V m \<Longrightarrow> size e < m \<Longrightarrow> settles (ev_eval V x e sc)"
  and below_bool: "settled_below V m \<Longrightarrow> size e < m \<Longrightarrow> settles (ev_bool V x e sc)"
  and below_query: "settled_below V m \<Longrightarrow> size q < m \<Longrightarrow> settles (ev_query V x q par)"
  by (simp_all add: settled_below_def)

lemma settles_call:
  "(\<And>cat r a. settles (F cat r a)) \<Longrightarrow> settles (call E A F x name a)"
  unfolding call_def by (intro settles_intros ends_intros) (auto dest: builtin_ends)

lemma ends_resolve_scope [ends_intros]: "ends (resolve_scope sc table name)"
  by (induction sc table name rule: resolve_scope.induct) (auto intro!: ends_intros)

lemma settles_resolve:
  "(\<And>cat r a. settles (F cat r a)) \<Longrightarrow> settles (resolve E A F x sc table name)"
  unfolding resolve_def by (intro settles_intros ends_intros settles_call)

lemma ends_aggregate_values [ends_intros]: "ends (aggregate_values E A fmt name vs)"
proof -
  have "ends (best_value E fmt least best vs)" for least best
    by (induction vs arbitrary: best) (auto intro!: ends_intros simp: Let_def split: option.split)
  then show ?thesis unfolding aggregate_values_def numbers_def by (intro ends_intros)
qed

lemma ends_arithmetic [ends_intros]: "ends (arithmetic E A op v w)"
  unfolding arithmetic_def add_days_def by (intro ends_intros) (cases op; simp)

lemma settles_single_column:
  "settled_below V m \<Longrightarrow> size q < m \<Longrightarrow> settles (single_column V x q sc)"
  unfolding single_column_def by (intro settles_intros ends_intros below_query)

lemma list_smaller: "x \<in> set xs \<Longrightarrow> f x \<le> size_list f xs"
  by (simp add: size_list_estimation')

lemma settles_aggregate:
  "settled_below V m \<Longrightarrow> size_list size args < m \<Longrightarrow> settles (aggregate E A V x name args uniq sc)"
  unfolding aggregate_def by (intro settles_intros ends_intros below_eval) auto

lemma settles_eval_whens:
  assumes "settled_below V m" and "size_list (size_prod size size) whens < m" and "size_option size els < m"
  shows "settles (eval_whens E V x sc subject whens els)"
  using assms(2)
proof (induction whens)
  case Nil
  then show ?case using assms(1,3) by (auto intro!: settles_intros below_eval split: option.split)
next
  case (Cons wt whens)
  obtain w t where wt: "wt = (w, t)" by (cases wt)
  have "size w < m" "size t < m" using Cons.prems wt by auto
  then show ?case unfolding wt eval_whens.simps
    by (intro settles_intros ends_intros below_eval [OF assms(1)] below_bool [OF assms(1)]) (use Cons in simp_all)
qed

text \<open>The expressions that \<open>eval\<close> hands to \<open>eval_bool\<close>.\<close>

definition is_condition :: "('n, 'd) expr \<Rightarrow> bool" where
  "is_condition e \<longleftrightarrow>
     (case e of
        Binary op _ _ \<Rightarrow> op \<in> {And, Or, Eq, NotEq, Lt, LtEq, Gt, GtEq}
      | NotE _ \<Rightarrow> True | IsNull _ _ \<Rightarrow> True | Between _ _ _ _ \<Rightarrow> True | InList _ _ _ \<Rightarrow> True
      | InSubquery _ _ _ \<Rightarrow> True | Exists _ \<Rightarrow> True | Like _ _ _ _ \<Rightarrow> True | _ \<Rightarrow> False)"

lemma eval_condition: "is_condition e \<Longrightarrow> eval E A F V x e sc = condition_value V x e sc"
  by (cases e) (auto simp: eval_def is_condition_def)

lemma settles_condition_value: "settles (ev_bool V x e sc) \<Longrightarrow> settles (condition_value V x e sc)"
  unfolding condition_value_def by (intro settles_intros)

lemma settles_escape_char:
  "settled_below V m \<Longrightarrow> size_option size esc < m \<Longrightarrow> settles (escape_char E V x sc esc)"
  unfolding escape_char_def by (intro settles_intros ends_intros below_eval) auto

lemma settles_eval_value:
  assumes "settled_below V (size e)" and "\<And>cat r a. settles (F cat r a)" and "\<not> is_condition e"
  shows "settles (eval E A F V x e sc)"
proof -
  note rules = settles_intros ends_intros below_eval [OF assms(1)] settles_resolve [OF assms(2)]
    settles_call [OF assms(2)] settles_aggregate [OF assms(1)] settles_single_column [OF assms(1)]
    settles_eval_whens [OF assms(1)]
  show ?thesis using assms(3) unfolding eval_def is_condition_def
    by (cases e; simp) ((intro rules impI conjI; fastforce dest: list_smaller [of _ _ size])+)
qed

lemma settles_other_bool:
  "settles (ev_eval V x e sc) \<Longrightarrow> \<not> is_condition e \<Longrightarrow> settles (eval_bool E V x e sc)"
  unfolding eval_bool_def is_condition_def is_comparison_def Let_def
  by (cases e; simp) (intro settles_intros ends_intros; simp)+

lemma settles_eval_bool:
  assumes "settled_below V (size e)" and "is_condition e"
  shows "settles (eval_bool E V x e sc)"
proof -
  note rules = settles_intros ends_intros below_eval [OF assms(1)] below_bool [OF assms(1)] below_query [OF assms(1)]
    settles_single_column [OF assms(1)] settles_escape_char [OF assms(1)]
  show ?thesis
  proof (cases e)
    case (Binary op a b)
    then show ?thesis using assms(2) unfolding eval_bool_def is_condition_def is_comparison_def Let_def
      by (cases op; simp) (intro rules; simp add: Binary)+
  qed (use assms(2) in \<open>simp_all add: is_condition_def eval_bool_def Let_def\<close>,
    (intro rules; fastforce dest: list_smaller [of _ _ size])+)
qed

section \<open>Queries\<close>

lemma settles_table_factor: "settled_below V m \<Longrightarrow> size f \<le> m \<Longrightarrow> settles (table_factor V x par f)"
  unfolding table_factor_def
  by (cases f; simp add: Let_def) (intro settles_intros ends_intros below_query [where m = m] impI conjI; simp)+

lemma settles_join_rows: "(\<And>l. settles (match l)) \<Longrightarrow> settles (join_rows kind rw rights match ls seen)"
  by (induction ls arbitrary: seen) (simp; intro settles_intros; simp)+

lemma settles_join: "settled_below V m \<Longrightarrow> size_option size on < m \<Longrightarrow> settles (join V x par kind left right on)"
  unfolding join_def join_matches_def by (intro settles_intros settles_join_rows below_bool) auto

lemma settles_source_item:
  assumes "settled_below V m" and "size item \<le> m"
  shows "settles (source_item V x par item)"
proof -
  obtain f js where item: "item = FromItem f js" by (cases item)
  have "size j \<le> m" if "j \<in> set js" for j using that assms(2) list_smaller [of j js size] by (simp add: item)
  then have "size (j_factor j) \<le> m" "size_option size (j_on j) < m" if "j \<in> set js" for j
    using that by (cases j; fastforce)+
  then show ?thesis unfolding source_item_def item
    by (intro settles_intros settles_table_factor [OF assms(1)] settles_join [OF assms(1)]) (use assms(2) item in simp_all)
qed

lemma settles_from_sources:
  "settled_below V m \<Longrightarrow> size_list size items \<le> m \<Longrightarrow> settles (from_sources V x par items)"
  unfolding from_sources_def
  by (intro settles_intros settles_source_item) (auto dest: list_smaller [of _ _ size])

lemma settles_accept_rows:
  assumes "settled_below V m" and "size_option size wh < m"
  shows "settles (accept_rows V x par cols wh rows acc)"
proof (induction rows arbitrary: acc)
  case (Cons row rows)
  show ?case unfolding accept_rows.simps
    by (intro settles_intros ends_intros below_bool [OF assms(1)] Cons) (use assms(2) in auto)
qed (simp add: settles_eret)

lemma settles_compute_row:
  assumes "settled_below V m" and "\<And>e. e \<in> set (item_exprs items keys) \<Longrightarrow> size e < m"
  shows "settles (compute_row V x items keys sc)"
proof -
  have "size e < m" if "(ExprItem e, n) \<in> set items" for e n
    using that by (intro assms(2)) (force simp: item_exprs_def map_filter_def)
  moreover have "size e < m" if "ExprKey e \<in> set keys" for e
    using that by (intro assms(2)) (force simp: item_exprs_def map_filter_def)
  ultimately show ?thesis unfolding compute_row_def
    by (intro settles_intros) (auto intro!: settles_intros ends_intros below_eval [OF assms(1)] split: item.split sort_key.split)
qed

lemma settles_compute_group:
  assumes "settled_below V m" and "size_option size having < m"
    and "\<And>e. e \<in> set (item_exprs items keys) \<Longrightarrow> size e < m"
  shows "settles (compute_group V x par cols having items keys ng out)"
  unfolding compute_group_def
  by (intro settles_intros settles_compute_row [OF assms(1)] below_bool [OF assms(1)]) (use assms(2,3) in auto)

lemma settles_group_rows:
  "settled_below V m \<Longrightarrow> size_list size gs < m \<Longrightarrow> settles (group_rows E V x par cols gs accepted)"
  unfolding group_rows_def
  by (intro settles_intros ends_intros below_eval) (auto dest: list_smaller [of _ _ size])

lemma ends_static_type [ends_intros]: "ends (static_type cols e)"
proof (induction cols e rule: static_type.induct)
  case (7 cols name args uu)
  have "ends (case map (static_type cols) args of [] \<Rightarrow> Inr None | t # _ \<Rightarrow> t)"
    using 7 by (cases args) auto
  then show ?case unfolding static_type.simps function_type_def by (intro ends_intros) simp_all
next
  case (8 cols uv whens els)
  have some: "ends (first_some rs)" if "\<And>r. r \<in> set rs \<Longrightarrow> ends r" for rs :: "(ora_error, sql_type option) rust list"
    using that by (induction rs) (auto intro!: ends_intros)
  show ?case unfolding static_type.simps by (intro ends_intros some) (use 8 in \<open>auto split: option.splits\<close>)
qed (auto intro!: ends_intros)

lemma ends_sort_key_of [ends_intros]: "ends (sort_key_of E items k)"
proof -
  have "ends (sort_key_by_name items e)" for e
    unfolding sort_key_by_name_def by (auto split: expr.split option.split list.split)
  then show ?thesis unfolding sort_key_of_def order_position_def by (intro ends_intros)
qed

lemma ends_expand_item [ends_intros]: "ends (expand_item cols item)"
  unfolding expand_item_def by (auto simp: Let_def split: select_item.split)

lemma ends_result_col [ends_intros]: "ends (result_col cols out p)"
  unfolding result_col_def by (auto intro!: ends_intros split: prod.split item.split)

lemma map_rust_in: "map_rust f xs = Inr ys \<Longrightarrow> y \<in> set ys \<Longrightarrow> \<exists>x \<in> set xs. f x = Inr y"
  by (induction xs arbitrary: ys) (auto simp: rbind_eq_Inr)

text \<open>The expressions of the expanded select list and of the sort keys are those of the statement.\<close>

lemma item_exprs_from:
  assumes "map_rust (expand_item cols) its = Inr iss" and "map_rust (sort_key_of E (concat iss)) order_by = Inr keys"
    and "e \<in> set (item_exprs (concat iss) keys)"
  shows "(\<exists>n. ItemExpr e n \<in> set its) \<or> (\<exists>k \<in> set order_by. e = o_expr k)"
proof -
  have "\<exists>n. ItemExpr e n \<in> set its" if "(ExprItem e, n) \<in> set (concat iss)" for n
  proof -
    obtain js where "js \<in> set iss" "(ExprItem e, n) \<in> set js" using \<open>(ExprItem e, n) \<in> set (concat iss)\<close> by auto
    moreover obtain it where "it \<in> set its" "expand_item cols it = Inr js" using map_rust_in [OF assms(1)] calculation(1) by blast
    ultimately have "it = ItemExpr e n" by (auto simp: expand_item_def Let_def split: select_item.splits if_splits)
    then show ?thesis using \<open>it \<in> set its\<close> by blast
  qed
  moreover have "\<exists>k \<in> set order_by. e = o_expr k" if key: "ExprKey e \<in> set keys"
  proof -
    obtain k where "k \<in> set order_by" "sort_key_of E (concat iss) k = Inr (ExprKey e)"
      using map_rust_in [OF assms(2) key] by blast
    then show ?thesis
      by (auto simp: sort_key_of_def rbind_eq_Inr order_position_def split: option.splits if_splits)
  qed
  ultimately show ?thesis using assms(3)
    by (auto simp: item_exprs_def map_filter_def split: item.splits sort_key.splits) blast
qed

lemma settles_select:
  assumes below: "settled_below V m" and s: "size s \<le> m" and k: "size_list size order_by \<le> m"
  shows "settles (eval_select E V x s order_by par)"
proof -
  obtain d its fs w gs h where select: "s = Select d its fs w gs h" by (cases s)
  have "size e < m" if "ItemExpr e n \<in> set its" for e n
    using list_smaller [OF that, of size] s by (simp add: select)
  moreover have "size (o_expr i) < m" if "i \<in> set order_by" for i
    using list_smaller [OF that, of size] k by (cases i) simp
  ultimately have exprs: "size e < m" if "map_rust (expand_item cols) its = Inr iss"
    "map_rust (sort_key_of E (concat iss)) order_by = Inr keys" "e \<in> set (item_exprs (concat iss) keys)" for cols iss keys e
    using item_exprs_from [OF that] by blast
  show ?thesis unfolding eval_select_def select
    apply (intro settles_intros ends_intros settles_from_sources [OF below] settles_accept_rows [OF below]
      settles_group_rows [OF below] settles_compute_group [OF below] settles_compute_row [OF below])
    using s select exprs by (auto simp: rbind_eq_Inr)
qed

lemma ends_union_type [ends_intros]: "ends (union_type a b)"
  unfolding union_type_def by (intro ends_intros)

lemma settles_set_expr:
  "settled_below V m \<Longrightarrow> size b \<le> m \<Longrightarrow> settles (eval_set_expr E V x par b)"
proof (induction E V x par b rule: eval_set_expr.induct)
  case (1 E V x par s)
  then show ?case by (auto intro!: settles_intros settles_select [where m = m])
next
  case (2 E V x par op l r)
  then have "settles (eval_set_expr E V x par l)" "settles (eval_set_expr E V x par r)" by simp_all
  then show ?case by (auto intro!: settles_intros ends_intros)
qed

lemma ends_order_keys: "ends (order_keys E fmt items as bs err)"
proof (induction items arbitrary: as bs err)
  case (Cons item items)
  show ?case
  proof (cases "\<exists>a as' b bs'. as = a # as' \<and> bs = b # bs'")
    case True
    then obtain a as' b bs' where ab: "as = a # as'" "bs = b # bs'" by blast
    show ?thesis using ends_compare [of E a b fmt]
      by (cases "compare E a b fmt") (auto simp: ab Let_def Cons.IH split: fail.splits)
  qed (cases as; cases bs; simp)
qed simp

lemma ends_sort_rows [ends_intros]: "ends (sort_rows E fmt order_by rows)"
proof -
  let ?f = "\<lambda>a b. order_keys E fmt order_by (snd a) (snd b)"
  have ins: "ends (insert_tail ?f r acc err)" for r acc err
    by (induction acc arbitrary: err) (auto intro!: ends_intros ends_order_keys split: if_splits)
  have "ends (sort_by ?f rs acc err)" for rs acc err
    by (induction rs arbitrary: acc err) (auto intro!: ends_intros ins)
  then show ?thesis unfolding sort_rows_def by (intro ends_intros)
qed

lemma ends_output_position [ends_intros]: "ends (output_position E e cols)"
proof (cases "position_literal E e")
  case None
  then show ?thesis by (cases e) (simp_all add: output_position_def split: option.split)
qed (simp add: output_position_def order_position_def)

lemma settles_row_limit: "settled_below V m \<Longrightarrow> size_option size e < m \<Longrightarrow> settles (row_limit E V x par e)"
  unfolding row_limit_def by (intro settles_intros ends_intros below_eval) auto

lemma settles_query:
  assumes below: "settled_below V (size q)"
  shows "settles (eval_query E V x q par)"
proof -
  obtain b os off fe where q: "q = Query b os off fe" by (cases q)
  have body: "settles (eval_select E V x s os par)" if "b = SelectBody s" for s
    using settles_select [OF below, of s os] that by (simp add: q)
  have other: "settles (eval_set_expr E V x par (SetOp op l r))" if "b = SetOp op l r" for op l r
    using that by (intro settles_set_expr [OF below]) (simp add: q)
  note rules = settles_intros ends_intros settles_row_limit [OF below]
  show ?thesis
  proof (cases b)
    case (SelectBody s)
    show ?thesis unfolding eval_query_def q query.sel SelectBody set_expr.case
      by (intro rules body [OF SelectBody]) (simp_all add: q)
  next
    case (SetOp op l r)
    show ?thesis unfolding eval_query_def q query.sel SetOp set_expr.case order_position_def
      by (intro rules other [OF SetOp]) (simp_all add: q)
  qed
qed

section \<open>Enough fuel\<close>

lemma evaluator_at_Suc: "evaluator_at E A F (Suc n) = eval_step E A F (evaluator_at E A F n)"
  by (simp add: evaluator_at_def)

lemma evaluator_settles:
  fixes F :: "('n, 'd) caller"
  assumes F: "\<And>cat r a. settles (F cat r a)"
  shows "2 * m \<le> n \<Longrightarrow> settled_below (evaluator_at E A F n) m"
proof (induction m arbitrary: n)
  case (Suc m)
  then obtain k where n: "n = Suc (Suc k)" and k: "2 * m \<le> k"
    by (cases n; cases "n - 1") auto
  let ?V = "evaluator_at E A F k" and ?W = "evaluator_at E A F (Suc k)"
  have small: "settled_below V' (size e)" if "settled_below V' m" "size e \<le> m"
    for V' :: "('n, 'd) evaluator" and e :: "('n, 'd) expr"
    using that by (simp add: settled_below_def)
  have V: "settled_below ?V m" "settled_below ?W m" using Suc.IH k by simp_all
  have W_value: "settles (ev_eval ?W x e sc)" if "size e \<le> m" "\<not> is_condition e" for x e sc
    using that V small F by (simp add: evaluator_at_Suc [of _ _ _ k] eval_step_def settles_eval_value)
  have W_cond: "settles (ev_bool ?W x e sc)" if "size e \<le> m" "is_condition e" for x e sc
    using that V small by (simp add: evaluator_at_Suc [of _ _ _ k] eval_step_def settles_eval_bool)
  have "settles (eval E A F ?W x e sc)" if "size e \<le> m" for x e sc
    using that V small F W_cond
    by (cases "is_condition e") (simp_all add: eval_condition settles_condition_value settles_eval_value)
  moreover have "settles (eval_bool E ?W x e sc)" if "size e \<le> m" for x e sc
    using that V small W_value by (cases "is_condition e") (simp_all add: settles_eval_bool settles_other_bool)
  moreover have "settles (eval_query E ?W x q par)" if "size q \<le> m" for x q par
    using that V by (intro settles_query) (simp add: settled_below_def)
  ultimately show ?case by (simp add: n evaluator_at_Suc [of _ _ _ "Suc k"] eval_step_def settled_below_def less_Suc_eq_le)
qed (simp add: settled_below_def)

section \<open>More fuel changes nothing\<close>

text \<open>\<open>m'\<close> does what \<open>m\<close> does wherever \<open>m\<close> ends.\<close>

definition agrees :: "('n, 'd, 'r) ev \<Rightarrow> ('n, 'd, 'r) ev \<Rightarrow> bool" where
  "agrees m m' \<longleftrightarrow> (\<forall>s. ends (fst (m s)) \<longrightarrow> m s = m' s)"

named_theorems agrees_intros \<open>computations that agree where the first ends\<close>

lemma agrees_refl [agrees_intros]: "agrees m m"
  by (simp add: agrees_def)

lemma agrees_trans: "agrees a b \<Longrightarrow> agrees b c \<Longrightarrow> agrees a c"
  unfolding agrees_def by metis

lemma agrees_stuck: "agrees (elift (Inl Diverges)) m"
  by (simp add: agrees_def elift_def)

lemma agrees_ebind [agrees_intros]:
  assumes "agrees m m'" and "\<And>a. agrees (f a) (f' a)"
  shows "agrees (ebind m f) (ebind m' f')"
  unfolding agrees_def
proof (intro allI impI)
  fix s assume e: "ends (fst (ebind m f s))"
  obtain r t where m: "m s = (r, t)" by (cases "m s")
  then have "ends r" using e by (cases r) (auto simp: ebind_def)
  then have "m' s = (r, t)" using assms(1) m unfolding agrees_def by (metis fst_conv)
  then show "ebind m f s = ebind m' f' s"
    using e m assms(2) unfolding agrees_def by (cases r; cases t) (auto simp: ebind_def)
qed

lemma agrees_emap [agrees_intros]: "(\<And>x. agrees (f x) (f' x)) \<Longrightarrow> agrees (emap f xs) (emap f' xs)"
  by (induction xs) (auto intro!: agrees_intros)

lemma agrees_efold [agrees_intros]: "(\<And>x b. agrees (f x b) (f' x b)) \<Longrightarrow> agrees (efold f xs b) (efold f' xs b)"
  by (induction xs arbitrary: b) (auto intro!: agrees_intros)

lemma agrees_finally [agrees_intros]: "agrees m m' \<Longrightarrow> agrees (efinally m f) (efinally m' f)"
  unfolding agrees_def efinally_def by (auto simp: case_prod_unfold Let_def)

lemma agrees_with_row [agrees_intros]: "agrees m m' \<Longrightarrow> agrees (with_row es m) (with_row es m')"
  unfolding with_row_def by (intro agrees_intros)

lemma agrees_if [agrees_intros]: "agrees a a' \<Longrightarrow> agrees b b' \<Longrightarrow> agrees (if c then a else b) (if c then a' else b')"
  by simp

lemma agrees_option [agrees_intros]:
  "agrees a a' \<Longrightarrow> (\<And>y. agrees (b y) (b' y)) \<Longrightarrow>
   agrees (case x of None \<Rightarrow> a | Some y \<Rightarrow> b y) (case x of None \<Rightarrow> a' | Some y \<Rightarrow> b' y)"
  by (cases x) auto

lemma agrees_pair [agrees_intros]:
  "(\<And>a b. agrees (f a b) (f' a b)) \<Longrightarrow> agrees (case p of (a, b) \<Rightarrow> f a b) (case p of (a, b) \<Rightarrow> f' a b)"
  by (cases p) auto

lemma agrees_pair_fun [agrees_intros]:
  "(\<And>a b. agrees (f a b z) (f' a b z)) \<Longrightarrow> agrees ((case p of (a, b) \<Rightarrow> f a b) z) ((case p of (a, b) \<Rightarrow> f' a b) z)"
  by (cases p) auto

lemma agrees_list [agrees_intros]:
  "agrees a a' \<Longrightarrow> (\<And>y ys. agrees (b y ys) (b' y ys)) \<Longrightarrow>
   agrees (case xs of [] \<Rightarrow> a | y # ys \<Rightarrow> b y ys) (case xs of [] \<Rightarrow> a' | y # ys \<Rightarrow> b' y ys)"
  by (cases xs) auto

lemma agrees_item [agrees_intros]:
  "(\<And>i. agrees (a i) (a' i)) \<Longrightarrow> (\<And>e. agrees (b e) (b' e)) \<Longrightarrow>
   agrees (case x of SourceItem i \<Rightarrow> a i | ExprItem e \<Rightarrow> b e) (case x of SourceItem i \<Rightarrow> a' i | ExprItem e \<Rightarrow> b' e)"
  by (cases x) auto

lemma agrees_sort_key [agrees_intros]:
  "(\<And>i. agrees (a i) (a' i)) \<Longrightarrow> (\<And>e. agrees (b e) (b' e)) \<Longrightarrow>
   agrees (case x of OutputKey i \<Rightarrow> a i | ExprKey e \<Rightarrow> b e) (case x of OutputKey i \<Rightarrow> a' i | ExprKey e \<Rightarrow> b' e)"
  by (cases x) auto

definition evaluator_agrees :: "('n, 'd) evaluator \<Rightarrow> ('n, 'd) evaluator \<Rightarrow> bool" where
  "evaluator_agrees V V' \<longleftrightarrow>
     (\<forall>x e sc. agrees (ev_eval V x e sc) (ev_eval V' x e sc) \<and> agrees (ev_bool V x e sc) (ev_bool V' x e sc)) \<and>
     (\<forall>x q par. agrees (ev_query V x q par) (ev_query V' x q par))"

lemma evaluator_agreesD:
  assumes "evaluator_agrees V V'"
  shows "agrees (ev_eval V x e sc) (ev_eval V' x e sc)" and "agrees (ev_bool V x e sc) (ev_bool V' x e sc)"
    and "agrees (ev_query V x q par) (ev_query V' x q par)"
  using assms by (simp_all add: evaluator_agrees_def)

lemma agrees_single_column: "evaluator_agrees V V' \<Longrightarrow> agrees (single_column V x q sc) (single_column V' x q sc)"
  unfolding single_column_def by (intro agrees_intros evaluator_agreesD)

lemma agrees_aggregate:
  "evaluator_agrees V V' \<Longrightarrow> agrees (aggregate E A V x name args uniq sc) (aggregate E A V' x name args uniq sc)"
  unfolding aggregate_def Let_def by (intro agrees_intros evaluator_agreesD)

lemma agrees_eval_whens:
  assumes "evaluator_agrees V V'"
  shows "agrees (eval_whens E V x sc subject whens els) (eval_whens E V' x sc subject whens els)"
proof (induction whens)
  case (Cons wt whens)
  obtain w t where wt: "wt = (w, t)" by (cases wt)
  show ?case unfolding wt eval_whens.simps by (intro agrees_intros evaluator_agreesD [OF assms] Cons)
qed (simp add: agrees_option agrees_refl evaluator_agreesD [OF assms])

lemma agrees_condition_value: "evaluator_agrees V V' \<Longrightarrow> agrees (condition_value V x e sc) (condition_value V' x e sc)"
  unfolding condition_value_def by (intro agrees_intros evaluator_agreesD)

lemma agrees_eval:
  assumes "evaluator_agrees V V'"
  shows "agrees (eval E A F V x e sc) (eval E A F V' x e sc)"
proof -
  note rules = agrees_intros evaluator_agreesD [OF assms] agrees_single_column [OF assms] agrees_aggregate [OF assms]
    agrees_eval_whens [OF assms] agrees_condition_value [OF assms]
  show ?thesis unfolding eval_def by (cases e; simp only: expr.case) (intro rules)+
qed

lemma agrees_escape_char: "evaluator_agrees V V' \<Longrightarrow> agrees (escape_char E V x sc esc) (escape_char E V' x sc esc)"
  unfolding escape_char_def by (intro agrees_intros evaluator_agreesD)

lemma agrees_eval_bool:
  assumes "evaluator_agrees V V'"
  shows "agrees (eval_bool E V x e sc) (eval_bool E V' x e sc)"
proof -
  note rules = agrees_intros evaluator_agreesD [OF assms] agrees_single_column [OF assms] agrees_escape_char [OF assms]
  show ?thesis unfolding eval_bool_def Let_def by (cases e; simp only: expr.case) (intro rules)+
qed

lemma agrees_table_factor: "evaluator_agrees V V' \<Longrightarrow> agrees (table_factor V x par f) (table_factor V' x par f)"
  unfolding table_factor_def Let_def by (cases f; simp only: table_factor.case) (intro agrees_intros evaluator_agreesD; assumption)+

lemma agrees_join_rows:
  "(\<And>l. agrees (match l) (match' l)) \<Longrightarrow>
   agrees (join_rows kind rw rights match ls seen) (join_rows kind rw rights match' ls seen)"
  by (induction ls arbitrary: seen) (simp only: join_rows.simps; intro agrees_intros; assumption?)+

lemma agrees_join: "evaluator_agrees V V' \<Longrightarrow> agrees (join V x par kind l r on) (join V' x par kind l r on)"
  unfolding join_def join_matches_def Let_def by (intro agrees_intros agrees_join_rows evaluator_agreesD)

lemma agrees_source_item: "evaluator_agrees V V' \<Longrightarrow> agrees (source_item V x par item) (source_item V' x par item)"
  unfolding source_item_def by (intro agrees_intros agrees_table_factor agrees_join)

lemma agrees_accept_rows:
  assumes "evaluator_agrees V V'"
  shows "agrees (accept_rows V x par cols wh rows acc) (accept_rows V' x par cols wh rows acc)"
proof (induction rows arbitrary: acc)
  case (Cons row rows)
  show ?case unfolding accept_rows.simps Let_def by (intro agrees_intros evaluator_agreesD [OF assms] Cons)
qed (simp add: agrees_refl)

lemma agrees_compute_row:
  "evaluator_agrees V V' \<Longrightarrow> agrees (compute_row V x items keys sc) (compute_row V' x items keys sc)"
  unfolding compute_row_def by (intro agrees_intros evaluator_agreesD)

lemma agrees_select:
  "evaluator_agrees V V' \<Longrightarrow> agrees (eval_select E V x s order_by par) (eval_select E V' x s order_by par)"
  unfolding eval_select_def from_sources_def group_rows_def compute_group_def Let_def
  by (intro agrees_intros agrees_source_item agrees_accept_rows agrees_compute_row evaluator_agreesD)

lemma agrees_set_expr:
  assumes "evaluator_agrees V V'"
  shows "agrees (eval_set_expr E V x par b) (eval_set_expr E V' x par b)"
  using assms
proof (induction E V x par b rule: eval_set_expr.induct)
  case (1 E V x par s)
  then show ?case unfolding eval_set_expr.simps by (intro agrees_intros agrees_select)
next
  case (2 E V x par op l r)
  then show ?case unfolding eval_set_expr.simps by (intro agrees_intros) simp_all
qed

lemma agrees_query: "evaluator_agrees V V' \<Longrightarrow> agrees (eval_query E V x q par) (eval_query E V' x q par)"
  unfolding eval_query_def row_limit_def Let_def
  by (cases "q_body q"; simp only: set_expr.case)
    (intro agrees_intros agrees_select agrees_set_expr evaluator_agreesD; assumption)+

lemma step_agrees:
  assumes "evaluator_agrees V V'"
  shows "evaluator_agrees (eval_step E A F V) (eval_step E A F V')"
  unfolding evaluator_agrees_def
  by (simp add: eval_step_def agrees_eval [OF assms] agrees_eval_bool [OF assms] agrees_query [OF assms])

lemma fuel_agrees: "n \<le> k \<Longrightarrow> evaluator_agrees (evaluator_at E A F n) (evaluator_at E A F k)"
proof (induction n arbitrary: k)
  case 0
  then show ?case by (simp add: evaluator_at_def evaluator_agrees_def stuck_def agrees_stuck)
next
  case (Suc n)
  then obtain j where "k = Suc j" "n \<le> j" by (cases k) auto
  then show ?case by (simp add: evaluator_at_Suc step_agrees Suc.IH)
qed

section \<open>Properties\<close>

lemma query_settles:
  assumes F: "\<And>cat r a. settles (F cat r a)" and n: "2 * size q + 2 \<le> n"
  shows "settles (ev_query (evaluator_at E A F n) x q par)"
proof -
  have "settled_below (evaluator_at E A F n) (Suc (size q))" by (rule evaluator_settles [of F]) (use F n in simp_all)
  then show ?thesis by (simp add: settled_below_def)
qed

lemma settles_ends: "settles m \<Longrightarrow> ends (fst (m s))"
  unfolding settles_def by (rule spec)

text \<open>C9: Evaluating a query ends: with fuel for twice the size of its syntax tree the evaluator returns rows,
  an Oracle error or a panic and never runs out, whatever the database, the binds and the outer scope are,
  as long as the stored functions it calls return; and more fuel gives the same result and the same final
  state.\<close>

theorem query_ends:
  assumes "\<And>cat r a s. fst (F cat r a s) \<noteq> Inl Diverges" and "2 * size q + 2 \<le> n" and "n \<le> k"
  shows "fst (ev_query (evaluator_at E A F n) x q par s) \<noteq> Inl Diverges \<and>
    ev_query (evaluator_at E A F k) x q par s = ev_query (evaluator_at E A F n) x q par s"
proof -
  have "settles (ev_query (evaluator_at E A F n) x q par)"
    using assms(1,2) by (intro query_settles) (simp_all add: settles_def ends_def)
  then have "ends (fst (ev_query (evaluator_at E A F n) x q par s))" by (rule settles_ends)
  then show ?thesis
    using fuel_agrees [OF assms(3), of E A F] unfolding ends_def evaluator_agrees_def agrees_def by metis
qed

text \<open>\<open>SELECT * FROM DUAL\<close>, with stored functions that all return \<open>NULL\<close>.\<close>

definition from_dual :: "(dec, int) query" where
  "from_dual = Query (SelectBody (Select False [Star] [FromItem (TableFactor ''DUAL'' None) []] None [] None)) [] None None"

theorem query_ends_witness:
  "fst (ev_query (evaluator_at clock_ext dec_arith (\<lambda>_ _ _. eret Null) 40) \<lparr>ex_cat = catalog_default, ex_binds = [], ex_vars = \<lambda>_ _. None\<rparr>
     from_dual None (database_default, env_new (0, 0, 0) ''MOCK'')) \<noteq> Inl Diverges"
proof -
  have "2 * size from_dual + 2 \<le> 40" by (simp add: from_dual_def)
  then show ?thesis
    using query_ends [of "\<lambda>_ _ _. eret Null" from_dual 40 40 clock_ext dec_arith] by (simp add: eret_def)
qed

end
