(* ===== verification/Plsql_Correct.thy ===== *)
theory Plsql_Correct
  imports Plsql_Exec Eval_Ends
begin

text \<open>
  What the interpreter does to its host. The locale \<open>host_relation\<close> says of a relation between states of the
  host that the operations of the host stay in it; then every statement, call and block does. It is used
  for the host of stored functions, which therefore change no table and may be called from any query.
\<close>

section \<open>Relations between host states\<close>

definition keeps :: "('h \<Rightarrow> 'h \<Rightarrow> bool) \<Rightarrow> ('n, 'd, 'h, 'r) im \<Rightarrow> bool" where
  "keeps Q m \<longleftrightarrow> (\<forall>s. Q (ip_host s) (ip_host (snd (m s))))"

lemma keepsD: "keeps Q m \<Longrightarrow> m s = (r, s') \<Longrightarrow> Q (ip_host s) (ip_host s')"
  unfolding keeps_def by (metis snd_conv)

locale host_relation =
  fixes W :: "('n, 'd, 'a, 'h) world" and Q :: "'h \<Rightarrow> 'h \<Rightarrow> bool"
  assumes Q_refl: "Q h h"
    and Q_trans: "Q g h \<Longrightarrow> Q h k \<Longrightarrow> Q g k"
    and Q_put: "quiet_step (h_est (w_host W) h) est \<Longrightarrow> Q h (h_put (w_host W) est h)"
    and Q_execute: "Q h (snd (h_execute (w_host W) stmt binds vars h))"
    and evaluator: "quiet_evaluator (w_eval W)"
begin

abbreviation kept :: "('n, 'd, 'h, 'r) im \<Rightarrow> bool" where
  "kept \<equiv> keeps Q"

lemma kept_iret: "kept (iret r)"
  and kept_ilift: "kept (ilift x)"
  and kept_iget: "kept (iget f)"
  by (simp_all add: keeps_def iret_def ilift_def iget_def Q_refl)

lemma kept_iora: "kept (iora x)"
  by (simp add: iora_def kept_ilift)

lemma kept_ibind:
  assumes "kept m" and "\<And>a. kept (f a)"
  shows "kept (ibind m f)"
  unfolding keeps_def
proof
  fix s
  obtain r s1 where m: "m s = (r, s1)" by (cases "m s")
  have "Q (ip_host s) (ip_host s1)" using keepsD [OF assms(1) m] .
  moreover have "Q (ip_host s1) (ip_host (snd (f a s1)))" for a using assms(2) unfolding keeps_def by blast
  ultimately show "Q (ip_host s) (ip_host (snd (ibind m f s)))"
    by (cases r) (auto simp: ibind_def m intro: Q_trans)
qed

lemma kept_imod: "(\<And>s. ip_host (f s) = ip_host s) \<Longrightarrow> kept (imod f)"
  by (simp add: keeps_def imod_def Q_refl)

lemma kept_imap: "(\<And>x. kept (f x)) \<Longrightarrow> kept (imap f xs)"
  by (induction xs) (auto intro!: kept_iret kept_ibind)

lemma kept_ieach: "(\<And>x. kept (f x)) \<Longrightarrow> kept (ieach f xs)"
  by (induction xs) (auto intro!: kept_iret kept_ibind)

lemma kept_ifinally:
  assumes "kept m" and "\<And>s. Q (ip_host s) (ip_host (f s))"
  shows "kept (ifinally m f)"
  unfolding keeps_def
proof
  fix s
  obtain r s1 where m: "m s = (r, s1)" by (cases "m s")
  have "Q (ip_host s) (ip_host s1)" using keepsD [OF assms(1) m] .
  then show "Q (ip_host s) (ip_host (snd (ifinally m f s)))"
    using assms(2) Q_trans by (auto simp: ifinally_def m split: sum.split fail.split)
qed

lemma kept_icatch:
  assumes "kept m" and "\<And>x. kept (f x)"
  shows "kept (icatch m f)"
  unfolding keeps_def
proof
  fix s
  obtain r s1 where m: "m s = (r, s1)" by (cases "m s")
  have "Q (ip_host s) (ip_host s1)" using keepsD [OF assms(1) m] .
  moreover have "Q (ip_host s1) (ip_host (snd (f x s1)))" for x using assms(2) unfolding keeps_def by blast
  ultimately show "Q (ip_host s) (ip_host (snd (icatch m f s)))"
    using Q_trans by (auto simp: icatch_def m split: sum.split fail.split)
qed

lemma kept_iev: "quiet m \<Longrightarrow> kept (iev W m)"
  unfolding keeps_def iev_def by (auto simp: Let_def split: prod.split intro!: Q_put dest: quietD)

lemma kept_with_ex: "(\<And>x. quiet (f x)) \<Longrightarrow> kept (with_ex W f)"
  using kept_iev [of "f _"] unfolding keeps_def with_ex_def by auto

lemma kept_with_inner: "kept m \<Longrightarrow> (\<And>s. ip_host (start s) = ip_host s) \<Longrightarrow> kept (with_inner start m)"
  unfolding keeps_def with_inner_def by (auto split: prod.split) (metis snd_conv)

lemma kept_run_sql: "kept (run_sql W stmt)"
  unfolding keeps_def run_sql_def using Q_execute by (auto split: prod.split) (metis snd_conv)

lemma kept_if: "kept a \<Longrightarrow> kept b \<Longrightarrow> kept (if c then a else b)"
  and kept_Let: "kept (g x) \<Longrightarrow> kept (Let x g)"
  by simp_all

lemma kept_option: "kept a \<Longrightarrow> (\<And>y. kept (b y)) \<Longrightarrow> kept (case x of None \<Rightarrow> a | Some y \<Rightarrow> b y)"
  by (cases x) auto

lemma kept_pair: "(\<And>a b. kept (f a b)) \<Longrightarrow> kept (case p of (a, b) \<Rightarrow> f a b)"
  by (cases p) auto

lemma kept_list: "kept a \<Longrightarrow> (\<And>y ys. kept (b y ys)) \<Longrightarrow> kept (case xs of [] \<Rightarrow> a | y # ys \<Rightarrow> b y ys)"
  by (cases xs) auto

lemma kept_slot: "(\<And>x. kept (a x)) \<Longrightarrow> (\<And>fs. kept (b fs)) \<Longrightarrow> kept (case v of Scalar x \<Rightarrow> a x | Fields fs \<Rightarrow> b fs)"
  by (cases v) auto

lemma kept_on_last_frame: "kept (on_last_frame f)"
  by (simp add: keeps_def on_last_frame_def Q_refl)

lemmas kept_intros = kept_iret kept_ilift kept_iget kept_iora kept_ibind kept_imap kept_ieach kept_if kept_Let
  kept_option kept_pair kept_list kept_slot kept_on_last_frame kept_run_sql kept_icatch

lemma kept_ienv: "kept (ienv W f)"
  and kept_icat: "kept (icat W g)"
  and kept_find_var: "kept (find_var n)"
  and kept_iroutine: "kept (iroutine W n)"
  and kept_icalls: "kept (icalls W e)"
  by (simp_all add: ienv_def icat_def find_var_def iroutine_def icalls_def kept_iget)

lemma kept_set_var: "kept (set_var n g)"
  and kept_set_cursor: "kept (set_cursor n c)"
  and kept_set_rowcount: "kept (set_rowcount k)"
  by (simp_all add: set_var_def set_cursor_def set_rowcount_def kept_imod)

lemma kept_declare_var: "kept (declare_var n v)"
  and kept_loop_var: "kept (loop_var n v)"
  by (simp_all add: declare_var_def loop_var_def kept_on_last_frame)

lemmas kept_state = kept_intros kept_ienv kept_icat kept_find_var kept_iroutine kept_icalls kept_set_var kept_set_cursor
  kept_set_rowcount kept_declare_var kept_loop_var

lemma kept_resolve_type: "kept (resolve_type W ty)"
  unfolding resolve_type_def by (auto intro!: kept_state split: type_ref.split option.split)

lemma kept_convert: "kept (convert W ty v)"
  unfolding convert_def by (auto intro!: kept_state split: var_type.split)

lemma kept_assign: "kept (assign W t v)"
  unfolding assign_def by (cases t; simp) (intro kept_state kept_convert kept_imod; simp)+

lemma kept_assign_values: "kept (assign_values W ts row)"
  unfolding assign_values_def by (intro kept_state kept_assign)

lemma kept_assign_row: "kept (assign_row W ts cols row)"
  unfolding assign_row_def
  by (auto intro!: kept_state kept_assign_values split: list.split target.split)

lemma kept_find_cursor: "kept (find_cursor n)"
  unfolding find_cursor_def by (intro kept_state)

lemma kept_in_frame: "kept m \<Longrightarrow> kept (in_frame f m)"
  unfolding in_frame_def by (intro kept_ibind kept_imod kept_ifinally) (simp_all add: push_frame_def pop_frame_def Q_refl)

lemma kept_ex_eval: "kept (ex_eval W e)"
  and kept_ex_bool: "kept (ex_bool W e)"
proof -
  note quiet = quiet_evaluator.quiet_eval [OF evaluator] quiet_evaluator.quiet_bool [OF evaluator]
  have "kept (with_ex W (\<lambda>x. ev_eval (w_eval W) x e (scope_empty None)))" by (intro kept_with_ex quiet)
  then show "kept (ex_eval W e)" unfolding keeps_def ex_eval_def by (simp add: split_beta)
  have "kept (with_ex W (\<lambda>x. ev_bool (w_eval W) x e (scope_empty None)))" by (intro kept_with_ex quiet)
  then show "kept (ex_bool W e)" unfolding keeps_def ex_bool_def by (simp add: split_beta)
qed

lemma kept_on_output: "kept (on_output W f)"
  unfolding on_output_def
  by (rule kept_iev) (auto simp: quiet_def quiet_step_def split: prod.split)

lemma set_depth_Q: "Q (ip_host s) (ip_host (set_depth W f s))"
  unfolding set_depth_def by (auto simp: Let_def quiet_step_def split: prod.split intro!: Q_put)

lemmas kept_ops = kept_state kept_resolve_type kept_convert kept_assign kept_assign_row kept_find_cursor kept_in_frame
  kept_ex_eval kept_ex_bool kept_on_output

end

section \<open>Interpreters that stay in the relation\<close>

locale kept_interpreter = host_relation W Q for W :: "('n, 'd, 'a, 'h) world" and Q +
  fixes I :: "('n, 'd, 'h) interpreter"
  assumes i_eval: "keeps Q (i_eval I e)"
    and i_bool: "keeps Q (i_bool I e)"
    and i_resolve: "keeps Q (i_resolve I e)"
    and i_statements: "keeps Q (i_statements I sts)"
begin

lemmas kept_parts = kept_ops i_eval i_bool i_resolve i_statements

lemma kept_eval_int: "keeps Q (eval_int W I e)"
  unfolding eval_int_def by (intro kept_parts)

lemma kept_values_equal: "keeps Q (values_equal W a b)"
  unfolding values_equal_def by (intro kept_parts)

lemma kept_lazy_whens: "keeps Q (lazy_whens W I v whens els)"
  by (induction whens) (auto intro!: kept_parts kept_values_equal split: option.split)

lemma kept_lazy_coalesce: "keeps Q (lazy_coalesce I as)"
  by (induction as) (auto intro!: kept_parts)

lemma kept_lazy_decode: "keeps Q (lazy_decode W I v as)"
  by (induction as rule: induct_list012) (auto intro!: kept_parts kept_values_equal)

lemma kept_lazy_function: "lazy_function W I name args = Some m \<Longrightarrow> keeps Q m"
  unfolding lazy_function_def
  by (auto split: if_splits intro!: kept_parts kept_lazy_coalesce kept_lazy_decode)

lemma kept_eval_lazy: "keeps Q (eval_lazy W I e)"
  unfolding eval_lazy_def Let_def
  by (cases e; simp) (auto intro!: kept_parts kept_lazy_whens split: option.split dest!: kept_lazy_function)+

lemma kept_eval_arg: "keeps Q (eval_arg I r pa)"
  unfolding eval_arg_def by (intro kept_parts)

lemma kept_declare_one: "keeps Q (declare_one W I d)"
  unfolding declare_one_def by (cases d; simp) (intro kept_parts kept_imod; simp)+

lemma kept_handle: "keeps Q (handle I hs x)"
  unfolding handle_def by (intro kept_parts kept_imod kept_ifinally) (simp_all add: Q_refl)

lemma kept_block: "keeps Q (run_block_stmt W I b)"
  unfolding run_block_stmt_def block_in_frame_def by (intro kept_parts kept_declare_one kept_handle)

lemma kept_bind_param: "keeps Q (bind_param W pa)"
  unfolding bind_param_def by (intro kept_parts)

lemma kept_function_result: "keeps Q (function_result W r flow)"
  unfolding function_result_def by (auto intro!: kept_parts split: flow.split option.split)

lemma kept_out_value: "keeps Q (out_value nt :: ('n, 'd, 'h, _) im)"
  unfolding out_value_def by (intro kept_parts)

lemma kept_invoke: "keeps Q (invoke W I r args)"
proof -
  have "keeps Q (invoke_inner W I r args)" unfolding invoke_inner_def
    by (intro kept_with_inner kept_parts kept_bind_param kept_block kept_function_result kept_out_value)
      (simp add: push_frame_def interp_new_def)
  moreover have "keeps Q (imod (set_depth W Suc))" by (simp add: keeps_def imod_def set_depth_Q)
  ultimately show ?thesis unfolding invoke_def by (intro kept_parts kept_ifinally set_depth_Q)
qed

lemma kept_call_routine: "keeps Q (call_routine W I r args)"
  unfolding call_routine_def by (intro kept_parts kept_eval_arg kept_invoke)

lemma kept_iopt:
  fixes f :: "'p \<Rightarrow> ('n, 'd, 'h, 'r) im"
  shows "(\<And>y. keeps Q (f y)) \<Longrightarrow> keeps Q (iopt f x)"
  unfolding iopt_def by (intro kept_parts)

lemma kept_resolve_parts: "keeps Q (resolve_parts W I e)"
  unfolding resolve_parts_def Let_def
  by (cases e; simp) (auto intro!: kept_parts kept_call_routine kept_iopt split: option.split)+

lemma kept_resolve_calls: "keeps Q (resolve_calls W I e)"
  unfolding resolve_calls_def by (intro kept_parts kept_eval_lazy kept_resolve_parts)

lemma kept_ip_eval: "keeps Q (ip_eval W I e)"
  unfolding ip_eval_def by (intro kept_parts)

lemma kept_ip_bool: "keeps Q (ip_bool W I e)"
  unfolding ip_bool_def Let_def by (cases e; simp only: expr.case) (intro kept_parts)+

lemma kept_assign_returning: "keeps Q (assign_returning W into rows)"
  unfolding assign_returning_def by (intro kept_parts)

lemma kept_sql_statement: "keeps Q (sql_statement W stmt into)"
  unfolding sql_statement_def by (intro kept_parts kept_assign_returning)

lemma kept_open_query: "keeps Q (open_query W I name args)"
  unfolding open_query_def open_param_def by (intro kept_parts)

lemma kept_execute_immediate: "keeps Q (execute_immediate W I sql into us)"
proof -
  have run: "keeps Q (\<lambda>s. case h_execute (w_host W) stmt binds no_vars (ip_host s) of (r, h) \<Rightarrow> (map_err exc_of r, s\<lparr>ip_host := h\<rparr>))"
    for stmt binds unfolding keeps_def using Q_execute by (auto split: prod.split) (metis snd_conv)
  have block: "keeps Q (with_inner (\<lambda>s. interp_new (ip_host s) binds) (run_block_stmt W I b))" for binds b
    by (intro kept_with_inner kept_block) (simp add: interp_new_def)
  show ?thesis unfolding execute_immediate_def
    by (intro kept_parts) (auto intro!: kept_parts run block split: statement.split)
qed

lemma kept_builtin: "keeps Q (builtin_procedure W I name args)"
  unfolding builtin_procedure_def raise_application_error_def put_text_def get_line_def value_text_def
  by (intro kept_parts kept_eval_int)

lemma kept_call_statement: "keeps Q (call_statement W I name args)"
  unfolding call_statement_def by (intro kept_parts kept_builtin kept_call_routine)

lemma kept_loop_iteration: "keeps Q (loop_iteration I label body)"
  unfolding loop_iteration_def by (intro kept_parts)

lemma kept_for_each:
  fixes body :: "('n, 'd, 'h, _) im"
  shows "(\<And>x. keeps Q (start x)) \<Longrightarrow> keeps Q body \<Longrightarrow> keeps Q finish \<Longrightarrow> keeps Q (for_each start body finish xs)"
  by (induction xs) (simp_all add: kept_ibind kept_option kept_iret)

lemma kept_for_range: "keeps Q (for_range W I label var rv lo hi body)"
  unfolding for_range_def range_end_def by (intro kept_parts kept_for_each kept_loop_iteration)

lemma kept_for_rows: "keeps Q (for_rows I label var columns rows body)"
  unfolding for_rows_def by (intro kept_parts kept_for_each kept_loop_iteration)

lemma kept_if_branches: "keeps Q (if_branches I bs els)"
  by (induction bs) (auto intro!: kept_parts split: option.split)

lemma kept_case_branches: "keeps Q (case_branches W I v bs els)"
  by (induction bs) (auto intro!: kept_parts kept_values_equal split: option.split)

lemma kept_leave_when: "keeps Q (leave_when I c flow)"
  unfolding leave_when_def by (intro kept_parts)

lemma kept_fetch: "keeps Q (fetch W cursor into)"
  unfolding fetch_def by (intro kept_parts)

lemma kept_statement: "keeps Q (statement_step W I st)"
  unfolding statement_step_def Let_def
  by (cases st; simp) (auto intro!: kept_parts kept_if_branches kept_case_branches kept_loop_iteration kept_eval_int kept_for_range
      kept_for_rows kept_leave_when kept_iopt kept_sql_statement kept_call_statement kept_execute_immediate kept_open_query
      kept_fetch kept_block split: option.split cursor_source.split)+

lemma kept_run_statements: "keeps Q (run_statements W I sts)"
  by (induction sts) (auto intro!: kept_parts kept_statement split: flow.split)

end

context host_relation
begin

lemma halted_kept: "kept_interpreter W Q halted"
  by unfold_locales (simp_all add: halted_def kept_ilift)

lemma step_kept: "kept_interpreter W Q I \<Longrightarrow> kept_interpreter W Q (interpreter_step W I)"
  by unfold_locales
    (simp_all add: interpreter_step_def kept_interpreter.kept_ip_eval kept_interpreter.kept_ip_bool
      kept_interpreter.kept_resolve_calls kept_interpreter.kept_run_statements)

lemma interpreter_kept: "kept_interpreter W Q (interpreter_at W n)"
  unfolding interpreter_at_def by (induction n) (simp_all add: halted_kept step_kept)

end

sublocale host_relation \<subseteq> running: kept_interpreter W Q "interpreter_at W n" for n
  by (rule interpreter_kept)

context host_relation
begin

lemma call_function_kept: "Q h (snd (call_function W n r args h))"
  using keepsD [OF running.kept_invoke, of n r "map ArgIn args" "interp_new h []"] Q_refl
  by (auto simp: call_function_def interp_new_def split: prod.split)

lemma run_block_kept: "Q h (snd (run_block W n b binds h))"
  using keepsD [OF running.kept_block, of n b "interp_new h binds"]
  by (auto simp: run_block_def interp_new_def split: prod.split)

end

section \<open>Stored functions are quiet\<close>

lemma query_host_relation:
  assumes "quiet_evaluator V"
  shows "host_relation \<lparr>w_ext = E, w_arith = A, w_eval = V, w_host = query_host V cat, w_parse = P\<rparr> quiet_step"
proof (rule host_relation.intro)
  show "quiet_step h (snd (h_execute (w_host \<lparr>w_ext = E, w_arith = A, w_eval = V, w_host = query_host V cat, w_parse = P\<rparr>) stmt binds vars h))"
    for h stmt binds vars
  proof -
    have "quiet (case stmt of
        QueryS q \<Rightarrow> ebind (ev_query V \<lparr>ex_cat = cat, ex_binds = binds, ex_vars = vars\<rparr> q None) (\<lambda>rel. eret (outcome_of rel))
      | _ \<Rightarrow> eora 14551 ''cannot perform a DML operation inside a query'')"
      by (cases stmt) (auto intro!: quiet_evaluator.evaluator_intros [OF assms])
    then show ?thesis by (cases h) (simp add: query_host_def quiet_def)
  qed
qed (use assms in \<open>auto simp: query_host_def intro: quiet_step_trans\<close>)

lemma stored_function_quiet: "quiet_caller (stored_function E A P n)"
proof (induction n)
  case 0
  show ?case by unfold_locales (simp add: quiet_basic)
next
  case (Suc n)
  have V: "quiet_evaluator (evaluator_at E A (stored_function E A P n) n)" by (rule evaluator_quiet [OF Suc])
  show ?case
  proof
    show "quiet (stored_function E A P (Suc n) cat r args)" for cat r args
      using host_relation.call_function_kept [OF query_host_relation [OF V]] by (auto simp: quiet_def Let_def)
  qed
qed

interpretation sql_functions: quiet_caller "stored_function E A P n" for E A P n
  by (rule stored_function_quiet)

interpretation sql: quiet_evaluator "sql_evaluator E A P n" for E A P n
  unfolding sql_evaluator_def by (rule evaluator_quiet) (rule stored_function_quiet)

end
