(* ===== verification/Script.thy ===== *)
theory Script
  imports Ora_Error
begin

text \<open>
  The script splitter of \<open>crates/mock-oracle-core/src/lib.rs\<close>: a script is cut at semicolons and at lines
  that hold only a slash, outside strings, quoted names and comments; PL/SQL units keep their
  semicolons. Character classes are those of ASCII.
\<close>

text \<open>\<open>str::split_whitespace\<close> and \<open>str::split\<close> by a predicate with the empty words left out.\<close>

fun words_where :: "(char \<Rightarrow> bool) \<Rightarrow> string \<Rightarrow> string \<Rightarrow> string list" where
  "words_where P w [] = (if w = [] then [] else [w])"
| "words_where P w (c # s) =
     (if P c then words_where P (w @ [c]) s
      else (if w = [] then [] else [w]) @ words_where P [] s)"

fun join :: "string \<Rightarrow> string list \<Rightarrow> string" where
  "join sep [] = []"
| "join sep [w] = w"
| "join sep (w # v # ws) = w @ sep @ join sep (v # ws)"

definition abbreviate :: "string \<Rightarrow> string" where
  "abbreviate sql =
     (let one_line = join '' '' (words_where (\<lambda>c. \<not> is_whitespace c) [] sql) in
      if length one_line > 60 then take 57 one_line @ ''...'' else one_line)"

definition word_char :: "char \<Rightarrow> bool" where
  "word_char c = (is_ascii_alphanumeric c \<or> c = CHR ''_'' \<or> c = CHR ''<'')"

text \<open>The match on the first words; \<open>next\<close> on an iterator that has ended gives \<open>None\<close>.\<close>

fun nxt :: "string list \<Rightarrow> string option \<times> string list" where
  "nxt [] = (None, [])"
| "nxt (w # ws) = (Some w, ws)"

definition unit_kind :: "string option \<Rightarrow> bool" where
  "unit_kind k = (k \<in> Some ` {''PROCEDURE'', ''FUNCTION'', ''PACKAGE'', ''TRIGGER'', ''TYPE''})"

definition unit_words :: "string list \<Rightarrow> bool" where
  "unit_words ws =
     (case nxt ws of
        (None, _) \<Rightarrow> False
      | (Some first, w) \<Rightarrow>
          if first = ''BEGIN'' \<or> first = ''DECLARE'' then True
          else if starts_with first ''<<'' then True
          else if first = ''CREATE'' then
            let (next1, w1) = nxt w;
                (next2, w2) = (if next1 = Some ''OR'' then nxt (snd (nxt w1)) else (next1, w1));
                next3 = (if next2 = Some ''EDITIONABLE'' \<or> next2 = Some ''NONEDITIONABLE'' then fst (nxt w2) else next2)
            in unit_kind next3
          else False)"

definition is_plsql_unit :: "string \<Rightarrow> bool" where
  "is_plsql_unit stmt = unit_words (map to_uppercase (take 5 (words_where word_char [] stmt)))"

section \<open>Splitting\<close>

definition flush :: "string \<Rightarrow> string list \<Rightarrow> string list" where
  "flush current out = (let stmt = trim current in if stmt \<noteq> [] then out @ [stmt] else out)"

text \<open>The characters up to and with the first \<open>c\<close>, and the rest.\<close>

fun scan_to :: "char \<Rightarrow> string \<Rightarrow> string \<times> string" where
  "scan_to c [] = ([], [])"
| "scan_to c (d # s) = (if d = c then ([d], s) else (let (a, r) = scan_to c s in (d # a, r)))"

fun skip_comment :: "char \<Rightarrow> string \<Rightarrow> string" where
  "skip_comment prev [] = []"
| "skip_comment prev (d # s) = (if prev = CHR ''*'' \<and> d = CHR ''/'' then s else skip_comment d s)"

lemma scan_to_length: "length (snd (scan_to c s)) \<le> length s"
  by (induction s) (auto split: prod.splits)

lemma skip_comment_length: "length (skip_comment p s) \<le> length s"
  by (induction p s rule: skip_comment.induct) auto

definition lone_slash :: "bool \<Rightarrow> string \<Rightarrow> bool" where
  "lone_slash at_line_start s =
     (at_line_start \<and> list_all is_whitespace (takeWhile (\<lambda>n. n \<noteq> CHR 0x0A) s))"

function split_loop :: "string list \<Rightarrow> string \<Rightarrow> bool \<Rightarrow> string \<Rightarrow> string list" where
  "split_loop out current at_line_start [] = flush current out"
| "split_loop out current at_line_start (c # s) =
     (if c = CHR 0x27 \<or> c = CHR 0x22 then
        split_loop out (current @ c # fst (scan_to c s)) False (snd (scan_to c s))
      else if c = CHR ''-'' \<and> take 1 s = ''-'' then
        split_loop out (current @ (if CHR 0x0A \<in> set s then [CHR 0x0A] else [])) True (snd (scan_to (CHR 0x0A) s))
      else if c = CHR ''/'' \<and> take 1 s = ''*'' then
        split_loop out (current @ '' '') False (skip_comment (CHR '' '') (drop 1 s))
      else if c = CHR '';'' then
        (if is_plsql_unit current then split_loop out (current @ [c]) False s
         else split_loop (flush current out) [] False s)
      else if c = CHR ''/'' \<and> lone_slash at_line_start s then
        split_loop (flush current out) [] False (dropWhile (\<lambda>n. n \<noteq> CHR 0x0A) s)
      else
        split_loop out (current @ [c])
          (if c = CHR 0x0A then True else if \<not> is_whitespace c then False else at_line_start) s)"
  by pat_completeness auto

termination
  by (relation "measure (\<lambda>(out, current, b, s). length s)")
    (auto simp: less_Suc_eq_le scan_to_length length_dropWhile_le intro: order_trans [OF skip_comment_length])

definition split_script :: "string \<Rightarrow> string list" where
  "split_script script = split_loop [] [] True script"

section \<open>Scripts by their parts\<close>

text \<open>The parts of a statement's text: text without special characters, a string or quoted name, the two
  kinds of comment, and a semicolon; with what the splitter keeps of each.\<close>

datatype piece = Text string | Quote char string | Line string | Comment string | Semi

fun src :: "piece \<Rightarrow> string" where
  "src (Text t) = t"
| "src (Quote q t) = q # t @ [q]"
| "src (Line t) = ''--'' @ t @ [CHR 0x0A]"
| "src (Comment t) = ''/*'' @ t @ ''*/''"
| "src Semi = '';''"

fun kept :: "piece \<Rightarrow> string" where
  "kept (Line t) = [CHR 0x0A]"
| "kept (Comment t) = '' ''"
| "kept p = src p"

definition text_ok :: "string \<Rightarrow> bool" where
  "text_ok t = list_all (\<lambda>c. c \<notin> {CHR 0x27, CHR 0x22, CHR '';'', CHR ''-'', CHR ''/''}) t"

fun piece_ok :: "piece \<Rightarrow> bool" where
  "piece_ok (Text t) = text_ok t"
| "piece_ok (Quote q t) = ((q = CHR 0x27 \<or> q = CHR 0x22) \<and> q \<notin> set t)"
| "piece_ok (Line t) = (CHR 0x0A \<notin> set t)"
| "piece_ok (Comment t) = (CHR ''/'' \<notin> set t)"
| "piece_ok Semi = True"

text \<open>A script is SQL statements, each ended by a semicolon, and PL/SQL units, each ended by a line with a
  slash. The head of a unit is the text that makes it one.\<close>

datatype item = Sql "piece list" | Unit string "piece list"

fun item_src :: "item \<Rightarrow> string" where
  "item_src (Sql ps) = concat (map src ps) @ '';''"
| "item_src (Unit h ps) = h @ concat (map src ps) @ [CHR 0x0A, CHR ''/'', CHR 0x0A]"

fun item_stmt :: "item \<Rightarrow> string" where
  "item_stmt (Sql ps) = trim (concat (map kept ps))"
| "item_stmt (Unit h ps) = trim (h @ concat (map kept ps))"

fun item_ok :: "item \<Rightarrow> bool" where
  "item_ok (Sql ps) = (list_all piece_ok ps \<and> Semi \<notin> set ps \<and> \<not> is_plsql_unit (concat (map kept ps)))"
| "item_ok (Unit h ps) =
     (text_ok h \<and> h \<noteq> [] \<and> \<not> word_char (last h) \<and> is_plsql_unit h \<and> list_all piece_ok ps)"

lemma words_where_append:
  "\<lbrakk>a \<noteq> []; \<not> P (last a)\<rbrakk> \<Longrightarrow> words_where P w (a @ b) = words_where P w a @ words_where P [] b"
  by (induction P w a rule: words_where.induct) (auto split: if_splits)

lemma nxt_more: "fst (nxt ws) = Some a \<Longrightarrow> nxt (ws @ vs) = (Some a, snd (nxt ws) @ vs)"
  by (cases ws) auto

text \<open>The words after \<open>CREATE\<close>, as a chain of two steps.\<close>

definition after_or :: "string list \<Rightarrow> string option \<times> string list" where
  "after_or w = (if fst (nxt w) = Some ''OR'' then nxt (snd (nxt (snd (nxt w)))) else nxt w)"

definition after_edition :: "string option \<times> string list \<Rightarrow> string option" where
  "after_edition p =
     (if fst p = Some ''EDITIONABLE'' \<or> fst p = Some ''NONEDITIONABLE'' then fst (nxt (snd p)) else fst p)"

lemma unit_words_Cons:
  "unit_words (first # w) \<longleftrightarrow> first = ''BEGIN'' \<or> first = ''DECLARE'' \<or> starts_with first ''<<'' \<or>
     first = ''CREATE'' \<and> unit_kind (after_edition (after_or w))"
  by (simp add: unit_words_def after_or_def after_edition_def Let_def case_prod_unfold)

lemma after_or_more: "fst (after_or w) = Some a \<Longrightarrow> after_or (w @ vs) = (Some a, snd (after_or w) @ vs)"
proof (cases "fst (nxt w) = Some ''OR''")
  case True
  assume a: "fst (after_or w) = Some a"
  then have n: "fst (nxt (snd (nxt (snd (nxt w))))) = Some a" using True by (simp add: after_or_def)
  then obtain x where "fst (nxt (snd (nxt w))) = Some x" by (cases "snd (nxt w)") auto
  then show ?thesis using True n by (simp add: after_or_def nxt_more)
qed (auto simp: after_or_def nxt_more)

lemma after_edition_more: "after_edition p = Some a \<Longrightarrow> after_edition (fst p, snd p @ vs) = Some a"
  by (auto simp: after_edition_def nxt_more split: if_splits)

lemma unit_words_more: "unit_words ws \<Longrightarrow> unit_words (ws @ vs)"
proof (cases ws)
  case Nil
  assume "unit_words ws"
  then show ?thesis using Nil by (simp add: unit_words_def)
next
  case (Cons first w)
  have "unit_kind (after_edition (after_or (w @ vs)))" if u: "unit_kind (after_edition (after_or w))"
  proof -
    obtain k where k: "after_edition (after_or w) = Some k" using u by (auto simp: unit_kind_def)
    then obtain a where "fst (after_or w) = Some a" by (auto simp: after_edition_def split: if_splits)
    then show ?thesis using after_or_more [of w a vs] after_edition_more [OF k, of vs] k u by simp
  qed
  moreover assume "unit_words ws"
  ultimately show ?thesis unfolding Cons append_Cons unit_words_Cons by argo
qed

lemma is_plsql_unit_more:
  "\<lbrakk>is_plsql_unit h; h \<noteq> []; \<not> word_char (last h)\<rbrakk> \<Longrightarrow> is_plsql_unit (h @ x)"
  by (simp add: is_plsql_unit_def words_where_append unit_words_more)

lemma newline_not_word [simp]: "\<not> word_char (CHR 0x0A)" "is_whitespace (CHR 0x0A)"
  by (simp_all add: word_char_def is_ascii_alphanumeric_def is_ascii_alphabetic_def is_ascii_upper_def
      is_ascii_lower_def is_ascii_digit_def is_whitespace_def code_def)

lemma is_plsql_unit_newline [simp]: "is_plsql_unit (CHR 0x0A # x) = is_plsql_unit x"
  by (simp add: is_plsql_unit_def)

lemma trim_newline [simp]: "trim (CHR 0x0A # x) = trim x" "trim (x @ [CHR 0x0A]) = trim x"
proof -
  show "trim (CHR 0x0A # x) = trim x" by (simp add: trim_def trim_start_def)
  show "trim (x @ [CHR 0x0A]) = trim x"
    by (cases "\<forall>c \<in> set x. is_whitespace c")
      (auto simp: trim_def trim_start_def trim_end_matches_def dropWhile_append1 dropWhile_append2 dropWhile_eq_Nil_conv dest: set_dropWhileD)
qed

lemma scan_to_append: "c \<notin> set a \<Longrightarrow> scan_to c (a @ c # r) = (a @ [c], r)"
  by (induction a) auto

lemma skip_comment_append: "CHR ''/'' \<notin> set t \<Longrightarrow> skip_comment p (t @ CHR ''*'' # CHR ''/'' # r) = r"
  by (induction t arbitrary: p) auto

lemma split_text: "text_ok t \<Longrightarrow> \<exists>b'. split_loop out cur b (t @ r) = split_loop out (cur @ t) b' r"
proof (induction t arbitrary: cur b)
  case (Cons c t)
  then obtain b' where "split_loop out cur b (c # t @ r) = split_loop out (cur @ [c]) b' (t @ r)"
    by (auto simp: text_ok_def)
  moreover obtain b'' where "split_loop out (cur @ [c]) b' (t @ r) = split_loop out (cur @ c # t) b'' r"
    using Cons.IH [of "cur @ [c]" b'] Cons.prems by (auto simp: text_ok_def)
  ultimately show ?case by auto
qed auto

lemma split_piece:
  assumes "piece_ok p" and "p = Semi \<longrightarrow> is_plsql_unit cur"
  shows "\<exists>b'. split_loop out cur b (src p @ r) = split_loop out (cur @ kept p) b' r"
  using assms
  by (cases p) (auto simp: split_text scan_to_append skip_comment_append)

lemma split_pieces:
  "\<lbrakk>list_all piece_ok ps; Semi \<in> set ps \<longrightarrow> (\<forall>x. is_plsql_unit (cur @ x))\<rbrakk> \<Longrightarrow>
   \<exists>b'. split_loop out cur b (concat (map src ps) @ r) = split_loop out (cur @ concat (map kept ps)) b' r"
proof (induction ps arbitrary: cur b)
  case (Cons p ps)
  have "p = Semi \<longrightarrow> is_plsql_unit cur" using Cons.prems(2) by (metis append_Nil2 list.set_intros(1))
  then obtain b' where "split_loop out cur b (src p @ concat (map src ps) @ r) =
      split_loop out (cur @ kept p) b' (concat (map src ps) @ r)"
    using split_piece [of p cur out b "concat (map src ps) @ r"] Cons.prems(1) by auto
  moreover obtain b'' where "split_loop out (cur @ kept p) b' (concat (map src ps) @ r) =
      split_loop out (cur @ kept p @ concat (map kept ps)) b'' r"
    using Cons.IH [of "cur @ kept p" b'] Cons.prems by auto
  ultimately show ?case by auto
qed auto

lemma split_item:
  assumes "item_ok it" and "cur = [] \<or> cur = [CHR 0x0A]"
  shows "\<exists>b' cur'. (cur' = [] \<or> cur' = [CHR 0x0A]) \<and>
    split_loop out cur b (item_src it @ r) = split_loop (out @ filter (\<lambda>s. s \<noteq> []) [item_stmt it]) cur' b' r"
proof (cases it)
  case (Sql ps)
  obtain b' where "split_loop out cur b (concat (map src ps) @ '';'' @ r) =
      split_loop out (cur @ concat (map kept ps)) b' ('';'' @ r)"
    using split_pieces [of ps cur out b "'';'' @ r"] assms(1) Sql by auto
  moreover have "\<not> is_plsql_unit (cur @ concat (map kept ps))" "trim (cur @ x) = trim x" for x
    using assms Sql by auto
  ultimately show ?thesis using Sql by (auto simp: flush_def Let_def)
next
  case (Unit h ps)
  let ?slash = "CHR 0x0A # CHR ''/'' # CHR 0x0A # r"
  obtain b1 where 1: "split_loop out cur b (h @ concat (map src ps) @ ?slash) =
      split_loop out (cur @ h) b1 (concat (map src ps) @ ?slash)"
    using split_text [of h out cur b "concat (map src ps) @ ?slash"] assms(1) Unit by auto
  have "is_plsql_unit (cur @ h @ x)" for x using assms Unit is_plsql_unit_more [of h x] by auto
  then obtain b2 where 2: "split_loop out (cur @ h) b1 (concat (map src ps) @ ?slash) =
      split_loop out (cur @ h @ concat (map kept ps)) b2 ?slash"
    using split_pieces [of ps "cur @ h" out b1 ?slash] assms(1) Unit by auto
  have "trim (cur @ h @ concat (map kept ps) @ [CHR 0x0A]) = item_stmt it"
    using assms(2) trim_newline(2) [of "cur @ h @ concat (map kept ps)"] Unit by auto
  then show ?thesis
    using 1 2 Unit by (auto simp: flush_def Let_def lone_slash_def)
qed

lemma split_items:
  "\<lbrakk>list_all item_ok items; cur = [] \<or> cur = [CHR 0x0A]\<rbrakk> \<Longrightarrow>
   split_loop out cur b (concat (map item_src items)) = out @ filter (\<lambda>s. s \<noteq> []) (map item_stmt items)"
proof (induction items arbitrary: out cur b)
  case Nil
  have "trim cur = []" using Nil trim_newline(1) [of "[]"] by (auto simp: trim_def trim_start_def trim_end_matches_def)
  then show ?case by (simp add: flush_def)
next
  case (Cons it items)
  obtain b' cur' where c: "cur' = [] \<or> cur' = [CHR 0x0A]" and
    "split_loop out cur b (item_src it @ concat (map item_src items)) =
     split_loop (out @ filter (\<lambda>s. s \<noteq> []) [item_stmt it]) cur' b' (concat (map item_src items))"
    using split_item [of it cur out b "concat (map item_src items)"] Cons.prems by auto
  then show ?case using Cons.IH [OF _ c] Cons.prems by simp
qed

section \<open>Properties\<close>



end
