(* ===== verification/Session_Run.thy ===== *)
theory Session_Run
  imports Dml_Correct Ddl Plsql_Correct Script
begin

text \<open>
  The session as a whole, \<open>crates/mock-oracle-core/src/session.rs\<close>: running any statement, blocks as one
  statement, \<open>ALTER SESSION\<close>, and \<open>execute\<close> with its out binds; and \<open>Database::execute\<close> and \<open>run_script\<close> of
  \<open>lib.rs\<close>, which open a session of their own. The state of a session is paired with the database it is
  open on. \<open>m\<close> is the fuel of the evaluator and the interpreter, \<open>n\<close> bounds how deep blocks run as SQL
  statements of blocks.
\<close>

section \<open>What a session is given\<close>

text \<open>The crates, \<open>parser::parse\<close>, what \<open>chrono::Local::now()\<close> returns while the statement runs, and what
  other sessions do to the database while an \<open>ALTER TABLE\<close> of this one does not hold the lock.\<close>

record ('n, 'd, 'a) engine =
  en_ext :: "('n, 'd, 'a) ext"
  en_arith :: "('n, 'd) arith"
  en_parse :: "string \<Rightarrow> (('n, 'd) statement \<times> nat) ora_result"
  en_now :: "'d clock"
  en_others :: "(('n, 'd) database \<Rightarrow> ('n, 'd) database) list"

type_synonym ('n, 'd) connection = "('n, 'd) session \<times> ('n, 'd) database"

type_synonym ('n, 'd) executor =
  "('n, 'd) statement \<Rightarrow> ('n, 'd) value list \<Rightarrow> ('n, 'd) vars \<Rightarrow> ('n, 'd) connection \<Rightarrow>
   ('n, 'd) outcome ora_result \<times> ('n, 'd) connection"

definition en_eval :: "('n, 'd, 'a) engine \<Rightarrow> nat \<Rightarrow> ('n, 'd) evaluator" where
  "en_eval G m = sql_evaluator (en_ext G) (en_arith G) (en_parse G) m"

section \<open>ALTER SESSION\<close>

definition no_region :: ora_error where
  "no_region = ora 1882 ''timezone region not found''"

definition parse_time_zone :: "'d clock \<Rightarrow> string \<Rightarrow> int ora_result" where
  "parse_time_zone now value =
     (let v = to_uppercase (trim value) in
      if v \<in> {''UTC'', ''GMT'', ''DBTIMEZONE'', ''Z''} then Inr 0
      else if v \<in> {''LOCAL'', ''SESSIONTIMEZONE''} then Inr (env_tz_offset_minutes (env_new now []))
      else if take 1 v \<noteq> ''+'' \<and> take 1 v \<noteq> ''-'' then Inl (Err no_region)
      else
        let sign = (if take 1 v = ''+'' then 1 else -1);
            (h, m) = (case split_at (CHR '':'') (drop 1 v) of Some hm \<Rightarrow> hm | None \<Rightarrow> (drop 1 v, ''0'')) in
        rbind (ok_or (parse_signed 32 (trim h)) no_region) (\<lambda>h.
        rbind (ok_or (parse_signed 32 (trim m)) no_region) (\<lambda>m.
        if h < 0 \<or> h > 14 \<or> m < 0 \<or> m \<ge> 60
        then ora_fail 1874 ''time zone hour must be between -15 and 15''
        else Inr (sign * (h * 60 + m)))))"

definition alter_session :: "'d clock \<Rightarrow> string \<Rightarrow> string \<Rightarrow> 'd env \<Rightarrow> 'd env ora_result" where
  "alter_session now name value env =
     (if name = ''NLS_DATE_FORMAT'' then
        rbind (validate_format value) (\<lambda>_. Inr (env\<lparr>env_nls_date_format := value\<rparr>))
      else if name = ''NLS_TIMESTAMP_FORMAT'' then
        rbind (validate_format value) (\<lambda>_. Inr (env\<lparr>env_nls_timestamp_format := value\<rparr>))
      else if name = ''TIME_ZONE'' then
        rbind (parse_time_zone now value) (\<lambda>z. Inr (env\<lparr>env_tz_offset_minutes := z\<rparr>))
      else Inr env)"

section \<open>Statements\<close>

text \<open>\<open>impl Host for Session\<close>; \<open>exec\<close> is \<open>Session::run\<close>.\<close>

definition session_host :: "('n, 'd) executor \<Rightarrow> ('n, 'd, ('n, 'd) connection) host" where
  "session_host exec =
     \<lparr>h_cat = \<lambda>(s, db). ses_catalog s db, h_est = \<lambda>(s, db). (db, ses_env s),
      h_put = \<lambda>(db, env) (s, _). (s\<lparr>ses_env := env\<rparr>, db), h_execute = exec\<rparr>"

definition session_world ::
  "('n, 'd, 'a) engine \<Rightarrow> nat \<Rightarrow> ('n, 'd) executor \<Rightarrow> ('n, 'd, 'a, ('n, 'd) connection) world" where
  "session_world G m exec =
     \<lparr>w_ext = en_ext G, w_arith = en_arith G, w_eval = en_eval G m, w_host = session_host exec, w_parse = en_parse G\<rparr>"

text \<open>\<open>rollback_to\<close> has no error to return; it can only panic.\<close>

definition ses_block ::
  "('n, 'd, 'a) engine \<Rightarrow> nat \<Rightarrow> ('n, 'd) executor \<Rightarrow> ('n, 'd) block \<Rightarrow> ('n, 'd) value list \<Rightarrow> ('n, 'd) connection \<Rightarrow>
   ('n, 'd) value list ora_result \<times> ('n, 'd) connection" where
  "ses_block G m exec b binds h =
     (case run_block (session_world G m exec) m b binds h of
        (Inl (Err e), (s, db)) \<Rightarrow>
          (case (rollback_to (en_ext G) (ses_savepoint (fst h)) s :: (unit, _) rust) of
             Inl Diverges \<Rightarrow> (Inl Diverges, (s, db))
           | Inl _ \<Rightarrow> (Inl Panic, (s, db))
           | Inr s' \<Rightarrow> (Inl (Err e), (s', db)))
      | r \<Rightarrow> r)"

definition dml_outcome :: "nat \<times> ('n, 'd) value list list \<Rightarrow> ('n, 'd) outcome" where
  "dml_outcome r = \<lparr>o_rows_affected = fst r, o_rows = snd r, o_columns = []\<rparr>"

definition outcome_unit :: "'p ora_result \<Rightarrow> ('n, 'd) outcome ora_result" where
  "outcome_unit r = rbind r (\<lambda>_. Inr outcome_default)"

text \<open>DDL commits the open transaction, then changes the committed state.\<close>

definition ses_ddl ::
  "('n, 'd, 'a) engine \<Rightarrow> nat \<Rightarrow> ('n, 'd) statement \<Rightarrow> ('n, 'd) value list \<Rightarrow> ('n, 'd) connection \<Rightarrow>
   unit ora_result \<times> ('n, 'd) connection" where
  "ses_ddl G m stmt binds h =
     (case commit (en_ext G) (fst h) (snd h) of
        (Inl x, h1) \<Rightarrow> (Inl x, h1)
      | (Inr _, (s, db)) \<Rightarrow>
          (case ddl (en_ext G) (en_eval G m) (en_others G) stmt binds (db, ses_env s) of
             (r, (db', env)) \<Rightarrow> (r, (s\<lparr>ses_env := env\<rparr>, db'))))"

definition run_with ::
  "('n, 'd, 'a) engine \<Rightarrow> nat \<Rightarrow> ('n, 'd) executor \<Rightarrow> ('n, 'd) executor" where
  "run_with G m exec stmt binds vars h =
     (let s = fst h; db = snd h; V = en_eval G m;
          changed = (case dml (en_ext G) V stmt binds vars s db of
                       (r, h') \<Rightarrow> (rbind r (\<lambda>x. Inr (dml_outcome x)), h')) in
      case stmt of
        QueryS q \<Rightarrow>
          (case ev_query V \<lparr>ex_cat = ses_catalog s db, ex_binds = binds, ex_vars = vars\<rparr> q None (db, ses_env s) of
             (r, (db', env)) \<Rightarrow> (rbind r (\<lambda>rel. Inr (outcome_of rel)), (s\<lparr>ses_env := env\<rparr>, db')))
      | InsertS _ \<Rightarrow> changed
      | UpdateS _ \<Rightarrow> changed
      | DeleteS _ \<Rightarrow> changed
      | BlockS b \<Rightarrow> (case ses_block G m exec b binds h of (r, h') \<Rightarrow> (outcome_unit r, h'))
      | Commit \<Rightarrow> (case commit (en_ext G) s db of (r, h') \<Rightarrow> (outcome_unit r, h'))
      | Rollback \<Rightarrow> (Inr outcome_default, (rollback s, db))
      | AlterSession name value \<Rightarrow>
          (case alter_session (en_now G) name value (ses_env s) of
             Inl x \<Rightarrow> (Inl x, h)
           | Inr env \<Rightarrow> (Inr outcome_default, (s\<lparr>ses_env := env\<rparr>, db)))
      | _ \<Rightarrow> (case ses_ddl G m stmt binds h of (r, h') \<Rightarrow> (outcome_unit r, h')))"

fun ses_run :: "('n, 'd, 'a) engine \<Rightarrow> nat \<Rightarrow> nat \<Rightarrow> ('n, 'd) executor" where
  "ses_run G m 0 stmt binds vars h = (Inl Diverges, h)"
| "ses_run G m (Suc n) stmt binds vars h = run_with G m (ses_run G m n) stmt binds vars h"

section \<open>Execute\<close>

datatype ('n, 'd) out_bind = OutIn | OutValue "('n, 'd) value" | OutReturning "('n, 'd) value list"

record ('n, 'd) query_result =
  qr_is_query :: bool
  qr_columns :: "column list"
  qr_rows :: "('n, 'd) value list list"
  qr_rows_affected :: nat
  qr_out_binds :: "('n, 'd) out_bind list"

definition query_result_default :: "('n, 'd) query_result" where
  "query_result_default =
     \<lparr>qr_is_query = False, qr_columns = [], qr_rows = [], qr_rows_affected = 0, qr_out_binds = []\<rparr>"

text \<open>The values that \<open>RETURNING\<close> brings back, at the positions of its binds: \<open>out_binds[i]\<close> and \<open>row[k]\<close>
  panic out of range.\<close>

fun returned_binds ::
  "('n, 'd) value list list \<Rightarrow> nat \<Rightarrow> ('n, 'd) expr list \<Rightarrow> ('n, 'd) out_bind list \<Rightarrow> ('n, 'd) out_bind list ora_result" where
  "returned_binds rows k [] out = Inr out"
| "returned_binds rows k (e # es) out =
     (case e of
        Bind i \<Rightarrow>
          rbind (map_rust (\<lambda>row. index row k) rows) (\<lambda>vs.
          if i < length out then returned_binds rows (Suc k) es (out[i := OutReturning vs]) else Inl Panic)
      | _ \<Rightarrow> returned_binds rows (Suc k) es out)"

definition dml_result_of ::
  "('n, 'd) statement \<Rightarrow> nat \<Rightarrow> ('n, 'd) outcome \<Rightarrow> ('n, 'd) query_result ora_result" where
  "dml_result_of stmt nbinds o1 =
     rbind (case returning stmt of
              Some r \<Rightarrow> returned_binds (o_rows o1) 0 (ret_into r) (replicate nbinds OutIn)
            | None \<Rightarrow> Inr []) (\<lambda>out.
     Inr (query_result_default\<lparr>qr_rows_affected := o_rows_affected o1, qr_out_binds := out\<rparr>))"

definition execute_parsed ::
  "('n, 'd, 'a) engine \<Rightarrow> nat \<Rightarrow> nat \<Rightarrow> ('n, 'd) statement \<Rightarrow> nat \<Rightarrow> ('n, 'd) value list \<Rightarrow> ('n, 'd) connection \<Rightarrow>
   ('n, 'd) query_result ora_result \<times> ('n, 'd) connection" where
  "execute_parsed G m n stmt nbinds binds h =
     (case stmt of
        BlockS b \<Rightarrow>
          (case ses_block G m (ses_run G m n) b (take nbinds binds) h of
             (r, h') \<Rightarrow> (rbind r (\<lambda>vs. Inr (query_result_default\<lparr>qr_out_binds := map OutValue vs\<rparr>)), h'))
      | _ \<Rightarrow>
          (case ses_run G m n stmt binds no_vars h of
             (r, h') \<Rightarrow>
               (rbind r (\<lambda>o1.
                  if is_dml stmt then dml_result_of stmt nbinds o1
                  else Inr (query_result_default\<lparr>qr_is_query := is_query stmt, qr_columns := o_columns o1, qr_rows := o_rows o1\<rparr>)),
                h')))"

definition execute ::
  "('n, 'd, 'a) engine \<Rightarrow> nat \<Rightarrow> nat \<Rightarrow> string \<Rightarrow> ('n, 'd) value list \<Rightarrow> ('n, 'd) connection \<Rightarrow>
   ('n, 'd) query_result ora_result \<times> ('n, 'd) connection" where
  "execute G m n sql binds h =
     (case en_parse G sql of
        Inl x \<Rightarrow> (Inl x, h)
      | Inr (stmt, nbinds) \<Rightarrow>
          if length binds < nbinds then (ora_fail 1008 ''not all variables bound'', h)
          else
            execute_parsed G m n stmt nbinds binds
              ((fst h)\<lparr>ses_env := start_statement (en_now G) (ses_env (fst h))\<rparr>, snd h))"

section \<open>Statements and scripts on a database\<close>

text \<open>\<open>Database::execute\<close>: a session of its own that commits.\<close>

definition db_execute ::
  "('n, 'd, 'a) engine \<Rightarrow> nat \<Rightarrow> nat \<Rightarrow> string \<Rightarrow> ('n, 'd) value list \<Rightarrow> ('n, 'd) database \<Rightarrow>
   ('n, 'd) query_result ora_result \<times> ('n, 'd) database" where
  "db_execute G m n sql binds db =
     (case execute G m n sql binds (session_new (en_now G) ''MOCK'', db) of
        (Inl x, (s, db')) \<Rightarrow> (Inl x, db')
      | (Inr r, (s, db')) \<Rightarrow>
          (case commit (en_ext G) s db' of
             (Inl x, (_, db'')) \<Rightarrow> (Inl x, db'')
           | (Inr _, (_, db'')) \<Rightarrow> (Inr r, db'')))"

definition script_error :: "string \<Rightarrow> ora_error \<Rightarrow> ora_error" where
  "script_error stmt e = ora (err_code e) (err_message e @ '' (in: '' @ abbreviate stmt @ '')'')"

fun script_loop ::
  "('n, 'd, 'a) engine \<Rightarrow> nat \<Rightarrow> nat \<Rightarrow> string list \<Rightarrow> ('n, 'd) connection \<Rightarrow> unit ora_result \<times> ('n, 'd) connection" where
  "script_loop G m n [] h = commit (en_ext G) (fst h) (snd h)"
| "script_loop G m n (stmt # stmts) h =
     (case execute G m n stmt [] h of
        (Inl x, h') \<Rightarrow> (map_err (script_error stmt) (Inl x), h')
      | (Inr _, h') \<Rightarrow> script_loop G m n stmts h')"

definition run_script ::
  "('n, 'd, 'a) engine \<Rightarrow> nat \<Rightarrow> nat \<Rightarrow> string \<Rightarrow> ('n, 'd) database \<Rightarrow> unit ora_result \<times> ('n, 'd) database" where
  "run_script G m n script db =
     (case script_loop G m n (split_script script) (session_new (en_now G) ''MOCK'', db) of (r, (_, db')) \<Rightarrow> (r, db'))"

end
