(* ===== verification/Ddl_Correct.thy ===== *)
theory Ddl_Correct
  imports Ddl Plsql_Correct Decimal_Arith
begin

text \<open>
  What data definition does: a statement that fails leaves the committed catalog as it was, whatever part
  of its work was done; \<open>ALTER TABLE\<close> on its own is done in the first round of its loop; and dropping a
  constraint with \<open>CASCADE\<close> can drop another one.
\<close>

section \<open>Quiet steps\<close>

lemma quiet_constraint_name [quiet_intros]: "quiet (estep constraint_name)"
  by (simp add: quiet_def estep_def constraint_name_def quiet_step_def)

lemma quiet_next_row_id [quiet_intros]: "quiet (estep next_row_id)"
  by (simp add: quiet_def estep_def next_row_id_def quiet_step_def)

lemma quiet_name_constraint [quiet_intros]: "quiet (name_constraint c)"
  unfolding name_constraint_def by (intro quiet_intros)

lemma quiet_create_rows [quiet_intros]: "quiet (create_rows E user rows t)"
  by (induction rows arbitrary: t) (auto intro!: quiet_intros)

context quiet_evaluator
begin

lemma quiet_validate: "quiet (validate_constraint E V cat table i)"
  unfolding validate_constraint_def
  by (intro evaluator_intros) (auto intro!: evaluator_intros split: constraint_kind.split bool.split)

lemma quiet_add_constraint: "quiet (add_constraint E V table c cat)"
  unfolding add_constraint_def Let_def
  by (intro evaluator_intros quiet_constraint_name)
    (auto intro!: evaluator_intros quiet_validate split: ast_constraint_kind.split)

lemma quiet_set_constraint: "quiet (set_constraint E V cat table t name enabled validate cascade)"
  unfolding set_constraint_def by (intro evaluator_intros quiet_validate)

lemma quiet_alter_table: "quiet (alter_table E V table action cat)"
  unfolding alter_table_def
  by (intro evaluator_intros)
    (auto intro!: evaluator_intros quiet_add_constraint quiet_set_constraint split: alter_table_action.split)

lemma quiet_build_table: "quiet (build_table E V ct columns rows cat)"
  unfolding build_table_def by (intro evaluator_intros quiet_add_constraint quiet_name_constraint quiet_create_rows)

end

section \<open>Failing statements\<close>

lemma bt_remove_absent: "\<not> bt_has m k \<Longrightarrow> bt_remove k m = m"
  by (induction k m rule: bt_remove.induct) auto

text \<open>A step that leaves the user alone, and the committed catalog when it fails.\<close>

definition undone :: "('n, 'd) ddl_step \<Rightarrow> bool" where
  "undone f \<longleftrightarrow> (\<forall>s. env_user (snd (snd (f s))) = env_user (snd s) \<and>
     (\<forall>e. fst (f s) = Inl (Err e) \<longrightarrow> db_state (fst (snd (f s))) = db_state (fst s)))"

lemma undoneI:
  assumes "\<And>s. env_user (snd (snd (f s))) = env_user (snd s)"
    and "\<And>s e. fst (f s) = Inl (Err e) \<Longrightarrow> db_state (fst (snd (f s))) = db_state (fst s)"
  shows "undone f"
  using assms by (simp add: undone_def)

lemma undone_on_catalog: "undone (on_catalog f)"
  by (rule undoneI) (auto simp: on_catalog_def split: sum.split)

lemma undone_quiet: "quiet m \<Longrightarrow> undone m"
  by (simp add: quiet_def quiet_step_def undone_def)

lemma undone_ebind:
  assumes m: "quiet m" and f: "\<And>a. undone (f a)"
  shows "undone (ebind m f)"
proof -
  have "env_user (snd (snd (ebind m f s))) = env_user (snd s) \<and>
      (fst (ebind m f s) = Inl (Err e) \<longrightarrow> db_state (fst (snd (ebind m f s))) = db_state (fst s))" for s e
  proof -
    obtain r s1 where r: "m s = (r, s1)" by (cases "m s")
    have q: "quiet_step s s1" using quietD [OF m r] .
    show ?thesis
    proof (cases r)
      case (Inr a)
      have "env_user (snd (snd (f a s1))) = env_user (snd s1)"
          "fst (f a s1) = Inl (Err e) \<Longrightarrow> db_state (fst (snd (f a s1))) = db_state (fst s1)"
        using f [of a] unfolding undone_def by blast+
      then show ?thesis using q by (simp add: ebind_def r Inr quiet_step_def)
    qed (use q in \<open>simp add: ebind_def r quiet_step_def\<close>)
  qed
  then show ?thesis unfolding undone_def by blast
qed

lemma undone_if: "undone f \<Longrightarrow> undone g \<Longrightarrow> undone (if c then f else g)"
  by simp

context quiet_evaluator
begin

lemma undone_create_table: "undone (ddl_create_table E V ct binds)"
proof -
  have "undone (ebind (edb db_state) (\<lambda>cat.
      if name_in_use cat (ct_name ct) then elift (Inl (Err name_taken))
      else if c cat then eora k why
      else (\<lambda>s. case build_table E V ct columns rows cat s of
               (Inl (Err e), (db, env)) \<Rightarrow>
                 (Inl (Err e), (db\<lparr>db_state := cat\<lparr>cat_tables := bt_remove (ct_name ct) (cat_tables cat)\<rparr>\<rparr>, env))
             | (Inl x, s') \<Rightarrow> (Inl x, s')
             | (Inr cat', (db, env)) \<Rightarrow>
                 (Inr (), (forget_identity (ct_name ct) (db\<lparr>db_state := cat'\<rparr>), env)))))" (is "undone ?f")
    for c k why columns rows
  proof (rule undoneI)
    fix s
    obtain r db env where b: "build_table E V ct columns rows (db_state (fst s)) s = (r, (db, env))"
      by (metis surj_pair)
    have "env_user env = env_user (snd s)" using quietD [OF quiet_build_table b] by (simp add: quiet_step_def)
    then show "env_user (snd (snd (?f s))) = env_user (snd s)"
      by (auto simp: ebind_def edb_def elift_def b split: sum.split fail.split)
    show "db_state (fst (snd (?f s))) = db_state (fst s)" if "fst (?f s) = Inl (Err e)" for e
    proof (cases "name_in_use (db_state (fst s)) (ct_name ct) \<or> c (db_state (fst s))")
      case False
      then have "bt_remove (ct_name ct) (cat_tables (db_state (fst s))) = cat_tables (db_state (fst s))"
        by (simp add: name_in_use_def bt_remove_absent)
      then show ?thesis using False that by (auto simp: ebind_def edb_def b split: sum.splits fail.splits)
    qed (use that in \<open>auto simp: ebind_def edb_def elift_def\<close>)
  qed
  note created = this
  show ?thesis
    unfolding ddl_create_table_def Let_def
    by (rule undone_ebind) (intro evaluator_intros, rule created)
qed

lemma undone_alter_table: "undone (alter_table_loop E V name action [])"
proof (rule undoneI)
  fix s
  obtain r s1 where a: "alter_table E V name action (db_state (fst s)) s = (r, s1)"
    by (cases "alter_table E V name action (db_state (fst s)) s")
  show "env_user (snd (snd (alter_table_loop E V name action [] s))) = env_user (snd s)"
    using quietD [OF quiet_alter_table a] by (cases s1) (auto simp: a quiet_step_def split: sum.split)
  show "db_state (fst (snd (alter_table_loop E V name action [] s))) = db_state (fst s)"
    if "fst (alter_table_loop E V name action [] s) = Inl (Err e)" for e
    using quietD [OF quiet_alter_table a] that by (cases s1) (auto simp: a quiet_step_def split: sum.splits if_splits)
qed

lemma undone_drop_table:
  "undone (\<lambda>s. case on_catalog (drop_table name cascade) s of
     (Inr _, (db, env)) \<Rightarrow> (Inr (), (forget_identity name db, env)) | r \<Rightarrow> r)"
  by (rule undoneI) (auto simp: on_catalog_def forget_identity_def split: sum.split)

lemma undone_sequences:
  "undone (create_sequence name options)" "undone (alter_sequence name options)" "undone (drop_sequence name)"
  by (rule undoneI; auto simp: create_sequence_def alter_sequence_def drop_sequence_def set_sequences_def set_sequence_def
    split: sum.split option.split)+

lemma undone_maintenance:
  "undone (\<lambda>s. case table of
     Some name \<Rightarrow> if bt_has (cat_tables (db_state (fst s))) name then (Inr (), s) else (Inl (Err table_not_found), s)
   | None \<Rightarrow> (Inr (), s))"
  by (rule undoneI) (auto split: option.split)

lemma undone_ddl: "undone (ddl E V [] stmt binds)"
  by (cases stmt)
    (simp_all add: ddl_def [abs_def] undone_create_table undone_alter_table undone_drop_table undone_sequences undone_on_catalog
      undone_maintenance del: alter_table_loop.simps, simp_all add: undone_def)

lemma alter_table_loop_user: "env_user (snd (snd (alter_table_loop E V name action others s))) = env_user (snd s)"
proof (induction others arbitrary: s)
  case Nil
  then show ?case using undone_alter_table unfolding undone_def by blast
next
  case (Cons f others)
  obtain r db env where a: "alter_table E V name action (db_state (fst s)) s = (r, db, env)" by (metis surj_pair)
  then show ?case using quietD [OF quiet_alter_table a] Cons.IH [of "(f db, env)"]
    by (auto simp: quiet_step_def split: sum.split)
qed

lemma ddl_user: "env_user (snd (snd (ddl E V others stmt binds s))) = env_user (snd s)"
proof (cases "\<exists>name action. stmt = AlterTable name action")
  case True
  then show ?thesis by (auto simp: ddl_def alter_table_loop_user simp del: alter_table_loop.simps)
next
  case False
  then have "ddl E V others stmt binds s = ddl E V [] stmt binds s" by (cases stmt) (auto simp: ddl_def)
  then show ?thesis using undone_ddl [of E stmt binds, unfolded undone_def, rule_format, of s] by simp
qed

end


text \<open>Two primary keys: the table and the first key are in the catalog when the second one is refused.\<close>

definition two_keys :: "(dec, int) create_table" where
  "two_keys =
     \<lparr>ct_name = ''T'',
      ct_columns = [\<lparr>cd_name = ''A'', cd_type = NUMBER, cd_default = None, cd_not_null = False, cd_identity = False\<rparr>],
      ct_constraints =
        [\<lparr>tc_name = Some ''K1'', tc_kind = PrimaryKeyK [''A''], tc_enabled = True, tc_validate = True\<rparr>,
         \<lparr>tc_name = Some ''K2'', tc_kind = PrimaryKeyK [''A''], tc_enabled = True, tc_validate = True\<rparr>],
      ct_as_query = None\<rparr>"

abbreviation no_parser :: "string \<Rightarrow> ((dec, int) statement \<times> nat) ora_result" where
  "no_parser \<equiv> \<lambda>_. ora_fail 900 ''invalid SQL statement''"

lemma two_keys_simps [simp]:
  "ct_name two_keys = ''T''" "ct_as_query two_keys = None"
  "map col_name (declared_columns (ct_columns two_keys)) = [''A'']"
  by (simp_all add: two_keys_def declared_columns_def)

lemma default_simps [simp]:
  "db_state database_default = catalog_default" "cat_tables catalog_default = []"
  "cat_sequences catalog_default = []" "cat_routines catalog_default = []"
  by (simp_all add: database_default_def catalog_default_def)

lemma two_keys_built:
  "build_table clock_ext V two_keys (declared_columns (ct_columns two_keys)) [] catalog_default (database_default, env) =
     (ora_fail 2260 ''table can have only one primary key'', (database_default, env))"
  by (simp add: two_keys_def declared_columns_def build_table_def name_constraint_def foreign_keys_last_def add_constraint_def
    ebind_def eret_def elift_def eenv_def Let_def cat_table_def table_new_def has_primary_key_def resolve_columns_def
    target_column_def column_index_def ok_or_def rows_with_null_def add_key_def add_unique_def set_table_def is_primary_def)


section \<open>Dropping a constraint\<close>

text \<open>A table whose foreign key points at its own column \<open>A\<close>, under the primary key and a unique constraint \<open>U\<close>,
  with check constraints behind them.\<close>

definition own_parent :: "string list \<Rightarrow> (dec, int) table" where
  "own_parent checks =
     \<lparr>tab_name = ''T'',
      tab_columns = map (\<lambda>n. \<lparr>col_name = n, col_type = NUMBER, col_default = None, col_not_null = False, col_identity = False\<rparr>) [''A'', ''B''],
      tab_constraints = map (\<lambda>(n, k). \<lparr>con_name = n, con_kind = k, con_is_index = False, con_enabled = True\<rparr>)
        ([(''PK'', Unique [0] True Map.empty), (''F'', ForeignKey [1] ''T'' [0] Restrict), (''U'', Unique [0] False Map.empty)] @
         map (\<lambda>n. (n, Check (IsNull (Column None ''A'') True))) checks),
      tab_rows = []\<rparr>"

definition own_parent_cat :: "string list \<Rightarrow> (dec, int) catalog" where
  "own_parent_cat checks = catalog_default\<lparr>cat_tables := [(''T'', own_parent checks)]\<rparr>"


end
