(* ===== verification/Session_Correct.thy ===== *)
theory Session_Correct
  imports Session_Run Ddl_Correct "HOL-Library.Sublist"
begin

text \<open>
  What any statement of a session does to it and to the database, however its expressions, blocks, routines
  and dynamic SQL nest: until the session commits, nothing it does reaches the committed state, its log
  only grows, and a block that fails leaves the log it found. No assumption is made about the database.
\<close>

section \<open>The log only grows\<close>

definition grows :: "('n, 'd) txn \<Rightarrow> ('n, 'd) txn \<Rightarrow> bool" where
  "grows txn txn' \<longleftrightarrow> prefix (txn_log txn) (txn_log txn')"

lemma grows_refl [simp]: "grows txn txn"
  and grows_trans: "grows a b \<Longrightarrow> grows b c \<Longrightarrow> grows a c"
  by (auto simp: grows_def)

lemma grows_push_work: "grows txn (push cs (set_work n t txn))"
  by (simp add: grows_def push_def set_work_def)

lemma grows_set_work [simp]: "grows txn (set_work n t txn)"
  by (simp add: grows_def set_work_def)

lemma delete_rows_grows: "grows txn (snd (delete_rows E n rows txn))"
proof (induction rows arbitrary: txn)
  case (Cons r rows)
  then show ?case by (cases r) (auto split: option.split sum.split intro: grows_trans [OF grows_push_work])
qed simp

lemma update_rows_grows: "grows txn (snd (update_rows E user n changes olds txn))"
  by (auto simp: update_rows_def grows_push_work split: option.split sum.split)

lemma parent_step_grows: "grows txn (snd (parent_step E user changes f txn))"
  by (auto simp: parent_step_def on_parent_removed_def delete_rows_grows update_rows_grows
    split: sum.split option.split on_delete.split)

lemma parent_round_grows: "grows txn (snd (parent_round E user changes fs txn))"
proof (induction fs arbitrary: txn)
  case (Cons f fs)
  then show ?case using parent_step_grows [of txn E user changes f]
    by (auto split: prod.split sum.split intro: grows_trans)
qed simp

lemma parent_rounds_grows: "parent_rounds E user fks start txn = Some p \<Longrightarrow> grows txn (snd p)"
proof (erule parent_rounds.raw_induct [where P = "\<lambda>E user fks start txn p. grows txn (snd p)", rotated])
  fix rounds E user fks start txn p
  assume IH: "\<And>E user fks start txn p. rounds E user fks start txn = Some p \<Longrightarrow> grows txn (snd p)"
    and run: "(if start < length (txn_log txn) then
        (case parent_round E user (drop start (txn_log txn)) fks txn of
           (Inl x, txn') \<Rightarrow> Some (Inl x, txn')
         | (Inr _, txn') \<Rightarrow> rounds E user fks (length (txn_log txn)) txn')
      else Some (Inr (), txn)) = Some p"
  show "grows txn (snd p)"
  proof (cases "start < length (txn_log txn)")
    case True
    obtain r txn1 where pr: "parent_round E user (drop start (txn_log txn)) fks txn = (r, txn1)" by fastforce
    have "grows txn txn1" using parent_round_grows [of txn E user "drop start (txn_log txn)" fks] by (simp add: pr)
    then show ?thesis using run True IH [of E user fks "length (txn_log txn)" txn1 p] grows_trans by (cases r) (auto simp: pr)
  qed (use run in auto)
qed

lemma enforce_grows: "grows txn (snd (enforce_foreign_keys E user from txn))"
  using parent_rounds_grows by (fastforce simp: enforce_foreign_keys_def Let_def split: option.split prod.split sum.split)

lemma insert_rows_grows:
  "insert_rows E user n rows txn db = (r, txn', db') \<Longrightarrow>
     grows txn txn' \<and> db_state db' = db_state db \<and> db_next_row_id db \<le> db_next_row_id db'"
proof (induction rows arbitrary: txn db)
  case (Cons v rows)
  then show ?case
    using grows_trans [OF grows_push_work]
    by (fastforce simp: next_row_id_def Let_def split: option.splits sum.splits)
qed simp

section \<open>Statements\<close>

context quiet_evaluator
begin

lemma dml_insert_grows:
  assumes run: "dml_insert E V x ins txn s = (r, txn', s')"
  shows "grows txn txn' \<and> quiet_step s s'"
proof (cases "cat_table (txn_work txn) (ins_table ins)")
  case (Some t)
  obtain p s1 where p: "insert_plan E V x t ins s = (p, s1)" by (cases "insert_plan E V x t ins s")
  have q: "quiet_step s s1" using quietD [OF quiet_insert_plan p] .
  show ?thesis
  proof (cases p)
    case (Inr rr)
    obtain rows ret where rr: "rr = (rows, ret)" by (cases rr)
    obtain y txn1 db1 where i: "insert_rows E (env_user (snd s1)) (ins_table ins) rows txn (fst s1) = (y, txn1, db1)"
      by (metis surj_pair)
    show ?thesis using run q insert_rows_grows [OF i]
      by (cases y) (auto simp: dml_insert_def Some p Inr rr i quiet_step_def)
  qed (use run q in \<open>auto simp: dml_insert_def Some p\<close>)
qed (use run in \<open>auto simp: dml_insert_def\<close>)

lemma dml_update_grows:
  assumes run: "dml_update E V x upd txn s = (r, txn', s')"
  shows "grows txn txn' \<and> quiet_step s s'"
proof (cases "cat_table (txn_work txn) (upd_table upd)")
  case (Some t)
  obtain p s1 where p: "update_plan E V x t upd s = (p, s1)" by (cases "update_plan E V x t upd s")
  have q: "quiet_step s s1" using quietD [OF quiet_update_plan p] .
  show ?thesis
  proof (cases p)
    case (Inr rr)
    obtain changes hits ret where rr: "rr = (changes, hits, ret)" by (cases rr)
    obtain y txn1 where u: "update_rows E (env_user (snd s1)) (upd_table upd) changes (map snd hits) txn = (y, txn1)"
      by (metis surj_pair)
    have "grows txn txn1"
      using update_rows_grows [of txn E "env_user (snd s1)" "upd_table upd" changes "map snd hits"] by (simp add: u)
    then show ?thesis using run q by (cases y) (auto simp: dml_update_def Some p Inr rr u)
  qed (use run q in \<open>auto simp: dml_update_def Some p\<close>)
qed (use run in \<open>auto simp: dml_update_def\<close>)

lemma dml_delete_grows:
  assumes run: "dml_delete E V x del txn s = (r, txn', s')"
  shows "grows txn txn' \<and> quiet_step s s'"
proof (cases "cat_table (txn_work txn) (del_table del)")
  case (Some t)
  obtain p s1 where p: "delete_plan V x t del s = (p, s1)" by (cases "delete_plan V x t del s")
  have q: "quiet_step s s1" using quietD [OF quiet_delete_plan p] .
  show ?thesis
  proof (cases p)
    case (Inr rr)
    obtain rows ret where rr: "rr = (rows, ret)" by (cases rr)
    obtain y txn1 where d: "delete_rows E (del_table del) rows txn = (y, txn1)" by (metis surj_pair)
    show ?thesis using run q delete_rows_grows [of txn E "del_table del" rows]
      by (cases y) (auto simp: dml_delete_def Some p Inr rr d)
  qed (use run q in \<open>auto simp: dml_delete_def Some p\<close>)
qed (use run in \<open>auto simp: dml_delete_def\<close>)

lemma dml_checked_grows:
  assumes "dml_checked E V stmt x txn s = (r, txn', s')"
  shows "grows txn txn'" and "quiet_step s s'"
proof -
  obtain p txn1 s1 where p: "dml_changes E V stmt x txn s = (p, txn1, s1)" by (metis surj_pair)
  have q: "grows txn txn1 \<and> quiet_step s s1"
    using p by (cases stmt) (auto simp: dml_changes_def dest: dml_insert_grows dml_update_grows dml_delete_grows)
  obtain y txn2 where e: "enforce_foreign_keys E (env_user (snd s1)) (length (txn_log txn)) txn1 = (y, txn2)" by fastforce
  have "grows txn1 txn2" using enforce_grows [of txn1 E "env_user (snd s1)" "length (txn_log txn)"] by (simp add: e)
  then show "grows txn txn'" "quiet_step s s'"
    using assms q grows_trans by (auto simp: dml_checked_def p e split: sum.splits)
qed

end

section \<open>What a session may do without committing\<close>

definition ses_log :: "('n, 'd) session \<Rightarrow> ('n, 'd) change list" where
  "ses_log s = (case ses_txn s of Some t \<Rightarrow> txn_log t | None \<Rightarrow> [])"

text \<open>The user stays; the count of commits and rollbacks does not fall; and while it stays the same, so does the
  committed state, and the log only grows.\<close>

definition held :: "('n, 'd) connection \<Rightarrow> ('n, 'd) connection \<Rightarrow> bool" where
  "held h h' \<longleftrightarrow> env_user (ses_env (fst h')) = env_user (ses_env (fst h)) \<and>
     (ses_commits (fst h) < ses_commits (fst h') \<or>
      ses_commits (fst h) = ses_commits (fst h') \<and> db_state (snd h') = db_state (snd h) \<and>
        prefix (ses_log (fst h)) (ses_log (fst h')))"

lemma held_refl: "held h h"
  and held_trans: "held g h \<Longrightarrow> held h k \<Longrightarrow> held g k"
  by (auto simp: held_def)

lemma held_quiet: "quiet_step (db, ses_env s) (db', env) \<Longrightarrow> held (s, db) (s\<lparr>ses_env := env\<rparr>, db')"
  by (simp add: held_def quiet_step_def ses_log_def)

lemma ses_log_open: "txn_log (open_txn s db) = ses_log s"
  by (simp add: open_txn_def ses_log_def split: option.split)

lemma ses_log_keep: "ses_log (s\<lparr>ses_env := e, ses_txn := keep_txn t\<rparr>) = txn_log t"
  by (simp add: ses_log_def keep_txn_def)

lemma undo_log: "undo E txn k = Inr txn' \<Longrightarrow> txn_log txn' = take k (txn_log txn)"
  by (auto simp: undo_def rbind_eq_Inr split: if_splits)

lemma dml_held:
  assumes V: "quiet_evaluator V" and run: "dml E V stmt binds vars s db = (r, h')"
  shows "held (s, db) h'"
proof -
  let ?x = "\<lparr>ex_cat = txn_work (open_txn s db), ex_binds = binds, ex_vars = vars\<rparr>"
  obtain p txn1 db1 env1 where p: "dml_checked E V stmt ?x (open_txn s db) (db, ses_env s) = (p, txn1, db1, env1)"
    by (metis surj_pair)
  have q: "prefix (ses_log s) (txn_log txn1)" "quiet_step (db, ses_env s) (db1, env1)"
    using quiet_evaluator.dml_checked_grows [OF V p] by (simp_all add: grows_def ses_log_open)
  have some: "ses_log (s\<lparr>ses_env := env1, ses_txn := Some t\<rparr>) = txn_log t" for t by (simp add: ses_log_def)
  have "held (s, db) (s\<lparr>ses_env := env1, ses_txn := t\<rparr>, db1)" if "prefix (ses_log s) (ses_log (s\<lparr>ses_env := env1, ses_txn := t\<rparr>))" for t
    using q that by (simp add: held_def quiet_step_def)
  note held = this
  have undone: "held (s, db) (s\<lparr>ses_env := env1, ses_txn := keep_txn t\<rparr>, db1)"
    if "undo E txn1 (length (ses_log s)) = (Inr t :: (ora_error, _) rust)" for t
    using held [of "keep_txn t"] undo_log [OF that] q(1) by (auto simp: ses_log_keep prefix_def)
  show ?thesis
    using run held [of "Some txn1"] held [of "keep_txn txn1"] q(1) undone
    by (auto simp: dml_def p Let_def ses_log_open some ses_log_keep rbind_def prefix_def split: sum.splits fail.splits)
qed

lemma rollback_to_log:
  assumes h: "held (s0, db0) (s, db)" and r: "rollback_to E (ses_savepoint s0) s = (Inr s' :: ('e, ('n, 'd) session) rust)"
  shows "ses_log s' = (if ses_commits s = ses_commits s0 then ses_log s0 else [])"
    and "ses_env s' = ses_env s" and "ses_commits s' = ses_commits s"
proof -
  have keep: "sp_changes (ses_savepoint s0) = length (ses_log s0)" "sp_commits (ses_savepoint s0) = ses_commits s0"
    by (simp_all add: ses_savepoint_def ses_log_def split: option.split)
  show "ses_log s' = (if ses_commits s = ses_commits s0 then ses_log s0 else [])"
  proof (cases "ses_txn s")
    case None
    then show ?thesis using r h by (auto simp: rollback_to_def ses_log_def held_def)
  next
    case (Some t)
    then have "rbind (undo E t (min (if ses_commits s = ses_commits s0 then length (ses_log s0) else 0) (length (txn_log t))))
        (\<lambda>t'. Inr (s\<lparr>ses_txn := (if txn_log t' = [] then None else Some t')\<rparr>)) = (Inr s' :: ('e, _) rust)"
      using r by (simp only: rollback_to_def keep Let_def option.case)
    then obtain t' where t': "undo E t (min (if ses_commits s = ses_commits s0 then length (ses_log s0) else 0) (length (txn_log t))) = (Inr t' :: ('e, _) rust)"
      and s': "s' = s\<lparr>ses_txn := (if txn_log t' = [] then None else Some t')\<rparr>"
      unfolding rbind_eq_Inr by blast
    have "ses_log s' = txn_log t'" by (simp add: s' ses_log_def)
    moreover have "ses_log s = txn_log t" by (simp add: ses_log_def Some)
    ultimately show ?thesis using undo_log [OF t'] h
      by (cases "ses_commits s = ses_commits s0") (auto simp: held_def prefix_def)
  qed
  show "ses_env s' = ses_env s" "ses_commits s' = ses_commits s"
    using r by (cases "ses_txn s"; simp add: rollback_to_def Let_def; auto simp: rbind_eq_Inr)+
qed

lemma commit_held: "commit E s db = (r, h') \<Longrightarrow> held (s, db) h'"
  by (auto simp: commit_def Let_def held_def split: option.splits if_splits sum.splits)

lemma alter_session_user: "alter_session now name v env = Inr env' \<Longrightarrow> env_user env' = env_user env"
  by (auto simp: alter_session_def rbind_eq_Inr split: if_splits)

section \<open>Every statement\<close>

lemma en_eval_quiet: "quiet_evaluator (en_eval G m)"
  unfolding en_eval_def by (rule sql.quiet_evaluator_axioms)

lemma session_world_relation:
  assumes "\<And>stmt binds vars h. held h (snd (exec stmt binds vars h))"
  shows "host_relation (session_world G m exec) held"
proof
  show "held h (h_put (w_host (session_world G m exec)) est h)" if "quiet_step (h_est (w_host (session_world G m exec)) h) est" for h est
    using that by (cases h; cases est) (simp add: session_world_def session_host_def held_quiet)
  show "held h (snd (h_execute (w_host (session_world G m exec)) stmt binds vars h))" for h stmt binds vars
    using assms by (simp add: session_world_def session_host_def)
qed (use en_eval_quiet [of G m] held_refl held_trans in
  \<open>auto simp: session_world_def quiet_evaluator_def\<close>)

lemma ses_block_held:
  assumes exec: "\<And>stmt binds vars h. held h (snd (exec stmt binds vars h))"
    and run: "ses_block G m exec b binds h = (r, h')"
  shows "held h h'"
    and "r = Inl (Err e) \<Longrightarrow> ses_log (fst h') = (if ses_commits (fst h') = ses_commits (fst h) then ses_log (fst h) else [])"
proof -
  obtain x s1 db1 where b: "run_block (session_world G m exec) m b binds h = (x, (s1, db1))" by (metis surj_pair)
  have "host_relation (session_world G m exec) held" by (rule session_world_relation) (rule exec)
  from host_relation.run_block_kept [OF this, of h m b binds]
  have h1: "held (fst h, snd h) (s1, db1)" by (simp add: b)
  have returned: "held h (s', db1) \<and> ses_commits s' = ses_commits s1 \<and>
      ses_log s' = (if ses_commits s1 = ses_commits (fst h) then ses_log (fst h) else [])"
    if "rollback_to (en_ext G) (ses_savepoint (fst h)) s1 = (Inr s' :: (unit, _) rust)" for s'
    using rollback_to_log [OF h1 that] h1 by (auto simp: held_def)
  show "held h h'" and "r = Inl (Err e) \<Longrightarrow> ses_log (fst h') = (if ses_commits (fst h') = ses_commits (fst h) then ses_log (fst h) else [])"
    using run h1 returned by (auto simp: ses_block_def b split: sum.splits fail.splits)
qed

lemma run_with_held:
  assumes exec: "\<And>stmt binds vars h. held h (snd (exec stmt binds vars h))"
  shows "held h (snd (run_with G m exec stmt binds vars h))"
proof -
  obtain s db where h: "h = (s, db)" by (cases h)
  have dml: "held h (snd (case dml (en_ext G) (en_eval G m) stmt binds vars s db of (r, h') \<Rightarrow> (rbind r (\<lambda>x. Inr (dml_outcome x)), h')))"
    using dml_held [OF en_eval_quiet] by (auto simp: h split: prod.split)
  have ddl: "held h (snd (ses_ddl G m stmt binds h))"
  proof -
    obtain r s1 db1 where c: "commit (en_ext G) s db = (r, s1, db1)" by (metis surj_pair)
    have "ses_commits s1 = ses_commits s + 1" "env_user (ses_env s1) = env_user (ses_env s)"
      using c by (auto simp: commit_def Let_def split: option.splits if_splits sum.splits)
    then show ?thesis
      using quiet_evaluator.ddl_user [OF en_eval_quiet, of "en_ext G" G m "en_others G" stmt binds "(db1, ses_env s1)"]
      by (auto simp: ses_ddl_def h c held_def split: sum.split prod.split)
  qed
  show ?thesis
  proof (cases stmt)
    case (QueryS q)
    then show ?thesis
      using quietD [OF quiet_evaluator.quiet_query [OF en_eval_quiet]]
      by (fastforce simp: run_with_def h intro: held_quiet split: prod.split)
  next
    case (BlockS b)
    then show ?thesis using ses_block_held(1) [OF exec] by (auto simp: run_with_def h split: prod.split)
  next
    case Commit
    then show ?thesis using commit_held by (auto simp: run_with_def h split: prod.split)
  next
    case (AlterSession name v)
    then show ?thesis using alter_session_user by (fastforce simp: run_with_def h held_def ses_log_def split: sum.split)
  qed (use dml ddl in \<open>auto simp: run_with_def h rollback_def held_def split: prod.splits\<close>)
qed

lemma ses_run_held: "held h (snd (ses_run G m n stmt binds vars h))"
proof (induction n arbitrary: stmt binds vars h)
  case (Suc n)
  show ?case using run_with_held [OF Suc.IH] by simp
qed (simp add: held_refl)

lemma block_statement_held: "held h (snd (ses_block G m (ses_run G m n) b binds h))"
proof -
  obtain r h' where "ses_block G m (ses_run G m n) b binds h = (r, h')" by (cases "ses_block G m (ses_run G m n) b binds h")
  then show ?thesis using ses_block_held(1) [OF ses_run_held] by simp
qed

lemma execute_held: "held h (snd (execute G m n sql binds h))"
proof -
  let ?h = "((fst h)\<lparr>ses_env := start_statement (en_now G) (ses_env (fst h))\<rparr>, snd h)"
  have start: "held h ?h" by (simp add: held_def start_statement_def ses_log_def)
  have "held ?h (snd (execute_parsed G m n stmt k binds ?h))" for stmt k
    using block_statement_held [of ?h G m n _ "take k binds"] ses_run_held [of ?h G m n stmt binds no_vars]
    by (cases stmt) (auto simp: execute_parsed_def case_prod_beta)
  then show ?thesis
    by (auto simp: execute_def held_refl intro: held_trans [OF start] split: sum.split)
qed

text \<open>C1: Isolation: whatever a statement is, with all its blocks, routines, dynamic SQL and cursors, and whether
  it succeeds or fails, the session's user stays, and either the session has committed or rolled back, or
  the committed state is untouched and every change that was pending still stands in the log.\<close>

theorem execute_isolated:
  "case execute G m n sql binds (s, db) of (r, (s', db')) \<Rightarrow>
     env_user (ses_env s') = env_user (ses_env s) \<and>
     (ses_commits s < ses_commits s' \<or>
      ses_commits s = ses_commits s' \<and> db_state db' = db_state db \<and> prefix (ses_log s) (ses_log s'))"
  using execute_held [of "(s, db)" G m n sql binds] by (auto simp: held_def split: prod.split)


definition raising :: "(dec, int) block" where
  "raising = Block [] [NullStmt, Raise (Some ''NO_DATA_FOUND'')] []"

definition engine0 :: "(dec, int, int) engine" where
  "engine0 = \<lparr>en_ext = clock_ext, en_arith = dec_arith, en_parse = no_parser, en_now = (0, 0, 0), en_others = []\<rparr>"

lemma raising_fails:
  "ses_block engine0 2 exec raising [] (session_new (0, 0, 0) ''MOCK'', db) =
     (ora_fail 1403 ''no data found'', (session_new (0, 0, 0) ''MOCK'', db))"
  by (simp add: ses_block_def raising_def run_block_def run_block_stmt_def interpreter_at_def interpreter_step_def in_frame_def block_in_frame_def
    ibind_def imod_def iret_def ilift_def iget_def ifinally_def push_frame_def pop_frame_def interp_new_def numeral_2_eq_2 statement_step_def
    raise_name_def predefined_def PREDEFINED_def rollback_to_def session_new_def frame_default_def short_name_def exc_of_def)


end
