(* ===== verification/Dml_Claims.thy ===== *)
theory Dml_Claims
  imports Dml_Correct Plsql_Correct Decimal_Arith
begin

text \<open>
  The properties of DML statements, at the evaluator that runs them: \<open>sql_evaluator\<close> with its stored
  functions. The witnesses run \<open>DELETE FROM T WHERE ID = 2\<close> on a parent and a child table.
\<close>

section \<open>A parent and a child table\<close>

text \<open>The child's foreign key cascades in \<open>family\<close> and restricts in \<open>strict\<close>.\<close>

definition strict_child :: "(dec, int) table" where
  "strict_child = child\<lparr>tab_constraints := [\<lparr>con_name = ''FK'', con_kind = ForeignKey [0] ''T'' [0] Restrict,
     con_is_index = False, con_enabled = True\<rparr>]\<rparr>"

definition strict :: "(dec, int) catalog" where
  "strict = catalog_default\<lparr>cat_tables := [(''C'', strict_child), (''T'', Table_Invariant.numbers)]\<rparr>"

definition db_of :: "(dec, int) catalog \<Rightarrow> (dec, int) database" where
  "db_of cat = database_default\<lparr>db_state := cat, db_next_row_id := 9\<rparr>"

definition ses1 :: "(dec, int) session" where
  "ses1 = session_new (0, 0, 0) ''MOCK''"

abbreviation sql_test :: "(dec, int) evaluator" where
  "sql_test \<equiv> sql_evaluator clock_ext dec_arith (\<lambda>_. ora_fail 900 ''invalid SQL statement'') 2"

definition delete_two :: "(dec, int) statement" where
  "delete_two = DeleteS \<lparr>del_table = ''T'', del_alias = None,
     del_where = Some (Binary Eq (Column None ''ID'') (Literal (num 2))), del_returning = None\<rparr>"

lemma where_two:
  "ev_bool sql_test x (Binary Eq (Column None ''ID'') (Literal (num 2)))
     (Scope (table_scope_cols Table_Invariant.numbers ''T'') [num i] None k None) s = (Inr (Some (i = 2)), s)"
  by (simp add: sql_evaluator_def evaluator_at_def eval_step_def numeral_2_eq_2 eval_bool_def eval_def is_comparison_def
    table_scope_cols_def Table_Invariant.numbers_def resolve_def find_column_def ebind_def eret_def elift_def eenv_def
    col_matches_def num_def compare_def clock_ext_def dec_cmp_def pow10_def cmp_of_def)

lemma delete_two_plan:
  "delete_plan sql_test x Table_Invariant.numbers (case delete_two of DeleteS d \<Rightarrow> d) s = (Inr ([(2, [num 2])], []), s)"
proof -
  have "tab_rows Table_Invariant.numbers = [(1, [num 1]), (2, [num 2])]" by (simp add: Table_Invariant.numbers_def)
  then show ?thesis
    by (simp add: delete_plan_def delete_two_def matching_rows_def returning_rows_def where_two ebind_def eret_def Let_def)
qed

lemma delete_two_row:
  "table_delete clock_ext Table_Invariant.numbers 2 = (Inr (drop_row clock_ext 2 [num 2] Table_Invariant.numbers, True) :: (ora_error, _) rust)"
  by (simp add: table_delete_closed [OF numbers_ok]) (simp add: Table_Invariant.numbers_def)

lemma family_deleted:
  "dml clock_ext sql_test delete_two [] (\<lambda>_ _. None) ses1 (db_of family) =
     (Inr (1, []), ses1\<lparr>ses_txn := Some cascaded\<rparr>, db_of family)"
proof -
  let ?txn = "\<lparr>txn_base_version = 0, txn_work = family, txn_log = []\<rparr>"
  have txn: "open_txn ses1 (db_of family) = ?txn"
    by (simp add: open_txn_def ses1_def session_new_def db_of_def family_def catalog_default_def)
  have "delete_rows clock_ext ''T'' [(2, [num 2])] ?txn = (Inr (), orphaned)"
    by (simp add: family_tables delete_two_row orphaned_def push_def set_work_def)
  then have "dml_changes clock_ext sql_test delete_two \<lparr>ex_cat = family, ex_binds = [], ex_vars = \<lambda>_ _. None\<rparr> ?txn (db_of family, ses_env ses1) =
      (Inr (1, []), orphaned, (db_of family, ses_env ses1))"
    using delete_two_plan by (simp add: delete_two_def dml_changes_def dml_delete_def family_tables)
  then show ?thesis
    by (simp add: dml_def txn dml_checked_def orphaned_enforced keep_txn_def cascaded_log)
qed

lemma db_of_ok: "cat_ok clock_ext cat \<Longrightarrow> (\<And>n i r. row_of cat n i = Some r \<Longrightarrow> i < 9) \<Longrightarrow> session_ok clock_ext ses1 (db_of cat)"
  by (simp add: session_ok_def ses1_def session_new_def ses_catalog_def db_of_def fresh_ids_def)

lemma family_ids: "row_of family n i = Some r \<Longrightarrow> i < 9"
  by (auto simp: row_of_def family_def cat_table_def child_def Table_Invariant.numbers_def split: if_splits)

lemma family_fks: "enabled_fks family = [family_fk]"
  by (simp add: family_def foreign_keys_def List.map_filter_simps child_def Table_Invariant.numbers_def)

lemma family_fits: "fks_fit family"
  by (simp add: fks_fit_def family_fks fk_fits_def family_tables) (simp add: child_def Table_Invariant.numbers_def)

lemma ses1_family: "session_ok clock_ext ses1 (db_of family)" "ses_catalog ses1 (db_of family) = family"
  using db_of_ok [OF family_ok family_ids] by (simp_all add: ses_catalog_def ses1_def session_new_def db_of_def)

abbreviation "strict_fk \<equiv> family_fk\<lparr>fk_on_delete := Restrict\<rparr>"

lemma strict_tables: "cat_table strict ''T'' = Some Table_Invariant.numbers" "cat_table strict ''C'' = Some strict_child"
  by (simp_all add: strict_def cat_table_def)

lemma strict_ok: "cat_ok clock_ext strict"
proof -
  have "table_ok clock_ext strict_child"
    by (simp add: strict_child_def child_def table_ok_iff bt_ok_def con_fits_def con_ok_def)
  then show ?thesis by (simp add: strict_def cat_ok_def bt_ok_def numbers_ok less_char_simp)
qed

lemma strict_ids: "row_of strict n i = Some r \<Longrightarrow> i < 9"
  by (auto simp: row_of_def strict_def cat_table_def strict_child_def child_def Table_Invariant.numbers_def split: if_splits)

lemma strict_fks: "enabled_fks strict = [strict_fk]"
  by (simp add: strict_def foreign_keys_def List.map_filter_simps strict_child_def child_def Table_Invariant.numbers_def)

lemma strict_fits: "fks_fit strict"
  by (simp add: fks_fit_def strict_fks fk_fits_def strict_tables) (simp add: strict_child_def child_def Table_Invariant.numbers_def)

lemma ses1_strict: "session_ok clock_ext ses1 (db_of strict)" "ses_catalog ses1 (db_of strict) = strict"
  using db_of_ok [OF strict_ok strict_ids] by (simp_all add: ses_catalog_def ses1_def session_new_def db_of_def)

definition cut :: "(dec, int) txn" where
  "cut = \<lparr>txn_base_version = 0, txn_work = set_table strict ''T'' (drop_row clock_ext 2 [num 2] Table_Invariant.numbers),
     txn_log = [DeleteC ''T'' 2 [num 2]]\<rparr>"

lemma cut_tables: "cat_table (txn_work cut) ''T'' = Some (drop_row clock_ext 2 [num 2] Table_Invariant.numbers)"
  "cat_table (txn_work cut) ''C'' = Some strict_child"
  by (simp_all add: cut_def strict_tables)

lemma cut_fks: "enabled_fks (txn_work cut) = [strict_fk]"
  by (simp add: cut_def strict_def set_table_def foreign_keys_def List.map_filter_simps strict_child_def child_def
    Table_Invariant.numbers_def drop_row_def del_ix_def)

lemma strict_hit:
  "find_hits clock_ext u strict_fk [key_string clock_ext [num 2]] [] (tab_rows strict_child) = Inr [(8, [num 2])]"
  using num_key_lits(1) by (simp add: strict_child_def child_def foreign_key_def index_def num_not_null del: key_string.simps)

lemma cut_refused:
  "enforce_foreign_keys clock_ext u 0 cut = (Inl (Err (violated u 2292 ''FK'' ''child record found'')), cut)"
proof -
  have "parent_step clock_ext u [DeleteC ''T'' 2 [num 2]] strict_fk cut = (Inl (Err (violated u 2292 ''FK'' ''child record found'')), cut)"
    using strict_hit by (simp add: parent_step_def removed_keys_def foreign_key_def index_def num_not_null cut_tables key_two_gone
      on_parent_removed_def del: key_string.simps)
  then have "parent_rounds clock_ext u [strict_fk] 0 cut = Some (Inl (Err (violated u 2292 ''FK'' ''child record found'')), cut)"
    by (subst parent_rounds.simps) (simp add: cut_def)
  then show ?thesis by (simp add: enforce_foreign_keys_def cut_fks)
qed

lemma strict_refused:
  "\<exists>s' db'. dml clock_ext sql_test delete_two [] (\<lambda>_ _. None) ses1 (db_of strict) =
     (Inl (Err (violated ''MOCK'' 2292 ''FK'' ''child record found'')), s', db')"
proof -
  let ?txn = "\<lparr>txn_base_version = 0, txn_work = strict, txn_log = []\<rparr>"
  have txn: "open_txn ses1 (db_of strict) = ?txn"
    by (simp add: open_txn_def ses1_def session_new_def db_of_def strict_def catalog_default_def)
  have user: "env_user (ses_env ses1) = ''MOCK''" by (simp add: ses1_def session_new_def env_new_def mock_upper)
  have "delete_rows clock_ext ''T'' [(2, [num 2])] ?txn = (Inr (), cut)"
    by (simp add: strict_tables delete_two_row cut_def push_def set_work_def)
  then have "dml_changes clock_ext sql_test delete_two \<lparr>ex_cat = strict, ex_binds = [], ex_vars = \<lambda>_ _. None\<rparr> ?txn (db_of strict, ses_env ses1) =
      (Inr (1, []), cut, (db_of strict, ses_env ses1))"
    using delete_two_plan by (simp add: delete_two_def dml_changes_def dml_delete_def strict_tables)
  moreover have "undo clock_ext cut 0 = (Inr ?txn :: (ora_error, _) rust)"
  proof -
    have "wrote clock_ext strict [DeleteC ''T'' 2 [num 2]] (set_table strict ''T'' (drop_row clock_ext 2 [num 2] Table_Invariant.numbers))"
      by (intro wrote.del [OF strict_tables(1)] delete_two_row) (simp add: Table_Invariant.numbers_def)
    then have "extends clock_ext ?txn [DeleteC ''T'' 2 [num 2]] cut"
      using extends_wrote [of clock_ext ?txn] by (simp add: cut_def push_def set_work_def)
    from undo_back [OF this] show ?thesis using strict_ok by simp
  qed
  ultimately show ?thesis
    by (simp add: dml_def txn dml_checked_def cut_refused user)
qed

section \<open>The properties\<close>

text \<open>C2: A DML statement that fails, at whatever row and for whatever reason (an expression, a constraint,
  a foreign key after cascading), leaves the session's transaction and the committed state as they
  were: only counters and session cells have moved. Foreign keys with \<open>ON DELETE SET NULL\<close> are excluded,
  see \<open>undo_misses_row_changed_twice\<close>.\<close>

theorem dml_atomic:
  assumes "session_ok E s db" and "fks_fit (ses_catalog s db)"
    and "\<forall>f \<in> set (enabled_fks (ses_catalog s db)). fk_on_delete f \<noteq> SetNull"
    and "dml E (sql_evaluator E A P m) stmt binds vars s db = (Inl (Err e), s', db')"
  shows "\<exists>env'. s' = s\<lparr>ses_env := env'\<rparr> \<and> db_state db' = db_state db"
  using dml_error [OF sql.quiet_evaluator_axioms assms] by blast

theorem dml_atomic_witness:
  "\<exists>env' db'. dml clock_ext sql_test delete_two [] (\<lambda>_ _. None) ses1 (db_of strict) =
     (Inl (Err (violated ''MOCK'' 2292 ''FK'' ''child record found'')), ses1\<lparr>ses_env := env'\<rparr>, db') \<and> db_state db' = strict"
proof -
  obtain s' db' where run: "dml clock_ext sql_test delete_two [] (\<lambda>_ _. None) ses1 (db_of strict) =
      (Inl (Err (violated ''MOCK'' 2292 ''FK'' ''child record found'')), s', db')"
    using strict_refused by blast
  have "\<exists>env'. s' = ses1\<lparr>ses_env := env'\<rparr> \<and> db_state db' = db_state (db_of strict)"
    using dml_atomic [OF ses1_strict(1) _ _ run] strict_fits by (simp add: ses1_strict strict_fks)
  then show ?thesis using run by (auto simp: db_of_def)
qed



text \<open>C3: Referential integrity is an invariant of DML: when every enabled foreign key holds in what the
  session sees before a statement that succeeds, it holds in what it sees after it, cascades included.\<close>

theorem dml_integrity:
  assumes "session_ok E s db" and "fks_fit (ses_catalog s db)"
    and "\<forall>f \<in> set (enabled_fks (ses_catalog s db)). integrity E (ses_catalog s db) f \<and> length (fk_parent_columns f) = 1"
    and "dml E (sql_evaluator E A P m) stmt binds vars s db = (Inr n, s', db')"
    and "f \<in> set (enabled_fks (ses_catalog s' db'))"
  shows "integrity E (ses_catalog s' db') f"
  using dml_integral [OF sql.quiet_evaluator_axioms assms] .

theorem dml_integrity_witness: "integrity clock_ext (txn_work cascaded) family_fk"
proof -
  have cat: "ses_catalog (ses1\<lparr>ses_txn := Some cascaded\<rparr>) (db_of family) = txn_work cascaded" by (simp add: ses_catalog_def)
  have "family_fk \<in> set (enabled_fks (txn_work cascaded))"
    by (simp add: cascaded_def orphaned_def family_def push_def set_work_def set_table_def foreign_keys_def List.map_filter_simps
      child_def Table_Invariant.numbers_def drop_row_def del_ix_def)
  then show ?thesis
    using dml_integrity [OF ses1_family(1) _ _ family_deleted, of family_fk] family_fits family_integrity
    by (simp add: ses1_family family_fks cat)
qed

end
