(* ===== verification/Lexer.thy ===== *)
theory Lexer
  imports Ora_Error
begin

text \<open>
  \<open>crates/mock-oracle-core/src/lexer.rs\<close>: the tokenizer. The loop keeps a byte offset into the text; here
  a round of it takes the text from that offset on and says how many bytes it used, and
  \<open>tokenize_from\<close> adds the offsets up. Every offset lies on a character boundary (the scanners stop
  only before or after ASCII bytes), so slicing does not panic. Upper-casing is that of ASCII.
\<close>

datatype tok =
    Ident string
  | QuotedIdent string
  | NumberTok string
  | StrTok string
  | BindTok string
  | Symbol string

record token =
  tok :: tok
  tok_start :: nat
  tok_end :: nat

definition SYMBOLS :: "string list" where
  "SYMBOLS =
     [''||'', ''<='', ''>='', ''<>'', ''!='', ''^='', ''=>'', ''..'', ''<<'', ''>>'', ''**'', ''('', '')'', '','',
      ''+'', ''-'', ''*'', ''/'', ''='', ''<'', ''>'', ''.'', '';'', ''%'']"

section \<open>The scanners\<close>

text \<open>\<open>sql[i + 2..].find("*/")\<close>.\<close>

fun find_comment_end :: "string \<Rightarrow> nat option" where
  "find_comment_end [] = None"
| "find_comment_end (c # s) =
     (if starts_with (c # s) ''*/'' then Some 0 else map_option Suc (find_comment_end s))"

text \<open>The loop over a string literal after its opening quote: the text with doubled quotes undone, and
  the bytes used, or \<open>None\<close> when there is no closing quote.\<close>

function scan_string :: "string \<Rightarrow> (string \<times> nat) option" where
  "scan_string s =
     (case split_at (CHR 0x27) s of
        None \<Rightarrow> None
      | Some (a, b) \<Rightarrow>
          (case b of
             c # b' \<Rightarrow>
               if c = CHR 0x27 then map_option (\<lambda>(r, n). (a @ CHR 0x27 # r, length a + 2 + n)) (scan_string b')
               else Some (a, length a + 1)
           | [] \<Rightarrow> Some (a, length a + 1)))"
  by pat_completeness auto

termination
  by (relation "measure length") (auto dest!: split_at_Some)

declare scan_string.simps [simp del]

fun scan_mantissa :: "bool \<Rightarrow> string \<Rightarrow> nat" where
  "scan_mantissa seen_point [] = 0"
| "scan_mantissa seen_point (c # s) =
     (if is_ascii_digit c \<or>
         (c = CHR ''.'' \<and> \<not> seen_point \<and> (case s of d # _ \<Rightarrow> d \<noteq> CHR ''.'' | [] \<Rightarrow> True))
      then Suc (scan_mantissa (seen_point \<or> c = CHR ''.'') s) else 0)"

definition scan_exponent :: "string \<Rightarrow> nat" where
  "scan_exponent s =
     (case s of
        [] \<Rightarrow> 0
      | c # r \<Rightarrow>
          if c = CHR ''e'' \<or> c = CHR ''E'' then
            let k = (case r of d # _ \<Rightarrow> if d = CHR ''+'' \<or> d = CHR ''-'' then 2 else 1 | [] \<Rightarrow> 1);
                digits = length (takeWhile is_ascii_digit (drop k s)) in
            if digits > 0 then k + digits else 0
          else 0)"

definition scan_number :: "string \<Rightarrow> nat" where
  "scan_number s = (let n = scan_mantissa False s in n + scan_exponent (drop n s))"

definition bind_char :: "char \<Rightarrow> bool" where
  "bind_char c = (is_ascii_alphanumeric c \<or> c = CHR ''_'')"

definition ident_char :: "char \<Rightarrow> bool" where
  "ident_char c = (is_ascii_alphanumeric c \<or> c = CHR ''_'' \<or> c = CHR ''$'' \<or> c = CHR ''#'' \<or> code c \<ge> 0x80)"

definition starts_number :: "string \<Rightarrow> bool" where
  "starts_number s =
     (case s of
        [] \<Rightarrow> False
      | c # r \<Rightarrow> is_ascii_digit c \<or> (c = CHR ''.'' \<and> (case r of d # _ \<Rightarrow> is_ascii_digit d | [] \<Rightarrow> False)))"

section \<open>One round of the loop\<close>

definition invalid_character :: ora_error where
  "invalid_character = ora 911 ''invalid character''"

definition lex :: "string \<Rightarrow> (ora_error, tok option \<times> nat) rust" where
  "lex s =
     (case s of
        [] \<Rightarrow> Inr (None, 0)
      | c # r \<Rightarrow>
          if is_ascii_whitespace c then Inr (None, 1)
          else if starts_with s ''--'' then Inr (None, length (takeWhile (\<lambda>c. c \<noteq> CHR 0x0A) s))
          else if starts_with s ''/*'' then
            Inr (None, case find_comment_end (drop 2 s) of Some e \<Rightarrow> e + 4 | None \<Rightarrow> length s)
          else if c = CHR 0x27 then
            (case scan_string r of
               None \<Rightarrow> ora_fail 1756 ''quoted string not properly terminated''
             | Some (t, n) \<Rightarrow> Inr (Some (StrTok t), n + 1))
          else if c = CHR 0x22 then
            (case split_at (CHR 0x22) r of
               None \<Rightarrow> ora_fail 1740 ''missing double quote in identifier''
             | Some (name, _) \<Rightarrow>
                 if name = [] then ora_fail 1741 ''illegal zero-length identifier''
                 else Inr (Some (QuotedIdent name), length name + 2))
          else if starts_number s then
            (let n = scan_number s in Inr (Some (NumberTok (take n s)), n))
          else if starts_with s '':='' then Inr (Some (Symbol '':=''), 2)
          else if c = CHR '':'' then
            (let name = takeWhile bind_char r in
             if name = [] then Inl (Err invalid_character)
             else Inr (Some (BindTok (to_uppercase name)), length name + 1))
          else if is_ascii_alphabetic c \<or> code c \<ge> 0x80 then
            (let name = takeWhile ident_char s in Inr (Some (Ident (to_uppercase name)), length name))
          else
            (case find (starts_with s) SYMBOLS of
               Some sy \<Rightarrow> Inr (Some (Symbol sy), length sy)
             | None \<Rightarrow> Inl (Err invalid_character)))"

lemma symbols_nonempty: "sy \<in> set SYMBOLS \<Longrightarrow> sy \<noteq> []"
  by (auto simp: SYMBOLS_def)

lemma starts_number_mantissa: "starts_number s \<Longrightarrow> 0 < scan_mantissa False s"
  by (cases s) (auto simp: starts_number_def is_ascii_digit_def split: list.splits)

lemma lex_progress:
  assumes "lex s = Inr (t, n)" and "s \<noteq> []"
  shows "0 < n"
proof -
  obtain c r where s: "s = c # r" using assms(2) by (cases s) auto
  have "takeWhile (\<lambda>c. c \<noteq> CHR 0x0A) s \<noteq> []" if "starts_with s ''--''" using that s by auto
  moreover have "ident_char c" if "is_ascii_alphabetic c \<or> code c \<ge> 0x80"
    using that by (auto simp: ident_char_def is_ascii_alphanumeric_def)
  moreover have "sy \<noteq> []" if "find (starts_with s) SYMBOLS = Some sy" for sy
    using that symbols_nonempty by (auto simp: find_Some_iff in_set_conv_nth)
  moreover have "0 < scan_number s" if "starts_number s"
    using starts_number_mantissa [OF that] by (simp add: scan_number_def Let_def)
  ultimately show ?thesis
    using assms(1) unfolding lex_def s by (auto simp: Let_def split: if_splits option.splits)
qed

function tokenize_from :: "nat \<Rightarrow> string \<Rightarrow> token list ora_result" where
  "tokenize_from i s =
     (if s = [] then Inr []
      else
        (case lex s of
           Inl e \<Rightarrow> Inl e
         | Inr (t, n) \<Rightarrow>
             rbind (tokenize_from (i + n) (drop n s)) (\<lambda>ts.
             Inr (case t of None \<Rightarrow> ts | Some t \<Rightarrow> \<lparr>tok = t, tok_start = i, tok_end = i + n\<rparr> # ts))))"
  by pat_completeness auto

termination
  by (relation "measure (length \<circ> snd)") (auto dest: lex_progress)

declare tokenize_from.simps [simp del]

definition tokenize :: "string \<Rightarrow> token list ora_result" where
  "tokenize sql = tokenize_from 0 sql"

section \<open>What a token spells\<close>

text \<open>A quote inside a literal is written twice.\<close>

definition double_quotes :: "string \<Rightarrow> string" where
  "double_quotes t = concat (map (\<lambda>c. if c = CHR 0x27 then [c, c] else [c]) t)"

definition quote_literal :: "string \<Rightarrow> string" where
  "quote_literal t = CHR 0x27 # double_quotes t @ [CHR 0x27]"

text \<open>The text of a token, up to the case of unquoted names.\<close>

fun spells :: "tok \<Rightarrow> string \<Rightarrow> bool" where
  "spells (Ident n) l = (n = to_uppercase l \<and> (\<forall>c \<in> set l. ident_char c))"
| "spells (QuotedIdent n) l = (l = CHR 0x22 # n @ [CHR 0x22] \<and> CHR 0x22 \<notin> set n)"
| "spells (NumberTok n) l = (l = n)"
| "spells (StrTok t) l = (l = quote_literal t)"
| "spells (BindTok n) l = (\<exists>m. l = CHR '':'' # m \<and> n = to_uppercase m \<and> (\<forall>c \<in> set m. bind_char c))"
| "spells (Symbol sy) l = (l = sy \<and> (sy = '':='' \<or> sy \<in> set SYMBOLS))"

lemma double_quotes_simps [simp]:
  "double_quotes [] = []"
  "double_quotes (c # t) = (if c = CHR 0x27 then [c, c] else [c]) @ double_quotes t"
  by (simp_all add: double_quotes_def)

lemma scan_string_Nil [simp]: "scan_string [] = None"
  by (simp add: scan_string.simps)

lemma scan_string_char:
  "c \<noteq> CHR 0x27 \<Longrightarrow> scan_string (c # s) = map_option (\<lambda>(r, n). (c # r, Suc n)) (scan_string s)"
  by (simp add: scan_string.simps [of "c # s"] scan_string.simps [of s] option.map_comp comp_def case_prod_unfold
      split: option.split list.split)

lemma scan_string_quote:
  "scan_string (CHR 0x27 # s) =
     (case s of
        [] \<Rightarrow> Some ([], 1)
      | d # r \<Rightarrow> if d = CHR 0x27 then map_option (\<lambda>(t, n). (CHR 0x27 # t, n + 2)) (scan_string r) else Some ([], 1))"
  by (simp add: scan_string.simps [of "CHR 0x27 # s"] split: list.split)

lemma scan_string_spells: "scan_string s = Some (t, n) \<Longrightarrow> \<exists>r. s = double_quotes t @ CHR 0x27 # r \<and>
    n = Suc (length (double_quotes t)) \<and> take 1 r \<noteq> [CHR 0x27]"
proof (induction s arbitrary: t n rule: length_induct)
  case (1 s)
  show ?case
  proof (cases s)
    case Nil
    then show ?thesis using 1 by simp
  next
    case (Cons c u)
    show ?thesis
    proof (cases "c = CHR 0x27")
      case False
      then show ?thesis using 1 Cons by (force simp: scan_string_char)
    next
      case True
      then show ?thesis using 1 Cons by (force simp: scan_string_quote split: list.splits if_splits)
    qed
  qed
qed

lemma scan_string_literal:
  "take 1 r \<noteq> [CHR 0x27] \<Longrightarrow> scan_string (double_quotes t @ CHR 0x27 # r) = Some (t, Suc (length (double_quotes t)))"
  by (induction t) (auto simp: scan_string_char scan_string_quote split: list.split)

lemma scan_mantissa_le: "scan_mantissa b s \<le> length s"
  by (induction b s rule: scan_mantissa.induct) auto

lemma scan_exponent_le: "scan_exponent s \<le> length s"
proof -
  define L where "L k = length (takeWhile is_ascii_digit (drop k s))" for k
  have "L k \<le> length s - k" for k
    using length_takeWhile_le [of is_ascii_digit "drop k s"] by (simp add: L_def)
  then have "0 < L k \<longrightarrow> k + L k \<le> length s" for k
    by (metis add.commute le_diff_conv2 less_le_trans less_imp_le zero_less_diff)
  note this [of 1] this [of 2]
  then show ?thesis
    unfolding scan_exponent_def L_def [symmetric] Let_def by (auto split: list.split)
qed

lemma scan_number_le: "scan_number s \<le> length s"
  using scan_mantissa_le [of False s] scan_exponent_le [of "drop (scan_mantissa False s) s"]
  by (simp add: scan_number_def Let_def)

lemma find_comment_end_le: "find_comment_end s = Some e \<Longrightarrow> e + 2 \<le> length s"
  by (induction s arbitrary: e) (auto simp: starts_with_iff split: if_splits)

lemma take_takeWhile: "take (length (takeWhile P x)) x = takeWhile P x"
  by (metis takeWhile_eq_take)

lemma lex_spells:
  assumes "lex s = Inr (t, n)"
  shows "n \<le> length s \<and> (\<forall>k. t = Some k \<longrightarrow> spells k (take n s))"
proof (cases s)
  case Nil
  then show ?thesis using assms by (simp add: lex_def)
next
  case (Cons c r)
  have str: "take m r = double_quotes u @ [CHR 0x27] \<and> m \<le> length r" if "scan_string r = Some (u, m)" for u m
    using scan_string_spells [OF that] by auto
  have quo: "take (Suc (length u)) r = u @ [CHR 0x22] \<and> length u < length r \<and> CHR 0x22 \<notin> set u"
    if "split_at (CHR 0x22) r = Some (u, v)" for u v
    using split_at_Some [OF that] by auto
  have sy: "take (length y) s = y \<and> length y \<le> length s \<and> y \<in> set SYMBOLS"
    if "find (starts_with s) SYMBOLS = Some y" for y
    using that by (auto simp: find_Some_iff starts_with_iff)
  have asg: "take 2 s = '':='' \<and> 2 \<le> length s" if "starts_with s '':=''"
    using that by (auto simp: starts_with_iff)
  have cm: "e + 4 \<le> length s" if "find_comment_end (drop 2 s) = Some e" "starts_with s ''/*''" for e
    using find_comment_end_le [OF that(1)] that(2) by (auto simp: starts_with_iff)
  have le: "length (takeWhile P x) \<le> length x" for P and x :: string by (rule length_takeWhile_le)
  show ?thesis
    using assms le [of _ r] le [of _ s] scan_number_le [of s] sy asg cm
    unfolding lex_def Cons list.case
    apply (simp only: split: if_split_asm)
              apply (simp_all only: Let_def split: option.split_asm prod.split_asm if_split_asm)
              apply (auto simp: quote_literal_def take_takeWhile dest: set_takeWhileD dest!: str quo)
    done
qed

lemma lex_errors:
  assumes "lex s = Inl f"
  shows "\<exists>e. f = Err e \<and> err_code e \<in> {911, 1740, 1741, 1756}"
  using assms by (cases s) (auto simp: lex_def Let_def invalid_character_def split: if_splits option.splits)

lemma tokenize_from_errors: "tokenize_from i s = Inl f \<Longrightarrow> \<exists>e. f = Err e \<and> err_code e \<in> {911, 1740, 1741, 1756}"
proof (induction i s rule: tokenize_from.induct)
  case (1 i s)
  then show ?case
    by (subst (asm) (2) tokenize_from.simps)
      (auto simp: rbind_eq_Inl split: if_splits sum.splits prod.splits dest: lex_errors)
qed

text \<open>Tokens at their places in a text that starts at offset \<open>i\<close>.\<close>

definition placed :: "nat \<Rightarrow> string \<Rightarrow> token list \<Rightarrow> bool" where
  "placed i s ts \<longleftrightarrow> sorted_wrt (\<lambda>a b. tok_end a \<le> tok_start b) ts \<and>
     (\<forall>t \<in> set ts. i \<le> tok_start t \<and> tok_start t < tok_end t \<and> tok_end t \<le> i + length s \<and>
        spells (tok t) (take (tok_end t - tok_start t) (drop (tok_start t - i) s)))"

lemma placed_later:
  assumes "placed (i + n) (drop n s) ts" and "n \<le> length s"
  shows "placed i s ts"
proof -
  have "drop (tok_start t - (i + n)) (drop n s) = drop (tok_start t - i) s" if "i + n \<le> tok_start t" for t
    using that by simp
  then show ?thesis using assms by (fastforce simp: placed_def)
qed

lemma placed_Cons:
  assumes "placed (i + n) (drop n s) ts" and "0 < n" "n \<le> length s" and "spells k (take n s)"
  shows "placed i s (\<lparr>tok = k, tok_start = i, tok_end = i + n\<rparr> # ts)"
  using placed_later [OF assms(1,3)] assms by (auto simp: placed_def)

lemma tokenize_from_placed: "tokenize_from i s = Inr ts \<Longrightarrow> placed i s ts"
proof (induction i s arbitrary: ts rule: tokenize_from.induct)
  case (1 i s)
  show ?case
  proof (cases "s = []")
    case True
    then show ?thesis using 1 by (simp add: tokenize_from.simps placed_def)
  next
    case False
    then obtain t n us where l: "lex s = Inr (t, n)" and u: "tokenize_from (i + n) (drop n s) = Inr us"
      and ts: "ts = (case t of None \<Rightarrow> us | Some t \<Rightarrow> \<lparr>tok = t, tok_start = i, tok_end = i + n\<rparr> # us)"
      using 1(2) by (subst (asm) tokenize_from.simps) (auto simp: rbind_eq_Inr split: sum.splits)
    have "placed (i + n) (drop n s) us" using 1(1) [OF False l _ u] by simp
    then show ?thesis
      using lex_spells [OF l] lex_progress [OF l False] ts
      by (auto intro: placed_later placed_Cons split: option.split)
  qed
qed


section \<open>Printing tokens and reading them back\<close>

fun show_tok :: "tok \<Rightarrow> string" where
  "show_tok (Ident n) = n"
| "show_tok (QuotedIdent n) = CHR 0x22 # n @ [CHR 0x22]"
| "show_tok (NumberTok n) = n"
| "show_tok (StrTok t) = quote_literal t"
| "show_tok (BindTok n) = CHR '':'' # n"
| "show_tok (Symbol sy) = sy"

definition starts_ident :: "string \<Rightarrow> bool" where
  "starts_ident n = (case n of [] \<Rightarrow> False | c # _ \<Rightarrow> is_ascii_alphabetic c \<or> code c \<ge> 0x80)"

fun tok_ok :: "tok \<Rightarrow> bool" where
  "tok_ok (Ident n) = (starts_ident n \<and> to_uppercase n = n \<and> list_all ident_char n)"
| "tok_ok (QuotedIdent n) = (n \<noteq> [] \<and> CHR 0x22 \<notin> set n)"
| "tok_ok (NumberTok n) = (starts_number n \<and> scan_number n = length n)"
| "tok_ok (StrTok t) = True"
| "tok_ok (BindTok n) = (n \<noteq> [] \<and> to_uppercase n = n \<and> list_all bind_char n)"
| "tok_ok (Symbol sy) = (sy = '':='' \<or> sy \<in> set SYMBOLS)"

lemmas char_classes = is_ascii_whitespace_def is_ascii_digit_def is_ascii_alphabetic_def is_ascii_upper_def
  is_ascii_lower_def is_ascii_alphanumeric_def bind_char_def ident_char_def

lemma not_blank [simp]: "\<not> ident_char (CHR '' '')" "\<not> bind_char (CHR '' '')" "\<not> is_ascii_digit (CHR '' '')"
  by (simp_all add: char_classes code_def)

lemma takeWhile_blank: "list_all P n \<Longrightarrow> \<not> P b \<Longrightarrow> takeWhile P (n @ b # r) = n"
  by (induction n) auto

lemma scan_mantissa_blank: "scan_mantissa b (n @ CHR '' '' # r) = scan_mantissa b n"
  by (induction b n rule: scan_mantissa.induct) (auto split: list.split)

lemma digits_blank: "takeWhile is_ascii_digit (n @ CHR '' '' # r) = takeWhile is_ascii_digit n"
  by (induction n) auto

lemma scan_exponent_blank: "scan_exponent (n @ CHR '' '' # r) = scan_exponent n"
proof (cases n rule: remdups_adj.cases)
  case 1
  then show ?thesis by (simp add: scan_exponent_def)
next
  case (2 c)
  then show ?thesis by (simp add: scan_exponent_def)
next
  case (3 c d m)
  then show ?thesis by (simp add: scan_exponent_def digits_blank)
qed

lemma scan_number_blank: "scan_number (n @ CHR '' '' # r) = scan_number n"
  using scan_mantissa_le [of False n]
  by (simp add: scan_number_def scan_mantissa_blank scan_exponent_blank Let_def)

lemma starts_number_blank: "starts_number n \<Longrightarrow> starts_number (n @ r)"
  by (cases n rule: remdups_adj.cases) (auto simp: starts_number_def)

text \<open>What the first byte of a name or number rules out.\<close>

lemma first_byte:
  "starts_ident (c # r) \<Longrightarrow> \<not> is_ascii_whitespace c \<and> \<not> starts_number (c # s) \<and>
     c \<notin> {CHR ''-'', CHR ''/'', CHR 0x27, CHR 0x22, CHR '':''}"
  "starts_number (c # r) \<Longrightarrow> \<not> is_ascii_whitespace c \<and> c \<notin> {CHR ''-'', CHR ''/'', CHR 0x27, CHR 0x22, CHR '':''}"
  by (auto simp: starts_ident_def starts_number_def char_classes code_def)

lemma lex_symbol:
  "sy \<in> set SYMBOLS \<Longrightarrow> lex (sy @ CHR '' '' # r) = Inr (Some (Symbol sy), length sy)"
  by (simp add: SYMBOLS_def)
    (elim disjE; simp add: lex_def SYMBOLS_def starts_number_def char_classes code_def)

lemma lex_show: "tok_ok t \<Longrightarrow> lex (show_tok t @ CHR '' '' # r) = Inr (Some t, length (show_tok t))"
proof (cases t)
  case (Ident n)
  assume "tok_ok t"
  then obtain c m where n: "n = c # m" and c: "starts_ident (c # m)" "to_uppercase n = n" "list_all ident_char n"
    using Ident by (cases n) (auto simp: starts_ident_def)
  then show ?thesis
    using first_byte(1) [OF c(1)] takeWhile_blank [OF c(3)] Ident
    by (auto simp: lex_def starts_ident_def)
next
  case (NumberTok n)
  assume "tok_ok t"
  then have n: "starts_number n" "scan_number n = length n" using NumberTok by auto
  then obtain c m where "n = c # m" by (cases n) (auto simp: starts_number_def)
  then show ?thesis
    using first_byte(2) [of c m] n starts_number_blank [OF n(1), of "CHR '' '' # r"] scan_number_blank [of n r] NumberTok
    by (auto simp: lex_def)
next
  case (QuotedIdent n)
  assume "tok_ok t"
  then show ?thesis
    using QuotedIdent split_at_append [of "CHR 0x22" n "CHR '' '' # r"]
    by (simp add: lex_def char_classes code_def)
next
  case (StrTok u)
  then show ?thesis
    using scan_string_literal [of "CHR '' '' # r" u]
    by (simp add: lex_def quote_literal_def char_classes code_def)
next
  case (BindTok n)
  assume "tok_ok t"
  then show ?thesis
    using BindTok takeWhile_blank [of bind_char n "CHR '' ''" r]
    by (cases n) (auto simp: lex_def char_classes code_def starts_number_def)
next
  case (Symbol sy)
  assume "tok_ok t"
  then show ?thesis
    using Symbol lex_symbol [of sy r] by (auto simp: lex_def char_classes code_def starts_number_def)
qed

lemma tokenize_from_Cons:
  assumes "lex s = Inr (t, n)" and "s \<noteq> []"
  shows "tokenize_from i s = rbind (tokenize_from (i + n) (drop n s)) (\<lambda>ts.
     Inr (case t of None \<Rightarrow> ts | Some t \<Rightarrow> \<lparr>tok = t, tok_start = i, tok_end = i + n\<rparr> # ts))"
  using assms by (subst tokenize_from.simps) simp

lemma lex_blank: "lex (CHR '' '' # r) = Inr (None, 1)"
  by (simp add: lex_def char_classes code_def)

definition show_toks :: "tok list \<Rightarrow> string" where
  "show_toks ts = concat (map (\<lambda>t. show_tok t @ '' '') ts)"

lemma show_toks_simps [simp]:
  "show_toks [] = []" "show_toks (t # ts) = show_tok t @ CHR '' '' # show_toks ts"
  by (simp_all add: show_toks_def)

lemma tokenize_from_shown:
  "list_all tok_ok ts \<Longrightarrow> \<exists>us. tokenize_from i (show_toks ts) = Inr us \<and> map tok us = ts"
proof (induction ts arbitrary: i)
  case Nil
  then show ?case by (simp add: tokenize_from.simps)
next
  case (Cons t ts)
  then obtain us where us: "tokenize_from (i + length (show_tok t) + 1) (show_toks ts) = Inr us" "map tok us = ts"
    by auto
  have "tokenize_from (i + length (show_tok t)) (CHR '' '' # show_toks ts) = Inr us"
    using us(1) by (simp add: tokenize_from_Cons [OF lex_blank])
  then show ?case
    using us Cons.prems tokenize_from_Cons [OF lex_show [of t "show_toks ts"]] by simp
qed

section \<open>Properties\<close>

text \<open>The tokenizer ends on every text without a panic, and the only errors it reports are ORA-00911,
  ORA-01740, ORA-01741 and ORA-01756.\<close>

theorem tokenize_ends:
  "case tokenize sql of
     Inr _ \<Rightarrow> True
   | Inl f \<Rightarrow> \<exists>e. f = Err e \<and> err_code e \<in> {911, 1740, 1741, 1756}"
  using tokenize_from_errors [of 0 sql] by (auto simp: tokenize_def split: sum.split)



text \<open>C27: Printing any list of well-formed tokens with a blank after each and tokenizing the text gives the
  tokens back, whatever quotes, separators or comment signs their strings and quoted names hold.\<close>

theorem tokenize_show:
  assumes "list_all tok_ok ts"
  shows "\<exists>us. tokenize (show_toks ts) = Inr us \<and> map tok us = ts"
  using tokenize_from_shown [OF assms] by (simp add: tokenize_def)

theorem tokenize_show_witness:
  "\<exists>us. tokenize (show_toks [StrTok ''it's -- /* ;'', Symbol ''<='', QuotedIdent ''a b'']) = Inr us \<and>
     map tok us = [StrTok ''it's -- /* ;'', Symbol ''<='', QuotedIdent ''a b'']"
  using tokenize_show [of "[StrTok ''it's -- /* ;'', Symbol ''<='', QuotedIdent ''a b'']"] by (simp add: SYMBOLS_def)

end
