(* ===== verification/Parse_Base.thy ===== *)
theory Parse_Base
  imports Lexer Functions
begin

text \<open>
  The state of \<open>Parser\<close> in \<open>crates/mock-oracle-core/src/parser.rs\<close> and its token helpers. A parsing function is a
  function from that state to an error, or a result and the next state: an error ends the whole parse,
  so the state it leaves is not kept. \<open>self.f()?\<close> followed by more is \<open>pbind\<close>, a test on the tokens ahead
  is \<open>test\<close>, and \<open>if self.eat_kw(k)\<close> is \<open>pcond (eat_kw k)\<close>.
\<close>

record ('n, 'd) parser =
  ps_sql :: string
  ps_tokens :: "token list"
  ps_pos :: nat
  ps_binds :: nat
  ps_bind_names :: "(string \<rightharpoonup> nat) option"
  ps_into_allowed :: bool
  ps_into :: "('n, 'd) expr list option"

type_synonym ('n, 'd, 'r) pm = "('n, 'd) parser \<Rightarrow> ('r \<times> ('n, 'd) parser) ora_result"

section \<open>Computations\<close>

definition pret :: "'r \<Rightarrow> ('n, 'd, 'r) pm" where
  "pret r s = Inr (r, s)"

definition plift :: "'r ora_result \<Rightarrow> ('n, 'd, 'r) pm" where
  "plift r s = rbind r (\<lambda>a. Inr (a, s))"

abbreviation pfail :: "ora_error \<Rightarrow> ('n, 'd, 'r) pm" where
  "pfail e \<equiv> plift (Inl (Err e))"

abbreviation pora :: "nat \<Rightarrow> string \<Rightarrow> ('n, 'd, 'r) pm" where
  "pora c m \<equiv> plift (ora_fail c m)"

definition pbind :: "('n, 'd, 'p) pm \<Rightarrow> ('p \<Rightarrow> ('n, 'd, 'r) pm) \<Rightarrow> ('n, 'd, 'r) pm" where
  "pbind m f s = rbind (m s) (\<lambda>(a, s'). f a s')"

abbreviation pthen :: "('n, 'd, 'p) pm \<Rightarrow> ('n, 'd, 'r) pm \<Rightarrow> ('n, 'd, 'r) pm" where
  "pthen m f \<equiv> pbind m (\<lambda>_. f)"

definition test :: "(('n, 'd) parser \<Rightarrow> 'r) \<Rightarrow> ('n, 'd, 'r) pm" where
  "test f s = Inr (f s, s)"

definition pmod :: "(('n, 'd) parser \<Rightarrow> ('n, 'd) parser) \<Rightarrow> ('n, 'd, unit) pm" where
  "pmod f s = Inr ((), f s)"

definition pcond :: "('n, 'd, bool) pm \<Rightarrow> ('n, 'd, 'r) pm \<Rightarrow> ('n, 'd, 'r) pm \<Rightarrow> ('n, 'd, 'r) pm" where
  "pcond c m k = pbind c (\<lambda>y. if y then m else k)"

text \<open>\<open>if c { Some(m?) } else { None }\<close>.\<close>

definition poption :: "('n, 'd, bool) pm \<Rightarrow> ('n, 'd, 'r) pm \<Rightarrow> ('n, 'd, 'r option) pm" where
  "poption c m = pcond c (pbind m (\<lambda>x. pret (Some x))) (pret None)"

text \<open>\<open>a || b\<close>: the second is not run when the first holds.\<close>

definition por :: "('n, 'd, bool) pm \<Rightarrow> ('n, 'd, bool) pm \<Rightarrow> ('n, 'd, bool) pm" where
  "por c d = pcond c (pret True) d"

definition pmap_err :: "(ora_error \<Rightarrow> ora_error) \<Rightarrow> ('n, 'd, 'r) pm \<Rightarrow> ('n, 'd, 'r) pm" where
  "pmap_err g m s = map_err g (m s)"

text \<open>A loop whose body goes on with \<open>Inl\<close> and leaves with \<open>Inr\<close>. Its rounds are bounded by the tokens
  left, which is enough when every round takes one.\<close>

fun prepeat :: "('x \<Rightarrow> ('n, 'd, 'x + 'r) pm) \<Rightarrow> nat \<Rightarrow> 'x \<Rightarrow> ('n, 'd, 'r) pm" where
  "prepeat step 0 x s = Inl Diverges"
| "prepeat step (Suc n) x s =
     rbind (step x s) (\<lambda>(r, s'). case r of Inl y \<Rightarrow> prepeat step n y s' | Inr z \<Rightarrow> Inr (z, s'))"

definition tokens_left :: "('n, 'd) parser \<Rightarrow> nat" where
  "tokens_left s = length (ps_tokens s) - ps_pos s"

definition ploop :: "('x \<Rightarrow> ('n, 'd, 'x + 'r) pm) \<Rightarrow> 'x \<Rightarrow> ('n, 'd, 'r) pm" where
  "ploop step x s = prepeat step (Suc (tokens_left s)) x s"

section \<open>Errors\<close>

definition missing_keyword :: ora_error where
  "missing_keyword = ora 905 ''missing keyword''"

definition missing_paren :: ora_error where
  "missing_paren = ora 907 ''missing right parenthesis''"

definition missing_left_paren :: ora_error where
  "missing_left_paren = ora 906 ''missing left parenthesis''"

definition unsupported :: "string \<Rightarrow> ora_error" where
  "unsupported what = ora 3001 (''unimplemented feature: '' @ what)"

definition not_ended :: ora_error where
  "not_ended = ora 933 ''SQL command not properly ended''"

definition invalid_number :: ora_error where
  "invalid_number = ora 1722 ''invalid number''"

section \<open>Tokens\<close>

definition peek_at :: "nat \<Rightarrow> ('n, 'd) parser \<Rightarrow> tok option" where
  "peek_at n s = (if ps_pos s + n < length (ps_tokens s) then Some (tok (ps_tokens s ! (ps_pos s + n))) else None)"

definition peek :: "('n, 'd) parser \<Rightarrow> tok option" where
  "peek s = peek_at 0 s"

definition is_kw_at :: "nat \<Rightarrow> string \<Rightarrow> ('n, 'd) parser \<Rightarrow> bool" where
  "is_kw_at n kw s = (peek_at n s = Some (Ident kw))"

definition is_kw :: "string \<Rightarrow> ('n, 'd) parser \<Rightarrow> bool" where
  "is_kw kw s = is_kw_at 0 kw s"

definition is_sym_at :: "nat \<Rightarrow> string \<Rightarrow> ('n, 'd) parser \<Rightarrow> bool" where
  "is_sym_at n sy s = (peek_at n s = Some (Symbol sy))"

definition is_sym :: "string \<Rightarrow> ('n, 'd) parser \<Rightarrow> bool" where
  "is_sym sy s = is_sym_at 0 sy s"

definition is_ident_at :: "nat \<Rightarrow> ('n, 'd) parser \<Rightarrow> bool" where
  "is_ident_at n s = (case peek_at n s of Some (Ident _) \<Rightarrow> True | Some (QuotedIdent _) \<Rightarrow> True | _ \<Rightarrow> False)"

definition is_any_kw :: "string list \<Rightarrow> ('n, 'd) parser \<Rightarrow> bool" where
  "is_any_kw kws s = list_ex (\<lambda>k. is_kw k s) kws"

definition skip :: "nat \<Rightarrow> ('n, 'd, unit) pm" where
  "skip n = pmod (\<lambda>s. s\<lparr>ps_pos := ps_pos s + n\<rparr>)"

definition advance :: "('n, 'd, tok option) pm" where
  "advance = pbind (test peek) (\<lambda>t. pbind (skip 1) (\<lambda>_. pret t))"

definition skip_rest :: "('n, 'd, unit) pm" where
  "skip_rest = pmod (\<lambda>s. s\<lparr>ps_pos := length (ps_tokens s)\<rparr>)"

definition eat :: "(('n, 'd) parser \<Rightarrow> bool) \<Rightarrow> ('n, 'd, bool) pm" where
  "eat c = pcond (test c) (pthen (skip 1) (pret True)) (pret False)"

definition eat_kw :: "string \<Rightarrow> ('n, 'd, bool) pm" where
  "eat_kw kw = eat (is_kw kw)"

definition eat_sym :: "string \<Rightarrow> ('n, 'd, bool) pm" where
  "eat_sym sy = eat (is_sym sy)"

definition expect_kw :: "string \<Rightarrow> ('n, 'd, unit) pm" where
  "expect_kw kw = pcond (eat_kw kw) (pret ()) (pfail missing_keyword)"

definition expect_sym :: "string \<Rightarrow> ('n, 'd, unit) pm" where
  "expect_sym sy =
     pcond (eat_sym sy) (pret ())
       (pfail (if sy = '')'' then missing_paren else if sy = ''('' then missing_left_paren else not_ended))"

definition ident :: "('n, 'd, string) pm" where
  "ident =
     pbind (test peek) (\<lambda>t.
     case t of
       Some (Ident n) \<Rightarrow> pthen (skip 1) (pret n)
     | Some (QuotedIdent n) \<Rightarrow> pthen (skip 1) (pret n)
     | _ \<Rightarrow> pora 904 ''invalid identifier'')"

definition object_name :: "('n, 'd, string) pm" where
  "object_name =
     (let name = pmap_err (\<lambda>_. ora 903 ''invalid table name'') ident in
      pbind name (\<lambda>first. pcond (eat_sym ''.'') name (pret first)))"

definition RESERVED :: "string list" where
  "RESERVED =
     [''FROM'', ''WHERE'', ''GROUP'', ''ORDER'', ''HAVING'', ''UNION'', ''MINUS'', ''INTERSECT'', ''EXCEPT'',
      ''JOIN'', ''INNER'', ''LEFT'', ''RIGHT'', ''FULL'', ''CROSS'', ''ON'', ''CONNECT'', ''START'', ''FETCH'',
      ''OFFSET'', ''FOR'', ''AND'', ''OR'', ''NOT'', ''IS'', ''IN'', ''LIKE'', ''BETWEEN'', ''AS'', ''SET'',
      ''VALUES'', ''WHEN'', ''THEN'', ''ELSE'', ''END'', ''ASC'', ''DESC'', ''NULLS'', ''WITH'', ''SELECT'',
      ''USING'', ''NATURAL'', ''OUTER'', ''RETURNING'', ''RETURN'', ''INTO'', ''DISTINCT'', ''LOOP'', ''BULK'']"

definition optional_alias :: "('n, 'd, string option) pm" where
  "optional_alias =
     pcond (eat_kw ''AS'') (pbind ident (\<lambda>n. pret (Some n)))
     (pbind (test peek) (\<lambda>t.
      case t of
        Some (QuotedIdent _) \<Rightarrow> pbind ident (\<lambda>n. pret (Some n))
      | Some (Ident k) \<Rightarrow> if k \<notin> set RESERVED then pbind ident (\<lambda>n. pret (Some n)) else pret None
      | _ \<Rightarrow> pret None))"

text \<open>A number token read as a signed integer of \<open>w\<close> bits, with the sign read before it.\<close>

definition signed_token :: "nat \<Rightarrow> bool \<Rightarrow> ('n, 'd, int) pm" where
  "signed_token w neg =
     pbind advance (\<lambda>t.
     case t of
       Some (NumberTok n) \<Rightarrow>
         (case parse_signed w n of
            Some v \<Rightarrow> pret (if neg then - v else v)
          | None \<Rightarrow> pfail invalid_number)
     | _ \<Rightarrow> pfail invalid_number)"

definition integer :: "('n, 'd, int) pm" where
  "integer = pbind (eat_sym ''-'') (signed_token 64)"

text \<open>\<open>p\<close>, and again after every comma.\<close>

definition comma_list :: "('n, 'd, 'r) pm \<Rightarrow> ('n, 'd, 'r list) pm" where
  "comma_list p =
     pbind p (\<lambda>x. ploop (\<lambda>out.
       pcond (eat_sym '','') (pbind p (\<lambda>y. pret (Inl (out @ [y])))) (pret (Inr out))) [x])"

definition ident_list :: "('n, 'd, string list) pm" where
  "ident_list =
     pthen (expect_sym ''('') (pbind (comma_list ident) (\<lambda>out. pthen (expect_sym '')'') (pret out)))"

definition skip_parens :: "('n, 'd, unit) pm" where
  "skip_parens =
     pcond (eat_sym ''('')
       (ploop (\<lambda>depth :: nat.
          if depth = 0 then pret (Inr ())
          else
            pbind advance (\<lambda>t.
            case t of
              None \<Rightarrow> pfail missing_paren
            | Some (Symbol sy) \<Rightarrow>
                pret (Inl (if sy = ''('' then Suc depth else if sy = '')'' then depth - 1 else depth))
            | Some _ \<Rightarrow> pret (Inl depth))) 1)
       (pret ())"

definition partition_extension :: "('n, 'd, unit) pm" where
  "partition_extension =
     pcond (test (\<lambda>s. (is_kw ''PARTITION'' s \<or> is_kw ''SUBPARTITION'' s) \<and> (is_sym_at 1 ''('' s \<or> is_kw_at 1 ''FOR'' s)))
       (pthen advance (pthen (eat_kw ''FOR'')
          (pcond (test (is_sym ''('')) skip_parens (pfail missing_left_paren))))
       (pret ())"

definition is_partition_op :: "('n, 'd) parser \<Rightarrow> bool" where
  "is_partition_op s =
     (let part = (\<lambda>n. list_ex (\<lambda>k. is_kw_at n k s) [''PARTITION'', ''SUBPARTITION'', ''PARTITIONS'', ''SUBPARTITIONS'']) in
      part 0 \<or> part 1 \<or>
      is_kw ''MODIFY'' s \<and> is_kw_at 1 ''DEFAULT'' s \<and> is_kw_at 2 ''ATTRIBUTES'' s \<or>
      is_kw ''SET'' s \<and> list_ex (\<lambda>k. is_kw_at 1 k s) [''INTERVAL'', ''PARTITIONING'', ''SUBPARTITION''] \<or>
      (is_kw ''ENABLE'' s \<or> is_kw ''DISABLE'' s) \<and> is_kw_at 1 ''ROW'' s \<or>
      is_kw ''REBUILD'' s \<and> part 1)"

section \<open>What the grammar calls back\<close>

text \<open>The functions that a nested construct reaches again, always after a token has been taken.\<close>

record ('n, 'd) grammar =
  pg_not :: "('n, 'd, ('n, 'd) expr) pm"
  pg_unary :: "('n, 'd, ('n, 'd) expr) pm"
  pg_expr :: "('n, 'd, ('n, 'd) expr) pm"
  pg_query :: "('n, 'd, ('n, 'd) query) pm"
  pg_statements :: "('n, 'd, ('n, 'd) stmt list) pm"
  pg_routine_body :: "('n, 'd) routine \<Rightarrow> ('n, 'd, ('n, 'd) routine) pm"

end
