(* ===== verification/Parse_Sql.thy ===== *)
theory Parse_Sql
  imports Parse_Base
begin

text \<open>
  \<open>crates/mock-oracle-core/src/parser.rs\<close>: data types, expressions and queries. The functions are in the order in
  which they call each other; a call that would close a cycle goes through the record \<open>grammar\<close>.
\<close>

section \<open>Data types\<close>

definition parse_length :: "('n, 'd, nat option) pm" where
  "parse_length =
     pcond (eat_sym ''('')
       (pbind integer (\<lambda>n.
        pthen (pcond (eat_kw ''BYTE'') (pret True) (eat_kw ''CHAR''))
        (pthen (expect_sym '')'')
        (if n \<le> 0 then pora 1724 ''zero-length columns are not allowed'' else pret (Some (nat (n mod 2 ^ 32)))))))
       (pret None)"

definition too_long :: ora_error where
  "too_long = ora 910 ''specified length too long for its datatype''"

definition required_length :: "('n, 'd, nat) pm" where
  "required_length =
     pbind parse_length (\<lambda>n. case n of Some n \<Rightarrow> pret n | None \<Rightarrow> pfail missing_left_paren)"

definition parse_number_type :: "string \<Rightarrow> ('n, 'd, sql_type) pm" where
  "parse_number_type name =
     pcond (eat_sym ''('')
       (pbind (pcond (eat_sym ''*'') (pret 38) integer) (\<lambda>precision.
        if precision < 1 \<or> 38 < precision
        then pora 1727 ''numeric precision specifier is out of range (1 to 38)''
        else
          pbind (pcond (eat_sym '','') integer (pret 0)) (\<lambda>scale.
          if scale < -84 \<or> 127 < scale then pora 1728 ''numeric scale specifier is out of range (-84 to 127)''
          else pthen (expect_sym '')'') (pret (TNumber (nat precision) scale)))))
       (pret (if name = ''NUMBER'' then NUMBER else TNumber 38 0))"

definition parse_timestamp_type :: "('n, 'd, sql_type) pm" where
  "parse_timestamp_type =
     pbind (pcond (eat_sym ''('')
              (pbind integer (\<lambda>p.
               pthen (expect_sym '')'')
               (if p < 0 \<or> 9 < p then pora 30088 ''datetime/interval precision is out of range'' else pret (nat p))))
              (pret 6)) (\<lambda>p.
     pthen (pcond (eat_kw ''WITH'')
              (pthen (eat_kw ''LOCAL'') (pthen (expect_kw ''TIME'') (expect_kw ''ZONE'')))
              (pret ()))
     (pret (TTimestamp p)))"

definition data_type_named :: "string \<Rightarrow> ('n, 'd, sql_type) pm" where
  "data_type_named name =
     (if name \<in> {''NUMBER'', ''NUMERIC'', ''DECIMAL'', ''DEC''} then parse_number_type name
      else if name \<in> {''INTEGER'', ''INT'', ''SMALLINT''} then pret (TNumber 38 0)
      else if name \<in> {''FLOAT'', ''REAL'', ''BINARY_DOUBLE'', ''BINARY_FLOAT''} then pthen skip_parens (pret NUMBER)
      else if name = ''DOUBLE'' then pthen (expect_kw ''PRECISION'') (pret NUMBER)
      else if name \<in> {''VARCHAR2'', ''VARCHAR'', ''NVARCHAR2''} then
        pbind required_length (\<lambda>n. if 32767 < n then pfail too_long else pret (TVarchar2 n))
      else if name \<in> {''CHAR'', ''NCHAR'', ''CHARACTER''} then
        pcond (eat_kw ''VARYING'')
          (pbind required_length (\<lambda>n. pret (TVarchar2 n)))
          (pbind parse_length (\<lambda>n.
           let n = (case n of Some n \<Rightarrow> n | None \<Rightarrow> 1) in
           if 2000 < n then pfail too_long else pret (TChar n)))
      else if name \<in> {''CLOB'', ''NCLOB'', ''LONG''} then pret (TVarchar2 32767)
      else if name = ''DATE'' then pret TDate
      else if name = ''TIMESTAMP'' then parse_timestamp_type
      else pora 902 ''invalid datatype'')"

definition data_type :: "('n, 'd, sql_type) pm" where
  "data_type =
     pbind (test peek) (\<lambda>t.
     case t of
       Some (Ident n) \<Rightarrow> pthen (skip 1) (data_type_named n)
     | _ \<Rightarrow> pora 902 ''invalid datatype'')"

section \<open>Expressions\<close>

definition next_value_name :: "string \<Rightarrow> bool" where
  "next_value_name n = (n = ''NEXTVAL'' \<or> n = ''CURRVAL'')"

definition dotted_ident :: "('n, 'd) parser \<Rightarrow> bool" where
  "dotted_ident s = (is_sym ''.'' s \<and> is_ident_at 1 s)"

definition column_ref :: "('n, 'd, ('n, 'd) expr) pm" where
  "column_ref =
     pbind ident (\<lambda>first.
     pcond (test (\<lambda>s. is_sym ''%'' s \<and> is_ident_at 1 s))
       (pthen advance (pbind ident (\<lambda>attr. pret (Column (Some (first @ ''%'')) attr))))
     (pcond (test dotted_ident)
        (pthen advance (pbind ident (\<lambda>second.
         if next_value_name second then pret (SequenceE first (second = ''NEXTVAL''))
         else
           pcond (test dotted_ident)
             (pthen advance (pbind ident (\<lambda>third.
              if next_value_name third then pret (SequenceE second (third = ''NEXTVAL''))
              else pret (Column (Some second) third))))
             (pret (Column (Some first) second)))))
        (pret (Column None first))))"

text \<open>A bind takes the next position; where a repeated name is one bind, it has the position of the first.\<close>

definition bind_position :: "string \<Rightarrow> ('n, 'd, ('n, 'd) expr) pm" where
  "bind_position name s =
     (case ps_bind_names s of
        None \<Rightarrow> Inr (Bind (ps_binds s), s\<lparr>ps_binds := ps_binds s + 1\<rparr>)
      | Some names \<Rightarrow>
          (case names name of
             Some i \<Rightarrow> Inr (Bind i, s)
           | None \<Rightarrow>
               Inr (Bind (ps_binds s),
                 s\<lparr>ps_bind_names := Some (names(name \<mapsto> ps_binds s)), ps_binds := ps_binds s + 1\<rparr>)))"

definition parse_case :: "('n, 'd) grammar \<Rightarrow> ('n, 'd, ('n, 'd) expr) pm" where
  "parse_case G =
     pbind (pcond (test (is_kw ''WHEN'')) (pret None) (pbind (pg_expr G) (\<lambda>e. pret (Some e)))) (\<lambda>operand.
     pbind (ploop (\<lambda>whens.
       pcond (eat_kw ''WHEN'')
         (pbind (pg_expr G) (\<lambda>cond. pthen (expect_kw ''THEN'') (pbind (pg_expr G) (\<lambda>e. pret (Inl (whens @ [(cond, e)]))))))
         (pret (Inr whens))) []) (\<lambda>whens.
     if whens = [] then pfail missing_keyword
     else
       pbind (poption (eat_kw ''ELSE'') (pg_expr G)) (\<lambda>els.
       pthen (expect_kw ''END'') (pret (CaseE operand whens els)))))"

definition no_over :: "('n, 'd) expr \<Rightarrow> ('n, 'd, ('n, 'd) expr) pm" where
  "no_over e = pcond (test (is_any_kw [''OVER'', ''WITHIN'', ''KEEP''])) (pfail (unsupported ''analytic functions'')) (pret e)"

definition text_literal :: "string \<Rightarrow> ('n, 'd) expr" where
  "text_literal s = Literal (varchar s)"

fun cast_target :: "sql_type \<Rightarrow> string" where
  "cast_target (TNumber _ _) = ''NUMBER''"
| "cast_target (TVarchar2 n) = ''VARCHAR2:'' @ nat_str n"
| "cast_target (TChar n) = ''VARCHAR2:'' @ nat_str n"
| "cast_target TDate = ''DATE''"
| "cast_target (TTimestamp _) = ''TIMESTAMP''"

text \<open>\<open>["LEADING", "TRAILING", "BOTH"].into_iter().find(|m| self.eat_kw(m))\<close>.\<close>

definition trim_mode :: "('n, 'd, string option) pm" where
  "trim_mode =
     pcond (eat_kw ''LEADING'') (pret (Some ''LEADING''))
     (pcond (eat_kw ''TRAILING'') (pret (Some ''TRAILING''))
     (pcond (eat_kw ''BOTH'') (pret (Some ''BOTH'')) (pret None)))"

definition parse_trim :: "('n, 'd) grammar \<Rightarrow> ('n, 'd, ('n, 'd) expr) pm" where
  "parse_trim G =
     pbind trim_mode (\<lambda>mode.
     pbind (pcond (if mode \<noteq> None then eat_kw ''FROM'' else pret False)
              (pbind (pg_expr G) (\<lambda>s. pret (text_literal '' '', s)))
              (pbind (pg_expr G) (\<lambda>first.
               pcond (eat_kw ''FROM'')
                 (pbind (pg_expr G) (\<lambda>s. pret (first, s)))
                 (pret (text_literal '' '', first))))) (\<lambda>(chars, s).
     pthen (expect_sym '')'')
     (pret (Function ''TRIM'' [text_literal (case mode of Some m \<Rightarrow> m | None \<Rightarrow> ''BOTH''), chars, s] False))))"

definition parse_call :: "('n, 'd) grammar \<Rightarrow> string \<Rightarrow> ('n, 'd, ('n, 'd) expr) pm" where
  "parse_call G name =
     pbind (eat_kw ''DISTINCT'') (\<lambda>uniq.
     pthen (if uniq then pret True else eat_kw ''ALL'')
     (pbind (pcond (test (is_sym '')'')) (pret []) (comma_list (pg_expr G))) (\<lambda>args.
      pthen (expect_sym '')'') (no_over (Function name args uniq)))))"

definition parse_function :: "('n, 'd) grammar \<Rightarrow> string \<Rightarrow> ('n, 'd, ('n, 'd) expr) pm" where
  "parse_function G name =
     pthen (skip 2)
     (pcond (test (\<lambda>s. name = ''COUNT'' \<and> is_sym ''*'' s))
        (pthen advance (pthen (expect_sym '')'') (no_over CountStar)))
      (if name = ''CAST'' then
         pbind (pg_expr G) (\<lambda>e.
         pthen (expect_kw ''AS'') (pbind data_type (\<lambda>t.
         pthen (expect_sym '')'') (pret (Function ''CAST'' [e, text_literal (cast_target t)] False)))))
       else if name = ''EXTRACT'' then
         pbind ident (\<lambda>field.
         pthen (expect_kw ''FROM'') (pbind (pg_expr G) (\<lambda>e.
         pthen (expect_sym '')'') (pret (Function ''EXTRACT'' [text_literal field, e] False)))))
       else if name = ''TRIM'' then parse_trim G
       else parse_call G name))"

text \<open>\<open>unreachable!\<close> panics.\<close>

definition string_after_keyword :: "('n, 'd, string) pm" where
  "string_after_keyword =
     pthen advance (pbind advance (\<lambda>t. case t of Some (StrTok s) \<Rightarrow> pret s | _ \<Rightarrow> plift (Inl Panic)))"

definition next_is_str :: "('n, 'd) parser \<Rightarrow> bool" where
  "next_is_str s = (case peek_at 1 s of Some (StrTok _) \<Rightarrow> True | _ \<Rightarrow> False)"

definition bare_word :: "('n, 'd) parser \<Rightarrow> bool" where
  "bare_word s = (\<not> is_sym_at 1 ''('' s \<and> \<not> is_sym_at 1 ''.'' s)"

definition parse_date_literal :: "('n, 'd, 'a) ext \<Rightarrow> ('n, 'd, ('n, 'd) expr) pm" where
  "parse_date_literal E =
     pbind string_after_keyword (\<lambda>s. pbind (plift (dt_parse E s ''YYYY-MM-DD'')) (\<lambda>d. pret (Literal (Date d))))"

definition parse_timestamp_literal :: "('n, 'd, 'a) ext \<Rightarrow> ('n, 'd, ('n, 'd) expr) pm" where
  "parse_timestamp_literal E =
     pbind string_after_keyword (\<lambda>s.
     pbind (plift (dt_parse E s
       (if CHR ''.'' \<in> set s then ''YYYY-MM-DD HH24:MI:SS.FF'' else ''YYYY-MM-DD HH24:MI:SS''))) (\<lambda>d.
     pret (Literal (Timestamp d))))"

definition keyword_or_identifier ::
  "('n, 'd, 'a) ext \<Rightarrow> ('n, 'd) grammar \<Rightarrow> string \<Rightarrow> ('n, 'd, ('n, 'd) expr) pm" where
  "keyword_or_identifier E G k =
     (if k = ''NULL'' then pthen advance (pret (Literal Null))
      else
        pcond (test (\<lambda>s. k \<in> {''TRUE'', ''FALSE''} \<and> bare_word s))
          (pthen advance (pret (Literal (Boolean (k = ''TRUE'')))))
       (pcond (test (\<lambda>s. k = ''DATE'' \<and> next_is_str s)) (parse_date_literal E)
       (pcond (test (\<lambda>s. k = ''TIMESTAMP'' \<and> next_is_str s)) (parse_timestamp_literal E)
       (pcond (test (\<lambda>s. k = ''INTERVAL'' \<and> next_is_str s)) (pfail (unsupported ''INTERVAL literals''))
       (if k = ''CASE'' then pthen advance (parse_case G)
        else
          pcond (test (\<lambda>s. k = ''EXISTS'' \<and> is_sym_at 1 ''('' s))
            (pthen (skip 2) (pbind (pg_query G) (\<lambda>q. pthen (expect_sym '')'') (pret (Exists q)))))
         (if k = ''ROWNUM'' then pthen advance (pret RowNum)
          else
            pcond (test (\<lambda>s. k \<in> {''SYSDATE'', ''SYSTIMESTAMP'', ''CURRENT_DATE'', ''CURRENT_TIMESTAMP'',
                ''LOCALTIMESTAMP'', ''USER''} \<and> bare_word s))
              (pthen advance (pret (Function k [] False)))
           (pcond (test (\<lambda>s. k \<in> set RESERVED \<and> \<not> is_sym_at 1 ''('' s)) (pfail missing_expression)
           (pcond (test (is_sym_at 1 ''('')) (parse_function G k) column_ref))))))))"

definition parse_primary :: "('n, 'd, 'a) ext \<Rightarrow> ('n, 'd) grammar \<Rightarrow> ('n, 'd, ('n, 'd) expr) pm" where
  "parse_primary E G =
     pbind (test peek) (\<lambda>t.
     case t of
       Some (NumberTok n) \<Rightarrow>
         pthen advance (case parse_number E n of Some v \<Rightarrow> pret (Literal v) | None \<Rightarrow> pfail invalid_number)
     | Some (StrTok s) \<Rightarrow> pthen advance (pret (Literal (varchar s)))
     | Some (BindTok name) \<Rightarrow> pthen advance (bind_position name)
     | Some (Symbol sy) \<Rightarrow>
         if sy = ''('' then
           pthen advance
           (pcond (test (is_kw ''SELECT''))
              (pbind (pg_query G) (\<lambda>q. pthen (expect_sym '')'') (pret (Subquery q))))
              (pbind (pg_expr G) (\<lambda>e. pthen (expect_sym '')'') (pret e))))
         else pfail missing_expression
     | Some (Ident k) \<Rightarrow> keyword_or_identifier E G k
     | Some (QuotedIdent _) \<Rightarrow> column_ref
     | None \<Rightarrow> pfail missing_expression)"

definition parse_unary :: "('n, 'd, 'a) ext \<Rightarrow> ('n, 'd) grammar \<Rightarrow> ('n, 'd, ('n, 'd) expr) pm" where
  "parse_unary E G =
     pcond (eat_sym ''-'') (pbind (pg_unary G) (\<lambda>e. pret (Neg e)))
     (pcond (eat_sym ''+'') (pg_unary G) (parse_primary E G))"

text \<open>A chain of operators read from the left; \<open>op_of\<close> reads the operator off the next token.\<close>

definition binary_chain ::
  "(tok \<Rightarrow> binary_op option) \<Rightarrow> ('n, 'd, ('n, 'd) expr) pm \<Rightarrow> ('n, 'd, ('n, 'd) expr) pm" where
  "binary_chain op_of operand =
     pbind operand (\<lambda>left. ploop (\<lambda>left.
       pbind (test (\<lambda>s. Option.bind (peek s) op_of)) (\<lambda>op.
       case op of
         Some op \<Rightarrow> pthen advance (pbind operand (\<lambda>right. pret (Inl (Binary op left right))))
       | None \<Rightarrow> pret (Inr left))) left)"

fun term_op :: "tok \<Rightarrow> binary_op option" where
  "term_op (Symbol sy) = (if sy = ''*'' then Some Mul else if sy = ''/'' then Some Div else None)"
| "term_op _ = None"

fun additive_op :: "tok \<Rightarrow> binary_op option" where
  "additive_op (Symbol sy) =
     (if sy = ''+'' then Some Add else if sy = ''-'' then Some Sub else if sy = ''||'' then Some Concat else None)"
| "additive_op _ = None"

fun comparison_op :: "tok \<Rightarrow> binary_op option" where
  "comparison_op (Symbol sy) =
     (if sy = ''='' then Some Eq
      else if sy = ''<>'' \<or> sy = ''!='' \<or> sy = ''^='' then Some NotEq
      else if sy = ''<'' then Some Lt
      else if sy = ''<='' then Some LtEq
      else if sy = ''>'' then Some Gt
      else if sy = ''>='' then Some GtEq
      else None)"
| "comparison_op _ = None"

fun keyword_op :: "string \<Rightarrow> binary_op \<Rightarrow> tok \<Rightarrow> binary_op option" where
  "keyword_op kw op (Ident k) = (if k = kw then Some op else None)"
| "keyword_op kw op _ = None"

definition parse_term :: "('n, 'd, 'a) ext \<Rightarrow> ('n, 'd) grammar \<Rightarrow> ('n, 'd, ('n, 'd) expr) pm" where
  "parse_term E G = binary_chain term_op (parse_unary E G)"

definition parse_additive :: "('n, 'd, 'a) ext \<Rightarrow> ('n, 'd) grammar \<Rightarrow> ('n, 'd, ('n, 'd) expr) pm" where
  "parse_additive E G = binary_chain additive_op (parse_term E G)"

definition parse_comparison ::
  "('n, 'd, 'a) ext \<Rightarrow> ('n, 'd) grammar \<Rightarrow> binary_op \<Rightarrow> ('n, 'd) expr \<Rightarrow> ('n, 'd, ('n, 'd) expr) pm" where
  "parse_comparison E G op left =
     pthen advance
     (pcond (test (is_any_kw [''ANY'', ''SOME'', ''ALL''])) (pfail (unsupported ''ANY/ALL comparisons''))
     (pbind (parse_additive E G) (\<lambda>right.
      pcond (test (\<lambda>s. is_sym ''('' s \<and> is_sym_at 1 ''+'' s)) (pfail (unsupported ''(+) outer joins''))
      (pret (Binary op left right)))))"

definition parse_in :: "('n, 'd) grammar \<Rightarrow> ('n, 'd) expr \<Rightarrow> bool \<Rightarrow> ('n, 'd, ('n, 'd) expr) pm" where
  "parse_in G left negated =
     pthen (expect_sym ''('')
     (pcond (test (is_kw ''SELECT''))
        (pbind (pg_query G) (\<lambda>q. pthen (expect_sym '')'') (pret (InSubquery left q negated))))
        (pbind (comma_list (pg_expr G)) (\<lambda>xs. pthen (expect_sym '')'') (pret (InList left xs negated)))))"

definition parse_between ::
  "('n, 'd, 'a) ext \<Rightarrow> ('n, 'd) grammar \<Rightarrow> ('n, 'd) expr \<Rightarrow> bool \<Rightarrow> ('n, 'd, ('n, 'd) expr) pm" where
  "parse_between E G left negated =
     pbind (parse_additive E G) (\<lambda>low.
     pthen (expect_kw ''AND'') (pbind (parse_additive E G) (\<lambda>high. pret (Between left low high negated))))"

definition parse_like ::
  "('n, 'd, 'a) ext \<Rightarrow> ('n, 'd) grammar \<Rightarrow> ('n, 'd) expr \<Rightarrow> bool \<Rightarrow> ('n, 'd, ('n, 'd) expr) pm" where
  "parse_like E G left negated =
     pbind (parse_additive E G) (\<lambda>pattern.
     pbind (poption (eat_kw ''ESCAPE'') (parse_additive E G)) (\<lambda>escape.
     pret (Like left pattern escape negated)))"

definition parse_is_null :: "('n, 'd) expr \<Rightarrow> ('n, 'd, ('n, 'd) expr) pm" where
  "parse_is_null left =
     pbind (eat_kw ''NOT'') (\<lambda>negated. pthen (expect_kw ''NULL'') (pret (IsNull left negated)))"

definition negated_predicate :: "('n, 'd) parser \<Rightarrow> bool" where
  "negated_predicate s = (is_kw ''NOT'' s \<and> list_ex (\<lambda>k. is_kw_at 1 k s) [''BETWEEN'', ''IN'', ''LIKE''])"

definition predicate_tail ::
  "('n, 'd, 'a) ext \<Rightarrow> ('n, 'd) grammar \<Rightarrow> ('n, 'd) expr \<Rightarrow> ('n, 'd, ('n, 'd) expr) pm" where
  "predicate_tail E G left =
     pcond (eat_kw ''IS'') (parse_is_null left)
     (pbind (test negated_predicate) (\<lambda>negated.
      pthen (if negated then pthen (skip 1) (pret ()) else pret ())
      (pcond (eat_kw ''BETWEEN'') (parse_between E G left negated)
      (pcond (eat_kw ''IN'') (parse_in G left negated)
      (pcond (eat_kw ''LIKE'') (parse_like E G left negated)
      (pret left))))))"

definition parse_predicate :: "('n, 'd, 'a) ext \<Rightarrow> ('n, 'd) grammar \<Rightarrow> ('n, 'd, ('n, 'd) expr) pm" where
  "parse_predicate E G =
     pbind (parse_additive E G) (\<lambda>left.
     pbind (test (\<lambda>s. Option.bind (peek s) comparison_op)) (\<lambda>op.
     case op of
       Some op \<Rightarrow> parse_comparison E G op left
     | None \<Rightarrow> predicate_tail E G left))"

definition parse_not :: "('n, 'd, 'a) ext \<Rightarrow> ('n, 'd) grammar \<Rightarrow> ('n, 'd, ('n, 'd) expr) pm" where
  "parse_not E G = pcond (eat_kw ''NOT'') (pbind (pg_not G) (\<lambda>e. pret (NotE e))) (parse_predicate E G)"

definition parse_and :: "('n, 'd, 'a) ext \<Rightarrow> ('n, 'd) grammar \<Rightarrow> ('n, 'd, ('n, 'd) expr) pm" where
  "parse_and E G = binary_chain (keyword_op ''AND'' And) (parse_not E G)"

definition parse_expr :: "('n, 'd, 'a) ext \<Rightarrow> ('n, 'd) grammar \<Rightarrow> ('n, 'd, ('n, 'd) expr) pm" where
  "parse_expr E G = binary_chain (keyword_op ''OR'' Or) (parse_and E G)"

section \<open>Queries\<close>

text \<open>A bind variable, or in PL/SQL a variable or record field, to receive a value.\<close>

definition returning_target :: "('n, 'd, 'a) ext \<Rightarrow> ('n, 'd) grammar \<Rightarrow> ('n, 'd, ('n, 'd) expr) pm" where
  "returning_target E G =
     pbind (test peek) (\<lambda>t.
     case t of
       Some (BindTok _) \<Rightarrow> parse_primary E G
     | Some (Ident _) \<Rightarrow> column_ref
     | Some (QuotedIdent _) \<Rightarrow> column_ref
     | _ \<Rightarrow> pfail missing_expression)"

text \<open>\<open>&sql[a..b]\<close>.\<close>

definition slice :: "nat \<Rightarrow> nat \<Rightarrow> string \<Rightarrow> string ora_result" where
  "slice a b t = (if a \<le> b \<and> b \<le> length t then Inr (take (b - a) (drop a t)) else Inl Panic)"

definition expression_name :: "nat option \<Rightarrow> nat \<Rightarrow> string \<Rightarrow> string ora_result" where
  "expression_name start stop sql =
     rbind (slice (case start of Some i \<Rightarrow> i | None \<Rightarrow> stop) stop sql) (\<lambda>t.
     Inr (take 128 (to_uppercase (filter (\<lambda>c. \<not> is_whitespace c) t))))"

text \<open>\<open>self.tokens.get(self.pos).map(|t| t.start)\<close> and \<open>self.tokens[self.pos - 1].end\<close>.\<close>

definition start_here :: "('n, 'd) parser \<Rightarrow> nat option" where
  "start_here s = (if ps_pos s < length (ps_tokens s) then Some (tok_start (ps_tokens s ! ps_pos s)) else None)"

definition end_before :: "('n, 'd) parser \<Rightarrow> nat ora_result" where
  "end_before s =
     (if ps_pos s = 0 then Inl Panic else rbind (index (ps_tokens s) (ps_pos s - 1)) (\<lambda>t. Inr (tok_end t)))"

definition item_name :: "nat option \<Rightarrow> nat \<Rightarrow> ('n, 'd) expr \<Rightarrow> ('n, 'd, string) pm" where
  "item_name start stop e =
     pbind optional_alias (\<lambda>alias.
     case alias of
       Some a \<Rightarrow> pret a
     | None \<Rightarrow>
         (case e of
            Column _ name \<Rightarrow> pret name
          | _ \<Rightarrow> pbind (test ps_sql) (\<lambda>sql. plift (expression_name start stop sql))))"

definition parse_select_item :: "('n, 'd, 'a) ext \<Rightarrow> ('n, 'd) grammar \<Rightarrow> ('n, 'd, ('n, 'd) select_item) pm" where
  "parse_select_item E G =
     pcond (eat_sym ''*'') (pret Star)
     (pcond (test (\<lambda>s. is_ident_at 0 s \<and> is_sym_at 1 ''.'' s \<and> is_sym_at 2 ''*'' s))
        (pbind ident (\<lambda>table. pthen (skip 2) (pret (QualifiedStar table))))
     (pbind (test start_here) (\<lambda>start.
      pbind (parse_expr E G) (\<lambda>e.
      pbind (test end_before) (\<lambda>stop.
      pbind (plift stop) (\<lambda>stop.
      pbind (item_name start stop e) (\<lambda>name. pret (ItemExpr e name))))))))"

definition parse_table_factor :: "('n, 'd) grammar \<Rightarrow> ('n, 'd, ('n, 'd) table_factor) pm" where
  "parse_table_factor G =
     pcond (eat_sym ''('')
       (pbind (pg_query G) (\<lambda>q. pthen (expect_sym '')'') (pbind optional_alias (\<lambda>alias. pret (SubqueryFactor q alias)))))
       (pbind object_name (\<lambda>name.
        pthen partition_extension (pbind optional_alias (\<lambda>alias. pret (TableFactor name alias)))))"

text \<open>The kind of the join that starts here, if one does.\<close>

definition parse_join_kind :: "('n, 'd, join_kind option) pm" where
  "parse_join_kind =
     pcond (eat_kw ''JOIN'') (pret (Some InnerJoin))
     (pcond (eat_kw ''INNER'') (pthen (expect_kw ''JOIN'') (pret (Some InnerJoin)))
     (pcond (test (is_any_kw [''LEFT'', ''RIGHT'', ''FULL'']))
        (pbind advance (\<lambda>t.
         pthen (eat_kw ''OUTER'') (pthen (expect_kw ''JOIN'')
         (pret (Some (if t = Some (Ident ''LEFT'') then LeftJoin
                      else if t = Some (Ident ''RIGHT'') then RightJoin else FullJoin))))))
     (pcond (eat_kw ''CROSS'') (pthen (expect_kw ''JOIN'') (pret (Some CrossJoin)))
     (pcond (test (is_kw ''NATURAL'')) (pfail (unsupported ''NATURAL JOIN'')) (pret None)))))"

definition parse_join :: "('n, 'd, 'a) ext \<Rightarrow> ('n, 'd) grammar \<Rightarrow> join_kind \<Rightarrow> ('n, 'd, ('n, 'd) join) pm" where
  "parse_join E G kind =
     pbind (parse_table_factor G) (\<lambda>factor.
     pbind (if kind = CrossJoin then pret None
            else
              pcond (eat_kw ''ON'') (pbind (parse_expr E G) (\<lambda>e. pret (Some e)))
              (pcond (test (is_kw ''USING'')) (pfail (unsupported ''JOIN ... USING'')) (pfail missing_keyword))) (\<lambda>cond.
     pret (Join kind factor cond)))"

definition parse_source_item :: "('n, 'd, 'a) ext \<Rightarrow> ('n, 'd) grammar \<Rightarrow> ('n, 'd, ('n, 'd) from_item) pm" where
  "parse_source_item E G =
     pbind (parse_table_factor G) (\<lambda>factor.
     pbind (ploop (\<lambda>joins.
       pbind parse_join_kind (\<lambda>kind.
       case kind of
         Some kind \<Rightarrow> pbind (parse_join E G kind) (\<lambda>j. pret (Inl (joins @ [j])))
       | None \<Rightarrow> pret (Inr joins))) []) (\<lambda>joins.
     pret (FromItem factor joins)))"

text \<open>The \<open>INTO\<close> clause of a \<open>SELECT\<close> in PL/SQL.\<close>

definition select_into :: "('n, 'd, 'a) ext \<Rightarrow> ('n, 'd) grammar \<Rightarrow> ('n, 'd, unit) pm" where
  "select_into E G =
     pcond (test (\<lambda>s. ps_into_allowed s \<and> is_kw ''INTO'' s))
       (pthen advance
        (pthen (pmod (\<lambda>s. s\<lparr>ps_into_allowed := False\<rparr>))
        (pbind (comma_list (returning_target E G)) (\<lambda>into. pmod (\<lambda>s. s\<lparr>ps_into := Some into\<rparr>)))))
       (pcond (test (is_kw ''BULK'')) (pfail (unsupported ''BULK COLLECT'')) (pret ()))"

definition parse_where :: "('n, 'd, 'a) ext \<Rightarrow> ('n, 'd) grammar \<Rightarrow> ('n, 'd, ('n, 'd) expr option) pm" where
  "parse_where E G = poption (eat_kw ''WHERE'') (parse_expr E G)"

definition parse_group_by :: "('n, 'd, 'a) ext \<Rightarrow> ('n, 'd) grammar \<Rightarrow> ('n, 'd, ('n, 'd) expr list) pm" where
  "parse_group_by E G =
     pcond (eat_kw ''GROUP'') (pthen (expect_kw ''BY'') (comma_list (parse_expr E G))) (pret [])"

definition parse_select :: "('n, 'd, 'a) ext \<Rightarrow> ('n, 'd) grammar \<Rightarrow> ('n, 'd, ('n, 'd) select) pm" where
  "parse_select E G =
     pthen (expect_kw ''SELECT'')
     (pbind (por (eat_kw ''DISTINCT'') (eat_kw ''UNIQUE'')) (\<lambda>uniq.
      pthen (if uniq then pret True else eat_kw ''ALL'')
      (pbind (comma_list (parse_select_item E G)) (\<lambda>items.
       pthen (select_into E G)
       (pcond (eat_kw ''FROM'')
          (pbind (comma_list (parse_source_item E G)) (\<lambda>from1.
           pbind (parse_where E G) (\<lambda>where1.
           pcond (test (is_any_kw [''CONNECT'', ''START''])) (pfail (unsupported ''CONNECT BY''))
           (pbind (parse_group_by E G) (\<lambda>group_by.
            pbind (poption (eat_kw ''HAVING'') (parse_expr E G)) (\<lambda>having.
            pret (Select uniq items from1 where1 group_by having)))))))
          (pora 923 ''FROM keyword not found where expected''))))))"

definition inline_view :: "('n, 'd) query \<Rightarrow> ('n, 'd) set_expr" where
  "inline_view q = SelectBody (Select False [Star] [FromItem (SubqueryFactor q None) []] None [] None)"

definition parse_set_operand :: "('n, 'd, 'a) ext \<Rightarrow> ('n, 'd) grammar \<Rightarrow> ('n, 'd, ('n, 'd) set_expr) pm" where
  "parse_set_operand E G =
     pcond (eat_sym ''('')
       (pbind (pg_query G) (\<lambda>q.
        pthen (expect_sym '')'')
        (pret (if q_order_by q = [] \<and> q_offset q = None \<and> q_fetch q = None then q_body q else inline_view q))))
       (pbind (parse_select E G) (\<lambda>s. pret (SelectBody s)))"

definition parse_set_op :: "('n, 'd, set_op option) pm" where
  "parse_set_op =
     pcond (eat_kw ''UNION'') (pcond (eat_kw ''ALL'') (pret (Some UnionAll)) (pret (Some Union_op)))
     (pcond (eat_kw ''INTERSECT'') (pret (Some Intersect))
     (pcond (por (eat_kw ''MINUS'') (eat_kw ''EXCEPT'')) (pret (Some Minus)) (pret None)))"

definition parse_set_expr :: "('n, 'd, 'a) ext \<Rightarrow> ('n, 'd) grammar \<Rightarrow> ('n, 'd, ('n, 'd) set_expr) pm" where
  "parse_set_expr E G =
     pbind (parse_set_operand E G) (\<lambda>left. ploop (\<lambda>left.
       pbind parse_set_op (\<lambda>op.
       case op of
         Some op \<Rightarrow> pbind (parse_set_operand E G) (\<lambda>right. pret (Inl (SetOp op left right)))
       | None \<Rightarrow> pret (Inr left))) left)"

definition parse_order_item :: "('n, 'd, 'a) ext \<Rightarrow> ('n, 'd) grammar \<Rightarrow> ('n, 'd, ('n, 'd) order_item) pm" where
  "parse_order_item E G =
     pbind (parse_expr E G) (\<lambda>e.
     pbind (eat_kw ''DESC'') (\<lambda>desc.
     pthen (if desc then pret True else eat_kw ''ASC'')
     (pbind (poption (eat_kw ''NULLS'')
               (pcond (eat_kw ''FIRST'') (pret True) (pthen (expect_kw ''LAST'') (pret False)))) (\<lambda>nulls_first.
      pret (OrderItem e desc nulls_first)))))"

definition parse_order_by :: "('n, 'd, 'a) ext \<Rightarrow> ('n, 'd) grammar \<Rightarrow> ('n, 'd, ('n, 'd) order_item list) pm" where
  "parse_order_by E G =
     pcond (eat_kw ''ORDER'')
       (pthen (eat_kw ''SIBLINGS'') (pthen (expect_kw ''BY'') (comma_list (parse_order_item E G))))
       (pret [])"

definition rows_word :: "('n, 'd, unit) pm" where
  "rows_word = pcond (eat_kw ''ROWS'') (pret ()) (expect_kw ''ROW'')"

definition parse_offset :: "('n, 'd, 'a) ext \<Rightarrow> ('n, 'd) grammar \<Rightarrow> ('n, 'd, ('n, 'd) expr option) pm" where
  "parse_offset E G =
     poption (eat_kw ''OFFSET'') (pbind (parse_additive E G) (\<lambda>e. pthen rows_word (pret e)))"

definition parse_fetch :: "('n, 'd, 'a) ext \<Rightarrow> ('n, 'd) grammar \<Rightarrow> ('n, 'd, ('n, 'd) expr option) pm" where
  "parse_fetch E G =
     poption (eat_kw ''FETCH'')
       (pthen (pcond (eat_kw ''FIRST'') (pret ()) (expect_kw ''NEXT''))
        (pbind (pcond (test (is_any_kw [''ROW'', ''ROWS''])) (pret (Literal (value_number E 1))) (parse_additive E G)) (\<lambda>n.
         pcond (test (is_kw ''PERCENT'')) (pfail (unsupported ''FETCH ... PERCENT''))
         (pthen rows_word
         (pcond (eat_kw ''ONLY'') (pret n)
            (pthen (expect_kw ''WITH'') (pthen (expect_kw ''TIES'') (pfail (unsupported ''FETCH ... WITH TIES'')))))))))"

fun lock_word :: "tok option \<Rightarrow> bool" where
  "lock_word (Some (Ident _)) = True"
| "lock_word (Some (QuotedIdent _)) = True"
| "lock_word (Some (NumberTok _)) = True"
| "lock_word (Some (Symbol sy)) = (sy = '','' \<or> sy = ''.'')"
| "lock_word _ = False"

definition parse_for_update :: "('n, 'd, unit) pm" where
  "parse_for_update =
     pcond (eat_kw ''FOR'')
       (pthen (expect_kw ''UPDATE'')
        (ploop (\<lambda>_. pcond (test (\<lambda>s. lock_word (peek s))) (pthen advance (pret (Inl ()))) (pret (Inr ()))) ()))
       (pret ())"

definition parse_query :: "('n, 'd, 'a) ext \<Rightarrow> ('n, 'd) grammar \<Rightarrow> ('n, 'd, ('n, 'd) query) pm" where
  "parse_query E G =
     pbind (parse_set_expr E G) (\<lambda>body.
     pbind (parse_order_by E G) (\<lambda>order_by.
     pbind (parse_offset E G) (\<lambda>offset.
     pbind (parse_fetch E G) (\<lambda>fetch.
     pthen parse_for_update (pret (Query body order_by offset fetch))))))"

end
