(* ===== verification/Parse_Ddl.thy ===== *)
theory Parse_Ddl
  imports Parse_Sql
begin

text \<open>
  \<open>crates/mock-oracle-core/src/parser.rs\<close>: the statements that change rows and the statements that define tables,
  constraints, indexes and sequences.
\<close>

section \<open>INSERT, UPDATE, DELETE\<close>

text \<open>What follows \<open>RETURNING\<close>.\<close>

definition returning_clause :: "('n, 'd, 'a) ext \<Rightarrow> ('n, 'd) grammar \<Rightarrow> ('n, 'd, ('n, 'd) returning) pm" where
  "returning_clause E G =
     pbind (comma_list (parse_expr E G)) (\<lambda>exprs.
     pcond (test (is_kw ''BULK'')) (pfail (unsupported ''RETURNING BULK COLLECT''))
     (pthen (expect_kw ''INTO'')
     (pbind (comma_list (returning_target E G)) (\<lambda>into.
      if length exprs < length into then pora 913 ''too many values''
      else if length into < length exprs then pora 947 ''not enough values''
      else pret \<lparr>ret_exprs = exprs, ret_into = into\<rparr>))))"

definition parse_returning :: "('n, 'd, 'a) ext \<Rightarrow> ('n, 'd) grammar \<Rightarrow> ('n, 'd, ('n, 'd) returning option) pm" where
  "parse_returning E G = poption (por (eat_kw ''RETURNING'') (eat_kw ''RETURN'')) (returning_clause E G)"

definition parse_insert_source :: "('n, 'd, 'a) ext \<Rightarrow> ('n, 'd) grammar \<Rightarrow> ('n, 'd, ('n, 'd) insert_source) pm" where
  "parse_insert_source E G =
     pcond (eat_kw ''VALUES'')
       (pthen (expect_sym ''('') (pbind (comma_list (parse_expr E G)) (\<lambda>vs.
        pthen (expect_sym '')'') (pret (ValuesSource vs)))))
     (pcond (test (\<lambda>s. is_kw ''SELECT'' s \<or> is_sym ''('' s))
        (pbind (parse_query E G) (\<lambda>q. pret (QuerySource q)))
        (pora 926 ''missing VALUES keyword''))"

definition parse_insert :: "('n, 'd, 'a) ext \<Rightarrow> ('n, 'd) grammar \<Rightarrow> ('n, 'd, ('n, 'd) statement) pm" where
  "parse_insert E G =
     pthen advance (pthen (expect_kw ''INTO'')
     (pbind object_name (\<lambda>table.
      pthen partition_extension (pthen optional_alias
      (pbind (poption (test (\<lambda>s. is_sym ''('' s \<and> \<not> is_kw_at 1 ''SELECT'' s)) ident_list) (\<lambda>columns.
       pbind (parse_insert_source E G) (\<lambda>source.
       pbind (parse_returning E G) (\<lambda>returning1.
       pret (InsertS \<lparr>ins_table = table, ins_columns = columns, ins_source = source, ins_returning = returning1\<rparr>)))))))))"

definition parse_assignment :: "('n, 'd, 'a) ext \<Rightarrow> ('n, 'd) grammar \<Rightarrow> ('n, 'd, string \<times> ('n, 'd) expr) pm" where
  "parse_assignment E G =
     pcond (test (is_sym ''('')) (pfail (unsupported ''multi-column UPDATE SET''))
     (pbind ident (\<lambda>col.
      pbind (pcond (eat_sym ''.'') ident (pret col)) (\<lambda>col.
      pcond (eat_sym ''='')
        (pbind (parse_expr E G) (\<lambda>e. pret (col, e)))
        (pora 927 ''missing equal sign''))))"

definition parse_update :: "('n, 'd, 'a) ext \<Rightarrow> ('n, 'd) grammar \<Rightarrow> ('n, 'd, ('n, 'd) statement) pm" where
  "parse_update E G =
     pthen advance
     (pbind object_name (\<lambda>table.
      pthen partition_extension
      (pbind optional_alias (\<lambda>alias.
       pthen (expect_kw ''SET'')
       (pbind (comma_list (parse_assignment E G)) (\<lambda>assignments.
        pbind (parse_where E G) (\<lambda>where1.
        pbind (parse_returning E G) (\<lambda>returning1.
        pret (UpdateS \<lparr>upd_table = table, upd_alias = alias, upd_assignments = assignments, upd_where = where1,
                upd_returning = returning1\<rparr>)))))))))"

definition parse_delete :: "('n, 'd, 'a) ext \<Rightarrow> ('n, 'd) grammar \<Rightarrow> ('n, 'd, ('n, 'd) statement) pm" where
  "parse_delete E G =
     pthen advance
     (pthen (eat_kw ''FROM'')
     (pbind object_name (\<lambda>table.
      pthen partition_extension
      (pbind optional_alias (\<lambda>alias.
       pbind (parse_where E G) (\<lambda>where1.
       pbind (parse_returning E G) (\<lambda>returning1.
       pret (DeleteS \<lparr>del_table = table, del_alias = alias, del_where = where1, del_returning = returning1\<rparr>))))))))"

section \<open>Constraints and columns\<close>

definition not_allowed_here :: ora_error where
  "not_allowed_here = ora 2253 ''constraint specification not allowed here''"

definition constraint_columns :: "string option \<Rightarrow> ('n, 'd, string list) pm" where
  "constraint_columns column = (case column of Some c \<Rightarrow> pret [c] | None \<Rightarrow> ident_list)"

definition parse_on_delete :: "('n, 'd, on_delete) pm" where
  "parse_on_delete =
     pcond (eat_kw ''ON'')
       (pthen (expect_kw ''DELETE'')
        (pcond (eat_kw ''CASCADE'') (pret Cascade)
           (pthen (expect_kw ''SET'') (pthen (expect_kw ''NULL'') (pret SetNull)))))
       (pret Restrict)"

definition parse_reference :: "string option \<Rightarrow> ('n, 'd, ('n, 'd) ast_constraint_kind) pm" where
  "parse_reference column =
     pbind (case column of
              Some c \<Rightarrow> pret [c]
            | None \<Rightarrow>
                pthen (expect_kw ''KEY'') (pbind ident_list (\<lambda>cols. pthen (expect_kw ''REFERENCES'') (pret cols)))) (\<lambda>columns.
     pbind object_name (\<lambda>table.
     pbind (pcond (test (is_sym ''('')) ident_list (pret [])) (\<lambda>ref_columns.
     pbind parse_on_delete (\<lambda>on_delete1. pret (ForeignKeyK columns table ref_columns on_delete1)))))"

definition parse_constraint_kind ::
  "('n, 'd, 'a) ext \<Rightarrow> ('n, 'd) grammar \<Rightarrow> string option \<Rightarrow> ('n, 'd, ('n, 'd) ast_constraint_kind) pm" where
  "parse_constraint_kind E G column =
     pcond (eat_kw ''PRIMARY'')
       (pthen (expect_kw ''KEY'') (pbind (constraint_columns column) (\<lambda>cs. pret (PrimaryKeyK cs))))
     (pcond (eat_kw ''UNIQUE'') (pbind (constraint_columns column) (\<lambda>cs. pret (UniqueK cs)))
     (pcond (eat_kw ''CHECK'')
        (pthen (expect_sym ''('') (pbind (parse_expr E G) (\<lambda>e. pthen (expect_sym '')'') (pret (CheckK e)))))
     (pcond (por (if column \<noteq> None then eat_kw ''REFERENCES'' else pret False) (eat_kw ''FOREIGN''))
        (parse_reference column)
        (pfail not_allowed_here))))"

text \<open>The physical attributes after \<open>USING INDEX\<close>.\<close>

definition skip_index_attributes :: "('n, 'd, unit) pm" where
  "skip_index_attributes =
     ploop (\<lambda>_.
       pcond (test (\<lambda>s. peek s \<noteq> None \<and> \<not> is_sym '','' s \<and> \<not> is_sym '')'' s \<and>
                \<not> is_any_kw [''ENABLE'', ''DISABLE'', ''VALIDATE'', ''NOVALIDATE'', ''CONSTRAINT''] s))
         (pthen advance (pret (Inl ()))) (pret (Inr ()))) ()"

definition state_clause :: "bool \<times> bool option \<Rightarrow> ('n, 'd, (bool \<times> bool option) + (bool \<times> bool option)) pm" where
  "state_clause = (\<lambda>(enabled, validate).
     pcond (eat_kw ''ENABLE'') (pret (Inl (True, validate)))
     (pcond (eat_kw ''DISABLE'') (pret (Inl (False, validate)))
     (pcond (eat_kw ''VALIDATE'') (pret (Inl (enabled, Some True)))
     (pcond (eat_kw ''NOVALIDATE'') (pret (Inl (enabled, Some False)))
     (pcond (eat_kw ''INITIALLY'')
        (pthen (pcond (eat_kw ''IMMEDIATE'') (pret ()) (expect_kw ''DEFERRED'')) (pret (Inl (enabled, validate))))
     (pcond (test (\<lambda>s. is_kw ''NOT'' s \<and> is_kw_at 1 ''DEFERRABLE'' s)) (pthen (skip 2) (pret (Inl (enabled, validate))))
     (pcond (por (eat_kw ''DEFERRABLE'') (por (eat_kw ''RELY'') (eat_kw ''NORELY''))) (pret (Inl (enabled, validate)))
     (pcond (test (\<lambda>s. is_kw ''USING'' s \<and> is_kw_at 1 ''INDEX'' s))
        (pthen (skip 2)
         (pthen (pcond (test (is_sym ''('')) skip_parens skip_index_attributes) (pret (Inl (enabled, validate)))))
     (pret (Inr (enabled, validate)))))))))))"

definition constraint_state ::
  "string option \<Rightarrow> ('n, 'd) ast_constraint_kind \<Rightarrow> ('n, 'd, ('n, 'd) table_constraint) pm" where
  "constraint_state name kind =
     pbind (ploop state_clause (True, None)) (\<lambda>(enabled, validate).
     pret \<lparr>tc_name = name, tc_kind = kind, tc_enabled = enabled,
       tc_validate = (case validate of Some v \<Rightarrow> v | None \<Rightarrow> enabled)\<rparr>)"

definition parse_constraint_name :: "('n, 'd, string option) pm" where
  "parse_constraint_name = poption (eat_kw ''CONSTRAINT'') ident"

definition parse_table_constraint ::
  "('n, 'd, 'a) ext \<Rightarrow> ('n, 'd) grammar \<Rightarrow> ('n, 'd, ('n, 'd) table_constraint) pm" where
  "parse_table_constraint E G =
     pbind parse_constraint_name (\<lambda>name. pbind (parse_constraint_kind E G None) (constraint_state name))"

text \<open>\<open>self.constraint_state(None, ConstraintKind::Unique(Vec::new()))\<close>: only its state clauses matter.\<close>

definition only_state :: "('n, 'd, ('n, 'd) table_constraint) pm" where
  "only_state = constraint_state None (UniqueK [])"

definition default_on_null :: "('n, 'd, unit) pm" where
  "default_on_null = pcond (eat_kw ''ON'') (expect_kw ''NULL'') (pret ())"

text \<open>The first word of an inline constraint that \<open>parse_constraint_kind\<close> reads.\<close>

definition inline_constraint :: "('n, 'd) parser \<Rightarrow> bool" where
  "inline_constraint s = is_any_kw [''PRIMARY'', ''UNIQUE'', ''CHECK'', ''REFERENCES''] s"

definition identity_clause :: "('n, 'd, unit) pm" where
  "identity_clause =
     pthen (pcond (eat_kw ''ALWAYS'') (pret ())
              (pthen (expect_kw ''BY'') (pthen (expect_kw ''DEFAULT'') default_on_null)))
     (pthen (expect_kw ''AS'') (pthen (expect_kw ''IDENTITY'') skip_parens))"

text \<open>The clause of a column, or of its constraints, that starts here.\<close>

definition column_clause ::
  "('n, 'd, 'a) ext \<Rightarrow> ('n, 'd) grammar \<Rightarrow> ('n, 'd) column_def \<times> ('n, 'd) table_constraint list \<Rightarrow>
   ('n, 'd, (('n, 'd) column_def \<times> ('n, 'd) table_constraint list) + (('n, 'd) column_def \<times> ('n, 'd) table_constraint list)) pm" where
  "column_clause E G = (\<lambda>(col, cs).
     pcond (eat_kw ''DEFAULT'')
       (pthen default_on_null (pbind (parse_expr E G) (\<lambda>e. pret (Inl (col\<lparr>cd_default := Some e\<rparr>, cs)))))
     (pcond (eat_kw ''GENERATED'')
        (pthen identity_clause (pret (Inl (col\<lparr>cd_identity := True, cd_not_null := True\<rparr>, cs))))
     (pbind parse_constraint_name (\<lambda>cname.
      pcond (eat_kw ''NOT'')
        (pthen (expect_kw ''NULL'') (pthen only_state (pret (Inl (col\<lparr>cd_not_null := True\<rparr>, cs)))))
      (pcond (eat_kw ''NULL'') (pthen only_state (pret (Inl (col, cs))))
      (pcond (test inline_constraint)
         (pbind (parse_constraint_kind E G (Some (cd_name col))) (\<lambda>kind.
          pbind (constraint_state cname kind) (\<lambda>c. pret (Inl (col, cs @ [c])))))
         (if cname \<noteq> None then pfail not_allowed_here else pret (Inr (col, cs))))))))) "

definition parse_column_def ::
  "('n, 'd, 'a) ext \<Rightarrow> ('n, 'd) grammar \<Rightarrow> ('n, 'd, ('n, 'd) column_def \<times> ('n, 'd) table_constraint list) pm" where
  "parse_column_def E G =
     pbind ident (\<lambda>name. pbind data_type (\<lambda>t.
     ploop (column_clause E G)
       (\<lparr>cd_name = name, cd_type = t, cd_default = None, cd_not_null = False, cd_identity = False\<rparr>, [])))"

section \<open>CREATE and DROP\<close>

definition constraint_words :: "string list" where
  "constraint_words = [''CONSTRAINT'', ''PRIMARY'', ''UNIQUE'', ''CHECK'', ''FOREIGN'']"

definition unsupported_object :: "('n, 'd) parser \<Rightarrow> bool" where
  "unsupported_object s = is_any_kw [''PACKAGE'', ''TRIGGER'', ''TYPE'', ''VIEW'', ''SYNONYM''] s"

definition refuse_object :: "('n, 'd, 'r) pm" where
  "refuse_object = pbind ident (\<lambda>what. pfail (unsupported (to_lowercase what @ ''s'')))"

definition sequence_number :: "('n, 'd, int) pm" where
  "sequence_number =
     pbind (eat_sym ''-'') (\<lambda>neg. pthen (if neg then pret True else eat_sym ''+'') (signed_token 128 neg))"

text \<open>The option named \<open>k\<close>; \<open>None\<close> for one that is read and ignored.\<close>

definition sequence_option_named :: "bool \<Rightarrow> string \<Rightarrow> ('n, 'd, sequence_option option) pm" where
  "sequence_option_named alter k =
     (let num = (\<lambda>f. pbind sequence_number (\<lambda>n. pret (Some (f n)))) in
      if k = ''START'' then pthen (expect_kw ''WITH'') (num StartWith)
      else if k = ''INCREMENT'' then pthen (expect_kw ''BY'') (num IncrementBy)
      else if k = ''MINVALUE'' then num (\<lambda>n. MinValue (Some n))
      else if k = ''NOMINVALUE'' then pret (Some (MinValue None))
      else if k = ''MAXVALUE'' then num (\<lambda>n. MaxValue (Some n))
      else if k = ''NOMAXVALUE'' then pret (Some (MaxValue None))
      else if k = ''CYCLE'' then pret (Some (Cycle True))
      else if k = ''NOCYCLE'' then pret (Some (Cycle False))
      else if k = ''RESTART'' \<and> alter then
        pcond (eat_kw ''START'') (pthen (expect_kw ''WITH'') (num (\<lambda>n. Restart (Some n)))) (pret (Some (Restart None)))
      else if k = ''CACHE'' then pthen sequence_number (pret None)
      else if k \<in> {''NOCACHE'', ''ORDER'', ''NOORDER'', ''KEEP'', ''NOKEEP'', ''SESSION'', ''GLOBAL'', ''NOSCALE'', ''NOSHARD''}
        then pret None
      else pfail not_ended)"

definition parse_sequence_options :: "bool \<Rightarrow> ('n, 'd, sequence_option list) pm" where
  "parse_sequence_options alter =
     ploop (\<lambda>options.
       pbind (test peek) (\<lambda>t.
       case t of
         Some (Ident k) \<Rightarrow>
           pthen (skip 1) (pbind (sequence_option_named alter k) (\<lambda>o1.
           pret (Inl (case o1 of Some x \<Rightarrow> options @ [x] | None \<Rightarrow> options))))
       | _ \<Rightarrow> pret (Inr options))) []"

definition parse_create_index :: "bool \<Rightarrow> ('n, 'd, ('n, 'd) statement) pm" where
  "parse_create_index uniq =
     pbind object_name (\<lambda>name.
     pthen (expect_kw ''ON'')
     (pbind object_name (\<lambda>table.
      pthen (expect_sym ''('')
      (pbind (comma_list (pbind ident (\<lambda>c.
               pthen (pcond (eat_kw ''ASC'') (pret True) (eat_kw ''DESC'')) (pret c)))) (\<lambda>columns.
       pthen (expect_sym '')'') (pthen skip_rest (pret (CreateIndex name table columns uniq))))))))"

definition table_element ::
  "('n, 'd, 'a) ext \<Rightarrow> ('n, 'd) grammar \<Rightarrow> ('n, 'd, ('n, 'd) column_def list \<times> ('n, 'd) table_constraint list) pm" where
  "table_element E G =
     pcond (test (is_any_kw constraint_words))
       (pbind (parse_table_constraint E G) (\<lambda>c. pret ([], [c])))
       (pbind (parse_column_def E G) (\<lambda>(col, cs). pret ([col], cs)))"

definition table_elements ::
  "('n, 'd, 'a) ext \<Rightarrow> ('n, 'd) grammar \<Rightarrow> ('n, 'd, ('n, 'd) column_def list \<times> ('n, 'd) table_constraint list) pm" where
  "table_elements E G =
     pcond (eat_sym ''('')
       (pbind (comma_list (table_element E G)) (\<lambda>es.
        pthen (expect_sym '')'') (pret (concat (map fst es), concat (map snd es)))))
       (pret ([], []))"

text \<open>The attributes after the columns are skipped, up to \<open>AS SELECT\<close>.\<close>

definition table_as_query :: "('n, 'd, 'a) ext \<Rightarrow> ('n, 'd) grammar \<Rightarrow> ('n, 'd, ('n, 'd) query option) pm" where
  "table_as_query E G =
     ploop (\<lambda>_.
       pcond (test (\<lambda>s. peek s \<noteq> None))
         (pcond (test (\<lambda>s. is_kw ''AS'' s \<and> (is_kw_at 1 ''SELECT'' s \<or> is_sym_at 1 ''('' s)))
            (pthen advance (pbind (parse_query E G) (\<lambda>q. pret (Inr (Some q)))))
            (pthen advance (pret (Inl ()))))
         (pret (Inr None))) ()"

definition parse_create_table :: "('n, 'd, 'a) ext \<Rightarrow> ('n, 'd) grammar \<Rightarrow> ('n, 'd, ('n, 'd) statement) pm" where
  "parse_create_table E G =
     pbind object_name (\<lambda>name.
     pbind (table_elements E G) (\<lambda>(columns, constraints).
     pbind (table_as_query E G) (\<lambda>as_query.
     if columns = [] \<and> as_query = None then pfail missing_left_paren
     else pret (CreateTable \<lparr>ct_name = name, ct_columns = columns, ct_constraints = constraints, ct_as_query = as_query\<rparr>))))"

definition parse_drop :: "('n, 'd, ('n, 'd) statement) pm" where
  "parse_drop =
     pthen advance
     (pcond (eat_kw ''TABLE'')
        (pbind object_name (\<lambda>name. pbind (eat_kw ''CASCADE'') (\<lambda>cascade. pthen skip_rest (pret (DropTable name cascade)))))
     (pcond (eat_kw ''INDEX'') (pbind object_name (\<lambda>name. pthen skip_rest (pret (DropIndex name))))
     (pcond (eat_kw ''SEQUENCE'') (pbind object_name (\<lambda>name. pret (DropSequence name)))
     (pcond (test (\<lambda>s. is_kw ''PROCEDURE'' s \<or> is_kw ''FUNCTION'' s))
        (pbind (test (is_kw ''FUNCTION'')) (\<lambda>function1.
         pthen (skip 1) (pbind object_name (\<lambda>name. pret (DropRoutine name function1)))))
     (pcond (test unsupported_object) refuse_object (pora 950 ''invalid DROP option''))))))"

section \<open>ALTER TABLE\<close>

definition invalid_alter :: ora_error where
  "invalid_alter = ora 1735 ''invalid ALTER TABLE option''"

definition alter_add :: "('n, 'd, 'a) ext \<Rightarrow> ('n, 'd) grammar \<Rightarrow> ('n, 'd, ('n, 'd) alter_table_action) pm" where
  "alter_add E G =
     pbind (pcond (eat_sym ''('')
              (pbind (comma_list (parse_table_constraint E G)) (\<lambda>cs. pthen (expect_sym '')'') (pret cs)))
              (ploop (\<lambda>cs.
                 pcond (test (is_any_kw constraint_words))
                   (pbind (parse_table_constraint E G) (\<lambda>c. pret (Inl (cs @ [c]))))
                   (pret (Inr cs))) [])) (\<lambda>cs.
     if cs = [] then pfail invalid_alter else pret (AddConstraints cs))"

definition keep_or_drop_index :: "('n, 'd, unit) pm" where
  "keep_or_drop_index = pcond (por (eat_kw ''KEEP'') (eat_kw ''DROP'')) (expect_kw ''INDEX'') (pret ())"

definition alter_drop :: "('n, 'd, ('n, 'd) alter_table_action) pm" where
  "alter_drop =
     pbind (pcond (eat_kw ''PRIMARY'') (pthen (expect_kw ''KEY'') (pret None))
           (pcond (eat_kw ''CONSTRAINT'') (pbind ident (\<lambda>n. pret (Some n))) (pfail invalid_alter))) (\<lambda>name.
     pbind (eat_kw ''CASCADE'') (\<lambda>cascade.
     pthen keep_or_drop_index (pret (DropConstraint name cascade))))"

definition alter_enable :: "('n, 'd, ('n, 'd) alter_table_action) pm" where
  "alter_enable =
     pbind (test (is_kw ''ENABLE'')) (\<lambda>enabled.
     pthen (skip 1)
     (pbind (eat_kw ''NOVALIDATE'') (\<lambda>novalidate.
      pthen (eat_kw ''VALIDATE'')
      (pbind (pcond (eat_kw ''PRIMARY'') (pthen (expect_kw ''KEY'') (pret None))
                (pthen (expect_kw ''CONSTRAINT'') (pbind ident (\<lambda>n. pret (Some n))))) (\<lambda>name.
       pbind (eat_kw ''CASCADE'') (\<lambda>cascade.
       pthen keep_or_drop_index (pret (SetConstraint name enabled (\<not> novalidate) cascade))))))))"

definition alter_modify :: "('n, 'd, ('n, 'd) alter_table_action) pm" where
  "alter_modify =
     pthen (expect_kw ''CONSTRAINT'')
     (pbind ident (\<lambda>name.
      pbind only_state (\<lambda>c.
      pbind (eat_kw ''CASCADE'') (\<lambda>cascade.
      pret (SetConstraint (Some name) (tc_enabled c) (tc_validate c) cascade)))))"

definition parse_alter_table :: "('n, 'd, 'a) ext \<Rightarrow> ('n, 'd) grammar \<Rightarrow> ('n, 'd, ('n, 'd) statement) pm" where
  "parse_alter_table E G =
     pthen (skip 2)
     (pbind object_name (\<lambda>name.
      pbind (pcond (eat_kw ''ADD'') (alter_add E G)
            (pcond (eat_kw ''DROP'') alter_drop
            (pcond (test (\<lambda>s. is_kw ''ENABLE'' s \<or> is_kw ''DISABLE'' s)) alter_enable
            (pcond (eat_kw ''MODIFY'') alter_modify (pfail invalid_alter))))) (\<lambda>action.
      pcond (test (\<lambda>s. peek s \<noteq> None)) (pfail not_ended) (pret (AlterTable name action)))))"

end
