(* ===== verification/Parse_Plsql.thy ===== *)
theory Parse_Plsql
  imports Parse_Ddl Plsql
begin

text \<open>
  \<open>crates/mock-oracle-core/src/plsql/parse.rs\<close>, and the functions of \<open>parser.rs\<close> that reach it: blocks, routines and
  PL/SQL statements, \<open>CREATE\<close>, \<open>statement\<close> and \<open>parse\<close>. The grammar is closed by fuel, one unit for every
  level of nesting; \<open>parse\<close> gives it the number of tokens.
\<close>

section \<open>Names, types and parameters\<close>

definition expected :: "string \<Rightarrow> ora_error" where
  "expected what = pls 103 (''Encountered an unexpected symbol when expecting '' @ what)"

definition STATEMENT_LIST_END :: "string list" where
  "STATEMENT_LIST_END = [''END'', ''EXCEPTION'', ''ELSIF'', ''ELSE'', ''WHEN'']"

definition parse_label :: "('n, 'd, string option) pm" where
  "parse_label =
     poption (eat_sym ''<<'')
       (pbind ident (\<lambda>name. pcond (eat_sym ''>>'') (pret name) (pfail (expected ''>>''))))"

definition dotted_name :: "('n, 'd, string) pm" where
  "dotted_name =
     pbind ident (\<lambda>name. ploop (\<lambda>name.
       pcond (test dotted_ident)
         (pthen advance (pbind ident (\<lambda>n. pret (Inl (name @ ''.'' @ n)))))
         (pret (Inr name))) name)"

definition end_semicolon :: "('n, 'd, unit) pm" where
  "end_semicolon = pcond (eat_sym '';'') (pret ()) (pfail (expected '';''))"

definition optional_name :: "('n, 'd, unit) pm" where
  "optional_name = pcond (test (is_ident_at 0)) (skip 1) (pret ())"

definition attribute_type :: "('n, 'd, type_ref) pm" where
  "attribute_type =
     pbind ident (\<lambda>first.
     pbind (poption (eat_sym ''.'') ident) (\<lambda>second.
     pcond (eat_sym ''%'')
       (pbind ident (\<lambda>attr.
        if attr = ''TYPE'' then
          pret (case second of Some column1 \<Rightarrow> TypeOf (Some first) column1 | None \<Rightarrow> TypeOf None first)
        else if attr = ''ROWTYPE'' then
          pret (case second of Some table \<Rightarrow> RowType table | None \<Rightarrow> RowType first)
        else pfail (expected ''%TYPE or %ROWTYPE'')))
       (pfail (expected ''%TYPE or %ROWTYPE''))))"

text \<open>\<open>open_length\<close>: no parenthesis follows the name.\<close>

definition type_named :: "bool \<Rightarrow> bool \<Rightarrow> string \<Rightarrow> ('n, 'd, type_ref) pm" where
  "type_named is_param open_length name =
     (if name = ''BOOLEAN'' then pthen advance (pret BooleanRef)
      else if name \<in> {''PLS_INTEGER'', ''BINARY_INTEGER'', ''NATURAL'', ''NATURALN'', ''POSITIVE'', ''POSITIVEN'',
          ''SIMPLE_INTEGER'', ''SIGNTYPE''} then pthen advance (pret IntegerRef)
      else if name = ''STRING'' then
        pthen advance (pbind parse_length (\<lambda>n.
        pret (SqlRef (TVarchar2 (case n of Some n \<Rightarrow> n | None \<Rightarrow> 32767)))))
      else if name \<in> {''VARCHAR2'', ''VARCHAR'', ''NVARCHAR2'', ''CHAR'', ''NCHAR''} \<and> open_length then
        (let fixed = (name = ''CHAR'' \<or> name = ''NCHAR'') in
         if \<not> is_param \<and> \<not> fixed
         then pfail (pls 215 ''String length constraints must be in range (1 .. 32767)'')
         else pthen advance (pret (SqlRef (if fixed \<and> \<not> is_param then TChar 1 else TVarchar2 32767))))
      else if name = ''SYS_REFCURSOR'' \<or> name = ''REF'' then pfail (unsupported ''REF CURSOR'')
      else pbind data_type (\<lambda>t. pret (SqlRef t)))"

definition parse_type_ref :: "bool \<Rightarrow> ('n, 'd, type_ref) pm" where
  "parse_type_ref is_param =
     pcond (test (\<lambda>s. is_ident_at 0 s \<and> (is_sym_at 1 ''%'' s \<or> is_sym_at 1 ''.'' s))) attribute_type
     (pbind (test peek) (\<lambda>t.
      case t of
        Some (Ident name) \<Rightarrow>
          pbind (test (\<lambda>s. \<not> is_sym_at 1 ''('' s)) (\<lambda>open_length.
          type_named is_param open_length name)
      | _ \<Rightarrow> pora 902 ''invalid datatype''))"

definition default_value :: "('n, 'd, 'a) ext \<Rightarrow> ('n, 'd) grammar \<Rightarrow> ('n, 'd, ('n, 'd) expr option) pm" where
  "default_value E G = poption (por (eat_sym '':='') (eat_kw ''DEFAULT'')) (parse_expr E G)"

definition param_mode_word :: "('n, 'd, param_mode) pm" where
  "param_mode_word =
     pcond (eat_kw ''OUT'') (pret ModeOut)
     (pcond (eat_kw ''IN'') (pcond (eat_kw ''OUT'') (pret ModeInOut) (pret ModeIn)) (pret ModeIn))"

definition parse_param :: "('n, 'd, 'a) ext \<Rightarrow> ('n, 'd) grammar \<Rightarrow> ('n, 'd, ('n, 'd) param) pm" where
  "parse_param E G =
     pbind ident (\<lambda>name.
     pbind param_mode_word (\<lambda>mode.
     pthen (eat_kw ''NOCOPY'')
     (pbind (parse_type_ref True) (\<lambda>t.
      pbind (default_value E G) (\<lambda>d.
      pret \<lparr>par_name = name, par_mode = mode, par_type = t, par_default = d\<rparr>)))))"

definition parse_params :: "('n, 'd, 'a) ext \<Rightarrow> ('n, 'd) grammar \<Rightarrow> ('n, 'd, ('n, 'd) param list) pm" where
  "parse_params E G =
     pcond (eat_sym ''('')
       (pbind (comma_list (parse_param E G)) (\<lambda>ps. pthen (expect_sym '')'') (pret ps)))
       (pret [])"

definition parse_arg :: "('n, 'd, 'a) ext \<Rightarrow> ('n, 'd) grammar \<Rightarrow> ('n, 'd, ('n, 'd) arg) pm" where
  "parse_arg E G =
     pbind (poption (test (\<lambda>s. is_ident_at 0 s \<and> is_sym_at 1 ''=>'' s))
              (pbind ident (\<lambda>n. pthen (skip 1) (pret n)))) (\<lambda>name.
     pbind (parse_expr E G) (\<lambda>e. pret \<lparr>arg_name = name, arg_value = e\<rparr>))"

definition parse_args :: "('n, 'd, 'a) ext \<Rightarrow> ('n, 'd) grammar \<Rightarrow> ('n, 'd, ('n, 'd) arg list) pm" where
  "parse_args E G =
     pcond (eat_sym ''('')
       (pcond (eat_sym '')'') (pret [])
          (pbind (comma_list (parse_arg E G)) (\<lambda>as1. pthen (expect_sym '')'') (pret as1))))
       (pret [])"

definition target_of :: "('n, 'd) expr \<Rightarrow> target ora_result" where
  "target_of e =
     (case e of
        Bind i \<Rightarrow> Inr (BindTarget i)
      | Column None name \<Rightarrow> Inr (VarTarget name)
      | Column (Some rec) name \<Rightarrow> Inr (FieldTarget rec name)
      | _ \<Rightarrow> Inl (Err (pls 103 ''Encountered an unexpected symbol when expecting a variable'')))"

definition parse_into_target :: "('n, 'd, 'a) ext \<Rightarrow> ('n, 'd) grammar \<Rightarrow> ('n, 'd, target) pm" where
  "parse_into_target E G = pbind (returning_target E G) (\<lambda>e. plift (target_of e))"

section \<open>Blocks and routines\<close>

definition parse_handler :: "('n, 'd) grammar \<Rightarrow> ('n, 'd, ('n, 'd) handler) pm" where
  "parse_handler G =
     pbind dotted_name (\<lambda>first.
     pbind (ploop (\<lambda>xs. pcond (eat_kw ''OR'') (pbind dotted_name (\<lambda>x. pret (Inl (xs @ [x])))) (pret (Inr xs))) [first]) (\<lambda>exceptions.
     pthen (expect_kw ''THEN'') (pbind (pg_statements G) (\<lambda>body. pret (Handler exceptions body)))))"

definition parse_handlers :: "('n, 'd) grammar \<Rightarrow> ('n, 'd, ('n, 'd) handler list) pm" where
  "parse_handlers G =
     pcond (eat_kw ''EXCEPTION'')
       (ploop (\<lambda>hs. pcond (eat_kw ''WHEN'') (pbind (parse_handler G) (\<lambda>h. pret (Inl (hs @ [h])))) (pret (Inr hs))) [])
       (pret [])"

definition parse_block_body :: "('n, 'd) grammar \<Rightarrow> ('n, 'd) decl list \<Rightarrow> ('n, 'd, ('n, 'd) block) pm" where
  "parse_block_body G decls =
     pcond (eat_kw ''BEGIN'')
       (pbind (pg_statements G) (\<lambda>body.
        pbind (parse_handlers G) (\<lambda>handlers.
        pcond (eat_kw ''END'')
          (pthen optional_name (pret (Block decls body handlers)))
          (pfail (expected ''END'')))))
       (pfail (expected ''BEGIN''))"

definition routine_signature :: "('n, 'd, 'a) ext \<Rightarrow> ('n, 'd) grammar \<Rightarrow> ('n, 'd, ('n, 'd) routine) pm" where
  "routine_signature E G =
     pbind (pcond (eat_kw ''FUNCTION'') (pret True) (pthen (expect_kw ''PROCEDURE'') (pret False))) (\<lambda>function1.
     pbind object_name (\<lambda>name.
     pbind (parse_params E G) (\<lambda>ps.
     pbind (poption (pret function1) (pthen (expect_kw ''RETURN'') (parse_type_ref True))) (\<lambda>returns.
     pret (Routine name ps returns (Block [] [] []))))))"

definition cursor_declaration :: "('n, 'd, 'a) ext \<Rightarrow> ('n, 'd) grammar \<Rightarrow> ('n, 'd, ('n, 'd) decl) pm" where
  "cursor_declaration E G =
     pbind ident (\<lambda>name.
     pbind (parse_params E G) (\<lambda>ps.
     pcond (test (is_kw ''RETURN'')) (pfail (unsupported ''typed cursors''))
     (pthen (expect_kw ''IS'')
     (pbind (parse_query E G) (\<lambda>q.
      pthen end_semicolon (pret (CursorD \<lparr>cur_name = name, cur_params = ps, cur_query = q\<rparr>)))))))"

text \<open>A pragma other than \<open>EXCEPTION_INIT\<close> is read and ignored.\<close>

definition pragma_declaration :: "('n, 'd, ('n, 'd) decl list) pm" where
  "pragma_declaration =
     pbind ident (\<lambda>pragma.
     pbind (if pragma = ''EXCEPTION_INIT'' then
              pthen (expect_sym ''('') (pbind ident (\<lambda>name.
              pthen (expect_sym '','') (pbind integer (\<lambda>c.
              pthen (expect_sym '')'') (pret [ExceptionInit name (nat \<bar>c\<bar> mod 2 ^ 32)])))))
            else pthen skip_parens (pret [])) (\<lambda>ds.
     pthen end_semicolon (pret ds)))"

definition variable_declaration :: "('n, 'd, 'a) ext \<Rightarrow> ('n, 'd) grammar \<Rightarrow> ('n, 'd, ('n, 'd) decl) pm" where
  "variable_declaration E G =
     pbind ident (\<lambda>name.
     pcond (eat_kw ''EXCEPTION'') (pthen end_semicolon (pret (ExceptionD name)))
     (pbind (eat_kw ''CONSTANT'') (\<lambda>const.
      pbind (parse_type_ref False) (\<lambda>t.
      pbind (pcond (eat_kw ''NOT'') (pthen (expect_kw ''NULL'') (pret True)) (pret False)) (\<lambda>not_null.
      pbind (default_value E G) (\<lambda>d.
      if (const \<or> not_null) \<and> d = None
      then pfail (pls 218 ''a variable declared NOT NULL must have an initialization assignment'')
      else
        pthen end_semicolon
        (pret (VarD \<lparr>vd_name = name, vd_type = t, vd_constant = const, vd_not_null = not_null, vd_default = d\<rparr>))))))))"

definition parse_declaration :: "('n, 'd, 'a) ext \<Rightarrow> ('n, 'd) grammar \<Rightarrow> ('n, 'd, ('n, 'd) decl list) pm" where
  "parse_declaration E G =
     pcond (test (\<lambda>s. is_kw ''PROCEDURE'' s \<or> is_kw ''FUNCTION'' s))
       (pbind (routine_signature E G) (\<lambda>r.
        pcond (eat_sym '';'') (pret [])
          (pbind (pg_routine_body G r) (\<lambda>r. pthen end_semicolon (pret [RoutineD r])))))
     (pcond (eat_kw ''CURSOR'') (pbind (cursor_declaration E G) (\<lambda>d. pret [d]))
     (pcond (eat_kw ''PRAGMA'') pragma_declaration
     (pcond (test (\<lambda>s. is_kw ''TYPE'' s \<or> is_kw ''SUBTYPE'' s)) (pfail (unsupported ''user-defined PL/SQL types''))
     (pbind (variable_declaration E G) (\<lambda>d. pret [d])))))"

definition parse_declarations :: "('n, 'd, 'a) ext \<Rightarrow> ('n, 'd) grammar \<Rightarrow> ('n, 'd, ('n, 'd) decl list) pm" where
  "parse_declarations E G =
     ploop (\<lambda>decls.
       pcond (test (is_kw ''BEGIN'')) (pret (Inr decls))
       (pcond (test (\<lambda>s. peek s = None)) (pfail (expected ''BEGIN''))
       (pbind (parse_declaration E G) (\<lambda>ds. pret (Inl (decls @ ds)))))) []"

definition parse_block :: "('n, 'd, 'a) ext \<Rightarrow> ('n, 'd) grammar \<Rightarrow> ('n, 'd, ('n, 'd) block) pm" where
  "parse_block E G =
     pthen parse_label
     (pbind (pcond (eat_kw ''DECLARE'') (parse_declarations E G) (pret [])) (parse_block_body G))"

text \<open>The options before \<open>IS\<close>. After \<open>AUTHID\<close> a token is dropped, whether there is one or not.\<close>

definition routine_option :: "('n, 'd, unit + unit) pm" where
  "routine_option =
     pcond (eat_kw ''AUTHID'') (pthen advance (pret (Inl ())))
     (pcond (por (eat_kw ''DETERMINISTIC'') (por (eat_kw ''PARALLEL_ENABLE'') (eat_kw ''RESULT_CACHE'')))
        (pthen skip_parens (pret (Inl ())))
     (pcond (test (is_kw ''PIPELINED'')) (pfail (unsupported ''pipelined functions'')) (pret (Inr ()))))"

definition routine_options :: "('n, 'd, unit) pm" where
  "routine_options = ploop (\<lambda>_. routine_option) ()"

definition routine_body ::
  "('n, 'd, 'a) ext \<Rightarrow> ('n, 'd) grammar \<Rightarrow> ('n, 'd) routine \<Rightarrow> ('n, 'd, ('n, 'd) routine) pm" where
  "routine_body E G r =
     pthen routine_options
     (pcond (por (eat_kw ''IS'') (eat_kw ''AS''))
        (pcond (test (is_any_kw [''LANGUAGE'', ''EXTERNAL''])) (pfail (unsupported ''external procedures''))
        (pbind (parse_declarations E G) (\<lambda>decls.
         pbind (parse_block_body G decls) (\<lambda>b. pret (Routine (r_name r) (r_params r) (r_returns r) b)))))
        (pfail (expected ''IS or AS'')))"

definition parse_routine :: "('n, 'd, 'a) ext \<Rightarrow> ('n, 'd) grammar \<Rightarrow> ('n, 'd, ('n, 'd) routine) pm" where
  "parse_routine E G = pbind (routine_signature E G) (routine_body E G)"

definition parse_call_statement :: "('n, 'd, 'a) ext \<Rightarrow> ('n, 'd) grammar \<Rightarrow> ('n, 'd, ('n, 'd) block) pm" where
  "parse_call_statement E G =
     pthen advance
     (pbind dotted_name (\<lambda>name.
      pbind (parse_args E G) (\<lambda>as1.
      pcond (eat_kw ''INTO'')
        (pbind (parse_primary E G) (\<lambda>e.
         case e of
           Bind i \<Rightarrow> pret (Block [] [Assign (BindTarget i) (Function name (map arg_value as1) False)] [])
         | _ \<Rightarrow> pfail (expected ''a bind variable'')))
        (pret (Block [] [CallStmt name as1] [])))))"

section \<open>SQL statements\<close>

definition parse_create_routine :: "('n, 'd, 'a) ext \<Rightarrow> ('n, 'd) grammar \<Rightarrow> bool \<Rightarrow> ('n, 'd, ('n, 'd) statement) pm" where
  "parse_create_routine E G or_replace =
     pbind (parse_routine E G) (\<lambda>r. pthen optional_name (pret (CreateRoutine r or_replace)))"

text \<open>\<open>CREATE [GLOBAL TEMPORARY] [UNIQUE] [BITMAP] INDEX | TABLE\<close>.\<close>

definition create_table_or_index :: "('n, 'd, 'a) ext \<Rightarrow> ('n, 'd) grammar \<Rightarrow> ('n, 'd, ('n, 'd) statement) pm" where
  "create_table_or_index E G =
     pthen (pcond (eat_kw ''GLOBAL'') (expect_kw ''TEMPORARY'') (pret ()))
     (pbind (eat_kw ''UNIQUE'') (\<lambda>uniq.
      pthen (eat_kw ''BITMAP'')
      (pcond (eat_kw ''INDEX'') (parse_create_index uniq)
      (pcond (eat_kw ''TABLE'') (parse_create_table E G) (pora 901 ''invalid CREATE command'')))))"

definition parse_create :: "('n, 'd, 'a) ext \<Rightarrow> ('n, 'd) grammar \<Rightarrow> ('n, 'd, ('n, 'd) statement) pm" where
  "parse_create E G =
     pthen advance
     (pbind (eat_kw ''OR'') (\<lambda>or_replace.
      pthen (if or_replace then expect_kw ''REPLACE'' else pret ())
      (pthen (pcond (eat_kw ''EDITIONABLE'') (pret True) (eat_kw ''NONEDITIONABLE''))
      (pcond (test (\<lambda>s. is_kw ''PROCEDURE'' s \<or> is_kw ''FUNCTION'' s)) (parse_create_routine E G or_replace)
      (pcond (test unsupported_object) refuse_object
      (pcond (eat_kw ''SEQUENCE'')
         (pbind object_name (\<lambda>name. pbind (parse_sequence_options False) (\<lambda>options. pret (CreateSequence name options))))
         (create_table_or_index E G)))))))"

definition parse_alter_session :: "('n, 'd, ('n, 'd) statement) pm" where
  "parse_alter_session =
     pthen (skip 2) (pthen (expect_kw ''SET'')
     (pbind ident (\<lambda>name.
      pthen (expect_sym ''='')
      (pbind advance (\<lambda>t.
       pbind (case t of
                Some (StrTok s) \<Rightarrow> pret s
              | Some (Ident s) \<Rightarrow> pret s
              | Some (NumberTok s) \<Rightarrow> pret s
              | Some (QuotedIdent s) \<Rightarrow> pret s
              | _ \<Rightarrow> pfail missing_expression) (\<lambda>v.
       pthen skip_rest (pret (AlterSession name v))))))))"

text \<open>\<open>ALTER TABLE\<close> and \<open>ALTER INDEX\<close>: a partitioning operation, or back to the start for the constraint forms.\<close>

definition alter_table_or_index :: "('n, 'd, 'a) ext \<Rightarrow> ('n, 'd) grammar \<Rightarrow> ('n, 'd, ('n, 'd) statement) pm" where
  "alter_table_or_index E G =
     pbind (test ps_pos) (\<lambda>saved.
     pbind (test (is_kw_at 1 ''TABLE'')) (\<lambda>table.
     pthen (skip 2)
     (pbind object_name (\<lambda>name.
      pcond (test is_partition_op)
        (pthen skip_rest (pret (PartitionMaintenance (if table then Some name else None))))
        (pthen (pmod (\<lambda>s. s\<lparr>ps_pos := saved\<rparr>))
         (if table then parse_alter_table E G else pora 900 ''invalid SQL statement''))))))"

definition statement_named :: "('n, 'd, 'a) ext \<Rightarrow> ('n, 'd) grammar \<Rightarrow> string \<Rightarrow> ('n, 'd, ('n, 'd) statement) pm" where
  "statement_named E G first =
     (if first = ''BEGIN'' \<or> first = ''DECLARE'' then pbind (parse_block E G) (\<lambda>b. pret (BlockS b))
      else if first = ''CALL'' then pbind (parse_call_statement E G) (\<lambda>b. pret (BlockS b))
      else if first = ''SELECT'' then pbind (parse_query E G) (\<lambda>q. pret (QueryS q))
      else if first = ''WITH'' then pfail (unsupported ''WITH clause'')
      else if first = ''INSERT'' then parse_insert E G
      else if first = ''UPDATE'' then parse_update E G
      else if first = ''DELETE'' then parse_delete E G
      else if first = ''CREATE'' then parse_create E G
      else if first = ''DROP'' then parse_drop
      else if first = ''TRUNCATE'' then
        pthen advance (pthen (expect_kw ''TABLE'') (pbind object_name (\<lambda>name. pthen skip_rest (pret (Truncate name)))))
      else if first = ''COMMIT'' then pthen advance (pthen (eat_kw ''WORK'') (pret Commit))
      else if first = ''ROLLBACK'' then
        pthen advance (pthen (eat_kw ''WORK'')
        (pcond (test (is_kw ''TO'')) (pfail (unsupported ''savepoints'')) (pret Rollback)))
      else if first = ''ALTER'' then
        pcond (test (is_kw_at 1 ''SEQUENCE''))
          (pthen (skip 2) (pbind object_name (\<lambda>name.
           pbind (parse_sequence_options True) (\<lambda>options. pret (AlterSequence name options)))))
        (pcond (test (\<lambda>s. is_kw_at 1 ''TABLE'' s \<or> is_kw_at 1 ''INDEX'' s)) (alter_table_or_index E G)
        (pcond (test (is_kw_at 1 ''SESSION'')) parse_alter_session (pora 900 ''invalid SQL statement'')))
      else pora 900 ''invalid SQL statement'')"

definition parse_statement :: "('n, 'd, 'a) ext \<Rightarrow> ('n, 'd) grammar \<Rightarrow> ('n, 'd, ('n, 'd) statement) pm" where
  "parse_statement E G =
     pcond (test (is_sym ''<<'')) (pbind (parse_block E G) (\<lambda>b. pret (BlockS b)))
     (pcond (test (is_sym ''('')) (pbind (parse_query E G) (\<lambda>q. pret (QueryS q)))
     (pbind (test peek) (\<lambda>t.
      case t of
        Some (Ident first) \<Rightarrow> statement_named E G first
      | _ \<Rightarrow> pora 900 ''invalid SQL statement'')))"

section \<open>PL/SQL statements\<close>

definition loop_body :: "('n, 'd) grammar \<Rightarrow> ('n, 'd, ('n, 'd) stmt list) pm" where
  "loop_body G =
     pcond (eat_kw ''LOOP'')
       (pbind (pg_statements G) (\<lambda>body.
        pthen (expect_kw ''END'') (pthen (expect_kw ''LOOP'') (pthen optional_name (pret body)))))
       (pfail (expected ''LOOP''))"

definition guarded_statements ::
  "('n, 'd, 'a) ext \<Rightarrow> ('n, 'd) grammar \<Rightarrow> ('n, 'd, ('n, 'd) expr \<times> ('n, 'd) stmt list) pm" where
  "guarded_statements E G =
     pbind (parse_expr E G) (\<lambda>cond. pthen (expect_kw ''THEN'') (pbind (pg_statements G) (\<lambda>body. pret (cond, body))))"

text \<open>A later \<open>ELSE\<close> replaces an earlier one, and an \<open>ELSIF\<close> may follow it.\<close>

definition parse_if :: "('n, 'd, 'a) ext \<Rightarrow> ('n, 'd) grammar \<Rightarrow> ('n, 'd, ('n, 'd) stmt) pm" where
  "parse_if E G =
     pthen advance
     (pbind (guarded_statements E G) (\<lambda>first.
      pbind (ploop (\<lambda>(branches, els).
        pcond (eat_kw ''ELSIF'') (pbind (guarded_statements E G) (\<lambda>b. pret (Inl (branches @ [b], els))))
        (pcond (eat_kw ''ELSE'') (pbind (pg_statements G) (\<lambda>body. pret (Inl (branches, Some body))))
        (pret (Inr (branches, els))))) ([first], None)) (\<lambda>(branches, els).
      pthen (expect_kw ''END'') (pthen (expect_kw ''IF'') (pret (IfStmt branches els))))))"

definition parse_case_stmt :: "('n, 'd, 'a) ext \<Rightarrow> ('n, 'd) grammar \<Rightarrow> ('n, 'd, ('n, 'd) stmt) pm" where
  "parse_case_stmt E G =
     pthen advance
     (pbind (pcond (test (is_kw ''WHEN'')) (pret None) (pbind (parse_expr E G) (\<lambda>e. pret (Some e)))) (\<lambda>operand.
      pbind (ploop (\<lambda>whens.
        pcond (eat_kw ''WHEN'') (pbind (guarded_statements E G) (\<lambda>w. pret (Inl (whens @ [w])))) (pret (Inr whens))) []) (\<lambda>whens.
      pbind (poption (eat_kw ''ELSE'') (pg_statements G)) (\<lambda>els.
      pthen (expect_kw ''END'') (pthen (expect_kw ''CASE'') (pthen optional_name (pret (CaseStmt operand whens els))))))))"

definition named_source :: "('n, 'd) expr \<Rightarrow> ('n, 'd) cursor_source ora_result" where
  "named_source e =
     (case e of
        Column None name \<Rightarrow> Inr (NamedCursor name [])
      | Function name xs _ \<Rightarrow> Inr (NamedCursor name xs)
      | _ \<Rightarrow> Inl (Err (expected ''..'')))"

definition for_cursor_query :: "('n, 'd) parser \<Rightarrow> bool" where
  "for_cursor_query s = (is_sym ''('' s \<and> (is_kw_at 1 ''SELECT'' s \<or> is_kw_at 1 ''WITH'' s))"

definition parse_for ::
  "('n, 'd, 'a) ext \<Rightarrow> ('n, 'd) grammar \<Rightarrow> string option \<Rightarrow> ('n, 'd, ('n, 'd) stmt) pm" where
  "parse_for E G label =
     pthen advance
     (pbind ident (\<lambda>v.
      pthen (expect_kw ''IN'')
      (pbind (eat_kw ''REVERSE'') (\<lambda>reverse.
       pcond (test (\<lambda>s. \<not> reverse \<and> for_cursor_query s))
         (pthen advance (pbind (parse_query E G) (\<lambda>q.
          pthen (expect_sym '')'') (pbind (loop_body G) (\<lambda>body. pret (ForCursor label v (QueryCursor q) body))))))
         (pbind (parse_additive E G) (\<lambda>low.
          pcond (eat_sym ''..'')
            (pbind (parse_additive E G) (\<lambda>high.
             pbind (loop_body G) (\<lambda>body. pret (ForRange label v reverse low high body))))
            (pbind (plift (named_source low)) (\<lambda>source.
             pbind (loop_body G) (\<lambda>body. pret (ForCursor label v source body))))))))))"

definition parse_exit :: "('n, 'd, 'a) ext \<Rightarrow> ('n, 'd) grammar \<Rightarrow> bool \<Rightarrow> ('n, 'd, ('n, 'd) stmt) pm" where
  "parse_exit E G is_exit =
     pthen advance
     (pbind (poption (test (\<lambda>s. is_ident_at 0 s \<and> \<not> is_kw ''WHEN'' s)) ident) (\<lambda>target1.
      pbind (poption (eat_kw ''WHEN'') (parse_expr E G)) (\<lambda>cond.
      pret (if is_exit then Exit target1 cond else ContinueStmt target1 cond))))"

text \<open>\<open>SELECT ... INTO\<close>: the query leaves its targets in the state of the parser.\<close>

definition parse_select_into :: "('n, 'd, 'a) ext \<Rightarrow> ('n, 'd) grammar \<Rightarrow> ('n, 'd, ('n, 'd) stmt) pm" where
  "parse_select_into E G =
     pthen (pmod (\<lambda>s. s\<lparr>ps_into_allowed := True, ps_into := None\<rparr>))
     (pbind (parse_query E G) (\<lambda>q.
      pthen (pmod (\<lambda>s. s\<lparr>ps_into_allowed := False\<rparr>))
      (pbind (test ps_into) (\<lambda>into.
       pthen (pmod (\<lambda>s. s\<lparr>ps_into := None\<rparr>))
       (case into of
          None \<Rightarrow> pfail (pls 428 ''an INTO clause is expected in this SELECT statement'')
        | Some es \<Rightarrow> pbind (plift (map_rust target_of es)) (\<lambda>ts. pret (SqlStmt (QueryS q) ts)))))))"

definition using_argument :: "('n, 'd, 'a) ext \<Rightarrow> ('n, 'd) grammar \<Rightarrow> ('n, 'd, ('n, 'd) expr) pm" where
  "using_argument E G =
     pcond (test (\<lambda>s. is_kw ''OUT'' s \<or> is_kw ''IN'' s \<and> is_kw_at 1 ''OUT'' s))
       (pfail (unsupported ''OUT binds in EXECUTE IMMEDIATE''))
       (pthen (eat_kw ''IN'') (parse_expr E G))"

definition parse_execute_immediate :: "('n, 'd, 'a) ext \<Rightarrow> ('n, 'd) grammar \<Rightarrow> ('n, 'd, ('n, 'd) stmt) pm" where
  "parse_execute_immediate E G =
     pthen (skip 2)
     (pbind (parse_expr E G) (\<lambda>sql.
      pbind (pcond (eat_kw ''INTO'') (comma_list (parse_into_target E G)) (pret [])) (\<lambda>into.
      pbind (pcond (eat_kw ''USING'') (comma_list (using_argument E G)) (pret [])) (\<lambda>using1.
      pcond (test (is_any_kw [''RETURNING'', ''RETURN''])) (pfail (unsupported ''RETURNING in EXECUTE IMMEDIATE''))
      (pret (ExecuteImmediate sql into using1))))))"

definition parse_open :: "('n, 'd, 'a) ext \<Rightarrow> ('n, 'd) grammar \<Rightarrow> ('n, 'd, ('n, 'd) stmt) pm" where
  "parse_open E G =
     pthen advance (pbind ident (\<lambda>name.
     pcond (test (is_kw ''FOR'')) (pfail (unsupported ''REF CURSOR''))
     (pbind (parse_args E G) (\<lambda>as1. pret (OpenStmt name (map arg_value as1))))))"

definition parse_fetch_stmt :: "('n, 'd, 'a) ext \<Rightarrow> ('n, 'd) grammar \<Rightarrow> ('n, 'd, ('n, 'd) stmt) pm" where
  "parse_fetch_stmt E G =
     pthen advance (pbind ident (\<lambda>name.
     pcond (test (is_kw ''BULK'')) (pfail (unsupported ''BULK COLLECT''))
     (pthen (expect_kw ''INTO'') (pbind (comma_list (parse_into_target E G)) (\<lambda>into. pret (FetchStmt name into))))))"

definition assign_target :: "string \<Rightarrow> target ora_result" where
  "assign_target name =
     (case split_at (CHR ''.'') name of
        None \<Rightarrow> Inr (VarTarget name)
      | Some (rec, field) \<Rightarrow>
          if CHR ''.'' \<notin> set field then Inr (FieldTarget rec field)
          else Inl (Err (unsupported ''assignment to a package variable'')))"

definition assign_or_call :: "('n, 'd, 'a) ext \<Rightarrow> ('n, 'd) grammar \<Rightarrow> ('n, 'd, ('n, 'd) stmt) pm" where
  "assign_or_call E G =
     pbind dotted_name (\<lambda>name.
     pcond (eat_sym '':='')
       (pbind (plift (assign_target name)) (\<lambda>t. pbind (parse_expr E G) (\<lambda>e. pret (Assign t e))))
       (pbind (parse_args E G) (\<lambda>as1. pret (CallStmt name as1))))"

definition assign_bind :: "('n, 'd, 'a) ext \<Rightarrow> ('n, 'd) grammar \<Rightarrow> ('n, 'd, ('n, 'd) stmt) pm" where
  "assign_bind E G =
     pbind (parse_primary E G) (\<lambda>e.
     pbind (plift (target_of e)) (\<lambda>t.
     pcond (eat_sym '':='') (pbind (parse_expr E G) (\<lambda>e. pret (Assign t e))) (pfail (expected '':=''))))"

text \<open>The statement that starts with \<open>keyword\<close>.\<close>

definition stmt_named ::
  "('n, 'd, 'a) ext \<Rightarrow> ('n, 'd) grammar \<Rightarrow> string option \<Rightarrow> string \<Rightarrow> ('n, 'd, ('n, 'd) stmt) pm" where
  "stmt_named E G label keyword =
     (if keyword = ''NULL'' then pthen advance (pret NullStmt)
      else if keyword = ''IF'' then parse_if E G
      else if keyword = ''CASE'' then parse_case_stmt E G
      else if keyword = ''LOOP'' then pbind (loop_body G) (\<lambda>body. pret (LoopStmt label body))
      else if keyword = ''WHILE'' then
        pthen advance (pbind (parse_expr E G) (\<lambda>cond. pbind (loop_body G) (\<lambda>body. pret (WhileStmt label cond body))))
      else if keyword = ''FOR'' then parse_for E G label
      else if keyword = ''EXIT'' \<or> keyword = ''CONTINUE'' then parse_exit E G (keyword = ''EXIT'')
      else if keyword = ''RETURN'' then
        pthen advance (pcond (test (is_sym '';'')) (pret (ReturnStmt None))
          (pbind (parse_expr E G) (\<lambda>e. pret (ReturnStmt (Some e)))))
      else if keyword = ''RAISE'' then
        pthen advance (pcond (test (is_sym '';'')) (pret (Raise None))
          (pbind dotted_name (\<lambda>n. pret (Raise (Some n)))))
      else if keyword = ''BEGIN'' \<or> keyword = ''DECLARE'' then pbind (parse_block E G) (\<lambda>b. pret (BlockStmt b))
      else if keyword = ''SELECT'' \<or> keyword = ''WITH'' then parse_select_into E G
      else if keyword \<in> {''INSERT'', ''UPDATE'', ''DELETE'', ''COMMIT'', ''ROLLBACK''} then
        pbind (parse_statement E G) (\<lambda>s. pret (SqlStmt s []))
      else if keyword \<in> {''SAVEPOINT'', ''MERGE'', ''LOCK'', ''SET''} then
        pfail (unsupported (to_lowercase keyword @ '' in PL/SQL''))
      else
        pcond (test (\<lambda>s. keyword = ''EXECUTE'' \<and> is_kw_at 1 ''IMMEDIATE'' s)) (parse_execute_immediate E G)
       (if keyword = ''OPEN'' then parse_open E G
        else if keyword = ''FETCH'' then parse_fetch_stmt E G
        else if keyword = ''CLOSE'' then pthen advance (pbind ident (\<lambda>name. pret (CloseStmt name)))
        else if keyword \<in> {''GOTO'', ''FORALL'', ''PIPE''} then pfail (unsupported (to_lowercase keyword))
        else assign_or_call E G))"

definition plsql_statement :: "('n, 'd, 'a) ext \<Rightarrow> ('n, 'd) grammar \<Rightarrow> ('n, 'd, ('n, 'd) stmt) pm" where
  "plsql_statement E G =
     pbind parse_label (\<lambda>label.
     pbind (test peek) (\<lambda>t.
     pbind (case t of
              Some (Ident k) \<Rightarrow> stmt_named E G label k
            | Some (BindTok _) \<Rightarrow> assign_bind E G
            | Some (Symbol sy) \<Rightarrow> if sy = ''('' then parse_select_into E G else pfail (expected ''a statement'')
            | _ \<Rightarrow> pfail (expected ''a statement'')) (\<lambda>stmt1.
     pthen end_semicolon (pret stmt1))))"

definition parse_statements :: "('n, 'd, 'a) ext \<Rightarrow> ('n, 'd) grammar \<Rightarrow> ('n, 'd, ('n, 'd) stmt list) pm" where
  "parse_statements E G =
     pbind (ploop (\<lambda>out.
       pbind (test peek) (\<lambda>t.
       let more = pbind (plsql_statement E G) (\<lambda>s. pret (Inl (out @ [s]))) in
       case t of
         None \<Rightarrow> pfail (expected ''END'')
       | Some (Ident k) \<Rightarrow> if k \<in> set STATEMENT_LIST_END then pret (Inr out) else more
       | Some _ \<Rightarrow> more)) []) (\<lambda>out.
     if out = [] then pfail (expected ''a statement'') else pret out)"

section \<open>The whole grammar\<close>

fun grammar_of :: "('n, 'd, 'a) ext \<Rightarrow> nat \<Rightarrow> ('n, 'd) grammar" where
  "grammar_of E 0 =
     \<lparr>pg_not = \<lambda>_. Inl Diverges, pg_unary = \<lambda>_. Inl Diverges, pg_expr = \<lambda>_. Inl Diverges, pg_query = \<lambda>_. Inl Diverges,
      pg_statements = \<lambda>_. Inl Diverges, pg_routine_body = \<lambda>_ _. Inl Diverges\<rparr>"
| "grammar_of E (Suc n) =
     (let G = grammar_of E n in
      \<lparr>pg_not = parse_not E G, pg_unary = parse_unary E G, pg_expr = parse_expr E G, pg_query = parse_query E G,
       pg_statements = parse_statements E G, pg_routine_body = routine_body E G\<rparr>)"

datatype bind_dir = DirIn | DirInOut | DirReturning

record ('n, 'd) parsed =
  pd_stmt :: "('n, 'd) statement"
  pd_binds :: nat
  pd_bind_dirs :: "bind_dir list"

definition starts_plsql :: "token list \<Rightarrow> bool" where
  "starts_plsql ts =
     (case ts of
        [] \<Rightarrow> False
      | t # _ \<Rightarrow> tok t \<in> {Ident ''BEGIN'', Ident ''DECLARE'', Ident ''CALL'', Symbol ''<<''})"

definition parser_new :: "string \<Rightarrow> token list \<Rightarrow> ('n, 'd) parser" where
  "parser_new sql ts =
     \<lparr>ps_sql = sql, ps_tokens = ts, ps_pos = 0, ps_binds = 0,
      ps_bind_names = (if starts_plsql ts then Some Map.empty else None), ps_into_allowed = False, ps_into = None\<rparr>"

fun plsql_unit :: "('n, 'd) statement \<Rightarrow> bool" where
  "plsql_unit (BlockS _) = True"
| "plsql_unit (CreateRoutine _ _) = True"
| "plsql_unit _ = False"

definition parse_end :: "('n, 'd, unit) pm" where
  "parse_end =
     pbind (test peek) (\<lambda>t.
     case t of
       None \<Rightarrow> pret ()
     | Some k \<Rightarrow> if k = Symbol '';'' then pora 911 ''invalid character'' else pfail not_ended)"

definition parse_all :: "('n, 'd, 'a) ext \<Rightarrow> ('n, 'd) grammar \<Rightarrow> ('n, 'd, ('n, 'd) statement) pm" where
  "parse_all E G =
     pbind (parse_statement E G) (\<lambda>stmt1.
     pthen (if plsql_unit stmt1 then eat_sym '';'' else pret False)
     (pthen parse_end (pret stmt1)))"

text \<open>\<open>bind_dirs[*i] = BindDir::Returning\<close> for the targets that are binds.\<close>

fun mark_returning :: "('n, 'd) expr list \<Rightarrow> bind_dir list \<Rightarrow> bind_dir list ora_result" where
  "mark_returning [] dirs = Inr dirs"
| "mark_returning (e # es) dirs =
     (case e of
        Bind i \<Rightarrow> if i < length dirs then mark_returning es (dirs[i := DirReturning]) else Inl Panic
      | _ \<Rightarrow> mark_returning es dirs)"

fun bind_dirs_of :: "('n, 'd) statement \<Rightarrow> nat \<Rightarrow> bind_dir list ora_result" where
  "bind_dirs_of (BlockS _) n = Inr (replicate n DirInOut)"
| "bind_dirs_of (InsertS i) n =
     (case ins_returning i of Some r \<Rightarrow> mark_returning (ret_into r) (replicate n DirIn) | None \<Rightarrow> Inr (replicate n DirIn))"
| "bind_dirs_of (UpdateS u) n =
     (case upd_returning u of Some r \<Rightarrow> mark_returning (ret_into r) (replicate n DirIn) | None \<Rightarrow> Inr (replicate n DirIn))"
| "bind_dirs_of (DeleteS d) n =
     (case del_returning d of Some r \<Rightarrow> mark_returning (ret_into r) (replicate n DirIn) | None \<Rightarrow> Inr (replicate n DirIn))"
| "bind_dirs_of _ n = Inr (replicate n DirIn)"

definition parse :: "('n, 'd, 'a) ext \<Rightarrow> string \<Rightarrow> ('n, 'd) parsed ora_result" where
  "parse E sql =
     rbind (tokenize sql) (\<lambda>ts.
     rbind (parse_all E (grammar_of E (length ts)) (parser_new sql ts)) (\<lambda>(stmt1, p).
     rbind (bind_dirs_of stmt1 (ps_binds p)) (\<lambda>dirs.
     Inr \<lparr>pd_stmt = stmt1, pd_binds = ps_binds p, pd_bind_dirs = dirs\<rparr>)))"

definition bind_directions :: "('n, 'd, 'a) ext \<Rightarrow> string \<Rightarrow> bind_dir list ora_result" where
  "bind_directions E sql = rbind (parse E sql) (\<lambda>p. Inr (pd_bind_dirs p))"

text \<open>What the session and \<open>EXECUTE IMMEDIATE\<close> take from it.\<close>

definition sql_parser :: "('n, 'd, 'a) ext \<Rightarrow> string \<Rightarrow> (('n, 'd) statement \<times> nat) ora_result" where
  "sql_parser E sql = rbind (parse E sql) (\<lambda>p. Inr (pd_stmt p, pd_binds p))"

end
