(* ===== verification/Parse_Correct.thy ===== *)
theory Parse_Correct
  imports Parse_Plsql Decimal_Clock
begin

text \<open>
  Every text is parsed or refused: the recursive descent ends, no index or slice is out of range, and
  \<open>unreachable!\<close> is not reached. A parsing function is described by a triple: from states that satisfy the
  precondition it gives an error of Oracle, or a result and a state that satisfy the postcondition. States
  are described by the tokens left, of which every recursive call and every round of a loop takes one.
\<close>

named_theorems parses \<open>triples, by the form of the parsing function\<close>
named_theorems ahead_intros \<open>how many tokens a test shows to be ahead\<close>

section \<open>Triples\<close>

fun good :: "('r \<Rightarrow> ('n, 'd) parser \<Rightarrow> bool) \<Rightarrow> ('r \<times> ('n, 'd) parser) ora_result \<Rightarrow> bool" where
  "good Q (Inr (a, s)) = Q a s"
| "good Q (Inl (Err _)) = True"
| "good Q (Inl _) = False"

definition triple ::
  "(('n, 'd) parser \<Rightarrow> bool) \<Rightarrow> ('n, 'd, 'r) pm \<Rightarrow> ('r \<Rightarrow> ('n, 'd) parser \<Rightarrow> bool) \<Rightarrow> bool" where
  "triple P m Q \<longleftrightarrow> (\<forall>s. P s \<longrightarrow> good Q (m s))"

lemma good_mono: "good Q r \<Longrightarrow> (\<And>a s. Q a s \<Longrightarrow> Q' a s) \<Longrightarrow> good Q' r"
  by (induction Q r rule: good.induct) auto

lemma good_map_err: "good Q r \<Longrightarrow> good Q (map_err g r)"
  by (induction Q r rule: good.induct) auto

lemma good_rbind: "good R r \<Longrightarrow> (\<And>a s. R a s \<Longrightarrow> good Q (f (a, s))) \<Longrightarrow> good Q (rbind r f)"
  by (induction R r rule: good.induct) auto

lemma triple_bind:
  assumes "triple P m R" and "\<And>a. triple (R a) (f a) Q"
  shows "triple P (pbind m f) Q"
  using assms by (auto simp: triple_def pbind_def intro: good_rbind)

lemma triple_pre: "triple P' m Q \<Longrightarrow> (\<And>s. P s \<Longrightarrow> P' s) \<Longrightarrow> triple P m Q"
  by (auto simp: triple_def)

lemma triple_post: "triple P m Q' \<Longrightarrow> (\<And>a s. Q' a s \<Longrightarrow> Q a s) \<Longrightarrow> triple P m Q"
  by (auto simp: triple_def intro: good_mono)

lemma triple_pret [parses]: "(\<And>s. P s \<Longrightarrow> Q r s) \<Longrightarrow> triple P (pret r) Q"
  by (auto simp: triple_def pret_def)

lemma triple_pfail [parses]: "triple P (pfail e) Q"
  by (auto simp: triple_def plift_def)

lemma triple_if [parses]: "(c \<Longrightarrow> triple P m Q) \<Longrightarrow> (\<not> c \<Longrightarrow> triple P k Q) \<Longrightarrow> triple P (if c then m else k) Q"
  by simp

lemma triple_case_Some [parses]: "triple P (f x) Q \<Longrightarrow> triple P (case Some x of None \<Rightarrow> m | Some y \<Rightarrow> f y) Q"
  and triple_case_None [parses]: "triple P m Q \<Longrightarrow> triple P (case None of None \<Rightarrow> m | Some y \<Rightarrow> f y) Q"
  by simp_all

lemma triple_case_option [parses]:
  "triple P m Q \<Longrightarrow> (\<And>y. triple P (f y) Q) \<Longrightarrow> triple P (case x of None \<Rightarrow> m | Some y \<Rightarrow> f y) Q"
  by (cases x) auto

lemma triple_case_tok [parses]:
  assumes "\<And>n. triple P (a n) Q" "\<And>n. triple P (b n) Q" "\<And>n. triple P (c n) Q" "\<And>n. triple P (d n) Q"
    "\<And>n. triple P (e n) Q" "\<And>n. triple P (f n) Q"
  shows "triple P (case t of Ident n \<Rightarrow> a n | QuotedIdent n \<Rightarrow> b n | NumberTok n \<Rightarrow> c n | StrTok n \<Rightarrow> d n
    | BindTok n \<Rightarrow> e n | Symbol n \<Rightarrow> f n) Q"
  using assms by (cases t) auto

lemma triple_case_prod [parses]: "(\<And>x y. triple P (f x y) Q) \<Longrightarrow> triple P (case p of (x, y) \<Rightarrow> f x y) Q"
  by (cases p) auto

lemma triple_let [parses]: "triple P (f x) Q \<Longrightarrow> triple P (let y = x in f y) Q"
  by (simp add: Let_def)

section \<open>Where a parse stands\<close>

text \<open>The text and the tokens, how many tokens were left when a function was called, and a bound on the binds.\<close>

record area =
  ar_sql :: string
  ar_tokens :: "token list"
  ar_left :: nat
  ar_binds :: nat

text \<open>\<open>moved\<close>: a token has been taken since the call; \<open>k\<close> tokens are known to be ahead.\<close>

definition stands :: "area \<Rightarrow> bool \<Rightarrow> nat \<Rightarrow> ('n, 'd) parser \<Rightarrow> bool" where
  "stands C moved k s \<longleftrightarrow>
     ps_sql s = ar_sql C \<and> ps_tokens s = ar_tokens C \<and> placed 0 (ar_sql C) (ar_tokens C) \<and>
     ps_pos s \<le> length (ps_tokens s) \<and>
     (if moved then tokens_left s < ar_left C else tokens_left s \<le> ar_left C) \<and>
     k \<le> tokens_left s \<and> ar_binds C \<le> ps_binds s \<and>
     (\<forall>m x i. ps_bind_names s = Some m \<longrightarrow> m x = Some i \<longrightarrow> i < ps_binds s)"

lemma stands_weaken: "stands C b k s \<Longrightarrow> j \<le> k \<Longrightarrow> (c \<longrightarrow> b) \<Longrightarrow> stands C c j s"
  by (auto simp: stands_def split: if_splits)

lemma stands_zero: "stands C b k s \<Longrightarrow> (c \<Longrightarrow> b) \<Longrightarrow> stands C c 0 s"
  by (rule stands_weaken) auto

text \<open>A triple of a function in front of a continuation, and at the end.\<close>

lemma before:
  assumes "triple (stands C b 0) m (\<lambda>_. stands C c 0)" and "\<And>a. triple (stands C c 0) (f a) Q"
  shows "triple (stands C b k) (pbind m f) Q"
  using assms by (blast intro: triple_bind triple_pre stands_zero)

lemma at_end:
  assumes "triple (stands C b 0) m (\<lambda>_. stands C c 0)" and "\<And>a s. stands C c 0 s \<Longrightarrow> Q a s"
  shows "triple (stands C b k) m Q"
  using assms by (blast intro: triple_post triple_pre stands_zero)

text \<open>A function of several branches in front of a continuation: what it takes is not counted.\<close>

lemma keep_before:
  assumes "triple (stands C b k) m (\<lambda>_. stands C b 0)" and "\<And>a. triple (stands C b 0) (f a) Q"
  shows "triple (stands C b k) (pbind m f) Q"
  using assms by (rule triple_bind)

lemmas branches_before [parses] =
  keep_before [where m = "pcond c x y" for c x y] keep_before [where m = "if c then x else y" for c x y]
  keep_before [where m = "poption c x" for c x] keep_before [where m = "case_option x g z" for x g z]
  keep_before [where m = "case_prod g z" for g z] keep_before [where m = "pbind x g" for x g]

lemma poption_triple [parses]:
  "triple P (pcond c (pbind m (\<lambda>x. pret (Some x))) (pret None)) Q \<Longrightarrow> triple P (poption c m) Q"
  by (simp add: poption_def)

lemma pcond_por [parses]: "triple P (pcond c m (pcond d m k)) Q \<Longrightarrow> triple P (pcond (por c d) m k) Q"
proof -
  have "pcond (por c d) m k = pcond c m (pcond d m k)"
    by (auto simp: fun_eq_iff pcond_def por_def pbind_def pret_def rbind_def split: sum.split)
  then show "triple P (pcond c m (pcond d m k)) Q \<Longrightarrow> triple P (pcond (por c d) m k) Q" by simp
qed

lemma pcond_pret [parses]: "triple P (if c then m else k) Q \<Longrightarrow> triple P (pcond (pret c) m k) Q"
  by (simp add: triple_def pcond_def pbind_def pret_def)

lemma pcond_if [parses]:
  "triple P (if c then pcond x m k else pcond y m k) Q \<Longrightarrow> triple P (pcond (if c then x else y) m k) Q"
  by (cases c) simp_all

section \<open>Tests\<close>

definition ahead :: "(('n, 'd) parser \<Rightarrow> bool) \<Rightarrow> nat \<Rightarrow> bool" where
  "ahead c j \<longleftrightarrow> (\<forall>s. c s \<longrightarrow> j \<le> tokens_left s)"

lemma peek_at_ahead: "peek_at n s = Some t \<Longrightarrow> Suc n \<le> tokens_left s"
  by (auto simp: peek_at_def tokens_left_def split: if_splits)

lemma ahead_tests [ahead_intros]:
  "ahead (is_kw_at n w) (Suc n)" "ahead (is_sym_at n w) (Suc n)" "ahead (is_ident_at n) (Suc n)"
  "ahead (is_kw w) 1" "ahead (is_sym w) 1" "ahead (is_any_kw ws) 1" "ahead (\<lambda>s. peek s \<noteq> None) 1"
  by (auto simp: ahead_def is_kw_at_def is_sym_at_def is_ident_at_def is_kw_def is_sym_def is_any_kw_def peek_def
      list_ex_iff dest!: peek_at_ahead split: option.splits)

lemma ahead_and [ahead_intros]: "ahead c i \<Longrightarrow> ahead d j \<Longrightarrow> ahead (\<lambda>s. c s \<and> d s) (max i j)"
  and ahead_or [ahead_intros]: "ahead c i \<Longrightarrow> ahead d j \<Longrightarrow> ahead (\<lambda>s. c s \<or> d s) (min i j)"
  by (auto simp: ahead_def min_def)

lemma ahead_zero: "ahead c 0"
  by (simp add: ahead_def)

lemmas ahead_nothing [ahead_intros] =
  ahead_zero [where c = "\<lambda>s. \<not> is_sym w s" for w] ahead_zero [where c = "\<lambda>s. \<not> is_kw w s" for w]
  ahead_zero [where c = "\<lambda>s. \<not> is_sym_at n w s" for n w] ahead_zero [where c = "\<lambda>s. \<not> is_kw_at n w s" for n w]
  ahead_zero [where c = "\<lambda>s. \<not> is_any_kw w s" for w] ahead_zero [where c = "\<lambda>s. p" for p] ahead_zero [where c = ps_into_allowed]
  ahead_zero [where c = bare_word] ahead_zero [where c = next_is_str] ahead_zero [where c = is_partition_op]
  ahead_zero [where c = negated_predicate]

lemma ahead_cursor_query [ahead_intros]: "ahead for_cursor_query 1"
  using ahead_tests(5) by (auto simp: ahead_def for_cursor_query_def)

lemma pcond_test [parses]:
  assumes "ahead c j" and "triple (stands C b (max k j)) m Q" and "triple (stands C b k) m' Q"
  shows "triple (stands C b k) (pcond (test c) m m') Q"
  using assms by (auto simp: triple_def pcond_def pbind_def test_def ahead_def stands_def)

lemma test_before: "(\<And>a. triple (stands C b k) (f a) Q) \<Longrightarrow> triple (stands C b k) (pbind (test g) f) Q"
  by (auto simp: triple_def pbind_def test_def)

lemmas tests_before [parses] =
  test_before [where g = "is_kw w" for w] test_before [where g = "is_kw_at n w" for n w]
  test_before [where g = "\<lambda>s. \<not> c s" for c]
  test_before [where g = ps_sql] test_before [where g = ps_into]

lemma test_negated [parses]:
  assumes "triple (stands C b (max k 1)) (f True) Q" and "triple (stands C b k) (f False) Q"
  shows "triple (stands C b k) (pbind (test negated_predicate) f) Q"
proof -
  have "ahead negated_predicate 1" by (auto simp: ahead_def negated_predicate_def dest!: ahead_tests(4) [unfolded ahead_def, rule_format])
  moreover have "pcond (test negated_predicate) (f True) (f False) = pbind (test negated_predicate) f"
    by (simp add: fun_eq_iff pcond_def pbind_def test_def)
  ultimately show ?thesis using pcond_test [OF _ assms] by metis
qed

lemma peek_before [parses]:
  fixes f :: "tok option \<Rightarrow> ('n, 'd, 'r) pm"
  assumes "triple (stands C b k) (f None) Q" and "\<And>t. triple (stands C b (max k 1)) (f (Some t)) Q"
  shows "triple (stands C b k) (pbind (test peek) f) Q"
  unfolding triple_def
proof (intro allI impI)
  fix s :: "('n, 'd) parser"
  assume "stands C b k s"
  moreover from this have "stands C b (max k 1) s" if "peek s = Some t" for t
    using that peek_at_ahead [of 0 s t] by (auto simp: stands_def peek_def)
  ultimately show "good Q (pbind (test peek) f s)"
    using assms by (cases "peek s") (auto simp: triple_def pbind_def test_def)
qed

section \<open>Taking tokens\<close>

lemma stands_skip: "stands C b k s \<Longrightarrow> 0 < n \<Longrightarrow> n \<le> k \<Longrightarrow> stands C True (k - n) (s\<lparr>ps_pos := ps_pos s + n\<rparr>)"
  by (auto simp: stands_def tokens_left_def split: if_splits)

lemma skip_triple:
  "triple (stands C True (k - n)) (f ()) Q \<Longrightarrow> 0 < n \<Longrightarrow> n \<le> k \<Longrightarrow> triple (stands C b k) (pbind (skip n) f) Q"
  by (auto simp: triple_def skip_def pmod_def pbind_def stands_skip)

lemma skip_before [parses]:
  "triple (stands C True (k - n)) (f ()) Q \<Longrightarrow> 0 < n \<Longrightarrow> n \<le> k \<Longrightarrow> triple (stands C b k) (pbind (skip n) f) Q"
  "(\<And>s. stands C True (k - n) s \<Longrightarrow> R () s) \<Longrightarrow> 0 < n \<Longrightarrow> n \<le> k \<Longrightarrow> triple (stands C b k) (skip n) R"
  by (auto simp: triple_def skip_def pmod_def pbind_def stands_skip)

lemma advance_before [parses]:
  assumes "\<And>t. triple (stands C True (k - 1)) (f t) Q" and "0 < k"
  shows "triple (stands C b k) (pbind advance f) Q"
  using assms stands_skip [of C b k _ 1]
  by (auto simp: triple_def advance_def skip_def pmod_def pbind_def test_def pret_def)

text \<open>Where there may be no token ahead, the continuation refuses \<open>None\<close>.\<close>

lemma advance_any:
  assumes "\<And>t. triple (stands C True (k - 1)) (f (Some t)) Q" and "\<And>P. triple P (f None) Q"
  shows "triple (stands C b k) (pbind advance f) Q"
  unfolding advance_def
proof -
  have "triple (stands C b k) (pbind (test peek) (\<lambda>t. pbind (skip 1) (\<lambda>_. f t))) Q"
  proof (rule peek_before)
    show "triple (stands C b k) (pbind (skip 1) (\<lambda>_. f None)) Q"
      by (rule triple_bind [OF _ assms(2) [of "\<lambda>_. True"]]) (simp add: triple_def skip_def pmod_def)
    show "triple (stands C b (max k 1)) (pbind (skip 1) (\<lambda>_. f (Some t))) Q" for t
      by (rule skip_before, rule triple_pre [OF assms(1)], erule stands_weaken) auto
  qed
  then show "triple (stands C b k) (pbind (pbind (test peek) (\<lambda>t. pbind (skip 1) (\<lambda>_. pret t))) f) Q"
    by (simp add: triple_def pbind_def test_def skip_def pmod_def pret_def)
qed

lemma stands_rest: "stands C b k s \<Longrightarrow> stands C b 0 (s\<lparr>ps_pos := length (ps_tokens s)\<rparr>)"
  by (auto simp: stands_def tokens_left_def split: if_splits)

lemma skip_rest_before [parses]: "triple (stands C b 0) (f ()) Q \<Longrightarrow> triple (stands C b k) (pbind skip_rest f) Q"
  by (auto simp: triple_def skip_rest_def pmod_def pbind_def stands_rest)

lemma pcond_eat_inv:
  fixes m :: "('n, 'd, 'r) pm"
  assumes "ahead c 1" and "triple (\<lambda>s. stands C True (k - 1) s \<and> J (ps_binds s)) m Q"
    and "triple (\<lambda>s. stands C b k s \<and> J (ps_binds s)) m' Q"
  shows "triple (\<lambda>s. stands C b k s \<and> J (ps_binds s)) (pcond (eat c) m m') Q"
  unfolding triple_def
proof (intro allI impI)
  fix s :: "('n, 'd) parser"
  assume s: "stands C b k s \<and> J (ps_binds s)"
  show "good Q (pcond (eat c) m m' s)"
  proof (cases "c s")
    case True
    then have "stands C b (max k 1) s" using s assms(1) by (auto simp: ahead_def stands_def)
    then have "stands C True (k - 1) (s\<lparr>ps_pos := ps_pos s + 1\<rparr>)"
      by (rule stands_weaken [OF stands_skip [where n = 1]]) auto
    then show ?thesis using assms(2) s True
      by (auto simp: triple_def pcond_def eat_def pbind_def test_def skip_def pmod_def pret_def)
  next
    case False
    then show ?thesis using assms(3) s
      by (auto simp: triple_def pcond_def eat_def pbind_def test_def skip_def pmod_def pret_def)
  qed
qed

lemmas pcond_eat = pcond_eat_inv [where J = "\<lambda>_. True", simplified]

lemma pcond_eat_kw [parses]:
  "triple (stands C True (k - 1)) m Q \<Longrightarrow> triple (stands C b k) m' Q \<Longrightarrow> triple (stands C b k) (pcond (eat_kw w) m m') Q"
  and pcond_eat_sym [parses]:
  "triple (stands C True (k - 1)) m Q \<Longrightarrow> triple (stands C b k) m' Q \<Longrightarrow> triple (stands C b k) (pcond (eat_sym w) m m') Q"
  unfolding eat_kw_def eat_sym_def by (rule pcond_eat [OF ahead_tests(4) [unfolded One_nat_def]] pcond_eat [OF ahead_tests(5) [unfolded One_nat_def]]; simp)+

lemma eat_cond: "pcond (eat_kw w) (pret True) (pret False) = eat_kw w" "pcond (eat_sym w) (pret True) (pret False) = eat_sym w"
  by (auto simp: fun_eq_iff eat_kw_def eat_sym_def eat_def pcond_def pbind_def test_def skip_def pmod_def pret_def)

lemma eat_kw_triple: "triple (stands C b 0) (eat_kw w) (\<lambda>_. stands C b 0)"
  and eat_sym_triple: "triple (stands C b 0) (eat_sym w) (\<lambda>_. stands C b 0)"
  by (subst eat_cond [symmetric], intro parses; erule stands_zero; simp)+

lemma por_triple: "triple (stands C b 0) (por (eat_kw v) (eat_kw w)) (\<lambda>_. stands C b 0)"
  unfolding por_def by (intro parses at_end [OF eat_kw_triple]) (auto elim: stands_zero)

lemmas eat_triples [parses] =
  eat_kw_triple [THEN before] eat_kw_triple [THEN at_end] eat_sym_triple [THEN before] eat_sym_triple [THEN at_end]
  por_triple [THEN before]

lemma expect_kw_triple: "triple (stands C b 0) (expect_kw w) (\<lambda>_. stands C True 0)"
  and expect_sym_triple: "triple (stands C b 0) (expect_sym w) (\<lambda>_. stands C True 0)"
  unfolding expect_kw_def expect_sym_def by (intro parses; simp)+

lemma ident_before [parses]:
  assumes "\<And>n. triple (stands C True (k - 1)) (f n) Q"
  shows "triple (stands C b k) (pbind ident f) Q"
proof -
  have "triple (stands C b k) ident (\<lambda>_. stands C True (k - 1))"
    unfolding ident_def by (intro parses) (auto elim: stands_weaken)
  then show ?thesis using assms by (rule triple_bind)
qed

lemma ident_triple: "triple (stands C b 0) ident (\<lambda>_. stands C True 0)"
  unfolding ident_def by (intro parses) (auto elim: stands_weaken)

lemma pmap_err_triple: "triple P m Q \<Longrightarrow> triple P (pmap_err g m) Q"
  unfolding triple_def pmap_err_def by (auto intro: good_map_err)

lemma object_name_triple: "triple (stands C b 0) object_name (\<lambda>_. stands C True 0)"
  unfolding object_name_def Let_def
  by (intro parses before [OF pmap_err_triple [OF ident_triple]] at_end [OF pmap_err_triple [OF ident_triple]])

lemmas word_triples [parses] =
  expect_kw_triple [THEN before] expect_kw_triple [THEN at_end] expect_sym_triple [THEN before] expect_sym_triple [THEN at_end]
  ident_triple [THEN at_end] object_name_triple [THEN before] object_name_triple [THEN at_end]

lemma optional_alias_triple: "triple (stands C b 0) optional_alias (\<lambda>_. stands C b 0)"
  unfolding optional_alias_def by (intro parses) (auto elim: stands_zero)

lemma signed_token_triple: "triple (stands C b 0) (signed_token w neg) (\<lambda>_. stands C True 0)"
  unfolding signed_token_def by (intro advance_any parses) (auto elim: stands_zero intro!: parses)

lemma integer_triple: "triple (stands C b 0) integer (\<lambda>_. stands C True 0)"
  unfolding integer_def by (intro parses signed_token_triple)

lemmas name_triples [parses] =
  optional_alias_triple [THEN before] signed_token_triple [THEN before] signed_token_triple [THEN at_end]
  integer_triple [THEN before] integer_triple [THEN at_end]

section \<open>Loops\<close>

abbreviation inner :: "area \<Rightarrow> nat \<Rightarrow> nat \<Rightarrow> area" where
  "inner C n m \<equiv> C\<lparr>ar_left := n, ar_binds := m\<rparr>"

text \<open>The state at the start of a round, as the area of that round.\<close>

lemma stands_here: "stands C b k s \<Longrightarrow> stands (inner C (tokens_left s) (ps_binds s)) False 0 s"
  by (auto simp: stands_def)

lemma stands_outer:
  "stands (inner C (tokens_left s) (ps_binds s)) c 0 s' \<Longrightarrow> stands C b k s \<Longrightarrow> stands C b 0 s'"
  by (auto simp: stands_def split: if_splits)

lemma left_le: "stands C b k s \<Longrightarrow> tokens_left s \<le> ar_left C \<and> ar_binds C \<le> ps_binds s"
  by (auto simp: stands_def split: if_splits)

text \<open>What is known of the loop's variable may speak of the number of binds.\<close>

definition round_result :: "area \<Rightarrow> ('x \<Rightarrow> nat \<Rightarrow> bool) \<Rightarrow> ('r \<Rightarrow> nat \<Rightarrow> bool) \<Rightarrow> 'x + 'r \<Rightarrow> ('n, 'd) parser \<Rightarrow> bool" where
  "round_result C I R r s = (case r of Inl y \<Rightarrow> stands C True 0 s \<and> I y (ps_binds s) | Inr z \<Rightarrow> stands C False 0 s \<and> R z (ps_binds s))"

lemma prepeat_good:
  assumes "\<And>n m x. n \<le> ar_left C \<Longrightarrow> ar_binds C \<le> m \<Longrightarrow>
    triple (\<lambda>s. stands (inner C n m) False 0 s \<and> I x (ps_binds s)) (step x) (round_result (inner C n m) I R)"
    and "stands C b k s" "I x (ps_binds s)" "tokens_left s < n"
  shows "good (\<lambda>z s'. stands C b 0 s' \<and> R z (ps_binds s')) (prepeat step n x s)"
  using assms(2-)
proof (induction n arbitrary: x s k)
  case (Suc n)
  let ?C = "inner C (tokens_left s) (ps_binds s)"
  have "good (round_result ?C I R) (step x s)"
    using assms(1) [of "tokens_left s" "ps_binds s" x] stands_here [OF Suc(2)] left_le [OF Suc(2)] Suc(3)
    by (simp add: triple_def)
  moreover have "good (\<lambda>z s'. stands C b 0 s' \<and> R z (ps_binds s')) (prepeat step n y s')"
    if "stands ?C True 0 s'" "I y (ps_binds s')" for y s'
  proof -
    have "tokens_left s' < n" using that(1) Suc(4) by (simp add: stands_def)
    then show ?thesis using Suc(1) [OF stands_outer [OF that(1) Suc(2)] that(2)] by simp
  qed
  ultimately show ?case
    using stands_outer [OF _ Suc(2)] by (auto simp: round_result_def split: sum.splits intro!: good_rbind)
qed simp

lemma ploop_inv:
  assumes "\<And>n m x. n \<le> ar_left C \<Longrightarrow> ar_binds C \<le> m \<Longrightarrow>
    triple (\<lambda>s. stands (inner C n m) False 0 s \<and> I x (ps_binds s)) (step x) (round_result (inner C n m) I R)"
  shows "triple (\<lambda>s. stands C b k s \<and> I x (ps_binds s)) (ploop step x) (\<lambda>z s. stands C b 0 s \<and> R z (ps_binds s))"
  unfolding triple_def ploop_def using prepeat_good [OF assms] by blast

definition round_end :: "area \<Rightarrow> 'x + 'r \<Rightarrow> ('n, 'd) parser \<Rightarrow> bool" where
  "round_end C r s = stands C (isl r) 0 s"

lemma round_ends [simp]: "round_end C (Inl y) s = stands C True 0 s" "round_end C (Inr z) s = stands C False 0 s"
  by (simp_all add: round_end_def)

lemma ploop_triple:
  assumes "\<And>n m x. n \<le> ar_left C \<Longrightarrow> triple (stands (inner C n m) False 0) (step x) (round_end (inner C n m))"
  shows "triple (stands C b 0) (ploop step x) (\<lambda>_. stands C b 0)"
proof -
  have "triple (\<lambda>s. stands C b 0 s \<and> True) (ploop step x) (\<lambda>z s. stands C b 0 s \<and> True)"
  proof (rule ploop_inv [where I = "\<lambda>_ _. True" and R = "\<lambda>_ _. True"])
    fix n m x
    assume "n \<le> ar_left C"
    then show "triple (\<lambda>s. stands (inner C n m) False 0 s \<and> True) (step x)
        (round_result (inner C n m) (\<lambda>_ _. True) (\<lambda>_ _. True))"
      using assms [of n m x] by (auto elim!: triple_post simp: round_result_def split: sum.split)
  qed
  then show ?thesis by simp
qed

lemmas loop_triples [parses] = ploop_triple [THEN before] ploop_triple [THEN at_end]

text \<open>A list between commas. \<open>R\<close> holds of every element, and goes on holding when there are more binds.\<close>

definition element_ok :: "area \<Rightarrow> bool \<Rightarrow> ('r \<Rightarrow> nat \<Rightarrow> bool) \<Rightarrow> ('n, 'd, 'r) pm \<Rightarrow> bool" where
  "element_ok C moved R p \<longleftrightarrow> (\<forall>n m. n \<le> ar_left C \<longrightarrow>
     triple (stands (inner C n m) moved 0) p (\<lambda>x s. stands (inner C n m) True 0 s \<and> R x (ps_binds s)))"

lemma element_here:
  assumes "element_ok C moved R p" and "stands (inner C n m) b k s" "n \<le> ar_left C" "moved \<longrightarrow> b"
  shows "good (\<lambda>x s'. stands (inner C n m) True 0 s' \<and> R x (ps_binds s') \<and> ps_binds s \<le> ps_binds s') (p s)"
proof -
  have "stands (inner C n (ps_binds s)) moved 0 s" using assms(2,4) by (auto simp: stands_def split: if_splits)
  then have "good (\<lambda>x s'. stands (inner C n (ps_binds s)) True 0 s' \<and> R x (ps_binds s')) (p s)"
    using assms(1,3) by (auto simp: triple_def element_ok_def)
  then show ?thesis using left_le [OF assms(2)] by (elim good_mono) (auto simp: stands_def)
qed

lemma comma_list_all:
  fixes p :: "('n, 'd, 'r) pm"
  assumes p: "element_ok C moved R p" and b: "moved \<longrightarrow> b" and mono: "\<And>x i j. R x i \<Longrightarrow> i \<le> j \<Longrightarrow> R x j"
  shows "triple (stands C b 0) (comma_list p) (\<lambda>xs s. stands C True 0 s \<and> (\<forall>x \<in> set xs. R x (ps_binds s)))"
  unfolding comma_list_def
proof (rule triple_bind)
  let ?I = "\<lambda>xs n. \<forall>x \<in> set xs. R x n"
  have "good (\<lambda>x s. stands C True 0 s \<and> ?I [x] (ps_binds s)) (p s)" if "stands C b 0 s" for s
    by (rule good_mono [OF element_here [OF p, where n = "ar_left C" and m = "ar_binds C" and b = b and k = 0]])
      (use that b in simp_all)
  then show "triple (stands C b 0) p (\<lambda>x s. stands C True 0 s \<and> ?I [x] (ps_binds s))"
    by (simp add: triple_def)
  show "triple (\<lambda>s. stands C True 0 s \<and> ?I [x] (ps_binds s)) (ploop (\<lambda>out. pcond (eat_sym '','')
      (pbind p (\<lambda>y. pret (Inl (out @ [y])))) (pret (Inr out))) [x]) (\<lambda>xs s. stands C True 0 s \<and> ?I xs (ps_binds s))" for x
  proof (rule ploop_inv)
    fix n m and out :: "'r list"
    assume n: "n \<le> ar_left C"
    let ?C = "inner C n m"
    have "good (round_result ?C ?I ?I) (pbind p (\<lambda>y. pret (Inl (out @ [y]))) s)"
      if "stands ?C True 0 s" "?I out (ps_binds s)" for s
      unfolding pbind_def
      by (rule good_rbind [OF element_here [OF p that(1) n impI [OF TrueI]]]) (use that(2) mono in \<open>auto simp: pret_def round_result_def\<close>)
    then have "triple (\<lambda>s. stands ?C True (0 - 1) s \<and> ?I out (ps_binds s)) (pbind p (\<lambda>y. pret (Inl (out @ [y])))) (round_result ?C ?I ?I)"
      by (simp add: triple_def)
    then show "triple (\<lambda>s. stands ?C False 0 s \<and> ?I out (ps_binds s)) (pcond (eat_sym '','') (pbind p (\<lambda>y. pret (Inl (out @ [y]))))
        (pret (Inr out))) (round_result ?C ?I ?I)"
      unfolding eat_sym_def
      by (rule pcond_eat_inv [OF ahead_tests(5)]) (auto intro!: triple_pret simp: round_result_def)
  qed
qed

lemma comma_list_triple:
  assumes "\<And>n m. n \<le> ar_left C \<Longrightarrow> triple (stands (inner C n m) False 0) p (\<lambda>_. stands (inner C n m) True 0)"
  shows "triple (stands C b 0) (comma_list p) (\<lambda>_. stands C True 0)"
  using comma_list_all [of C False "\<lambda>_ _. True" p b] assms by (simp add: element_ok_def)

lemma comma_list_moved:
  assumes "\<And>n m. n \<le> ar_left C \<Longrightarrow> triple (stands (inner C n m) True 0) p (\<lambda>_. stands (inner C n m) True 0)"
  shows "triple (stands C True 0) (comma_list p) (\<lambda>_. stands C True 0)"
  using comma_list_all [of C True "\<lambda>_ _. True" p True] assms by (simp add: element_ok_def)

lemmas list_triples [parses] = comma_list_triple [THEN before] comma_list_triple [THEN at_end]

lemma ident_list_triple: "triple (stands C b 0) ident_list (\<lambda>_. stands C True 0)"
  unfolding ident_list_def by (intro parses)

lemma skip_parens_triple: "triple (stands C b 0) skip_parens (\<lambda>_. stands C b 0)"
  unfolding skip_parens_def
  by (intro parses advance_any) (auto intro!: parses elim: stands_zero)

lemmas paren_triples [parses] =
  ident_list_triple [THEN before] ident_list_triple [THEN at_end] skip_parens_triple [THEN before] skip_parens_triple [THEN at_end]

lemma partition_extension_triple: "triple (stands C b 0) partition_extension (\<lambda>_. stands C b 0)"
  unfolding partition_extension_def
  by (intro parses | rule ahead_intros | (erule stands_zero; blast) | simp)+

lemmas partition_triples [parses] = partition_extension_triple [THEN before]

section \<open>Data types\<close>

lemma parse_length_triple: "triple (stands C b 0) parse_length (\<lambda>_. stands C b 0)"
  unfolding parse_length_def by (intro parses | (erule stands_zero; blast) | simp)+

lemmas length_triples [parses] = parse_length_triple [THEN before]

lemma data_type_named_triple: "triple (stands C True 0) (data_type_named n) (\<lambda>_. stands C True 0)"
  unfolding data_type_named_def required_length_def parse_number_type_def parse_timestamp_type_def
  by (intro parses | (erule stands_zero; blast) | simp)+

lemma data_type_triple: "triple (stands C b 0) data_type (\<lambda>_. stands C True 0)"
  unfolding data_type_def
  by (intro parses at_end [OF data_type_named_triple] | simp)+

lemmas type_triples [parses] = data_type_triple [THEN before] data_type_triple [THEN at_end]

section \<open>Expressions\<close>

lemma column_ref_triple: "triple (stands C b 0) column_ref (\<lambda>_. stands C True 0)"
  unfolding column_ref_def dotted_ident_def [abs_def]
  by (intro parses | rule ahead_intros | (erule stands_zero; blast) | simp)+

lemmas column_triples [parses] = column_ref_triple [THEN before] column_ref_triple [THEN at_end]

lemma no_over_triple: "triple (stands C b 0) (no_over e) (\<lambda>_. stands C b 0)"
  unfolding no_over_def by (intro parses | rule ahead_intros | (erule stands_zero; blast) | simp)+

lemma bind_position_good:
  "stands C b k s \<Longrightarrow> good (\<lambda>e s'. stands C b k s' \<and> (\<forall>i. e = Bind i \<longrightarrow> i < ps_binds s')) (bind_position name s)"
  by (auto simp: bind_position_def stands_def tokens_left_def split: option.split) (metis less_SucI)+

lemma bind_position_triple: "triple (stands C b 0) (bind_position name) (\<lambda>_. stands C b 0)"
  by (auto simp: triple_def intro: good_mono [OF bind_position_good])

lemma string_after_keyword_triple: "triple (\<lambda>s. stands C b 0 s \<and> next_is_str s) string_after_keyword (\<lambda>_. stands C True 0)"
  unfolding triple_def
proof (intro allI impI)
  fix s
  assume s: "stands C b 0 s \<and> next_is_str s"
  then obtain t where t: "peek_at 1 s = Some (StrTok t)"
    by (auto simp: next_is_str_def split: option.splits tok.splits)
  have "2 \<le> tokens_left s" using peek_at_ahead [OF t] by simp
  then have "stands C b 2 s" using s by (auto simp: stands_def)
  then have "stands C True (2 - 2) (s\<lparr>ps_pos := ps_pos s + 2\<rparr>)" by (rule stands_skip) auto
  then show "good (\<lambda>_. stands C True 0) (string_after_keyword s)"
    using t by (simp add: string_after_keyword_def advance_def pbind_def test_def skip_def pmod_def pret_def peek_def peek_at_def
        split: if_splits)
qed

lemmas atom_triples [parses] =
  no_over_triple [THEN before] no_over_triple [THEN at_end] bind_position_triple [THEN at_end]

definition safe :: "'r ora_result \<Rightarrow> bool" where
  "safe r \<longleftrightarrow> r \<noteq> Inl Panic \<and> r \<noteq> Inl Diverges"

lemma plift_before [parses]: "safe r \<Longrightarrow> (\<And>a. triple P (f a) Q) \<Longrightarrow> triple P (pbind (plift r) f) Q"
  by (cases r; cases "projl r") (auto simp: safe_def triple_def pbind_def plift_def)

section \<open>Date literals\<close>

lemma safe_simps [simp]: "safe (Inr a)" "safe (Inl (Err e))" "\<not> safe (Inl Panic)" "\<not> safe (Inl Diverges)"
  by (simp_all add: safe_def)

lemma safe_rbind: "safe r \<Longrightarrow> (\<And>a. r = Inr a \<Longrightarrow> safe (f a)) \<Longrightarrow> safe (rbind r f)"
  by (cases r) (auto simp: safe_def)

lemma safe_ok_or: "safe (ok_or x e)"
  by (cases x) auto

lemma safe_dt_tokenize: "safe (dt_tokenize s)"
proof (induction s rule: dt_tokenize.induct)
  case (1 s)
  show ?case
  proof (cases "next_elem s")
    case (Inl f)
    then have "safe (Inl f :: (elem \<times> letter_case) list ora_result)"
      by (auto simp: next_elem_def split: list.splits if_splits option.splits)
    then show ?thesis using Inl by (subst dt_tokenize.simps) simp
  next
    case (Inr p)
    then show ?thesis using 1 by (subst dt_tokenize.simps) (auto split: prod.split intro!: safe_rbind)
  qed
qed

lemma digits_val_less: "list_all is_ascii_digit ds \<Longrightarrow> digits_val ds < 10 ^ length ds"
proof (induction ds rule: rev_induct)
  case (snoc c ds)
  then have "code c - 48 \<le> 9" "digits_val ds + 1 \<le> 10 ^ length ds" by (auto simp: is_ascii_digit_def)
  then show ?case by (simp add: digits_val_snoc)
qed (simp add: digits_val_def)

lemma number_bound: "number k s = Inr ((n, len), r) \<Longrightarrow> n < 10 ^ len \<and> len \<le> k"
  using digits_val_less [of "takeWhile is_ascii_digit (take k s)"] length_takeWhile_le [of is_ascii_digit "take k s"]
  by (auto simp: number_def Let_def list_all_iff dest: set_takeWhileD split: if_splits)

lemma safe_number: "safe (number k s)"
  by (simp add: number_def Let_def)

lemma safe_parse_elem: "safe (parse_elem e st)"
proof (cases st)
  case (Pair p s)
  have "safe (parse_meridian t)" for t by (simp add: parse_meridian_def)
  then show ?thesis
    unfolding Pair parse_elem_def
    by (cases e) (auto simp: Let_def split: option.split intro!: safe_rbind safe_number)
qed

lemma parse_elem_nanos:
  assumes "parse_elem e st = Inr st'" and "p_nanos (fst st) < 10 ^ 9"
  shows "p_nanos (fst st') < 10 ^ 9"
proof (cases st)
  case (Pair p s)
  have "n * 10 ^ (9 - len) < 10 ^ 9" if "number 9 s = Inr ((n, len), r)" for n len r
  proof -
    have "n * 10 ^ (9 - len) < 10 ^ len * 10 ^ (9 - len)" using number_bound [OF that] by simp
    then show ?thesis using number_bound [OF that] by (simp flip: power_add)
  qed
  then show ?thesis
    using assms unfolding Pair parse_elem_def
    by (cases e) (auto simp: Let_def rbind_eq_Inr split: option.splits if_splits)
qed

lemma parse_elems_nanos:
  "parse_elems es st = Inr st' \<Longrightarrow> p_nanos (fst st) < 10 ^ 9 \<Longrightarrow> p_nanos (fst st') < 10 ^ 9"
  by (induction es st rule: parse_elems.induct) (auto simp: rbind_eq_Inr dest: parse_elem_nanos)

lemma safe_parse_elems: "safe (parse_elems es st)"
  by (induction es st rule: parse_elems.induct) (auto intro!: safe_rbind safe_parse_elem)

lemma parsed_nanos: "parse_elems es (no_parts, s) = Inr (p, r) \<Longrightarrow> p_nanos p < 10 ^ 9"
  by (drule parse_elems_nanos) (simp_all add: no_parts_def)

text \<open>A chain of operators.\<close>

lemma peek_op_before [parses]:
  assumes "triple (stands C b k) (f None) Q" and "\<And>y. triple (stands C b (max k 1)) (f (Some y)) Q"
  shows "triple (stands C b k) (pbind (test (\<lambda>s. Option.bind (peek s) h)) f) Q"
proof -
  have "triple (stands C b k) (pbind (test peek) (\<lambda>t. f (Option.bind t h))) Q"
  proof (rule peek_before)
    show "triple (stands C b (max k 1)) (f (Option.bind (Some t) h)) Q" for t
    proof (cases "h t")
      case None
      then show ?thesis by (auto intro!: triple_pre [OF assms(1)] elim: stands_weaken)
    next
      case (Some y)
      then show ?thesis using assms(2) by simp
    qed
  qed (simp add: assms(1))
  then show ?thesis by (simp add: pbind_def test_def triple_def)
qed

lemma binary_chain_triple:
  assumes "\<And>n m b. n \<le> ar_left C \<Longrightarrow> triple (stands (inner C n m) b 0) p (\<lambda>_. stands (inner C n m) True 0)"
  shows "triple (stands C b 0) (binary_chain h p) (\<lambda>_. stands C True 0)"
proof -
  have p: "triple (stands C b 0) p (\<lambda>_. stands C True 0)" for b
    using assms [of "ar_left C" "ar_binds C"] by simp
  show ?thesis
    unfolding binary_chain_def by (intro parses before [OF p] before [OF assms] | simp)+
qed

text \<open>\<open>NaiveDate::and_hms_nano_opt\<close> refuses only times that are out of range.\<close>

locale total_clock =
  fixes E :: "('n, 'd, 'a) ext"
  assumes time_of_day: "h < 24 \<Longrightarrow> m < 60 \<Longrightarrow> s < 60 \<Longrightarrow> n < 10 ^ 9 \<Longrightarrow> date_and_hms_nano E a h m s n \<noteq> None"
begin

lemma safe_finish_date: "p_nanos p < 10 ^ 9 \<Longrightarrow> safe (finish_date E p)"
  unfolding finish_date_def hour_24_def
  by (auto simp: Let_def intro!: safe_rbind safe_ok_or) (use time_of_day in \<open>auto simp: unwrap_def split: option.split\<close>)

lemma safe_dt_parse: "safe (dt_parse E s fmt)"
  unfolding dt_parse_def
  by (auto intro!: safe_rbind safe_dt_tokenize safe_parse_elems safe_finish_date dest: parsed_nanos simp del: power_numeral)

lemma date_literal_triple: "triple (\<lambda>s. stands C b 0 s \<and> next_is_str s) (parse_date_literal E) (\<lambda>_. stands C True 0)"
  and timestamp_literal_triple:
  "triple (\<lambda>s. stands C b 0 s \<and> next_is_str s) (parse_timestamp_literal E) (\<lambda>_. stands C True 0)"
  unfolding parse_date_literal_def parse_timestamp_literal_def
  by (intro triple_bind [OF string_after_keyword_triple] plift_before safe_dt_parse triple_pret; assumption)+

lemma literal_triples [parses]:
  assumes "triple (stands C b k) m (\<lambda>_. stands C True 0)"
  shows "triple (stands C b k) (pcond (test (\<lambda>s. p \<and> next_is_str s)) (parse_date_literal E) m) (\<lambda>_. stands C True 0)"
    and "triple (stands C b k) (pcond (test (\<lambda>s. p \<and> next_is_str s)) (parse_timestamp_literal E) m) (\<lambda>_. stands C True 0)"
  using assms date_literal_triple [of C b] timestamp_literal_triple [of C b] stands_zero [of C b k _ b]
  by (auto simp: triple_def pcond_def pbind_def test_def)

end

interpretation clock_time: total_clock clock_ext
  by unfold_locales (simp add: clock_ext_def)

section \<open>Recursive descent\<close>

text \<open>What the functions called back promise where at most \<open>N\<close> tokens were left when the caller was called.\<close>

locale descent = total_clock E
  for E :: "('n, 'd, 'a) ext" +
  fixes G :: "('n, 'd) grammar" and N :: nat
  assumes not_law: "ar_left C \<le> N \<Longrightarrow> triple (stands C True 0) (pg_not G) (\<lambda>_. stands C True 0)"
    and unary_law: "ar_left C \<le> N \<Longrightarrow> triple (stands C True 0) (pg_unary G) (\<lambda>_. stands C True 0)"
    and expr_law: "ar_left C \<le> N \<Longrightarrow> triple (stands C True 0) (pg_expr G) (\<lambda>_. stands C True 0)"
    and query_law: "ar_left C \<le> N \<Longrightarrow> triple (stands C True 0) (pg_query G) (\<lambda>_. stands C True 0)"
    and statements_law: "ar_left C \<le> N \<Longrightarrow> triple (stands C True 0) (pg_statements G) (\<lambda>_. stands C True 0)"
    and routine_body_law: "ar_left C \<le> N \<Longrightarrow> triple (stands C True 0) (pg_routine_body G r) (\<lambda>_. stands C True 0)"
begin

lemmas law_triples [parses] =
  not_law [THEN before] unary_law [THEN before] unary_law [THEN at_end] expr_law [THEN before] expr_law [THEN at_end]
  comma_list_moved [OF expr_law, THEN before] comma_list_moved [OF expr_law, THEN at_end]
  query_law [THEN before] statements_law [THEN before] routine_body_law [THEN before]

lemma parse_case_triple: "ar_left C \<le> N \<Longrightarrow> triple (stands C True 0) (parse_case G) (\<lambda>_. stands C True 0)"
  unfolding parse_case_def by (intro parses | rule ahead_intros | (erule stands_zero; blast) | simp)+

lemma parse_function_triple: "ar_left C \<le> N \<Longrightarrow> triple (stands C b 2) (parse_function G name) (\<lambda>_. stands C True 0)"
  unfolding parse_function_def parse_trim_def parse_call_def trim_mode_def
  by (intro parses | rule ahead_intros | (erule stands_zero; blast) | simp)+

lemma column_word: "triple (stands C b k) column_ref (\<lambda>_. stands C True 0)"
  by (rule at_end [OF column_ref_triple])

lemma function_word:
  "ar_left C \<le> N \<Longrightarrow> triple (stands C b k) (pcond (test (is_sym_at 1 ''('')) (parse_function G n) column_ref) (\<lambda>_. stands C True 0)"
  by (rule pcond_test [OF ahead_tests(2)], rule triple_pre [OF parse_function_triple])
    (auto intro: column_word elim: stands_weaken)

lemma keyword_triple: "ar_left C \<le> N \<Longrightarrow> triple (stands C b 1) (keyword_or_identifier E G k) (\<lambda>_. stands C True 0)"
  unfolding keyword_or_identifier_def
  by (intro parses function_word at_end [OF parse_case_triple] | rule ahead_intros | (erule stands_zero; blast) | simp)+

lemma parse_primary_triple: "ar_left C \<le> N \<Longrightarrow> triple (stands C b 0) (parse_primary E G) (\<lambda>_. stands C True 0)"
  unfolding parse_primary_def
  by (intro parses triple_pre [OF keyword_triple] | rule ahead_intros | (erule stands_zero; blast) | simp)+

lemmas primary_triples [parses] = parse_primary_triple [THEN before] parse_primary_triple [THEN at_end]

lemma parse_unary_triple: "ar_left C \<le> N \<Longrightarrow> triple (stands C b 0) (parse_unary E G) (\<lambda>_. stands C True 0)"
  unfolding parse_unary_def by (intro parses | rule ahead_intros | (erule stands_zero; blast) | simp)+

lemmas unary_triples [parses] = parse_unary_triple [THEN before]

lemma parse_term_triple: "ar_left C \<le> N \<Longrightarrow> triple (stands C b 0) (parse_term E G) (\<lambda>_. stands C True 0)"
  unfolding parse_term_def by (rule binary_chain_triple, rule parse_unary_triple) simp

lemma parse_additive_triple: "ar_left C \<le> N \<Longrightarrow> triple (stands C b 0) (parse_additive E G) (\<lambda>_. stands C True 0)"
  unfolding parse_additive_def by (rule binary_chain_triple, rule parse_term_triple) simp

lemmas additive_triples [parses] = parse_additive_triple [THEN before] parse_additive_triple [THEN at_end]

lemma predicate_tail_triple: "ar_left C \<le> N \<Longrightarrow> triple (stands C True 0) (predicate_tail E G e) (\<lambda>_. stands C True 0)"
  unfolding predicate_tail_def parse_is_null_def parse_between_def parse_in_def parse_like_def
  by (intro parses | rule ahead_intros | (erule stands_zero; blast) | simp)+

lemma parse_predicate_triple: "ar_left C \<le> N \<Longrightarrow> triple (stands C b 0) (parse_predicate E G) (\<lambda>_. stands C True 0)"
  unfolding parse_predicate_def parse_comparison_def
  by (intro parses at_end [OF predicate_tail_triple] | rule ahead_intros | (erule stands_zero; blast) | simp)+

lemma parse_not_triple: "ar_left C \<le> N \<Longrightarrow> triple (stands C b 0) (parse_not E G) (\<lambda>_. stands C True 0)"
  unfolding parse_not_def
  by (intro parses at_end [OF parse_predicate_triple] | rule ahead_intros | (erule stands_zero; blast) | simp)+

lemma parse_and_triple: "ar_left C \<le> N \<Longrightarrow> triple (stands C b 0) (parse_and E G) (\<lambda>_. stands C True 0)"
  unfolding parse_and_def by (rule binary_chain_triple, rule parse_not_triple) simp

lemma parse_expr_triple: "ar_left C \<le> N \<Longrightarrow> triple (stands C b 0) (parse_expr E G) (\<lambda>_. stands C True 0)"
  unfolding parse_expr_def by (rule binary_chain_triple, rule parse_and_triple) simp

lemmas expr_triples [parses] = parse_expr_triple [THEN before] parse_expr_triple [THEN at_end]

end

end
