(* ===== verification/Parse_Total.thy ===== *)
theory Parse_Total
  imports Parse_Correct
begin

text \<open>
  The triples of queries, statements and PL/SQL, and from them that \<open>parse\<close> is total: on every text it gives a
  statement or an error of Oracle.
\<close>

section \<open>Queries\<close>

lemma stands_into [simp]:
  "stands C b k (s\<lparr>ps_into := x\<rparr>) = stands C b k s"
  "stands C b k (s\<lparr>ps_into_allowed := y\<rparr>) = stands C b k s"
  "stands C b k (s\<lparr>ps_into_allowed := y, ps_into := x\<rparr>) = stands C b k s"
  by (auto simp: stands_def tokens_left_def)

lemma pmod_triple [parses]:
  "triple (stands C b k) (f ()) Q \<Longrightarrow> (\<And>s. stands C b k s \<Longrightarrow> stands C b k (g s)) \<Longrightarrow> triple (stands C b k) (pbind (pmod g) f) Q"
  "(\<And>s. stands C b k s \<Longrightarrow> R () (g s)) \<Longrightarrow> triple (stands C b k) (pmod g) R"
  by (auto simp: triple_def pmod_def pbind_def)

text \<open>The text of an expression that names a column lies in the statement.\<close>

definition in_text :: "area \<Rightarrow> nat option \<Rightarrow> nat \<Rightarrow> bool" where
  "in_text C start stop \<longleftrightarrow> (\<forall>i. start = Some i \<longrightarrow> i \<le> stop) \<and> stop \<le> length (ar_sql C)"

lemma safe_expression_name: "in_text C start stop \<Longrightarrow> safe (expression_name start stop (ar_sql C))"
  by (auto simp: expression_name_def slice_def in_text_def split: option.split)

lemma item_name_triple:
  assumes "in_text C start stop"
  shows "triple (stands C b 0) (item_name start stop e) (\<lambda>_. stands C b 0)"
proof -
  have "triple (stands C b 0) (pbind (test ps_sql) (\<lambda>sql. plift (expression_name start stop sql))) (\<lambda>_. stands C b 0)"
    using safe_expression_name [OF assms]
    by (cases "expression_name start stop (ar_sql C)"; cases "projl (expression_name start stop (ar_sql C))")
      (auto simp: triple_def pbind_def test_def plift_def stands_def)
  then show ?thesis
    unfolding item_name_def by (intro parses | (cases e; simp; intro parses) | simp)+
qed

lemma token_span:
  assumes "placed 0 sql ts" and "i \<le> j" "j < length ts"
  shows "tok_start (ts ! i) \<le> tok_end (ts ! j) \<and> tok_end (ts ! j) \<le> length sql"
proof (cases "i = j")
  case True
  then show ?thesis using assms by (auto simp: placed_def intro: less_imp_le)
next
  case False
  have "tok_start (ts ! i) < tok_end (ts ! i)" "tok_start (ts ! j) < tok_end (ts ! j)" "tok_end (ts ! j) \<le> length sql"
    using assms by (auto simp: placed_def)
  moreover have "tok_end (ts ! i) \<le> tok_start (ts ! j)"
    using assms False by (auto simp: placed_def sorted_wrt_iff_nth_less)
  ultimately show ?thesis by simp
qed

lemma ahead_lock_word [ahead_intros]: "ahead (\<lambda>s :: ('n, 'd) parser. lock_word (peek s)) 1"
proof -
  have "peek s \<noteq> None" if "lock_word (peek s)" for s :: "('n, 'd) parser" using that by (cases "peek s") auto
  then show ?thesis using ahead_tests(7) by (auto simp: ahead_def)
qed

context descent
begin

lemma returning_target_triple: "ar_left C \<le> N \<Longrightarrow> triple (stands C b 0) (returning_target E G) (\<lambda>_. stands C True 0)"
  unfolding returning_target_def by (intro parses | simp)+

lemma parse_table_factor_triple: "ar_left C \<le> N \<Longrightarrow> triple (stands C b 0) (parse_table_factor G) (\<lambda>_. stands C True 0)"
  unfolding parse_table_factor_def by (intro parses | (erule stands_zero; blast) | simp)+

lemmas factor_triples [parses] = returning_target_triple [THEN before] returning_target_triple [THEN at_end]
  parse_table_factor_triple [THEN before]

lemma named_item_triple:
  assumes "ar_left C \<le> N"
  shows "triple (stands C b 0) (pbind (test start_here) (\<lambda>start. pbind (parse_expr E G) (\<lambda>e. pbind (test end_before) (\<lambda>stop.
     pbind (plift stop) (\<lambda>stop. pbind (item_name start stop e) (\<lambda>name. pret (ItemExpr e name))))))) (\<lambda>_. stands C True 0)"
proof -
  let ?rest = "\<lambda>start e. pbind (test end_before) (\<lambda>stop.
     pbind (plift stop) (\<lambda>stop. pbind (item_name start stop e) (\<lambda>name. pret (ItemExpr e name))))"
  have "good (\<lambda>_. stands C True 0) (pbind (parse_expr E G) (?rest (start_here s)) s)" if s: "stands C b 0 s" for s
  proof -
    let ?C = "inner C (tokens_left s) (ps_binds s)"
    have "good (\<lambda>_. stands ?C True 0) (parse_expr E G s)"
      using parse_expr_triple [of ?C False] stands_here [OF s] left_le [OF s] assms by (simp add: triple_def)
    moreover have "good (\<lambda>_. stands C True 0) (?rest (start_here s) e s')" if "stands ?C True 0 s'" for e s'
    proof -
      have pos: "ps_pos s \<le> ps_pos s' - 1" "ps_pos s' - 1 < length (ar_tokens C)" "0 < ps_pos s'"
        using that s by (auto simp: stands_def tokens_left_def)
      let ?stop = "tok_end (ar_tokens C ! (ps_pos s' - 1))"
      have "in_text C (start_here s) ?stop"
        using token_span [OF _ pos(1,2), of "ar_sql C"] s by (auto simp: in_text_def start_here_def stands_def)
      moreover have "end_before s' = Inr ?stop"
        using pos that by (simp add: end_before_def index_def stands_def)
      moreover have "stands C True 0 s'" using that left_le [OF s] by (auto simp: stands_def)
      ultimately show ?thesis
        using item_name_triple [of C "start_here s" ?stop True e]
        by (auto simp: triple_def pbind_def test_def plift_def pret_def intro!: good_rbind)
    qed
    ultimately show ?thesis unfolding pbind_def [of "parse_expr E G"] by (elim good_rbind) simp
  qed
  then show ?thesis by (simp add: triple_def pbind_def [of "test start_here"] test_def [of start_here])
qed

lemma parse_select_item_triple: "ar_left C \<le> N \<Longrightarrow> triple (stands C b 0) (parse_select_item E G) (\<lambda>_. stands C True 0)"
  unfolding parse_select_item_def
  by (intro parses triple_pre [OF named_item_triple] | rule ahead_intros | (erule stands_zero; blast) | simp)+

lemmas item_triples [parses] =
  parse_select_item_triple [THEN before] parse_select_item_triple [THEN at_end]

lemma parse_join_triple: "ar_left C \<le> N \<Longrightarrow> triple (stands C b 0) (parse_join E G kind) (\<lambda>_. stands C True 0)"
  unfolding parse_join_def
  by (intro parses | rule ahead_intros | (erule stands_zero; blast) | simp)+

lemmas join_triples [parses] =
  parse_join_triple [THEN before] parse_join_triple [THEN at_end]

lemma parse_source_item_triple: "ar_left C \<le> N \<Longrightarrow> triple (stands C b 0) (parse_source_item E G) (\<lambda>_. stands C True 0)"
  unfolding parse_source_item_def parse_join_kind_def
  by (intro parses | rule ahead_intros | (erule stands_zero; blast) | simp)+

lemmas source_triples [parses] =
  parse_source_item_triple [THEN before] parse_source_item_triple [THEN at_end]

lemma select_into_triple: "ar_left C \<le> N \<Longrightarrow> triple (stands C b 0) (select_into E G) (\<lambda>_. stands C b 0)"
  unfolding select_into_def
  by (intro parses | rule ahead_intros | (erule stands_zero; blast) | simp)+

lemma parse_where_triple: "ar_left C \<le> N \<Longrightarrow> triple (stands C b 0) (parse_where E G) (\<lambda>_. stands C b 0)"
  unfolding parse_where_def
  by (intro parses | rule ahead_intros | (erule stands_zero; blast) | simp)+

lemma parse_group_by_triple: "ar_left C \<le> N \<Longrightarrow> triple (stands C b 0) (parse_group_by E G) (\<lambda>_. stands C b 0)"
  unfolding parse_group_by_def
  by (intro parses | rule ahead_intros | (erule stands_zero; blast) | simp)+

lemmas clause_triples [parses] =
  select_into_triple [THEN before] select_into_triple [THEN at_end]
  parse_where_triple [THEN before] parse_where_triple [THEN at_end]
  parse_group_by_triple [THEN before] parse_group_by_triple [THEN at_end]

lemma parse_select_triple: "ar_left C \<le> N \<Longrightarrow> triple (stands C b 0) (parse_select E G) (\<lambda>_. stands C True 0)"
  unfolding parse_select_def
  by (intro parses | rule ahead_intros | (erule stands_zero; blast) | simp)+

lemmas select_triples [parses] =
  parse_select_triple [THEN before] parse_select_triple [THEN at_end]

lemma parse_set_operand_triple: "ar_left C \<le> N \<Longrightarrow> triple (stands C b 0) (parse_set_operand E G) (\<lambda>_. stands C True 0)"
  unfolding parse_set_operand_def
  by (intro parses | rule ahead_intros | (erule stands_zero; blast) | simp)+

lemmas operand_triples [parses] =
  parse_set_operand_triple [THEN before] parse_set_operand_triple [THEN at_end]

lemma parse_set_expr_triple: "ar_left C \<le> N \<Longrightarrow> triple (stands C b 0) (parse_set_expr E G) (\<lambda>_. stands C True 0)"
  unfolding parse_set_expr_def parse_set_op_def
  by (intro parses | rule ahead_intros | (erule stands_zero; blast) | simp)+

lemma parse_order_by_triple: "ar_left C \<le> N \<Longrightarrow> triple (stands C b 0) (parse_order_by E G) (\<lambda>_. stands C b 0)"
  unfolding parse_order_by_def parse_order_item_def
  by (intro parses | rule ahead_intros | (erule stands_zero; blast) | simp)+

lemma parse_offset_triple: "ar_left C \<le> N \<Longrightarrow> triple (stands C b 0) (parse_offset E G) (\<lambda>_. stands C b 0)"
  unfolding parse_offset_def rows_word_def
  by (intro parses | rule ahead_intros | (erule stands_zero; blast) | simp)+

lemma parse_fetch_triple: "ar_left C \<le> N \<Longrightarrow> triple (stands C b 0) (parse_fetch E G) (\<lambda>_. stands C b 0)"
  unfolding parse_fetch_def rows_word_def
  by (intro parses | rule ahead_intros | (erule stands_zero; blast) | simp)+

lemma parse_for_update_triple: "triple (stands C b 0) (parse_for_update) (\<lambda>_. stands C b 0)"
  unfolding parse_for_update_def
  by (intro parses | rule ahead_intros | (erule stands_zero; blast) | simp)+

lemmas order_triples [parses] =
  parse_set_expr_triple [THEN before] parse_set_expr_triple [THEN at_end]
  parse_order_by_triple [THEN before] parse_order_by_triple [THEN at_end]
  parse_offset_triple [THEN before] parse_offset_triple [THEN at_end]
  parse_fetch_triple [THEN before] parse_fetch_triple [THEN at_end]
  parse_for_update_triple [THEN before] parse_for_update_triple [THEN at_end]

lemma parse_query_triple: "ar_left C \<le> N \<Longrightarrow> triple (stands C b 0) (parse_query E G) (\<lambda>_. stands C True 0)"
  unfolding parse_query_def
  by (intro parses | rule ahead_intros | (erule stands_zero; blast) | simp)+

lemmas query_triples [parses] =
  parse_query_triple [THEN before] parse_query_triple [THEN at_end]

end

section \<open>Statements\<close>

text \<open>A target that is a bind has one of the positions given so far.\<close>

definition target_in :: "('n, 'd) expr \<Rightarrow> nat \<Rightarrow> bool" where
  "target_in e n \<longleftrightarrow> (\<forall>i. e = Bind i \<longrightarrow> i < n)"

fun into_targets :: "('n, 'd) statement \<Rightarrow> ('n, 'd) expr list" where
  "into_targets (InsertS i) = (case ins_returning i of Some r \<Rightarrow> ret_into r | None \<Rightarrow> [])"
| "into_targets (UpdateS u) = (case upd_returning u of Some r \<Rightarrow> ret_into r | None \<Rightarrow> [])"
| "into_targets (DeleteS d) = (case del_returning d of Some r \<Rightarrow> ret_into r | None \<Rightarrow> [])"
| "into_targets _ = []"

definition stmt_read :: "area \<Rightarrow> ('n, 'd) statement \<Rightarrow> ('n, 'd) parser \<Rightarrow> bool" where
  "stmt_read C st s \<longleftrightarrow> stands C True 0 s \<and> (\<forall>e \<in> set (into_targets st). target_in e (ps_binds s))"

lemma stmt_read_plain: "stands C True k s \<Longrightarrow> into_targets st = [] \<Longrightarrow> stmt_read C st s"
  by (auto simp: stmt_read_def elim: stands_zero)

lemma column_target: "triple (stands C b 0) column_ref (\<lambda>e s. stands C True 0 s \<and> target_in e (ps_binds s))"
  unfolding column_ref_def dotted_ident_def [abs_def]
  by (intro parses conjI | rule ahead_intros | (erule stands_zero; blast) | simp add: target_in_def)+

lemma bind_target:
  assumes "stands C b 0 s" and "peek s = Some (BindTok n)"
  shows "good (\<lambda>e s. stands C True 0 s \<and> target_in e (ps_binds s)) (parse_primary E G s)"
proof -
  have "stands C b 1 s" using assms peek_at_ahead [of 0 s] by (auto simp: stands_def peek_def)
  then have "stands C True (1 - 1) (s\<lparr>ps_pos := ps_pos s + 1\<rparr>)" by (rule stands_skip) auto
  from bind_position_good [OF this, of n] show ?thesis
    using assms(2) by (simp add: parse_primary_def pbind_def test_def advance_def skip_def pmod_def pret_def target_in_def)
qed

lemmas ahead_words [ahead_intros] = ahead_zero [where c = unsupported_object] ahead_zero [where c = inline_constraint]
  ahead_zero [where c = "\<lambda>s. peek s = None"]

lemma parse_on_delete_triple: "triple (stands C b 0) (parse_on_delete) (\<lambda>_. stands C b 0)"
  unfolding parse_on_delete_def
  by (intro parses | rule ahead_intros | (erule stands_zero; blast) | simp)+

lemmas on_delete_triples [parses] =
  parse_on_delete_triple [THEN before] parse_on_delete_triple [THEN at_end]

lemma parse_reference_triple: "triple (stands C b 0) (parse_reference column) (\<lambda>_. stands C True 0)"
  unfolding parse_reference_def
  by (intro parses | rule ahead_intros | (erule stands_zero; blast) | simp)+

lemma skip_index_attributes_triple: "triple (stands C b 0) (skip_index_attributes) (\<lambda>_. stands C b 0)"
  unfolding skip_index_attributes_def
  by (intro parses | rule ahead_intros | (erule stands_zero; blast) | simp)+

lemmas index_triples [parses] =
  parse_reference_triple [THEN before] parse_reference_triple [THEN at_end]
  skip_index_attributes_triple [THEN before] skip_index_attributes_triple [THEN at_end]

lemma state_clause_triple: "triple (stands C False 0) (state_clause x) (round_end C)"
  unfolding state_clause_def
  by (intro parses | rule ahead_intros | (erule stands_zero; blast) | simp)+

lemma constraint_state_triple: "triple (stands C b 0) (constraint_state name kind) (\<lambda>_. stands C b 0)"
  unfolding constraint_state_def
  by (intro parses state_clause_triple | rule ahead_intros | (erule stands_zero; blast) | simp)+

lemma parse_constraint_name_triple: "triple (stands C b 0) (parse_constraint_name) (\<lambda>_. stands C b 0)"
  unfolding parse_constraint_name_def
  by (intro parses | rule ahead_intros | (erule stands_zero; blast) | simp)+

lemmas state_triples [parses] =
  constraint_state_triple [THEN before] constraint_state_triple [THEN at_end]
  parse_constraint_name_triple [THEN before] parse_constraint_name_triple [THEN at_end]

lemma only_state_triple: "triple (stands C b 0) (only_state) (\<lambda>_. stands C b 0)"
  unfolding only_state_def
  by (intro parses | rule ahead_intros | (erule stands_zero; blast) | simp)+

lemma default_on_null_triple: "triple (stands C b 0) (default_on_null) (\<lambda>_. stands C b 0)"
  unfolding default_on_null_def
  by (intro parses | rule ahead_intros | (erule stands_zero; blast) | simp)+

lemmas null_triples [parses] =
  only_state_triple [THEN before] only_state_triple [THEN at_end]
  default_on_null_triple [THEN before] default_on_null_triple [THEN at_end]

lemma identity_clause_triple: "triple (stands C b 0) (identity_clause) (\<lambda>_. stands C True 0)"
  unfolding identity_clause_def
  by (intro parses | rule ahead_intros | (erule stands_zero; blast) | simp)+

lemmas identity_triples [parses] =
  identity_clause_triple [THEN before] identity_clause_triple [THEN at_end]

lemma sequence_number_triple: "triple (stands C b 0) (sequence_number) (\<lambda>_. stands C True 0)"
  unfolding sequence_number_def
  by (intro parses | rule ahead_intros | (erule stands_zero; blast) | simp)+

lemmas sequence_triples [parses] =
  sequence_number_triple [THEN before] sequence_number_triple [THEN at_end]

lemma sequence_option_named_triple: "triple (stands C b 0) (sequence_option_named alter k) (\<lambda>_. stands C b 0)"
  unfolding sequence_option_named_def
  by (intro parses | rule ahead_intros | (erule stands_zero; blast) | simp)+

lemmas option_triples [parses] =
  sequence_option_named_triple [THEN before] sequence_option_named_triple [THEN at_end]

lemma parse_sequence_options_triple: "triple (stands C b 0) (parse_sequence_options alter) (\<lambda>_. stands C b 0)"
  unfolding parse_sequence_options_def
  by (intro parses | rule ahead_intros | (erule stands_zero; blast) | simp)+

lemmas options_triples [parses] =
  parse_sequence_options_triple [THEN before] parse_sequence_options_triple [THEN at_end]

lemma parse_create_index_triple: "triple (stands C b 0) (parse_create_index uniq) (stmt_read C)"
  unfolding parse_create_index_def
  by (intro parses | rule ahead_intros | (erule stmt_read_plain; simp) | simp)+

lemma refuse_object_triple [parses]: "triple (stands C b k) refuse_object Q"
  unfolding refuse_object_def by (intro parses)

lemma keep_or_drop_index_triple: "triple (stands C b 0) (keep_or_drop_index) (\<lambda>_. stands C b 0)"
  unfolding keep_or_drop_index_def
  by (intro parses | rule ahead_intros | (erule stands_zero; blast) | simp)+

lemmas drop_triples [parses] =
  keep_or_drop_index_triple [THEN before] keep_or_drop_index_triple [THEN at_end]

lemma parse_drop_triple: "triple (stands C b 1) (parse_drop) (stmt_read C)"
  unfolding parse_drop_def
  by (intro parses | rule ahead_intros | (erule stmt_read_plain; simp) | simp)+

lemma alter_drop_triple: "triple (stands C True 0) (alter_drop) (\<lambda>_. stands C True 0)"
  unfolding alter_drop_def
  by (intro parses | rule ahead_intros | (erule stands_zero; blast) | simp)+

lemma alter_enable_triple: "triple (stands C b 1) (alter_enable) (\<lambda>_. stands C True 0)"
  unfolding alter_enable_def
  by (intro parses | rule ahead_intros | (erule stands_zero; blast) | simp)+

lemma alter_modify_triple: "triple (stands C b 0) (alter_modify) (\<lambda>_. stands C True 0)"
  unfolding alter_modify_def
  by (intro parses | rule ahead_intros | (erule stands_zero; blast) | simp)+

lemmas alter_triples [parses] =
  alter_drop_triple [THEN before] alter_drop_triple [THEN at_end]
  alter_modify_triple [THEN before] alter_modify_triple [THEN at_end]

context descent
begin

lemma parse_insert_source_triple: "ar_left C \<le> N \<Longrightarrow> triple (stands C b 0) (parse_insert_source E G) (\<lambda>_. stands C True 0)"
  unfolding parse_insert_source_def
  by (intro parses | rule ahead_intros | (erule stands_zero; blast) | simp)+

lemma parse_assignment_triple: "ar_left C \<le> N \<Longrightarrow> triple (stands C b 0) (parse_assignment E G) (\<lambda>_. stands C True 0)"
  unfolding parse_assignment_def
  by (intro parses | rule ahead_intros | (erule stands_zero; blast) | simp)+

lemma parse_constraint_kind_triple: "ar_left C \<le> N \<Longrightarrow> triple (stands C b 0) (parse_constraint_kind E G column) (\<lambda>_. stands C True 0)"
  unfolding parse_constraint_kind_def constraint_columns_def
  by (intro parses | rule ahead_intros | (erule stands_zero; blast) | simp)+

lemmas kind_triples [parses] =
  parse_insert_source_triple [THEN before] parse_insert_source_triple [THEN at_end]
  parse_assignment_triple [THEN before] parse_assignment_triple [THEN at_end]
  parse_constraint_kind_triple [THEN before] parse_constraint_kind_triple [THEN at_end]

lemma parse_table_constraint_triple: "ar_left C \<le> N \<Longrightarrow> triple (stands C b 0) (parse_table_constraint E G) (\<lambda>_. stands C True 0)"
  unfolding parse_table_constraint_def
  by (intro parses | rule ahead_intros | (erule stands_zero; blast) | simp)+

lemmas constraint_triples [parses] =
  parse_table_constraint_triple [THEN before] parse_table_constraint_triple [THEN at_end]

lemma column_clause_triple: "ar_left C \<le> N \<Longrightarrow> triple (stands C False 0) (column_clause E G x) (round_end C)"
  unfolding column_clause_def
  by (intro parses | rule ahead_intros | (erule stands_zero; blast) | simp)+

lemma parse_column_def_triple: "ar_left C \<le> N \<Longrightarrow> triple (stands C b 0) (parse_column_def E G) (\<lambda>_. stands C True 0)"
  unfolding parse_column_def_def
  by (intro parses column_clause_triple | rule ahead_intros | (erule stands_zero; blast) | simp)+

lemmas column_def_triples [parses] =
  parse_column_def_triple [THEN before] parse_column_def_triple [THEN at_end]

lemma table_element_triple: "ar_left C \<le> N \<Longrightarrow> triple (stands C b 0) (table_element E G) (\<lambda>_. stands C True 0)"
  unfolding table_element_def
  by (intro parses | rule ahead_intros | (erule stands_zero; blast) | simp)+

lemmas element_triples [parses] =
  table_element_triple [THEN before] table_element_triple [THEN at_end]

lemma table_elements_triple: "ar_left C \<le> N \<Longrightarrow> triple (stands C b 0) (table_elements E G) (\<lambda>_. stands C b 0)"
  unfolding table_elements_def
  by (intro parses | rule ahead_intros | (erule stands_zero; blast) | simp)+

lemma table_as_query_triple: "ar_left C \<le> N \<Longrightarrow> triple (stands C b 0) (table_as_query E G) (\<lambda>_. stands C b 0)"
  unfolding table_as_query_def
  by (intro parses | rule ahead_intros | (erule stands_zero; blast) | simp)+

lemmas elements_triples [parses] =
  table_elements_triple [THEN before] table_elements_triple [THEN at_end]
  table_as_query_triple [THEN before] table_as_query_triple [THEN at_end]

lemma parse_create_table_triple: "ar_left C \<le> N \<Longrightarrow> triple (stands C b 0) (parse_create_table E G) (stmt_read C)"
  unfolding parse_create_table_def
  by (intro parses | rule ahead_intros | (erule stmt_read_plain; simp) | simp)+

lemma alter_add_triple: "ar_left C \<le> N \<Longrightarrow> triple (stands C True 0) (alter_add E G) (\<lambda>_. stands C True 0)"
  unfolding alter_add_def
  by (intro parses | rule ahead_intros | (erule stands_zero; blast) | simp)+

lemmas create_triples [parses] =
  alter_add_triple [THEN before] alter_add_triple [THEN at_end]

lemma parse_alter_table_triple: "ar_left C \<le> N \<Longrightarrow> triple (stands C b 2) (parse_alter_table E G) (stmt_read C)"
  unfolding parse_alter_table_def
  by (intro parses triple_pre [OF alter_enable_triple] | rule ahead_intros | (erule stmt_read_plain; simp) | simp)+

lemma target_element: "ar_left C \<le> N \<Longrightarrow> element_ok C False target_in (returning_target E G)"
  unfolding element_ok_def triple_def
proof (intro allI impI)
  fix n m and s :: "('n, 'd) parser"
  assume "stands (inner C n m) False 0 s"
  then show "good (\<lambda>e s. stands (inner C n m) True 0 s \<and> target_in e (ps_binds s)) (returning_target E G s)"
    using column_target [of "inner C n m" False] bind_target [of "inner C n m" False s]
    by (auto simp: returning_target_def pbind_def test_def triple_def plift_def split: option.split tok.split)
qed

lemma target_list:
  "ar_left C \<le> N \<Longrightarrow> triple (stands C b 0) (comma_list (returning_target E G))
     (\<lambda>es s. stands C True 0 s \<and> (\<forall>e \<in> set es. target_in e (ps_binds s)))"
  by (rule comma_list_all [OF target_element]) (auto simp: target_in_def intro: less_le_trans)

lemma returning_clause_triple:
  "ar_left C \<le> N \<Longrightarrow> triple (stands C b 0) (returning_clause E G)
     (\<lambda>r s. stands C True 0 s \<and> (\<forall>e \<in> set (ret_into r). target_in e (ps_binds s)))"
  unfolding returning_clause_def
  by (intro triple_bind [OF target_list] parses | rule ahead_intros | simp)+

lemma parse_returning_triple:
  "ar_left C \<le> N \<Longrightarrow> triple (stands C True 0) (parse_returning E G)
     (\<lambda>r s. stands C True 0 s \<and> (\<forall>x. r = Some x \<longrightarrow> (\<forall>e \<in> set (ret_into x). target_in e (ps_binds s))))"
  unfolding parse_returning_def
  by (intro parses triple_bind [OF triple_pre [OF returning_clause_triple]] | simp)+

text \<open>\<open>RETURNING\<close> ends the three statements.\<close>

lemma returning_end:
  assumes "ar_left C \<le> N" and "\<And>r. into_targets (f r) = (case r of Some x \<Rightarrow> ret_into x | None \<Rightarrow> [])"
  shows "triple (stands C True k) (pbind (parse_returning E G) (\<lambda>r. pret (f r))) (stmt_read C)"
  by (rule triple_pre [OF triple_bind [OF parse_returning_triple [OF assms(1)] triple_pret]])
    (auto simp: stmt_read_def assms(2) elim: stands_zero split: option.splits)

lemma parse_insert_triple: "ar_left C \<le> N \<Longrightarrow> triple (stands C b 1) (parse_insert E G) (stmt_read C)"
  unfolding parse_insert_def by (intro returning_end parses | rule ahead_intros | (erule stands_zero; blast) | simp)+

lemma parse_update_triple: "ar_left C \<le> N \<Longrightarrow> triple (stands C b 1) (parse_update E G) (stmt_read C)"
  unfolding parse_update_def by (intro returning_end parses | (erule stands_zero; blast) | simp)+

lemma parse_delete_triple: "ar_left C \<le> N \<Longrightarrow> triple (stands C b 1) (parse_delete E G) (stmt_read C)"
  unfolding parse_delete_def by (intro returning_end parses | (erule stands_zero; blast) | simp)+

end

section \<open>PL/SQL\<close>

lemma parse_label_triple: "triple (stands C b 0) (parse_label) (\<lambda>_. stands C b 0)"
  unfolding parse_label_def
  by (intro parses | rule ahead_intros | (erule stands_zero; blast) | simp)+

lemma dotted_name_triple: "triple (stands C b 0) (dotted_name) (\<lambda>_. stands C True 0)"
  unfolding dotted_name_def dotted_ident_def [abs_def]
  by (intro parses | rule ahead_intros | (erule stands_zero; blast) | simp)+

lemma end_semicolon_triple: "triple (stands C b 0) (end_semicolon) (\<lambda>_. stands C True 0)"
  unfolding end_semicolon_def
  by (intro parses | rule ahead_intros | (erule stands_zero; blast) | simp)+

lemma optional_name_triple: "triple (stands C b 0) (optional_name) (\<lambda>_. stands C b 0)"
  unfolding optional_name_def
  by (intro parses | rule ahead_intros | (erule stands_zero; blast) | simp)+

lemma attribute_type_triple: "triple (stands C b 0) (attribute_type) (\<lambda>_. stands C True 0)"
  unfolding attribute_type_def
  by (intro parses | rule ahead_intros | (erule stands_zero; blast) | simp)+

lemma param_mode_word_triple: "triple (stands C b 0) (param_mode_word) (\<lambda>_. stands C b 0)"
  unfolding param_mode_word_def
  by (intro parses | rule ahead_intros | (erule stands_zero; blast) | simp)+

lemmas name_triples [parses] =
  parse_label_triple [THEN before] parse_label_triple [THEN at_end]
  dotted_name_triple [THEN before] dotted_name_triple [THEN at_end]
  end_semicolon_triple [THEN before] end_semicolon_triple [THEN at_end]
  optional_name_triple [THEN before] optional_name_triple [THEN at_end]
  attribute_type_triple [THEN before] attribute_type_triple [THEN at_end]
  param_mode_word_triple [THEN before] param_mode_word_triple [THEN at_end]

lemma type_named_triple: "triple (stands C b 1) (type_named is_param open_length name) (\<lambda>_. stands C True 0)"
  unfolding type_named_def
  by (intro parses | rule ahead_intros | (erule stands_zero; blast) | simp)+

lemma parse_type_ref_triple: "triple (stands C b 0) (parse_type_ref is_param) (\<lambda>_. stands C True 0)"
  unfolding parse_type_ref_def
  by (intro parses triple_pre [OF type_named_triple] | rule ahead_intros | (erule stands_zero; blast) | simp)+

lemmas type_ref_triples [parses] =
  parse_type_ref_triple [THEN before] parse_type_ref_triple [THEN at_end]

lemma triple_case_bind [parses]:
  "(\<And>i. triple P (f i) Q) \<Longrightarrow> triple P (case e of Bind i \<Rightarrow> f i | _ \<Rightarrow> pfail x) Q"
  by (cases e) (auto intro: triple_pfail)

lemma safe_target_of: "safe (target_of e)"
  by (auto simp: target_of_def split: expr.split option.split)

lemma safe_map_rust: "(\<And>x. x \<in> set xs \<Longrightarrow> safe (f x)) \<Longrightarrow> safe (map_rust f xs)"
  by (induction xs) (auto intro!: safe_rbind)

lemma safe_named_source: "safe (named_source e)"
  by (auto simp: named_source_def split: expr.split option.split)

lemma safe_assign_target: "safe (assign_target name)"
  by (auto simp: assign_target_def split: option.split)

lemma plift_end: "safe r \<Longrightarrow> (\<And>a s. P s \<Longrightarrow> Q a s) \<Longrightarrow> triple P (plift r) Q"
  by (cases r; cases "projl r") (auto simp: triple_def plift_def)

lemmas safe_results [parses] = plift_end safe_target_of safe_named_source safe_assign_target safe_map_rust

lemma pragma_declaration_triple: "triple (stands C b 0) (pragma_declaration) (\<lambda>_. stands C True 0)"
  unfolding pragma_declaration_def
  by (intro parses | rule ahead_intros | (erule stands_zero; blast) | simp)+

lemmas pragma_triples [parses] =
  pragma_declaration_triple [THEN before] pragma_declaration_triple [THEN at_end]

context descent
begin

lemma default_value_triple: "ar_left C \<le> N \<Longrightarrow> triple (stands C b 0) (default_value E G) (\<lambda>_. stands C b 0)"
  unfolding default_value_def
  by (intro parses | rule ahead_intros | (erule stands_zero; blast) | simp)+

lemmas default_triples [parses] =
  default_value_triple [THEN before] default_value_triple [THEN at_end]

lemma parse_param_triple: "ar_left C \<le> N \<Longrightarrow> triple (stands C b 0) (parse_param E G) (\<lambda>_. stands C True 0)"
  unfolding parse_param_def
  by (intro parses | rule ahead_intros | (erule stands_zero; blast) | simp)+

lemmas param_triples [parses] =
  parse_param_triple [THEN before] parse_param_triple [THEN at_end]

lemma parse_params_triple: "ar_left C \<le> N \<Longrightarrow> triple (stands C b 0) (parse_params E G) (\<lambda>_. stands C b 0)"
  unfolding parse_params_def
  by (intro parses | rule ahead_intros | (erule stands_zero; blast) | simp)+

lemma parse_arg_triple: "ar_left C \<le> N \<Longrightarrow> triple (stands C b 0) (parse_arg E G) (\<lambda>_. stands C True 0)"
  unfolding parse_arg_def
  by (intro parses | rule ahead_intros | (erule stands_zero; blast) | simp)+

lemmas arg_triples [parses] =
  parse_params_triple [THEN before] parse_params_triple [THEN at_end]
  parse_arg_triple [THEN before] parse_arg_triple [THEN at_end]

lemma parse_args_triple: "ar_left C \<le> N \<Longrightarrow> triple (stands C b 0) (parse_args E G) (\<lambda>_. stands C b 0)"
  unfolding parse_args_def
  by (intro parses | rule ahead_intros | (erule stands_zero; blast) | simp)+

lemma parse_into_target_triple: "ar_left C \<le> N \<Longrightarrow> triple (stands C b 0) (parse_into_target E G) (\<lambda>_. stands C True 0)"
  unfolding parse_into_target_def
  by (intro parses | rule ahead_intros | (erule stands_zero; blast) | simp)+

lemmas args_triples [parses] =
  parse_args_triple [THEN before] parse_args_triple [THEN at_end]
  parse_into_target_triple [THEN before] parse_into_target_triple [THEN at_end]

lemma parse_handler_triple: "ar_left C \<le> N \<Longrightarrow> triple (stands C b 0) (parse_handler G) (\<lambda>_. stands C True 0)"
  unfolding parse_handler_def
  by (intro parses | rule ahead_intros | (erule stands_zero; blast) | simp)+

lemmas handler_triples [parses] =
  parse_handler_triple [THEN before] parse_handler_triple [THEN at_end]

lemma parse_handlers_triple: "ar_left C \<le> N \<Longrightarrow> triple (stands C b 0) (parse_handlers G) (\<lambda>_. stands C b 0)"
  unfolding parse_handlers_def
  by (intro parses | rule ahead_intros | (erule stands_zero; blast) | simp)+

lemmas handlers_triples [parses] =
  parse_handlers_triple [THEN before] parse_handlers_triple [THEN at_end]

lemma parse_block_body_triple: "ar_left C \<le> N \<Longrightarrow> triple (stands C b 0) (parse_block_body G decls) (\<lambda>_. stands C True 0)"
  unfolding parse_block_body_def
  by (intro parses | rule ahead_intros | (erule stands_zero; blast) | simp)+

lemma routine_signature_triple: "ar_left C \<le> N \<Longrightarrow> triple (stands C b 0) (routine_signature E G) (\<lambda>_. stands C True 0)"
  unfolding routine_signature_def
  by (intro parses | rule ahead_intros | (erule stands_zero; blast) | simp)+

lemmas body_triples [parses] =
  parse_block_body_triple [THEN before] parse_block_body_triple [THEN at_end]
  routine_signature_triple [THEN before] routine_signature_triple [THEN at_end]

lemma cursor_declaration_triple: "ar_left C \<le> N \<Longrightarrow> triple (stands C b 0) (cursor_declaration E G) (\<lambda>_. stands C True 0)"
  unfolding cursor_declaration_def
  by (intro parses | rule ahead_intros | (erule stands_zero; blast) | simp)+

lemma variable_declaration_triple: "ar_left C \<le> N \<Longrightarrow> triple (stands C b 0) (variable_declaration E G) (\<lambda>_. stands C True 0)"
  unfolding variable_declaration_def
  by (intro parses | rule ahead_intros | (erule stands_zero; blast) | simp)+

lemmas declaration_triples [parses] =
  cursor_declaration_triple [THEN before] cursor_declaration_triple [THEN at_end]
  variable_declaration_triple [THEN before] variable_declaration_triple [THEN at_end]

lemma parse_declaration_triple: "ar_left C \<le> N \<Longrightarrow> triple (stands C b 0) (parse_declaration E G) (\<lambda>_. stands C True 0)"
  unfolding parse_declaration_def
  by (intro parses | rule ahead_intros | (erule stands_zero; blast) | simp)+

lemmas any_declaration_triples [parses] =
  parse_declaration_triple [THEN before] parse_declaration_triple [THEN at_end]

lemma parse_declarations_triple: "ar_left C \<le> N \<Longrightarrow> triple (stands C b 0) (parse_declarations E G) (\<lambda>_. stands C b 0)"
  unfolding parse_declarations_def
  by (intro parses | rule ahead_intros | (erule stands_zero; blast) | simp)+

lemmas declarations_triples [parses] =
  parse_declarations_triple [THEN before] parse_declarations_triple [THEN at_end]

lemma parse_block_triple: "ar_left C \<le> N \<Longrightarrow> triple (stands C b 0) (parse_block E G) (\<lambda>_. stands C True 0)"
  unfolding parse_block_def
  by (intro parses | rule ahead_intros | (erule stands_zero; blast) | simp)+

lemma parse_call_statement_triple: "ar_left C \<le> N \<Longrightarrow> triple (stands C b 1) (parse_call_statement E G) (\<lambda>_. stands C True 0)"
  unfolding parse_call_statement_def
  by (intro parses | rule ahead_intros | (erule stands_zero; blast) | simp)+

lemmas block_triples [parses] =
  parse_block_triple [THEN before] parse_block_triple [THEN at_end]

end

text \<open>After \<open>AUTHID\<close> at the end of the text the position is past the tokens; then nothing more can be taken.\<close>

lemma nothing_left [simp]:
  assumes "tokens_left s = 0"
  shows "pcond (eat_kw w) m k s = k s" "pcond (test (is_kw w)) m k s = k s"
    "pcond (por (eat_kw w) d) m k s = pcond d m k s"
proof -
  have "\<not> is_kw v s" for v using assms ahead_tests(4) [of v] by (auto simp: ahead_def)
  then show "pcond (eat_kw w) m k s = k s" "pcond (test (is_kw w)) m k s = k s"
    "pcond (por (eat_kw w) d) m k s = pcond d m k s"
    by (simp_all add: pcond_def por_def pbind_def eat_kw_def eat_def test_def pret_def)
qed

lemma advance_away: "triple (stands C b 0) (pthen advance (pret r)) (\<lambda>r' s. r' = r \<and> (stands C True 0 s \<or> tokens_left s = 0))"
  unfolding triple_def
proof (intro allI impI)
  fix s :: "('n, 'd) parser"
  assume s: "stands C b 0 s"
  have "stands C True 0 (s\<lparr>ps_pos := ps_pos s + 1\<rparr>)" if "tokens_left s \<noteq> 0"
    using stands_skip [of C b 1 s 1] s that by (auto simp: stands_def)
  moreover have "tokens_left (s\<lparr>ps_pos := ps_pos s + 1\<rparr>) = 0" if "tokens_left s = 0"
    using that by (simp add: tokens_left_def)
  ultimately show "good (\<lambda>r' s. r' = r \<and> (stands C True 0 s \<or> tokens_left s = 0)) (pthen advance (pret r) s)"
    by (cases "tokens_left s = 0") (simp_all add: advance_def pbind_def test_def skip_def pmod_def pret_def)
qed

lemma routine_option_triple:
  "triple (stands C False 0) routine_option (\<lambda>r s. if isl r then stands C True 0 s \<or> tokens_left s = 0 else stands C False 0 s)"
  unfolding routine_option_def
  by (intro parses triple_post [OF triple_pre [OF advance_away]] | rule ahead_intros | (auto elim: stands_zero)[1])+

lemma routine_options_good:
  fixes s :: "('n, 'd) parser"
  assumes "stands C b k s \<or> tokens_left s = 0" and "tokens_left s < n"
  shows "good (\<lambda>_ s'. stands C b 0 s' \<or> tokens_left s' = 0) (prepeat (\<lambda>_. routine_option) n () s)"
  using assms
proof (induction n arbitrary: s k)
  case (Suc n)
  show ?case
  proof (cases "tokens_left s = 0")
    case True
    then show ?thesis by (simp add: routine_option_def pret_def)
  next
    case False
    let ?C = "inner C (tokens_left s) (ps_binds s)"
    have s: "stands C b k s" using Suc(2) False by simp
    have "good (\<lambda>r s'. if isl r then stands ?C True 0 s' \<or> tokens_left s' = 0 else stands ?C False 0 s') (routine_option s)"
      by (rule routine_option_triple [unfolded triple_def, rule_format, OF stands_here [OF s]])
    moreover have "good (\<lambda>_ s'. stands C b 0 s' \<or> tokens_left s' = 0) (prepeat (\<lambda>_. routine_option) n () s')"
      if "stands ?C True 0 s' \<or> tokens_left s' = 0" for s' :: "('n, 'd) parser"
    proof (rule Suc(1))
      show "stands C b 0 s' \<or> tokens_left s' = 0" using that by (auto intro: stands_outer [OF _ s])
      show "tokens_left s' < n" using that Suc(3) False by (auto simp: stands_def)
    qed
    ultimately show ?thesis
      using stands_outer [OF _ s] by (auto split: sum.split if_splits intro!: good_rbind)
  qed
qed simp

lemma routine_options_triple: "triple (stands C b 0) routine_options (\<lambda>_ s. stands C b 0 s \<or> tokens_left s = 0)"
  unfolding triple_def routine_options_def ploop_def by (intro allI impI, rule routine_options_good [where k = 0]) simp_all

lemma nothing_refused:
  assumes "triple (stands C b 0) (pcond (por (eat_kw v) (eat_kw w)) m (pfail e)) Q"
  shows "triple (\<lambda>s. stands C b 0 s \<or> tokens_left s = 0) (pcond (por (eat_kw v) (eat_kw w)) m (pfail e)) Q"
  using assms by (auto simp: triple_def plift_def)

text \<open>\<open>self.pos = saved\<close>: the state is again one in which the statement could start.\<close>

definition returns_to :: "area \<Rightarrow> bool \<Rightarrow> nat \<Rightarrow> nat \<Rightarrow> bool" where
  "returns_to C b k p \<longleftrightarrow> p \<le> length (ar_tokens C) \<and> k \<le> length (ar_tokens C) - p \<and>
     (if b then length (ar_tokens C) - p < ar_left C else length (ar_tokens C) - p \<le> ar_left C)"

lemma saved_before:
  "(\<And>p. returns_to C b k p \<Longrightarrow> triple (stands C b k) (f p) Q) \<Longrightarrow> triple (stands C b k) (pbind (test ps_pos) f) Q"
  by (auto simp: triple_def pbind_def test_def stands_def tokens_left_def returns_to_def)

lemma back_before:
  assumes "returns_to C b k p" and "triple (stands C b k) (f ()) Q"
  shows "triple (stands C c j) (pbind (pmod (\<lambda>s. s\<lparr>ps_pos := p\<rparr>)) f) Q"
  using assms by (auto simp: triple_def pbind_def pmod_def stands_def tokens_left_def returns_to_def)

lemma ahead_guard: "ahead c j \<Longrightarrow> ahead (\<lambda>s. p \<and> c s) j"
  by (simp add: ahead_def)

lemma from_here:
  assumes "triple (stands C b j) m (\<lambda>_. stands C c 0)" and "j \<le> k" and "\<And>a s. stands C c 0 s \<Longrightarrow> Q a s"
  shows "triple (stands C b k) m Q"
  using assms(2,3) by (auto intro!: triple_post [OF triple_pre [OF assms(1)]] elim: stands_weaken)

context descent
begin

lemma routine_body_triple:
  assumes "ar_left C \<le> N"
  shows "triple (stands C b 0) (routine_body E G r) (\<lambda>_. stands C True 0)"
  unfolding routine_body_def using assms
  by (intro triple_bind [OF routine_options_triple] nothing_refused) (intro parses | rule ahead_intros | simp)+

lemmas routine_triples [parses] =
  routine_body_triple [THEN before] routine_body_triple [THEN at_end]

lemma parse_routine_triple: "ar_left C \<le> N \<Longrightarrow> triple (stands C b 0) (parse_routine E G) (\<lambda>_. stands C True 0)"
  unfolding parse_routine_def
  by (intro parses | rule ahead_intros | (erule stands_zero; blast) | simp)+

lemmas whole_routine_triples [parses] =
  parse_routine_triple [THEN before] parse_routine_triple [THEN at_end]

lemma parse_create_routine_triple: "ar_left C \<le> N \<Longrightarrow> triple (stands C b 0) (parse_create_routine E G or_replace) (stmt_read C)"
  unfolding parse_create_routine_def
  by (intro parses | rule ahead_intros | (erule stmt_read_plain; simp) | (erule stands_zero; blast) | (erule stands_weaken; simp) | simp)+

lemma create_table_or_index_triple: "ar_left C \<le> N \<Longrightarrow> triple (stands C b 0) (create_table_or_index E G) (stmt_read C)"
  unfolding create_table_or_index_def
  by (intro parses triple_pre [OF parse_create_index_triple] triple_pre [OF parse_create_table_triple] | rule ahead_intros | (erule stmt_read_plain; simp) | (erule stands_zero; blast) | (erule stands_weaken; simp) | simp)+

lemma parse_create_triple: "ar_left C \<le> N \<Longrightarrow> triple (stands C b 1) (parse_create E G) (stmt_read C)"
  unfolding parse_create_def
  by (intro parses triple_pre [OF parse_create_routine_triple] triple_pre [OF create_table_or_index_triple] | rule ahead_intros | (erule stmt_read_plain; simp) | (erule stands_zero; blast) | (erule stands_weaken; simp) | simp)+

lemma refuse_None: "triple P (pbind (case None of None \<Rightarrow> pfail e | Some y \<Rightarrow> g y) f) Q"
  by (simp add: triple_def pbind_def plift_def)

lemma parse_alter_session_triple: "triple (stands C b 2) parse_alter_session (stmt_read C)"
  unfolding parse_alter_session_def
  by (intro refuse_None advance_any parses | (erule stmt_read_plain; simp) | (erule stands_zero; blast) | simp)+

lemma alter_table_or_index_triple: "ar_left C \<le> N \<Longrightarrow> triple (stands C b 2) (alter_table_or_index E G) (stmt_read C)"
  unfolding alter_table_or_index_def
  by (intro saved_before back_before parses parse_alter_table_triple | rule ahead_intros | assumption |
      (erule stmt_read_plain; simp) | simp)+

lemma statement_named_triple: "ar_left C \<le> N \<Longrightarrow> triple (stands C b 1) (statement_named E G first) (stmt_read C)"
  unfolding statement_named_def
  by (intro parses parse_insert_triple parse_update_triple parse_delete_triple parse_create_triple parse_drop_triple
      triple_bind [OF parse_call_statement_triple] triple_pre [OF alter_table_or_index_triple [where b = b]] triple_pre [OF parse_alter_session_triple [where b = b]]
      | rule ahead_intros | (erule stmt_read_plain; simp) | (erule stands_weaken; simp) | simp)+

lemma parse_statement_triple: "ar_left C \<le> N \<Longrightarrow> triple (stands C b 0) (parse_statement E G) (stmt_read C)"
  unfolding parse_statement_def
  by (intro parses triple_pre [OF statement_named_triple [where b = b]]
      | rule ahead_intros | (erule stmt_read_plain; simp) | (erule stands_weaken; simp) | simp)+

lemma sql_statement_triple: "ar_left C \<le> N \<Longrightarrow> triple (stands C b 0) (parse_statement E G) (\<lambda>_. stands C True 0)"
  by (rule triple_post [OF parse_statement_triple]) (auto simp: stmt_read_def)

lemmas statement_triples [parses] = sql_statement_triple [THEN before]

lemma loop_body_triple: "ar_left C \<le> N \<Longrightarrow> triple (stands C b 0) (loop_body G) (\<lambda>_. stands C True 0)"
  unfolding loop_body_def
  by (intro parses | rule ahead_intros | (erule stands_zero; blast) | simp)+

lemma guarded_statements_triple: "ar_left C \<le> N \<Longrightarrow> triple (stands C b 0) (guarded_statements E G) (\<lambda>_. stands C True 0)"
  unfolding guarded_statements_def
  by (intro parses | rule ahead_intros | (erule stands_zero; blast) | simp)+

lemmas loop_triples [parses] =
  loop_body_triple [THEN before] loop_body_triple [THEN at_end]
  guarded_statements_triple [THEN before] guarded_statements_triple [THEN at_end]

lemma parse_if_triple: "ar_left C \<le> N \<Longrightarrow> triple (stands C b 1) (parse_if E G) (\<lambda>_. stands C True 0)"
  unfolding parse_if_def
  by (intro parses | rule ahead_intros | (erule stands_zero; blast) | simp)+

lemma parse_case_stmt_triple: "ar_left C \<le> N \<Longrightarrow> triple (stands C b 1) (parse_case_stmt E G) (\<lambda>_. stands C True 0)"
  unfolding parse_case_stmt_def
  by (intro parses | rule ahead_intros | (erule stands_zero; blast) | simp)+

lemma parse_for_triple: "ar_left C \<le> N \<Longrightarrow> triple (stands C b 1) (parse_for E G label) (\<lambda>_. stands C True 0)"
  unfolding parse_for_def
  by (intro parses | rule ahead_intros | (erule stands_zero; blast) | simp)+

lemma parse_exit_triple: "ar_left C \<le> N \<Longrightarrow> triple (stands C b 1) (parse_exit E G is_exit) (\<lambda>_. stands C True 0)"
  unfolding parse_exit_def
  by (intro parses | rule ahead_intros | (erule stands_zero; blast) | simp)+

lemma parse_select_into_triple: "ar_left C \<le> N \<Longrightarrow> triple (stands C b 0) (parse_select_into E G) (\<lambda>_. stands C True 0)"
  unfolding parse_select_into_def
  by (intro parses | rule ahead_intros | (erule stands_zero; blast) | simp)+

lemma using_argument_triple: "ar_left C \<le> N \<Longrightarrow> triple (stands C b 0) (using_argument E G) (\<lambda>_. stands C True 0)"
  unfolding using_argument_def
  by (intro parses | rule ahead_intros | (erule stands_zero; blast) | simp)+

lemmas using_triples [parses] =
  using_argument_triple [THEN before] using_argument_triple [THEN at_end]
  parse_select_into_triple [THEN before] parse_select_into_triple [THEN at_end]

lemma parse_execute_immediate_triple: "ar_left C \<le> N \<Longrightarrow> triple (stands C b 2) (parse_execute_immediate E G) (\<lambda>_. stands C True 0)"
  unfolding parse_execute_immediate_def
  by (intro parses | rule ahead_intros | (erule stands_zero; blast) | simp)+

lemma parse_open_triple: "ar_left C \<le> N \<Longrightarrow> triple (stands C b 1) (parse_open E G) (\<lambda>_. stands C True 0)"
  unfolding parse_open_def
  by (intro parses | rule ahead_intros | (erule stands_zero; blast) | simp)+

lemma parse_fetch_stmt_triple: "ar_left C \<le> N \<Longrightarrow> triple (stands C b 1) (parse_fetch_stmt E G) (\<lambda>_. stands C True 0)"
  unfolding parse_fetch_stmt_def
  by (intro parses | rule ahead_intros | (erule stands_zero; blast) | simp)+

lemma assign_or_call_triple: "ar_left C \<le> N \<Longrightarrow> triple (stands C b 0) (assign_or_call E G) (\<lambda>_. stands C True 0)"
  unfolding assign_or_call_def
  by (intro parses | rule ahead_intros | (erule stands_zero; blast) | simp)+

lemma assign_bind_triple: "ar_left C \<le> N \<Longrightarrow> triple (stands C b 0) (assign_bind E G) (\<lambda>_. stands C True 0)"
  unfolding assign_bind_def
  by (intro parses | rule ahead_intros | (erule stands_zero; blast) | simp)+

lemmas assign_triples [parses] =
  assign_or_call_triple [THEN before] assign_or_call_triple [THEN at_end]
  assign_bind_triple [THEN before] assign_bind_triple [THEN at_end]

lemma execute_word:
  assumes "ar_left C \<le> N" and "triple (stands C b k) m (\<lambda>_. stands C True 0)"
  shows "triple (stands C b k) (pcond (test (\<lambda>s. p \<and> is_kw_at 1 w s)) (parse_execute_immediate E G) m) (\<lambda>_. stands C True 0)"
proof (rule pcond_test)
  show "ahead (\<lambda>s :: ('n, 'd) parser. p \<and> is_kw_at 1 w s) (Suc 1)"
    by (rule ahead_guard, rule ahead_tests)
  show "triple (stands C b (max k (Suc 1))) (parse_execute_immediate E G) (\<lambda>_. stands C True 0)"
    by (rule from_here [OF parse_execute_immediate_triple [OF assms(1)]]) auto
qed (fact assms(2))

lemma stmt_named_triple: "ar_left C \<le> N \<Longrightarrow> triple (stands C b 1) (stmt_named E G label k) (\<lambda>_. stands C True 0)"
  unfolding stmt_named_def
  by (intro execute_word parses parse_if_triple parse_case_stmt_triple parse_for_triple parse_exit_triple parse_open_triple
      parse_fetch_stmt_triple | rule ahead_intros | (erule stands_zero; blast) | simp)+

lemma plsql_statement_triple: "ar_left C \<le> N \<Longrightarrow> triple (stands C b 0) (plsql_statement E G) (\<lambda>_. stands C True 0)"
  unfolding plsql_statement_def
  by (intro parses from_here [OF stmt_named_triple] | (erule stands_zero; blast) | simp)+

lemmas plsql_triples [parses] = plsql_statement_triple [THEN before]

lemma parse_statements_triple: "ar_left C \<le> N \<Longrightarrow> triple (stands C b 0) (parse_statements E G) (\<lambda>_. stands C b 0)"
  unfolding parse_statements_def
  by (intro parses | (erule stands_zero; blast) | simp)+

end

section \<open>The whole grammar\<close>

text \<open>One level deeper, fewer tokens are left.\<close>

lemma deeper:
  fixes m :: "('n, 'd, 'r) pm"
  assumes "\<And>D. ar_left D \<le> n \<Longrightarrow> triple (stands D False 0) m (\<lambda>_. stands D c 0)" and "ar_left C \<le> Suc n"
  shows "triple (stands C True 0) m (\<lambda>_. stands C True 0)"
  unfolding triple_def
proof (intro allI impI)
  fix s :: "('n, 'd) parser"
  assume s: "stands C True 0 s"
  then have "tokens_left s \<le> n" using assms(2) by (simp add: stands_def)
  then have "good (\<lambda>_. stands (inner C (tokens_left s) (ps_binds s)) c 0) (m s)"
    using assms(1) [of "inner C (tokens_left s) (ps_binds s)"] stands_here [OF s] by (simp add: triple_def)
  then show "good (\<lambda>_. stands C True 0) (m s)"
    by (rule good_mono) (rule stands_outer [OF _ s])
qed

lemma no_tokens: "ar_left C \<le> 0 \<Longrightarrow> triple (stands C True 0) m Q"
  by (simp add: triple_def stands_def)

lemma grammar_descent:
  assumes "total_clock E"
  shows "descent E (grammar_of E n) n"
proof (induction n)
  case 0
  show ?case using assms by (intro descent.intro descent_axioms.intro no_tokens)
next
  case (Suc n)
  note deep = deeper [OF descent.parse_not_triple [OF Suc]] deeper [OF descent.parse_unary_triple [OF Suc]]
    deeper [OF descent.parse_expr_triple [OF Suc]] deeper [OF descent.parse_query_triple [OF Suc]]
    deeper [OF descent.parse_statements_triple [OF Suc]] deeper [OF descent.routine_body_triple [OF Suc]]
  show ?case
    using assms by (intro descent.intro descent_axioms.intro) (simp_all add: Let_def deep)
qed

interpretation sql_grammar: descent clock_ext "grammar_of clock_ext n" n for n
  by (rule grammar_descent) (rule clock_time.total_clock_axioms)

lemma mark_returning_ok:
  "\<forall>e \<in> set es. target_in e (length ds) \<Longrightarrow> \<exists>ds'. mark_returning es ds = Inr ds' \<and> length ds' = length ds"
proof (induction es ds rule: mark_returning.induct)
  case (2 e es ds)
  then show ?case by (cases e) (auto simp: target_in_def)
qed simp

lemma bind_dirs_ok:
  "\<forall>e \<in> set (into_targets st). target_in e n \<Longrightarrow> \<exists>ds. bind_dirs_of st n = Inr ds \<and> length ds = n"
  using mark_returning_ok [of "into_targets st" "replicate n DirIn"]
  by (cases st) (auto split: option.splits)

lemma parse_end_keeps:
  "J (ps_binds s) \<Longrightarrow> good (\<lambda>st' s'. st' = st \<and> J (ps_binds s'))
     (pthen (if u then eat_sym '';'' else pret False) (pthen parse_end (pret st)) s)"
  by (auto simp: parse_end_def pbind_def pret_def eat_sym_def eat_def pcond_def test_def skip_def pmod_def plift_def
      split: option.split)

lemma good_cases: "good Q r \<Longrightarrow> (\<exists>e. r = Inl (Err e)) \<or> (\<exists>a s. r = Inr (a, s) \<and> Q a s)"
  by (induction Q r rule: good.induct) auto

lemma parse_all_good:
  assumes "total_clock E" and "placed 0 sql ts"
  shows "good (\<lambda>st s. \<forall>e \<in> set (into_targets st). target_in e (ps_binds s)) (parse_all E (grammar_of E (length ts)) (parser_new sql ts))"
proof -
  let ?C = "\<lparr>ar_sql = sql, ar_tokens = ts, ar_left = length ts, ar_binds = 0\<rparr>"
  let ?J = "\<lambda>st n. \<forall>e \<in> set (into_targets st). target_in e n"
  have "stands ?C False 0 (parser_new sql ts)"
    using assms(2) by (auto simp: stands_def parser_new_def tokens_left_def)
  then have "good (stmt_read ?C) (parse_statement E (grammar_of E (length ts)) (parser_new sql ts))"
    by (rule descent.parse_statement_triple [OF grammar_descent [OF assms(1)], unfolded triple_def, rule_format, rotated]) simp
  then show ?thesis
    unfolding parse_all_def pbind_def [of "parse_statement E (grammar_of E (length ts))"]
  proof (rule good_rbind)
    fix st s
    assume "stmt_read ?C st s"
    then have "?J st (ps_binds s)" by (simp add: stmt_read_def)
    from parse_end_keeps [where J = "?J st" and st = st and u = "plsql_unit st", OF this]
    show "good (\<lambda>st s. ?J st (ps_binds s)) (case (st, s) of (a, s') \<Rightarrow>
        pthen (if plsql_unit a then eat_sym '';'' else pret False) (pthen parse_end (pret a)) s')"
      by (simp only: prod.case) (erule good_mono; simp)
  qed
qed

text \<open>C5: every text is parsed or refused with an error of Oracle, on the tokens' own number as fuel: the recursive
  descent ends, and no index, slice or \<open>unreachable!\<close> in it panics. What is parsed has a direction for every bind.\<close>
theorem parse_total:
  assumes "total_clock E"
  shows "(\<exists>e. parse E sql = Inl (Err e)) \<or> (\<exists>p. parse E sql = Inr p \<and> length (pd_bind_dirs p) = pd_binds p)"
proof (cases "tokenize sql")
  case (Inl f)
  then show ?thesis using tokenize_from_errors [of 0 sql f] by (auto simp: parse_def tokenize_def)
next
  case (Inr ts)
  then have "placed 0 sql ts" using tokenize_from_placed by (simp add: tokenize_def)
  from good_cases [OF parse_all_good [OF assms this]] show ?thesis
    using Inr bind_dirs_ok by (fastforce simp: parse_def)
qed

theorem parse_total_witness:
  "total_clock clock_ext \<and>
   ((\<exists>e. parse clock_ext ''SELECT'' = Inl (Err e)) \<or>
    (\<exists>p. parse clock_ext ''SELECT'' = Inr p \<and> length (pd_bind_dirs p) = pd_binds p))"
  using clock_time.total_clock_axioms parse_total [OF clock_time.total_clock_axioms, of "''SELECT''"] by blast

end
