(* ===== verification/Ttc.thy ===== *)
theory Ttc
  imports Prelude "HOL-Library.Word"
begin

text \<open>
  \<open>crates/mock-oracle-server/src/ttc.rs\<close>: the encoding of integers, byte strings and key/value pairs
  inside DATA packets. A \<open>WriteBuf\<close> is the bytes it has appended, so a writer is the list of bytes it
  adds; a \<open>ReadBuf\<close> is what is left of its buffer, so a reader takes the bytes and returns a value and
  the bytes after it. The interface of a writer and its reader is the locale \<open>codec\<close>.
\<close>

unbundle bit_operations_syntax

type_synonym byte = "8 word"

datatype io_error = InvalidData string | UnexpectedEof

type_synonym 'a reader = "byte list \<Rightarrow> (io_error, 'a \<times> byte list) rust"

definition LONG_LENGTH_INDICATOR :: byte where
  "LONG_LENGTH_INDICATOR = 254"

definition NULL_LENGTH_INDICATOR :: byte where
  "NULL_LENGTH_INDICATOR = 255"

definition MAX_SHORT_LENGTH :: nat where
  "MAX_SHORT_LENGTH = 252"

definition CHUNK_SIZE :: nat where
  "CHUNK_SIZE = 65536"

section \<open>Bytes\<close>

text \<open>\<open>to_be_bytes\<close> of a number of \<open>k\<close> bytes, and the number such bytes are.\<close>

fun be_bytes :: "nat \<Rightarrow> nat \<Rightarrow> byte list" where
  "be_bytes 0 v = []"
| "be_bytes (Suc k) v = be_bytes k (v div 256) @ [of_nat v]"

definition be_val :: "byte list \<Rightarrow> nat" where
  "be_val bs = foldl (\<lambda>acc b. acc * 256 + unat b) 0 bs"

definition byte_of :: "char \<Rightarrow> byte" where
  "byte_of c = of_nat (code c)"

definition chr_of :: "byte \<Rightarrow> char" where
  "chr_of b = char_of (unat b)"

text \<open>\<open>as_bytes\<close> of a string.\<close>

definition str_bytes :: "string \<Rightarrow> byte list" where
  "str_bytes s = map byte_of s"

text \<open>\<open>str::from_utf8\<close>: well-formed sequences of one to four bytes.\<close>

definition cont :: "byte \<Rightarrow> bool" where
  "cont b \<longleftrightarrow> 0x80 \<le> b \<and> b \<le> 0xBF"

fun utf8_ok :: "byte list \<Rightarrow> bool" where
  "utf8_ok [] = True"
| "utf8_ok (a # bs) =
     (if a < 0x80 then utf8_ok bs
      else if 0xC2 \<le> a \<and> a \<le> 0xDF then
        (case bs of b # r \<Rightarrow> cont b \<and> utf8_ok r | _ \<Rightarrow> False)
      else if 0xE0 \<le> a \<and> a \<le> 0xEF then
        (case bs of b # c # r \<Rightarrow>
           (if a = 0xE0 then 0xA0 \<le> b \<and> b \<le> 0xBF else if a = 0xED then 0x80 \<le> b \<and> b \<le> 0x9F else cont b) \<and>
           cont c \<and> utf8_ok r
         | _ \<Rightarrow> False)
      else if 0xF0 \<le> a \<and> a \<le> 0xF4 then
        (case bs of b # c # d # r \<Rightarrow>
           (if a = 0xF0 then 0x90 \<le> b \<and> b \<le> 0xBF else if a = 0xF4 then 0x80 \<le> b \<and> b \<le> 0x8F else cont b) \<and>
           cont c \<and> cont d \<and> utf8_ok r
         | _ \<Rightarrow> False)
      else False)"

definition from_utf8 :: "byte list \<Rightarrow> string option" where
  "from_utf8 bs = (if utf8_ok bs then Some (map chr_of bs) else None)"

section \<open>Reading\<close>

definition rd_bytes :: "nat \<Rightarrow> byte list reader" where
  "rd_bytes n bs =
     (if n > length bs then
        Inl (Err (InvalidData (''TTC message truncated: need '' @ nat_str n @ '' bytes, have '' @
          nat_str (length bs))))
      else Inr (take n bs, drop n bs))"

definition rd_u8 :: "byte reader" where
  "rd_u8 bs = rbind (rd_bytes 1 bs) (\<lambda>(b, rest). rbind (index b 0) (\<lambda>x. Inr (x, rest)))"

definition rd_var_int :: "nat \<Rightarrow> (64 word \<times> bool) reader" where
  "rd_var_int mx bs =
     rbind (rd_u8 bs) (\<lambda>(size, rest).
     let negative = (size AND 0x80 \<noteq> 0); n = unat (size AND 0x7f) in
     if n > mx then
       Inl (Err (InvalidData (''integer of '' @ nat_str n @ '' bytes exceeds '' @ nat_str mx)))
     else
       rbind (rd_bytes n rest) (\<lambda>(b, rest').
       Inr ((foldl (\<lambda>acc x. push_bit 8 acc OR ucast x) 0 b, negative), rest')))"

definition rd_ub2 :: "16 word reader" where
  "rd_ub2 bs = rbind (rd_var_int 2 bs) (\<lambda>((v, _), rest). Inr (ucast v, rest))"

definition rd_ub4 :: "32 word reader" where
  "rd_ub4 bs = rbind (rd_var_int 4 bs) (\<lambda>((v, _), rest). Inr (ucast v, rest))"

text \<open>The loop over the chunks of a long byte string; every round reads at least one byte.\<close>

lemma rd_bytes_length: "rd_bytes n bs = Inr (b, rest) \<Longrightarrow> length rest + n = length bs \<and> length b = n"
  by (auto simp: rd_bytes_def split: if_splits)

lemma rd_u8_length: "rd_u8 bs = Inr (x, rest) \<Longrightarrow> length rest < length bs"
  by (auto simp: rd_u8_def rbind_eq_Inr dest!: rd_bytes_length)

lemma rd_var_int_length: "rd_var_int m bs = Inr (x, rest) \<Longrightarrow> length rest < length bs"
  by (auto simp: rd_var_int_def rbind_eq_Inr Let_def split: if_splits dest!: rd_u8_length rd_bytes_length)

lemma rd_ub4_length: "rd_ub4 bs = Inr (x, rest) \<Longrightarrow> length rest < length bs"
  by (auto simp: rd_ub4_def rbind_eq_Inr dest!: rd_var_int_length)

function rd_chunks :: "byte list \<Rightarrow> byte list reader" where
  "rd_chunks out bs =
     (case rd_ub4 bs of
        Inl e \<Rightarrow> Inl e
      | Inr (chunk, rest) \<Rightarrow>
          if chunk = 0 then Inr (out, rest)
          else
            (case rd_bytes (unat chunk) rest of
               Inl e \<Rightarrow> Inl e
             | Inr (b, rest') \<Rightarrow> rd_chunks (out @ b) rest'))"
  by pat_completeness auto

termination
  by (relation "measure (\<lambda>(out, bs). length bs)") (auto dest!: rd_ub4_length rd_bytes_length)

declare rd_chunks.simps [simp del]

definition rd_bytes_with_length :: "byte list option reader" where
  "rd_bytes_with_length bs =
     rbind (rd_u8 bs) (\<lambda>(len, rest).
     if len = 0 \<or> len = NULL_LENGTH_INDICATOR then Inr (None, rest)
     else if len = LONG_LENGTH_INDICATOR then
       rbind (rd_chunks [] rest) (\<lambda>(out, rest'). Inr (Some out, rest'))
     else rbind (rd_bytes (unat len) rest) (\<lambda>(b, rest'). Inr (Some b, rest')))"

definition rd_string_with_length :: "string reader" where
  "rd_string_with_length bs =
     rbind (rd_bytes_with_length bs) (\<lambda>(b, rest).
     case from_utf8 (case b of Some x \<Rightarrow> x | None \<Rightarrow> []) of
       Some s \<Rightarrow> Inr (s, rest)
     | None \<Rightarrow> Inl (Err (InvalidData ''string is not UTF-8'')))"

text \<open>\<open>key_value\<close> reads a string behind its own UB4 length twice.\<close>

definition rd_sized_string :: "string reader" where
  "rd_sized_string bs =
     rbind (rd_ub4 bs) (\<lambda>(len, rest). if len > 0 then rd_string_with_length rest else Inr ('''', rest))"

definition rd_key_value :: "(string \<times> string \<times> 32 word) reader" where
  "rd_key_value bs =
     rbind (rd_sized_string bs) (\<lambda>(key, r1).
     rbind (rd_sized_string r1) (\<lambda>(val, r2).
     rbind (rd_ub4 r2) (\<lambda>(flags, r3). Inr ((key, val, flags), r3))))"

section \<open>Writing\<close>

definition wr_u16_be :: "16 word \<Rightarrow> byte list" where
  "wr_u16_be v = be_bytes 2 (unat v)"

definition wr_u16_le :: "16 word \<Rightarrow> byte list" where
  "wr_u16_le v = rev (be_bytes 2 (unat v))"

definition wr_var_int :: "64 word \<Rightarrow> bool \<Rightarrow> byte list" where
  "wr_var_int v negative =
     (let sign = (if negative then 0x80 else 0) in
      if v = 0 then [0]
      else if v \<le> 0xff then [1 OR sign, ucast v]
      else if v \<le> 0xffff then (2 OR sign) # wr_u16_be (ucast v)
      else if v \<le> 0xffffffff then (4 OR sign) # be_bytes 4 (unat (ucast v :: 32 word))
      else (8 OR sign) # be_bytes 8 (unat v))"

definition wr_ub2 :: "16 word \<Rightarrow> byte list" where
  "wr_ub2 v = wr_var_int (ucast v) False"

definition wr_ub4 :: "32 word \<Rightarrow> byte list" where
  "wr_ub4 v = wr_var_int (ucast v) False"

definition wr_ub8 :: "64 word \<Rightarrow> byte list" where
  "wr_ub8 v = wr_var_int v False"

text \<open>\<open>unsigned_abs\<close> of an \<open>i16\<close>.\<close>

definition wr_sb2 :: "16 word \<Rightarrow> byte list" where
  "wr_sb2 v = wr_var_int (of_nat (nat \<bar>sint v\<bar>)) (sint v < 0)"

text \<open>\<open>slice::chunks\<close>.\<close>

function chunks :: "nat \<Rightarrow> 'a list \<Rightarrow> 'a list list" where
  "chunks n xs = (if xs = [] \<or> n = 0 then [] else take n xs # chunks n (drop n xs))"
  by pat_completeness auto

termination
  by (relation "measure (\<lambda>(n, xs). length xs)") auto

declare chunks.simps [simp del]

definition wr_bytes_with_length :: "byte list \<Rightarrow> byte list" where
  "wr_bytes_with_length b =
     (if length b \<le> MAX_SHORT_LENGTH then of_nat (length b) # b
      else LONG_LENGTH_INDICATOR #
        concat (map (\<lambda>c. wr_ub4 (of_nat (length c)) @ c) (chunks CHUNK_SIZE b)) @ wr_ub4 0)"

definition wr_str_with_ub4_length :: "string \<Rightarrow> byte list" where
  "wr_str_with_ub4_length s =
     wr_ub4 (of_nat (length s)) @ (if s \<noteq> [] then wr_bytes_with_length (str_bytes s) else [])"

definition wr_key_value :: "string \<Rightarrow> string \<Rightarrow> 32 word \<Rightarrow> byte list" where
  "wr_key_value key val flags =
     wr_str_with_ub4_length key @ wr_str_with_ub4_length val @ wr_ub4 flags"

section \<open>Readers read back what writers wrote\<close>

text \<open>A value of an encoding that is \<open>ok\<close> is read back whatever follows it.\<close>

locale codec =
  fixes enc :: "'a \<Rightarrow> byte list"
    and dec :: "'a reader"
    and ok :: "'a \<Rightarrow> bool"
  assumes dec_enc: "ok a \<Longrightarrow> dec (enc a @ rest) = Inr (a, rest)"
begin

lemma dec_enc_all: "ok a \<Longrightarrow> dec (enc a) = Inr (a, [])"
  using dec_enc [of a "[]"] by simp

text \<open>No encoding is a proper prefix of another one.\<close>

lemma prefix_free: "ok a \<Longrightarrow> ok b \<Longrightarrow> enc a @ r = enc b @ s \<Longrightarrow> a = b \<and> r = s"
proof -
  assume a: "ok a" and b: "ok b" and eq: "enc a @ r = enc b @ s"
  have "Inr (a, r) = dec (enc b @ s)" using dec_enc [OF a, of r] unfolding eq by (rule sym)
  then show ?thesis unfolding dec_enc [OF b] by simp
qed

lemma enc_inj: "ok a \<Longrightarrow> ok b \<Longrightarrow> enc a = enc b \<longleftrightarrow> a = b"
  using prefix_free [of a b "[]" "[]"] by auto

end

locale codec_pair = A: codec encA decA okA + B: codec encB decB okB
  for encA :: "'a \<Rightarrow> byte list" and decA okA and encB :: "'b \<Rightarrow> byte list" and decB okB
begin

lemma dec_enc_pair:
  "okA a \<Longrightarrow> okB b \<Longrightarrow>
   rbind (decA (encA a @ encB b @ rest)) (\<lambda>(x, r). rbind (decB r) (\<lambda>(y, s). f x y s)) = f a b rest"
  by (simp add: A.dec_enc B.dec_enc)

end

lemma be_val_snoc: "be_val (bs @ [b]) = be_val bs * 256 + unat b"
  by (simp add: be_val_def)

lemma length_be_bytes [simp]: "length (be_bytes k v) = k"
  by (induction k v rule: be_bytes.induct) auto

lemma be_val_be_bytes: "be_val (be_bytes k v) = v mod 256 ^ k"
proof (induction k v rule: be_bytes.induct)
  case (2 k v)
  have "unat (of_nat v :: byte) = v mod 256" by (simp add: unat_of_nat)
  then show ?case using 2 mod_mult2_eq [of v 256 "256 ^ k"] by (simp add: be_val_snoc)
qed (simp add: be_val_def)

lemma shift_in_byte: "push_bit 8 acc OR ucast (x :: byte) = acc * 256 + of_nat (unat x)"
  for acc :: "64 word"
proof -
  have "push_bit 8 acc AND ucast x = 0"
    by (rule bit_eqI) (auto simp: bit_simps dest: bit_imp_le_length)
  then have "push_bit 8 acc OR ucast x = push_bit 8 acc + ucast x"
    by (simp add: disjunctive_add_eq_or)
  then show ?thesis by (simp add: push_bit_eq_mult)
qed

lemma fold_be_val:
  "foldl (\<lambda>acc x. push_bit 8 acc OR ucast x) 0 bs = (of_nat (be_val bs) :: 64 word)"
proof (induction bs rule: rev_induct)
  case (snoc x xs)
  then show ?case by (simp add: shift_in_byte be_val_snoc)
qed (simp add: be_val_def)

lemma rd_u8_Cons [simp]: "rd_u8 (b # rest) = Inr (b, rest)"
  by (simp add: rd_u8_def rd_bytes_def index_def)

lemma rd_bytes_append [simp]: "n = length b \<Longrightarrow> rd_bytes n (b @ rest) = Inr (b, rest)"
  by (simp add: rd_bytes_def)

lemma rd_var_int_value:
  assumes "sz AND 0x80 = 0" and "unat (sz AND 0x7f) = k" and "k \<le> mx"
  shows "rd_var_int mx (sz # be_bytes k v @ rest) = Inr ((of_nat (v mod 256 ^ k), False), rest)"
  using assms by (simp add: rd_var_int_def fold_be_val be_val_be_bytes)

lemma var_int_round_trip:
  assumes "unat v < 256 ^ mx" and "mx = 2 \<or> mx = 4 \<or> mx = 8"
  shows "rd_var_int mx (wr_var_int v False @ rest) = Inr ((v, False), rest)"
proof -
  consider "v = 0" | "v \<noteq> 0" "v \<le> 0xff" | "0xff < v" "v \<le> 0xffff" | "0xffff < v" "v \<le> 0xffffffff"
    | "0xffffffff < v" by fastforce
  then show ?thesis
  proof cases
    case 1
    then show ?thesis using rd_var_int_value [of 0 0 mx 0 rest] by (simp add: wr_var_int_def)
  next
    case 2
    then have "unat v < 256" by (simp add: word_le_nat_alt)
    then show ?thesis
      using 2 assms(2) rd_var_int_value [of 1 1 mx "unat v" rest]
      by (auto simp: wr_var_int_def unsigned_ucast_eq word_of_nat_eq_iff)
  next
    case 3
    then have "unat v < 256 ^ 2" by (simp add: word_le_nat_alt)
    then show ?thesis
      using 3 assms rd_var_int_value [of 2 2 mx "unat v" rest]
      by (auto simp: wr_var_int_def wr_u16_be_def unsigned_ucast_eq take_bit_nat_eq_self)
  next
    case 4
    then have "unat v < 256 ^ 4" "256 ^ 2 \<le> unat v" "\<not> v \<le> 0xff"
      by (simp_all add: word_le_nat_alt word_less_nat_alt)
    then show ?thesis
      using 4 assms rd_var_int_value [of 4 4 mx "unat v" rest]
      by (auto simp: wr_var_int_def unsigned_ucast_eq take_bit_nat_eq_self)
  next
    case 5
    then have "256 ^ 4 \<le> unat v" "\<not> v \<le> 0xff" "\<not> v \<le> 0xffff"
      by (simp_all add: word_less_nat_alt word_le_nat_alt)
    then show ?thesis
      using 5 assms rd_var_int_value [of 8 8 mx "unat v" rest] unsigned_less [of v]
      by (auto simp: wr_var_int_def)
  qed
qed

lemma unat_ucast_up:
  "LENGTH('b) \<ge> LENGTH('a) \<Longrightarrow> unat (ucast (v :: 'a::len word) :: 'b::len word) = unat v"
  by (simp add: unsigned_ucast_eq take_bit_nat_eq_self_iff less_le_trans [OF unsigned_less])

lemma ucast_down_up: "LENGTH('b) \<ge> LENGTH('a) \<Longrightarrow> ucast (ucast (v :: 'a::len word) :: 'b::len word) = v"
  by (rule bit_eqI) (auto simp: bit_simps dest: bit_imp_le_length)

interpretation ub2: codec wr_ub2 rd_ub2 "\<lambda>_. True"
proof
  fix v :: "16 word" and rest :: "byte list"
  have "unat (ucast v :: 64 word) < 256 ^ 2" using unsigned_less [of v] by (simp add: unat_ucast_up)
  then show "rd_ub2 (wr_ub2 v @ rest) = Inr (v, rest)"
    using var_int_round_trip [of "ucast v" 2 rest] by (simp add: rd_ub2_def wr_ub2_def ucast_down_up)
qed

interpretation ub4: codec wr_ub4 rd_ub4 "\<lambda>_. True"
proof
  fix v :: "32 word" and rest :: "byte list"
  have "unat (ucast v :: 64 word) < 256 ^ 4" using unsigned_less [of v] by (simp add: unat_ucast_up)
  then show "rd_ub4 (wr_ub4 v @ rest) = Inr (v, rest)"
    using var_int_round_trip [of "ucast v" 4 rest] by (simp add: rd_ub4_def wr_ub4_def ucast_down_up)
qed

section \<open>Byte strings\<close>

lemma chunks_concat: "n > 0 \<Longrightarrow> concat (chunks n xs) = xs"
proof (induction n xs rule: chunks.induct)
  case (1 n xs)
  then show ?case using chunks.simps [of n xs] by (cases "xs = []") auto
qed

lemma chunks_length: "c \<in> set (chunks n xs) \<Longrightarrow> 0 < length c \<and> length c \<le> n"
proof (induction n xs rule: chunks.induct)
  case (1 n xs)
  then show ?case by (auto simp: chunks.simps [of n xs] split: if_splits)
qed

lemma rd_chunks_round_trip:
  assumes "\<forall>c \<in> set cs. 0 < length c \<and> length c < 2 ^ 32"
  shows "rd_chunks out (concat (map (\<lambda>c. wr_ub4 (of_nat (length c)) @ c) cs) @ wr_ub4 0 @ rest) =
    Inr (out @ concat cs, rest)"
  using assms
proof (induction cs arbitrary: out)
  case Nil
  then show ?case by (simp add: rd_chunks.simps [of out] ub4.dec_enc)
next
  case (Cons c cs)
  have "(of_nat (length c) :: 32 word) \<noteq> 0" "unat (of_nat (length c) :: 32 word) = length c"
    using Cons.prems by (auto simp: unat_of_nat word_of_nat_eq_0_iff dest: nat_dvd_not_less)
  then show ?case using Cons by (simp add: rd_chunks.simps [of out] ub4.dec_enc)
qed

text \<open>An empty byte string is NULL on the wire.\<close>

definition opt_bytes :: "byte list option \<Rightarrow> byte list" where
  "opt_bytes b = (case b of Some x \<Rightarrow> x | None \<Rightarrow> [])"

interpretation bytes: codec "\<lambda>b. wr_bytes_with_length (opt_bytes b)" rd_bytes_with_length "\<lambda>b. b \<noteq> Some []"
proof
  fix b :: "byte list option" and rest :: "byte list"
  assume ok: "b \<noteq> Some []"
  let ?b = "opt_bytes b"
  have b: "b = (if ?b = [] then None else Some ?b)" using ok by (auto simp: opt_bytes_def split: option.splits)
  show "rd_bytes_with_length (wr_bytes_with_length ?b @ rest) = Inr (b, rest)"
  proof (cases "length ?b \<le> MAX_SHORT_LENGTH")
    case True
    then have l: "unat (of_nat (length ?b) :: byte) = length ?b"
      by (simp add: unat_of_nat MAX_SHORT_LENGTH_def)
    then have "(of_nat (length ?b) :: byte) \<noteq> 255" "(of_nat (length ?b) :: byte) \<noteq> 254"
      "(of_nat (length ?b) :: byte) = 0 \<longleftrightarrow> ?b = []"
      using True by (auto simp: MAX_SHORT_LENGTH_def dest!: arg_cong [where f = unat])
    then show ?thesis
      using True l by (subst (2) b) (auto simp: wr_bytes_with_length_def rd_bytes_with_length_def
          NULL_LENGTH_INDICATOR_def LONG_LENGTH_INDICATOR_def)
  next
    case False
    have "\<forall>c \<in> set (chunks CHUNK_SIZE ?b). 0 < length c \<and> length c < 2 ^ 32"
      using chunks_length by (fastforce simp: CHUNK_SIZE_def)
    from rd_chunks_round_trip [OF this, of "[]" rest] show ?thesis
      using False by (subst (2) b) (auto simp: wr_bytes_with_length_def rd_bytes_with_length_def
          NULL_LENGTH_INDICATOR_def LONG_LENGTH_INDICATOR_def chunks_concat CHUNK_SIZE_def MAX_SHORT_LENGTH_def)
  qed
qed

section \<open>Strings and key/value pairs\<close>

lemma chr_of_byte_of [simp]: "chr_of (byte_of c) = c"
  by (simp add: chr_of_def byte_of_def code_def unat_of_nat)

lemma str_bytes_simps [simp]: "length (str_bytes s) = length s" "str_bytes s = [] \<longleftrightarrow> s = []"
  "map chr_of (str_bytes s) = s"
  by (simp_all add: str_bytes_def comp_def)

definition str_ok :: "string \<Rightarrow> bool" where
  "str_ok s \<longleftrightarrow> utf8_ok (str_bytes s) \<and> length s < 2 ^ 32"

interpretation sized: codec wr_str_with_ub4_length rd_sized_string str_ok
proof
  fix s :: string and rest :: "byte list"
  assume ok: "str_ok s"
  have n: "unat (of_nat (length s) :: 32 word) = length s"
    using ok by (simp add: str_ok_def unat_of_nat)
  show "rd_sized_string (wr_str_with_ub4_length s @ rest) = Inr (s, rest)"
  proof (cases "s = []")
    case True
    then show ?thesis by (simp add: rd_sized_string_def wr_str_with_ub4_length_def ub4.dec_enc)
  next
    case False
    then have "(0 :: 32 word) < of_nat (length s)" using n by (simp add: word_less_nat_alt)
    then show ?thesis
      using False ok bytes.dec_enc [of "Some (str_bytes s)" rest]
      by (simp add: rd_sized_string_def wr_str_with_ub4_length_def ub4.dec_enc rd_string_with_length_def
          from_utf8_def str_ok_def opt_bytes_def)
  qed
qed

interpretation strings: codec_pair wr_str_with_ub4_length rd_sized_string str_ok
  wr_str_with_ub4_length rd_sized_string str_ok ..

interpretation key_value: codec "\<lambda>(key, val, flags). wr_key_value key val flags" rd_key_value
  "\<lambda>(key, val, flags). str_ok key \<and> str_ok val"
proof
  fix a :: "string \<times> string \<times> 32 word" and rest :: "byte list"
  assume ok: "case a of (key, val, flags) \<Rightarrow> str_ok key \<and> str_ok val"
  obtain key val flags where a: "a = (key, val, flags)" by (cases a)
  then show "rd_key_value ((case a of (key, val, flags) \<Rightarrow> wr_key_value key val flags) @ rest) = Inr (a, rest)"
    using ok by (simp add: rd_key_value_def wr_key_value_def ub4.dec_enc
        strings.dec_enc_pair [of key val "wr_ub4 flags @ rest"])
qed

section \<open>Malformed input\<close>

text \<open>A reader answers every input: with a value and a proper rest of the input, or with an error.\<close>

definition safe_reader :: "'a reader \<Rightarrow> bool" where
  "safe_reader r \<longleftrightarrow> (\<forall>bs. case r bs of
     Inl f \<Rightarrow> (\<exists>m. f = Err (InvalidData m))
   | Inr (_, rest) \<Rightarrow> \<exists>used. used \<noteq> [] \<and> bs = used @ rest)"

lemma safe_readerI:
  assumes "\<And>bs f. r bs = Inl f \<Longrightarrow> \<exists>m. f = Err (InvalidData m)"
    and "\<And>bs x rest. r bs = Inr (x, rest) \<Longrightarrow> \<exists>used. used \<noteq> [] \<and> bs = used @ rest"
  shows "safe_reader r"
  unfolding safe_reader_def using assms by (auto split: sum.split)

lemma safe_readerD:
  assumes "safe_reader r"
  shows "r bs = Inl f \<Longrightarrow> \<exists>m. f = Err (InvalidData m)"
    and "r bs = Inr (x, rest) \<Longrightarrow> \<exists>used. used \<noteq> [] \<and> bs = used @ rest"
  using assms unfolding safe_reader_def by (auto dest: spec [of _ bs])

text \<open>A reader followed by one that may read nothing is safe.\<close>

lemma safe_bind:
  assumes r: "safe_reader r"
    and g: "\<And>x bs f. g x bs = Inl f \<Longrightarrow> \<exists>m. f = Err (InvalidData m)"
    and h: "\<And>x bs y rest. g x bs = Inr (y, rest) \<Longrightarrow> \<exists>used. bs = used @ rest"
  shows "safe_reader (\<lambda>bs. rbind (r bs) (\<lambda>(x, rest). g x rest))"
proof (rule safe_readerI)
  fix bs f
  assume "rbind (r bs) (\<lambda>(x, rest). g x rest) = Inl f"
  then show "\<exists>m. f = Err (InvalidData m)" using safe_readerD(1) [OF r] g by (auto simp: rbind_eq_Inl)
next
  fix bs y rest
  assume "rbind (r bs) (\<lambda>(x, rest). g x rest) = Inr (y, rest)"
  then obtain x r1 where "r bs = Inr (x, r1)" "g x r1 = Inr (y, rest)" by (auto simp: rbind_eq_Inr)
  with safe_readerD(2) [OF r this(1)] h [OF this(2)] show "\<exists>used. used \<noteq> [] \<and> bs = used @ rest" by force
qed

lemma safe_weak:
  assumes "safe_reader r"
  shows "r bs = Inl f \<Longrightarrow> \<exists>m. f = Err (InvalidData m)" and "r bs = Inr (y, rest) \<Longrightarrow> \<exists>used. bs = used @ rest"
  using safe_readerD [OF assms] by blast+

lemma rd_bytes_safe:
  "rd_bytes n bs = Inl f \<Longrightarrow> \<exists>m. f = Err (InvalidData m)"
  "rd_bytes n bs = Inr (b, rest) \<Longrightarrow> bs = b @ rest"
  by (auto simp: rd_bytes_def split: if_splits)

lemma safe_u8: "safe_reader rd_u8"
  by (rule safe_readerI) (auto simp: rd_u8_def rbind_eq_Inl rbind_eq_Inr rd_bytes_def index_def split: if_splits,
      metis append_Cons append_Nil list.exhaust list.size(3) nth_Cons_0 drop0 drop_Suc_Cons not_less_zero list.distinct(1))

lemma safe_var_int: "safe_reader (rd_var_int mx)"
  unfolding rd_var_int_def
  by (rule safe_bind [OF safe_u8])
    (auto simp: Let_def rbind_eq_Inl rbind_eq_Inr split: if_splits dest: rd_bytes_safe)

lemma safe_ub4: "safe_reader rd_ub4"
  unfolding rd_ub4_def
  using safe_bind [OF safe_var_int, of "\<lambda>(v, _) rest. Inr (ucast v, rest)" 4] by (simp add: case_prod_unfold)

lemma safe_chunks:
  "rd_chunks out bs = Inl f \<Longrightarrow> \<exists>m. f = Err (InvalidData m)"
  "rd_chunks out bs = Inr (b, rest) \<Longrightarrow> \<exists>used. bs = used @ rest"
proof (induction out bs arbitrary: f b rest rule: rd_chunks.induct)
  case (1 out bs)
  {
    case 1
    then show ?case using safe_readerD(1) [OF safe_ub4] rd_bytes_safe(1) "1.IH"(1)
      by (fastforce simp: rd_chunks.simps [of out bs] split: sum.splits if_splits)
  next
    case 2
    then obtain c r where c: "rd_ub4 bs = Inr (c, r)"
      by (auto simp: rd_chunks.simps [of out bs] split: sum.splits)
    obtain used where used: "bs = used @ r" using safe_readerD(2) [OF safe_ub4 c] by blast
    show ?case
    proof (cases "c = 0")
      case True
      then have "rest = r" using 2 c by (simp add: rd_chunks.simps [of out bs])
      then show ?thesis using used by blast
    next
      case False
      then obtain d s where d: "rd_bytes (unat c) r = Inr (d, s)" "rd_chunks (out @ d) s = Inr (b, rest)"
        using 2 c by (auto simp: rd_chunks.simps [of out bs] split: sum.splits)
      then have "\<exists>used. s = used @ rest" using "1.IH"(2) [OF c refl False] by blast
      then show ?thesis using used rd_bytes_safe(2) [OF d(1)] by auto
    qed
  }
qed

lemma safe_bytes_with_length: "safe_reader rd_bytes_with_length"
  unfolding rd_bytes_with_length_def
  by (rule safe_bind [OF safe_u8])
    (auto simp: rbind_eq_Inl rbind_eq_Inr split: if_splits dest: rd_bytes_safe safe_chunks)

lemma safe_string_with_length: "safe_reader rd_string_with_length"
  unfolding rd_string_with_length_def
  by (rule safe_bind [OF safe_bytes_with_length]) (auto split: option.splits)

lemma safe_sized_string: "safe_reader rd_sized_string"
  unfolding rd_sized_string_def
  by (rule safe_bind [OF safe_ub4]) (auto split: if_splits dest: safe_weak [OF safe_string_with_length])

lemma safe_key_value: "safe_reader rd_key_value"
  unfolding rd_key_value_def
  by (rule safe_bind [OF safe_sized_string])
    (auto simp: rbind_eq_Inl rbind_eq_Inr dest: safe_weak [OF safe_sized_string] safe_weak [OF safe_ub4],
     metis append.assoc safe_weak(2) [OF safe_sized_string] safe_weak(2) [OF safe_ub4])

section \<open>Properties\<close>

text \<open>The variable-length integers round trip at every width: what \<open>ub2\<close> and \<open>ub4\<close> write is read back,
  whatever follows, and no encoding is a prefix of another.\<close>

theorem ub_round_trip:
  "rd_ub2 (wr_ub2 v @ rest) = Inr (v, rest) \<and> rd_ub4 (wr_ub4 w @ rest) = Inr (w, rest) \<and>
   (wr_ub4 w @ r = wr_ub4 x @ s \<longleftrightarrow> w = x \<and> r = s)"
  using ub2.dec_enc ub4.dec_enc ub4.prefix_free by auto

theorem ub_round_trip_witness: "rd_ub4 (wr_ub4 0x12345 @ [7]) = Inr (0x12345, [7])"
  using ub_round_trip [of 0 "[7]" "0x12345"] by blast

text \<open>C26: A byte string of any length is read back, in one piece or in chunks; the empty one and NULL
  are the same on the wire.\<close>

theorem bytes_round_trip:
  "rd_bytes_with_length (wr_bytes_with_length b @ rest) = Inr (if b = [] then None else Some b, rest)"
  using bytes.dec_enc [of "if b = [] then None else Some b" rest] by (auto simp: opt_bytes_def)

text \<open>A key/value pair of a login message whose strings are UTF-8 and shorter than 4 GiB is read back.\<close>

theorem key_value_round_trip:
  assumes "str_ok key" and "str_ok val"
  shows "rd_key_value (wr_key_value key val flags @ rest) = Inr ((key, val, flags), rest)"
  using key_value.dec_enc [of "(key, val, flags)" rest] assms by simp

theorem key_value_round_trip_witness:
  "rd_key_value (wr_key_value ''AUTH_SESSKEY'' ''ABCD'' 1) = Inr ((''AUTH_SESSKEY'', ''ABCD'', 1), [])"
  using key_value_round_trip [of "''AUTH_SESSKEY''" "''ABCD''" 1 "[]"]
  by (simp add: str_ok_def str_bytes_def byte_of_def code_def)

text \<open>No input makes a reader panic or loop: it answers with an error of its own or with a value and
  a proper rest of the input.\<close>

theorem readers_safe:
  "safe_reader rd_ub4 \<and> safe_reader rd_bytes_with_length \<and> safe_reader rd_string_with_length \<and>
   safe_reader rd_key_value"
  using safe_ub4 safe_bytes_with_length safe_string_with_length safe_key_value by blast

end
