(* ===== verification/Tns.thy ===== *)
theory Tns
  imports Ttc
begin

text \<open>
  \<open>crates/mock-oracle-server/src/tns.rs\<close>: the packets of Oracle Net. A connection's input is the list of
  bytes still to come (\<open>read_exact\<close> fails at its end), its output the bytes written. An underflow or
  an index out of range is a panic.
\<close>

definition CONNECT :: byte where "CONNECT = 1"

definition ACCEPT :: byte where "ACCEPT = 2"

definition REFUSE :: byte where "REFUSE = 4"

definition DATA :: byte where "DATA = 6"

definition MARKER :: byte where "MARKER = 12"

definition CONTROL :: byte where "CONTROL = 14"

definition HEADER_LEN :: nat where "HEADER_LEN = 8"

definition DATA_FLAG_EOF :: "16 word" where "DATA_FLAG_EOF = 0x0040"

definition DATA_FLAG_END_OF_REQUEST :: "16 word" where "DATA_FLAG_END_OF_REQUEST = 0x0800"

definition VERSION :: "16 word" where "VERSION = 318"

definition MIN_VERSION :: "16 word" where "MIN_VERSION = 315"

definition MAX_PACKET :: nat where "MAX_PACKET = 4 * 1024 * 1024"

record packet =
  pk_kind :: byte
  pk_body :: "byte list"

definition data_flags :: "packet \<Rightarrow> ('e, 16 word) rust" where
  "data_flags p =
     rbind (index (pk_body p) 0) (\<lambda>a. rbind (index (pk_body p) 1) (\<lambda>b. Inr (of_nat (be_val [a, b]))))"

definition packet_data :: "packet \<Rightarrow> ('e, byte list) rust" where
  "packet_data p = (if length (pk_body p) < 2 then Inl Panic else Inr (drop 2 (pk_body p)))"

section \<open>Packets on the wire\<close>

definition read_packet :: "bool \<Rightarrow> byte list \<Rightarrow> (io_error, packet option \<times> byte list) rust" where
  "read_packet large_sdu input =
     (if length input < HEADER_LEN then Inr (None, [])
      else
        let header = take HEADER_LEN input; rest = drop HEADER_LEN input;
            len = be_val (if large_sdu then take 4 header else take 2 header) in
        if \<not> (HEADER_LEN \<le> len \<and> len \<le> MAX_PACKET) then
          Inl (Err (InvalidData (''bad TNS packet length '' @ nat_str len)))
        else if length rest < len - HEADER_LEN then Inl (Err UnexpectedEof)
        else
          let p = \<lparr>pk_kind = header ! 4, pk_body = take (len - HEADER_LEN) rest\<rparr> in
          if pk_kind p = DATA \<and> length (pk_body p) < 2 then
            Inl (Err (InvalidData ''DATA packet without data flags''))
          else Inr (Some p, drop (len - HEADER_LEN) rest))"

definition write_packet :: "bool \<Rightarrow> byte \<Rightarrow> byte list \<Rightarrow> byte list" where
  "write_packet large_sdu kind body =
     (let len = HEADER_LEN + length body in
      (if large_sdu then be_bytes 4 len else be_bytes 2 len @ [0, 0]) @ [kind, 0, 0, 0] @ body)"

text \<open>\<open>sdu - HEADER_LEN - 2\<close> must not underflow, and \<open>chunks(0)\<close> panics.\<close>

definition write_data :: "nat \<Rightarrow> byte list \<Rightarrow> ('e, byte list) rust" where
  "write_data sdu payload =
     (if sdu \<le> HEADER_LEN + 2 then Inl Panic
      else Inr (concat (map (\<lambda>chunk. write_packet True DATA (be_bytes 2 0 @ chunk))
        (chunks (sdu - HEADER_LEN - 2) payload))))"

section \<open>Connecting\<close>

record connect_request =
  cr_version :: "16 word"
  cr_sdu :: "32 word"
  cr_tdu :: "32 word"
  cr_data_len :: nat
  cr_data :: "byte list"

definition u_at :: "nat \<Rightarrow> byte list \<Rightarrow> nat \<Rightarrow> nat" where
  "u_at n b off = be_val (take n (drop (off - HEADER_LEN) b))"

definition parse_connect :: "packet \<Rightarrow> (io_error, connect_request) rust" where
  "parse_connect p =
     (let b = pk_body p in
      if length b < 74 - HEADER_LEN then Inl (Err (InvalidData ''short CONNECT packet''))
      else
        let data_len = u_at 2 b 24; data_off = u_at 2 b 26 in
        Inr \<lparr>cr_version = of_nat (u_at 2 b 8), cr_sdu = of_nat (u_at 4 b 58), cr_tdu = of_nat (u_at 4 b 62),
             cr_data_len = data_len,
             cr_data = (if data_off \<ge> HEADER_LEN \<and> length b \<ge> data_off - HEADER_LEN + data_len
                        then take data_len (drop (data_off - HEADER_LEN) b) else [])\<rparr>)"

text \<open>\<open>copy_from_slice\<close> into the body at an offset from the packet start.\<close>

definition put_at :: "nat \<Rightarrow> byte list \<Rightarrow> byte list \<Rightarrow> byte list" where
  "put_at off v b = take (off - HEADER_LEN) b @ v @ drop (off - HEADER_LEN + length v) b"

definition accept_body :: "32 word \<Rightarrow> 32 word \<Rightarrow> byte list" where
  "accept_body sdu tdu =
     (put_at 36 (be_bytes 4 (unat tdu)) \<circ> put_at 32 (be_bytes 4 (unat sdu)) \<circ> put_at 23 [0x08] \<circ>
      put_at 20 (be_bytes 2 45) \<circ> put_at 18 (be_bytes 2 0) \<circ> put_at 16 (be_bytes 2 0x0100) \<circ>
      put_at 14 (be_bytes 2 (min (unat tdu) 65535)) \<circ> put_at 12 (be_bytes 2 (min (unat sdu) 65535)) \<circ>
      put_at 10 (be_bytes 2 1) \<circ> put_at 8 (be_bytes 2 (unat VERSION)))
     (replicate (45 - HEADER_LEN) 0)"

definition refuse_body :: "32 word \<Rightarrow> byte list" where
  "refuse_body err =
     (let text = ''(DESCRIPTION=(ERR='' @ nat_str (unat err) @ ''))'' in
      [4, 0] @ be_bytes 2 (length text) @ str_bytes text)"

text \<open>\<open>str::find\<close> of a string.\<close>

fun find_str :: "string \<Rightarrow> string \<Rightarrow> nat option" where
  "find_str needle [] = (if needle = [] then Some 0 else None)"
| "find_str needle (c # s) =
     (if starts_with (c # s) needle then Some 0 else map_option Suc (find_str needle s))"

definition descriptor_value :: "string \<Rightarrow> string \<Rightarrow> string option" where
  "descriptor_value descriptor key =
     (let needle = CHR ''('' # to_uppercase key @ ''='' in
      Option.bind (find_str needle (to_uppercase descriptor)) (\<lambda>i.
      map_option fst (split_at (CHR '')'') (drop (i + length needle) descriptor))))"

section \<open>What is written is read back\<close>

definition packet_ok :: "bool \<Rightarrow> packet \<Rightarrow> bool" where
  "packet_ok large_sdu p \<longleftrightarrow>
     HEADER_LEN + length (pk_body p) \<le> (if large_sdu then MAX_PACKET else 65535) \<and>
     (pk_kind p = DATA \<longrightarrow> 2 \<le> length (pk_body p))"

lemma read_write_packet:
  assumes "packet_ok large p"
  shows "read_packet large (write_packet large (pk_kind p) (pk_body p) @ rest) = Inr (Some p, rest)"
proof -
  have l: "HEADER_LEN + length (pk_body p) < 256 ^ (if large then 4 else 2)"
    using assms by (auto simp: packet_ok_def MAX_PACKET_def split: if_splits)
  have "\<exists>h. write_packet large (pk_kind p) (pk_body p) = h @ pk_body p \<and> length h = HEADER_LEN \<and>
      h ! 4 = pk_kind p \<and> be_val (if large then take 4 h else take 2 h) = HEADER_LEN + length (pk_body p)"
    using l by (intro exI [of _ "(if large then be_bytes 4 (HEADER_LEN + length (pk_body p))
        else be_bytes 2 (HEADER_LEN + length (pk_body p)) @ [0, 0]) @ [pk_kind p, 0, 0, 0]"])
      (auto simp: write_packet_def HEADER_LEN_def be_val_be_bytes nth_append)
  then obtain h where h: "write_packet large (pk_kind p) (pk_body p) = h @ pk_body p" "length h = HEADER_LEN"
    "h ! 4 = pk_kind p" "be_val (if large then take 4 h else take 2 h) = HEADER_LEN + length (pk_body p)"
    by blast
  have "HEADER_LEN + length (pk_body p) \<le> MAX_PACKET"
    using assms by (auto simp: packet_ok_def MAX_PACKET_def split: if_splits)
  then show ?thesis
    using assms h by (auto simp: read_packet_def packet_ok_def Let_def)
qed

interpretation packets: codec "\<lambda>p. write_packet large (pk_kind p) (pk_body p)"
  "\<lambda>bs. rbind (read_packet large bs) (\<lambda>(p, rest). rbind (unwrap p) (\<lambda>p. Inr (p, rest)))" "packet_ok large"
  for large
  by unfold_locales (simp add: read_write_packet)

text \<open>Reading a connection to its end.\<close>

lemma read_packet_shorter: "read_packet large bs = Inr (Some p, rest) \<Longrightarrow> length rest < length bs"
  by (auto simp: read_packet_def Let_def HEADER_LEN_def split: if_splits)

function read_packets :: "bool \<Rightarrow> byte list \<Rightarrow> (io_error, packet list) rust" where
  "read_packets large bs =
     (case read_packet large bs of
        Inl e \<Rightarrow> Inl e
      | Inr (None, _) \<Rightarrow> Inr []
      | Inr (Some p, rest) \<Rightarrow> rbind (read_packets large rest) (\<lambda>ps. Inr (p # ps)))"
  by pat_completeness auto

termination
  by (relation "measure (\<lambda>(l, bs). length bs)") (auto dest: read_packet_shorter)

declare read_packets.simps [simp del]

lemma read_packets_written:
  "\<forall>p \<in> set ps. packet_ok large p \<Longrightarrow>
   read_packets large (concat (map (\<lambda>p. write_packet large (pk_kind p) (pk_body p)) ps)) = Inr ps"
proof (induction ps)
  case Nil
  then show ?case by (simp add: read_packets.simps [of _ "[]"] read_packet_def HEADER_LEN_def)
next
  case (Cons p ps)
  then show ?case
    by (simp add: read_packets.simps [of _ "write_packet large (pk_kind p) (pk_body p) @ _"] read_write_packet)
qed

definition data_packet :: "byte list \<Rightarrow> packet" where
  "data_packet chunk = \<lparr>pk_kind = DATA, pk_body = be_bytes 2 0 @ chunk\<rparr>"

lemma data_packet_sel [simp]:
  "pk_kind (data_packet c) = DATA" "pk_body (data_packet c) = be_bytes 2 0 @ c"
  "packet_data (data_packet c) = Inr c" "data_flags (data_packet c) = Inr 0"
  by (simp_all add: data_packet_def packet_data_def data_flags_def index_def nth_append numeral_2_eq_2 be_val_def)

lemma packet_data_map: "map_rust packet_data (map data_packet cs) = Inr cs"
  by (induction cs) simp_all

text \<open>Writing a field of a body and reading it, or another one, back.\<close>

lemma length_put_at: "off - HEADER_LEN + length v \<le> length b \<Longrightarrow> length (put_at off v b) = length b"
  by (simp add: put_at_def)

lemma u_at_put_same:
  "\<lbrakk>off - HEADER_LEN \<le> length b; n = length v\<rbrakk> \<Longrightarrow> u_at n (put_at off v b) off = be_val v"
  by (simp add: u_at_def put_at_def)

lemma u_at_put_other:
  assumes "HEADER_LEN \<le> off" "HEADER_LEN \<le> off'" "off - HEADER_LEN + length v \<le> length b"
    and apart: "off' + n \<le> off \<or> off + length v \<le> off'"
  shows "u_at n (put_at off v b) off' = u_at n b off'"
proof (cases "off' + n \<le> off")
  case True
  with assms have "take n (drop (off' - HEADER_LEN) (take (off - HEADER_LEN) b @ w)) = take n (drop (off' - HEADER_LEN) b)" for w
    by (intro nth_equalityI) (auto simp: nth_append)
  then show ?thesis by (simp only: u_at_def put_at_def)
next
  case False
  with assms obtain d where "off' = off + length v + d" using le_Suc_ex by blast
  with assms show ?thesis by (simp add: u_at_def put_at_def add.commute)
qed

lemma header_below [simp]: "HEADER_LEN \<le> numeral k \<longleftrightarrow> 8 \<le> (numeral k :: nat)"
  "numeral k - HEADER_LEN = numeral k - (8::nat)"
  by (simp_all add: HEADER_LEN_def)

lemmas put_at_laws = length_put_at u_at_put_same u_at_put_other

section \<open>Properties\<close>

text \<open>A packet that fits its header is read back as it was written, whatever follows, before and after
  the switch to large lengths.\<close>

theorem packet_round_trip:
  assumes "packet_ok large p"
  shows "read_packet large (write_packet large (pk_kind p) (pk_body p) @ rest) = Inr (Some p, rest)"
  by (rule read_write_packet [OF assms])

theorem packet_round_trip_witness:
  "read_packet False (write_packet False ACCEPT [1, 2, 3]) = Inr (Some \<lparr>pk_kind = ACCEPT, pk_body = [1, 2, 3]\<rparr>, [])"
  using packet_round_trip [of False "\<lparr>pk_kind = ACCEPT, pk_body = [1, 2, 3]\<rparr>" "[]"]
  by (simp add: packet_ok_def HEADER_LEN_def)

text \<open>C25: A payload of any length is written as DATA packets none of which is longer than the session
  data unit, and reading them back gives the payload.\<close>

theorem write_data_round_trip:
  assumes "HEADER_LEN + 2 < sdu" and "sdu \<le> MAX_PACKET"
  shows "\<exists>out ps. write_data sdu payload = (Inr out :: (io_error, _) rust) \<and> read_packets True out = Inr ps \<and>
    (\<forall>p \<in> set ps. pk_kind p = DATA \<and> HEADER_LEN + length (pk_body p) \<le> sdu) \<and>
    rbind (map_rust packet_data ps) (\<lambda>ds. Inr (concat ds)) = (Inr payload :: (io_error, _) rust)"
proof -
  let ?cs = "chunks (sdu - HEADER_LEN - 2) payload"
  let ?ps = "map data_packet ?cs"
  have small: "length c \<le> sdu - HEADER_LEN - 2" if "c \<in> set ?cs" for c using chunks_length [OF that] by simp
  have ok: "\<forall>p \<in> set ?ps. packet_ok True p"
  proof
    fix p assume "p \<in> set ?ps"
    then obtain c where "p = data_packet c" "c \<in> set ?cs" by auto
    with small [of c] assms show "packet_ok True p" by (auto simp: packet_ok_def HEADER_LEN_def)
  qed
  have "write_data sdu payload = Inr (concat (map (\<lambda>p. write_packet True (pk_kind p) (pk_body p)) ?ps))"
    using assms(1) by (simp add: write_data_def comp_def)
  moreover have "\<forall>p \<in> set ?ps. pk_kind p = DATA \<and> HEADER_LEN + length (pk_body p) \<le> sdu"
    using small assms by (fastforce simp: HEADER_LEN_def)
  moreover have "concat ?cs = payload" using assms(1) by (simp add: chunks_concat)
  ultimately show ?thesis
    using read_packets_written [OF ok] by (intro exI [of _ "concat (map (\<lambda>p. write_packet True (pk_kind p) (pk_body p)) ?ps)"]
        exI [of _ ?ps]) (simp add: packet_data_map)
qed

theorem write_data_round_trip_witness:
  "\<exists>out ps. write_data 512 [1, 2, 3] = (Inr out :: (io_error, _) rust) \<and> read_packets True out = Inr ps"
  using write_data_round_trip [of 512 "[1, 2, 3]"] by (auto simp: HEADER_LEN_def MAX_PACKET_def)

text \<open>The ACCEPT packet is 45 bytes and carries the version, the full session data unit and transport
  data unit, and their values capped at 65535 in the fields older clients read.\<close>

theorem accept_layout:
  "length (accept_body s t) + HEADER_LEN = 45 \<and> u_at 2 (accept_body s t) 8 = unat VERSION \<and>
   u_at 4 (accept_body s t) 32 = unat s \<and> u_at 4 (accept_body s t) 36 = unat t \<and>
   u_at 2 (accept_body s t) 12 = min (unat s) 65535 \<and> u_at 2 (accept_body s t) 14 = min (unat t) 65535"
proof -
  have lt: "unat w < 4294967296" for w :: "32 word" using unsigned_less [of w] by simp
  have le: "unat s mod 4294967296 = unat s" "unat t mod 4294967296 = unat t" using lt [of s] lt [of t] by simp_all
  show ?thesis
    by (simp add: accept_body_def put_at_laws be_val_be_bytes le VERSION_def) (simp add: HEADER_LEN_def)
qed

end
