(* ===== verification/Oranum.thy ===== *)
theory Oranum
  imports Ttc Values Arith
begin

text \<open>
  \<open>crates/mock-oracle-server/src/oranum.rs\<close>: Oracle's \<open>NUMBER\<close> on the wire, an exponent byte followed
  by base-100 digits. Arithmetic on \<open>u8\<close> and \<open>i32\<close> panics on overflow; \<open>as u8\<close> wraps.
\<close>

definition MAX_DIGITS :: nat where "MAX_DIGITS = 40"

definition i32 :: "int \<Rightarrow> ('e, int) rust" where
  "i32 n = (if - (2 ^ 31) \<le> n \<and> n < 2 ^ 31 then Inr n else Inl Panic)"

definition u8 :: "int \<Rightarrow> ('e, byte) rust" where
  "u8 n = (if 0 \<le> n \<and> n < 256 then Inr (of_int n) else Inl Panic)"

definition parse_i32 :: "string \<Rightarrow> int option" where
  "parse_i32 s = parse_signed 32 s"

section \<open>Encoding\<close>

text \<open>The exponent after an \<open>e\<close> or \<open>E\<close>; without one it is 0.\<close>

definition split_exponent :: "string \<Rightarrow> (string \<times> int) option" where
  "split_exponent digits =
     (let not_e = (\<lambda>c. c \<noteq> CHR ''e'' \<and> c \<noteq> CHR ''E'') in
      case dropWhile not_e digits of
        [] \<Rightarrow> Some (digits, 0)
      | _ # x \<Rightarrow> map_option (\<lambda>e. (takeWhile not_e digits, e)) (parse_i32 x))"

text \<open>The decimal point moves into the exponent.\<close>

definition remove_point :: "string \<times> int \<Rightarrow> ('e, string \<times> int) rust" where
  "remove_point de =
     (case split_at (CHR ''.'') (fst de) of
        None \<Rightarrow> Inr de
      | Some (a, b) \<Rightarrow> rbind (i32 (snd de - int (length b))) (\<lambda>e. Inr (a @ b, e)))"

fun pair_bytes :: "string \<Rightarrow> ('e, byte list) rust" where
  "pair_bytes [] = Inr []"
| "pair_bytes [c] = Inl Panic"
| "pair_bytes (c # d # s) =
     rbind (u8 (int (code c) - 48)) (\<lambda>hi. rbind (u8 (int (code d) - 48)) (\<lambda>lo.
     rbind (u8 (uint hi * 10)) (\<lambda>h. rbind (u8 (uint h + uint lo)) (\<lambda>v.
     rbind (pair_bytes s) (\<lambda>vs. Inr (v # vs))))))"

definition encode_digits :: "bool \<Rightarrow> string \<Rightarrow> int \<Rightarrow> ('e, byte list option) rust" where
  "encode_digits negative digits exponent =
     (let (digits1, exponent1) = (if even exponent then (digits, exponent) else (digits @ ''0'', exponent - 1));
          digits2 = (if odd (length digits1) then CHR ''0'' # digits1 else digits1);
          exp_on_wire = (of_int ((exponent1 + int (length digits2)) div 2 + 192) :: byte) in
      rbind (pair_bytes digits2) (\<lambda>pairs.
      if negative then
        rbind (map_rust (\<lambda>d. u8 (101 - uint d)) pairs) (\<lambda>ds.
        Inr (Some (Bit_Operations.not exp_on_wire # ds @ (if length digits2 < MAX_DIGITS then [102] else []))))
      else rbind (map_rust (\<lambda>d. u8 (uint d + 1)) pairs) (\<lambda>ds. Inr (Some (exp_on_wire # ds)))))"

definition encode :: "string \<Rightarrow> ('e, byte list option) rust" where
  "encode value =
     (let negative = (take 1 value = ''-'') in
      case split_exponent (if negative then drop 1 value else value) of
        None \<Rightarrow> Inr None
      | Some de0 \<Rightarrow>
          rbind (remove_point de0) (\<lambda>de.
          let digits = dropWhile (\<lambda>c. c = CHR ''0'') (fst de);
              without_trailing = trim_end_matches (\<lambda>c. c = CHR ''0'') digits in
          rbind (i32 (snd de + int (length digits - length without_trailing))) (\<lambda>exponent.
          if length without_trailing > MAX_DIGITS \<or> exponent \<ge> 126 \<or> exponent \<le> - 131 then Inr None
          else if without_trailing = [] then Inr (Some [0x80])
          else encode_digits negative without_trailing exponent)))"

text \<open>\<open>BigDecimal::to_scientific_notation\<close> is a parameter.\<close>

definition encode_value :: "('n, 'd, 'a) ext \<Rightarrow> ('n \<Rightarrow> string) \<Rightarrow> ('n, 'd) value \<Rightarrow> ('e, byte list option) rust" where
  "encode_value E to_scientific_notation v =
     (case v of Number n \<Rightarrow> encode (to_scientific_notation (bd_normalized E n)) | _ \<Rightarrow> Inr None)"

section \<open>Decoding\<close>

text \<open>\<open>char::from(b'0' + n as u8)\<close>.\<close>

definition digit_of :: "int \<Rightarrow> ('e, char) rust" where
  "digit_of n = (let k = 48 + n mod 256 in if k < 256 then Inr (char_of (nat k)) else Inl Panic)"

text \<open>The loop over the digit bytes; \<open>first\<close> is \<open>i == 0\<close>. Division truncates.\<close>

fun decode_digits :: "bool \<Rightarrow> bool \<Rightarrow> byte list \<Rightarrow> int \<Rightarrow> ('e, string \<times> int) rust" where
  "decode_digits positive first [] decimal_point = Inr ([], decimal_point)"
| "decode_digits positive first (b # bs) decimal_point =
     (let d = (if positive then uint b - 1 else 101 - uint b);
          hi = (if d < 0 then - ((- d) div 10) else d div 10);
          lo = (if d < 0 then - ((- d) mod 10) else d mod 10);
          skip = (hi = 0 \<and> first) in
      rbind (if skip then Inr [] else rbind (digit_of hi) (\<lambda>c. Inr [c])) (\<lambda>cs.
      rbind (digit_of lo) (\<lambda>c.
      rbind (decode_digits positive False bs (if skip then decimal_point - 1 else decimal_point)) (\<lambda>(ds, p).
      Inr (cs @ c # ds, p)))))"

text \<open>The text that \<open>decode\<close> hands to \<open>parse_number\<close>, or an answer it gives at once.\<close>

definition decode_text :: "byte list \<Rightarrow> ('e, string + string) rust" where
  "decode_text buf =
     (case buf of
        [] \<Rightarrow> Inr (Inl ''0'')
      | first # rest \<Rightarrow>
          let positive = (Bit_Operations.and first 0x80 \<noteq> 0);
              exponent = uint (if positive then first else Bit_Operations.not first) - 193 in
          if rest = [] then Inr (Inl (if positive then ''0'' else ''-1e126''))
          else
            rbind (decode_digits positive True
              (if \<not> positive \<and> last rest = 102 then butlast rest else rest) (exponent * 2 + 2)) (\<lambda>(ds, p).
            Inr (Inr ((if positive then '''' else ''-'') @ ''0.'' @ ds @ ''e'' @ int_str p))))"

definition decode :: "('n, 'd, 'a) ext \<Rightarrow> byte list \<Rightarrow> string ora_result" where
  "decode E buf =
     rbind (decode_text buf) (\<lambda>s.
     case s of
       Inl t \<Rightarrow> Inr t
     | Inr t \<Rightarrow> (case parse_number E t of Some v \<Rightarrow> display E v | None \<Rightarrow> Inr ''0''))"

section \<open>Digits in pairs\<close>

fun pair_vals :: "string \<Rightarrow> nat list" where
  "pair_vals (c # d # s) = ((code c - 48) * 10 + (code d - 48)) # pair_vals s"
| "pair_vals _ = []"

definition unpair :: "nat list \<Rightarrow> string" where
  "unpair vs = concat (map (\<lambda>v. [digit_char (v div 10), digit_char (v mod 10)]) vs)"

lemma unpair_simps [simp]: "unpair [] = []" "unpair (v # vs) = digit_char (v div 10) # digit_char (v mod 10) # unpair vs"
  by (simp_all add: unpair_def)

lemma digit_char_code [simp]: "is_ascii_digit c \<Longrightarrow> digit_char (code c - 48) = c"
  by (simp add: digit_char_def is_ascii_digit_def code_def)

lemma digit_code: "is_ascii_digit c \<Longrightarrow> \<exists>d < 10. code c = 48 + d"
  unfolding is_ascii_digit_def by presburger

lemma u8_word [simp]: "0 \<le> n \<Longrightarrow> n < 256 \<Longrightarrow> u8 n = Inr (of_int n)"
  by (simp add: u8_def)

lemma uint_small [simp]: "0 \<le> n \<Longrightarrow> n < 256 \<Longrightarrow> uint (of_int n :: byte) = n"
  by (simp add: uint_word_of_int)

lemma uint_small_nat [simp]: "n < 256 \<Longrightarrow> uint (of_nat n :: byte) = int n"
  using uint_small [of "int n"] by simp

lemma pair_bytes_vals:
  "\<lbrakk>list_all is_ascii_digit ds; even (length ds)\<rbrakk> \<Longrightarrow>
   pair_bytes ds = Inr (map of_nat (pair_vals ds)) \<and> (\<forall>v \<in> set (pair_vals ds). v < 100) \<and> unpair (pair_vals ds) = ds"
proof (induction ds rule: pair_vals.induct)
  case (1 c d s)
  obtain a b where ab: "a < 10" "code c = 48 + a" "b < 10" "code d = 48 + b"
    using 1(2) digit_code [of c] digit_code [of d] by auto
  then have "(a * 10 + b) div 10 = a" "(a * 10 + b) mod 10 = b" by auto
  moreover have "digit_char a = c" "digit_char b = d"
    using ab 1(2) digit_char_code [of c] digit_char_code [of d] by simp_all
  moreover have "uint (word_of_nat a * 10 :: byte) = int a * 10" using uint_small [of "int a * 10"] ab by simp
  ultimately show ?case using 1 ab by simp
qed auto

lemma digit_of_small: "d < 10 \<Longrightarrow> digit_of (int d) = Inr (digit_char d)"
  by (simp add: digit_of_def digit_char_def Let_def nat_add_distrib)

definition wire_digit :: "bool \<Rightarrow> nat \<Rightarrow> byte" where
  "wire_digit positive v = of_int (if positive then int v + 1 else 101 - int v)"

lemma decode_digits_vals:
  "\<forall>v \<in> set vs. v < 100 \<Longrightarrow>
   decode_digits positive first (map (wire_digit positive) vs) p =
     Inr (if first \<and> vs \<noteq> [] \<and> hd vs < 10 then (tl (unpair vs), p - 1) else (unpair vs, p))"
proof (induction vs arbitrary: first p)
  case (Cons v vs)
  have d: "(if positive then uint (wire_digit positive v) - 1 else 101 - uint (wire_digit positive v)) = int v"
    using Cons.prems uint_small [of "int v + 1"] uint_small [of "101 - int v"] by (auto simp: wire_digit_def)
  have q: "int v div 10 = int (v div 10)" "int v mod 10 = int (v mod 10)" by (simp_all add: zdiv_int zmod_int)
  have "v div 10 < 10" using Cons.prems by auto
  then show ?case
    using Cons by (simp add: d q digit_of_small Let_def div_eq_0_iff)
qed simp

lemma top_bit: "0 \<le> n \<Longrightarrow> n < 256 \<Longrightarrow> bit n 7 \<longleftrightarrow> 128 \<le> (n :: int)"
proof -
  assume "0 \<le> n" "n < 256"
  then have "n div 128 = (if 128 \<le> n then 1 else 0)" by auto
  then show ?thesis by (simp add: bit_iff_odd)
qed

lemma sign_bit: "(Bit_Operations.and (b :: byte) 0x80 \<noteq> 0) = (128 \<le> uint b)"
proof -
  have "uint b < 256" using uint_lt2p [of b] by simp
  then have "bit (uint b) 7 \<longleftrightarrow> 128 \<le> uint b" by (simp add: top_bit)
  moreover have "bit b 7 = bit (uint b) 7" by (simp add: bit_unsigned_iff)
  moreover have "(0x80 :: byte) = 2 ^ 7" by simp
  ultimately show ?thesis by (simp only: and_exp_eq_0_iff_not_bit) simp
qed

lemma uint_not: "uint (Bit_Operations.not (b :: byte)) = 255 - uint b"
proof -
  have "Bit_Operations.not b = of_int (255 - uint b)" by (simp add: not_eq_complement)
  moreover have "uint b < 256" using uint_lt2p [of b] by simp
  moreover have "0 \<le> uint b" by simp
  ultimately show ?thesis using uint_small [of "255 - uint b"] by (simp only:)
qed

lemma wire_digits:
  assumes "\<forall>v \<in> set vs. v < 100"
  shows "map_rust (\<lambda>d. u8 (uint d + 1)) (map of_nat vs :: byte list) = Inr (map (wire_digit True) vs)"
    and "map_rust (\<lambda>d. u8 (101 - uint d)) (map of_nat vs :: byte list) = Inr (map (wire_digit False) vs)"
  using assms by (induction vs) (auto simp: wire_digit_def)

lemma wire_digit_not_end: "v < 100 \<Longrightarrow> wire_digit False v \<noteq> 102"
proof
  assume v: "v < 100" and "wire_digit False v = 102"
  then have "uint (wire_digit False v) = 102" by simp
  then show False using v uint_small [of "101 - int v"] by (simp add: wire_digit_def)
qed

lemma decode_wire:
  assumes vs: "\<forall>v \<in> set vs. v < 100" "vs \<noteq> []" and w: "128 \<le> w" "w < 256"
  shows "decode_text (of_int w # map (wire_digit True) vs) =
      Inr (Inr (case decode_digits True True (map (wire_digit True) vs) (w * 2 - 384) :: (unit, _) rust of
        Inr (ds, p) \<Rightarrow> ''0.'' @ ds @ ''e'' @ int_str p))" (is ?pos)
    and "decode_text (Bit_Operations.not (of_int w) # map (wire_digit False) vs @ (if b then [102] else [])) =
      Inr (Inr (case decode_digits False True (map (wire_digit False) vs) (w * 2 - 384) :: (unit, _) rust of
        Inr (ds, p) \<Rightarrow> ''-0.'' @ ds @ ''e'' @ int_str p))" (is ?neg)
proof -
  have two: "(w - 193) * 2 + 2 = w * 2 - 384" by simp
  have "uint (Bit_Operations.not (Bit_Operations.not (of_int w) :: byte)) = w" using w by simp
  then have n: "uint (Bit_Operations.not (of_int w) :: byte) = 255 - w" using w by (simp add: uint_not)
  show ?pos using vs w two by (simp add: decode_text_def sign_bit decode_digits_vals split: if_split)
  have "last (map (wire_digit False) vs) \<noteq> 102"
    using vs wire_digit_not_end [of "last vs"] by (simp add: last_map)
  then have "(if last (map (wire_digit False) vs @ (if b then [102] else [])) = 102
      then butlast (map (wire_digit False) vs @ (if b then [102] else []))
      else map (wire_digit False) vs @ (if b then [102] else [])) = map (wire_digit False) vs"
    using vs by (simp add: butlast_append)
  then show ?neg
    using vs w two n by (simp add: decode_text_def sign_bit decode_digits_vals split: if_split)
qed

text \<open>The digits as they are paired: a zero behind them makes the exponent even, a zero before them their
  number.\<close>

lemma paired_digits:
  assumes ds: "list_all is_ascii_digit ds" "ds \<noteq> []" "hd ds \<noteq> CHR ''0''"
    and ds2: "ds2 = (if odd (length ds) then CHR ''0'' # ds else ds)"
  shows "pair_vals ds2 \<noteq> [] \<and> (\<forall>v \<in> set (pair_vals ds2). v < 100) \<and>
    (if hd (pair_vals ds2) < 10 then (tl (unpair (pair_vals ds2)), p + int (length ds2) - 1)
     else (unpair (pair_vals ds2), p + int (length ds2))) = (ds, p + int (length ds))"
proof -
  have pb: "(\<forall>v \<in> set (pair_vals ds2). v < 100) \<and> unpair (pair_vals ds2) = ds2"
    using ds(1) ds2 pair_bytes_vals [of ds2] by auto
  obtain c s where c: "ds = c # s" using ds(2) by (cases ds) auto
  have z: "code (CHR ''0'') = 48" by (simp add: code_def)
  obtain d where d: "d < 10" "code c = 48 + d" "d \<noteq> 0"
    using digit_code [of c] ds(1,3) c z code_inject [of c "CHR ''0''"] by auto
  show ?thesis
  proof (cases "odd (length ds)")
    case True
    then show ?thesis using pb ds2 c d z by simp
  next
    case False
    then obtain e t where "s = e # t" using c by (cases s) auto
    moreover have "\<not> d * 10 + k < 10" for k using d by simp
    ultimately show ?thesis using False pb ds2 c d by simp
  qed
qed

lemma encode_decode_digits:
  assumes ds: "list_all is_ascii_digit ds" "ds \<noteq> []" "hd ds \<noteq> CHR ''0''"
    and e: "- 130 \<le> e" "e + int (length ds) \<le> 126"
  shows "\<exists>bs z. encode_digits neg ds e = Inr (Some bs) \<and> (z = [] \<or> z = ''0'') \<and>
    decode_text bs = Inr (Inr ((if neg then ''-'' else []) @ ''0.'' @ ds @ z @ ''e'' @ int_str (e + int (length ds))))"
proof -
  define z where "z = (if even e then [] else ''0'')"
  define e1 where "e1 = (if even e then e else e - 1)"
  define ds1 where "ds1 = ds @ z"
  define ds2 where "ds2 = (if odd (length ds1) then CHR ''0'' # ds1 else ds1)"
  define w where "w = (e1 + int (length ds2)) div 2 + 192"
  let ?vs = "pair_vals ds2"
  have ds1: "list_all is_ascii_digit ds1" "ds1 \<noteq> []" "hd ds1 \<noteq> CHR ''0''"
    using ds by (auto simp: ds1_def z_def)
  note pd = paired_digits [OF ds1 ds2_def, of e1]
  have sum: "e1 + int (length ds1) = e + int (length ds)" by (simp add: ds1_def z_def e1_def)
  have "even (e1 + int (length ds2))" by (auto simp: ds2_def e1_def)
  then have w2: "w * 2 - 384 = e1 + int (length ds2)" by (auto simp: w_def)
  have "length ds2 \<le> length ds1 + 1" "length ds1 \<ge> 1" "length ds2 \<ge> length ds1"
    using ds1(2) by (auto simp: ds2_def Suc_le_eq)
  moreover have "even (length ds2)" "even e1" by (auto simp: ds2_def e1_def)
  moreover have "- 130 \<le> e1" using e(1) by (cases "even e") (simp_all add: e1_def, presburger)
  ultimately have "- 128 \<le> e1 + int (length ds2)" "e1 + int (length ds2) \<le> 127"
    using sum e(2) by presburger+
  then have w: "128 \<le> w" "w < 256" using w2 by auto
  have enc: "encode_digits neg ds e = rbind (pair_bytes ds2) (\<lambda>pairs.
      if neg then rbind (map_rust (\<lambda>d. u8 (101 - uint d)) pairs) (\<lambda>ds.
        Inr (Some (Bit_Operations.not (of_int w) # ds @ (if length ds2 < MAX_DIGITS then [102] else []))))
      else rbind (map_rust (\<lambda>d. u8 (uint d + 1)) pairs) (\<lambda>ds. Inr (Some (of_int w # ds))))"
    by (cases "even e") (simp_all only: encode_digits_def Let_def split_conv if_True if_False w_def e1_def ds2_def ds1_def
        z_def append_Nil2 simp_thms)
  have pair: "list_all is_ascii_digit ds2" "even (length ds2)" using ds1 by (auto simp: ds2_def)
  have "encode_digits neg ds e = Inr (Some (if neg
      then Bit_Operations.not (of_int w) # map (wire_digit False) ?vs @ (if length ds2 < MAX_DIGITS then [102] else [])
      else of_int w # map (wire_digit True) ?vs))"
    using pd pair by (simp add: enc wire_digits pair_bytes_vals)
  moreover have "decode_digits pos True (map (wire_digit pos) ?vs) (w * 2 - 384) = (Inr (ds1, e + int (length ds)) :: (unit, _) rust)" for pos
    using pd by (simp add: decode_digits_vals w2 sum)
  then have "decode_text (if neg
      then Bit_Operations.not (of_int w) # map (wire_digit False) ?vs @ (if length ds2 < MAX_DIGITS then [102] else [])
      else of_int w # map (wire_digit True) ?vs) =
      Inr (Inr ((if neg then ''-'' else []) @ ''0.'' @ ds @ z @ ''e'' @ int_str (e + int (length ds))))"
    using pd w by (cases neg) (simp_all add: decode_wire ds1_def)
  moreover have "z = [] \<or> z = ''0''" by (simp add: z_def)
  ultimately show ?thesis by blast
qed

section \<open>Properties\<close>

lemma i32_small [simp]: "- 1000 \<le> n \<Longrightarrow> n \<le> 1000 \<Longrightarrow> i32 n = Inr n"
  by (simp add: i32_def)

lemma digit_not: "is_ascii_digit c \<Longrightarrow> c \<noteq> CHR ''e'' \<and> c \<noteq> CHR ''E'' \<and> c \<noteq> CHR ''.'' \<and> c \<noteq> CHR ''-''"
  by (auto simp: is_ascii_digit_def code_def)

lemma split_exponent_sci:
  assumes "\<forall>c \<in> set m. c \<noteq> CHR ''e'' \<and> c \<noteq> CHR ''E''" and "parse_i32 x = Some k"
  shows "split_exponent (m @ CHR ''E'' # x) = Some (m, k)"
proof -
  let ?P = "\<lambda>c. c \<noteq> CHR ''e'' \<and> c \<noteq> CHR ''E''"
  have "dropWhile ?P (m @ CHR ''E'' # x) = CHR ''E'' # x" "takeWhile ?P (m @ CHR ''E'' # x) = m"
    using assms(1) by (simp_all add: dropWhile_append2 takeWhile_append2)
  then show ?thesis using assms(2) by (simp add: split_exponent_def)
qed

lemma remove_point_sci:
  assumes "CHR ''.'' \<notin> set a" "CHR ''.'' \<notin> set b" and "- 1000 \<le> k - int (length b)" "k - int (length b) \<le> 1000"
  shows "remove_point (a @ (if b = [] then [] else CHR ''.'' # b), k) = Inr (a @ b, k - int (length b))"
proof (cases "b = []")
  case True
  then show ?thesis using assms split_at_None [of "CHR ''.''" a] by (simp add: remove_point_def)
next
  case False
  then show ?thesis using assms by (simp add: remove_point_def split_at_append)
qed

lemma no_trailing: "ds \<noteq> [] \<Longrightarrow> last ds \<noteq> z \<Longrightarrow> trim_end_matches (\<lambda>c. c = z) ds = ds"
  by (cases ds rule: rev_cases) (simp_all add: trim_end_matches_def)

lemma encode_plain:
  assumes "split_exponent t = Some de" and "take 1 t \<noteq> ''-''" and "remove_point de = (Inr (ds, e) :: ('e, _) rust)"
    and "ds \<noteq> []" "hd ds \<noteq> CHR ''0''" "last ds \<noteq> CHR ''0''" and "length ds \<le> MAX_DIGITS" "- 130 \<le> e" "e \<le> 125"
  shows "encode ((if neg then ''-'' else []) @ t) = (encode_digits neg ds e :: ('e, _) rust)"
proof -
  have "dropWhile (\<lambda>c. c = CHR ''0'') ds = ds" using assms(4,5) by (cases ds) auto
  moreover have "trim_end_matches (\<lambda>c. c = CHR ''0'') ds = ds" using assms(4,6) by (rule no_trailing)
  ultimately show ?thesis using assms by (cases neg) (simp_all add: encode_def Let_def)
qed




end
