(* ===== verification/Wire_Base.thy ===== *)
theory Wire_Base
  imports Tns Oranum Session_Run Parse_Plsql
begin

text \<open>
  The free functions of \<open>crates/mock-oracle-server/src/session.rs\<close>: how binds, rows, columns, errors and dates
  are read from requests and written into replies. A writer is the bytes it appends; it is a result where
  the code can panic or fail.
\<close>

section \<open>Constants\<close>

definition MSG_PROTOCOL :: byte where "MSG_PROTOCOL = 1"
definition MSG_DATA_TYPES :: byte where "MSG_DATA_TYPES = 2"
definition MSG_FUNCTION :: byte where "MSG_FUNCTION = 3"
definition MSG_ERROR :: byte where "MSG_ERROR = 4"
definition MSG_ROW_HEADER :: byte where "MSG_ROW_HEADER = 6"
definition MSG_ROW_DATA :: byte where "MSG_ROW_DATA = 7"
definition MSG_IO_VECTOR :: byte where "MSG_IO_VECTOR = 11"
definition MSG_PARAMETER :: byte where "MSG_PARAMETER = 8"
definition MSG_STATUS :: byte where "MSG_STATUS = 9"
definition MSG_DESCRIBE_INFO :: byte where "MSG_DESCRIBE_INFO = 16"
definition MSG_PIGGYBACK :: byte where "MSG_PIGGYBACK = 17"

definition TYPE_VARCHAR :: byte where "TYPE_VARCHAR = 1"
definition TYPE_NUMBER :: byte where "TYPE_NUMBER = 2"
definition TYPE_BINARY_INTEGER :: byte where "TYPE_BINARY_INTEGER = 3"
definition TYPE_DATE :: byte where "TYPE_DATE = 12"
definition TYPE_CHAR :: byte where "TYPE_CHAR = 96"
definition TYPE_TIMESTAMP :: byte where "TYPE_TIMESTAMP = 180"
definition TYPE_TIMESTAMP_TZ :: byte where "TYPE_TIMESTAMP_TZ = 181"
definition TYPE_TIMESTAMP_LTZ :: byte where "TYPE_TIMESTAMP_LTZ = 231"
definition TYPE_BOOLEAN :: byte where "TYPE_BOOLEAN = 252"

definition BIND_DIR_OUTPUT :: byte where "BIND_DIR_OUTPUT = 16"
definition BIND_DIR_INPUT :: byte where "BIND_DIR_INPUT = 32"
definition BIND_DIR_INPUT_OUTPUT :: byte where "BIND_DIR_INPUT_OUTPUT = 48"

definition ESCAPE_CHAR :: byte where "ESCAPE_CHAR = 253"
definition CHARSET_UTF8 :: "16 word" where "CHARSET_UTF8 = 873"
definition CHARSET_UTF16 :: "16 word" where "CHARSET_UTF16 = 2000"
definition TTC_FIELD_VERSION :: byte where "TTC_FIELD_VERSION = 12"
definition COMPILE_CAPS_LEN :: nat where "COMPILE_CAPS_LEN = 53"
definition CCAP_FIELD_VERSION :: nat where "CCAP_FIELD_VERSION = 7"
definition RUNTIME_CAPS_LEN :: nat where "RUNTIME_CAPS_LEN = 7"
definition RCAP_TTC :: nat where "RCAP_TTC = 6"
definition RCAP_TTC_32K :: byte where "RCAP_TTC_32K = 0x04"

definition ORA_NO_DATA_FOUND :: nat where "ORA_NO_DATA_FOUND = 1403"

record bind_meta =
  bm_ora_type :: byte
  bm_max_size :: "32 word"

abbreviation io_invalid :: "string \<Rightarrow> (io_error, 'r) rust" where
  "io_invalid m \<equiv> Inl (Err (InvalidData m))"

text \<open>What a function computes that has no error to return: it gives a value or panics.\<close>

definition infallible :: "('e, 'r) rust \<Rightarrow> ('f, 'r) rust" where
  "infallible r = (case r of Inr x \<Rightarrow> Inr x | Inl Diverges \<Rightarrow> Inl Diverges | Inl _ \<Rightarrow> Inl Panic)"

section \<open>Text\<close>

text \<open>\<open>String::from_utf8_lossy\<close>: at a byte, whether a character starts there and how many bytes belong to it, or
  to the longest start of one, which is replaced by U+FFFD.\<close>

definition second_ok :: "byte \<Rightarrow> byte \<Rightarrow> bool" where
  "second_ok a b \<longleftrightarrow>
     (if a = 0xE0 then 0xA0 \<le> b \<and> b \<le> 0xBF else if a = 0xED then 0x80 \<le> b \<and> b \<le> 0x9F
      else if a = 0xF0 then 0x90 \<le> b \<and> b \<le> 0xBF else if a = 0xF4 then 0x80 \<le> b \<and> b \<le> 0x8F else cont b)"

definition utf8_step :: "byte \<Rightarrow> byte list \<Rightarrow> bool \<times> nat" where
  "utf8_step a bs =
     (if a < 0x80 then (True, 1)
      else if 0xC2 \<le> a \<and> a \<le> 0xDF then
        (case bs of b # _ \<Rightarrow> if cont b then (True, 2) else (False, 1) | [] \<Rightarrow> (False, 1))
      else if 0xE0 \<le> a \<and> a \<le> 0xEF then
        (case bs of
           b # r \<Rightarrow>
             if \<not> second_ok a b then (False, 1)
             else (case r of c # _ \<Rightarrow> if cont c then (True, 3) else (False, 2) | [] \<Rightarrow> (False, 2))
         | [] \<Rightarrow> (False, 1))
      else if 0xF0 \<le> a \<and> a \<le> 0xF4 then
        (case bs of
           b # r \<Rightarrow>
             if \<not> second_ok a b then (False, 1)
             else
               (case r of
                  c # q \<Rightarrow>
                    if \<not> cont c then (False, 2)
                    else (case q of d # _ \<Rightarrow> if cont d then (True, 4) else (False, 3) | [] \<Rightarrow> (False, 3))
                | [] \<Rightarrow> (False, 2))
         | [] \<Rightarrow> (False, 1))
      else (False, 1))"

function lossy_bytes :: "byte list \<Rightarrow> byte list" where
  "lossy_bytes [] = []"
| "lossy_bytes (a # bs) =
     (let (ok, n) = utf8_step a bs in
      (if ok then a # take (n - 1) bs else [0xEF, 0xBF, 0xBD]) @ lossy_bytes (drop (n - 1) bs))"
  by pat_completeness auto

termination
  by (relation "measure length") auto

definition from_utf8_lossy :: "byte list \<Rightarrow> string" where
  "from_utf8_lossy bs = map chr_of (lossy_bytes bs)"

section \<open>Dates\<close>

text \<open>\<open>i32\<close> division truncates.\<close>

definition quot100 :: "int \<Rightarrow> int" where
  "quot100 y = (if y < 0 then - ((- y) div 100) else y div 100)"

definition encode_date :: "('n, 'd, 'a) ext \<Rightarrow> 'd \<Rightarrow> bool \<Rightarrow> ('e, byte list) rust" where
  "encode_date E d with_fraction =
     (let year = dt_year E d; plus_one = (\<lambda>n. u8 (int (n mod 256) + 1)) in
      rbind (plus_one (dt_hour E d)) (\<lambda>hour.
      rbind (plus_one (dt_minute E d)) (\<lambda>minute.
      rbind (plus_one (dt_second E d)) (\<lambda>second.
      Inr ([of_int (quot100 year + 100), of_int (year - 100 * quot100 year + 100), of_nat (dt_month E d),
            of_nat (dt_day E d), hour, minute, second] @
           (if with_fraction \<and> dt_nanosecond E d \<noteq> 0 then be_bytes 4 (dt_nanosecond E d) else []))))))"

definition decode_date :: "('n, 'd, 'a) ext \<Rightarrow> byte list \<Rightarrow> (io_error, 'd) rust" where
  "decode_date E b =
     (if length b < 7 then io_invalid ''short date value''
      else
        let year = (uint (b ! 0) - 100) * 100 + uint (b ! 1) - 100;
            nanos = (if length b \<ge> 11 then be_val (take 4 (drop 7 b)) else 0) in
        if b ! 4 = 0 \<or> b ! 5 = 0 \<or> b ! 6 = 0 then io_invalid ''invalid date value''
        else
          ok_or (Option.bind (date_from_ymd E year (unat (b ! 2)) (unat (b ! 3))) (\<lambda>d.
              date_and_hms_nano E d (unat (b ! 4) - 1) (unat (b ! 5) - 1) (unat (b ! 6) - 1) nanos))
            (InvalidData ''invalid date value''))"

section \<open>Requests\<close>

fun rd_times :: "nat \<Rightarrow> 'r reader \<Rightarrow> 'r list reader" where
  "rd_times 0 rd bs = Inr ([], bs)"
| "rd_times (Suc n) rd bs =
     rbind (rd bs) (\<lambda>(x, r1). rbind (rd_times n rd r1) (\<lambda>(xs, r2). Inr (x # xs, r2)))"

text \<open>Fields that are read and dropped: \<open>True\<close> is a \<open>ub4\<close>, \<open>False\<close> a \<open>u8\<close>.\<close>

fun rd_skip :: "bool list \<Rightarrow> unit reader" where
  "rd_skip [] bs = Inr ((), bs)"
| "rd_skip (ub4 # fs) bs =
     rbind (if ub4 then rbind (rd_ub4 bs) (\<lambda>(_, r). Inr ((), r)) else rbind (rd_u8 bs) (\<lambda>(_, r). Inr ((), r)))
       (\<lambda>(_, r). rd_skip fs r)"

definition read_auth :: "(string \<times> (string \<rightharpoonup> string)) reader" where
  "read_auth bs =
     rbind (rd_u8 bs) (\<lambda>(_, r0).
     rbind (rd_ub4 r0) (\<lambda>(user_len, r1).
     rbind (rd_skip [True, False] r1) (\<lambda>(_, r2).
     rbind (rd_ub4 r2) (\<lambda>(num_pairs, r3).
     rbind (rd_skip [False, False] r3) (\<lambda>(_, r4).
     rbind (if user_len > 0 then rd_string_with_length r4 else Inr ('''', r4)) (\<lambda>(user, r5).
     rbind (rd_times (unat num_pairs) rd_key_value r5) (\<lambda>(kvs, r6).
     Inr ((user, foldl (\<lambda>m (k, v, _). m(k \<mapsto> v)) Map.empty kvs), r6))))))))"

definition read_one_bind_meta :: "bind_meta reader" where
  "read_one_bind_meta bs =
     rbind (rd_u8 bs) (\<lambda>(ora_type, r1).
     rbind (rd_skip [False, False, False] r1) (\<lambda>(_, r2).
     rbind (rd_ub4 r2) (\<lambda>(max_size, r3).
     rbind (rd_skip [True, True] r3) (\<lambda>(_, r4).
     rbind (rd_ub4 r4) (\<lambda>(oid_len, r5).
     rbind (if oid_len > 0 then rbind (rd_bytes_with_length r5) (\<lambda>(_, r). Inr ((), r)) else Inr ((), r5)) (\<lambda>(_, r6).
     rbind (rd_ub2 r6) (\<lambda>(_, r7). rbind (rd_ub2 r7) (\<lambda>(_, r8).
     rbind (rd_skip [False, True, True] r8) (\<lambda>(_, r9).
     Inr (\<lparr>bm_ora_type = ora_type, bm_max_size = max_size\<rparr>, r9))))))))))"

definition read_bind_metadata :: "32 word \<Rightarrow> bind_meta list reader" where
  "read_bind_metadata n = rd_times (unat n) read_one_bind_meta"

definition read_boolean :: "('n, 'd) value reader" where
  "read_boolean bs =
     rbind (rd_u8 bs) (\<lambda>(len, r1).
     if len = ESCAPE_CHAR then rbind (rd_u8 r1) (\<lambda>(_, r2). Inr (Null, r2))
     else if len = 0 then Inr (Null, r1)
     else rbind (rd_bytes (unat len) r1) (\<lambda>(b, r2). rbind (index b 0) (\<lambda>x. Inr (Boolean (x = 1), r2))))"

text \<open>The value of a bind from its bytes. \<open>utc + Duration\<close> panics beyond the years of \<open>chrono\<close>.\<close>

definition bind_value ::
  "('n, 'd, 'a) ext \<Rightarrow> int \<Rightarrow> byte \<Rightarrow> byte list option \<Rightarrow> (io_error, ('n, 'd) value) rust" where
  "bind_value E tz t bytes =
     (case bytes of
        None \<Rightarrow> Inr Null
      | Some b \<Rightarrow>
          if t = TYPE_VARCHAR \<or> t = TYPE_CHAR then Inr (varchar (from_utf8_lossy b))
          else if t = TYPE_NUMBER \<or> t = TYPE_BINARY_INTEGER then
            rbind (infallible (decode E b)) (\<lambda>text.
            Inr (case parse_number E text of Some v \<Rightarrow> v | None \<Rightarrow> Null))
          else if t = TYPE_DATE then rbind (decode_date E b) (\<lambda>d. Inr (Date d))
          else if t = TYPE_TIMESTAMP then rbind (decode_date E b) (\<lambda>d. Inr (Timestamp d))
          else if t = TYPE_TIMESTAMP_LTZ \<or> t = TYPE_TIMESTAMP_TZ then
            rbind (decode_date E b) (\<lambda>utc.
            rbind (unwrap (dt_add_seconds E utc (tz * 60))) (\<lambda>local.
            Inr (if length b \<le> 7 then Date local else Timestamp local)))
          else io_invalid (''binding type '' @ nat_str (unat t) @ '' is not supported yet''))"

fun read_bind_values ::
  "('n, 'd, 'a) ext \<Rightarrow> int \<Rightarrow> bind_dir list \<Rightarrow> nat \<Rightarrow> bind_meta list \<Rightarrow> ('n, 'd) value list reader" where
  "read_bind_values E tz dirs i [] bs = Inr ([], bs)"
| "read_bind_values E tz dirs i (b # binds) bs =
     rbind (if i < length dirs \<and> dirs ! i = DirReturning then Inr (Null, bs)
            else if bm_ora_type b = TYPE_BOOLEAN then read_boolean bs
            else
              rbind (rd_bytes_with_length bs) (\<lambda>(bytes, r).
              rbind (bind_value E tz (bm_ora_type b) bytes) (\<lambda>v. Inr (v, r)))) (\<lambda>(v, r1).
     rbind (read_bind_values E tz dirs (Suc i) binds r1) (\<lambda>(vs, r2). Inr (v # vs, r2)))"

definition read_bind_row ::
  "('n, 'd, 'a) ext \<Rightarrow> bind_meta list \<Rightarrow> bind_dir list \<Rightarrow> int \<Rightarrow> ('n, 'd) value list reader" where
  "read_bind_row E binds dirs tz bs =
     rbind (rd_u8 bs) (\<lambda>(m, r). if m \<noteq> MSG_ROW_DATA then io_invalid ''expected bind row'' else read_bind_values E tz dirs 0 binds r)"

section \<open>Replies\<close>

definition write_protocol :: "byte list" where
  "write_protocol =
     [MSG_PROTOCOL, 6, 0] @ str_bytes ''mock-oracle'' @ [0] @ wr_u16_le CHARSET_UTF8 @ [1] @ wr_u16_le 0 @
     (let fdo = replicate 9 0 @ be_bytes 2 (unat CHARSET_UTF16) in wr_u16_be (of_nat (length fdo)) @ fdo) @
     wr_bytes_with_length ((replicate COMPILE_CAPS_LEN 0)[CCAP_FIELD_VERSION := TTC_FIELD_VERSION]) @
     wr_bytes_with_length ((replicate RUNTIME_CAPS_LEN 0)[RCAP_TTC := RCAP_TTC_32K])"

definition write_status :: "32 word \<Rightarrow> byte list" where
  "write_status call_status = [MSG_STATUS] @ wr_ub4 call_status @ wr_ub2 0"

definition write_error :: "32 word \<Rightarrow> 16 word \<Rightarrow> nat \<Rightarrow> ora_error option \<Rightarrow> byte list" where
  "write_error call_status cursor_id row_count error =
     (let code = (case error of Some e \<Rightarrow> err_code e | None \<Rightarrow> 0) in
      [MSG_ERROR] @ wr_ub4 call_status @ wr_ub2 0 @ wr_ub4 0 @ wr_ub2 (of_nat (min code 65535)) @ wr_ub2 0 @ wr_ub2 0 @
      wr_ub2 cursor_id @ wr_sb2 0 @ [0, 0, 0, 0, 0, 0] @ wr_ub4 0 @ wr_ub2 0 @ [0] @ wr_ub4 0 @ wr_ub2 0 @ wr_ub4 0 @
      [0, 0] @ wr_ub2 0 @ wr_ub4 0 @ wr_ub4 0 @ wr_ub2 0 @ wr_ub4 0 @ wr_ub2 0 @ wr_ub4 (of_nat code) @
      wr_ub8 (of_nat row_count) @
      (case error of Some e \<Rightarrow> wr_bytes_with_length (str_bytes (ora_display e @ [CHR 0x0A])) | None \<Rightarrow> []))"

definition write_io_vector :: "('n, 'd) out_bind list \<Rightarrow> 32 word \<Rightarrow> byte list" where
  "write_io_vector binds iterations =
     (let n = length binds in
      [MSG_IO_VECTOR, 0] @ wr_ub2 (of_nat (n mod 256)) @ wr_ub4 (of_nat (n div 256)) @ wr_ub4 iterations @
      wr_ub2 0 @ wr_ub2 0 @ wr_ub2 0 @
      map (\<lambda>b. case b of OutIn \<Rightarrow> BIND_DIR_INPUT | OutValue _ \<Rightarrow> BIND_DIR_INPUT_OUTPUT | OutReturning _ \<Rightarrow> BIND_DIR_OUTPUT) binds)"

definition max_size :: "sql_type \<Rightarrow> nat" where
  "max_size t = (case t of TNumber _ _ \<Rightarrow> 22 | TVarchar2 n \<Rightarrow> n | TChar n \<Rightarrow> n | TDate \<Rightarrow> 7 | TTimestamp _ \<Rightarrow> 11)"

text \<open>The sum of \<open>u32\<close> sizes and the position of a column, \<open>i as u16 + 1\<close>, overflow in a checked build.\<close>

definition checked_sum :: "nat list \<Rightarrow> ('e, nat) rust" where
  "checked_sum ns = (if sum_list ns < 2 ^ 32 then Inr (sum_list ns) else Inl Panic)"

definition column_position :: "nat \<Rightarrow> ('e, 16 word) rust" where
  "column_position i = (if i mod 65536 = 65535 then Inl Panic else Inr (of_nat (i mod 65536 + 1)))"

definition wire_type :: "sql_type \<Rightarrow> byte \<times> byte \<times> byte \<times> 16 word \<times> byte" where
  "wire_type t =
     (case t of
        TNumber p s \<Rightarrow> (TYPE_NUMBER, of_nat p, of_int s, 0, 0)
      | TVarchar2 _ \<Rightarrow> (TYPE_VARCHAR, 0, 0, CHARSET_UTF8, 1)
      | TChar _ \<Rightarrow> (TYPE_CHAR, 0, 0, CHARSET_UTF8, 1)
      | TDate \<Rightarrow> (TYPE_DATE, 0, 0, 0, 0)
      | TTimestamp p \<Rightarrow> (TYPE_TIMESTAMP, 0, of_nat p, 0, 0))"

definition describe_column :: "nat \<times> column \<Rightarrow> ('e, byte list) rust" where
  "describe_column = (\<lambda>(i, c).
     let (ora_type, precision, scale, charset, csfrm) = wire_type (c_type c) in
     rbind (column_position i) (\<lambda>pos.
     Inr ([ora_type, 0, precision, scale] @ wr_ub4 (of_nat (max_size (c_type c))) @ wr_ub4 0 @ wr_ub8 0 @ wr_ub4 0 @ wr_ub2 0 @
       wr_ub2 charset @ [csfrm] @
       wr_ub4 (case c_type c of TVarchar2 n \<Rightarrow> of_nat n | TChar n \<Rightarrow> of_nat n | _ \<Rightarrow> 0) @ wr_ub4 0 @ [1] @
       [of_nat (min (length (c_name c)) 255)] @ wr_str_with_ub4_length (c_name c) @ wr_ub4 0 @ wr_ub4 0 @ wr_ub2 pos @ wr_ub4 0)))"

definition write_describe :: "column list \<Rightarrow> ('e, byte list) rust" where
  "write_describe columns =
     rbind (checked_sum (map (\<lambda>c. max_size (c_type c)) columns)) (\<lambda>row_size.
     rbind (map_rust describe_column (enumerate 0 columns)) (\<lambda>descs.
     Inr ([MSG_DESCRIBE_INFO, 0] @ wr_ub4 (of_nat row_size) @ wr_ub4 (of_nat (length columns)) @
       (if columns \<noteq> [] then [0] else []) @ concat descs @ concat (replicate 6 (wr_ub4 0)))))"

text \<open>\<open>sci\<close> is \<open>BigDecimal::to_scientific_notation\<close>.\<close>

definition write_value ::
  "('n, 'd, 'a) ext \<Rightarrow> ('n \<Rightarrow> string) \<Rightarrow> ('n, 'd) value \<Rightarrow> sql_type \<Rightarrow> ('e, byte list) rust" where
  "write_value E sci v t =
     (let text = rbind (infallible (display E v)) (\<lambda>s. Inr (wr_bytes_with_length (str_bytes s)));
          dated = (\<lambda>d. rbind (encode_date E d (case t of TTimestamp _ \<Rightarrow> True | _ \<Rightarrow> False)) (\<lambda>b. Inr (wr_bytes_with_length b))) in
      if t = TVarchar2 0 then Inr []
      else if v = Null then Inr [0]
      else
        case t of
          TNumber _ _ \<Rightarrow>
            rbind (encode_value E sci v) (\<lambda>b. Inr (case b of Some b \<Rightarrow> wr_bytes_with_length b | None \<Rightarrow> [0]))
        | TVarchar2 _ \<Rightarrow> text
        | TChar _ \<Rightarrow> text
        | _ \<Rightarrow> (case v of Date d \<Rightarrow> dated d | Timestamp d \<Rightarrow> dated d | _ \<Rightarrow> text))"

section \<open>Values that come back\<close>

definition out_value_error :: "string \<Rightarrow> ora_error" where
  "out_value_error detail = ora 6502 (''PL/SQL: numeric or value error'' @ detail)"

definition out_number :: "('n, 'd, 'a) ext \<Rightarrow> ('n, 'd) value \<Rightarrow> ('n, 'd) value ora_result" where
  "out_number E v =
     (case v of
        Number n \<Rightarrow> Inr (Number n)
      | Varchar2 s \<Rightarrow> ok_or (parse_number E (trim s)) (out_value_error '': character to number conversion error'')
      | Boolean b \<Rightarrow> Inr (Number (bd_from_int E (if b then 1 else 0)))
      | _ \<Rightarrow> Inl (Err (out_value_error '''')))"

definition wrong_date :: "('n, 'd) value \<Rightarrow> ora_error" where
  "wrong_date v =
     ora 932 (''inconsistent datatypes: expected DATE got '' @
       (case v of Number _ \<Rightarrow> ''NUMBER'' | Boolean _ \<Rightarrow> ''BOOLEAN'' | _ \<Rightarrow> ''CHAR''))"

definition out_value_bytes ::
  "('n, 'd, 'a) ext \<Rightarrow> ('n \<Rightarrow> string) \<Rightarrow> bind_meta \<Rightarrow> bool \<Rightarrow> int \<Rightarrow> ('n, 'd) value \<Rightarrow> byte list option ora_result" where
  "out_value_bytes E sci meta check_size tz v =
     (let t = bm_ora_type meta; the_date = (case v of Date d \<Rightarrow> Some d | Timestamp d \<Rightarrow> Some d | _ \<Rightarrow> None) in
      if v = Null then Inr None
      else if t = TYPE_NUMBER \<or> t = TYPE_BINARY_INTEGER then rbind (out_number E v) (encode_value E sci)
      else if t = TYPE_DATE \<or> t = TYPE_TIMESTAMP then
        (case the_date of
           Some d \<Rightarrow> rbind (encode_date E d (t = TYPE_TIMESTAMP)) (\<lambda>b. Inr (Some b))
         | None \<Rightarrow> Inl (Err (wrong_date v)))
      else if t = TYPE_TIMESTAMP_LTZ \<or> t = TYPE_TIMESTAMP_TZ then
        (case the_date of
           Some d \<Rightarrow>
             rbind (unwrap (dt_add_seconds E d (- (tz * 60)))) (\<lambda>utc.
             rbind (encode_date E utc True) (\<lambda>b. Inr (Some b)))
         | None \<Rightarrow> Inl (Err (wrong_date v)))
      else if t = TYPE_BOOLEAN then
        (case v of
           Boolean b \<Rightarrow> Inr (Some (if b then [1, 1] else [0]))
         | _ \<Rightarrow> ora_fail 6550 ''PLS-00382: expression is of wrong type'')
      else
        rbind (case v of Number n \<Rightarrow> Inr (format_number E n) | _ \<Rightarrow> display E v) (\<lambda>text.
        if check_size \<and> length text > unat (bm_max_size meta)
        then Inl (Err (out_value_error '': character string buffer too small''))
        else Inr (Some (str_bytes text))))"

definition write_out_value ::
  "('n, 'd, 'a) ext \<Rightarrow> ('n \<Rightarrow> string) \<Rightarrow> bind_meta \<Rightarrow> bool \<Rightarrow> int \<Rightarrow> ('n, 'd) value \<Rightarrow> byte list ora_result" where
  "write_out_value E sci meta check_size tz v =
     rbind (out_value_bytes E sci meta check_size tz v) (\<lambda>bytes.
     Inr ((if bm_max_size meta > 0 \<or> bm_ora_type meta = TYPE_BOOLEAN
           then (case bytes of Some b \<Rightarrow> wr_bytes_with_length b | None \<Rightarrow> [0]) else []) @ wr_ub4 0))"

text \<open>The derived \<open>PartialEq\<close> of \<open>Value\<close>; numbers and dates are compared by what they are worth.\<close>

fun value_eq :: "('n, 'd, 'a) ext \<Rightarrow> ('n, 'd) value \<Rightarrow> ('n, 'd) value \<Rightarrow> bool" where
  "value_eq E Null Null = True"
| "value_eq E (Number x) (Number y) = (bd_cmp E x y = Equal)"
| "value_eq E (Varchar2 s) (Varchar2 t) = (s = t)"
| "value_eq E (Date d) (Date e) = (dt_cmp E d e = Equal)"
| "value_eq E (Timestamp d) (Timestamp e) = (dt_cmp E d e = Equal)"
| "value_eq E (Boolean b) (Boolean c) = (b = c)"
| "value_eq E _ _ = False"

definition default_meta :: bind_meta where
  "default_meta = \<lparr>bm_ora_type = TYPE_VARCHAR, bm_max_size = 32767\<rparr>"

definition write_out_bind ::
  "('n, 'd, 'a) ext \<Rightarrow> ('n \<Rightarrow> string) \<Rightarrow> bind_meta list \<Rightarrow> ('n, 'd) value list \<Rightarrow> int \<Rightarrow> nat \<times> ('n, 'd) out_bind \<Rightarrow>
   byte list ora_result" where
  "write_out_bind E sci binds inputs tz = (\<lambda>(i, b).
     let meta = (if i < length binds then binds ! i else default_meta) in
     case b of
       OutIn \<Rightarrow> Inr []
     | OutValue v \<Rightarrow>
         write_out_value E sci meta (\<not> (i < length inputs \<and> value_eq E (inputs ! i) v)) tz v
     | OutReturning vs \<Rightarrow>
         rbind (map_rust (write_out_value E sci meta True tz) vs) (\<lambda>outs.
         Inr (wr_ub4 (of_nat (length vs)) @ concat outs)))"

definition write_out_binds ::
  "('n, 'd, 'a) ext \<Rightarrow> ('n \<Rightarrow> string) \<Rightarrow> ('n, 'd) out_bind list \<Rightarrow> bind_meta list \<Rightarrow> ('n, 'd) value list \<Rightarrow> int \<Rightarrow>
   byte list ora_result" where
  "write_out_binds E sci outs binds inputs tz =
     rbind (map_rust (write_out_bind E sci binds inputs tz) (enumerate 0 outs)) (\<lambda>bs. Inr (MSG_ROW_DATA # concat bs))"

end
