(* ===== verification/Auth.thy ===== *)
theory Auth
  imports Ttc
begin

text \<open>
  \<open>crates/mock-oracle-server/src/auth.rs\<close>: the login with the 12c password verifier. The hash functions, the
  cipher and the hex text come from other crates, so they are the record \<open>crypto\<close>; what the login relies on
  of them is the locale \<open>lawful_crypto\<close>. Random bytes are arguments.
\<close>

section \<open>The crates\<close>

record crypto =
  pbkdf2_hmac_sha512 :: "byte list \<Rightarrow> byte list \<Rightarrow> nat \<Rightarrow> nat \<Rightarrow> byte list"
  sha512 :: "byte list \<Rightarrow> byte list"
  aes256_cbc_encrypt :: "byte list \<Rightarrow> byte list \<Rightarrow> byte list \<Rightarrow> byte list"
  aes256_cbc_decrypt :: "byte list \<Rightarrow> byte list \<Rightarrow> byte list \<Rightarrow> byte list"
  hex_encode_upper :: "byte list \<Rightarrow> string"
  hex_decode :: "string \<Rightarrow> byte list option"

section \<open>Login\<close>

definition VERIFIER_TYPE_12C :: "32 word" where "VERIFIER_TYPE_12C = 0x4815"

definition VGEN_COUNT :: nat where "VGEN_COUNT = 4096"

definition SDER_COUNT :: nat where "SDER_COUNT = 3"

record challenge =
  ch_csk_salt :: "byte list"
  ch_password_hash :: "byte list"
  ch_server_key :: "byte list"

record phase_one =
  po_sesskey :: string
  po_vfr_data :: string
  po_csk_salt :: string
  po_vgen_count :: string
  po_sder_count :: string

datatype login_error = InvalidCredentials | Protocol string

text \<open>The cipher fails on data that does not fill its blocks, and \<open>expect\<close> panics then.\<close>

definition encrypt :: "crypto \<Rightarrow> byte list \<Rightarrow> byte list \<Rightarrow> ('e, byte list) rust" where
  "encrypt C key data =
     (if length data mod 16 = 0 then Inr (aes256_cbc_encrypt C key (replicate 16 0) data) else Inl Panic)"

definition decrypt :: "crypto \<Rightarrow> byte list \<Rightarrow> byte list \<Rightarrow> ('e, byte list) rust" where
  "decrypt C key data =
     (if length data mod 16 = 0 then Inr (aes256_cbc_decrypt C key (replicate 16 0) data) else Inl Panic)"

definition password_hash :: "crypto \<Rightarrow> string \<Rightarrow> byte list \<Rightarrow> byte list" where
  "password_hash C password verifier_salt =
     (let salt = verifier_salt @ str_bytes ''AUTH_PBKDF2_SPEEDY_KEY'';
          password_key = pbkdf2_hmac_sha512 C (str_bytes password) salt VGEN_COUNT 64 in
      take 32 (sha512 C (password_key @ verifier_salt)))"

text \<open>What \<open>thread_rng\<close> fills the three arrays with.\<close>

record login_random =
  lr_verifier_salt :: "byte list"
  lr_csk_salt :: "byte list"
  lr_server_key :: "byte list"
  lr_response :: "byte list"

definition challenge_new :: "crypto \<Rightarrow> login_random \<Rightarrow> string \<Rightarrow> ('e, challenge \<times> phase_one) rust" where
  "challenge_new C rnd password =
     (let hash = password_hash C password (lr_verifier_salt rnd) in
      rbind (encrypt C hash (lr_server_key rnd)) (\<lambda>encrypted_server_key.
      Inr (\<lparr>ch_csk_salt = lr_csk_salt rnd, ch_password_hash = hash, ch_server_key = lr_server_key rnd\<rparr>,
           \<lparr>po_sesskey = hex_encode_upper C encrypted_server_key,
            po_vfr_data = hex_encode_upper C (lr_verifier_salt rnd),
            po_csk_salt = hex_encode_upper C (lr_csk_salt rnd),
            po_vgen_count = nat_str VGEN_COUNT,
            po_sder_count = nat_str SDER_COUNT\<rparr>)))"

definition combo_key :: "crypto \<Rightarrow> byte list \<Rightarrow> byte list \<Rightarrow> byte list \<Rightarrow> byte list" where
  "combo_key C client_key server_key csk_salt =
     (let mixed_hex = hex_encode_upper C (client_key @ server_key) in
      pbkdf2_hmac_sha512 C (str_bytes mixed_hex) csk_salt SDER_COUNT 32)"

text \<open>The end of \<open>verify\<close>: the password the client sent, behind 16 random bytes and before its padding.\<close>

definition check_password :: "byte list \<Rightarrow> string \<Rightarrow> (login_error, unit) rust" where
  "check_password plain password =
     rbind (index plain (length plain - 1)) (\<lambda>b.
     let pad = unat b in
     if pad = 0 \<or> 16 < pad \<or> length plain < 16 + pad then Inl (Err InvalidCredentials)
     else if take (length plain - pad - 16) (drop 16 plain) \<noteq> str_bytes password then Inl (Err InvalidCredentials)
     else Inr ())"

definition verify ::
  "crypto \<Rightarrow> login_random \<Rightarrow> challenge \<Rightarrow> string \<Rightarrow> string \<Rightarrow> string \<Rightarrow> (login_error, string) rust" where
  "verify C rnd chal client_sesskey encrypted_password password =
     rbind (ok_or (hex_decode C client_sesskey) (Protocol ''AUTH_SESSKEY is not hex'')) (\<lambda>client_sesskey.
     if length client_sesskey \<noteq> 32 then Inl (Err (Protocol ''AUTH_SESSKEY has the wrong length''))
     else
       rbind (decrypt C (ch_password_hash chal) client_sesskey) (\<lambda>client_key.
       if length client_key < 32 then Inl Panic
       else
         let combo = combo_key C (take 32 client_key) (ch_server_key chal) (ch_csk_salt chal) in
         rbind (ok_or (hex_decode C encrypted_password) InvalidCredentials) (\<lambda>encrypted_password.
         if length encrypted_password < 32 \<or> length encrypted_password mod 16 \<noteq> 0 then Inl (Err InvalidCredentials)
         else
           rbind (decrypt C combo encrypted_password) (\<lambda>plain.
           rbind (check_password plain password) (\<lambda>_.
           rbind (encrypt C combo (lr_response rnd @ str_bytes ''SERVER_TO_CLIENT'')) (\<lambda>r.
           Inr (hex_encode_upper C r)))))))"

section \<open>The client\<close>

text \<open>The client side of the login as the tests of \<open>auth.rs\<close> play it, with the client's key and the bytes in front
  of the password as arguments: \<open>AUTH_SESSKEY\<close>, \<open>AUTH_PASSWORD\<close> and the combined key.\<close>

definition pad_blocks :: "byte list \<Rightarrow> byte list" where
  "pad_blocks plain = (let n = 16 - length plain mod 16 in plain @ replicate n (of_nat n))"

definition client_login ::
  "crypto \<Rightarrow> byte list \<Rightarrow> byte list \<Rightarrow> phase_one \<Rightarrow> string \<Rightarrow> (unit, string \<times> string \<times> byte list) rust" where
  "client_login C client_key front reply password =
     rbind (unwrap (hex_decode C (po_vfr_data reply))) (\<lambda>vfr.
     let hash = password_hash C password vfr in
     rbind (unwrap (hex_decode C (po_sesskey reply))) (\<lambda>sesskey.
     rbind (decrypt C hash sesskey) (\<lambda>server_key.
     rbind (encrypt C hash client_key) (\<lambda>sent.
     rbind (unwrap (hex_decode C (po_csk_salt reply))) (\<lambda>csk_salt.
     let combo = combo_key C client_key server_key csk_salt in
     rbind (encrypt C combo (pad_blocks (front @ str_bytes password))) (\<lambda>pw.
     Inr (hex_encode_upper C sent, hex_encode_upper C pw, combo)))))))"

section \<open>What the crates promise\<close>

locale lawful_crypto =
  fixes C :: crypto
  assumes pbkdf2_length: "length (pbkdf2_hmac_sha512 C p s c n) = n"
    and sha512_length: "length (sha512 C b) = 64"
    and decrypt_length: "\<lbrakk>length k = 32; length iv = 16; length d mod 16 = 0\<rbrakk> \<Longrightarrow> length (aes256_cbc_decrypt C k iv d) = length d"
    and encrypt_length: "\<lbrakk>length k = 32; length iv = 16; length d mod 16 = 0\<rbrakk> \<Longrightarrow> length (aes256_cbc_encrypt C k iv d) = length d"
    and decrypt_encrypt: "\<lbrakk>length k = 32; length iv = 16; length d mod 16 = 0\<rbrakk> \<Longrightarrow>
      aes256_cbc_decrypt C k iv (aes256_cbc_encrypt C k iv d) = d"
    and hex_decode_encode: "hex_decode C (hex_encode_upper C b) = Some b"
begin

lemma hash_length [simp]: "length (password_hash C p s) = 32"
  by (simp add: password_hash_def Let_def sha512_length)

lemma combo_length [simp]: "length (combo_key C a b s) = 32"
  by (simp add: combo_key_def Let_def pbkdf2_length)

lemma decrypts: "length k = 32 \<Longrightarrow> length d mod 16 = 0 \<Longrightarrow> \<exists>p. decrypt C k d = Inr p \<and> length p = length d"
  by (simp add: decrypt_def decrypt_length)

lemma decrypts_encrypted: "length k = 32 \<Longrightarrow> length d mod 16 = 0 \<Longrightarrow>
  \<exists>e. encrypt C k d = Inr e \<and> length e = length d \<and> decrypt C k e = Inr d"
  by (simp add: encrypt_def decrypt_def encrypt_length decrypt_encrypt)

end

section \<open>Verification\<close>

lemma str_bytes_length [simp]: "length (str_bytes s) = length s"
  by (simp add: str_bytes_def)

lemma check_password_exact:
  assumes "plain \<noteq> []"
  shows "check_password plain password \<in> {Inr (), Inl (Err InvalidCredentials)}"
    and "check_password plain password = Inr () \<longleftrightarrow>
      (\<exists>front pads. plain = front @ str_bytes password @ pads \<and> length front = 16 \<and>
         1 \<le> length pads \<and> length pads \<le> 16 \<and> unat (last pads) = length pads)"
proof -
  have last: "index plain (length plain - Suc 0) = (Inr (last plain) :: (login_error, _) rust)"
    using assms by (simp add: index_def last_conv_nth)
  show "check_password plain password \<in> {Inr (), Inl (Err InvalidCredentials)}"
    by (simp add: check_password_def last Let_def)
  let ?n = "unat (last plain)"
  show "check_password plain password = Inr () \<longleftrightarrow>
      (\<exists>front pads. plain = front @ str_bytes password @ pads \<and> length front = 16 \<and>
         1 \<le> length pads \<and> length pads \<le> 16 \<and> unat (last pads) = length pads)" (is "_ \<longleftrightarrow> ?R")
  proof
    assume "check_password plain password = Inr ()"
    then have ok: "1 \<le> ?n" "?n \<le> 16" "16 + ?n \<le> length plain"
      and mid: "take (length plain - ?n - 16) (drop 16 plain) = str_bytes password"
      by (auto simp: check_password_def last Let_def split: if_splits)
    have "plain = take 16 plain @ str_bytes password @ drop (length plain - ?n) plain"
      using ok append_take_drop_id [of "length plain - ?n - 16" "drop 16 plain"] by (simp flip: mid)
    moreover have "last (drop (length plain - ?n) plain) = last plain" using ok by (intro last_drop) simp
    ultimately show ?R using ok by (intro exI [of _ "take 16 plain"] exI [of _ "drop (length plain - ?n) plain"]) simp
  next
    assume ?R
    then obtain front pads where p: "plain = front @ str_bytes password @ pads" "length front = 16" "1 \<le> length pads"
      "length pads \<le> 16" "unat (last pads) = length pads" by blast
    moreover from this have "last plain = last pads" by (cases pads) (auto simp: last_append)
    ultimately show "check_password plain password = Inr ()" using last by (auto simp: check_password_def)
  qed
qed

lemma str_bytes_inj [simp]: "str_bytes s = str_bytes t \<longleftrightarrow> s = t"
proof -
  have "byte_of c = byte_of d \<longleftrightarrow> c = d" for c d
  proof -
    have "unat (byte_of c) = code c" for c
    proof -
      have "code c < 256" by (simp add: code_def)
      then show ?thesis by (simp add: byte_of_def unat_of_nat)
    qed
    then show ?thesis by (metis char_of_char code_def)
  qed
  then show ?thesis by (simp add: str_bytes_def inj_map_eq_map inj_def)
qed

lemma pad_blocks_length: "length (pad_blocks p) mod 16 = 0" "length p < length (pad_blocks p)"
proof -
  have "(length p + (16 - length p mod 16)) mod 16 = 0" by presburger
  then show "length (pad_blocks p) mod 16 = 0" by (simp add: pad_blocks_def Let_def)
  show "length p < length (pad_blocks p)" by (simp add: pad_blocks_def Let_def)
qed

lemma check_password_padded:
  assumes "length front = 16"
  shows "check_password (pad_blocks (front @ str_bytes sent)) password =
    (if sent = password then Inr () else Inl (Err InvalidCredentials))"
proof -
  define n where "n = 16 - length (front @ str_bytes sent) mod 16"
  let ?p = "front @ str_bytes sent @ replicate n (of_nat n)"
  have n: "1 \<le> n" "n \<le> 16" by (simp_all add: n_def less_imp_le Suc_le_eq)
  then have b: "unat (of_nat n :: byte) = n" by (simp add: unat_of_nat)
  have p: "pad_blocks (front @ str_bytes sent) = ?p" by (simp add: pad_blocks_def Let_def n_def)
  have "index ?p (length ?p - Suc 0) = (Inr (of_nat n) :: (login_error, _) rust)"
    using n by (auto simp: index_def nth_append)
  then show ?thesis unfolding p using n assms b by (simp add: check_password_def Let_def)
qed

context lawful_crypto
begin

lemma verify_steps:
  assumes "length (ch_password_hash chal) = 32" and "length (lr_response rnd) = 16"
  shows "verify C rnd chal sk ep pw =
    (case hex_decode C sk of
       None \<Rightarrow> Inl (Err (Protocol ''AUTH_SESSKEY is not hex''))
     | Some k \<Rightarrow>
         if length k \<noteq> 32 then Inl (Err (Protocol ''AUTH_SESSKEY has the wrong length''))
         else
           (case hex_decode C ep of
              None \<Rightarrow> Inl (Err InvalidCredentials)
            | Some e \<Rightarrow>
                let combo = combo_key C (aes256_cbc_decrypt C (ch_password_hash chal) (replicate 16 0) k)
                  (ch_server_key chal) (ch_csk_salt chal);
                  plain = aes256_cbc_decrypt C combo (replicate 16 0) e in
                if length e < 32 \<or> length e mod 16 \<noteq> 0 then Inl (Err InvalidCredentials)
                else if check_password plain pw = Inr () then
                  Inr (hex_encode_upper C (aes256_cbc_encrypt C combo (replicate 16 0)
                    (lr_response rnd @ str_bytes ''SERVER_TO_CLIENT'')))
                else Inl (Err InvalidCredentials)))"
proof -
  have checked: "rbind (check_password (aes256_cbc_decrypt C (combo_key C a b s) (replicate 16 0) e) pw) f =
      (if check_password (aes256_cbc_decrypt C (combo_key C a b s) (replicate 16 0) e) pw = Inr () then f ()
       else Inl (Err InvalidCredentials))"
    if "\<not> length e < 32" "16 dvd length e" for a b s e and f :: "unit \<Rightarrow> (login_error, string) rust"
    using check_password_exact(1) [of "aes256_cbc_decrypt C (combo_key C a b s) (replicate 16 0) e" pw] that
      decrypt_length [of "combo_key C a b s" "replicate 16 0" e] by force
  show ?thesis
    using assms checked
    by (auto simp: verify_def encrypt_def decrypt_def decrypt_length Let_def split: option.split)
qed

end

section \<open>An instance of the crates\<close>

text \<open>Hex text as the crate has it, cipher block chaining over a block cipher, which here adds the key to a
  block, and hash functions that cut their input to size.\<close>

definition hex_digit :: "nat \<Rightarrow> char" where
  "hex_digit n = (if n < 10 then char_of (48 + n) else char_of (55 + n))"

definition hex_value :: "char \<Rightarrow> nat option" where
  "hex_value c =
     (let k = code c in
      if 48 \<le> k \<and> k \<le> 57 then Some (k - 48)
      else if 65 \<le> k \<and> k \<le> 70 then Some (k - 55)
      else if 97 \<le> k \<and> k \<le> 102 then Some (k - 87)
      else None)"

fun hex_text :: "byte list \<Rightarrow> string" where
  "hex_text [] = []"
| "hex_text (b # bs) = hex_digit (unat b div 16) # hex_digit (unat b mod 16) # hex_text bs"

fun hex_bytes :: "string \<Rightarrow> byte list option" where
  "hex_bytes [] = Some []"
| "hex_bytes [c] = None"
| "hex_bytes (c # d # s) =
     (case (hex_value c, hex_value d, hex_bytes s) of
        (Some h, Some l, Some bs) \<Rightarrow> Some (of_nat (h * 16 + l) # bs)
      | _ \<Rightarrow> None)"

definition add_block :: "byte list \<Rightarrow> byte list \<Rightarrow> byte list" where
  "add_block k b = map2 (XOR) (take 16 k) b"

fun cbc_enc :: "byte list \<Rightarrow> byte list \<Rightarrow> nat \<Rightarrow> byte list \<Rightarrow> byte list" where
  "cbc_enc k iv 0 d = []"
| "cbc_enc k iv (Suc n) d =
     (let c = add_block k (add_block iv (take 16 d)) in c @ cbc_enc k c n (drop 16 d))"

fun cbc_dec :: "byte list \<Rightarrow> byte list \<Rightarrow> nat \<Rightarrow> byte list \<Rightarrow> byte list" where
  "cbc_dec k iv 0 d = []"
| "cbc_dec k iv (Suc n) d =
     add_block iv (add_block k (take 16 d)) @ cbc_dec k (take 16 d) n (drop 16 d)"

definition fit_to :: "nat \<Rightarrow> byte list \<Rightarrow> byte list" where
  "fit_to n b = take n b @ replicate (n - length b) 0"

definition chained :: crypto where
  "chained =
     \<lparr>pbkdf2_hmac_sha512 = \<lambda>p s c n. fit_to n (p @ s), sha512 = fit_to 64,
      aes256_cbc_encrypt = \<lambda>k iv d. cbc_enc k iv (length d div 16) d,
      aes256_cbc_decrypt = \<lambda>k iv d. cbc_dec k iv (length d div 16) d,
      hex_encode_upper = hex_text, hex_decode = hex_bytes\<rparr>"

lemma hex_value_digit: "n < 16 \<Longrightarrow> hex_value (hex_digit n) = Some n"
  by (auto simp: hex_value_def hex_digit_def Let_def)

lemma hex_bytes_text: "hex_bytes (hex_text b) = Some b"
proof (induction b)
  case (Cons x b)
  have "unat x < 256" by (rule order_less_le_trans [OF unsigned_less]) simp
  then have "unat x div 16 < 16" by simp
  moreover have "unat x div 16 * 16 + unat x mod 16 = unat x" by simp
  ultimately show ?case using Cons by (simp add: hex_value_digit del: of_nat_add of_nat_mult)
qed simp

lemma add_block_length [simp]: "length (add_block k b) = min (min (length k) 16) (length b)"
  by (simp add: add_block_def)

lemma add_block_twice: "length b = 16 \<Longrightarrow> 16 \<le> length k \<Longrightarrow> add_block k (add_block k b) = b"
  by (auto simp: add_block_def xor.assoc [symmetric] intro: nth_equalityI)

lemma cbc_enc_length: "\<lbrakk>length d = 16 * n; 16 \<le> length k; length iv = 16\<rbrakk> \<Longrightarrow> length (cbc_enc k iv n d) = length d"
  by (induction k iv n d rule: cbc_enc.induct) (simp_all add: Let_def)

lemma cbc_dec_length: "\<lbrakk>length d = 16 * n; 16 \<le> length k; length iv = 16\<rbrakk> \<Longrightarrow> length (cbc_dec k iv n d) = length d"
  by (induction k iv n d rule: cbc_dec.induct) simp_all

lemma cbc_dec_enc: "\<lbrakk>length d = 16 * n; 16 \<le> length k; length iv = 16\<rbrakk> \<Longrightarrow> cbc_dec k iv n (cbc_enc k iv n d) = d"
  by (induction k iv n d rule: cbc_enc.induct) (simp_all add: Let_def add_block_twice)

interpretation chained: lawful_crypto chained
proof unfold_locales
  fix k iv d :: "byte list"
  assume len: "length k = 32" "length iv = 16" "length d mod 16 = 0"
  then have d: "length d = 16 * (length d div 16)" by presburger
  show "length (aes256_cbc_decrypt chained k iv d) = length d"
    using cbc_dec_length [OF d] len by (simp add: chained_def)
  show enc: "length (aes256_cbc_encrypt chained k iv d) = length d"
    using cbc_enc_length [OF d] len by (simp add: chained_def)
  show "aes256_cbc_decrypt chained k iv (aes256_cbc_encrypt chained k iv d) = d"
    using cbc_dec_enc [OF d] enc len by (simp add: chained_def)
qed (simp_all add: chained_def fit_to_def hex_bytes_text)

section \<open>Properties\<close>

text \<open>C22: \<open>verify\<close> never panics, whatever the client sends, and lets it in exactly when the client's key is 32
  bytes and the password field, deciphered with the combined key, is 16 bytes, the password of the server and a
  padding that ends with its own length.\<close>
theorem verify_exact:
  assumes "lawful_crypto C" and "length (ch_password_hash chal) = 32" and "length (lr_response rnd) = 16"
  shows "verify C rnd chal sk ep pw \<noteq> Inl Panic \<and> verify C rnd chal sk ep pw \<noteq> Inl Diverges \<and>
    ((\<exists>r. verify C rnd chal sk ep pw = Inr r) \<longleftrightarrow>
     (\<exists>k e front pads. hex_decode C sk = Some k \<and> length k = 32 \<and>
        hex_decode C ep = Some e \<and> 32 \<le> length e \<and> length e mod 16 = 0 \<and>
        aes256_cbc_decrypt C (combo_key C (aes256_cbc_decrypt C (ch_password_hash chal) (replicate 16 0) k)
          (ch_server_key chal) (ch_csk_salt chal)) (replicate 16 0) e = front @ str_bytes pw @ pads \<and>
        length front = 16 \<and> 1 \<le> length pads \<and> length pads \<le> 16 \<and> unat (last pads) = length pads))"
proof -
  let ?combo = "\<lambda>k. combo_key C (aes256_cbc_decrypt C (ch_password_hash chal) (replicate 16 0) k) (ch_server_key chal) (ch_csk_salt chal)"
  let ?plain = "\<lambda>k e. aes256_cbc_decrypt C (?combo k) (replicate 16 0) e"
  note steps = lawful_crypto.verify_steps [OF assms, of sk ep pw, unfolded Let_def]
  have "length (?plain k e) = length e" if "length e mod 16 = 0" for k e
    using lawful_crypto.decrypt_length [OF assms(1)] lawful_crypto.combo_length [OF assms(1)] that by simp
  then have plain: "?plain k e \<noteq> []" if "32 \<le> length e" "length e mod 16 = 0" for k e
    using that by (metis list.size(3) not_numeral_le_zero)
  have "(\<exists>r. verify C rnd chal sk ep pw = Inr r) \<longleftrightarrow>
     (\<exists>k e. hex_decode C sk = Some k \<and> length k = 32 \<and> hex_decode C ep = Some e \<and> 32 \<le> length e \<and>
        length e mod 16 = 0 \<and> check_password (?plain k e) pw = Inr ())"
    unfolding steps by (auto split: option.split)
  moreover have "verify C rnd chal sk ep pw \<noteq> Inl Panic" "verify C rnd chal sk ep pw \<noteq> Inl Diverges"
    unfolding steps by (auto split: option.split)
  ultimately show ?thesis using check_password_exact(2) [OF plain] by (smt (verit, best))
qed

text \<open>C21: A client that knows the password of the server logs in: the server accepts what it sends, the client finds
  the mark of the server in the answer, and against any other password the same messages are refused.\<close>
theorem login_round_trip:
  assumes "lawful_crypto C" and "length (lr_server_key rnd) = 32" and "length (lr_response rnd) = 16"
    and "length client_key = 32" and "length front = 16"
  shows "\<exists>chal reply sk ep combo r b. challenge_new C rnd pw = (Inr (chal, reply) :: (unit, _) rust) \<and>
    client_login C client_key front reply pw = Inr (sk, ep, combo) \<and> verify C rnd chal sk ep pw = Inr r \<and>
    hex_decode C r = Some b \<and> decrypt C combo b = (Inr (lr_response rnd @ str_bytes ''SERVER_TO_CLIENT'') :: (unit, _) rust) \<and>
    (\<forall>pw'. pw' \<noteq> pw \<longrightarrow> verify C rnd chal sk ep pw' = Inl (Err InvalidCredentials))"
proof -
  let ?iv = "replicate 16 (0 :: byte)" and ?hash = "password_hash C pw (lr_verifier_salt rnd)"
  let ?combo = "combo_key C client_key (lr_server_key rnd) (lr_csk_salt rnd)"
  let ?padded = "pad_blocks (front @ str_bytes pw)" and ?answer = "lr_response rnd @ str_bytes ''SERVER_TO_CLIENT''"
  note laws = lawful_crypto.hash_length [OF assms(1)] lawful_crypto.combo_length [OF assms(1)]
    lawful_crypto.encrypt_length [OF assms(1)] lawful_crypto.decrypt_encrypt [OF assms(1)]
    lawful_crypto.hex_decode_encode [OF assms(1)]
  have pad: "length ?padded mod 16 = 0" "\<not> length ?padded < 32"
  proof -
    show "length ?padded mod 16 = 0" by (rule pad_blocks_length)
    moreover have "16 < length ?padded" using pad_blocks_length(2) [of "front @ str_bytes pw"] assms(5) by simp
    ultimately show "\<not> length ?padded < 32" by presburger
  qed
  define chal where "chal = \<lparr>ch_csk_salt = lr_csk_salt rnd, ch_password_hash = ?hash, ch_server_key = lr_server_key rnd\<rparr>"
  define reply where "reply = \<lparr>po_sesskey = hex_encode_upper C (aes256_cbc_encrypt C ?hash ?iv (lr_server_key rnd)),
    po_vfr_data = hex_encode_upper C (lr_verifier_salt rnd), po_csk_salt = hex_encode_upper C (lr_csk_salt rnd),
    po_vgen_count = nat_str VGEN_COUNT, po_sder_count = nat_str SDER_COUNT\<rparr>"
  have new: "challenge_new C rnd pw = (Inr (chal, reply) :: (unit, _) rust)"
    using assms(2) by (simp add: challenge_new_def chal_def reply_def encrypt_def Let_def)
  let ?sk = "hex_encode_upper C (aes256_cbc_encrypt C ?hash ?iv client_key)"
  let ?ep = "hex_encode_upper C (aes256_cbc_encrypt C ?combo ?iv ?padded)"
  have client: "client_login C client_key front reply pw = Inr (?sk, ?ep, ?combo)"
    using assms pad by (simp add: client_login_def reply_def laws encrypt_def decrypt_def Let_def)
  have server: "verify C rnd chal ?sk ?ep p =
      (if pw = p then Inr (hex_encode_upper C (aes256_cbc_encrypt C ?combo ?iv ?answer)) else Inl (Err InvalidCredentials))" for p
    using assms pad
    by (simp add: lawful_crypto.verify_steps [OF assms(1)] chal_def laws Let_def check_password_padded)
  have "length ?answer mod 16 = 0" using assms by simp
  then have "decrypt C ?combo (aes256_cbc_encrypt C ?combo ?iv ?answer) = (Inr ?answer :: (unit, _) rust)"
    by (simp add: decrypt_def laws)
  then show ?thesis using new client server laws(5) by metis
qed

definition sample_random :: login_random where
  "sample_random =
     \<lparr>lr_verifier_salt = replicate 16 1, lr_csk_salt = replicate 16 2, lr_server_key = replicate 32 3, lr_response = replicate 16 4\<rparr>"

theorem login_round_trip_witness:
  "\<exists>chal reply sk ep combo r. challenge_new chained sample_random ''oracle'' = (Inr (chal, reply) :: (unit, _) rust) \<and>
    client_login chained (replicate 32 9) (replicate 16 1) reply ''oracle'' = Inr (sk, ep, combo) \<and>
    verify chained sample_random chal sk ep ''oracle'' = Inr r \<and>
    verify chained sample_random chal sk ep ''tiger'' = Inl (Err InvalidCredentials)"
  using login_round_trip [OF chained.lawful_crypto_axioms, of sample_random "replicate 32 9" "replicate 16 1" "''oracle''"]
  by (fastforce simp: sample_random_def)

definition sample_challenge :: challenge where
  "sample_challenge = \<lparr>ch_csk_salt = replicate 16 2, ch_password_hash = replicate 32 5, ch_server_key = replicate 32 3\<rparr>"

lemma hex_decode_short: "hex_decode chained ''00'' = Some [0]"
  by (simp add: chained_def) code_simp

theorem verify_exact_witness:
  "lawful_crypto chained \<and> verify chained sample_random sample_challenge ''00'' ''00'' ''oracle'' \<noteq> Inl Panic \<and>
   (\<nexists>r. verify chained sample_random sample_challenge ''00'' ''00'' ''oracle'' = Inr r)"
  using verify_exact [OF chained.lawful_crypto_axioms, of sample_challenge sample_random "''00''" "''00''" "''oracle''"]
    chained.lawful_crypto_axioms
  by (simp add: sample_random_def sample_challenge_def hex_decode_short)

end
