(* ===== verification/Wire_Session.thy ===== *)
theory Wire_Session
  imports Wire_Base Auth
begin

text \<open>
  \<open>struct Session\<close> of \<open>crates/mock-oracle-server/src/session.rs\<close>: one client connection. The state of a connection is
  paired with the database, which it shares with the others. A handler takes what is left of the request and
  the state and gives the bytes of its reply, or an I/O error, and the next state. The stream is the bytes the
  client sends and the bytes it is sent; writing to it does not fail.
\<close>

definition FUNC_REEXECUTE :: byte where "FUNC_REEXECUTE = 4"
definition FUNC_FETCH :: byte where "FUNC_FETCH = 5"
definition FUNC_LOGOFF :: byte where "FUNC_LOGOFF = 9"
definition FUNC_COMMIT :: byte where "FUNC_COMMIT = 14"
definition FUNC_ROLLBACK :: byte where "FUNC_ROLLBACK = 15"
definition FUNC_REEXECUTE_AND_FETCH :: byte where "FUNC_REEXECUTE_AND_FETCH = 78"
definition FUNC_EXECUTE :: byte where "FUNC_EXECUTE = 94"
definition FUNC_CLOSE_CURSORS :: byte where "FUNC_CLOSE_CURSORS = 105"
definition FUNC_AUTH_PHASE_TWO :: byte where "FUNC_AUTH_PHASE_TWO = 115"
definition FUNC_AUTH_PHASE_ONE :: byte where "FUNC_AUTH_PHASE_ONE = 118"
definition FUNC_PING :: byte where "FUNC_PING = 147"

definition EXEC_BIND :: "32 word" where "EXEC_BIND = 0x08"
definition EXEC_DEFINE :: "32 word" where "EXEC_DEFINE = 0x10"
definition EXEC_FETCH :: "32 word" where "EXEC_FETCH = 0x40"
definition EXEC_COMMIT :: "32 word" where "EXEC_COMMIT = 0x100"
definition EXEC_COMMIT_REEXECUTE :: "32 word" where "EXEC_COMMIT_REEXECUTE = 0x1"
definition CALL_STATUS_TXN_IN_PROGRESS :: "32 word" where "CALL_STATUS_TXN_IN_PROGRESS = 0x02"
definition SERVER_VERSION_NO :: nat where "SERVER_VERSION_NO = 19 * 2 ^ 24"

section \<open>State\<close>

datatype login_state = LoginNone | Challenged string challenge | LoggedIn

record ('n, 'd) wire_cursor =
  wc_sql :: string
  wc_binds :: "bind_meta list"
  wc_bind_dirs :: "bind_dir list"
  wc_columns :: "column list"
  wc_pending :: "('n, 'd) value list list"
  wc_fetched :: nat

record ('n, 'd) wire =
  ws_sdu :: nat
  ws_service_name :: string
  ws_login :: login_state
  ws_db_session :: "('n, 'd) session option"
  ws_cursors :: "32 word \<rightharpoonup> ('n, 'd) wire_cursor"
  ws_next_cursor_id :: nat

type_synonym ('n, 'd) wire_state = "('n, 'd) wire \<times> ('n, 'd) database"

type_synonym ('n, 'd, 'r) wire_handler = "('n, 'd) wire_state \<Rightarrow> (io_error, 'r) rust \<times> ('n, 'd) wire_state"

text \<open>What a connection is given while it handles a request: the engine with its clock, the fuel for statements,
  the crates, random bytes, the configured password, and what other connections have done to the database
  since the last request.\<close>

record ('n, 'd, 'a) server =
  sv_engine :: "('n, 'd, 'a) engine"
  sv_depth :: nat
  sv_nesting :: nat
  sv_scientific :: "'n \<Rightarrow> string"
  sv_crypto :: crypto
  sv_random :: login_random
  sv_password :: string
  sv_meanwhile :: "('n, 'd) database \<Rightarrow> ('n, 'd) database"

definition wire_new :: "('n, 'd) wire" where
  "wire_new =
     \<lparr>ws_sdu = 8192, ws_service_name = '''', ws_login = LoginNone, ws_db_session = None, ws_cursors = Map.empty,
      ws_next_cursor_id = 1\<rparr>"

section \<open>The database session\<close>

text \<open>\<open>self.db()\<close>: what is done on the session of the database; \<open>expect\<close> panics when there is none.\<close>

definition on_session ::
  "(('n, 'd) connection \<Rightarrow> 'r ora_result \<times> ('n, 'd) connection) \<Rightarrow> ('n, 'd, (ora_error, 'r) rust) wire_handler" where
  "on_session f = (\<lambda>(w, db).
     case ws_db_session w of
       None \<Rightarrow> (Inl Panic, (w, db))
     | Some s \<Rightarrow> (case f (s, db) of (r, (s', db')) \<Rightarrow> (Inr r, (w\<lparr>ws_db_session := Some s'\<rparr>, db'))))"

definition call_status :: "('n, 'd) wire \<Rightarrow> 32 word" where
  "call_status w =
     (case ws_db_session w of Some s \<Rightarrow> if in_transaction s then CALL_STATUS_TXN_IN_PROGRESS else 0 | None \<Rightarrow> 0)"

definition time_zone_offset :: "('n, 'd) wire \<Rightarrow> ('e, int) rust" where
  "time_zone_offset w =
     rbind (unwrap (ws_db_session w)) (\<lambda>s. Inr (env_tz_offset_minutes (ses_env s)))"

definition sv_execute ::
  "('n, 'd, 'a) server \<Rightarrow> string \<Rightarrow> ('n, 'd) value list \<Rightarrow> ('n, 'd) connection \<Rightarrow>
   ('n, 'd) query_result ora_result \<times> ('n, 'd) connection" where
  "sv_execute V = execute (sv_engine V) (sv_depth V) (sv_nesting V)"

section \<open>Rows\<close>

definition no_such_cursor :: ora_error where
  "no_such_cursor = ora 1001 ''invalid cursor''"

definition write_row ::
  "('n, 'd, 'a) server \<Rightarrow> column list \<Rightarrow> ('n, 'd) value list \<Rightarrow> ('e, byte list) rust" where
  "write_row V columns row =
     rbind (map_rust (\<lambda>(v, c). write_value (en_ext (sv_engine V)) (sv_scientific V) v (c_type c)) (zip row columns)) (\<lambda>bs.
     Inr (MSG_ROW_DATA # concat bs))"

definition row_header :: "nat \<Rightarrow> byte list" where
  "row_header n =
     [MSG_ROW_HEADER, 0] @ wr_ub2 0 @ wr_ub4 0 @ wr_ub4 (of_nat n) @ wr_ub2 0 @ wr_ub4 0 @ wr_ub4 0"

definition send_rows :: "('n, 'd, 'a) server \<Rightarrow> 32 word \<Rightarrow> 32 word \<Rightarrow> ('n, 'd, byte list) wire_handler" where
  "send_rows V cursor_id mx = (\<lambda>(w, db).
     let status = call_status w in
     case ws_cursors w cursor_id of
       None \<Rightarrow> (Inr (write_error status 0 0 (Some no_such_cursor)), (w, db))
     | Some c \<Rightarrow>
         let n = min (unat mx) (length (wc_pending c));
             c' = c\<lparr>wc_pending := drop n (wc_pending c), wc_fetched := wc_fetched c + n\<rparr>;
             ended = (if wc_pending c' = [] then Some (ora ORA_NO_DATA_FOUND ''no data found'') else None) in
         (rbind (map_rust (write_row V (wc_columns c)) (take n (wc_pending c))) (\<lambda>rows.
            Inr ((if n > 0 then row_header n else []) @ concat rows @
                 write_error status (ucast cursor_id) (wc_fetched c') ended)),
          (w\<lparr>ws_cursors := (ws_cursors w)(cursor_id \<mapsto> c')\<rparr>, db)))"

section \<open>Statements\<close>

text \<open>What \<open>run_statement\<close> is asked to do, and what its loop has gathered: the last result, the rows
  affected, and the out binds of each execution with the bytes they make.\<close>

record ('n, 'd) request =
  rq_cursor_id :: "32 word"
  rq_sql :: string
  rq_binds :: "bind_meta list"
  rq_bind_dirs :: "bind_dir list"
  rq_bind_rows :: "('n, 'd) value list list"
  rq_executions :: "32 word"
  rq_fetch :: "32 word"
  rq_commit :: bool

record ('n, 'd) runs =
  rn_result :: "('n, 'd) query_result option"
  rn_rows_affected :: nat
  rn_out_rows :: "(('n, 'd) out_bind list \<times> byte list) list"

text \<open>The loop over the executions. \<open>Inl\<close> is an early return with the reply of the call.\<close>

fun run_rows ::
  "('n, 'd, 'a) server \<Rightarrow> ('n, 'd) request \<Rightarrow> int \<Rightarrow> savepoint \<Rightarrow> ('n, 'd) value list list \<Rightarrow> ('n, 'd) runs \<Rightarrow>
   ('n, 'd, byte list + ('n, 'd) runs) wire_handler" where
  "run_rows V q tz sp [] acc st = (Inr (Inr acc), st)"
| "run_rows V q tz sp (row # rows) acc st =
     (case on_session (sv_execute V (rq_sql q) row) st of
        (Inl x, st1) \<Rightarrow> (Inl x, st1)
      | (Inr (Inl (Err e)), st1) \<Rightarrow>
          (Inr (Inl (write_error (call_status (fst st1)) (ucast (rq_cursor_id q)) (rn_rows_affected acc) (Some e))), st1)
      | (Inr (Inl Panic), st1) \<Rightarrow> (Inl Panic, st1)
      | (Inr (Inl Diverges), st1) \<Rightarrow> (Inl Diverges, st1)
      | (Inr (Inr r), st1) \<Rightarrow>
          let acc1 = acc\<lparr>rn_result := Some (r\<lparr>qr_out_binds := []\<rparr>),
                rn_rows_affected := rn_rows_affected acc + qr_rows_affected r\<rparr> in
          if qr_out_binds r = [] then run_rows V q tz sp rows acc1 st1
          else
            (case write_out_binds (en_ext (sv_engine V)) (sv_scientific V) (qr_out_binds r) (rq_binds q) row tz of
               Inl (Err e) \<Rightarrow>
                 (case on_session (\<lambda>(s, db). case rollback_to (en_ext (sv_engine V)) sp s of
                         Inr s' \<Rightarrow> (Inr (), (s', db)) | Inl x \<Rightarrow> (Inl x, (s, db))) st1 of
                    (Inr (Inr _), st2) \<Rightarrow>
                      (Inr (Inl (write_error (call_status (fst st2)) (ucast (rq_cursor_id q)) 0 (Some e))), st2)
                  | (_, st2) \<Rightarrow> (Inl Panic, st2))
             | Inl Panic \<Rightarrow> (Inl Panic, st1)
             | Inl Diverges \<Rightarrow> (Inl Diverges, st1)
             | Inr bytes \<Rightarrow>
                 run_rows V q tz sp rows (acc1\<lparr>rn_out_rows := rn_out_rows acc @ [(qr_out_binds r, bytes)]\<rparr>) st1))"

text \<open>The commit after the last execution, with the reply when it fails.\<close>

definition commit_after ::
  "('n, 'd, 'a) server \<Rightarrow> ('n, 'd) request \<Rightarrow> nat \<Rightarrow> ('n, 'd, byte list option) wire_handler" where
  "commit_after V q rows_affected st =
     (if \<not> rq_commit q then (Inr None, st)
      else
        (case on_session (\<lambda>(s, db). commit (en_ext (sv_engine V)) s db) st of
           (Inl x, st1) \<Rightarrow> (Inl x, st1)
         | (Inr (Inr _), st1) \<Rightarrow> (Inr None, st1)
         | (Inr (Inl (Err e)), st1) \<Rightarrow> (Inr (Some (write_error 0 (ucast (rq_cursor_id q)) rows_affected (Some e))), st1)
         | (Inr (Inl Panic), st1) \<Rightarrow> (Inl Panic, st1)
         | (Inr (Inl Diverges), st1) \<Rightarrow> (Inl Diverges, st1)))"

text \<open>The cursor a statement leaves: its own, or a new one. \<open>self.next_cursor_id += 1\<close> is a \<open>u32\<close>.\<close>

definition cursor_for :: "32 word \<Rightarrow> ('n, 'd) wire \<Rightarrow> ('e, 32 word \<times> ('n, 'd) wire) rust" where
  "cursor_for cursor_id w =
     (if cursor_id \<noteq> 0 then Inr (cursor_id, w)
      else if ws_next_cursor_id w + 1 \<ge> 2 ^ 32 then Inl Panic
      else Inr (of_nat (ws_next_cursor_id w), w\<lparr>ws_next_cursor_id := ws_next_cursor_id w + 1\<rparr>))"

definition statement_done ::
  "('n, 'd, 'a) server \<Rightarrow> ('n, 'd) request \<Rightarrow> ('n, 'd) runs \<Rightarrow> ('n, 'd, byte list) wire_handler" where
  "statement_done V q acc st =
     (case rbind (unwrap (rn_result acc)) (\<lambda>r.
           rbind (cursor_for (rq_cursor_id q) (fst st)) (\<lambda>(cursor_id, w).
           rbind (if qr_is_query r then write_describe (qr_columns r) else Inr []) (\<lambda>described.
           Inr (r, cursor_id, w, described)))) of
        Inl x \<Rightarrow> (Inl x, st)
      | Inr (r, cursor_id, w, described) \<Rightarrow>
          let outs = (case rn_out_rows acc of
                [] \<Rightarrow> []
              | (first, _) # _ \<Rightarrow>
                  write_io_vector first (of_nat (length (rn_out_rows acc))) @ concat (map snd (rn_out_rows acc)));
              c = \<lparr>wc_sql = rq_sql q, wc_binds = rq_binds q, wc_bind_dirs = rq_bind_dirs q, wc_columns = qr_columns r,
                wc_pending = qr_rows r, wc_fetched = 0\<rparr>;
              st1 = (w\<lparr>ws_cursors := (ws_cursors w)(cursor_id \<mapsto> c)\<rparr>, snd st) in
          (case (if qr_is_query r then send_rows V cursor_id (rq_fetch q) st1
                 else (Inr (write_error (call_status (fst st1)) (ucast cursor_id) (rn_rows_affected acc) None), st1)) of
             (reply, st2) \<Rightarrow> (rbind reply (\<lambda>b. Inr (described @ outs @ b)), st2)))"

definition run_statement :: "('n, 'd, 'a) server \<Rightarrow> ('n, 'd) request \<Rightarrow> ('n, 'd, byte list) wire_handler" where
  "run_statement V q st =
     (let runs = (if rq_bind_rows q = [] then replicate (unat (max (rq_executions q) 1)) [] else rq_bind_rows q) in
      case rbind (time_zone_offset (fst st)) (\<lambda>tz. rbind (unwrap (ws_db_session (fst st))) (\<lambda>s. Inr (tz, ses_savepoint s))) of
        Inl x \<Rightarrow> (Inl x, st)
      | Inr (tz, sp) \<Rightarrow>
          (case run_rows V q tz sp runs \<lparr>rn_result = None, rn_rows_affected = 0, rn_out_rows = []\<rparr> st of
             (Inl x, st1) \<Rightarrow> (Inl x, st1)
           | (Inr (Inl reply), st1) \<Rightarrow> (Inr reply, st1)
           | (Inr (Inr acc), st1) \<Rightarrow>
               (case commit_after V q (rn_rows_affected acc) st1 of
                  (Inl x, st2) \<Rightarrow> (Inl x, st2)
                | (Inr (Some reply), st2) \<Rightarrow> (Inr reply, st2)
                | (Inr None, st2) \<Rightarrow> statement_done V q acc st2)))"

section \<open>Execute\<close>

record execute_msg =
  xm_options :: "32 word"
  xm_cursor_id :: "32 word"
  xm_has_sql :: bool
  xm_num_iters :: "32 word"
  xm_num_binds :: "32 word"
  xm_num_defines :: "32 word"
  xm_sql :: string
  xm_al8i4 :: "32 word list"

text \<open>The message up to its binds.\<close>

definition read_execute :: "execute_msg reader" where
  "read_execute bs =
     rbind (rd_ub4 bs) (\<lambda>(options, r1).
     rbind (rd_ub4 r1) (\<lambda>(cursor_id, r2).
     rbind (rd_u8 r2) (\<lambda>(has_sql, r3).
     rbind (rd_skip [True, False, True, False, False, False] r3) (\<lambda>(_, r4).
     rbind (rd_ub4 r4) (\<lambda>(num_iters, r5).
     rbind (rd_skip [True, False] r5) (\<lambda>(_, r6).
     rbind (rd_ub4 r6) (\<lambda>(num_binds, r7).
     rbind (rd_skip (replicate 5 False @ [False]) r7) (\<lambda>(_, r8).
     rbind (rd_ub4 r8) (\<lambda>(num_defines, r9).
     rbind (rd_skip [True, False, False, False, True, False, True, True, False, True, False,
       False, True, False, True, False, False, True] r9) (\<lambda>(_, r10).
     rbind (if has_sql = 1 then
              rbind (rd_bytes_with_length r10) (\<lambda>(b, r).
              rbind (ok_or (from_utf8 (case b of Some x \<Rightarrow> x | None \<Rightarrow> [])) (InvalidData ''SQL is not UTF-8'')) (\<lambda>sql. Inr (sql, r)))
            else Inr ('''', r10)) (\<lambda>(sql, r11).
     rbind (rd_times 13 rd_ub4 r11) (\<lambda>(al8i4, r12).
     Inr (\<lparr>xm_options = options, xm_cursor_id = cursor_id, xm_has_sql = (has_sql = 1), xm_num_iters = num_iters,
            xm_num_binds = num_binds, xm_num_defines = num_defines, xm_sql = sql, xm_al8i4 = al8i4\<rparr>, r12)))))))))))))"

text \<open>The rows of binds, while bytes are left; every row takes at least one.\<close>

fun read_bind_rows ::
  "('n, 'd, 'a) ext \<Rightarrow> bind_meta list \<Rightarrow> bind_dir list \<Rightarrow> int \<Rightarrow> nat \<Rightarrow> byte list \<Rightarrow> (io_error, ('n, 'd) value list list) rust" where
  "read_bind_rows E binds dirs tz fuel [] = Inr []"
| "read_bind_rows E binds dirs tz 0 bs = Inl Diverges"
| "read_bind_rows E binds dirs tz (Suc fuel) bs =
     rbind (read_bind_row E binds dirs tz bs) (\<lambda>(row, r).
     rbind (read_bind_rows E binds dirs tz fuel r) (\<lambda>rows. Inr (row # rows)))"

text \<open>Without a row, binds that are all \<open>RETURNING\<close> targets are one row of \<open>NULL\<close>.\<close>

definition bind_rows_of ::
  "('n, 'd, 'a) ext \<Rightarrow> bind_meta list \<Rightarrow> bind_dir list \<Rightarrow> int \<Rightarrow> byte list \<Rightarrow> (io_error, ('n, 'd) value list list) rust" where
  "bind_rows_of E binds dirs tz bs =
     rbind (read_bind_rows E binds dirs tz (length bs) bs) (\<lambda>rows.
     Inr (if rows = [] \<and> list_all (\<lambda>d. d = DirReturning) dirs then [replicate (length binds) Null] else rows))"

definition directions_or_none :: "('n, 'd, 'a) ext \<Rightarrow> string \<Rightarrow> ('e, bind_dir list) rust" where
  "directions_or_none E sql =
     (case bind_directions E sql of
        Inr ds \<Rightarrow> Inr ds | Inl (Err _) \<Rightarrow> Inr [] | Inl Panic \<Rightarrow> Inl Panic | Inl Diverges \<Rightarrow> Inl Diverges)"

definition execute_request ::
  "('n, 'd, 'a) server \<Rightarrow> ('n, 'd) wire \<Rightarrow> execute_msg \<Rightarrow> 32 word \<Rightarrow> string \<Rightarrow> byte list \<Rightarrow> (io_error, ('n, 'd) request) rust" where
  "execute_request V w x cursor_id sql bs =
     (let E = en_ext (sv_engine V) in
      rbind (directions_or_none E sql) (\<lambda>dirs.
      rbind (time_zone_offset w) (\<lambda>tz.
      rbind (if xm_options x AND EXEC_BIND \<noteq> 0 \<and> xm_num_binds x > 0 then
               rbind (read_bind_metadata (xm_num_binds x) bs) (\<lambda>(binds, r).
               rbind (bind_rows_of E binds dirs tz r) (\<lambda>rows. Inr (binds, rows)))
             else Inr ([], [])) (\<lambda>(binds, rows).
      Inr \<lparr>rq_cursor_id = cursor_id, rq_sql = sql, rq_binds = binds, rq_bind_dirs = dirs, rq_bind_rows = rows,
           rq_executions = (if xm_al8i4 x ! 7 = 1 then 1 else xm_al8i4 x ! 1),
           rq_fetch = (if xm_options x AND EXEC_FETCH \<noteq> 0 then xm_num_iters x else 0),
           rq_commit = (xm_options x AND EXEC_COMMIT \<noteq> 0)\<rparr>))))"

definition wire_execute :: "('n, 'd, 'a) server \<Rightarrow> byte list \<Rightarrow> ('n, 'd, byte list) wire_handler" where
  "wire_execute V bs st =
     (case read_execute bs of
        Inl e \<Rightarrow> (Inl e, st)
      | Inr (x, r) \<Rightarrow>
          if xm_options x AND EXEC_DEFINE \<noteq> 0 \<and> xm_num_defines x > 0
          then (io_invalid ''column defines are not supported yet'', st)
          else
            (case (if xm_has_sql x then Some (0, xm_sql x)
                   else map_option (\<lambda>c. (xm_cursor_id x, wc_sql c)) (ws_cursors (fst st) (xm_cursor_id x))) of
               None \<Rightarrow> (Inr (write_error (call_status (fst st)) 0 0 (Some no_such_cursor)), st)
             | Some (cursor_id, sql) \<Rightarrow>
                 (case execute_request V (fst st) x cursor_id sql r of
                    Inl e \<Rightarrow> (Inl e, st)
                  | Inr q \<Rightarrow> run_statement V q st)))"

definition reexecute_request ::
  "('n, 'd, 'a) server \<Rightarrow> ('n, 'd) wire \<Rightarrow> 32 word \<Rightarrow> ('n, 'd) wire_cursor \<Rightarrow> 32 word \<Rightarrow> 32 word \<Rightarrow> 32 word \<Rightarrow> byte list \<Rightarrow>
   (io_error, ('n, 'd) request) rust" where
  "reexecute_request V w cursor_id c num_iters flags1 flags2 bs =
     rbind (time_zone_offset w) (\<lambda>tz.
     rbind (if wc_binds c \<noteq> [] then bind_rows_of (en_ext (sv_engine V)) (wc_binds c) (wc_bind_dirs c) tz bs else Inr []) (\<lambda>rows.
     Inr \<lparr>rq_cursor_id = cursor_id, rq_sql = wc_sql c, rq_binds = wc_binds c, rq_bind_dirs = wc_bind_dirs c, rq_bind_rows = rows,
          rq_executions = (if wc_columns c = [] then num_iters else 1),
          rq_fetch = (if flags1 AND 0x20 \<noteq> 0 then num_iters else 0),
          rq_commit = (flags2 AND EXEC_COMMIT_REEXECUTE \<noteq> 0)\<rparr>))"

definition reexecute :: "('n, 'd, 'a) server \<Rightarrow> byte list \<Rightarrow> ('n, 'd, byte list) wire_handler" where
  "reexecute V bs st =
     (case rbind (rd_ub4 bs) (\<lambda>(cursor_id, r1). rbind (rd_ub4 r1) (\<lambda>(num_iters, r2).
           rbind (rd_ub4 r2) (\<lambda>(flags1, r3). rbind (rd_ub4 r3) (\<lambda>(flags2, r4).
           Inr (cursor_id, num_iters, flags1, flags2, r4))))) of
        Inl e \<Rightarrow> (Inl e, st)
      | Inr (cursor_id, num_iters, flags1, flags2, r) \<Rightarrow>
          (case ws_cursors (fst st) cursor_id of
             None \<Rightarrow> (Inr (write_error (call_status (fst st)) 0 0 (Some no_such_cursor)), st)
           | Some c \<Rightarrow>
               (case reexecute_request V (fst st) cursor_id c num_iters flags1 flags2 r of
                  Inl e \<Rightarrow> (Inl e, st)
                | Inr q \<Rightarrow> run_statement V q st)))"

section \<open>Login\<close>

definition logon_denied :: ora_error where
  "logon_denied = ora 1017 ''invalid credential or not authorized; logon denied''"

definition auth_phase_one :: "('n, 'd, 'a) server \<Rightarrow> byte list \<Rightarrow> ('n, 'd, byte list) wire_handler" where
  "auth_phase_one V bs st =
     (case rbind (read_auth bs) (\<lambda>((user, _), _).
           rbind (challenge_new (sv_crypto V) (sv_random V) (sv_password V)) (\<lambda>(chal, reply). Inr (user, chal, reply))) of
        Inl e \<Rightarrow> (Inl e, st)
      | Inr (user, chal, reply) \<Rightarrow>
          (Inr ([MSG_PARAMETER] @ wr_ub2 5 @ wr_key_value ''AUTH_SESSKEY'' (po_sesskey reply) 0 @
             wr_key_value ''AUTH_VFR_DATA'' (po_vfr_data reply) VERIFIER_TYPE_12C @
             wr_key_value ''AUTH_PBKDF2_CSK_SALT'' (po_csk_salt reply) 0 @
             wr_key_value ''AUTH_PBKDF2_VGEN_COUNT'' (po_vgen_count reply) 0 @
             wr_key_value ''AUTH_PBKDF2_SDER_COUNT'' (po_sder_count reply) 0 @ write_status 0),
           ((fst st)\<lparr>ws_login := Challenged user chal\<rparr>, snd st)))"

definition login_params :: "string \<Rightarrow> string \<Rightarrow> (string \<times> string) list" where
  "login_params response service =
     [(''AUTH_SVR_RESPONSE'', response), (''AUTH_VERSION_NO'', nat_str SERVER_VERSION_NO),
      (''AUTH_VERSION_STRING'', ''- Mock''), (''AUTH_SESSION_ID'', ''1''), (''AUTH_SERIAL_NUM'', ''1''),
      (''AUTH_SC_SERVICE_NAME'', service), (''AUTH_SC_DB_DOMAIN'', ''''), (''AUTH_SC_DBUNIQUE_NAME'', ''MOCK''),
      (''AUTH_SC_REAL_DBUNIQUE_NAME'', ''MOCK''), (''AUTH_INSTANCENAME'', ''MOCK''), (''AUTH_DBNAME'', service),
      (''AUTH_MAX_IDEN_LENGTH'', ''128'')]"

text \<open>The new session of the database and the client's \<open>ALTER SESSION\<close> on it, whose error is ignored.\<close>

definition open_session ::
  "('n, 'd, 'a) server \<Rightarrow> string \<Rightarrow> string option \<Rightarrow> ('n, 'd) database \<Rightarrow> ('e, unit) rust \<times> ('n, 'd) connection" where
  "open_session V user stmt db =
     (let s = session_new (en_now (sv_engine V)) user in
      case stmt of
        None \<Rightarrow> (Inr (), (s, db))
      | Some t \<Rightarrow>
          (case sv_execute V (rev (dropWhile (\<lambda>c. c = CHR 0x00) (rev t))) [] (s, db) of
             (Inl Panic, h) \<Rightarrow> (Inl Panic, h)
           | (Inl Diverges, h) \<Rightarrow> (Inl Diverges, h)
           | (_, h) \<Rightarrow> (Inr (), h)))"

definition logged_in_reply :: "string \<Rightarrow> string \<Rightarrow> byte list" where
  "logged_in_reply response service =
     (let params = login_params response service in
      [MSG_PARAMETER] @ wr_ub2 (of_nat (length params)) @ concat (map (\<lambda>(k, v). wr_key_value k v 0) params) @ write_status 0)"

definition auth_phase_two :: "('n, 'd, 'a) server \<Rightarrow> byte list \<Rightarrow> ('n, 'd, byte list) wire_handler" where
  "auth_phase_two V bs st =
     (case read_auth bs of
        Inl e \<Rightarrow> (Inl e, st)
      | Inr ((_, kvs), _) \<Rightarrow>
          let w = (fst st)\<lparr>ws_login := LoginNone\<rparr>; get = (\<lambda>k. case kvs k of Some v \<Rightarrow> v | None \<Rightarrow> '''');
              denied = (Inr (write_error 0 0 0 (Some logon_denied)), (w, snd st)) in
          case ws_login (fst st) of
            Challenged user chal \<Rightarrow>
              (case verify (sv_crypto V) (sv_random V) chal (get ''AUTH_SESSKEY'') (get ''AUTH_PASSWORD'') (sv_password V) of
                 Inl (Err InvalidCredentials) \<Rightarrow> denied
               | Inl (Err (Protocol msg)) \<Rightarrow> (io_invalid msg, (w, snd st))
               | Inl Panic \<Rightarrow> (Inl Panic, (w, snd st))
               | Inl Diverges \<Rightarrow> (Inl Diverges, (w, snd st))
               | Inr response \<Rightarrow>
                   (case open_session V user (kvs ''AUTH_ALTER_SESSION'') (snd st) of
                      (Inl x, (s, db)) \<Rightarrow> (Inl x, (w\<lparr>ws_login := LoggedIn\<rparr>, db))
                    | (Inr _, (s, db)) \<Rightarrow>
                        (Inr (logged_in_reply response (to_uppercase (ws_service_name w))),
                         (w\<lparr>ws_login := LoggedIn, ws_db_session := Some s\<rparr>, db))))
          | _ \<Rightarrow> denied)"

section \<open>Messages\<close>

definition wire_commit :: "('n, 'd, 'a) server \<Rightarrow> ('n, 'd, byte list) wire_handler" where
  "wire_commit V st =
     (case on_session (\<lambda>(s, db). commit (en_ext (sv_engine V)) s db) st of
        (Inl x, st1) \<Rightarrow> (Inl x, st1)
      | (Inr (Inr _), st1) \<Rightarrow> (Inr (write_status (call_status (fst st1))), st1)
      | (Inr (Inl (Err e)), st1) \<Rightarrow> (Inr (write_error (call_status (fst st1)) 0 0 (Some e)), st1)
      | (Inr (Inl Panic), st1) \<Rightarrow> (Inl Panic, st1)
      | (Inr (Inl Diverges), st1) \<Rightarrow> (Inl Diverges, st1))"

definition wire_rollback :: "('n, 'd, byte list) wire_handler" where
  "wire_rollback st =
     (case on_session (\<lambda>(s, db). (Inr (), (rollback s, db))) st of
        (Inl x, st1) \<Rightarrow> (Inl x, st1)
      | (Inr _, st1) \<Rightarrow> (Inr (write_status 0), st1))"

definition wire_call :: "('n, 'd, 'a) server \<Rightarrow> byte \<Rightarrow> byte list \<Rightarrow> ('n, 'd, byte list) wire_handler" where
  "wire_call V func bs st =
     (if func = FUNC_AUTH_PHASE_ONE then auth_phase_one V bs st
      else if func = FUNC_AUTH_PHASE_TWO then auth_phase_two V bs st
      else if ws_login (fst st) \<noteq> LoggedIn then (Inr (write_error 0 0 0 (Some (ora 1012 ''not logged on''))), st)
      else if func = FUNC_EXECUTE then wire_execute V bs st
      else if func = FUNC_REEXECUTE \<or> func = FUNC_REEXECUTE_AND_FETCH then reexecute V bs st
      else if func = FUNC_FETCH then
        (case rbind (rd_ub4 bs) (\<lambda>(cursor_id, r). rbind (rd_ub4 r) (\<lambda>(array_size, _). Inr (cursor_id, array_size))) of
           Inl e \<Rightarrow> (Inl e, st)
         | Inr (cursor_id, array_size) \<Rightarrow> send_rows V cursor_id array_size st)
      else if func = FUNC_COMMIT then wire_commit V st
      else if func = FUNC_ROLLBACK \<or> func = FUNC_LOGOFF then wire_rollback st
      else if func = FUNC_PING then (Inr (write_status (call_status (fst st))), st)
      else (io_invalid (''unsupported function '' @ nat_str (unat func)), st))"

text \<open>Closing cursors removes each as its id is read, so those before an error stay closed.\<close>

fun close_cursors ::
  "nat \<Rightarrow> byte list \<Rightarrow> (32 word \<rightharpoonup> ('n, 'd) wire_cursor) \<Rightarrow> (io_error, byte list) rust \<times> (32 word \<rightharpoonup> ('n, 'd) wire_cursor)" where
  "close_cursors 0 bs cs = (Inr bs, cs)"
| "close_cursors (Suc n) bs cs =
     (case rd_ub4 bs of Inl e \<Rightarrow> (Inl e, cs) | Inr (i, r) \<Rightarrow> close_cursors n r (cs(i := None)))"

definition read_header :: "(byte \<times> byte) reader" where
  "read_header bs =
     rbind (rd_u8 bs) (\<lambda>(msg_type, r1). rbind (rd_u8 r1) (\<lambda>(func, r2). rbind (rd_u8 r2) (\<lambda>(_, r3).
     Inr ((msg_type, func), r3))))"

definition read_close_count :: "32 word reader" where
  "read_close_count bs = rbind (rd_u8 bs) (\<lambda>(_, r). rd_ub4 r)"

text \<open>The loop over the piggybacked messages in front of the call; every round takes the three bytes of a header.\<close>

fun wire_function :: "('n, 'd, 'a) server \<Rightarrow> nat \<Rightarrow> byte list \<Rightarrow> ('n, 'd, byte list) wire_handler" where
  "wire_function V 0 bs st = (Inl Diverges, st)"
| "wire_function V (Suc fuel) bs st =
     (case read_header bs of
        Inl e \<Rightarrow> (Inl e, st)
      | Inr ((msg_type, func), r) \<Rightarrow>
          if msg_type = MSG_PIGGYBACK then
            if func = FUNC_CLOSE_CURSORS then
              (case read_close_count r of
                 Inl e \<Rightarrow> (Inl e, st)
               | Inr (n, r1) \<Rightarrow>
                   (case close_cursors (unat n) r1 (ws_cursors (fst st)) of
                      (res, cs) \<Rightarrow>
                        let st1 = ((fst st)\<lparr>ws_cursors := cs\<rparr>, snd st) in
                        case res of Inl e \<Rightarrow> (Inl e, st1) | Inr r2 \<Rightarrow> wire_function V fuel r2 st1))
            else (io_invalid (''unsupported piggyback function '' @ nat_str (unat func)), st)
          else if msg_type = MSG_FUNCTION then wire_call V func r st
          else (io_invalid (''unexpected TTC message type '' @ nat_str (unat msg_type)), st))"

definition unsupported_reply :: "('n, 'd) wire \<Rightarrow> byte list" where
  "unsupported_reply w =
     write_error (call_status w) 0 0 (Some (ora 3115 ''unsupported network datatype or representation''))"

text \<open>A request that cannot be processed is answered with an error; a panic ends the connection.\<close>

definition dispatch :: "('n, 'd, 'a) server \<Rightarrow> byte list \<Rightarrow> ('n, 'd, byte list) wire_handler" where
  "dispatch V request st =
     (case (case request of
              [] \<Rightarrow> (io_invalid ''unexpected TTC message type None'', st)
            | b # _ \<Rightarrow>
                if b = MSG_PROTOCOL then (Inr write_protocol, st)
                else if b = MSG_DATA_TYPES then (Inr ([MSG_DATA_TYPES] @ wr_u16_be 0), st)
                else if b = MSG_FUNCTION \<or> b = MSG_PIGGYBACK then wire_function V (Suc (length request)) request st
                else (io_invalid (''unexpected TTC message type Some('' @ nat_str (unat b) @ '')''), st)) of
        (Inl (Err e), st1) \<Rightarrow> (Inr (unsupported_reply (fst st1)), st1)
      | r \<Rightarrow> r)"

section \<open>The connection\<close>

text \<open>A request is the data of the packets up to one with the end-of-request flag.\<close>

function read_request :: "byte list \<Rightarrow> byte list \<Rightarrow> (io_error, byte list option \<times> byte list) rust" where
  "read_request request input =
     (case read_packet True input of
        Inl e \<Rightarrow> Inl e
      | Inr (None, rest) \<Rightarrow> Inr (None, rest)
      | Inr (Some p, rest) \<Rightarrow>
          if pk_kind p = DATA then
            (case data_flags p of
               Inl e \<Rightarrow> Inl e
             | Inr flags \<Rightarrow>
                 if flags AND DATA_FLAG_EOF \<noteq> 0 then Inr (None, rest)
                 else
                   (case packet_data p of
                      Inl e \<Rightarrow> Inl e
                    | Inr data \<Rightarrow>
                        if flags AND DATA_FLAG_END_OF_REQUEST \<noteq> 0 then Inr (Some (request @ data), rest)
                        else read_request (request @ data) rest))
          else if pk_kind p = MARKER \<or> pk_kind p = CONTROL then read_request request rest
          else io_invalid (''unexpected packet type '' @ nat_str (unat (pk_kind p))))"
  by pat_completeness auto

termination
  by (relation "measure (\<lambda>(request, input). length input)") (auto dest: read_packet_shorter)

declare read_request.simps [simp del]

text \<open>Connect data too long for the packet follows in another one; \<open>more.data()\<close> takes the two bytes of data flags
  off whatever packet that is.\<close>

definition connect_descriptor ::
  "connect_request \<Rightarrow> byte list \<Rightarrow> (io_error, (string \<times> byte list) option) rust" where
  "connect_descriptor c input =
     (if length (cr_data c) < cr_data_len c then
        rbind (read_packet False input) (\<lambda>(packet, rest).
        case packet of
          None \<Rightarrow> Inr None
        | Some p \<Rightarrow> rbind (packet_data p) (\<lambda>d. Inr (Some (from_utf8_lossy d, rest))))
      else Inr (Some (from_utf8_lossy (cr_data c), input)))"

definition clamp_to :: "'w::len word \<Rightarrow> 'w word \<Rightarrow> 'w word \<Rightarrow> 'w word" where
  "clamp_to v lo hi = (if v < lo then lo else if v > hi then hi else v)"

definition service_of :: "string \<Rightarrow> string" where
  "service_of descriptor =
     (case descriptor_value descriptor ''SERVICE_NAME'' of
        Some v \<Rightarrow> v
      | None \<Rightarrow> (case descriptor_value descriptor ''SID'' of Some v \<Rightarrow> v | None \<Rightarrow> ''FREEPDB1''))"

text \<open>The result: whether the client is let in, with what is left of its stream, what it is sent, and the state.\<close>

definition handshake ::
  "('n, 'd) wire \<Rightarrow> byte list \<Rightarrow> (io_error, bool \<times> byte list \<times> byte list \<times> ('n, 'd) wire) rust" where
  "handshake w input =
     rbind (read_packet False input) (\<lambda>(packet, r1).
     case packet of
       None \<Rightarrow> Inr (False, r1, [], w)
     | Some p \<Rightarrow>
         if pk_kind p \<noteq> CONNECT then io_invalid (''expected CONNECT, got packet type '' @ nat_str (unat (pk_kind p)))
         else
           rbind (parse_connect p) (\<lambda>c.
           rbind (connect_descriptor c r1) (\<lambda>d.
           case d of
             None \<Rightarrow> Inr (False, [], [], w)
           | Some (descriptor, r2) \<Rightarrow>
               if cr_version c < MIN_VERSION then Inr (False, r2, write_packet False REFUSE (refuse_body 12520), w)
               else
                 let sdu = clamp_to (cr_sdu c) 512 (2 * 1024 * 1024); tdu = clamp_to (cr_tdu c) 255 (2 * 1024 * 1024) in
                 Inr (True, r2, write_packet False ACCEPT (accept_body sdu tdu),
                      w\<lparr>ws_service_name := service_of descriptor, ws_sdu := unat sdu\<rparr>))))"

text \<open>The loop over the requests. \<open>Vs k\<close> is what the connection is given at its \<open>k\<close>-th request; every request
  takes bytes of the stream. The result has what the client has been sent when the connection ends.\<close>

fun serve ::
  "(nat \<Rightarrow> ('n, 'd, 'a) server) \<Rightarrow> nat \<Rightarrow> nat \<Rightarrow> byte list \<Rightarrow> ('n, 'd) wire_state \<Rightarrow>
   (io_error, unit) rust \<times> byte list \<times> ('n, 'd) wire_state" where
  "serve Vs k 0 input st = (Inl Diverges, [], st)"
| "serve Vs k (Suc fuel) input st =
     (case read_request [] input of
        Inl e \<Rightarrow> (Inl e, [], st)
      | Inr (None, _) \<Rightarrow> (Inr (), [], st)
      | Inr (Some request, rest) \<Rightarrow>
          (case dispatch (Vs k) request (fst st, sv_meanwhile (Vs k) (snd st)) of
             (Inl x, st1) \<Rightarrow> (Inl x, [], st1)
           | (Inr reply, st1) \<Rightarrow>
               (case write_data (ws_sdu (fst st1)) reply of
                  Inl x \<Rightarrow> (Inl x, [], st1)
                | Inr sent \<Rightarrow>
                    (case serve Vs (Suc k) fuel rest st1 of (r, out, st2) \<Rightarrow> (r, sent @ out, st2)))))"

definition wire_run ::
  "(nat \<Rightarrow> ('n, 'd, 'a) server) \<Rightarrow> byte list \<Rightarrow> ('n, 'd) database \<Rightarrow> (io_error, unit) rust \<times> byte list \<times> ('n, 'd) wire_state" where
  "wire_run Vs input db =
     (case handshake wire_new input of
        Inl e \<Rightarrow> (Inl e, [], (wire_new, db))
      | Inr (accepted, rest, sent, w) \<Rightarrow>
          if \<not> accepted then (Inr (), sent, (w, db))
          else (case serve Vs 0 (Suc (length rest)) rest (w, db) of (r, out, st) \<Rightarrow> (r, sent @ out, st)))"

end
