(* ===== verification/Wire_Correct.thy ===== *)
theory Wire_Correct
  imports Wire_Session Session_Correct
begin

text \<open>
  What a connection guarantees. Readers are tame: on any bytes they fail with an I/O error or leave a rest of
  their input. So a client that has not logged in gets an answer to whatever it sends and reaches nothing of the
  database; and what a logged-in client does goes through the session's own guarantees.
\<close>

section \<open>Tame readers\<close>

named_theorems tames \<open>the readers that are tame\<close>

definition tame :: "'r reader \<Rightarrow> bool" where
  "tame rd \<longleftrightarrow> (\<forall>bs. (\<forall>f. rd bs = Inl f \<longrightarrow> (\<exists>e. f = Err e)) \<and> (\<forall>x rest. rd bs = Inr (x, rest) \<longrightarrow> suffix rest bs))"

lemma tameI: "\<lbrakk>\<And>bs f. rd bs = Inl f \<Longrightarrow> \<exists>e. f = Err e; \<And>bs x rest. rd bs = Inr (x, rest) \<Longrightarrow> suffix rest bs\<rbrakk> \<Longrightarrow> tame rd"
  by (auto simp: tame_def)

lemma tameD: "tame rd \<Longrightarrow> rd bs = Inl f \<Longrightarrow> \<exists>e. f = Err e" "tame rd \<Longrightarrow> rd bs = Inr (x, rest) \<Longrightarrow> suffix rest bs"
  by (auto simp: tame_def)

lemma tame_safe: "safe_reader rd \<Longrightarrow> tame rd"
  by (rule tameI) (auto dest: safe_weak simp: suffix_def)

lemmas [tames] = tame_safe [OF safe_u8] tame_safe [OF safe_ub4] tame_safe [OF safe_bytes_with_length]
  tame_safe [OF safe_string_with_length] tame_safe [OF safe_key_value]

lemma tame_bind [tames]:
  assumes "tame rd" and "\<And>x. tame (g x)"
  shows "tame (\<lambda>bs. rbind (rd bs) (\<lambda>(x, r). g x r))"
proof (rule tameI)
  fix bs f
  assume "rbind (rd bs) (\<lambda>(x, r). g x r) = Inl f"
  then show "\<exists>e. f = Err e" using tameD(1) [OF assms(1)] tameD(1) [OF assms(2)] by (auto simp: rbind_eq_Inl)
next
  fix bs y rest
  assume "rbind (rd bs) (\<lambda>(x, r). g x r) = Inr (y, rest)"
  then obtain x r where "rd bs = Inr (x, r)" "g x r = Inr (y, rest)" by (auto simp: rbind_eq_Inr)
  then show "suffix rest bs" using tameD(2) [OF assms(1)] tameD(2) [OF assms(2)] suffix_order.trans by blast
qed

lemma tame_ret [tames]: "tame (\<lambda>bs. Inr (x, bs))"
  by (simp add: tame_def)

lemma tame_if [tames]: "tame f \<Longrightarrow> tame g \<Longrightarrow> tame (\<lambda>bs. if c then f bs else g bs)"
  by (cases c) simp_all

lemma tame_times [tames]: "tame rd \<Longrightarrow> tame (rd_times n rd)"
proof (induction n)
  case (Suc n)
  then have "tame (\<lambda>bs. rbind (rd bs) (\<lambda>(x, r1). rbind (rd_times n rd r1) (\<lambda>(xs, r2). Inr (x # xs, r2))))"
    by (intro tames)
  then show ?case by (simp add: tame_def)
qed (simp add: tame_def)

lemma tame_skip [tames]: "tame (rd_skip fs)"
proof (induction fs)
  case (Cons f fs)
  have "tame (\<lambda>bs. rbind (if f then rbind (rd_ub4 bs) (\<lambda>(_, r). Inr ((), r)) else rbind (rd_u8 bs) (\<lambda>(_, r). Inr ((), r)))
       (\<lambda>(_, r). rd_skip fs r))"
    by (intro tames Cons)
  then show ?case by (simp add: tame_def)
qed (simp add: tame_def)

lemma tame_read_auth [tames]: "tame read_auth"
  unfolding read_auth_def by (intro tames)

lemma tame_read_header [tames]: "tame read_header"
  unfolding read_header_def by (intro tames)

lemma tame_read_close_count [tames]: "tame read_close_count"
  unfolding read_close_count_def by (intro tames)

lemma tame_length: "tame rd \<Longrightarrow> rd bs = Inr (x, rest) \<Longrightarrow> length rest \<le> length bs"
  by (drule (1) tameD(2)) (rule suffix_length_le)

lemma header_shorter: "read_header bs = Inr (x, r) \<Longrightarrow> length r < length bs"
  by (auto simp: read_header_def rbind_eq_Inr dest!: rd_u8_length)

lemma close_cursors_tame:
  "close_cursors n bs cs = (Inl f, cs') \<Longrightarrow> \<exists>e. f = Err e"
  "close_cursors n bs cs = (Inr r, cs') \<Longrightarrow> suffix r bs"
proof (induction n arbitrary: bs cs)
  case (Suc n)
  {
    case 1
    then show ?case using Suc.IH(1) tameD(1) [OF tame_safe [OF safe_ub4]] by (auto split: sum.splits)
  next
    case 2
    then obtain i b where "rd_ub4 bs = Inr (i, b)" "close_cursors n b (cs(i := None)) = (Inr r, cs')"
      by (auto split: sum.splits)
    then show ?case using Suc.IH(2) tameD(2) [OF tame_safe [OF safe_ub4]] suffix_order.trans by blast
  }
qed auto

section \<open>Before the login\<close>

text \<open>The request answers the challenge of the connection with the password of the server.\<close>

definition presents_password :: "('n, 'd, 'a) server \<Rightarrow> ('n, 'd) wire \<Rightarrow> byte list \<Rightarrow> bool" where
  "presents_password V w request \<longleftrightarrow>
     (\<exists>user chal bs u kvs rest response. ws_login w = Challenged user chal \<and> suffix bs request \<and>
        read_auth bs = Inr ((u, kvs), rest) \<and>
        verify (sv_crypto V) (sv_random V) chal (case kvs ''AUTH_SESSKEY'' of Some v \<Rightarrow> v | None \<Rightarrow> '''')
          (case kvs ''AUTH_PASSWORD'' of Some v \<Rightarrow> v | None \<Rightarrow> '''') (sv_password V) = Inr response)"

definition keys_sized :: "('n, 'd, 'a) server \<Rightarrow> bool" where
  "keys_sized V \<longleftrightarrow> lawful_crypto (sv_crypto V) \<and> length (lr_server_key (sv_random V)) = 32 \<and> length (lr_response (sv_random V)) = 16"

definition waiting :: "('n, 'd) wire \<Rightarrow> bool" where
  "waiting w \<longleftrightarrow> (case ws_login w of LoginNone \<Rightarrow> True | Challenged _ chal \<Rightarrow> length (ch_password_hash chal) = 32 | LoggedIn \<Rightarrow> False)"

text \<open>An outcome that leaves the client outside: an answer or an I/O error, and nothing touched.\<close>

definition outside :: "('n, 'd) wire_state \<Rightarrow> (io_error, byte list) rust \<times> ('n, 'd) wire_state \<Rightarrow> bool" where
  "outside st res \<longleftrightarrow>
     (case res of (r, (w', db')) \<Rightarrow> ((\<exists>reply. r = Inr reply) \<or> (\<exists>e. r = Inl (Err e))) \<and> waiting w' \<and> db' = snd st \<and>
        ws_db_session w' = ws_db_session (fst st) \<and> ws_sdu w' = ws_sdu (fst st))"

lemma waitingD: "waiting w \<Longrightarrow> ws_login w \<noteq> LoggedIn"
  by (auto simp: waiting_def)

lemma auth_phase_one_outside:
  assumes "keys_sized V" and "waiting (fst st)"
  shows "outside st (auth_phase_one V bs st)"
proof -
  obtain chal reply where new: "challenge_new (sv_crypto V) (sv_random V) (sv_password V) = (Inr (chal, reply) :: (io_error, _) rust)"
    and chal: "length (ch_password_hash chal) = 32"
  proof
    have "length (password_hash (sv_crypto V) (sv_password V) (lr_verifier_salt (sv_random V))) = 32"
      using assms(1) lawful_crypto.hash_length by (auto simp: keys_sized_def)
    then show "length (ch_password_hash (fst (projr (challenge_new (sv_crypto V) (sv_random V) (sv_password V) :: (io_error, _) rust)))) = 32"
      using assms(1) by (simp add: challenge_new_def encrypt_def Let_def keys_sized_def)
    show "challenge_new (sv_crypto V) (sv_random V) (sv_password V) =
      Inr (fst (projr (challenge_new (sv_crypto V) (sv_random V) (sv_password V) :: (io_error, _) rust)),
           snd (projr (challenge_new (sv_crypto V) (sv_random V) (sv_password V) :: (io_error, _) rust)))"
      using assms(1) by (simp add: challenge_new_def encrypt_def Let_def keys_sized_def)
  qed
  show ?thesis
    using assms chal tameD(1) [OF tame_read_auth]
    by (auto simp: auth_phase_one_def new outside_def waiting_def rbind_eq_Inl rbind_eq_Inr split: sum.split prod.splits)
qed

lemma auth_phase_two_outside:
  assumes "keys_sized V" and "waiting (fst st)" and "\<not> presents_password V (fst st) request" and "suffix bs request"
  shows "outside st (auth_phase_two V bs st)"
proof (cases "read_auth bs")
  case (Inl e)
  then show ?thesis using assms(2) tameD(1) [OF tame_read_auth] by (force simp: auth_phase_two_def outside_def)
next
  case (Inr z)
  obtain u kvs rest where z: "z = ((u, kvs), rest)" by (metis surj_pair)
  let ?get = "\<lambda>k. case kvs k of Some v \<Rightarrow> v | None \<Rightarrow> ''''"
  show ?thesis
  proof (cases "ws_login (fst st)")
    case (Challenged user chal)
    let ?v = "verify (sv_crypto V) (sv_random V) chal (?get ''AUTH_SESSKEY'') (?get ''AUTH_PASSWORD'') (sv_password V)"
    have "length (ch_password_hash chal) = 32" using assms(2) Challenged by (simp add: waiting_def)
    then have "?v \<noteq> Inl Panic" "?v \<noteq> Inl Diverges"
      using assms(1) by (auto simp: keys_sized_def lawful_crypto.verify_steps Let_def split: option.split)
    moreover have "?v \<noteq> Inr response" for response
      using assms(3,4) Inr z Challenged unfolding presents_password_def by blast
    ultimately obtain e where "?v = Inl (Err e)" by (metis fail.exhaust sum.exhaust)
    then show ?thesis using Inr z Challenged
      by (auto simp: auth_phase_two_def outside_def waiting_def Let_def split: login_error.split)
  qed (use Inr z assms(2) in \<open>auto simp: auth_phase_two_def outside_def waiting_def Let_def\<close>)
qed

lemma wire_call_outside:
  assumes "keys_sized V" and "waiting (fst st)" and "\<not> presents_password V (fst st) request" and "suffix bs request"
  shows "outside st (wire_call V func bs st)"
  using auth_phase_one_outside [OF assms(1,2)] auth_phase_two_outside [OF assms] waitingD [OF assms(2)] assms(2)
  by (auto simp: wire_call_def outside_def)

lemma wire_function_outside:
  assumes "keys_sized V"
  shows "\<lbrakk>waiting (fst st); \<not> presents_password V (fst st) request; suffix bs request; length bs < fuel\<rbrakk> \<Longrightarrow>
    outside st (wire_function V fuel bs st)"
proof (induction fuel arbitrary: bs st)
  case (Suc fuel)
  show ?case
  proof (cases "read_header bs")
    case (Inl e)
    then show ?thesis using Suc.prems(1) tameD(1) [OF tame_read_header] by (force simp: outside_def)
  next
    case (Inr z)
    obtain msg func r where z: "z = ((msg, func), r)" by (metis surj_pair)
    have r: "suffix r request" "length r < fuel"
      using tameD(2) [OF tame_read_header Inr [unfolded z]] Suc.prems(3,4) header_shorter [OF Inr [unfolded z]]
        suffix_order.trans by (blast, linarith)
    show ?thesis
    proof (cases "msg = MSG_PIGGYBACK \<and> func = FUNC_CLOSE_CURSORS")
      case True
      show ?thesis
      proof (cases "read_close_count r")
        case (Inl e)
        then show ?thesis
          using \<open>read_header bs = Inr z\<close> z True Suc.prems(1) tameD(1) [OF tame_read_close_count]
          by (force simp: outside_def)
      next
        case (Inr c)
        obtain n r1 where c: "c = (n, r1)" by (cases c)
        obtain res cs where cl: "close_cursors (unat n) r1 (ws_cursors (fst st)) = (res, cs)" by (metis surj_pair)
        let ?st = "((fst st)\<lparr>ws_cursors := cs\<rparr>, snd st)"
        have unfolded: "wire_function V (Suc fuel) bs st =
            (case res of Inl e \<Rightarrow> (Inl e, ?st) | Inr r2 \<Rightarrow> wire_function V fuel r2 ?st)"
          using \<open>read_header bs = Inr z\<close> z True Inr c cl by (simp add: Let_def)
        have w: "waiting (fst ?st)" "\<not> presents_password V (fst ?st) request"
          using Suc.prems(1,2) by (simp_all add: waiting_def presents_password_def)
        show ?thesis
        proof (cases res)
          case (Inl e)
          then show ?thesis using close_cursors_tame(1) cl w(1) unfolding unfolded by (force simp: outside_def)
        next
          case (Inr r2)
          have "suffix r2 r" using close_cursors_tame(2) [OF cl [unfolded Inr]]
              tameD(2) [OF tame_read_close_count \<open>read_close_count r = Inr c\<close> [unfolded c]] suffix_order.trans by blast
          then have "suffix r2 request" "length r2 < fuel"
            using r suffix_order.trans suffix_length_le [of r2 r] by (blast, linarith)
          from Suc.IH [OF w this] show ?thesis unfolding unfolded Inr by (simp add: outside_def)
        qed
      qed
    next
      case False
      then show ?thesis
        using Inr z wire_call_outside [OF assms Suc.prems(1,2) r(1), of func] Suc.prems(1) by (auto simp: outside_def)
    qed
  qed
qed simp

lemma dispatch_outside:
  assumes "keys_sized V" and "waiting (fst st)" and "\<not> presents_password V (fst st) request"
  shows "\<exists>reply w'. dispatch V request st = (Inr reply, (w', snd st)) \<and> waiting w' \<and>
    ws_db_session w' = ws_db_session (fst st) \<and> ws_sdu w' = ws_sdu (fst st)"
proof -
  have fn: "outside st (wire_function V (Suc (length request)) request st)"
    by (rule wire_function_outside [OF assms]) simp_all
  then show ?thesis
    using assms(2) by (cases st) (auto simp: dispatch_def outside_def split: list.split prod.splits)
qed

section \<open>A whole connection\<close>

lemma read_packet_tame: "read_packet large input = Inl f \<Longrightarrow> \<exists>e. f = Err e"
  by (auto simp: read_packet_def Let_def split: if_splits)

lemma read_packet_data:
  assumes "read_packet large input = Inr (Some p, rest)" and "pk_kind p = DATA"
  shows "\<exists>flags data. data_flags p = (Inr flags :: ('e, _) rust) \<and> packet_data p = (Inr data :: ('e, _) rust)"
proof -
  have "2 \<le> length (pk_body p)" using assms by (auto simp: read_packet_def Let_def split: if_splits)
  then show ?thesis by (auto simp: data_flags_def packet_data_def index_def)
qed

lemma read_request_tame:
  "read_request request input = Inl f \<Longrightarrow> \<exists>e. f = Err e"
  "read_request request input = Inr (Some x, rest) \<Longrightarrow> length rest < length input"
proof (induction request input arbitrary: f x rest rule: read_request.induct)
  case (1 request input)
  {
    case 1
    then show ?case
      using "1.IH"(1,3) read_packet_tame read_packet_data [of True input, where ?'e = io_error]
      by (subst (asm) read_request.simps) (fastforce split: sum.splits option.splits if_splits)
  next
    case 2
    then show ?case
      using "1.IH"(2,4) read_packet_shorter [of True input]
      by (subst (asm) read_request.simps) (fastforce split: sum.splits option.splits if_splits)
  }
qed

text \<open>The requests a connection handles, each with what the connection is given for it and the state it is in.\<close>

fun handled ::
  "(nat \<Rightarrow> ('n, 'd, 'a) server) \<Rightarrow> nat \<Rightarrow> nat \<Rightarrow> byte list \<Rightarrow> ('n, 'd) wire_state \<Rightarrow> (('n, 'd, 'a) server \<times> ('n, 'd) wire \<times> byte list) list" where
  "handled Vs k 0 input st = []"
| "handled Vs k (Suc fuel) input st =
     (case read_request [] input of
        Inr (Some request, rest) \<Rightarrow>
          (Vs k, fst st, request) #
          (case dispatch (Vs k) request (fst st, sv_meanwhile (Vs k) (snd st)) of
             (Inr reply, st1) \<Rightarrow>
               if HEADER_LEN + 2 < ws_sdu (fst st1) then handled Vs (Suc k) fuel rest st1 else []
           | _ \<Rightarrow> [])
      | _ \<Rightarrow> [])"

definition handled_by_run ::
  "(nat \<Rightarrow> ('n, 'd, 'a) server) \<Rightarrow> byte list \<Rightarrow> ('n, 'd) database \<Rightarrow> (('n, 'd, 'a) server \<times> ('n, 'd) wire \<times> byte list) list" where
  "handled_by_run Vs input db =
     (case handshake wire_new input of
        Inr (True, rest, _, w) \<Rightarrow> handled Vs 0 (Suc (length rest)) rest (w, db)
      | _ \<Rightarrow> [])"

text \<open>What others do while the requests are handled.\<close>

definition meanwhile :: "(('n, 'd, 'a) server \<times> ('n, 'd) wire \<times> byte list) list \<Rightarrow> ('n, 'd) database \<Rightarrow> ('n, 'd) database" where
  "meanwhile hs db = fold (\<lambda>(V, _, _). sv_meanwhile V) hs db"

lemma serve_outside:
  assumes "\<And>k. keys_sized (Vs k)"
  shows "\<lbrakk>waiting (fst st); HEADER_LEN + 2 < ws_sdu (fst st); length input < fuel;
      \<forall>(V, w, request) \<in> set (handled Vs k fuel input st). \<not> presents_password V w request\<rbrakk> \<Longrightarrow>
    case serve Vs k fuel input st of (r, out, (w', db')) \<Rightarrow> (r = Inr () \<or> (\<exists>e. r = Inl (Err e))) \<and> waiting w' \<and>
      ws_db_session w' = ws_db_session (fst st) \<and> db' = meanwhile (handled Vs k fuel input st) (snd st)"
proof (induction fuel arbitrary: k input st)
  case (Suc fuel)
  show ?case
  proof (cases "read_request [] input")
    case (Inl e)
    then show ?thesis using Suc.prems read_request_tame(1) [OF Inl] by (cases st) (auto simp: meanwhile_def)
  next
    case (Inr z)
    show ?thesis
    proof (cases "fst z")
      case None
      then show ?thesis using Inr Suc.prems by (cases z; cases st) (auto simp: meanwhile_def)
    next
      case (Some request)
      obtain rest where z: "read_request [] input = Inr (Some request, rest)" using Inr Some by (cases z) auto
      let ?st = "(fst st, sv_meanwhile (Vs k) (snd st))"
      have "\<not> presents_password (Vs k) (fst ?st) request" using Suc.prems(4) z by simp
      then obtain reply w' where d: "dispatch (Vs k) request ?st = (Inr reply, (w', snd ?st))" and w: "waiting w'"
        "ws_db_session w' = ws_db_session (fst st)" "ws_sdu w' = ws_sdu (fst st)"
        using dispatch_outside [OF assms, of ?st k request] Suc.prems(1) by auto
      have sdu: "HEADER_LEN + 2 < ws_sdu w'" using w(3) Suc.prems(2) by simp
      have h: "handled Vs k (Suc fuel) input st = (Vs k, fst st, request) # handled Vs (Suc k) fuel rest (w', snd ?st)"
        using z d sdu by simp
      obtain sent where sent: "write_data (ws_sdu w') reply = (Inr sent :: (io_error, _) rust)"
        using sdu by (simp add: write_data_def)
      have "length rest < fuel" using read_request_tame(2) [OF z] Suc.prems(3) by simp
      moreover have "\<forall>(V, w, request) \<in> set (handled Vs (Suc k) fuel rest (w', snd ?st)). \<not> presents_password V w request"
        using Suc.prems(4) unfolding h by simp
      ultimately show ?thesis
        using Suc.IH [of "(w', snd ?st)" rest "Suc k"] w sdu z d sent unfolding h
        by (auto simp: meanwhile_def split: prod.splits)
    qed
  qed
qed simp

lemma handshake_accepts:
  assumes "handshake w input = Inr (ok, rest, out, w')"
  shows "w' = w \<and> \<not> ok \<or> (\<exists>name sdu. w' = w\<lparr>ws_service_name := name, ws_sdu := sdu\<rparr> \<and> 512 \<le> sdu \<and> sdu \<le> 2 * 1024 * 1024)"
proof -
  have clamped: "512 \<le> unat (clamp_to v 512 (2 * 1024 * 1024)) \<and> unat (clamp_to v 512 (2 * 1024 * 1024)) \<le> 2 * 1024 * 1024"
    for v :: "32 word"
    by (auto simp: clamp_to_def word_less_nat_alt)
  obtain packet r1 where packet: "read_packet False input = Inr (packet, r1)"
    using assms by (auto simp: handshake_def rbind_eq_Inr)
  show ?thesis
  proof (cases packet)
    case (Some p)
    then obtain c d where "parse_connect p = Inr c" "connect_descriptor c r1 = Inr d"
      and d: "(case d of
             None \<Rightarrow> Inr (False, [], [], w)
           | Some (descriptor, r2) \<Rightarrow>
               if cr_version c < MIN_VERSION then Inr (False, r2, write_packet False REFUSE (refuse_body 12520), w)
               else
                 let sdu = clamp_to (cr_sdu c) 512 (2 * 1024 * 1024); tdu = clamp_to (cr_tdu c) 255 (2 * 1024 * 1024) in
                 Inr (True, r2, write_packet False ACCEPT (accept_body sdu tdu),
                      w\<lparr>ws_service_name := service_of descriptor, ws_sdu := unat sdu\<rparr>)) = (Inr (ok, rest, out, w') :: (io_error, _) rust)"
      using assms packet by (auto simp: handshake_def rbind_eq_Inr split: if_split_asm)
    show ?thesis
    proof (cases d)
      case (Some e)
      then show ?thesis using d clamped by (cases e) (auto simp: Let_def split: if_split_asm)
    qed (use d in simp)
  qed (use assms packet in \<open>simp add: handshake_def\<close>)
qed

definition concludes :: "('e, 'r) rust \<Rightarrow> bool" where
  "concludes r \<longleftrightarrow> r \<noteq> Inl Diverges"

lemma concludes_bind: "concludes r \<Longrightarrow> (\<And>a. concludes (f a)) \<Longrightarrow> concludes (rbind r f)"
  by (cases r) (auto simp: concludes_def)

lemma concludes_simps [simp]: "concludes (Inr x)" "concludes (Inl (Err e))" "concludes (Inl Panic)"
  by (simp_all add: concludes_def)

lemma handshake_ends: "concludes (handshake w input)"
proof -
  have packet: "concludes (read_packet large input)" for large input using read_packet_tame by (force simp: concludes_def)
  have parse: "concludes (parse_connect p)" for p by (simp add: parse_connect_def Let_def)
  have data: "concludes (packet_data p)" for p by (simp add: packet_data_def)
  have descr: "concludes (connect_descriptor c r)" for c r
    by (auto simp: connect_descriptor_def intro!: concludes_bind packet data split: option.split)
  show ?thesis by (auto simp: handshake_def Let_def intro!: concludes_bind packet parse descr split: option.split)
qed

section \<open>After the login\<close>

text \<open>Only the session of the database and the database have changed, as the session holds its work.\<close>

definition ses_kept :: "('n, 'd) wire_state \<Rightarrow> ('n, 'd) wire_state \<Rightarrow> bool" where
  "ses_kept st st' \<longleftrightarrow>
     (case ws_db_session (fst st) of
        None \<Rightarrow> st' = st
      | Some s \<Rightarrow> \<exists>s' db'. st' = ((fst st)\<lparr>ws_db_session := Some s'\<rparr>, db') \<and> held (s, snd st) (s', db'))"

lemma ses_keptI:
  "ws_db_session w = Some s \<Longrightarrow> held (s, db) (s', db') \<Longrightarrow> ses_kept (w, db) (w\<lparr>ws_db_session := Some s'\<rparr>, db')"
  by (auto simp: ses_kept_def)

lemma ses_kept_refl: "ses_kept st st"
proof (cases "ws_db_session (fst st)")
  case (Some s)
  then have "(fst st)\<lparr>ws_db_session := Some s\<rparr> = fst st" by simp
  then show ?thesis using ses_keptI [OF Some held_refl, of "snd st"] by simp
qed (simp add: ses_kept_def)

lemma ses_kept_trans: "ses_kept a b \<Longrightarrow> ses_kept b c \<Longrightarrow> ses_kept a c"
  by (auto simp: ses_kept_def split: option.splits intro: held_trans)

lemma on_session_kept:
  assumes "\<And>h. held h (snd (f h))"
  shows "ses_kept st (snd (on_session f st))"
proof (cases "ws_db_session (fst st)")
  case (Some s)
  then show ?thesis using ses_keptI [OF Some] assms [of "(s, snd st)"]
    by (cases st) (auto simp: on_session_def split: prod.split)
qed (cases st, simp add: on_session_def ses_kept_refl)

lemma sv_execute_kept: "ses_kept st (snd (on_session (sv_execute V sql row) st))"
  by (rule on_session_kept) (simp add: sv_execute_def execute_held)

lemma commit_kept: "ses_kept st (snd (on_session (\<lambda>(s, db). commit E s db) st))"
  by (rule on_session_kept) (metis case_prod_conv commit_held prod.collapse)

lemma rollback_kept: "ses_kept st (snd (on_session (\<lambda>(s, db). (Inr (), (rollback s, db))) st))"
  by (rule on_session_kept) (auto simp: rollback_def held_def)

text \<open>Undoing to the savepoint of the start of a call.\<close>

lemma undo_kept:
  assumes "ws_db_session (fst st0) = Some s0" and "ses_kept st0 st"
  shows "ses_kept st0 (snd (on_session (\<lambda>(s, db). case rollback_to E (ses_savepoint s0) s of
      Inr s' \<Rightarrow> (Inr (), (s', db)) | Inl x \<Rightarrow> (Inl x, (s, db))) st))"
proof -
  obtain s db where st: "st = ((fst st0)\<lparr>ws_db_session := Some s\<rparr>, db)" and h: "held (s0, snd st0) (s, db)"
    using assms by (auto simp: ses_kept_def)
  show ?thesis
  proof (cases "rollback_to E (ses_savepoint s0) s :: (ora_error, _) rust")
    case (Inl x)
    then show ?thesis using ses_keptI [OF assms(1) h] by (simp add: st on_session_def)
  next
    case (Inr s')
    have "held (s0, snd st0) (s', db)" using rollback_to_log [OF h Inr] h by (auto simp: held_def)
    then show ?thesis using ses_keptI [OF assms(1), of "snd st0" s' db] Inr by (simp add: st on_session_def)
  qed
qed

lemma run_rows_kept:
  assumes "ws_db_session (fst st0) = Some s0"
  shows "ses_kept st0 st \<Longrightarrow> ses_kept st0 (snd (run_rows V q tz (ses_savepoint s0) rows acc st))"
proof (induction rows arbitrary: acc st)
  case (Cons row rows)
  obtain x st1 where x: "on_session (sv_execute V (rq_sql q) row) st = (x, st1)" by (metis surj_pair)
  have st1: "ses_kept st0 st1" using ses_kept_trans [OF Cons.prems] sv_execute_kept [of st V "rq_sql q" row] x by simp
  show ?case
    using x st1 Cons.IH [OF st1] undo_kept [OF assms st1, of "en_ext (sv_engine V)"]
    by (auto simp: Let_def split: sum.split fail.split prod.splits)
qed simp

lemma commit_after_kept: "ses_kept st (snd (commit_after V q n st))"
  using commit_kept [of st "en_ext (sv_engine V)"]
  by (auto simp: commit_after_def ses_kept_refl split: sum.split fail.split prod.splits)

text \<open>The cursors of a connection: their ids have been given out, and 0 never is.\<close>

definition cursors_ok :: "('n, 'd) wire \<Rightarrow> bool" where
  "cursors_ok w \<longleftrightarrow> 1 \<le> ws_next_cursor_id w \<and> ws_next_cursor_id w < 2 ^ 32 \<and>
     (\<forall>i \<in> dom (ws_cursors w). i \<noteq> 0 \<and> unat i < ws_next_cursor_id w)"

definition wire_kept :: "('n, 'd) wire_state \<Rightarrow> ('n, 'd) wire_state \<Rightarrow> bool" where
  "wire_kept st st' \<longleftrightarrow> ws_login (fst st') = ws_login (fst st) \<and> ws_sdu (fst st') = ws_sdu (fst st) \<and>
     (cursors_ok (fst st) \<longrightarrow> cursors_ok (fst st')) \<and>
     (case ws_db_session (fst st) of
        None \<Rightarrow> ws_db_session (fst st') = None \<and> snd st' = snd st
      | Some s \<Rightarrow> \<exists>s'. ws_db_session (fst st') = Some s' \<and> held (s, snd st) (s', snd st'))"

lemma kept_refl: "wire_kept st st"
  by (auto simp: wire_kept_def held_refl split: option.split)

lemma kept_trans: "wire_kept a b \<Longrightarrow> wire_kept b c \<Longrightarrow> wire_kept a c"
  by (auto simp: wire_kept_def split: option.splits intro: held_trans)

lemma ses_kept_kept: "ses_kept st st' \<Longrightarrow> wire_kept st st' \<and> ws_cursors (fst st') = ws_cursors (fst st)"
  by (auto simp: ses_kept_def wire_kept_def cursors_ok_def split: option.splits)

lemma kept_cursors: "(cursors_ok w \<Longrightarrow> cursors_ok (w\<lparr>ws_cursors := cs\<rparr>)) \<Longrightarrow> wire_kept (w, db) (w\<lparr>ws_cursors := cs\<rparr>, db)"
  by (auto simp: wire_kept_def held_refl split: option.split)

lemma kept_put: "i \<in> dom (ws_cursors w) \<Longrightarrow> wire_kept (w, db) (w\<lparr>ws_cursors := (ws_cursors w)(i \<mapsto> c)\<rparr>, db)"
  by (rule kept_cursors) (auto simp: cursors_ok_def)

lemma send_rows_kept: "wire_kept st (snd (send_rows V i n st))"
  by (cases st) (auto simp: send_rows_def Let_def kept_refl intro: kept_put split: option.split)

lemma cursor_for_kept:
  assumes "cursor_for i w = Inr (j, w')" and "i = 0 \<or> i \<in> dom (ws_cursors w)"
  shows "wire_kept (w, db) (w'\<lparr>ws_cursors := (ws_cursors w')(j \<mapsto> c)\<rparr>, db)"
proof (cases "i = 0")
  case True
  then have w': "w' = w\<lparr>ws_next_cursor_id := ws_next_cursor_id w + 1\<rparr>" "j = of_nat (ws_next_cursor_id w)"
    and n: "ws_next_cursor_id w + 1 < 2 ^ 32"
    using assms(1) by (auto simp: cursor_for_def split: if_split_asm)
  have "unat j = ws_next_cursor_id w" using n w'(2) by (simp add: unat_of_nat)
  then have "cursors_ok w \<Longrightarrow> cursors_ok (w'\<lparr>ws_cursors := (ws_cursors w')(j \<mapsto> c)\<rparr>)"
    using n unfolding w'(1) by (auto simp: cursors_ok_def less_Suc_eq)
  then show ?thesis unfolding w'(1) by (auto simp: wire_kept_def held_refl split: option.split)
next
  case False
  then show ?thesis using assms kept_put [of j w' db c] by (auto simp: cursor_for_def)
qed

lemma statement_done_kept:
  assumes "rq_cursor_id q = 0 \<or> rq_cursor_id q \<in> dom (ws_cursors (fst st))"
  shows "wire_kept st (snd (statement_done V q acc st))"
proof (cases "rbind (unwrap (rn_result acc)) (\<lambda>r.
           rbind (cursor_for (rq_cursor_id q) (fst st)) (\<lambda>(cursor_id, w).
           rbind (if qr_is_query r then write_describe (qr_columns r) else Inr []) (\<lambda>described.
           (Inr (r, cursor_id, w, described) :: (io_error, _) rust))))")
  case (Inl x)
  then show ?thesis by (simp add: statement_done_def kept_refl)
next
  case (Inr z)
  obtain r i w d where z: "z = (r, i, w, d)" by (metis surj_pair)
  define c where "c = \<lparr>wc_sql = rq_sql q, wc_binds = rq_binds q, wc_bind_dirs = rq_bind_dirs q, wc_columns = qr_columns r,
    wc_pending = qr_rows r, wc_fetched = 0\<rparr>"
  have "cursor_for (rq_cursor_id q) (fst st) = (Inr (i, w) :: (io_error, _) rust)"
    using Inr z by (auto simp: rbind_eq_Inr)
  from cursor_for_kept [OF this assms, of "snd st" c]
  have kept1: "wire_kept st (w\<lparr>ws_cursors := (ws_cursors w)(i \<mapsto> c)\<rparr>, snd st)" by simp
  then show ?thesis
    using Inr z kept_trans [OF kept1 send_rows_kept, of V i "rq_fetch q"]
    by (auto simp: statement_done_def Let_def c_def split: prod.splits if_splits)
qed

lemma run_statement_kept:
  assumes "rq_cursor_id q = 0 \<or> rq_cursor_id q \<in> dom (ws_cursors (fst st))"
  shows "wire_kept st (snd (run_statement V q st))"
proof (cases "ws_db_session (fst st)")
  case None
  then show ?thesis by (simp add: run_statement_def time_zone_offset_def kept_refl)
next
  case (Some s)
  define rows where "rows = (if rq_bind_rows q = [] then replicate (unat (max (rq_executions q) 1)) [] else rq_bind_rows q)"
  define acc0 :: "('a, 'b) runs" where "acc0 = \<lparr>rn_result = None, rn_rows_affected = 0, rn_out_rows = []\<rparr>"
  obtain r1 st1 where r1: "run_rows V q (env_tz_offset_minutes (ses_env s)) (ses_savepoint s) rows acc0 st = (r1, st1)"
    by (metis surj_pair)
  have run: "run_statement V q st =
      (case r1 of
         Inl x \<Rightarrow> (Inl x, st1)
       | Inr (Inl reply) \<Rightarrow> (Inr reply, st1)
       | Inr (Inr acc) \<Rightarrow>
           (case commit_after V q (rn_rows_affected acc) st1 of
              (Inl x, st2) \<Rightarrow> (Inl x, st2)
            | (Inr (Some reply), st2) \<Rightarrow> (Inr reply, st2)
            | (Inr None, st2) \<Rightarrow> statement_done V q acc st2))"
    unfolding run_statement_def rows_def [symmetric] acc0_def [symmetric]
    by (simp add: Some time_zone_offset_def r1 split: sum.split)
  have st1: "ses_kept st st1"
    using run_rows_kept [OF Some ses_kept_refl, of V q "env_tz_offset_minutes (ses_env s)" rows acc0] unfolding r1 by simp
  have after: "wire_kept st st2 \<and> wire_kept st (snd (statement_done V q acc st2))"
    if "commit_after V q n st1 = (r2, st2)" for r2 st2 n acc
  proof -
    have "ses_kept st st2" using ses_kept_trans [OF st1 commit_after_kept, of V q n] that by simp
    then have "wire_kept st st2" and cs: "ws_cursors (fst st2) = ws_cursors (fst st)" using ses_kept_kept by blast+
    moreover have "wire_kept st2 (snd (statement_done V q acc st2))"
      by (rule statement_done_kept) (use assms cs in simp)
    ultimately show ?thesis using kept_trans by blast
  qed
  show ?thesis
    unfolding run using ses_kept_kept [OF st1] after
    by (auto split: sum.split option.split prod.split)
qed

lemma request_cursor [simp]:
  "execute_request V w x i sql r = Inr q \<Longrightarrow> rq_cursor_id q = i"
  "reexecute_request V w i c n f1 f2 r = Inr q \<Longrightarrow> rq_cursor_id q = i"
  by (auto simp: execute_request_def reexecute_request_def Let_def rbind_eq_Inr split: if_split_asm)

lemma wire_execute_kept: "wire_kept st (snd (wire_execute V bs st))"
  by (auto simp: wire_execute_def intro!: kept_refl run_statement_kept split: sum.split option.split)

lemma reexecute_kept: "wire_kept st (snd (reexecute V bs st))"
  by (auto simp: reexecute_def intro!: kept_refl run_statement_kept split: sum.split option.split)

lemma wire_commit_kept: "wire_kept st (snd (wire_commit V st))"
  using ses_kept_kept [OF commit_kept, of st "en_ext (sv_engine V)"]
  by (auto simp: wire_commit_def split: sum.split fail.split prod.splits)

lemma wire_rollback_kept: "wire_kept st (snd (wire_rollback st))"
  using ses_kept_kept [OF rollback_kept, of st] by (auto simp: wire_rollback_def split: sum.split prod.splits)

text \<open>As \<open>wire_kept\<close>, but the client may have lost its login; and what a login with the password leaves.\<close>

definition follows :: "('n, 'd) wire_state \<Rightarrow> ('n, 'd) wire_state \<Rightarrow> bool" where
  "follows st st' \<longleftrightarrow> (ws_login (fst st') = LoggedIn \<longrightarrow> ws_login (fst st) = LoggedIn) \<and>
     wire_kept st ((fst st')\<lparr>ws_login := ws_login (fst st)\<rparr>, snd st')"

definition lets_in :: "('n, 'd) wire_state \<Rightarrow> (io_error, byte list) rust \<times> ('n, 'd) wire_state \<Rightarrow> bool" where
  "lets_in st res \<longleftrightarrow> ws_sdu (fst (snd res)) = ws_sdu (fst st) \<and> (cursors_ok (fst st) \<longrightarrow> cursors_ok (fst (snd res))) \<and>
     (fst res \<noteq> Inl Panic \<longrightarrow> fst res \<noteq> Inl Diverges \<longrightarrow> ws_db_session (fst (snd res)) \<noteq> None)"

lemma cursors_ok_update [simp]:
  "cursors_ok (w\<lparr>ws_login := l\<rparr>) = cursors_ok w" "cursors_ok (w\<lparr>ws_db_session := s\<rparr>) = cursors_ok w"
  by (simp_all add: cursors_ok_def)

lemma presents_password_cursors [simp]:
  "presents_password V (w\<lparr>ws_cursors := cs\<rparr>) request = presents_password V w request"
  by (simp add: presents_password_def)

lemma follows_kept: "wire_kept st st' \<Longrightarrow> follows st st'"
  by (auto simp: follows_def wire_kept_def split: option.splits)

lemma follows_login: "l \<noteq> LoggedIn \<Longrightarrow> follows st ((fst st)\<lparr>ws_login := l\<rparr>, snd st)"
  by (auto simp: follows_def wire_kept_def held_refl split: option.splits)

lemma follows_trans:
  assumes "follows a b" and "follows b c"
  shows "follows a c"
proof (cases "ws_db_session (fst a)")
  case None
  then show ?thesis using assms by (simp add: follows_def wire_kept_def)
next
  case (Some s)
  obtain s' where b: "ws_db_session (fst b) = Some s'" "held (s, snd a) (s', snd b)"
    using assms(1) Some by (auto simp: follows_def wire_kept_def)
  obtain s'' where c: "ws_db_session (fst c) = Some s''" "held (s', snd b) (s'', snd c)"
    using assms(2) b(1) by (auto simp: follows_def wire_kept_def)
  have "held (s, snd a) (s'', snd c)" by (rule held_trans [OF b(2) c(2)])
  then show ?thesis using assms Some c(1) by (simp add: follows_def wire_kept_def)
qed

lemma auth_phase_one_follows: "follows st (snd (auth_phase_one V bs st))"
proof -
  define m where "m = rbind (read_auth bs) (\<lambda>((user, _), _).
    rbind (challenge_new (sv_crypto V) (sv_random V) (sv_password V)) (\<lambda>(chal, reply).
    (Inr (user, chal, reply) :: (io_error, string \<times> challenge \<times> phase_one) rust)))"
  show ?thesis
  proof (cases m)
    case (Inl e)
    then show ?thesis unfolding auth_phase_one_def m_def [symmetric] by (simp add: follows_kept [OF kept_refl])
  next
    case (Inr z)
    then show ?thesis unfolding auth_phase_one_def m_def [symmetric] by (cases z) (simp add: follows_login)
  qed
qed

lemma open_session_fails: "open_session V user stmt db = (Inl x, h) \<Longrightarrow> x = Panic \<or> x = Diverges"
  by (auto simp: open_session_def Let_def split: option.split_asm sum.split_asm fail.split_asm prod.split_asm)

lemma auth_phase_two_follows:
  assumes "suffix bs request"
  shows "follows st (snd (auth_phase_two V bs st)) \<or>
    presents_password V (fst st) request \<and> lets_in st (auth_phase_two V bs st)"
proof (cases "read_auth bs")
  case (Inl e)
  then show ?thesis by (simp add: auth_phase_two_def follows_kept kept_refl)
next
  case (Inr z)
  obtain u kvs rest where z: "z = ((u, kvs), rest)" by (metis surj_pair)
  let ?get = "\<lambda>k. case kvs k of Some v \<Rightarrow> v | None \<Rightarrow> ''''"
  show ?thesis
  proof (cases "ws_login (fst st)")
    case (Challenged user chal)
    define v where "v = verify (sv_crypto V) (sv_random V) chal (?get ''AUTH_SESSKEY'') (?get ''AUTH_PASSWORD'') (sv_password V)"
    note unfolded = auth_phase_two_def Inr z Challenged Let_def sum.case prod.case login_state.case v_def [symmetric]
    show ?thesis
    proof (cases v)
      case (Inl f)
      have "snd (auth_phase_two V bs st) = ((fst st)\<lparr>ws_login := LoginNone\<rparr>, snd st)"
        unfolding unfolded Inl by (simp split: fail.split login_error.split)
      then show ?thesis using follows_login [of LoginNone st] by simp
    next
      case (Inr response)
      have "presents_password V (fst st) request"
        unfolding presents_password_def
        by (intro exI conjI) (rule Challenged, rule assms, rule \<open>read_auth bs = Inr z\<close> [unfolded z], rule Inr [unfolded v_def])
      moreover have "lets_in st (auth_phase_two V bs st)"
      proof (cases "open_session V user (kvs ''AUTH_ALTER_SESSION'') (snd st) :: (io_error, unit) rust \<times> _")
        case (fields x s db)
        then show ?thesis
          unfolding unfolded Inr using open_session_fails [of V user "kvs ''AUTH_ALTER_SESSION''" "snd st"]
          by (cases x) (fastforce simp: lets_in_def)+
      qed
      ultimately show ?thesis by simp
    qed
  qed (use Inr z follows_login [of LoginNone st] in \<open>simp_all add: auth_phase_two_def Let_def\<close>)
qed

lemma wire_call_follows:
  assumes "suffix bs request"
  shows "follows st (snd (wire_call V func bs st)) \<or> presents_password V (fst st) request \<and> lets_in st (wire_call V func bs st)"
proof (cases "func = FUNC_AUTH_PHASE_TWO")
  case True
  then have "wire_call V func bs st = auth_phase_two V bs st"
    by (simp add: wire_call_def FUNC_AUTH_PHASE_ONE_def FUNC_AUTH_PHASE_TWO_def)
  then show ?thesis using auth_phase_two_follows [OF assms] by simp
next
  case False
  then have "follows st (snd (wire_call V func bs st))"
    by (simp add: wire_call_def auth_phase_one_follows follows_kept kept_refl wire_execute_kept reexecute_kept
        send_rows_kept wire_commit_kept wire_rollback_kept split: sum.split)
  then show ?thesis by simp
qed

lemma close_cursors_dom: "close_cursors n bs cs = (r, cs') \<Longrightarrow> dom cs' \<subseteq> dom cs"
  by (induction n arbitrary: bs cs) (force split: sum.splits)+

lemma wire_function_follows:
  "suffix bs request \<Longrightarrow> follows st (snd (wire_function V fuel bs st)) \<or>
     presents_password V (fst st) request \<and> lets_in st (wire_function V fuel bs st)"
proof (induction fuel arbitrary: bs st)
  case (Suc fuel)
  show ?case
  proof (cases "read_header bs")
    case (Inl e)
    then show ?thesis by (simp add: follows_kept kept_refl)
  next
    case (Inr z)
    obtain msg func r where z: "z = ((msg, func), r)" by (metis surj_pair)
    have r: "suffix r request" using tameD(2) [OF tame_read_header Inr [unfolded z]] Suc.prems suffix_order.trans by blast
    show ?thesis
    proof (cases "msg = MSG_PIGGYBACK \<and> func = FUNC_CLOSE_CURSORS")
      case True
      show ?thesis
      proof (cases "read_close_count r")
        case (Inl e)
        then show ?thesis using \<open>read_header bs = Inr z\<close> z True by (simp add: follows_kept kept_refl)
      next
        case (Inr c)
        obtain n r1 where c: "c = (n, r1)" by (cases c)
        obtain res cs where cl: "close_cursors (unat n) r1 (ws_cursors (fst st)) = (res, cs)" by (metis surj_pair)
        let ?st = "((fst st)\<lparr>ws_cursors := cs\<rparr>, snd st)"
        have unfolded: "wire_function V (Suc fuel) bs st =
            (case res of Inl e \<Rightarrow> (Inl e, ?st) | Inr r2 \<Rightarrow> wire_function V fuel r2 ?st)"
          using \<open>read_header bs = Inr z\<close> z True Inr c cl by (simp add: Let_def)
        have ok: "cursors_ok (fst st) \<Longrightarrow> cursors_ok (fst ?st)"
          using close_cursors_dom [OF cl] by (auto simp: cursors_ok_def)
        have first: "follows st ?st" using follows_kept [OF kept_cursors [of "fst st" cs "snd st"]] ok by simp
        show ?thesis
        proof (cases res)
          case (Inl e)
          then show ?thesis using first unfolding unfolded by simp
        next
          case (Inr r2)
          have "suffix r2 r" using close_cursors_tame(2) [OF cl [unfolded Inr]]
              tameD(2) [OF tame_read_close_count \<open>read_close_count r = Inr c\<close> [unfolded c]] suffix_order.trans by blast
          then have "suffix r2 request" using r suffix_order.trans by blast
          from Suc.IH [OF this, of ?st] have "follows st (snd (wire_function V fuel r2 ?st)) \<or>
              presents_password V (fst st) request \<and> lets_in ?st (wire_function V fuel r2 ?st)"
            using follows_trans [OF first] by fastforce
          then show ?thesis using ok unfolding unfolded Inr by (auto simp: lets_in_def)
        qed
      qed
    next
      case False
      then show ?thesis using Inr z wire_call_follows [OF r, of st V func] by (auto simp: follows_kept kept_refl)
    qed
  qed
qed (simp add: follows_kept kept_refl)

lemma dispatch_follows:
  "follows st (snd (dispatch V request st)) \<or> presents_password V (fst st) request \<and> lets_in st (dispatch V request st)"
proof (cases request)
  case (Cons b bs)
  have other: "follows st st" by (rule follows_kept [OF kept_refl])
  obtain r st1 where f: "wire_function V (Suc (length request)) request st = (r, st1)" by (metis surj_pair)
  have st1: "follows st st1 \<or> presents_password V (fst st) request \<and> lets_in st (r, st1)"
    using wire_function_follows [OF suffix_order.refl, of st V "Suc (length request)" request] unfolding f by simp
  define res where "res = (case r of Inl (Err e) \<Rightarrow> (Inr (unsupported_reply (fst st1)), st1) | _ \<Rightarrow> (r, st1))"
  show ?thesis
  proof (cases "b = MSG_FUNCTION \<or> b = MSG_PIGGYBACK")
    case True
    then have "dispatch V request st = res"
      unfolding dispatch_def f res_def
      by (auto simp: Cons MSG_PROTOCOL_def MSG_DATA_TYPES_def MSG_FUNCTION_def MSG_PIGGYBACK_def split: sum.split fail.split)
    then show ?thesis using st1 by (cases r) (auto simp: res_def lets_in_def split: fail.split)
  next
    case False
    then have "snd (dispatch V request st) = st" by (simp add: dispatch_def Cons)
    then show ?thesis using other by simp
  qed
qed (simp add: dispatch_def follows_kept kept_refl)

end
