(* ===== verification/Wire_Claims.thy ===== *)
theory Wire_Claims
  imports Wire_Correct Parse_Total
begin

text \<open>
  The properties of a connection: who gets in, what a request can change, that replies can be sent, dates and rows
  on the wire; and where the code goes wrong.
\<close>

section \<open>A server\<close>

definition server0 :: "(dec, int, int) server" where
  "server0 =
     \<lparr>sv_engine = engine0\<lparr>en_parse := sql_parser clock_ext\<rparr>, sv_depth = 2, sv_nesting = 2, sv_scientific = (\<lambda>_. ''1E+0''),
      sv_crypto = chained, sv_random = sample_random, sv_password = ''oracle'', sv_meanwhile = (\<lambda>db. db)\<rparr>"

lemma server0_sized: "keys_sized server0"
  using chained.lawful_crypto_axioms by (simp add: keys_sized_def server0_def sample_random_def)

text \<open>A \<open>CONNECT\<close> packet of version 318, and a request to ping.\<close>

definition connect_body :: "byte list" where
  "connect_body = be_bytes 2 318 @ replicate 64 0"

definition ping_input :: "byte list" where
  "ping_input = write_packet False CONNECT connect_body @
     write_packet True DATA [8, 0, MSG_FUNCTION, FUNC_PING, 1]"

definition greeted :: "(dec, int) wire" where
  "greeted = wire_new\<lparr>ws_service_name := ''FREEPDB1'', ws_sdu := 512\<rparr>"

lemma ping_handshake:
  "handshake wire_new ping_input =
     Inr (True, write_packet True DATA [8, 0, MSG_FUNCTION, FUNC_PING, 1],
          write_packet False ACCEPT (accept_body 512 255), greeted)"
proof -
  let ?p = "\<lparr>pk_kind = CONNECT, pk_body = connect_body\<rparr>"
  let ?r = "write_packet True DATA [8, 0, MSG_FUNCTION, FUNC_PING, 1]"
  have "packet_ok False ?p" by (simp add: packet_ok_def connect_body_def HEADER_LEN_def CONNECT_def DATA_def)
  from read_write_packet [OF this, of ?r] have rd: "read_packet False ping_input = Inr (Some ?p, ?r)" by (simp add: ping_input_def)
  have conn: "parse_connect ?p = Inr \<lparr>cr_version = 318, cr_sdu = 0, cr_tdu = 0, cr_data_len = 0, cr_data = []\<rparr>"
    by (simp add: parse_connect_def connect_body_def) code_simp
  have lossy: "from_utf8_lossy [] = []" by (simp add: from_utf8_lossy_def)
  have svc: "service_of [] = ''FREEPDB1''" by code_simp
  have version: "\<not> (318 :: 16 word) < MIN_VERSION" by (simp add: MIN_VERSION_def)
  show ?thesis
    by (simp add: handshake_def rd conn connect_descriptor_def lossy version svc clamp_to_def greeted_def Let_def)
qed

lemma ping_request:
  "read_request [] (write_packet True DATA [8, 0, MSG_FUNCTION, FUNC_PING, 1]) =
     Inr (Some [MSG_FUNCTION, FUNC_PING, 1], [])"
proof -
  let ?p = "\<lparr>pk_kind = DATA, pk_body = [8, 0, MSG_FUNCTION, FUNC_PING, 1]\<rparr>"
  have "packet_ok True ?p" by (simp add: packet_ok_def HEADER_LEN_def MAX_PACKET_def)
  from read_write_packet [OF this, of "[]"]
  have rd: "read_packet True (write_packet True DATA [8, 0, MSG_FUNCTION, FUNC_PING, 1]) = Inr (Some ?p, [])"
    by simp
  have flags: "data_flags ?p = (Inr DATA_FLAG_END_OF_REQUEST :: (io_error, _) rust)"
    by (simp add: data_flags_def index_def DATA_FLAG_END_OF_REQUEST_def be_val_def)
  have "DATA_FLAG_END_OF_REQUEST AND DATA_FLAG_EOF = 0" "DATA_FLAG_END_OF_REQUEST AND DATA_FLAG_END_OF_REQUEST \<noteq> 0"
    by (simp_all add: DATA_FLAG_END_OF_REQUEST_def DATA_FLAG_EOF_def)
  then show ?thesis
    by (subst read_request.simps) (simp add: rd flags packet_data_def)
qed

lemma read_request_nil: "read_request [] [] = Inr (None, [])"
  by (subst read_request.simps) (simp add: read_packet_def HEADER_LEN_def)

lemma server0_meanwhile [simp]: "sv_meanwhile server0 = (\<lambda>db. db)"
  by (simp add: server0_def)

section \<open>Getting in\<close>


lemma handled_nil: "handled Vs k fuel [] st = []"
  by (cases fuel) (simp_all add: read_request_nil)

lemma ping_handled:
  "handled_by_run (\<lambda>_. server0) ping_input db = [(server0, greeted, [MSG_FUNCTION, FUNC_PING, 1])]"
  by (auto simp: handled_by_run_def ping_handshake ping_request handled_nil split: prod.split sum.split)


section \<open>The states of a connection\<close>

text \<open>The states of a connection between its requests, whatever the client sends and the other connections do; \<open>S\<close> is
  what the connection may be given with a request.\<close>

inductive reached :: "('n, 'd, 'a) server set \<Rightarrow> ('n, 'd) wire_state \<Rightarrow> bool" for S where
  accepted: "handshake wire_new input = Inr (True, rest, out, w) \<Longrightarrow> reached S (w, db)"
| others: "reached S (w, db) \<Longrightarrow> reached S (w, db')"
| answered: "reached S st \<Longrightarrow> V \<in> S \<Longrightarrow> dispatch V request st = (Inr reply, st') \<Longrightarrow> reached S st'"

definition wire_ok :: "('n, 'd) wire \<Rightarrow> bool" where
  "wire_ok w \<longleftrightarrow> (ws_login w = LoggedIn \<longrightarrow> ws_db_session w \<noteq> None) \<and> cursors_ok w \<and>
     512 \<le> ws_sdu w \<and> ws_sdu w \<le> 2 * 1024 * 1024"

lemma accepted_ok: "handshake wire_new input = Inr (True, rest, out, w) \<Longrightarrow> wire_ok w"
  by (drule handshake_accepts) (auto simp: wire_ok_def wire_new_def cursors_ok_def)

lemma answered_ok:
  assumes "wire_ok (fst st)" and "dispatch V request st = (Inr reply, st')"
  shows "wire_ok (fst st')"
  using dispatch_follows [of st V request] assms
  by (auto simp: follows_def wire_kept_def lets_in_def wire_ok_def split: option.splits)

text \<open>C20: In every state that a connection reaches, a client that is logged in has a session of the database, so that
  \<open>expect("logged in")\<close> never panics; every open cursor has a number that has been given out, so that a
  new cursor never takes the place of an open one; and every reply can be cut into packets.\<close>
theorem reached_ok:
  assumes "reached S (w, db)"
  shows "(ws_login w = LoggedIn \<longrightarrow> ws_db_session w \<noteq> None) \<and>
    ws_cursors w 0 = None \<and> (\<forall>i. unat i \<ge> ws_next_cursor_id w \<longrightarrow> ws_cursors w i = None) \<and>
    (\<exists>sent. write_data (ws_sdu w) reply = (Inr sent :: (io_error, _) rust))"
proof -
  have ok: "wire_ok (fst (w, db))"
    using assms by (induction rule: reached.induct) (auto intro: accepted_ok answered_ok)
  then have "HEADER_LEN + 2 < ws_sdu w" by (simp add: wire_ok_def HEADER_LEN_def)
  moreover have "ws_cursors w i = None" if "ws_next_cursor_id w \<le> unat i" for i
    using ok that by (cases "ws_cursors w i") (auto simp: wire_ok_def cursors_ok_def dest!: bspec [OF _ domI])
  moreover have "ws_cursors w 0 = None"
    using ok by (cases "ws_cursors w 0") (auto simp: wire_ok_def cursors_ok_def dest!: bspec [OF _ domI])
  ultimately show ?thesis using ok by (simp add: wire_ok_def write_data_def)
qed

theorem reached_ok_witness: "reached {server0} (greeted, database_default) \<and> ws_cursors greeted 0 = None"
proof -
  have "reached {server0} (greeted, database_default)" by (rule reached.accepted) (rule ping_handshake)
  then show ?thesis using reached_ok by blast
qed

text \<open>C7: Whatever a client with a session of the database requests, short of logging in again, its session keeps its
  user, and either it has committed or rolled back, or the committed state is untouched and the changes it has
  pending still stand in its log; this covers executions for many rows, out values that do not fit, fetches and
  broken requests.\<close>
theorem request_isolated:
  assumes "ws_db_session w = Some s" and "\<not> presents_password V w request"
    and "dispatch V request (w, db) = (r, (w', db'))"
  shows "\<exists>s'. ws_db_session w' = Some s' \<and> env_user (ses_env s') = env_user (ses_env s) \<and>
    (ses_commits s < ses_commits s' \<or>
     ses_commits s = ses_commits s' \<and> db_state db' = db_state db \<and> prefix (ses_log s) (ses_log s'))"
  using dispatch_follows [of "(w, db)" V request] assms by (auto simp: follows_def wire_kept_def held_def)

definition at_work :: "(dec, int) wire" where
  "at_work = greeted\<lparr>ws_login := LoggedIn, ws_db_session := Some (session_new (0, 0, 0) ''SCOTT'')\<rparr>"

theorem request_isolated_witness:
  "\<exists>r w' db' s'. dispatch server0 [MSG_FUNCTION, FUNC_COMMIT, 1] (at_work, database_default) = (r, (w', db')) \<and>
     ws_db_session w' = Some s' \<and> env_user (ses_env s') = ''SCOTT''"
proof -
  obtain r w' db' where d: "dispatch server0 [MSG_FUNCTION, FUNC_COMMIT, 1] (at_work, database_default) = (r, (w', db'))"
    by (metis surj_pair)
  have "ws_db_session at_work = Some (session_new (0, 0, 0) ''SCOTT'')" by (simp add: at_work_def)
  moreover have "\<not> presents_password server0 at_work [MSG_FUNCTION, FUNC_COMMIT, 1]"
    by (simp add: presents_password_def at_work_def)
  ultimately obtain s' where "ws_db_session w' = Some s'"
    "env_user (ses_env s') = env_user (ses_env (session_new (0, 0, 0) ''SCOTT'' :: (dec, int) session))"
    using request_isolated [OF _ _ d] by blast
  moreover have "to_uppercase ''SCOTT'' = ''SCOTT''" by code_simp
  ultimately show ?thesis using d by (auto simp: session_new_def env_new_def)
qed

section \<open>Dates\<close>

text \<open>The fields of a date, in the ranges \<open>chrono\<close> documents, name the date.\<close>

definition named_by_fields :: "('n, 'd, 'a) ext \<Rightarrow> 'd \<Rightarrow> bool" where
  "named_by_fields E d \<longleftrightarrow>
     dt_month E d \<le> 12 \<and> dt_day E d \<le> 31 \<and> dt_hour E d < 24 \<and> dt_minute E d < 60 \<and> dt_second E d < 60 \<and>
     dt_nanosecond E d < 2000000000 \<and>
     Option.bind (date_from_ymd E (dt_year E d) (dt_month E d) (dt_day E d)) (\<lambda>a.
       date_and_hms_nano E a (dt_hour E d) (dt_minute E d) (dt_second E d) (dt_nanosecond E d)) = Some d"

lemma year_bytes:
  assumes "-10000 \<le> y" and "y \<le> 15599"
  shows "(uint (of_int (quot100 y + 100) :: byte) - 100) * 100 + uint (of_int (y - 100 * quot100 y + 100) :: byte) - 100 = y"
proof -
  have "y = 100 * quot100 y + (if y < 0 then - ((- y) mod 100) else y mod 100)"
    by (simp add: quot100_def flip: minus_mult_div_eq_mod)
  then have q: "-100 \<le> quot100 y" "quot100 y \<le> 155" and r: "-100 < y - 100 * quot100 y" "y - 100 * quot100 y < 100"
    using assms pos_mod_bound [of 100 y] pos_mod_bound [of 100 "- y"] pos_mod_sign [of 100 y] pos_mod_sign [of 100 "- y"]
    by (auto split: if_splits)
  have "uint (of_int (quot100 y + 100) :: byte) = quot100 y + 100"
    using q by (simp add: uint_word_of_int_eq take_bit_int_eq_self del: of_int_add)
  moreover have "uint (of_int (y - 100 * quot100 y + 100) :: byte) = y - 100 * quot100 y + 100"
    using r by (simp add: uint_word_of_int_eq take_bit_int_eq_self del: of_int_add of_int_diff of_int_mult)
  ultimately show ?thesis by simp
qed

lemma plus_one_byte:
  assumes "n < 60"
  shows "\<exists>b. u8 (int (n mod 256) + 1) = (Inr b :: ('e, _) rust) \<and> b \<noteq> 0 \<and> unat b - 1 = n"
proof -
  have u: "uint (of_int (int n + 1) :: byte) = int n + 1"
    using assms by (simp add: uint_word_of_int_eq take_bit_int_eq_self del: of_int_add)
  then have "unat (of_int (int n + 1) :: byte) = n + 1" by (simp add: unat_eq_nat_uint del: of_int_add)
  then show ?thesis using assms by (intro exI [of _ "of_int (int n + 1)"]) (auto simp: u8_def simp del: of_int_add)
qed

lemma decode_date_bytes:
  "decode_date E ([b0, b1, b2, b3, b4, b5, b6] @ t) =
     (if b4 = 0 \<or> b5 = 0 \<or> b6 = 0 then io_invalid ''invalid date value''
      else ok_or (Option.bind (date_from_ymd E ((uint b0 - 100) * 100 + uint b1 - 100) (unat b2) (unat b3)) (\<lambda>a.
          date_and_hms_nano E a (unat b4 - 1) (unat b5 - 1) (unat b6 - 1) (if 4 \<le> length t then be_val (take 4 t) else 0)))
        (InvalidData ''invalid date value''))"
  by (simp add: decode_date_def Let_def)



section \<open>Rows\<close>

text \<open>A sequence of fetches from one cursor.\<close>

fun fetches ::
  "('n, 'd, 'a) server \<Rightarrow> 32 word \<Rightarrow> 32 word list \<Rightarrow> ('n, 'd) wire_state \<Rightarrow> (io_error, byte list) rust list \<times> ('n, 'd) wire_state" where
  "fetches V i [] st = ([], st)"
| "fetches V i (n # ns) st =
     (case send_rows V i n st of (r, st1) \<Rightarrow> (case fetches V i ns st1 of (rs, st2) \<Rightarrow> (r # rs, st2)))"

text \<open>The reply to a fetch that comes after \<open>m\<close> rows and takes \<open>n\<close> more.\<close>

definition fetch_reply ::
  "('n, 'd) wire \<Rightarrow> 32 word \<Rightarrow> ('n, 'd) wire_cursor \<Rightarrow> (('n, 'd) value list \<Rightarrow> byte list) \<Rightarrow> nat \<Rightarrow> nat \<Rightarrow> byte list" where
  "fetch_reply w i c row_bytes m n =
     (let rows = take n (drop m (wc_pending c)) in
      (if rows \<noteq> [] then row_header (length rows) else []) @ concat (map row_bytes rows) @
      write_error (call_status w) (ucast i) (wc_fetched c + min (m + n) (length (wc_pending c)))
        (if length (wc_pending c) \<le> m + n then Some (ora ORA_NO_DATA_FOUND ''no data found'') else None))"

definition drained :: "nat \<Rightarrow> ('n, 'd) wire_cursor \<Rightarrow> ('n, 'd) wire_cursor" where
  "drained m c = c\<lparr>wc_pending := drop m (wc_pending c), wc_fetched := wc_fetched c + min m (length (wc_pending c))\<rparr>"

lemma send_rows_reply:
  assumes "ws_cursors w i = Some c" and "\<And>row. row \<in> set (wc_pending c) \<Longrightarrow> write_row V (wc_columns c) row = (Inr (row_bytes row) :: (io_error, _) rust)"
  shows "send_rows V i n (w, db) =
    (Inr (fetch_reply w i c row_bytes 0 (unat n)), (w\<lparr>ws_cursors := (ws_cursors w)(i \<mapsto> drained (unat n) c)\<rparr>, db))"
proof -
  let ?k = "min (unat n) (length (wc_pending c))"
  have rows: "take ?k (wc_pending c) = take (unat n) (wc_pending c)" "drop ?k (wc_pending c) = drop (unat n) (wc_pending c)"
    by (auto simp: min_def)
  have "map_rust (write_row V (wc_columns c)) (take (unat n) (wc_pending c)) = (Inr (map row_bytes (take (unat n) (wc_pending c))) :: (io_error, _) rust)"
    by (rule map_rust_pure) (auto intro: assms(2) dest: in_set_takeD)
  then show ?thesis
    using assms(1) by (auto simp: send_rows_def Let_def rows fetch_reply_def drained_def min_def)
qed

lemma fetch_reply_drained: "fetch_reply (w\<lparr>ws_cursors := cs\<rparr>) i (drained k c) row_bytes m n = fetch_reply w i c row_bytes (k + m) n"
  by (auto simp: fetch_reply_def drained_def Let_def call_status_def add.commute add.left_commute min_def)

lemma drained_drained: "drained m (drained k c) = drained (k + m) c"
  by (auto simp: drained_def add.commute min_def)

text \<open>C23: Fetching from a cursor hands out its rows in order, none twice and none left out, whatever the sizes of the
  fetches: each reply has the next rows, the number of rows fetched so far, and ORA-01403 exactly when the
  cursor is exhausted.\<close>
theorem fetch_in_order:
  assumes "ws_cursors w i = Some c"
    and "\<And>row. row \<in> set (wc_pending c) \<Longrightarrow> write_row V (wc_columns c) row = (Inr (row_bytes row) :: (io_error, _) rust)"
  shows "fetches V i ns (w, db) =
    (map (\<lambda>k. Inr (fetch_reply w i c row_bytes (sum_list (map unat (take k ns))) (unat (ns ! k)))) [0..<length ns],
     (w\<lparr>ws_cursors := (ws_cursors w)(i \<mapsto> drained (sum_list (map unat ns)) c)\<rparr>, db))"
  using assms
proof (induction ns arbitrary: w c)
  case Nil
  have "drained 0 c = c" by (simp add: drained_def)
  then show ?case using Nil(1) by (simp add: fun_upd_idem)
next
  case (Cons n ns)
  let ?w = "w\<lparr>ws_cursors := (ws_cursors w)(i \<mapsto> drained (unat n) c)\<rparr>"
  have "write_row V (wc_columns (drained (unat n) c)) row = (Inr (row_bytes row) :: (io_error, _) rust)"
    if "row \<in> set (wc_pending (drained (unat n) c))" for row
    using that Cons.prems(2) by (auto simp: drained_def dest: in_set_dropD)
  then have "fetches V i ns (?w, db) =
    (map (\<lambda>k. Inr (fetch_reply ?w i (drained (unat n) c) row_bytes (sum_list (map unat (take k ns))) (unat (ns ! k)))) [0..<length ns],
     (?w\<lparr>ws_cursors := (ws_cursors ?w)(i \<mapsto> drained (sum_list (map unat ns)) (drained (unat n) c))\<rparr>, db))"
    by (intro Cons.IH) simp_all
  then show ?case
    using send_rows_reply [of w i c V row_bytes n db, OF Cons.prems]
    by (simp add: fetch_reply_drained drained_drained map_upt_Suc del: upt_Suc) (simp add: fun_upd_def)
qed

definition sample_cursor :: "(dec, int) wire_cursor" where
  "sample_cursor = \<lparr>wc_sql = ''SELECT 1 FROM dual'', wc_binds = [], wc_bind_dirs = [], wc_columns = [],
     wc_pending = [[], [], []], wc_fetched = 0\<rparr>"

theorem fetch_in_order_witness:
  "\<exists>rs w'. fetches server0 1 [2, 2] (at_work\<lparr>ws_cursors := [1 \<mapsto> sample_cursor]\<rparr>, database_default) = (rs, (w', database_default)) \<and>
     length rs = 2 \<and> (\<exists>c. ws_cursors w' 1 = Some c \<and> wc_pending c = [] \<and> wc_fetched c = 3)"
proof -
  have row: "write_row server0 (wc_columns sample_cursor) r = (Inr [MSG_ROW_DATA] :: (io_error, _) rust)" for r
    by (simp add: write_row_def sample_cursor_def)
  have "ws_cursors (at_work\<lparr>ws_cursors := [1 \<mapsto> sample_cursor]\<rparr>) 1 = Some sample_cursor" by simp
  from fetch_in_order [OF this row, of "[2, 2]" database_default]
  show ?thesis by (simp add: drained_def sample_cursor_def)
qed

section \<open>What goes wrong\<close>


lemma ucast_wraps:
  assumes "n + 65536 < 2 ^ 32"
  shows "(ucast (of_nat (n + 65536) :: 32 word) :: 16 word) = ucast (of_nat n :: 32 word)"
proof -
  have "unat (ucast (of_nat m :: 32 word) :: 16 word) = m mod 65536" if "m < 2 ^ 32" for m
    using that by (simp add: unsigned_ucast_eq unsigned_of_nat take_bit_nat_def)
  from this [of "n + 65536"] this [of n] show ?thesis using assms by (simp add: word_unat_eq_iff)
qed


definition busy :: "(dec, int) wire" where
  "busy = at_work\<lparr>ws_next_cursor_id := 7\<rparr>"

definition sample_request :: "(dec, int) request" where
  "sample_request = \<lparr>rq_cursor_id = 0, rq_sql = ''DELETE FROM t'', rq_binds = [], rq_bind_dirs = [], rq_bind_rows = [],
     rq_executions = 1, rq_fetch = 0, rq_commit = False\<rparr>"


text \<open>The sizes of the columns of a query are added up as \<open>u32\<close>, and \<open>CHAR VARYING\<close> has no upper limit: describing two
  such columns panics.\<close>
theorem describe_overflows:
  "write_describe [\<lparr>c_name = ''A'', c_type = TVarchar2 4294967295\<rparr>, \<lparr>c_name = ''B'', c_type = TVarchar2 4294967295\<rparr>] = Inl Panic"
  by (simp add: write_describe_def checked_sum_def max_size_def)

end
