(* ===== verification/Spec2Isabelle.thy ===== *)
theory Spec2Isabelle
  imports Session_Correct Dml_Claims Like Parse_Total Script Wire_Claims
begin

text \<open>
  Verification library for the mock Oracle database.

  \<^bold>\<open>The program.\<close> A client speaks Oracle's wire protocol to \<open>mock-oracle-server\<close>, or calls
  \<open>mock-oracle-core\<close> directly. The core parses a statement, evaluates it against an in-memory catalog and
  keeps transactions. A \<open>Database\<close> holds the committed catalog with a version number and counters; each
  \<open>Session\<close> holds its settings and, once it has changed something, a transaction: the version it started
  from, a private copy of the catalog and a log of row changes. A statement changes the copy and appends to
  the log, a failing one is undone from the log, and a commit publishes the copy, or replays the log when
  another session has committed meanwhile. PL/SQL blocks run SQL through the session they belong to; stored
  functions called from SQL run PL/SQL through a host that only reads.

  \<^bold>\<open>The theories\<close> (file names under \<open>src/crates\<close>; \<open>core\<close> is \<open>mock-oracle-core/src\<close>, \<open>server\<close> is
  \<open>mock-oracle-server/src\<close>):
  \<^item> \<open>Prelude\<close>: results with errors, panics and non-termination, strings, words, and the ordered map that
    stands for \<open>BTreeMap\<close> (locale \<open>ordered_map\<close>, interpreted by association lists).
  \<^item> \<open>Ora_Error\<close>: \<open>core/error.rs\<close>. \<open>External\<close>, \<open>Arith\<close>: the crates \<open>bigdecimal\<close> and \<open>chrono\<close> as records of
    parameters, with the laws used as the locale \<open>lawful_ext\<close>; \<open>Decimal_Clock\<close> and \<open>Decimal_Arith\<close> implement
    them on decimal numbers and nanoseconds, discharge the laws and carry the witnesses.
  \<^item> \<open>Datetime\<close>: \<open>core/datetime.rs\<close>. \<open>Values\<close>: \<open>core/value.rs\<close>. \<open>Ast\<close>: \<open>core/ast.rs\<close>, \<open>core/plsql/mod.rs\<close>.
  \<^item> \<open>Catalog\<close>, \<open>Table_Invariant\<close>: \<open>core/catalog.rs\<close>; a table's indexes are those of its rows, and every
    operation does exactly what a table without indexes would do, or refuses for a duplicate key.
  \<^item> \<open>Database\<close>: the shared state and sequences of \<open>core/lib.rs\<close>. \<open>Env\<close>: session settings.
  \<^item> \<open>Txn\<close>: the log, undo, commit, savepoints of \<open>core/session.rs\<close>; undo restores, commit does what the log
    says. \<open>Foreign_Keys\<close>: \<open>enforce_foreign_keys\<close> keeps referential integrity and ends.
  \<^item> \<open>Eval_Base\<close>, \<open>Like\<close>, \<open>Eval\<close>: \<open>core/eval.rs\<close>; \<open>Functions\<close>: \<open>core/functions.rs\<close>. Evaluation is a state monad
    over the database and the session's settings. \<open>Eval_Correct\<close>: evaluation is quiet, it moves counters and
    session cells only; \<open>Eval_Ends\<close>: it ends.
  \<^item> \<open>Store\<close>, \<open>Dml\<close>, \<open>Dml_Correct\<close>, \<open>Dml_Claims\<close>: storing values and \<open>INSERT\<close>, \<open>UPDATE\<close>, \<open>DELETE\<close> of
    \<open>core/session.rs\<close>; statements are atomic, keep the session's invariant and referential integrity.
    The locale \<open>quiet_evaluator\<close> is what statements rely on of evaluation.
  \<^item> \<open>Ddl\<close>, \<open>Ddl_Correct\<close>: \<open>CREATE\<close>, \<open>DROP\<close>, \<open>ALTER\<close>, \<open>TRUNCATE\<close> of \<open>core/session.rs\<close>; a failing one changes
    nothing.
  \<^item> \<open>Plsql\<close>, \<open>Plsql_Exec\<close>: \<open>core/plsql/exec.rs\<close>, a state monad over the interpreter's frames and its host.
    \<open>Plsql_Correct\<close>: whatever relation the operations of a host keep (locale \<open>host_relation\<close>), blocks and
    calls keep; so stored functions are quiet, and \<open>sql_evaluator\<close>, the evaluator with its stored functions,
    is a \<open>quiet_evaluator\<close>.
  \<^item> \<open>Session_Run\<close>, \<open>Session_Correct\<close>: \<open>execute\<close>, blocks, \<open>ALTER SESSION\<close>, scripts; a session's work stays
    its own until it commits, and a failed block is undone.
  \<^item> \<open>Lexer\<close>: \<open>core/lexer.rs\<close>. \<open>Script\<close>: \<open>split_script\<close> of \<open>core/lib.rs\<close>.
  \<^item> \<open>Parse_Base\<close>, \<open>Parse_Sql\<close>, \<open>Parse_Ddl\<close>: \<open>core/parser.rs\<close>; \<open>Parse_Plsql\<close>: \<open>core/plsql/parse.rs\<close>. A parsing
    function is a function on the state of the parser; \<open>sql_parser\<close> is the instance of what a session takes as
    its parser. \<open>Parse_Correct\<close>, \<open>Parse_Total\<close>: triples that say which tokens a function takes and that its bind
    positions are in range (locale \<open>descent\<close>); so the parser ends on every text and never panics.
  \<^item> \<open>Ttc\<close>, \<open>Tns\<close>, \<open>Oranum\<close>: \<open>server/ttc.rs\<close>, \<open>server/tns.rs\<close>, \<open>server/oranum.rs\<close>; what is written is read back.
  \<^item> \<open>Auth\<close>: \<open>server/auth.rs\<close>, over the cryptography crates as the record \<open>crypto\<close> and the locale \<open>lawful_crypto\<close>; who
    knows the password gets in and \<open>verify\<close> accepts nothing else. \<open>Wire_Base\<close>, \<open>Wire_Session\<close>: \<open>server/session.rs\<close>; a
    handler is a function on the state of a connection and the database. \<open>Wire_Correct\<close>, \<open>Wire_Claims\<close>: without
    the password every request is answered and nothing is reached; a request changes the committed state
    only by a commit; the reachable states of a connection (\<open>reached\<close>) keep its invariant.

  \<^bold>\<open>Conventions.\<close> Strings are lists of bytes; the character functions take a byte for a character and case
  mapping is that of ASCII. A panic is the value \<open>Panic\<close>, so every unwrap, index and overflow of a checked
  build is a branch; a loop that does not end gives \<open>Diverges\<close>. \<open>HashMap\<close> is a map, \<open>BTreeMap\<close> a sorted
  association list, \<open>u64\<close> counters are natural numbers. \<open>sort\<close> of the standard library is a stable insertion
  sort.

  \<^bold>\<open>Fuel.\<close> The functions of \<open>eval.rs\<close> and \<open>exec.rs\<close> call each other; each is a definition over the record of
  those it calls (\<open>evaluator\<close>, \<open>interpreter\<close>), and \<open>evaluator_at\<close>, \<open>interpreter_at\<close> close the recursion with a
  number for the depth of calls. For queries twice the size of the syntax tree is enough and more changes
  nothing (\<open>query_ends\<close>). PL/SQL has unbounded loops, so no number is enough for every block; all properties of
  blocks hold for every number. The parser's recursion goes through the record \<open>grammar\<close>, closed by \<open>grammar_of\<close>
  with the number of tokens, which is enough since every call through the record follows a token taken
  (\<open>parse_total\<close>); its loops are bounded by the tokens left for the same reason.
  The loops of a connection over piggybacked messages, rows of binds and requests are bounded by the bytes left,
  of which every round takes some.

  \<^bold>\<open>Not modelled.\<close> The depth of the stack and the size of memory: a text nested deeply enough overflows the stack
  where the model goes on, and a count of binds that a client announces reserves memory before the binds are
  read. Sockets, tasks and the accept loop of \<open>server/lib.rs\<close> and \<open>main.rs\<close> are input and output; a connection is
  the bytes it receives and sends, and sending does not fail. The Node binding only forwards calls. Connections
  and sessions interleave request by request and statement by statement (\<open>sv_meanwhile\<close>); within a statement
  only \<open>ALTER TABLE\<close>, which drops the lock, is given what others do meanwhile (\<open>en_others\<close>).
\<close>

end
